(* ===== verification/Prelude.thy ===== *)
theory Prelude
  imports Complex_Main "HOL-Library.Multiset" "HOL-Library.Product_Lexorder"
begin

text \<open>
  Shared vocabulary of the development: the error taxonomy of
  \<^verbatim>\<open>src/src/common/errors/app-error.ts\<close>, results of fallible code, the two
  shapes of stateful code (a database transaction, which leaves no trace when it
  throws, and a service call, whose earlier effects stay when it throws later), and
  tables of rows with the lemmas every component uses on them.
\<close>

section \<open>Basic types\<close>

text \<open>
  Identifiers are the opaque strings the database hands out.  Amounts of money are
  whole Rials; times are milliseconds since the epoch, as \<open>Date.getTime()\<close>
  gives them.
\<close>

type_synonym id = string
type_synonym money = int
type_synonym time = int
type_synonym msg = String.literal

section \<open>Errors\<close>

text \<open>
  The classes of \<open>app-error.ts\<close>, with their message, and the errors the
  database client raises by itself (\<open>PrismaError\<close> with its code: P2002 unique
  violation, P2003 foreign key violation, P2025 record not found, and the SQL state
  22003 for an integer that does not fit its column).
  Where the source builds a message from run-time values, the model keeps the constant
  part of it.
\<close>

datatype app_error =
    ValidationError msg
  | AuthorizationError msg
  | NotFoundAppError msg
  | ConflictError msg
  | BusinessRuleViolationError msg
  | IncompatibleChargeFundError msg
  | DeprecatedChargeKindError msg
  | ChargeFundSelectionRequiredError msg
  | DuplicateError msg
  | RateLimitError msg
  | NotImplementedAppError msg
  | UnexpectedAppError msg
  | ServiceUnavailableError msg
  | PrismaError msg

text \<open>
  The HTTP status of each class.  An error that is not an \<open>AppError\<close> has no
  status of its own here (the exception filter answers 500 for it).
\<close>

fun httpStatus :: "app_error \<Rightarrow> nat" where
  "httpStatus (ValidationError _) = 400"
| "httpStatus (AuthorizationError _) = 403"
| "httpStatus (NotFoundAppError _) = 404"
| "httpStatus (ConflictError _) = 409"
| "httpStatus (BusinessRuleViolationError _) = 422"
| "httpStatus (IncompatibleChargeFundError _) = 422"
| "httpStatus (DeprecatedChargeKindError _) = 422"
| "httpStatus (ChargeFundSelectionRequiredError _) = 422"
| "httpStatus (DuplicateError _) = 409"
| "httpStatus (RateLimitError _) = 429"
| "httpStatus (NotImplementedAppError _) = 501"
| "httpStatus (UnexpectedAppError _) = 500"
| "httpStatus (ServiceUnavailableError _) = 503"
| "httpStatus (PrismaError _) = 500"

section \<open>Results and effects\<close>

type_synonym 'a result = "app_error + 'a"

text \<open>A transaction either throws, and then nothing it did is kept, or commits.\<close>

type_synonym ('s, 'a) tx = "'s \<Rightarrow> app_error + 'a \<times> 's"

text \<open>A service call always leaves a state behind, also when it throws.\<close>

type_synonym ('s, 'a) svc = "'s \<Rightarrow> (app_error + 'a) \<times> 's"

named_theorems effect_simps "inversion of binds, guards and lookups"

definition bind_r :: "'a result \<Rightarrow> ('a \<Rightarrow> 'b result) \<Rightarrow> 'b result" where
  "bind_r m f = (case m of Inl e \<Rightarrow> Inl e | Inr x \<Rightarrow> f x)"

definition assert_r :: "bool \<Rightarrow> app_error \<Rightarrow> unit result" where
  "assert_r ok e = (if ok then Inr () else Inl e)"

definition bind_svc :: "('s, 'a) svc \<Rightarrow> ('a \<Rightarrow> ('s, 'b) svc) \<Rightarrow> ('s, 'b) svc" where
  "bind_svc m f s = (case m s of (Inl e, s') \<Rightarrow> (Inl e, s') | (Inr x, s') \<Rightarrow> f x s')"

definition return_svc :: "'a \<Rightarrow> ('s, 'a) svc" where
  "return_svc x s = (Inr x, s)"

definition throw_svc :: "app_error \<Rightarrow> ('s, 'a) svc" where
  "throw_svc e s = (Inl e, s)"

text \<open>A pure check or a read inside a service: it may throw, it changes nothing.\<close>

definition lift_svc :: "('s \<Rightarrow> 'a result) \<Rightarrow> ('s, 'a) svc" where
  "lift_svc f s = (f s, s)"

lemma bind_r_simps [simp]:
  "bind_r (Inl e) f = Inl e" "bind_r (Inr x) f = f x"
  by (simp_all add: bind_r_def)

lemma bind_r_Inr_iff [effect_simps]: "bind_r m f = Inr y \<longleftrightarrow> (\<exists>x. m = Inr x \<and> f x = Inr y)"
  by (cases m) auto

lemma assert_r_Inr_iff [effect_simps]: "assert_r ok e = Inr u \<longleftrightarrow> ok"
  by (simp add: assert_r_def)

lemma assert_r_simps [simp]: "assert_r True e = Inr ()" "assert_r False e = Inl e"
  by (simp_all add: assert_r_def)

lemma bind_svc_Inr_iff [effect_simps]:
  "bind_svc m f s = (Inr y, t) \<longleftrightarrow> (\<exists>x s'. m s = (Inr x, s') \<and> f x s' = (Inr y, t))"
  by (auto simp: bind_svc_def split: prod.splits sum.splits)

lemma return_svc_simps [simp]: "return_svc x s = (Inr x, s)" "throw_svc e s = (Inl e, s)"
  by (simp_all add: return_svc_def throw_svc_def)

lemma lift_svc_iff [effect_simps]: "lift_svc f s = (r, t) \<longleftrightarrow> r = f s \<and> t = s"
  by (auto simp: lift_svc_def)

lemma bind_svc_return [simp]: "bind_svc (return_svc x) f = f x"
  by (rule ext) (simp add: bind_svc_def)

lemma bind_svc_throw [simp]: "bind_svc (throw_svc e) f = throw_svc e"
  by (rule ext) (simp add: bind_svc_def)

section \<open>Tables\<close>

text \<open>
  A table is the list of its rows in insertion order.  \<open>find_row\<close> is
  \<open>findUnique\<close> on the key, \<open>upd_where\<close> is \<open>updateMany\<close>
  (\<open>update\<close> when the condition names one key).
\<close>

definition find_row :: "('r \<Rightarrow> 'k) \<Rightarrow> 'k \<Rightarrow> 'r list \<Rightarrow> 'r option" where
  "find_row key k rows = find (\<lambda>r. key r = k) rows"

definition upd_where :: "('r \<Rightarrow> bool) \<Rightarrow> ('r \<Rightarrow> 'r) \<Rightarrow> 'r list \<Rightarrow> 'r list" where
  "upd_where P f rows = map (\<lambda>r. if P r then f r else r) rows"

definition count_where :: "('r \<Rightarrow> bool) \<Rightarrow> 'r list \<Rightarrow> nat" where
  "count_where P rows = length (filter P rows)"

definition sum_of :: "('r \<Rightarrow> int) \<Rightarrow> 'r list \<Rightarrow> int" where
  "sum_of f rows = sum_list (map f rows)"

lemma find_row_Some: "find_row key k rows = Some r \<Longrightarrow> r \<in> set rows \<and> key r = k"
  by (auto simp: find_row_def find_Some_iff)

lemma find_row_SomeD [dest]:
  assumes "find_row key k rows = Some r"
  shows "r \<in> set rows" and "key r = k"
  using find_row_Some [OF assms] by auto

lemma find_row_None_iff: "find_row key k rows = None \<longleftrightarrow> k \<notin> key ` set rows"
  by (auto simp: find_row_def find_None_iff)

lemma find_row_distinct:
  "distinct (map key rows) \<Longrightarrow> r \<in> set rows \<Longrightarrow> find_row key (key r) rows = Some r"
  by (induction rows) (auto simp: find_row_def image_iff)

lemma find_row_upd_same:
  assumes "\<And>r. P r \<Longrightarrow> key (f r) = key r"
  shows "find_row key k (upd_where P f rows) =
    map_option (\<lambda>r. if P r then f r else r) (find_row key k rows)"
  using assms by (induction rows) (auto simp: find_row_def upd_where_def)

lemma find_row_append:
  "find_row key k (rows @ [r]) =
    (case find_row key k rows of Some x \<Rightarrow> Some x
     | None \<Rightarrow> if key r = k then Some r else None)"
  by (induction rows) (auto simp: find_row_def)

lemma upd_where_simps [simp]:
  "upd_where P f [] = []"
  "upd_where P f (r # rs) = (if P r then f r else r) # upd_where P f rs"
  "upd_where P f (xs @ ys) = upd_where P f xs @ upd_where P f ys"
  "length (upd_where P f rows) = length rows"
  by (simp_all add: upd_where_def)

lemma set_upd_where: "set (upd_where P f rows) = (\<lambda>r. if P r then f r else r) ` set rows"
  by (simp add: upd_where_def)

lemma map_key_upd_where:
  "(\<And>r. P r \<Longrightarrow> key (f r) = key r) \<Longrightarrow> map key (upd_where P f rows) = map key rows"
  by (simp add: upd_where_def)

lemma upd_where_none: "(\<And>r. r \<in> set rows \<Longrightarrow> \<not> P r) \<Longrightarrow> upd_where P f rows = rows"
  by (induction rows) auto

lemma sum_of_simps [simp]:
  "sum_of f [] = 0" "sum_of f (r # rs) = f r + sum_of f rs"
  "sum_of f (xs @ ys) = sum_of f xs + sum_of f ys"
  by (simp_all add: sum_of_def)

lemma sum_of_cong: "(\<And>r. r \<in> set rows \<Longrightarrow> f r = g r) \<Longrightarrow> sum_of f rows = sum_of g rows"
  by (induction rows) auto

lemma sum_of_nonneg: "(\<And>r. r \<in> set rows \<Longrightarrow> 0 \<le> f r) \<Longrightarrow> 0 \<le> sum_of f rows"
  by (induction rows) (auto intro: add_nonneg_nonneg)

lemma sum_of_upd_same:
  "(\<And>r. r \<in> set rows \<Longrightarrow> P r \<Longrightarrow> f (g r) = f r) \<Longrightarrow> sum_of f (upd_where P g rows) = sum_of f rows"
  by (induction rows) auto

lemma distinct_map_sort_key [simp]: "distinct (map f (sort_key k xs)) = distinct (map f xs)"
  by (metis mset_map mset_sort mset_eq_imp_distinct_iff)

text \<open>An update of the one row with key \<open>k\<close> moves a sum by that row's change.\<close>

lemma sum_of_upd_key:
  "distinct (map key rows) \<Longrightarrow> r \<in> set rows \<Longrightarrow> key r = k \<Longrightarrow>
    sum_of f (upd_where (\<lambda>x. key x = k) g rows) = sum_of f rows + (f (g r) - f r)"
proof (induction rows)
  case Nil
  then show ?case by simp
next
  case (Cons x xs)
  show ?case
  proof (cases "x = r")
    case True
    with Cons.prems have "\<And>y. y \<in> set xs \<Longrightarrow> key y \<noteq> k" by (auto simp: image_iff)
    then have "upd_where (\<lambda>x. key x = k) g xs = xs" by (simp add: upd_where_none)
    with True Cons.prems show ?thesis by simp
  next
    case False
    with Cons.prems have "key x \<noteq> k" by auto
    with Cons False show ?thesis by simp
  qed
qed

text \<open>A compare-and-swap by key: it hits one row exactly when the row of that key passes the test.\<close>

lemma upd_where_hit:
  assumes "distinct (map key rows)" "find_row key i rows = Some r" "P r"
  shows "upd_where (\<lambda>r. key r = i \<and> P r) f rows = upd_where (\<lambda>r. key r = i) f rows"
proof -
  have "P x" if "x \<in> set rows" "key x = i" for x
    using assms that find_row_distinct [OF assms(1), of x] by simp
  then show ?thesis by (auto simp: upd_where_def)
qed

lemma count_hit:
  "distinct (map key rows) \<Longrightarrow>
    count_where (\<lambda>r. key r = i \<and> P r) rows = (case find_row key i rows of None \<Rightarrow> 0 | Some r \<Rightarrow> if P r then 1 else 0)"
proof (induction rows)
  case (Cons x xs)
  show ?case
  proof (cases "key x = i")
    case True
    then have "find_row key i xs = None" using Cons.prems by (auto simp: find_row_None_iff)
    then show ?thesis using Cons True by (simp add: count_where_def find_row_def)
  next
    case False
    then show ?thesis using Cons by (simp add: count_where_def find_row_def)
  qed
qed (simp add: count_where_def find_row_def)

section \<open>The table interface\<close>

text \<open>
  What a repository relies on when it reads, updates and inserts rows by key: a row
  just inserted under a new key is found, an update is seen by a later read of its key
  and by no other, and no operation changes the key of another row.
\<close>

locale keyed_table =
  fixes lookup :: "'k \<Rightarrow> 't \<Rightarrow> 'r option"
    and update :: "'k \<Rightarrow> ('r \<Rightarrow> 'r) \<Rightarrow> 't \<Rightarrow> 't"
    and insert_new :: "'r \<Rightarrow> 't \<Rightarrow> 't"
    and key :: "'r \<Rightarrow> 'k"
  assumes lookup_key: "lookup k t = Some r \<Longrightarrow> key r = k"
    and lookup_update: "(\<And>r. key (f r) = key r) \<Longrightarrow>
      lookup j (update k f t) = (if j = k then map_option f (lookup k t) else lookup j t)"
    and lookup_insert: "lookup (key r) t = None \<Longrightarrow>
      lookup j (insert_new r t) = (if j = key r then Some r else lookup j t)"
begin

lemma update_missing:
  assumes "\<And>r. key (f r) = key r" "lookup k t = None"
  shows "lookup j (update k f t) = lookup j t"
  using assms by (simp add: lookup_update)

lemma update_update:
  assumes "\<And>r. key (f r) = key r" "\<And>r. key (g r) = key r"
  shows "lookup j (update k g (update k f t)) = lookup j (update k (\<lambda>r. g (f r)) t)"
proof -
  have "\<And>r. key (g (f r)) = key r" using assms by simp
  with assms show ?thesis by (auto simp: lookup_update option.map_comp comp_def)
qed

lemma update_commute:
  assumes "\<And>r. key (f r) = key r" "\<And>r. key (g r) = key r" "k \<noteq> l"
  shows "lookup j (update k f (update l g t)) = lookup j (update l g (update k f t))"
  using assms by (auto simp: lookup_update)

lemma insert_then_update:
  assumes "\<And>r. key (f r) = key r" "lookup (key r) t = None"
  shows "lookup (key r) (update (key r) f (insert_new r t)) = Some (f r)"
  using assms by (simp add: lookup_update lookup_insert)

end

text \<open>Every table of rows with a key function provides the interface.\<close>

definition upd_key :: "('r \<Rightarrow> 'k) \<Rightarrow> 'k \<Rightarrow> ('r \<Rightarrow> 'r) \<Rightarrow> 'r list \<Rightarrow> 'r list" where
  "upd_key key k f rows = upd_where (\<lambda>r. key r = k) f rows"

definition insert_row :: "'r \<Rightarrow> 'r list \<Rightarrow> 'r list" where
  "insert_row r rows = rows @ [r]"

interpretation rows: keyed_table "find_row key" "upd_key key" insert_row key
  for key :: "'r \<Rightarrow> 'k"
proof unfold_locales
  fix k :: 'k and t :: "'r list" and r :: 'r
  show "find_row key k t = Some r \<Longrightarrow> key r = k" by auto
next
  fix f :: "'r \<Rightarrow> 'r" and j k :: 'k and t :: "'r list"
  assume "\<And>r. key (f r) = key r"
  then show "find_row key j (upd_key key k f t) =
      (if j = k then map_option f (find_row key k t) else find_row key j t)"
    by (cases "find_row key j t")
      (auto simp: upd_key_def find_row_upd_same dest: find_row_Some)
next
  fix r :: 'r and t :: "'r list" and j :: 'k
  show "find_row key (key r) t = None \<Longrightarrow>
      find_row key j (insert_row r t) = (if j = key r then Some r else find_row key j t)"
    by (auto simp: insert_row_def find_row_append split: option.splits)
qed

section \<open>Oldest-first settlement\<close>

text \<open>
  The loop the finance code writes four times (a payment over charge items, over
  adjustments, a waiver over charge items, a correction over earlier corrections): walk
  the rows in order, stop when nothing remains, skip a row with nothing outstanding, and
  otherwise apply the smaller of the two.  \<open>outstanding\<close> and \<open>apply_row\<close>
  are what the four uses differ in.
\<close>

fun settle_loop ::
  "('r \<Rightarrow> money) \<Rightarrow> ('r \<Rightarrow> money \<Rightarrow> 's \<Rightarrow> 's) \<Rightarrow> 'r list \<Rightarrow> money \<Rightarrow> 's \<Rightarrow> money \<times> 's" where
  "settle_loop outstanding apply_row [] remaining s = (remaining, s)"
| "settle_loop outstanding apply_row (r # rs) remaining s =
     (if remaining \<le> 0 then (remaining, s)
      else if outstanding r \<le> 0 then settle_loop outstanding apply_row rs remaining s
      else let applied = min remaining (outstanding r)
           in settle_loop outstanding apply_row rs (remaining - applied) (apply_row r applied s))"

text \<open>What the loop decides, apart from the state it writes.\<close>

fun settle_plan :: "('r \<Rightarrow> money) \<Rightarrow> 'r list \<Rightarrow> money \<Rightarrow> ('r \<times> money) list" where
  "settle_plan outstanding [] remaining = []"
| "settle_plan outstanding (r # rs) remaining =
     (if remaining \<le> 0 then []
      else if outstanding r \<le> 0 then settle_plan outstanding rs remaining
      else let applied = min remaining (outstanding r)
           in (r, applied) # settle_plan outstanding rs (remaining - applied))"

fun apply_plan :: "('r \<Rightarrow> money \<Rightarrow> 's \<Rightarrow> 's) \<Rightarrow> ('r \<times> money) list \<Rightarrow> 's \<Rightarrow> 's" where
  "apply_plan apply_row [] s = s"
| "apply_plan apply_row ((r, a) # ps) s = apply_plan apply_row ps (apply_row r a s)"

definition outstanding_total :: "('r \<Rightarrow> money) \<Rightarrow> 'r list \<Rightarrow> money" where
  "outstanding_total outstanding rs = sum_of (\<lambda>r. max 0 (outstanding r)) rs"

lemma outstanding_total_simps [simp]:
  "outstanding_total f [] = 0"
  "outstanding_total f (r # rs) = max 0 (f r) + outstanding_total f rs"
  by (simp_all add: outstanding_total_def)

lemma outstanding_total_nonneg [simp]: "0 \<le> outstanding_total f rs"
  by (simp add: outstanding_total_def sum_of_nonneg)

lemma settle_loop_plan:
  "settle_loop f app rs remaining s =
    (remaining - sum_of snd (settle_plan f rs remaining),
     apply_plan app (settle_plan f rs remaining) s)"
  by (induction rs arbitrary: remaining s) (auto simp: Let_def)

lemma settle_plan_nothing [simp]: "remaining \<le> 0 \<Longrightarrow> settle_plan f rs remaining = []"
  by (induction rs) auto

lemma settle_plan_total:
  "0 \<le> remaining \<Longrightarrow>
    sum_of snd (settle_plan f rs remaining) = min remaining (outstanding_total f rs)"
proof (induction rs arbitrary: remaining)
  case Nil
  then show ?case by simp
next
  case (Cons r rs)
  define t where "t = outstanding_total f rs"
  have "0 \<le> t" by (simp add: t_def)
  moreover have IH: "sum_of snd (settle_plan f rs m) = min m t" if "0 \<le> m" for m
    using Cons.IH [OF that] by (simp add: t_def)
  ultimately show ?case
    using Cons.prems IH [of remaining] IH [of "remaining - f r"]
    by (auto simp: Let_def min_def max_def t_def [symmetric])
qed

lemma settle_plan_bounds:
  "(r, a) \<in> set (settle_plan f rs remaining) \<Longrightarrow> r \<in> set rs \<and> 0 < a \<and> a \<le> f r"
  by (induction rs arbitrary: remaining) (auto simp: Let_def split: if_splits)

lemma settle_plan_subseq:
  "distinct (map key rs) \<Longrightarrow> distinct (map (\<lambda>p. key (fst p)) (settle_plan f rs remaining))"
proof (induction rs arbitrary: remaining)
  case (Cons r rs)
  have "key r \<notin> (\<lambda>p. key (fst p)) ` set (settle_plan f rs m)" for m
    using Cons.prems settle_plan_bounds [of _ _ f rs m] by (fastforce simp: image_iff)
  with Cons show ?case by (auto simp: Let_def)
qed simp

text \<open>
  Oldest first: whatever a later row receives, every earlier row has been settled in
  full.
\<close>

lemma settle_plan_oldest_first:
  assumes "settle_plan f (xs @ r # ys) remaining = ps" "0 \<le> remaining"
    and "sum_of snd (settle_plan f (xs @ [r]) remaining) < sum_of snd ps"
  shows "outstanding_total f (xs @ [r]) \<le> sum_of snd ps"
proof -
  have tot: "sum_of snd ps = min remaining (outstanding_total f (xs @ r # ys))"
    using assms(1,2) settle_plan_total by blast
  have pre: "sum_of snd (settle_plan f (xs @ [r]) remaining) =
      min remaining (outstanding_total f (xs @ [r]))"
    using assms(2) settle_plan_total by blast
  show ?thesis using assms(3) tot pre by linarith
qed

end
