(* ===== verification/Js_Number.thy ===== *)
theory Js_Number
  imports Prelude "HOL-Library.Log_Nat"
begin

text \<open>
  JavaScript numbers where the source computes with fractions (areas, shares, rates).
  A number is an IEEE 754 double; the model writes it as a rational and rounds the
  result of every operation to the nearest value with a 53-bit significand, ties to the
  even one.  The exponent range is not bounded: the source only computes with amounts of
  money, areas and quotients of them, far from overflow and underflow.  Whole numbers up
  to \<open>2^53\<close> are represented exactly (\<open>fl_of_int\<close>), so sums and differences
  of whole Rials are \<open>int\<close> operations elsewhere in the development.
\<close>

section \<open>Rounding to a double\<close>

text \<open>The binary exponent: \<open>2^e \<le> x < 2^(e+1)\<close> for positive \<open>x\<close>.\<close>

definition expo :: "rat \<Rightarrow> int" where
  "expo x = (let (a, b) = quotient_of x; k = bitlen a - bitlen b
             in if 2 powi k \<le> x then k else k - 1)"

text \<open>Nearest integer, ties to even.\<close>

definition round_even :: "rat \<Rightarrow> int" where
  "round_even y = (let n = \<lfloor>y\<rfloor>; d = y - of_int n
     in if d < 1 / 2 then n else if 1 / 2 < d then n + 1 else if even n then n else n + 1)"

definition fl_pos :: "rat \<Rightarrow> rat" where
  "fl_pos x = (let q = 2 powi (expo x - 52) in of_int (round_even (x / q)) * q)"

definition fl :: "rat \<Rightarrow> rat" where
  "fl x = (if x = 0 then 0 else if 0 < x then fl_pos x else - fl_pos (- x))"

definition js_add :: "rat \<Rightarrow> rat \<Rightarrow> rat" where "js_add x y = fl (x + y)"
definition js_sub :: "rat \<Rightarrow> rat \<Rightarrow> rat" where "js_sub x y = fl (x - y)"
definition js_mul :: "rat \<Rightarrow> rat \<Rightarrow> rat" where "js_mul x y = fl (x * y)"
definition js_div :: "rat \<Rightarrow> rat \<Rightarrow> rat" where "js_div x y = fl (x / y)"

text \<open>\<open>Math.floor\<close>, and \<open>Math.round\<close>, which rounds halves up.\<close>

definition js_floor :: "rat \<Rightarrow> int" where "js_floor x = \<lfloor>x\<rfloor>"
definition js_round :: "rat \<Rightarrow> int" where "js_round x = \<lfloor>x + 1 / 2\<rfloor>"

section \<open>Error bounds\<close>

definition ulp :: rat where "ulp = 1 / 2 ^ 53"

lemma ulp_pos [simp]: "0 < ulp" "0 \<le> ulp"
  by (simp_all add: ulp_def)

lemma bitlen_rat_bounds:
  assumes "0 < a"
  shows "2 powi (bitlen a - 1) \<le> (of_int a :: rat)" and "(of_int a :: rat) < 2 powi (bitlen a)"
proof -
  have b: "2 ^ nat (bitlen a - 1) \<le> a \<and> a < 2 ^ nat (bitlen a)"
    using assms by (rule bitlen_bounds)
  have pos: "0 < bitlen a" using assms bitlen_nonneg [of a] bitlen_eq_zero_iff [of a] by linarith
  from b have "(2::rat) ^ nat (bitlen a - 1) \<le> of_int a" "(of_int a :: rat) < 2 ^ nat (bitlen a)"
    by (metis of_int_le_iff of_int_numeral of_int_power)
       (metis b of_int_less_iff of_int_numeral of_int_power)
  with pos show "2 powi (bitlen a - 1) \<le> (of_int a :: rat)" "(of_int a :: rat) < 2 powi (bitlen a)"
    by (simp_all add: power_int_def)
qed

lemma expo_bounds:
  assumes "0 < x"
  shows "2 powi (expo x) \<le> x" and "x < 2 powi (expo x + 1)"
proof -
  obtain a b where q: "quotient_of x = (a, b)" by fastforce
  then have x: "x = of_int a / of_int b" and b: "0 < b"
    by (auto simp: quotient_of_div quotient_of_denom_pos)
  from assms x b have a: "0 < a" by (simp add: zero_less_divide_iff)
  let ?k = "bitlen a - bitlen b"
  note A = bitlen_rat_bounds [OF a] and B = bitlen_rat_bounds [OF b]
  have "2 powi (bitlen a - 1) / 2 powi (bitlen b) \<le> x"
    unfolding x using A B a b by (intro frac_le) auto
  moreover have "2 powi (bitlen a - 1) / 2 powi (bitlen b) = (2 powi (bitlen a - 1 - bitlen b) :: rat)"
    by (subst power_int_diff) auto
  moreover have "bitlen a - 1 - bitlen b = ?k - 1" by simp
  ultimately have lo: "2 powi (?k - 1) \<le> x" by simp
  have "x \<le> of_int a / 2 powi (bitlen b - 1)"
    unfolding x using A B b a by (intro divide_left_mono) auto
  also have "\<dots> < 2 powi (bitlen a) / 2 powi (bitlen b - 1)"
    using A by (intro divide_strict_right_mono) auto
  also have "\<dots> = (2 powi (bitlen a - (bitlen b - 1)) :: rat)"
    by (subst power_int_diff) auto
  also have "bitlen a - (bitlen b - 1) = ?k + 1" by simp
  finally have hi: "x < 2 powi (?k + 1)" .
  show "2 powi (expo x) \<le> x" "x < 2 powi (expo x + 1)"
    using lo hi by (auto simp: expo_def q Let_def)
qed

lemma round_even_error: "\<bar>of_int (round_even y) - y\<bar> \<le> 1 / 2"
proof -
  have "of_int \<lfloor>y\<rfloor> \<le> y" "y < of_int \<lfloor>y\<rfloor> + 1" by linarith+
  then show ?thesis unfolding round_even_def Let_def by (auto simp: abs_le_iff)
qed

lemma round_even_int [simp]: "round_even (of_int n) = n"
  by (simp add: round_even_def)

lemma fl_pos_error:
  assumes "0 < x"
  shows "\<bar>fl_pos x - x\<bar> \<le> ulp * x"
proof -
  define q :: rat where "q = 2 powi (expo x - 52)"
  have q: "0 < q" by (simp add: q_def)
  have "fl_pos x - x = (of_int (round_even (x / q)) - x / q) * q"
    using q by (simp add: fl_pos_def q_def [symmetric] field_simps)
  then have "\<bar>fl_pos x - x\<bar> = \<bar>of_int (round_even (x / q)) - x / q\<bar> * q"
    using q by (simp add: abs_mult)
  also have "\<dots> \<le> 1 / 2 * q"
    using q round_even_error [of "x / q"] by (intro mult_right_mono) auto
  also have "\<dots> = ulp * 2 powi (expo x)"
    by (simp add: q_def ulp_def power_int_diff)
  also have "\<dots> \<le> ulp * x"
    using expo_bounds(1) [OF assms] by (intro mult_left_mono) auto
  finally show ?thesis .
qed

lemma fl_error: "\<bar>fl x - x\<bar> \<le> ulp * \<bar>x\<bar>"
proof (cases "x < 0")
  case True
  then show ?thesis using fl_pos_error [of "- x"] by (simp add: fl_def abs_minus_commute)
next
  case False
  then show ?thesis using fl_pos_error [of x] by (auto simp: fl_def)
qed

lemma fl_bounds:
  assumes "0 \<le> x"
  shows "(1 - ulp) * x \<le> fl x" and "fl x \<le> (1 + ulp) * x"
  using fl_error [of x] assms by (auto simp: abs_le_iff algebra_simps)

lemma fl_nonneg: "0 \<le> x \<Longrightarrow> 0 \<le> fl x"
proof -
  assume "0 \<le> x"
  then have "(1 - ulp) * x \<le> fl x" by (rule fl_bounds)
  moreover have "0 \<le> (1 - ulp) * x" using \<open>0 \<le> x\<close> by (simp add: ulp_def)
  ultimately show ?thesis by simp
qed

lemma fl_gt0: "0 < x \<Longrightarrow> 0 < fl x"
proof -
  assume x: "0 < x"
  then have "(1 - ulp) * x \<le> fl x" by (intro fl_bounds) simp
  moreover have "0 < (1 - ulp) * x" using x by (simp add: ulp_def)
  ultimately show ?thesis by simp
qed

lemma fl_pos_of_int:
  assumes n: "0 < n" "n \<le> 2 ^ 53"
  shows "fl_pos (of_int n) = of_int n"
proof -
  let ?e = "expo (of_int n)"
  have eb: "2 powi ?e \<le> (of_int n :: rat)" "(of_int n :: rat) < 2 powi (?e + 1)"
    using n by (auto intro!: expo_bounds)
  have e0: "0 \<le> ?e"
  proof (rule ccontr)
    assume "\<not> 0 \<le> ?e"
    then have "(2::rat) powi (?e + 1) \<le> 2 powi 0" by (intro power_int_increasing) auto
    with eb n show False by simp
  qed
  show ?thesis
  proof (cases "?e \<le> 52")
    case True
    have "(of_int n :: rat) / 2 powi (?e - 52) = of_int (n * 2 ^ nat (52 - ?e))"
      using True by (auto simp: power_int_def field_simps)
    then show ?thesis
      using round_even_int by (simp add: fl_pos_def Let_def del: of_int_mult)
        (simp add: field_simps)
  next
    case False
    then have "(2::rat) ^ 53 \<le> 2 powi ?e"
      using power_int_increasing [of 53 ?e "2::rat"] by simp
    with eb(1) have "(2::rat) ^ 53 \<le> of_int n" by linarith
    moreover have "(of_int n :: rat) \<le> of_int (2 ^ 53)" using n by (simp only: of_int_le_iff)
    ultimately have "(of_int n :: rat) = 2 ^ 53" by simp
    then have n53: "n = 2 ^ 53" by (metis of_int_eq_iff of_int_numeral of_int_power)
    have "\<not> 54 \<le> ?e"
    proof
      assume "54 \<le> ?e"
      then have "(2::rat) ^ 54 \<le> 2 powi ?e"
        using power_int_increasing [of 54 ?e "2::rat"] by simp
      with eb(1) have "(2::rat) ^ 54 \<le> of_int n" by linarith
      with n53 show False by simp
    qed
    then have "?e = 53" using False by linarith
    with n53 show ?thesis
      using round_even_int [of "2 ^ 52"] by (simp add: fl_pos_def Let_def)
  qed
qed

lemma fl_of_int: "\<bar>n\<bar> \<le> 2 ^ 53 \<Longrightarrow> fl (of_int n) = of_int n"
  using fl_pos_of_int [of n] fl_pos_of_int [of "- n"] by (auto simp: fl_def)

section \<open>Monotonicity\<close>

lemma round_even_mono:
  assumes "y \<le> z"
  shows "round_even y \<le> round_even z"
proof (cases "\<lfloor>y\<rfloor> = \<lfloor>z\<rfloor>")
  case True
  then show ?thesis using assms by (auto simp: round_even_def Let_def)
next
  case False
  then have "\<lfloor>y\<rfloor> + 1 \<le> \<lfloor>z\<rfloor>" using floor_mono [OF assms] by linarith
  moreover have "round_even y \<le> \<lfloor>y\<rfloor> + 1" "\<lfloor>z\<rfloor> \<le> round_even z"
    by (auto simp: round_even_def Let_def)
  ultimately show ?thesis by linarith
qed

lemma fl_pos_binade:
  assumes "0 < x"
  shows "2 powi (expo x) \<le> fl_pos x" and "fl_pos x \<le> 2 powi (expo x + 1)"
proof -
  let ?q = "2 powi (expo x - 52) :: rat"
  have q: "0 < ?q" by simp
  have e: "(2 powi (expo x) :: rat) = of_int (2 ^ 52) * ?q" "(2 powi (expo x + 1) :: rat) = of_int (2 ^ 53) * ?q"
    by (simp_all add: power_int_diff power_int_add)
  have "of_int (2 ^ 52) \<le> x / ?q" "x / ?q \<le> of_int (2 ^ 53)"
    using expo_bounds [OF assms] q unfolding e by (simp_all add: field_simps)
  then have "2 ^ 52 \<le> round_even (x / ?q)" "round_even (x / ?q) \<le> 2 ^ 53"
    using round_even_mono round_even_int by metis+
  then have "(of_int (2 ^ 52) :: rat) \<le> of_int (round_even (x / ?q))"
    "(of_int (round_even (x / ?q)) :: rat) \<le> of_int (2 ^ 53)"
    by (simp_all only: of_int_le_iff)
  then show "2 powi (expo x) \<le> fl_pos x" "fl_pos x \<le> 2 powi (expo x + 1)"
    unfolding e fl_pos_def Let_def using q by (simp_all add: mult_right_mono)
qed

lemma expo_mono:
  assumes "0 < x" "x \<le> y"
  shows "expo x \<le> expo y"
proof (rule ccontr)
  assume "\<not> expo x \<le> expo y"
  then have "(2::rat) powi (expo y + 1) \<le> 2 powi (expo x)"
    by (intro power_int_increasing) auto
  then show False using expo_bounds [of x] expo_bounds [of y] assms by linarith
qed

lemma fl_pos_mono:
  assumes "0 < x" "x \<le> y"
  shows "fl_pos x \<le> fl_pos y"
proof (cases "expo x = expo y")
  case True
  let ?q = "2 powi (expo y - 52) :: rat"
  have "round_even (x / ?q) \<le> round_even (y / ?q)"
    using assms by (intro round_even_mono divide_right_mono) auto
  then show ?thesis using True by (simp add: fl_pos_def Let_def mult_right_mono)
next
  case False
  then have "expo x + 1 \<le> expo y" using expo_mono [OF assms] by linarith
  then have "(2::rat) powi (expo x + 1) \<le> 2 powi (expo y)" by (intro power_int_increasing) auto
  then show ?thesis using fl_pos_binade [of x] fl_pos_binade [of y] assms by linarith
qed

lemma fl_mono: "0 \<le> x \<Longrightarrow> x \<le> y \<Longrightarrow> fl x \<le> fl y"
  using fl_pos_mono [of x y] fl_nonneg [of y] by (auto simp: fl_def split: if_splits)

section \<open>Exact results\<close>

text \<open>
  The floor of a quotient of two whole numbers is not disturbed by rounding, as long as
  the dividend is below \<open>2^53\<close>.
\<close>

lemma floor_js_div:
  assumes T: "0 \<le> T" "T < 2 ^ 53" and n: "0 < n"
  shows "js_floor (js_div (of_int T) (of_int n)) = T div n"
proof -
  let ?x = "of_int T / of_int n :: rat" and ?k = "T div n"
  have x0: "0 \<le> ?x" using T n by simp
  have T': "(of_int T :: rat) < 2 ^ 53"
    using T(2) by (metis of_int_less_iff of_int_numeral of_int_power)
  have split: "T = ?k * n + T mod n" by simp
  moreover have "T mod n < n" using n by simp
  ultimately have "T < ?k * n + n" by linarith
  then have "T < (?k + 1) * n" by (simp add: distrib_right)
  then have "T + 1 \<le> (?k + 1) * n" by simp
  then have "(of_int (T + 1) :: rat) \<le> of_int ((?k + 1) * n)" by (simp only: of_int_le_iff)
  then have up: "?x + 1 / of_int n \<le> of_int ?k + 1"
    using n by (simp add: field_simps)
  have "?k * n \<le> T" using n split pos_mod_sign [of n T] by linarith
  then have "(of_int (?k * n) :: rat) \<le> of_int T" by (simp only: of_int_le_iff)
  then have lo: "of_int ?k \<le> ?x" using n by (simp add: field_simps)
  have "fl ?x < of_int ?k + 1"
  proof -
    have "fl ?x \<le> ?x + ulp * ?x" using fl_bounds(2) [OF x0] by (simp only: distrib_right mult_1_left)
    moreover have "ulp * ?x < 1 / of_int n"
      using T' n by (simp add: ulp_def field_simps)
    ultimately show ?thesis using up by linarith
  qed
  moreover have "of_int ?k \<le> fl ?x"
  proof -
    have "0 \<le> ?k" using T n by (simp add: pos_imp_zdiv_nonneg_iff)
    moreover have "?k \<le> T" using T n zdiv_mono2 [of T 1 n] by simp
    ultimately have "0 \<le> ?k" "?k \<le> T" by simp_all
    then have "fl (of_int ?k) = of_int ?k" using T by (intro fl_of_int) auto
    moreover have "fl (of_int ?k) \<le> fl ?x" using lo \<open>0 \<le> ?k\<close> by (intro fl_mono) auto
    ultimately show ?thesis by simp
  qed
  ultimately show ?thesis by (auto simp: js_floor_def js_div_def floor_eq_iff)
qed

end
