(* ===== verification/Building_Types.thy ===== *)
theory Building_Types
  imports Prelude
begin

text \<open>
  The rows of the building domain: persons, buildings, blocks, units, ownerships,
  tenancies, memberships, membership requests and building settings, as declared in
  \<^verbatim>\<open>src/prisma/schema.prisma\<close>, the store that holds them, and the queries of
  \<^verbatim>\<open>building.repository.ts\<close> that other components use.  Left out are columns no
  modelled code reads or writes (\<open>locale\<close>, map coordinates, \<open>updatedAt\<close>).
\<close>

section \<open>Enumerations\<close>

datatype buildingStatus =
  BS_PENDING | BS_UNDER_REVIEW | BS_VERIFIED | BS_REJECTED | BS_MERGED | BS_PENDING_INFORMATION

datatype buildingType = BT_RESIDENTIAL | BT_COMMERCIAL | BT_MIXED

datatype unitType = RESIDENTIAL | COMMERCIAL | PARKING | STORAGE

datatype unitOccupancyStatus = VACANT | OWNER_OCCUPIED | TENANT_OCCUPIED

datatype tenancyStatus = TS_ACTIVE | TS_NOTICE_GIVEN | TS_ENDED

datatype membershipRole = OWNER | TENANT | MANAGER | BOARD_MEMBER | ACCOUNTANT

datatype managerLifecycleState =
  ML_CANDIDATE | ML_PROVISIONAL | ML_VERIFIED | ML_FORMER | ML_SUSPENDED

datatype managerAssignmentType =
  MA_PROVISIONAL | MA_ELECTED | MA_APPOINTED | MA_BACKOFFICE_ASSIGNED

datatype membershipRequestStatus = MR_PENDING | MR_APPROVED | MR_REJECTED

section \<open>Rows\<close>

record person =
  pe_id :: id
  pe_phone :: string
  pe_fullName :: "string option"
  pe_firstName :: "string option"
  pe_lastName :: "string option"
  pe_createdAt :: time
  pe_isSuspended :: bool
  pe_isBackofficeApproved :: bool
  pe_xpBalance :: int
  pe_email :: "string option"

record building =
  bd_id :: id
  bd_name :: string
  bd_buildingType :: buildingType
  bd_description :: "string option"
  bd_country :: string
  bd_province :: "string option"
  bd_city :: string
  bd_district :: string
  bd_mainStreet :: string
  bd_subStreet :: "string option"
  bd_alley :: "string option"
  bd_plateNumber :: string
  bd_addressLine :: string
  bd_postalCode :: string
  bd_totalBlocks :: int
  bd_totalUnits :: int
  bd_totalFloors :: "int option"
  bd_status :: buildingStatus
  bd_createdById :: id
  bd_recoveryModeEnteredAt :: "time option"
  bd_createdAt :: time

record block =
  bk_id :: id
  bk_buildingId :: id
  bk_name :: string
  bk_totalFloors :: int

record unit_row =
  u_id :: id
  u_buildingId :: id
  u_blockId :: "id option"
  u_floorId :: "id option"
  u_floorNumber :: "int option"
  u_unitNumber :: string
  u_type :: unitType
  u_areaSqm :: "rat option"
  u_parkingCount :: "int option"
  u_storageCount :: "int option"
  u_occupancyStatus :: unitOccupancyStatus
  u_ownerFullName :: "string option"
  u_ownerFirstName :: "string option"
  u_ownerLastName :: "string option"
  u_ownerPhone :: "string option"
  u_ownerInviteSentAt :: "time option"

record ownership =
  ow_id :: id
  ow_unitId :: id
  ow_personId :: id
  ow_startDate :: time
  ow_endDate :: "time option"
  ow_isCurrent :: bool

record tenancy =
  tn_id :: id
  tn_unitId :: id
  tn_personId :: id
  tn_status :: tenancyStatus
  tn_startDate :: time
  tn_endDate :: "time option"
  tn_noticeGivenAt :: "time option"
  tn_terminationReason :: "string option"
  tn_isCurrent :: bool

record membership =
  mb_id :: id
  mb_personId :: id
  mb_buildingId :: id
  mb_unitId :: "id option"
  mb_role :: membershipRole
  mb_managerState :: "managerLifecycleState option"
  mb_managerAssignmentType :: "managerAssignmentType option"
  mb_assignedById :: "id option"
  mb_startedAt :: time
  mb_endedAt :: "time option"
  mb_isCurrent :: bool

record membershipRequest =
  mr_id :: id
  mr_buildingId :: id
  mr_personId :: id
  mr_role :: membershipRole
  mr_message :: "string option"
  mr_status :: membershipRequestStatus
  mr_createdAt :: time

record buildingSettings =
  bs_buildingId :: id
  bs_allowTenantVoting :: bool

text \<open>
  The store.  \<open>bld_ids\<close> is the supply of identifiers the database will hand out
  and \<open>bld_next\<close> the number already handed out; \<open>bld_collation\<close> ranks the
  unit numbers in the order the database's collation sorts them.
\<close>

record bld_db =
  persons :: "person list"
  buildings :: "building list"
  blocks :: "block list"
  unitRows :: "unit_row list"
  ownerships :: "ownership list"
  tenancies :: "tenancy list"
  memberships :: "membership list"
  membershipRequests :: "membershipRequest list"
  settingsRows :: "buildingSettings list"
  bld_ids :: "nat \<Rightarrow> id"
  bld_next :: nat
  bld_collation :: "string \<Rightarrow> nat"

section \<open>Queries\<close>

definition findBuildingById :: "bld_db \<Rightarrow> id \<Rightarrow> building option" where
  "findBuildingById b bid = find_row bd_id bid (buildings b)"

definition listUnits :: "bld_db \<Rightarrow> id \<Rightarrow> unit_row list" where
  "listUnits b bid =
     sort_key (\<lambda>u. bld_collation b (u_unitNumber u)) (filter (\<lambda>u. u_buildingId u = bid) (unitRows b))"

definition findUnitById :: "bld_db \<Rightarrow> id \<Rightarrow> unit_row option" where
  "findUnitById b uid = find_row u_id uid (unitRows b)"

definition getRoles :: "bld_db \<Rightarrow> id \<Rightarrow> id \<Rightarrow> membershipRole list" where
  "getRoles b personId bid =
     map mb_role (filter (\<lambda>m. mb_personId m = personId \<and> mb_buildingId m = bid \<and> mb_isCurrent m)
       (memberships b))"

definition hasMembership :: "bld_db \<Rightarrow> id \<Rightarrow> id \<Rightarrow> bool" where
  "hasMembership b personId bid \<longleftrightarrow>
     0 < count_where (\<lambda>m. mb_personId m = personId \<and> mb_buildingId m = bid \<and> mb_isCurrent m)
       (memberships b)"

definition canReadUnitFinance :: "bld_db \<Rightarrow> id \<Rightarrow> id \<Rightarrow> id \<Rightarrow> bool" where
  "canReadUnitFinance b personId bid uid \<longleftrightarrow>
     0 < count_where (\<lambda>m. mb_personId m = personId \<and> mb_buildingId m = bid \<and> mb_isCurrent m \<and>
          (mb_role m \<in> {MANAGER, ACCOUNTANT} \<or>
           mb_role m \<in> {OWNER, TENANT} \<and> mb_unitId m = Some uid \<and>
             (\<exists>u\<in>set (unitRows b). u_id u = uid \<and> u_buildingId u = bid)))
       (memberships b)"

definition getCurrentOwnerPersonIds :: "bld_db \<Rightarrow> id \<Rightarrow> id list" where
  "getCurrentOwnerPersonIds b uid =
     map ow_personId (filter (\<lambda>w. ow_unitId w = uid \<and> ow_isCurrent w) (ownerships b))"

definition isCurrentOwnerOfUnit :: "bld_db \<Rightarrow> id \<Rightarrow> id \<Rightarrow> bool" where
  "isCurrentOwnerOfUnit b uid personId \<longleftrightarrow>
     0 < count_where (\<lambda>w. ow_unitId w = uid \<and> ow_personId w = personId \<and> ow_isCurrent w)
       (ownerships b)"

definition hasCurrentOwnership :: "bld_db \<Rightarrow> id \<Rightarrow> bool" where
  "hasCurrentOwnership b uid \<longleftrightarrow>
     0 < count_where (\<lambda>w. ow_unitId w = uid \<and> ow_isCurrent w) (ownerships b)"

definition findCurrentTenancyForUnit :: "bld_db \<Rightarrow> id \<Rightarrow> tenancy option" where
  "findCurrentTenancyForUnit b uid =
     find (\<lambda>t. tn_unitId t = uid \<and> tn_isCurrent t) (tenancies b)"

definition getBuildingSettings :: "bld_db \<Rightarrow> id \<Rightarrow> bool" where
  "getBuildingSettings b bid =
     (case find_row bs_buildingId bid (settingsRows b) of
        Some s \<Rightarrow> bs_allowTenantVoting s | None \<Rightarrow> False)"

lemma count_where_pos: "0 < count_where P rows \<longleftrightarrow> (\<exists>r\<in>set rows. P r)"
  by (auto simp: count_where_def filter_empty_conv)

text \<open>
  What finance asks of the directory of units, as an interface: the payer of a unit is
  its current tenant when there is one, else one of its owners, and the yes/no question
  about one owner agrees with the list of owners.
\<close>

locale unit_directory =
  fixes tenantOf :: "'d \<Rightarrow> id \<Rightarrow> id option"
    and ownersOf :: "'d \<Rightarrow> id \<Rightarrow> id list"
    and isOwner :: "'d \<Rightarrow> id \<Rightarrow> id \<Rightarrow> bool"
  assumes isOwner_iff: "isOwner d u p \<longleftrightarrow> p \<in> set (ownersOf d u)"
begin

text \<open>The persons a payment for the unit may be attributed to.\<close>

definition responsible :: "'d \<Rightarrow> id \<Rightarrow> id set" where
  "responsible d u = (case tenantOf d u of Some t \<Rightarrow> {t} | None \<Rightarrow> set (ownersOf d u))"

lemma responsible_tenant: "tenantOf d u = Some t \<Longrightarrow> p \<in> responsible d u \<longleftrightarrow> p = t"
  by (simp add: responsible_def)

lemma responsible_owner: "tenantOf d u = None \<Longrightarrow> p \<in> responsible d u \<longleftrightarrow> isOwner d u p"
  by (simp add: responsible_def isOwner_iff)

end

definition currentTenantPersonId :: "bld_db \<Rightarrow> id \<Rightarrow> id option" where
  "currentTenantPersonId b uid = map_option tn_personId (findCurrentTenancyForUnit b uid)"

interpretation dir: unit_directory currentTenantPersonId getCurrentOwnerPersonIds isCurrentOwnerOfUnit
  by unfold_locales
    (auto simp: isCurrentOwnerOfUnit_def getCurrentOwnerPersonIds_def count_where_pos)

lemma listUnits_set: "set (listUnits b bid) = {u \<in> set (unitRows b). u_buildingId u = bid}"
  by (auto simp: listUnits_def)

lemma listUnits_distinct:
  "distinct (map u_id (unitRows b)) \<Longrightarrow> distinct (map u_id (listUnits b bid))"
proof -
  assume "distinct (map u_id (unitRows b))"
  then have "distinct (map u_id (filter (\<lambda>u. u_buildingId u = bid) (unitRows b)))"
    by (rule distinct_map_filter)
  then show ?thesis
    by (metis (no_types, lifting) listUnits_def mset_map mset_sort mset_eq_imp_distinct_iff)
qed

end
