(* ===== verification/Finance_Types.thy ===== *)
theory Finance_Types
  imports Js_Number Building_Types
begin

text \<open>
  The data of the finance component: the enumerations and rows of the Finance section of
  \<^verbatim>\<open>src/prisma/schema.prisma\<close>, and the store that holds them.  Columns that no code
  of the component reads (\<open>updatedAt\<close>, and the surrogate keys of rows that are only
  ever found through their parent) are left out.
\<close>

section \<open>Enumerations\<close>

datatype fundType =
  FT_CURRENT | FT_RESERVE | FT_EMERGENCY | FT_RENOVATION | FT_INSURANCE | FT_CUSTOM

datatype fundAccountLinkType = BANK | CASH_LINK

datatype chargeKind =
  MONTHLY | RESERVE | REPAIR | EMERGENCY | INSURANCE | SPECIAL | OTHER

datatype chargeCalculationMethod = FIXED | AREA_BASED | MIXED

datatype chargeUnitScope = SCOPE_ALL | SCOPE_TYPE unitType | MANUAL

datatype chargePayerType = PT_OWNER | PT_TENANT | PT_RESIDENT

datatype lateFeeType = LF_FIXED | LF_PERCENTAGE

datatype chargeBatchStatus = DRAFT | ISSUED | CLOSED | CANCELLED

datatype chargeItemStatus = UNPAID | PARTIALLY_PAID | PAID

datatype paymentMethod = CASH | BANK_TRANSFER

datatype paymentStatus = PENDING_APPROVAL | APPROVED | REJECTED | REVERSED | REFUNDED

datatype paymentSelectionMode = LEGACY_AUTOMATIC | EXPLICIT_SELECTION

datatype reservationState = ACTIVE | APPLIED | RELEASED

datatype ledgerEntryType =
  CHARGE | PAYMENT | ADJUSTMENT | REFUND | CREDIT_APPLIED | REVERSAL | OPENING_BALANCE | EXPENSE

datatype ledgerDirection = DEBIT | CREDIT

datatype expenseCategory =
  EC_UTILITIES | EC_CLEANING | EC_MAINTENANCE | EC_REPAIR | EC_ELEVATOR | EC_SECURITY
  | EC_INSURANCE | EC_ADMINISTRATION | EC_OTHER

datatype expenseStatus = POSTED | VOIDED

text \<open>The two tags that system-made adjustments carry in \<open>sourceType\<close>.\<close>

datatype adjustmentSource = LATE_FEE | OPENING_BALANCE_CORRECTION

datatype ledgerReference = RefFund | RefChargeItem | RefChargeBatch | RefPayment | RefAdjustment
  | RefRefund | RefExpense

section \<open>Rows\<close>

record fund =
  fd_id :: id
  fd_buildingId :: id
  fd_name :: string
  fd_type :: fundType
  fd_description :: "string option"
  fd_isDefault :: bool
  fd_isActive :: bool
  fd_accountLinkType :: "fundAccountLinkType option"
  fd_accountReference :: "string option"
  fd_balance :: money
  fd_createdAt :: time

record chargeSeries =
  cs_id :: id
  cs_buildingId :: id
  cs_name :: string
  cs_isActive :: bool

record chargeBatch =
  cb_id :: id
  cb_buildingId :: id
  cb_fundId :: id
  cb_title :: string
  cb_description :: "string option"
  cb_calculationMethod :: chargeCalculationMethod
  cb_totalAmount :: money
  cb_status :: chargeBatchStatus
  cb_kind :: "chargeKind option"
  cb_seriesId :: "id option"
  cb_periodStart :: "time option"
  cb_periodEnd :: "time option"
  cb_dueDate :: "time option"
  cb_unitScope :: "chargeUnitScope option"
  cb_payerType :: "chargePayerType option"
  cb_lateFeeType :: "lateFeeType option"
  cb_lateFeeValue :: "int option"
  cb_lateFeeGraceDays :: "int option"
  cb_createdById :: id
  cb_issuedAt :: "time option"
  cb_cancelledAt :: "time option"
  cb_createdAt :: time

record chargeItem =
  ci_id :: id
  ci_chargeBatchId :: id
  ci_unitId :: id
  ci_amount :: money
  ci_paidAmount :: money
  ci_status :: chargeItemStatus
  ci_resolvedPayerType :: "chargePayerType option"
  ci_createdAt :: time

record chargeItemPayer =
  cp_chargeItemId :: id
  cp_personId :: id

record payment =
  pm_id :: id
  pm_buildingId :: id
  pm_unitId :: id
  pm_fundId :: id
  pm_payerId :: id
  pm_amount :: money
  pm_method :: paymentMethod
  pm_status :: paymentStatus
  pm_selectionMode :: paymentSelectionMode
  pm_idempotencyKey :: "string option"
  pm_reference :: "string option"
  pm_note :: "string option"
  pm_approvedById :: "id option"
  pm_approvedAt :: "time option"
  pm_rejectedReason :: "string option"
  pm_reversedAt :: "time option"
  pm_createdAt :: time

text \<open>
  A selection or an allocation targets exactly one of a charge item and an adjustment: a
  check constraint of the database for selections, two nullable columns in the schema.
\<close>

datatype obligation = CHARGE_ITEM id | ADJUSTMENT_OB id

record debtSelection =
  ds_paymentId :: id
  ds_target :: obligation
  ds_selectedAmount :: money
  ds_state :: "reservationState option"

record allocation =
  al_paymentId :: id
  al_target :: obligation
  al_amount :: money

record creditBalance =
  cr_unitId :: id
  cr_buildingId :: id
  cr_balance :: money

record ledgerEntry =
  le_id :: id
  le_buildingId :: id
  le_fundId :: id
  le_entryType :: ledgerEntryType
  le_direction :: ledgerDirection
  le_amount :: money
  le_referenceType :: ledgerReference
  le_referenceId :: id
  le_actorId :: "id option"
  le_createdAt :: time

record adjustment =
  aj_id :: id
  aj_unitId :: id
  aj_buildingId :: id
  aj_fundId :: id
  aj_amount :: money
  aj_paidAmount :: money
  aj_reason :: string
  aj_createdById :: id
  aj_createdAt :: time
  aj_sourceType :: "adjustmentSource option"
  aj_sourceId :: "id option"

record expense =
  ex_id :: id
  ex_buildingId :: id
  ex_fundId :: id
  ex_title :: string
  ex_description :: "string option"
  ex_category :: expenseCategory
  ex_amount :: money
  ex_occurredAt :: time
  ex_status :: expenseStatus
  ex_createdById :: id
  ex_voidedAt :: "time option"
  ex_voidedById :: "id option"
  ex_voidReason :: "string option"
  ex_idempotencyKey :: "string option"
  ex_createdAt :: time

record refund =
  rf_id :: id
  rf_paymentId :: id
  rf_unitId :: id
  rf_buildingId :: id
  rf_amount :: money
  rf_reason :: string
  rf_createdById :: id
  rf_createdAt :: time

section \<open>The store\<close>

text \<open>
  The tables, each in insertion order.  \<open>fin_ids\<close> is the supply of identifiers the
  database's generator will hand out (\<open>cuid()\<close>), \<open>fin_next\<close> how many it has handed
  out; that it never repeats one is the documented behaviour of the generator and appears
  as the clause \<open>inj (fin_ids d)\<close> of the store's invariant.
\<close>

record fin_db =
  funds :: "fund list"
  seriesRows :: "chargeSeries list"
  batches :: "chargeBatch list"
  items :: "chargeItem list"
  itemPayers :: "chargeItemPayer list"
  payments :: "payment list"
  selections :: "debtSelection list"
  allocations :: "allocation list"
  credits :: "creditBalance list"
  ledger :: "ledgerEntry list"
  adjustments :: "adjustment list"
  expenses :: "expense list"
  refunds :: "refund list"
  fin_ids :: "nat \<Rightarrow> id"
  fin_next :: nat

definition empty_fin :: "(nat \<Rightarrow> id) \<Rightarrow> fin_db" where
  "empty_fin supply = \<lparr>funds = [], seriesRows = [], batches = [], items = [], itemPayers = [],
     payments = [], selections = [], allocations = [], credits = [], ledger = [],
     adjustments = [], expenses = [], refunds = [], fin_ids = supply, fin_next = 0\<rparr>"

text \<open>The identifier the next created row gets.\<close>

definition fresh_id :: "fin_db \<Rightarrow> id" where
  "fresh_id d = fin_ids d (fin_next d)"

definition take_id :: "fin_db \<Rightarrow> fin_db" where
  "take_id d = d\<lparr>fin_next := Suc (fin_next d)\<rparr>"

text \<open>
  Integer columns are 32-bit signed.  A statement that would store a value outside fails
  and takes its transaction with it; since amounts only ever move in one direction inside
  a transaction, checking the tables at commit is the same as checking every statement.
\<close>

definition int4 :: "int \<Rightarrow> bool" where
  "int4 n \<longleftrightarrow> - (2 ^ 31) \<le> n \<and> n < 2 ^ 31"

definition int4_ok :: "fin_db \<Rightarrow> bool" where
  "int4_ok d \<longleftrightarrow>
     list_all (\<lambda>f. int4 (fd_balance f)) (funds d) \<and>
     list_all (\<lambda>b. int4 (cb_totalAmount b)) (batches d) \<and>
     list_all (\<lambda>i. int4 (ci_amount i) \<and> int4 (ci_paidAmount i)) (items d) \<and>
     list_all (\<lambda>p. int4 (pm_amount p)) (payments d) \<and>
     list_all (\<lambda>s. int4 (ds_selectedAmount s)) (selections d) \<and>
     list_all (\<lambda>a. int4 (al_amount a)) (allocations d) \<and>
     list_all (\<lambda>c. int4 (cr_balance c)) (credits d) \<and>
     list_all (\<lambda>l. int4 (le_amount l)) (ledger d) \<and>
     list_all (\<lambda>a. int4 (aj_amount a) \<and> int4 (aj_paidAmount a)) (adjustments d) \<and>
     list_all (\<lambda>e. int4 (ex_amount e)) (expenses d) \<and>
     list_all (\<lambda>r. int4 (rf_amount r)) (refunds d)"

text \<open>\<open>prisma.$transaction\<close>: the body's writes are kept only when it returns.\<close>

definition transaction :: "(fin_db, 'a) tx \<Rightarrow> (fin_db, 'a) tx" where
  "transaction body d =
     (case body d of
        Inl e \<Rightarrow> Inl e
      | Inr (a, d') \<Rightarrow> if int4_ok d' then Inr (a, d') else Inl (PrismaError STR ''22003''))"

lemma transaction_Inr_iff [effect_simps]:
  "transaction body d = Inr (a, d') \<longleftrightarrow> body d = Inr (a, d') \<and> int4_ok d'"
  by (auto simp: transaction_def split: sum.splits prod.splits if_splits)

end
