(* ===== verification/Finance_Policies.thy ===== *)
theory Finance_Policies
  imports Finance_Types
begin

text \<open>
  The finance policies (\<^verbatim>\<open>src/src/modules/finance/domain/policies\<close>): pure
  assertions that either pass or throw.  Each \<open>assertX\<close> is a value of type
  \<open>unit result\<close>, with the source's checks in the source's order.
\<close>

section \<open>The request that creates a charge batch\<close>

text \<open>A date string together with the instant \<open>new Date\<close> reads from it, if any.\<close>

datatype dateString = DateString (dt_text: string) (dt_time: "time option")

text \<open>\<open>CreateChargeBatchDto\<close>.\<close>

record createChargeBatchDto =
  dto_chargeKind :: "chargeKind option"
  dto_seriesId :: "id option"
  dto_fundId :: "id option"
  dto_title :: string
  dto_description :: "string option"
  dto_calculationMethod :: chargeCalculationMethod
  dto_amountPerUnit :: "money option"
  dto_ratePerSqm :: "money option"
  dto_totalAmount :: "money option"
  dto_items :: "(id \<times> money) list option"
  dto_periodStart :: "dateString option"
  dto_periodEnd :: "dateString option"
  dto_dueDate :: "dateString option"
  dto_unitScope :: "chargeUnitScope option"
  dto_unitIds :: "id list option"
  dto_payerType :: "chargePayerType option"
  dto_lateFeeType :: "lateFeeType option"
  dto_lateFeeValue :: "int option"
  dto_lateFeeGraceDays :: "int option"

section \<open>Truthiness\<close>

text \<open>\<open>!x\<close> for an optional number and for an optional string.\<close>

definition falsy_num :: "int option \<Rightarrow> bool" where
  "falsy_num x \<longleftrightarrow> x = None \<or> x = Some 0"

definition falsy_str :: "string option \<Rightarrow> bool" where
  "falsy_str x \<longleftrightarrow> x = None \<or> x = Some []"

definition falsy_date :: "dateString option \<Rightarrow> bool" where
  "falsy_date x = falsy_str (map_option dt_text x)"

definition the_num :: "int option \<Rightarrow> int" where
  "the_num x = (case x of Some n \<Rightarrow> n | None \<Rightarrow> 0)"

section \<open>ChargePolicy\<close>

text \<open>The UTC clock fields of an instant.\<close>

definition utcHours :: "time \<Rightarrow> int" where "utcHours t = t div 3600000 mod 24"
definition utcMinutes :: "time \<Rightarrow> int" where "utcMinutes t = t div 60000 mod 60"
definition utcSeconds :: "time \<Rightarrow> int" where "utcSeconds t = t div 1000 mod 60"
definition utcMilliseconds :: "time \<Rightarrow> int" where "utcMilliseconds t = t mod 1000"

definition periodBoundary :: "dateString \<Rightarrow> bool" where
  "periodBoundary p = (case dt_time p of
      None \<Rightarrow> False
    | Some t \<Rightarrow> utcHours t = 0 \<and> utcMinutes t = 0 \<and> utcSeconds t = 0 \<and> utcMilliseconds t = 0)"

definition assertValidClassification :: "createChargeBatchDto \<Rightarrow> unit result" where
  "assertValidClassification d =
     (case dto_chargeKind d of
        None \<Rightarrow>
          assert_r (dto_seriesId d = None)
            (BusinessRuleViolationError STR ''seriesId requires an explicit chargeKind.'')
      | Some MONTHLY \<Rightarrow>
          bind_r (assert_r (\<not> falsy_str (dto_seriesId d))
            (BusinessRuleViolationError STR ''A MONTHLY charge requires seriesId.'')) (\<lambda>_.
          bind_r (assert_r (\<not> falsy_date (dto_periodStart d))
            (BusinessRuleViolationError STR ''A MONTHLY charge requires periodStart.'')) (\<lambda>_.
          assert_r (case dto_periodStart d of Some p \<Rightarrow> periodBoundary p | None \<Rightarrow> False)
            (BusinessRuleViolationError STR ''periodStart must be the canonical UTC boundary'')))
      | Some _ \<Rightarrow>
          assert_r (dto_seriesId d = None \<and> dto_periodStart d = None)
            (BusinessRuleViolationError
              STR ''seriesId and periodStart are only allowed for MONTHLY charges.''))"

definition assertValidUnitScopeInputs :: "chargeUnitScope option \<Rightarrow> id list option \<Rightarrow> unit result" where
  "assertValidUnitScopeInputs scope ids =
     (if scope \<noteq> Some MANUAL then Inr ()
      else case ids of
        None \<Rightarrow> Inl (BusinessRuleViolationError STR ''unitScope MANUAL requires a non-empty unitIds array.'')
      | Some us \<Rightarrow>
          bind_r (assert_r (us \<noteq> [])
            (BusinessRuleViolationError STR ''unitScope MANUAL requires a non-empty unitIds array.'')) (\<lambda>_.
          assert_r (length (remdups us) = length us)
            (BusinessRuleViolationError STR ''unitIds must not contain duplicates.'')))"

text \<open>
  The FIXED and AREA_BASED branches are the same check over the legacy field of the
  method (\<open>amountPerUnit\<close>, \<open>ratePerSqm\<close>), with messages that name it.
\<close>

definition assertTotalOrLegacy ::
  "money option \<Rightarrow> money option \<Rightarrow> msg \<Rightarrow> msg \<Rightarrow> msg \<Rightarrow> unit result" where
  "assertTotalOrLegacy tot legacy both badTotal badLegacy =
     (if tot \<noteq> None \<and> legacy \<noteq> None then Inl (BusinessRuleViolationError both)
      else if tot \<noteq> None then
        assert_r (\<not> (falsy_num tot \<or> the_num tot \<le> 0)) (BusinessRuleViolationError badTotal)
      else assert_r (\<not> (falsy_num legacy \<or> the_num legacy \<le> 0))
        (BusinessRuleViolationError badLegacy))"

definition assertValidCalculationInputs :: "createChargeBatchDto \<Rightarrow> unit result" where
  "assertValidCalculationInputs d =
     (let method = dto_calculationMethod d in
      bind_r (assert_r (\<not> (method = MIXED \<and> (dto_unitScope d \<noteq> None \<or> dto_unitIds d \<noteq> None)))
        (BusinessRuleViolationError STR ''unitScope/unitIds cannot be combined with MIXED'')) (\<lambda>_.
      bind_r (assert_r (\<not> (method = MIXED \<and> dto_totalAmount d \<noteq> None))
        (BusinessRuleViolationError STR ''totalAmount cannot be combined with MIXED'')) (\<lambda>_.
      case method of
        FIXED \<Rightarrow>
          bind_r (assertTotalOrLegacy (dto_totalAmount d) (dto_amountPerUnit d)
            STR ''Send exactly one of totalAmount or the legacy amountPerUnit for a FIXED charge batch, not both.''
            STR ''A FIXED charge batch requires a positive totalAmount.''
            STR ''A FIXED charge batch requires either a positive totalAmount or the legacy amountPerUnit.'')
            (\<lambda>_. assertValidUnitScopeInputs (dto_unitScope d) (dto_unitIds d))
      | AREA_BASED \<Rightarrow>
          bind_r (assertTotalOrLegacy (dto_totalAmount d) (dto_ratePerSqm d)
            STR ''Send exactly one of totalAmount or the legacy ratePerSqm for an AREA_BASED charge batch, not both.''
            STR ''An AREA_BASED charge batch requires a positive totalAmount.''
            STR ''An AREA_BASED charge batch requires either a positive totalAmount or the legacy ratePerSqm.'')
            (\<lambda>_. assertValidUnitScopeInputs (dto_unitScope d) (dto_unitIds d))
      | MIXED \<Rightarrow>
          (case dto_items d of
             None \<Rightarrow> Inl (BusinessRuleViolationError STR ''A MIXED charge batch requires at least one explicit item.'')
           | Some its \<Rightarrow>
               bind_r (assert_r (its \<noteq> [])
                 (BusinessRuleViolationError STR ''A MIXED charge batch requires at least one explicit item.'')) (\<lambda>_.
               assert_r (\<not> list_ex (\<lambda>i. snd i \<le> 0) its)
                 (BusinessRuleViolationError STR ''Every MIXED charge item amount must be positive.''))))))"

definition assertUnitsBelongToBuilding :: "id list \<Rightarrow> id set \<Rightarrow> unit result" where
  "assertUnitsBelongToBuilding unitIds valid =
     assert_r (filter (\<lambda>u. u \<notin> valid) unitIds = [])
       (BusinessRuleViolationError STR ''One or more selected units do not belong to this building'')"

text \<open>
  Late fees.  \<open>addDays\<close> is \<open>Date.setDate(getDate() + n)\<close> in the server's
  time zone, which is the environment's.  The result is the fee when the item is
  eligible, \<open>None\<close> where the source returns null.
\<close>

record lateFeeParams =
  lf_batchStatus :: chargeBatchStatus
  lf_type :: "lateFeeType option"
  lf_value :: "int option"
  lf_graceDays :: "int option"
  lf_dueDate :: "time option"
  lf_now :: time
  lf_itemAmount :: money
  lf_itemPaidAmount :: money
  lf_alreadyApplied :: bool

definition lateFeeAmount :: "lateFeeType \<Rightarrow> int \<Rightarrow> money \<Rightarrow> money" where
  "lateFeeAmount t v itemAmount =
     (case t of
        LF_FIXED \<Rightarrow> v
      | LF_PERCENTAGE \<Rightarrow> js_round (js_div (js_mul (of_int itemAmount) (of_int v)) 100))"

definition computeLateFeeEligibility ::
  "(time \<Rightarrow> int \<Rightarrow> time) \<Rightarrow> lateFeeParams \<Rightarrow> money option" where
  "computeLateFeeEligibility addDays p =
     (if lf_batchStatus p \<noteq> ISSUED then None
      else case lf_type p of None \<Rightarrow> None
      | Some t \<Rightarrow>
        if falsy_num (lf_value p) then None
        else case lf_dueDate p of None \<Rightarrow> None
        | Some due \<Rightarrow>
          if lf_alreadyApplied p then None
          else if lf_itemAmount p - lf_itemPaidAmount p \<le> 0 then None
          else if lf_now p < addDays due (the_num (lf_graceDays p)) then None
          else Some (lateFeeAmount t (the_num (lf_value p)) (lf_itemAmount p)))"

definition assertIssuable :: "chargeBatchStatus \<Rightarrow> money \<Rightarrow> unit result" where
  "assertIssuable status totalAmount =
     bind_r (assert_r (status = DRAFT)
       (BusinessRuleViolationError STR ''Only a DRAFT charge batch can be issued.'')) (\<lambda>_.
     assert_r (\<not> totalAmount \<le> 0)
       (BusinessRuleViolationError STR ''A charge batch with no charge items cannot be issued.''))"

definition assertCancellable :: "chargeBatchStatus \<Rightarrow> bool \<Rightarrow> unit result" where
  "assertCancellable status hasAnyPaidAmount =
     bind_r (assert_r (\<not> (status = CLOSED \<or> status = CANCELLED))
       (BusinessRuleViolationError STR ''This charge batch cannot be cancelled again.'')) (\<lambda>_.
     assert_r (\<not> hasAnyPaidAmount)
       (BusinessRuleViolationError
         STR ''This charge batch has payments already applied to it and cannot be cancelled.''))"

definition assertValidAdjustmentAmount :: "money \<Rightarrow> unit result" where
  "assertValidAdjustmentAmount amount =
     assert_r (amount \<noteq> 0) (BusinessRuleViolationError STR ''An adjustment amount must be non-zero.'')"

section \<open>FundPolicy, PaymentPolicy, ExpensePolicy\<close>

definition assertDeactivatable :: "bool \<Rightarrow> unit result" where
  "assertDeactivatable isDefault =
     assert_r (\<not> isDefault) (BusinessRuleViolationError STR ''The default fund cannot be deactivated.'')"

definition assertActive :: "bool \<Rightarrow> unit result" where
  "assertActive isActive =
     assert_r isActive
       (BusinessRuleViolationError STR ''This fund is deactivated and cannot be modified.'')"

definition assertPositiveAmount :: "money \<Rightarrow> unit result" where
  "assertPositiveAmount amount =
     assert_r (\<not> (amount = 0 \<or> amount \<le> 0))
       (BusinessRuleViolationError STR ''A payment amount must be positive.'')"

definition assertPending :: "paymentStatus \<Rightarrow> unit result" where
  "assertPending status =
     assert_r (status = PENDING_APPROVAL)
       (BusinessRuleViolationError STR ''This payment has already been resolved.'')"

definition assertReversible :: "paymentStatus \<Rightarrow> unit result" where
  "assertReversible status =
     assert_r (status = APPROVED)
       (BusinessRuleViolationError STR ''Only an APPROVED payment can be reversed.'')"

definition assertRefundable :: "paymentStatus \<Rightarrow> money \<Rightarrow> money \<Rightarrow> bool \<Rightarrow> unit result" where
  "assertRefundable status refundAmount paymentAmount alreadyRefunded =
     bind_r (assert_r (status = APPROVED)
       (BusinessRuleViolationError STR ''Only an APPROVED payment can be refunded.'')) (\<lambda>_.
     bind_r (assert_r (\<not> alreadyRefunded)
       (BusinessRuleViolationError STR ''This payment has already been refunded.'')) (\<lambda>_.
     bind_r (assert_r (\<not> (refundAmount = 0 \<or> refundAmount \<le> 0))
       (BusinessRuleViolationError STR ''A refund amount must be positive.'')) (\<lambda>_.
     assert_r (\<not> refundAmount > paymentAmount)
       (BusinessRuleViolationError STR ''A refund cannot exceed the original payment amount.''))))"

definition assertValidAmount :: "money \<Rightarrow> unit result" where
  "assertValidAmount amount =
     assert_r (\<not> amount \<le> 0)
       (BusinessRuleViolationError STR ''An expense amount must be a positive integer.'')"

definition assertSufficientFundBalance :: "money \<Rightarrow> money \<Rightarrow> unit result" where
  "assertSufficientFundBalance fundBalance amount =
     assert_r (\<not> fundBalance < amount)
       (BusinessRuleViolationError STR ''This expense's amount exceeds the fund's current balance.'')"

definition assertVoidable :: "expenseStatus \<Rightarrow> unit result" where
  "assertVoidable status =
     assert_r (status \<noteq> VOIDED)
       (BusinessRuleViolationError STR ''This expense has already been voided.'')"

section \<open>ChargeFundAlignmentPolicy\<close>

definition newChargeKindOrder :: "chargeKind list" where
  "newChargeKindOrder = [MONTHLY, RESERVE, REPAIR, EMERGENCY, INSURANCE, OTHER]"

fun compatibleFundTypes :: "chargeKind \<Rightarrow> fundType list" where
  "compatibleFundTypes SPECIAL = []"
| "compatibleFundTypes MONTHLY = [FT_CURRENT]"
| "compatibleFundTypes RESERVE = [FT_RESERVE]"
| "compatibleFundTypes REPAIR = [FT_RENOVATION]"
| "compatibleFundTypes EMERGENCY = [FT_EMERGENCY]"
| "compatibleFundTypes INSURANCE = [FT_INSURANCE]"
| "compatibleFundTypes OTHER = [FT_CUSTOM]"

definition isFundCompatible :: "chargeKind \<Rightarrow> fundType \<Rightarrow> bool" where
  "isFundCompatible k t \<longleftrightarrow> t \<in> set (compatibleFundTypes k)"

definition assertSupportedForNewCreation :: "chargeKind \<Rightarrow> unit result" where
  "assertSupportedForNewCreation k =
     assert_r (k \<noteq> SPECIAL) (DeprecatedChargeKindError
       STR ''SPECIAL is a legacy charge type and cannot be used for new charges.'')"

definition assertFundCompatible :: "chargeKind \<Rightarrow> fundType \<Rightarrow> unit result" where
  "assertFundCompatible k t =
     bind_r (assertSupportedForNewCreation k) (\<lambda>_.
     assert_r (isFundCompatible k t) (IncompatibleChargeFundError
       STR ''The selected fund is not compatible with this charge type.''))"

section \<open>What the policies decide\<close>

lemmas policy_defs =
  assertIssuable_def assertCancellable_def assertValidAdjustmentAmount_def assertDeactivatable_def
  assertActive_def assertPositiveAmount_def assertPending_def assertReversible_def
  assertRefundable_def assertValidAmount_def assertSufficientFundBalance_def assertVoidable_def
  assertSupportedForNewCreation_def assertFundCompatible_def assertUnitsBelongToBuilding_def

text \<open>The canonical period boundary is exactly a whole number of UTC days.\<close>

lemma periodBoundary_iff:
  "periodBoundary p \<longleftrightarrow> (\<exists>t. dt_time p = Some t \<and> t mod 86400000 = 0)"
proof -
  have step: "t mod (m * n) = 0 \<longleftrightarrow> t div m mod n = 0 \<and> t mod m = 0" if "0 < m" "0 < n" for t m n :: int
  proof -
    have "t mod (m * n) = m * (t div m mod n) + t mod m" using that by (simp add: zmod_zmult2_eq)
    moreover have "0 \<le> m * (t div m mod n)" "0 \<le> t mod m" using that by simp_all
    ultimately show ?thesis using that by (auto simp: add_nonneg_eq_0_iff)
  qed
  have "(t div 3600000 mod 24 = 0 \<and> t div 60000 mod 60 = 0 \<and> t div 1000 mod 60 = 0 \<and> t mod 1000 = 0) \<longleftrightarrow>
      t mod 86400000 = 0" for t :: int
    using step [of 1000 60 t] step [of 60000 60 t] step [of 3600000 24 t] by simp
  then show ?thesis
    by (auto simp: periodBoundary_def utcHours_def utcMinutes_def utcSeconds_def
        utcMilliseconds_def split: option.splits)
qed

text \<open>Two charge kinds never share a fund type, and every fund type has one kind.\<close>

lemma compatible_kind_unique:
  "isFundCompatible k t \<Longrightarrow> isFundCompatible k' t \<Longrightarrow> k = k'"
  by (cases k; cases k') (auto simp: isFundCompatible_def)

lemma compatible_kind_exists: "\<exists>k \<in> set newChargeKindOrder. isFundCompatible k t"
  by (cases t) (auto simp: isFundCompatible_def newChargeKindOrder_def)

text \<open>A request that passes names one positive figure for the method.\<close>

lemma valid_inputs_FIXED:
  assumes "assertValidCalculationInputs d = Inr ()" "dto_calculationMethod d = FIXED"
  shows "(\<exists>n>0. dto_totalAmount d = Some n \<and> dto_amountPerUnit d = None) \<or>
    (\<exists>n>0. dto_amountPerUnit d = Some n \<and> dto_totalAmount d = None)"
  using assms
  by (auto simp: assertValidCalculationInputs_def assertTotalOrLegacy_def effect_simps
      falsy_num_def the_num_def split: if_splits option.splits)

lemma valid_inputs_AREA:
  assumes "assertValidCalculationInputs d = Inr ()" "dto_calculationMethod d = AREA_BASED"
  shows "(\<exists>n>0. dto_totalAmount d = Some n \<and> dto_ratePerSqm d = None) \<or>
    (\<exists>n>0. dto_ratePerSqm d = Some n \<and> dto_totalAmount d = None)"
  using assms
  by (auto simp: assertValidCalculationInputs_def assertTotalOrLegacy_def effect_simps
      falsy_num_def the_num_def split: if_splits option.splits)

lemma valid_inputs_MIXED:
  assumes "assertValidCalculationInputs d = Inr ()" "dto_calculationMethod d = MIXED"
  shows "\<exists>its. dto_items d = Some its \<and> its \<noteq> [] \<and> (\<forall>i\<in>set its. 0 < snd i)"
  using assms
  by (auto simp: assertValidCalculationInputs_def effect_simps list_ex_iff not_le
      split: option.splits)

section \<open>Late fees\<close>

lemma half_representable:
  assumes "0 < n" "n \<le> 2 ^ 53"
  shows "fl (of_int n / 2) = of_int n / 2"
proof -
  let ?x = "of_int n :: rat"
  have x: "0 < ?x" using assms by simp
  have "expo (?x / 2) = expo ?x - 1"
  proof -
    have "\<not> expo (?x / 2) < expo ?x - 1"
    proof
      assume "expo (?x / 2) < expo ?x - 1"
      then have "(2::rat) powi (expo (?x / 2) + 1) \<le> 2 powi (expo ?x - 1)"
        by (intro power_int_increasing) auto
      moreover have "(2::rat) powi (expo ?x - 1) = 2 powi expo ?x / 2" by (subst power_int_diff) auto
      ultimately show False using expo_bounds [OF x] expo_bounds [of "?x / 2"] x by linarith
    qed
    moreover have "\<not> expo ?x - 1 < expo (?x / 2)"
    proof
      assume "expo ?x - 1 < expo (?x / 2)"
      then have "(2::rat) powi (expo ?x + 1 - 1) \<le> 2 powi expo (?x / 2)"
        by (intro power_int_increasing) auto
      moreover have "(2::rat) powi (expo ?x + 1 - 1) = 2 powi (expo ?x + 1) / 2"
        by (subst power_int_diff) auto
      ultimately show False using expo_bounds [OF x] expo_bounds [of "?x / 2"] x by linarith
    qed
    ultimately show ?thesis by linarith
  qed
  moreover have "(2::rat) powi (expo ?x - 1 - 52) = 2 powi (expo ?x - 52) / 2"
  proof -
    have "expo ?x - 1 - 52 = (expo ?x - 52) - 1" by simp
    then show ?thesis by (simp only: power_int_diff) (simp add: power_int_diff)
  qed
  ultimately have e: "2 powi (expo (?x / 2) - 52) = (2 powi (expo ?x - 52) / 2 :: rat)" by simp
  have "fl_pos (?x / 2) = fl_pos ?x / 2" by (simp add: fl_pos_def Let_def e del: power_int_numeral)
  then show ?thesis using fl_pos_of_int [OF assms] x by (simp add: fl_def)
qed

text \<open>
  A percentage fee is the exact percentage rounded half up, as long as the product of
  the amount and the rate is exactly representable.
\<close>

lemma lateFeeAmount_percentage:
  assumes "0 < a" "0 < v" "a * v < 2 ^ 52"
  shows "lateFeeAmount LF_PERCENTAGE v a = (a * v + 50) div 100"
proof -
  define N where "N = a * v"
  let ?x = "of_int N / 100 :: rat" and ?k = "(N + 50) div 100"
  have N: "0 < N" "N < 2 ^ 52" using assms by (simp_all add: N_def)
  have N': "(of_int N :: rat) < 2 ^ 52"
    using N(2) by (metis of_int_less_iff of_int_numeral of_int_power)
  have mul: "js_mul (of_int a) (of_int v) = of_int N"
    using fl_of_int [of N] N by (simp add: js_mul_def N_def)
  have bounds: "100 * ?k \<le> N + 50" "N + 50 \<le> 100 * ?k + 99" by linarith+
  then have "(of_int (100 * ?k) :: rat) \<le> of_int (N + 50)"
    "(of_int (N + 50) :: rat) \<le> of_int (100 * ?k + 99)" by (simp_all only: of_int_le_iff)
  then have lo: "of_int ?k - 1 / 2 \<le> ?x" and up: "?x \<le> of_int ?k + 1 / 2 - 1 / 100" by simp_all
  have "fl ?x < of_int ?k + 1 / 2"
  proof -
    have "fl ?x \<le> ?x + ulp * ?x" using fl_bounds(2) [of ?x] N by (simp only: distrib_right mult_1_left)
    moreover have "ulp * ?x < 1 / 100" using N' by (simp add: ulp_def)
    ultimately show ?thesis using up by linarith
  qed
  moreover have "of_int ?k - 1 / 2 \<le> fl ?x"
  proof (cases "?k \<le> 0")
    case True
    then have "(of_int ?k :: rat) \<le> 0" by simp
    moreover have "0 \<le> fl ?x" using N by (intro fl_nonneg) simp
    ultimately show ?thesis by linarith
  next
    case False
    have "(2::int) ^ 53 = 2 * 2 ^ 52" by simp
    with False have k: "0 < 2 * ?k - 1" "2 * ?k - 1 \<le> 2 ^ 53" using bounds N by linarith+
    have e: "of_int (2 * ?k - 1) / 2 = (of_int ?k - 1 / 2 :: rat)" by simp
    have "fl (of_int ?k - 1 / 2) = of_int ?k - 1 / 2"
      using half_representable [OF k] unfolding e .
    moreover have "fl (of_int ?k - 1 / 2) \<le> fl ?x"
      using lo k by (intro fl_mono) (auto simp flip: e)
    ultimately show ?thesis by simp
  qed
  ultimately have "js_round (fl ?x) = ?k" by (simp add: js_round_def floor_eq_iff)
  then show ?thesis by (simp add: lateFeeAmount_def mul js_div_def N_def)
qed

end
