(* ===== verification/Charge_Allocation.thy ===== *)
theory Charge_Allocation
  imports Finance_Policies
begin

text \<open>
  How one total is divided over the units of a building: \<open>allocateEqually\<close> and
  \<open>allocateByArea\<close> of \<^verbatim>\<open>finance.service.ts\<close>.  Both must hand out exactly the
  total.  For the area shares, which the source computes in floating point, the proof
  goes through the rounding errors of the sum of the areas and of every share.
\<close>

section \<open>Equal shares\<close>

text \<open>
  With no unit the source divides by zero and maps over an empty list; the result is the
  empty list either way.
\<close>

definition allocateEqually :: "money \<Rightarrow> id list \<Rightarrow> (id \<times> money) list" where
  "allocateEqually totalAmount unitIds =
     (let n = int (length unitIds);
          base = js_floor (js_div (of_int totalAmount) (of_int n));
          remainder = totalAmount - base * n
      in map (\<lambda>(index, unitId). (unitId, if int index < remainder then base + 1 else base))
           (enumerate 0 unitIds))"

lemma map_snd_of_enumerate: "map (\<lambda>p. f (snd p)) (enumerate k xs) = map f xs"
  by (induction xs arbitrary: k) auto

lemma sum_first_bonus:
  "sum_of (\<lambda>p. if int (fst p) < r then b + 1 else b) (enumerate k xs) =
    b * int (length xs) + max 0 (min (int (length xs)) (r - int k))"
proof (induction xs arbitrary: k)
  case Nil
  then show ?case by simp
next
  case (Cons x xs)
  show ?case using Cons.IH [of "Suc k"] by (auto simp: algebra_simps)
qed

lemma allocateEqually_base:
  assumes "0 \<le> t" "t < 2 ^ 53" "ids \<noteq> []"
  shows "js_floor (js_div (of_int t) (of_int (int (length ids)))) = t div int (length ids)"
  using assms by (intro floor_js_div) auto

lemma allocateEqually_total:
  assumes "0 \<le> t" "t < 2 ^ 53" "ids \<noteq> []"
  shows "sum_of snd (allocateEqually t ids) = t"
proof -
  let ?n = "int (length ids)"
  define b where "b = t div ?n"
  have n: "0 < ?n" using assms by simp
  have split: "t = b * ?n + t mod ?n" by (simp add: b_def)
  then have r: "t - b * ?n = t mod ?n" by linarith
  have "sum_of snd (allocateEqually t ids) =
      sum_of (\<lambda>p. if int (fst p) < t mod ?n then b + 1 else b) (enumerate 0 ids)"
    using allocateEqually_base [OF assms] r
    by (simp add: allocateEqually_def Let_def b_def [symmetric] sum_of_def comp_def case_prod_beta
        cong: if_cong)
  also have "\<dots> = b * ?n + t mod ?n"
    using n pos_mod_bound [of ?n t] pos_mod_sign [of ?n t] by (simp add: sum_first_bonus)
  finally show ?thesis using split by simp
qed

lemma allocateEqually_units: "map fst (allocateEqually t ids) = ids"
  by (simp add: allocateEqually_def Let_def comp_def case_prod_beta)

lemma allocateEqually_fair:
  assumes "0 \<le> t" "t < 2 ^ 53" "(u, a) \<in> set (allocateEqually t ids)"
  shows "a = t div int (length ids) \<or> a = t div int (length ids) + 1"
proof -
  have "ids \<noteq> []" using assms(3) by (auto simp: allocateEqually_def)
  with assms show ?thesis
    using allocateEqually_base [of t ids]
    by (auto simp: allocateEqually_def Let_def split: if_splits)
qed

section \<open>Shares by area\<close>

record share =
  sh_unitId :: id
  sh_index :: nat
  sh_floorAmount :: money
  sh_fraction :: rat

text \<open>\<open>reduce((sum, u) => sum + u.areaSqm, 0)\<close> in floating point.\<close>

definition totalAreaOf :: "(id \<times> rat) list \<Rightarrow> rat" where
  "totalAreaOf units = foldl (\<lambda>s u. js_add s (snd u)) 0 units"

definition exactShare :: "money \<Rightarrow> rat \<Rightarrow> rat \<Rightarrow> rat" where
  "exactShare totalAmount totalArea area = js_div (js_mul (of_int totalAmount) area) totalArea"

definition sharesOf :: "money \<Rightarrow> (id \<times> rat) list \<Rightarrow> share list" where
  "sharesOf totalAmount units =
     (let totalArea = totalAreaOf units
      in map (\<lambda>(index, unitId, area).
           let exact = exactShare totalAmount totalArea area; floorAmount = js_floor exact
           in \<lparr>sh_unitId = unitId, sh_index = index, sh_floorAmount = floorAmount,
               sh_fraction = js_sub exact (of_int floorAmount)\<rparr>)
         (enumerate 0 units))"

text \<open>\<open>slice(0, k)\<close>: a negative end counts from the end of the array.\<close>

definition slice_to :: "int \<Rightarrow> 'a list \<Rightarrow> 'a list" where
  "slice_to k xs = (if 0 \<le> k then take (nat k) xs else take (length xs - nat (- k)) xs)"

definition allocateByArea :: "money \<Rightarrow> (id \<times> rat) list \<Rightarrow> (id \<times> money) list" where
  "allocateByArea totalAmount units =
     (let shares = sharesOf totalAmount units;
          allocated = sum_of sh_floorAmount shares;
          leftover = totalAmount - allocated;
          byRemainderDesc = sort_key (\<lambda>s. (- sh_fraction s, sh_index s)) shares;
          bonusUnitIds = set (map sh_unitId (slice_to leftover byRemainderDesc))
      in map (\<lambda>s. (sh_unitId s, sh_floorAmount s + (if sh_unitId s \<in> bonusUnitIds then 1 else 0)))
           shares)"

lemma sharesOf_unitIds: "map sh_unitId (sharesOf t units) = map fst units"
  by (simp add: sharesOf_def Let_def comp_def case_prod_beta map_snd_of_enumerate)

lemma length_sharesOf [simp]: "length (sharesOf t units) = length units"
  by (simp add: sharesOf_def Let_def)

lemma sum_of_floorAmount:
  "sum_of sh_floorAmount (sharesOf t units) =
    sum_of (\<lambda>u. js_floor (exactShare t (totalAreaOf units) (snd u))) units"
  by (simp add: sum_of_def sharesOf_def Let_def comp_def case_prod_beta map_snd_of_enumerate
      map_snd_of_enumerate [where f = "\<lambda>u. js_floor (exactShare t (totalAreaOf units) (snd u))"])

subsection \<open>Counting the extra Rials\<close>

lemma sum_of_indicator:
  "distinct (map f xs) \<Longrightarrow>
    sum_of (\<lambda>x. if f x \<in> B then 1 else 0) xs = int (card (B \<inter> f ` set xs))"
proof (induction xs)
  case Nil
  then show ?case by simp
next
  case (Cons x xs)
  have "B \<inter> f ` set (x # xs) = (if f x \<in> B then insert (f x) (B \<inter> f ` set xs) else B \<inter> f ` set xs)"
    by auto
  with Cons show ?case by auto
qed

lemma byArea_total_when_leftover_fits:
  assumes "distinct (map fst units)"
    and "0 \<le> t - sum_of sh_floorAmount (sharesOf t units)"
    and "t - sum_of sh_floorAmount (sharesOf t units) \<le> int (length units)"
  shows "sum_of snd (allocateByArea t units) = t"
proof -
  let ?sh = "sharesOf t units" and ?k = "t - sum_of sh_floorAmount (sharesOf t units)"
  let ?srt = "sort_key (\<lambda>s. (- sh_fraction s, sh_index s)) ?sh"
  let ?B = "set (map sh_unitId (slice_to ?k ?srt))"
  have dist: "distinct (map sh_unitId ?sh)" using assms(1) by (simp add: sharesOf_unitIds)
  have "mset (map sh_unitId ?srt) = mset (map sh_unitId ?sh)" by (simp add: mset_map)
  with dist have dsrt: "distinct (map sh_unitId ?srt)" by (metis mset_eq_imp_distinct_iff)
  have sl: "slice_to ?k ?srt = take (nat ?k) ?srt" using assms(2) by (simp add: slice_to_def)
  have "distinct (take (nat ?k) (map sh_unitId ?srt))" using dsrt by (rule distinct_take)
  then have "card ?B = length (take (nat ?k) (map sh_unitId ?srt))"
    unfolding sl take_map by (rule distinct_card)
  then have cardB: "int (card ?B) = ?k" using assms(2,3) by simp
  have "?B \<subseteq> sh_unitId ` set ?sh" unfolding sl by (auto dest: in_set_takeD)
  then have "?B \<inter> sh_unitId ` set ?sh = ?B" by blast
  then have ind: "sum_of (\<lambda>s. if sh_unitId s \<in> ?B then 1 else 0) ?sh = ?k"
    using sum_of_indicator [OF dist, of ?B] cardB by simp
  have "sum_of snd (allocateByArea t units) =
      sum_of (\<lambda>s. sh_floorAmount s + (if sh_unitId s \<in> ?B then 1 else 0)) ?sh"
    by (simp add: allocateByArea_def Let_def sum_of_def comp_def)
  also have "\<dots> = sum_of sh_floorAmount ?sh + sum_of (\<lambda>s. if sh_unitId s \<in> ?B then 1 else 0) ?sh"
    by (simp add: sum_of_def sum_list_addf)
  finally show ?thesis using ind by simp
qed

subsection \<open>Rounding errors\<close>

definition rsum :: "rat list \<Rightarrow> rat" where "rsum xs = sum_list xs"

lemma fsum_bounds:
  assumes "0 \<le> acc" "\<And>u. u \<in> set units \<Longrightarrow> 0 < snd u"
  shows "(1 - ulp) ^ length units * (acc + rsum (map snd units))
      \<le> foldl (\<lambda>s u. js_add s (snd u)) acc units"
    and "foldl (\<lambda>s u. js_add s (snd u)) acc units
      \<le> (1 + ulp) ^ length units * (acc + rsum (map snd units))"
  using assms
proof (induction units arbitrary: acc)
  case Nil
  { case 1 show ?case by (simp add: rsum_def) }
  { case 2 show ?case by (simp add: rsum_def) }
next
  case (Cons x xs)
  have u01: "0 < ulp" "ulp < 1" by (simp_all add: ulp_def)
  {
    case 1
    let ?r = "rsum (map snd xs)" and ?a = "snd x"
    have a: "0 < ?a" using 1 by simp
    have r: "0 \<le> ?r" unfolding rsum_def using 1 by (intro sum_list_nonneg) (auto intro: less_imp_le)
    have nn: "0 \<le> acc + ?a" using 1(1) a by linarith
    then have s: "0 \<le> js_add acc ?a" unfolding js_add_def by (rule fl_nonneg)
    have "(1 - ulp) * (acc + ?a) \<le> js_add acc ?a"
      unfolding js_add_def by (rule fl_bounds(1) [OF nn])
    moreover have "(1 - ulp) * ?r \<le> ?r" using r u01 by (simp add: mult_left_le_one_le)
    ultimately have "(1 - ulp) * (acc + (?a + ?r)) \<le> js_add acc ?a + ?r"
      by (simp add: algebra_simps)
    then have "(1 - ulp) ^ length xs * ((1 - ulp) * (acc + (?a + ?r)))
        \<le> (1 - ulp) ^ length xs * (js_add acc ?a + ?r)"
      using u01 by (intro mult_left_mono) auto
    also have "\<dots> \<le> foldl (\<lambda>s u. js_add s (snd u)) (js_add acc ?a) xs"
      using Cons.IH(1) [OF s] 1 by simp
    finally show ?case by (simp add: rsum_def algebra_simps)
  }
  {
    case 2
    let ?r = "rsum (map snd xs)" and ?a = "snd x"
    have a: "0 < ?a" using 2 by simp
    have r: "0 \<le> ?r" unfolding rsum_def using 2 by (intro sum_list_nonneg) (auto intro: less_imp_le)
    have nn: "0 \<le> acc + ?a" using 2(1) a by linarith
    then have s: "0 \<le> js_add acc ?a" unfolding js_add_def by (rule fl_nonneg)
    have "js_add acc ?a \<le> (1 + ulp) * (acc + ?a)"
      unfolding js_add_def by (rule fl_bounds(2) [OF nn])
    moreover have "?r \<le> (1 + ulp) * ?r" using r u01 by (simp add: distrib_right)
    ultimately have le: "js_add acc ?a + ?r \<le> (1 + ulp) * (acc + (?a + ?r))"
      by (simp add: algebra_simps)
    have "foldl (\<lambda>s u. js_add s (snd u)) (js_add acc ?a) xs
        \<le> (1 + ulp) ^ length xs * (js_add acc ?a + ?r)"
      using Cons.IH(2) [OF s] 2 by simp
    also have "\<dots> \<le> (1 + ulp) ^ length xs * ((1 + ulp) * (acc + (?a + ?r)))"
      using le u01 by (intro mult_left_mono) auto
    finally show ?case by (simp add: rsum_def algebra_simps)
  }
qed

lemma one_minus_power:
  fixes u :: rat
  assumes "0 \<le> u" "u \<le> 1"
  shows "1 - of_nat n * u \<le> (1 - u) ^ n"
proof (induction n)
  case 0
  then show ?case by simp
next
  case (Suc n)
  have "1 - of_nat (Suc n) * u \<le> (1 - u) * (1 - of_nat n * u)"
    using assms by (simp add: algebra_simps)
  also have "\<dots> \<le> (1 - u) * (1 - u) ^ n"
    using assms Suc by (intro mult_left_mono) auto
  finally show ?case by simp
qed

lemma one_plus_power:
  fixes u :: rat
  assumes "0 \<le> u" "u \<le> 1"
  shows "(1 + u) ^ n * (1 - of_nat n * u) \<le> 1"
proof -
  have "(1 + u) ^ n * (1 - of_nat n * u) \<le> (1 + u) ^ n * (1 - u) ^ n"
    using assms one_minus_power [OF assms] by (intro mult_left_mono) auto
  also have "\<dots> = (1 - u * u) ^ n" by (simp add: power_mult_distrib [symmetric] algebra_simps)
  also have "\<dots> \<le> 1" using assms by (intro power_le_one) (auto simp: mult_le_one)
  finally show ?thesis .
qed

text \<open>Every share is within a relative error of \<open>2(n+3)\<close> half-units in the last place.\<close>

definition shareError :: "nat \<Rightarrow> rat" where
  "shareError n = 2 * (of_nat n + 3) * ulp"

lemma share_error_factors:
  assumes "of_nat n * ulp \<le> 1 / 2"
  shows "(1 + ulp) * (1 + ulp) \<le> (1 + shareError n) * (1 - of_nat n * ulp)"
    and "1 - shareError n \<le> (1 - ulp) * (1 - ulp) * (1 - of_nat n * ulp)"
proof -
  define u where "u = ulp"
  define w where "w = of_nat n * u"
  have u: "0 < u" "u \<le> 1 / 100" by (simp_all add: u_def ulp_def)
  have w: "0 \<le> w" "w \<le> 1 / 2" using assms u by (simp_all add: w_def u_def)
  have eta: "shareError n = 2 * w + 6 * u" by (simp add: shareError_def w_def u_def algebra_simps)
  have uu: "u * u \<le> u" "0 \<le> u * u" using u by (simp_all add: mult_left_le)
  have "w * w \<le> w * (1 / 2)" "u * w \<le> u * (1 / 2)"
    using mult_left_mono [OF w(2) w(1)] mult_left_mono [OF w(2) less_imp_le [OF u(1)]]
    by simp_all
  then have ww: "w * w \<le> w / 2" "u * w \<le> u / 2" "0 \<le> w * w" "0 \<le> u * w"
    using w u(1) by simp_all
  have "(1 + u) * (1 + u) = 1 + 2 * u + u * u" by (simp add: algebra_simps)
  moreover have "(1 + (2 * w + 6 * u)) * (1 - w) = 1 + w + 6 * u - 2 * (w * w) - 6 * (u * w)"
    by (simp add: algebra_simps)
  ultimately show "(1 + ulp) * (1 + ulp) \<le> (1 + shareError n) * (1 - of_nat n * ulp)"
    unfolding eta u_def [symmetric] w_def [symmetric] using uu ww u by linarith
  have "(1 - u) * (1 - u) * (1 - w) = 1 - 2 * u - w + u * u * (1 - w) + 2 * (u * w)"
    by (simp add: algebra_simps)
  moreover have "0 \<le> u * u * (1 - w)" using u w by (intro mult_nonneg_nonneg) auto
  ultimately show "1 - shareError n \<le> (1 - ulp) * (1 - ulp) * (1 - of_nat n * ulp)"
    unfolding eta u_def [symmetric] w_def [symmetric] using ww u w by linarith
qed

lemma exactShare_error:
  assumes units: "\<And>u. u \<in> set units \<Longrightarrow> 0 < snd u" "u \<in> set units"
    and n: "of_nat (length units) * ulp \<le> 1 / 2" and t: "0 < t"
  defines "e \<equiv> of_int t * snd u / rsum (map snd units)"
  defines "q \<equiv> exactShare t (totalAreaOf units) (snd u)"
  shows "(1 - shareError (length units)) * e \<le> q" and "q \<le> (1 + shareError (length units)) * e"
proof -
  let ?n = "length units" and ?A = "rsum (map snd units)" and ?F = "totalAreaOf units"
  let ?a = "snd u" and ?c = "1 - of_nat (length units) * ulp"
  have u01: "0 \<le> ulp" "ulp \<le> 1" by (simp_all add: ulp_def)
  have a: "0 < ?a" using units by blast
  have A: "0 < ?A"
  proof -
    have "?a \<le> ?A" unfolding rsum_def
      using units by (intro member_le_sum_list) (auto intro: less_imp_le)
    with a show ?thesis by linarith
  qed
  have c: "0 < ?c" using n by linarith
  have "(1 - ulp) ^ ?n * (0 + ?A) \<le> ?F" unfolding totalAreaOf_def
    by (rule fsum_bounds(1)) (use units in auto)
  then have Fs: "(1 - ulp) ^ ?n * ?A \<le> ?F" by simp
  have "?F \<le> (1 + ulp) ^ ?n * (0 + ?A)" unfolding totalAreaOf_def
    by (rule fsum_bounds(2)) (use units in auto)
  then have Fb: "?F \<le> (1 + ulp) ^ ?n * ?A" by simp
  have Flo: "?c * ?A \<le> ?F"
  proof -
    have "?c * ?A \<le> (1 - ulp) ^ ?n * ?A"
      using A one_minus_power [OF u01, of ?n] by (intro mult_right_mono) auto
    with Fs show ?thesis by linarith
  qed
  have F: "0 < ?F" using mult_pos_pos [OF c A] Flo by linarith
  have Fhi: "?F * ?c \<le> ?A"
  proof -
    have "?F * ?c \<le> ((1 + ulp) ^ ?n * ?A) * ?c" using Fb c by (intro mult_right_mono) auto
    also have "\<dots> = ?A * ((1 + ulp) ^ ?n * ?c)" by (simp add: algebra_simps)
    also have "\<dots> \<le> ?A * 1" using A one_plus_power [OF u01, of ?n] by (intro mult_left_mono) auto
    finally show ?thesis by simp
  qed
  let ?x = "of_int t * ?a" and ?p = "js_mul (of_int t) ?a"
  have x: "0 < ?x" using t a by simp
  have p: "(1 - ulp) * ?x \<le> ?p" "?p \<le> (1 + ulp) * ?x"
    unfolding js_mul_def using x by (auto intro!: fl_bounds)
  have p0: "0 \<le> ?p" unfolding js_mul_def using x by (intro fl_nonneg) auto
  have q: "(1 - ulp) * (?p / ?F) \<le> q" "q \<le> (1 + ulp) * (?p / ?F)"
    unfolding q_def exactShare_def js_div_def
    using fl_bounds [OF divide_nonneg_pos [OF p0 F]] by simp_all
  have e: "e = ?x / ?A" by (simp add: e_def)
  have e0: "0 < e" unfolding e using x A by simp
  note fac = share_error_factors [OF n]
  have "q \<le> (1 + ulp) * ((1 + ulp) * ?x / ?F)"
    using q(2) p(2) F u01 by (elim order_trans) (intro mult_left_mono divide_right_mono, auto)
  also have "\<dots> \<le> (1 + ulp) * ((1 + ulp) * ?x / (?c * ?A))"
    using Flo F x A c u01 by (intro mult_left_mono divide_left_mono mult_pos_pos) auto
  also have "\<dots> = ((1 + ulp) * (1 + ulp)) * e / ?c" by (simp add: e mult.commute [of ?c])
  also have "\<dots> \<le> ((1 + shareError ?n) * ?c) * e / ?c"
    using fac(1) e0 c by (intro divide_right_mono mult_right_mono) auto
  also have "\<dots> = (1 + shareError ?n) * e" using c by simp
  finally show "q \<le> (1 + shareError ?n) * e" .
  have inv: "?c / ?A \<le> 1 / ?F" using Fhi A F by (simp add: field_simps)
  have "(1 - shareError ?n) * e \<le> ((1 - ulp) * (1 - ulp) * ?c) * e"
    using fac(2) e0 by (intro mult_right_mono) auto
  also have "\<dots> = (1 - ulp) * ((1 - ulp) * ?x * (?c / ?A))" by (simp add: e)
  also have "\<dots> \<le> (1 - ulp) * ((1 - ulp) * ?x * (1 / ?F))"
    using inv x u01 by (intro mult_left_mono) auto
  also have "\<dots> \<le> (1 - ulp) * (?p / ?F)"
    using p(1) F u01 by (auto intro!: mult_left_mono divide_right_mono)
  finally show "(1 - shareError ?n) * e \<le> q" using q(1) by linarith
qed

subsection \<open>The area shares hand out exactly the total\<close>

text \<open>
  The bounds under which the theorem holds, far beyond any building: fewer than
  \<open>2^31\<close> Rials in one batch (the column's range) and at most 10000 units.
\<close>

definition maxUnits :: nat where "maxUnits = 10000"

lemma shareError_small:
  assumes "n \<le> maxUnits" "0 \<le> t" "t < 2 ^ 31"
  shows "shareError n * of_int t < 1 / 100" and "0 \<le> shareError n" and "of_nat n * ulp \<le> 1 / 2"
proof -
  have n: "(of_nat n :: rat) \<le> 10000" using assms(1) unfolding maxUnits_def
    by (metis of_nat_le_iff of_nat_numeral)
  have t: "(0::rat) \<le> of_int t" "(of_int t :: rat) \<le> 2 ^ 31"
    using assms(2,3) by (auto simp: of_int_le_numeral_power_cancel_iff)
  have "shareError n \<le> 2 * (10000 + 3) * ulp"
    unfolding shareError_def using n by (intro mult_right_mono mult_left_mono) auto
  then have "shareError n * of_int t \<le> (2 * (10000 + 3) * ulp) * 2 ^ 31"
    using t by (intro mult_mono) auto
  also have "\<dots> < 1 / 100" by (simp add: ulp_def)
  finally show "shareError n * of_int t < 1 / 100" .
  show "0 \<le> shareError n" by (simp add: shareError_def)
  have "of_nat n * ulp \<le> 10000 * ulp" using n by (intro mult_right_mono) auto
  then show "of_nat n * ulp \<le> 1 / 2" by (simp add: ulp_def)
qed

lemma rsum_scale: "sum_list (map (\<lambda>u. c * snd u / s) units) = c * rsum (map snd units) / s"
  by (induction units) (auto simp: rsum_def algebra_simps add_divide_distrib)

lemma leftover_bounds:
  assumes units: "units \<noteq> []" "\<And>u. u \<in> set units \<Longrightarrow> 0 < snd u" "length units \<le> maxUnits"
    and t: "0 < t" "t < 2 ^ 31"
  defines "k \<equiv> t - sum_of sh_floorAmount (sharesOf t units)"
  shows "0 \<le> k" and "k \<le> int (length units)"
proof -
  let ?n = "length units" and ?A = "rsum (map snd units)"
  let ?eta = "shareError ?n"
  define q where "q u = exactShare t (totalAreaOf units) (snd u)" for u :: "id \<times> rat"
  define e where "e u = of_int t * snd u / ?A" for u :: "id \<times> rat"
  note small = shareError_small [OF units(3) less_imp_le [OF t(1)] t(2)]
  have qb: "(1 - ?eta) * e u \<le> q u" "q u \<le> (1 + ?eta) * e u" if "u \<in> set units" for u
    unfolding q_def e_def using exactShare_error [OF units(2) that small(3) t(1)] by auto
  have A: "0 < ?A"
  proof -
    obtain u us where "units = u # us" using units(1) by (cases units) auto
    moreover have "0 \<le> rsum (map snd us)" if "units = u # us"
      unfolding rsum_def using units(2) that by (intro sum_list_nonneg) (auto intro: less_imp_le)
    ultimately show ?thesis using units(2) [of u] by (simp add: rsum_def)
  qed
  have esum: "sum_list (map e units) = of_int t"
    unfolding e_def using rsum_scale [of "of_int t" ?A units] A by simp
  have hi: "sum_list (map q units) \<le> (1 + ?eta) * of_int t"
  proof -
    have "sum_list (map q units) \<le> sum_list (map (\<lambda>u. (1 + ?eta) * e u) units)"
      using qb by (intro sum_list_mono) auto
    then show ?thesis by (simp add: sum_list_const_mult esum)
  qed
  have lo: "(1 - ?eta) * of_int t \<le> sum_list (map q units)"
  proof -
    have "sum_list (map (\<lambda>u. (1 - ?eta) * e u) units) \<le> sum_list (map q units)"
      using qb by (intro sum_list_mono) auto
    then show ?thesis by (simp add: sum_list_const_mult esum)
  qed
  let ?fl = "sum_of (\<lambda>u. js_floor (q u)) units"
  have kf: "k = t - ?fl" unfolding k_def sum_of_floorAmount q_def ..
  have f1: "of_int ?fl \<le> sum_list (map q units)"
    by (induction units) (auto simp: js_floor_def intro: add_mono)
  have f2: "sum_list (map q units) \<le> of_int ?fl + of_nat ?n"
  proof (induction units)
    case (Cons x xs)
    have "q x \<le> of_int \<lfloor>q x\<rfloor> + 1" by linarith
    with Cons show ?case by (simp add: js_floor_def)
  qed simp
  have "(of_int ?fl :: rat) < of_int (t + 1)"
    using f1 hi small(1) by (simp add: algebra_simps)
  then have "?fl < t + 1" by (simp only: of_int_less_iff)
  then show "0 \<le> k" using kf by simp
  have "(of_int t :: rat) < of_int (?fl + int ?n + 1)"
    using f2 lo small(1) by (simp add: algebra_simps)
  then have "t < ?fl + int ?n + 1" by (simp only: of_int_less_iff)
  then show "k \<le> int ?n" using kf by simp
qed

lemma allocateByArea_total:
  assumes "units \<noteq> []" "distinct (map fst units)" "\<And>u. u \<in> set units \<Longrightarrow> 0 < snd u"
    "length units \<le> maxUnits" "0 < t" "t < 2 ^ 31"
  shows "sum_of snd (allocateByArea t units) = t"
  using assms leftover_bounds [of units t] by (intro byArea_total_when_leftover_fits) auto

lemma allocateByArea_units: "map fst (allocateByArea t units) = map fst units"
  by (simp add: allocateByArea_def Let_def comp_def sharesOf_unitIds)

lemma sharesOf_mem:
  "s \<in> set (sharesOf t units) \<Longrightarrow> \<exists>u \<in> set units. sh_unitId s = fst u \<and>
    sh_floorAmount s = js_floor (exactShare t (totalAreaOf units) (snd u))"
proof -
  assume "s \<in> set (sharesOf t units)"
  then obtain i u a where "(i, u, a) \<in> set (enumerate 0 units)" "sh_unitId s = u"
    "sh_floorAmount s = js_floor (exactShare t (totalAreaOf units) a)"
    by (auto simp: sharesOf_def Let_def)
  moreover from this(1) have "(u, a) \<in> set units"
    by (metis map_snd_enumerate image_eqI list.set_map snd_conv)
  ultimately show ?thesis by force
qed

text \<open>Every unit pays its exact area share to within 1.01 Rial.\<close>

lemma allocateByArea_near:
  assumes units: "\<And>u. u \<in> set units \<Longrightarrow> 0 < snd u" "length units \<le> maxUnits"
    and t: "0 < t" "t < 2 ^ 31" and dist: "distinct (map fst units)"
    and mem: "(uid, area) \<in> set units" "(uid, amount) \<in> set (allocateByArea t units)"
  shows "\<bar>of_int amount - of_int t * area / rsum (map snd units)\<bar> < 1 + 1 / 100"
proof -
  let ?q = "exactShare t (totalAreaOf units) area" and ?e = "of_int t * area / rsum (map snd units)"
  let ?eta = "shareError (length units)"
  note small = shareError_small [OF units(2) less_imp_le [OF t(1)] t(2)]
  have qb: "(1 - ?eta) * ?e \<le> ?q" "?q \<le> (1 + ?eta) * ?e"
    using exactShare_error [OF units(1) mem(1) small(3) t(1)] by auto
  have "area \<in> set (map snd units)" using mem(1) by force
  moreover have "\<And>x. x \<in> set (map snd units) \<Longrightarrow> 0 \<le> x" using units(1) by (auto intro: less_imp_le)
  ultimately have "area \<le> rsum (map snd units)" unfolding rsum_def by (rule member_le_sum_list)
  moreover have "0 < area" using units(1) [OF mem(1)] by simp
  ultimately have e: "0 \<le> ?e" "?e \<le> of_int t" using t by (simp_all add: divide_le_eq mult_left_mono)
  have "?eta * ?e \<le> ?eta * of_int t" using e small(2) by (intro mult_left_mono)
  moreover have "?e - ?eta * ?e \<le> ?q" "?q \<le> ?e + ?eta * ?e"
    using qb by (simp_all only: left_diff_distrib distrib_right mult_1_left)
  ultimately have close: "\<bar>?q - ?e\<bar> < 1 / 100" using small(1) unfolding abs_less_iff by linarith
  obtain s where s: "s \<in> set (sharesOf t units)" "sh_unitId s = uid"
    "amount = sh_floorAmount s \<or> amount = sh_floorAmount s + 1"
    using mem(2) by (auto simp: allocateByArea_def Let_def split: if_splits)
  then obtain u where u: "u \<in> set units" "fst u = uid"
    "sh_floorAmount s = js_floor (exactShare t (totalAreaOf units) (snd u))"
    using sharesOf_mem [OF s(1)] by auto
  have "u = (uid, area)" using u(1,2) mem(1) dist by (metis eq_key_imp_eq_value prod.collapse)
  with u(3) s(3) have "amount = \<lfloor>?q\<rfloor> \<or> amount = \<lfloor>?q\<rfloor> + 1" by (simp add: js_floor_def)
  then have "of_int amount \<le> ?q + 1" "?q - 1 \<le> of_int amount" by (auto; linarith)+
  with close show ?thesis unfolding abs_less_iff by linarith
qed

end
