(* ===== verification/Finance_Store.thy ===== *)
theory Finance_Store
  imports Charge_Allocation
begin

text \<open>
  The statements the finance repository's transactions are made of
  (\<^verbatim>\<open>src/src/modules/finance/infrastructure/repositories/finance.repository.ts\<close>): posting
  a ledger entry, moving a fund's cached balance, crediting a unit, paying a charge item or
  an adjustment; and the reads they share: a unit's outstanding items in settlement order
  and its debt snapshot.
\<close>

section \<open>Predicates and reads\<close>

definition affectsFundBalance :: "ledgerEntryType \<Rightarrow> bool" where
  "affectsFundBalance t \<longleftrightarrow> t = PAYMENT \<or> t = REFUND \<or> t = REVERSAL \<or> t = EXPENSE"

definition fundStatementEntryTypes :: "ledgerEntryType list" where
  "fundStatementEntryTypes = [OPENING_BALANCE, PAYMENT, EXPENSE, REFUND, REVERSAL]"

definition computeItemStatus :: "money \<Rightarrow> money \<Rightarrow> chargeItemStatus" where
  "computeItemStatus paidAmount amount =
     (if paidAmount \<le> 0 then UNPAID else if paidAmount \<ge> amount then PAID else PARTIALLY_PAID)"

definition findFundById :: "fin_db \<Rightarrow> id \<Rightarrow> fund option" where
  "findFundById d fid = find_row fd_id fid (funds d)"

definition findChargeBatchById :: "fin_db \<Rightarrow> id \<Rightarrow> chargeBatch option" where
  "findChargeBatchById d bid = find_row cb_id bid (batches d)"

definition findChargeItemById :: "fin_db \<Rightarrow> id \<Rightarrow> chargeItem option" where
  "findChargeItemById d iid = find_row ci_id iid (items d)"

definition findAdjustmentById :: "fin_db \<Rightarrow> id \<Rightarrow> adjustment option" where
  "findAdjustmentById d aid = find_row aj_id aid (adjustments d)"

definition findPaymentById :: "fin_db \<Rightarrow> id \<Rightarrow> payment option" where
  "findPaymentById d pid = find_row pm_id pid (payments d)"

definition findExpenseById :: "fin_db \<Rightarrow> id \<Rightarrow> expense option" where
  "findExpenseById d eid = find_row ex_id eid (expenses d)"

definition itemsOfBatch :: "fin_db \<Rightarrow> id \<Rightarrow> chargeItem list" where
  "itemsOfBatch d bid = filter (\<lambda>i. ci_chargeBatchId i = bid) (items d)"

text \<open>\<open>chargeBatch: { status: { in: ['ISSUED', 'CLOSED'] } }\<close>.\<close>

definition collectable :: "fin_db \<Rightarrow> chargeItem \<Rightarrow> bool" where
  "collectable d i \<longleftrightarrow>
     (case findChargeBatchById d (ci_chargeBatchId i) of
        Some b \<Rightarrow> cb_status b = ISSUED \<or> cb_status b = CLOSED
      | None \<Rightarrow> False)"

definition itemOutstanding :: "chargeItem \<Rightarrow> money" where
  "itemOutstanding i = ci_amount i - ci_paidAmount i"

definition adjOutstanding :: "adjustment \<Rightarrow> money" where
  "adjOutstanding a = aj_amount a - aj_paidAmount a"

text \<open>
  \<open>orderBy: [{ chargeBatch: { dueDate: 'asc' } }, { createdAt: 'asc' }]\<close>; an ascending
  order puts missing due dates last.  Rows that agree on both keys keep their insertion
  order in the model; the database leaves their order open.
\<close>

definition dueKey :: "fin_db \<Rightarrow> chargeItem \<Rightarrow> nat \<times> time \<times> time" where
  "dueKey d i =
     (case Option.bind (findChargeBatchById d (ci_chargeBatchId i)) cb_dueDate of
        Some t \<Rightarrow> (0, t, ci_createdAt i)
      | None \<Rightarrow> (1, 0, ci_createdAt i))"

definition unpaidItems :: "fin_db \<Rightarrow> id \<Rightarrow> chargeItem list" where
  "unpaidItems d uid =
     filter (\<lambda>i. ci_unitId i = uid \<and> ci_status i \<noteq> PAID \<and> collectable d i) (items d)"

definition outstandingItems :: "fin_db \<Rightarrow> id \<Rightarrow> chargeItem list" where
  "outstandingItems d uid = sort_key (dueKey d) (unpaidItems d uid)"

definition positiveAdjustments :: "fin_db \<Rightarrow> id \<Rightarrow> adjustment list" where
  "positiveAdjustments d uid = filter (\<lambda>a. aj_unitId a = uid \<and> 0 < aj_amount a) (adjustments d)"

definition outstandingAdjustments :: "fin_db \<Rightarrow> id \<Rightarrow> adjustment list" where
  "outstandingAdjustments d uid = sort_key aj_createdAt (positiveAdjustments d uid)"

definition creditOf :: "fin_db \<Rightarrow> id \<Rightarrow> money" where
  "creditOf d uid = (case find_row cr_unitId uid (credits d) of Some c \<Rightarrow> cr_balance c | None \<Rightarrow> 0)"

definition pendingPayments :: "fin_db \<Rightarrow> id \<Rightarrow> payment list" where
  "pendingPayments d uid =
     filter (\<lambda>p. pm_unitId p = uid \<and> pm_status p = PENDING_APPROVAL) (payments d)"

record debtSnapshot =
  chargeItemDebt :: money
  adjustmentDebt :: money
  totalDebt :: money
  snapCreditBalance :: money
  pendingPaymentAmount :: money
  remainingPayable :: money

definition buildDebtSnapshot ::
  "chargeItem list \<Rightarrow> adjustment list \<Rightarrow> money \<Rightarrow> payment list \<Rightarrow> debtSnapshot" where
  "buildDebtSnapshot its adjs credit pend =
     (let itemDebt = sum_of (\<lambda>i. ci_amount i - ci_paidAmount i) its;
          adjDebt = sum_of (\<lambda>a. max 0 (aj_amount a - aj_paidAmount a)) adjs;
          tot = itemDebt + adjDebt;
          pending = sum_of pm_amount pend
      in \<lparr>chargeItemDebt = itemDebt, adjustmentDebt = adjDebt, totalDebt = tot,
          snapCreditBalance = credit, pendingPaymentAmount = pending,
          remainingPayable = max (tot - credit - pending) 0\<rparr>)"

definition computeDebtSnapshot :: "fin_db \<Rightarrow> id \<Rightarrow> debtSnapshot" where
  "computeDebtSnapshot d uid =
     buildDebtSnapshot (unpaidItems d uid) (positiveAdjustments d uid) (creditOf d uid)
       (pendingPayments d uid)"

section \<open>Writes\<close>

definition addLedger ::
  "time \<Rightarrow> id \<Rightarrow> id \<Rightarrow> ledgerEntryType \<Rightarrow> ledgerDirection \<Rightarrow> money \<Rightarrow> ledgerReference \<Rightarrow> id \<Rightarrow>
   id option \<Rightarrow> fin_db \<Rightarrow> fin_db result" where
  "addLedger now bid fid ty dir amount refType refId actor d =
     (if findFundById d fid = None then Inl (PrismaError STR ''P2003'')
      else Inr (take_id (d\<lparr>ledger := ledger d @
        [\<lparr>le_id = fresh_id d, le_buildingId = bid, le_fundId = fid, le_entryType = ty,
          le_direction = dir, le_amount = amount, le_referenceType = refType,
          le_referenceId = refId, le_actorId = actor, le_createdAt = now\<rparr>]\<rparr>)))"

definition bumpBalance :: "id \<Rightarrow> money \<Rightarrow> fin_db \<Rightarrow> fin_db" where
  "bumpBalance fid n d =
     d\<lparr>funds := upd_where (\<lambda>f. fd_id f = fid) (\<lambda>f. f\<lparr>fd_balance := fd_balance f + n\<rparr>) (funds d)\<rparr>"

text \<open>\<open>fund.update({ data: { balance: { increment: n } } })\<close> (decrement for negative \<open>n\<close>).\<close>

definition fundIncrement :: "id \<Rightarrow> money \<Rightarrow> fin_db \<Rightarrow> fin_db result" where
  "fundIncrement fid n d =
     (if findFundById d fid = None then Inl (PrismaError STR ''P2025'') else Inr (bumpBalance fid n d))"

definition creditUpsert :: "id \<Rightarrow> id \<Rightarrow> money \<Rightarrow> fin_db \<Rightarrow> fin_db" where
  "creditUpsert uid bid n d =
     (case find_row cr_unitId uid (credits d) of
        None \<Rightarrow> d\<lparr>credits := credits d @ [\<lparr>cr_unitId = uid, cr_buildingId = bid, cr_balance = n\<rparr>]\<rparr>
      | Some _ \<Rightarrow> d\<lparr>credits := upd_where (\<lambda>c. cr_unitId c = uid)
                       (\<lambda>c. c\<lparr>cr_balance := cr_balance c + n\<rparr>) (credits d)\<rparr>)"

definition setItemPaid :: "id \<Rightarrow> money \<Rightarrow> money \<Rightarrow> fin_db \<Rightarrow> fin_db" where
  "setItemPaid iid newPaid amount d =
     d\<lparr>items := upd_where (\<lambda>i. ci_id i = iid)
        (\<lambda>i. i\<lparr>ci_paidAmount := newPaid, ci_status := computeItemStatus newPaid amount\<rparr>) (items d)\<rparr>"

definition setAdjPaid :: "id \<Rightarrow> money \<Rightarrow> fin_db \<Rightarrow> fin_db" where
  "setAdjPaid aid newPaid d =
     d\<lparr>adjustments := upd_where (\<lambda>a. aj_id a = aid) (\<lambda>a. a\<lparr>aj_paidAmount := newPaid\<rparr>)
        (adjustments d)\<rparr>"

definition addAllocation :: "id \<Rightarrow> obligation \<Rightarrow> money \<Rightarrow> fin_db \<Rightarrow> fin_db" where
  "addAllocation pid target amount d =
     d\<lparr>allocations := allocations d @ [\<lparr>al_paymentId = pid, al_target = target, al_amount = amount\<rparr>]\<rparr>"

definition setPayment :: "id \<Rightarrow> (payment \<Rightarrow> payment) \<Rightarrow> fin_db \<Rightarrow> fin_db" where
  "setPayment pid f d = d\<lparr>payments := upd_where (\<lambda>p. pm_id p = pid) f (payments d)\<rparr>"

text \<open>One round of a settlement loop: pay an item or an adjustment, with or without an allocation.\<close>

definition payItem :: "id \<Rightarrow> chargeItem \<Rightarrow> money \<Rightarrow> fin_db \<Rightarrow> fin_db" where
  "payItem pid i applied d =
     setItemPaid (ci_id i) (ci_paidAmount i + applied) (ci_amount i)
       (addAllocation pid (CHARGE_ITEM (ci_id i)) applied d)"

definition payAdjustment :: "id \<Rightarrow> adjustment \<Rightarrow> money \<Rightarrow> fin_db \<Rightarrow> fin_db" where
  "payAdjustment pid a applied d =
     setAdjPaid (aj_id a) (aj_paidAmount a + applied)
       (addAllocation pid (ADJUSTMENT_OB (aj_id a)) applied d)"

definition waiveItem :: "chargeItem \<Rightarrow> money \<Rightarrow> fin_db \<Rightarrow> fin_db" where
  "waiveItem i applied d =
     setItemPaid (ci_id i) (ci_paidAmount i + applied) (ci_amount i) d"

definition waiveAdjustment :: "adjustment \<Rightarrow> money \<Rightarrow> fin_db \<Rightarrow> fin_db" where
  "waiveAdjustment a applied d = setAdjPaid (aj_id a) (aj_paidAmount a + applied) d"

text \<open>The bundle that unfolds every write; \<open>store_frames\<close> collects what they leave alone.\<close>

lemmas write_defs =
  bumpBalance_def creditUpsert_def setItemPaid_def setAdjPaid_def
  addAllocation_def setPayment_def payItem_def payAdjustment_def waiveItem_def waiveAdjustment_def

lemma addLedger_Inr_iff [effect_simps]:
  "addLedger now bid fid ty dir amount refType refId actor d = Inr d' \<longleftrightarrow>
     findFundById d fid \<noteq> None \<and>
     d' = take_id (d\<lparr>ledger := ledger d @
        [\<lparr>le_id = fresh_id d, le_buildingId = bid, le_fundId = fid, le_entryType = ty,
          le_direction = dir, le_amount = amount, le_referenceType = refType,
          le_referenceId = refId, le_actorId = actor, le_createdAt = now\<rparr>]\<rparr>)"
  by (auto simp: addLedger_def)

lemma fundIncrement_Inr_iff [effect_simps]:
  "fundIncrement fid n d = Inr d' \<longleftrightarrow> findFundById d fid \<noteq> None \<and> d' = bumpBalance fid n d"
  by (auto simp: fundIncrement_def)

end
