(* ===== verification/Payment_Repo.thy ===== *)
theory Payment_Repo
  imports Finance_Store
begin

text \<open>
  The payment transactions of \<open>FinanceRepository\<close>: reporting a payment (by amount, or
  against selected obligations), rejecting, approving, reversing and refunding it.  Every
  one of them runs under the advisory lock of the unit, so it is one atomic step with
  respect to all other transactions on the same unit.
\<close>

section \<open>Reporting by amount\<close>

record createPaymentParams =
  cpp_buildingId :: id
  cpp_unitId :: id
  cpp_fundId :: id
  cpp_payerId :: id
  cpp_amount :: money
  cpp_method :: paymentMethod
  cpp_idempotencyKey :: string
  cpp_reference :: "string option"
  cpp_note :: "string option"
  cpp_isManualAmount :: bool

definition findByIdempotencyKey :: "fin_db \<Rightarrow> id \<Rightarrow> id \<Rightarrow> string \<Rightarrow> payment option" where
  "findByIdempotencyKey d payerId bid key =
     find (\<lambda>p. pm_payerId p = payerId \<and> pm_buildingId p = bid \<and> pm_idempotencyKey p = Some key)
       (payments d)"

definition newPayment ::
  "time \<Rightarrow> id \<Rightarrow> id \<Rightarrow> id \<Rightarrow> id \<Rightarrow> id \<Rightarrow> money \<Rightarrow> paymentMethod \<Rightarrow> paymentSelectionMode \<Rightarrow> string \<Rightarrow>
   string option \<Rightarrow> string option \<Rightarrow> payment" where
  "newPayment now pid bid uid fid payerId amount meth mode key ref note =
     \<lparr>pm_id = pid, pm_buildingId = bid, pm_unitId = uid, pm_fundId = fid, pm_payerId = payerId,
      pm_amount = amount, pm_method = meth, pm_status = PENDING_APPROVAL, pm_selectionMode = mode,
      pm_idempotencyKey = Some key, pm_reference = ref, pm_note = note, pm_approvedById = None,
      pm_approvedAt = None, pm_rejectedReason = None, pm_reversedAt = None, pm_createdAt = now\<rparr>"

definition createPaymentBody :: "time \<Rightarrow> createPaymentParams \<Rightarrow> (fin_db, payment) tx" where
  "createPaymentBody now q d =
     (case findByIdempotencyKey d (cpp_payerId q) (cpp_buildingId q) (cpp_idempotencyKey q) of
        Some existing \<Rightarrow>
          if pm_unitId existing = cpp_unitId q \<and> pm_fundId existing = cpp_fundId q \<and>
             pm_amount existing = cpp_amount q \<and> pm_method existing = cpp_method q \<and>
             pm_reference existing = cpp_reference q \<and> pm_note existing = cpp_note q
          then Inr (existing, d)
          else Inl (ConflictError STR ''Idempotency key was already used with a different payment request.'')
      | None \<Rightarrow>
          if \<not> cpp_isManualAmount q \<and>
             cpp_amount q > remainingPayable (computeDebtSnapshot d (cpp_unitId q))
          then Inl (BusinessRuleViolationError STR ''This amount exceeds the unit's remaining payable amount.'')
          else let p = newPayment now (fresh_id d) (cpp_buildingId q) (cpp_unitId q) (cpp_fundId q)
                     (cpp_payerId q) (cpp_amount q) (cpp_method q) LEGACY_AUTOMATIC
                     (cpp_idempotencyKey q) (cpp_reference q) (cpp_note q)
               in Inr (p, take_id (d\<lparr>payments := payments d @ [p]\<rparr>)))"

definition createPayment :: "time \<Rightarrow> createPaymentParams \<Rightarrow> (fin_db, payment) tx" where
  "createPayment now q = transaction (createPaymentBody now q)"

section \<open>Reporting against selected obligations\<close>

definition activeFor :: "fin_db \<Rightarrow> obligation \<Rightarrow> debtSelection list" where
  "activeFor d ob = filter (\<lambda>s. ds_target s = ob \<and> ds_state s = Some ACTIVE) (selections d)"

record explicitPaymentParams =
  epp_buildingId :: id
  epp_unitId :: id
  epp_payerId :: id
  epp_method :: paymentMethod
  epp_idempotencyKey :: string
  epp_reference :: "string option"
  epp_note :: "string option"
  epp_targets :: "obligation list"

definition chargeIdsOf :: "obligation list \<Rightarrow> id list" where
  "chargeIdsOf ts = concat (map (\<lambda>t. case t of CHARGE_ITEM i \<Rightarrow> [i] | ADJUSTMENT_OB _ \<Rightarrow> []) ts)"

definition adjustmentIdsOf :: "obligation list \<Rightarrow> id list" where
  "adjustmentIdsOf ts = concat (map (\<lambda>t. case t of CHARGE_ITEM _ \<Rightarrow> [] | ADJUSTMENT_OB i \<Rightarrow> [i]) ts)"

definition selectionsOf :: "fin_db \<Rightarrow> id \<Rightarrow> debtSelection list" where
  "selectionsOf d pid = filter (\<lambda>s. ds_paymentId s = pid) (selections d)"

text \<open>
  The unit's unpaid monthly items of one series, oldest period first, and the check that
  the selected ones are the oldest.
\<close>

definition monthlyOutstanding :: "fin_db \<Rightarrow> id \<Rightarrow> id \<Rightarrow> chargeItem list" where
  "monthlyOutstanding d uid seriesId =
     sort_key (\<lambda>i. case Option.bind (findChargeBatchById d (ci_chargeBatchId i)) cb_periodStart of
                     Some t \<Rightarrow> (0::nat, t) | None \<Rightarrow> (1, 0))
       (filter (\<lambda>i. case findChargeBatchById d (ci_chargeBatchId i) of
                      Some b \<Rightarrow> cb_seriesId b = Some seriesId \<and> cb_kind b = Some MONTHLY
                    | None \<Rightarrow> False) (unpaidItems d uid))"

definition seriesGap :: "fin_db \<Rightarrow> id \<Rightarrow> id set \<Rightarrow> id \<Rightarrow> bool" where
  "seriesGap d uid selectedIds seriesId =
     (let outstanding = monthlyOutstanding d uid seriesId;
          selectedCount = length (filter (\<lambda>i. ci_id i \<in> selectedIds) outstanding)
      in list_ex (\<lambda>i. ci_id i \<notin> selectedIds) (take selectedCount outstanding))"

definition monthlySeriesOf :: "fin_db \<Rightarrow> chargeItem list \<Rightarrow> id list" where
  "monthlySeriesOf d its =
     concat (map (\<lambda>i. case findChargeBatchById d (ci_chargeBatchId i) of
         Some b \<Rightarrow> (if cb_kind b = Some MONTHLY then (case cb_seriesId b of Some s \<Rightarrow> if s = [] then [] else [s] | None \<Rightarrow> []) else [])
       | None \<Rightarrow> []) its)"

definition batchFundId :: "fin_db \<Rightarrow> chargeItem \<Rightarrow> id" where
  "batchFundId d i =
     (case findChargeBatchById d (ci_chargeBatchId i) of Some b \<Rightarrow> cb_fundId b | None \<Rightarrow> [])"

definition wrongPlaceItem :: "fin_db \<Rightarrow> explicitPaymentParams \<Rightarrow> chargeItem \<Rightarrow> bool" where
  "wrongPlaceItem d q i \<longleftrightarrow>
     ci_unitId i \<noteq> epp_unitId q \<or>
     (case findChargeBatchById d (ci_chargeBatchId i) of
        Some b \<Rightarrow> cb_buildingId b \<noteq> epp_buildingId q \<or> \<not> (cb_status b = ISSUED \<or> cb_status b = CLOSED)
      | None \<Rightarrow> True)"

definition wrongPlaceAdjustment :: "explicitPaymentParams \<Rightarrow> adjustment \<Rightarrow> bool" where
  "wrongPlaceAdjustment q a \<longleftrightarrow> aj_unitId a \<noteq> epp_unitId q \<or> aj_buildingId a \<noteq> epp_buildingId q"

definition newSelections :: "id \<Rightarrow> chargeItem list \<Rightarrow> adjustment list \<Rightarrow> debtSelection list" where
  "newSelections pid its adjs =
     map (\<lambda>i. \<lparr>ds_paymentId = pid, ds_target = CHARGE_ITEM (ci_id i),
               ds_selectedAmount = ci_amount i - ci_paidAmount i, ds_state = Some ACTIVE\<rparr>) its @
     map (\<lambda>a. \<lparr>ds_paymentId = pid, ds_target = ADJUSTMENT_OB (aj_id a),
               ds_selectedAmount = aj_amount a - aj_paidAmount a, ds_state = Some ACTIVE\<rparr>) adjs"

text \<open>
  The replay check compares the sorted obligation identifiers of both requests, which is
  equality of their multisets.
\<close>

definition sameExplicitRequest :: "fin_db \<Rightarrow> explicitPaymentParams \<Rightarrow> payment \<Rightarrow> bool" where
  "sameExplicitRequest d q existing \<longleftrightarrow>
     pm_selectionMode existing = EXPLICIT_SELECTION \<and> pm_unitId existing = epp_unitId q \<and>
     pm_method existing = epp_method q \<and> pm_reference existing = epp_reference q \<and>
     pm_note existing = epp_note q \<and>
     mset (map ds_target (selectionsOf d (pm_id existing))) = mset (epp_targets q)"

definition selectedItems :: "fin_db \<Rightarrow> explicitPaymentParams \<Rightarrow> chargeItem list" where
  "selectedItems d q = filter (\<lambda>i. ci_id i \<in> set (chargeIdsOf (epp_targets q))) (items d)"

definition selectedAdjustments :: "fin_db \<Rightarrow> explicitPaymentParams \<Rightarrow> adjustment list" where
  "selectedAdjustments d q =
     filter (\<lambda>a. aj_id a \<in> set (adjustmentIdsOf (epp_targets q))) (adjustments d)"

text \<open>The checks of a new explicit payment, in the source's order; the result is its fund.\<close>

definition explicitChecks :: "explicitPaymentParams \<Rightarrow> fin_db \<Rightarrow> id result" where
  "explicitChecks q d =
     (let its = selectedItems d q; adjs = selectedAdjustments d q in
      bind_r (assert_r (length its = length (chargeIdsOf (epp_targets q)) \<and>
                        length adjs = length (adjustmentIdsOf (epp_targets q)))
        (BusinessRuleViolationError STR ''One or more selected obligations do not exist.'')) (\<lambda>_.
      bind_r (assert_r (\<not> (list_ex (wrongPlaceItem d q) its \<or> list_ex (wrongPlaceAdjustment q) adjs))
        (BusinessRuleViolationError STR ''Every obligation must belong to the exact payment unit.'')) (\<lambda>_.
      bind_r (assert_r (\<not> (list_ex (\<lambda>i. itemOutstanding i \<le> 0 \<or> activeFor d (CHARGE_ITEM (ci_id i)) \<noteq> []) its \<or>
                           list_ex (\<lambda>a. adjOutstanding a \<le> 0 \<or> activeFor d (ADJUSTMENT_OB (aj_id a)) \<noteq> []) adjs))
        (ConflictError STR ''One or more obligations are no longer selectable.'')) (\<lambda>_.
      bind_r (assert_r (\<not> list_ex (seriesGap d (epp_unitId q) (set (map ci_id its))) (monthlySeriesOf d its))
        (BusinessRuleViolationError STR ''Monthly obligations must be selected oldest first without gaps.'')) (\<lambda>_.
      case remdups (map (batchFundId d) its @ map aj_fundId adjs) of
        [fundId] \<Rightarrow>
          bind_r (assert_r (case findFundById d fundId of Some f \<Rightarrow> fd_isActive f | None \<Rightarrow> False)
            (BusinessRuleViolationError STR ''The selected obligations belong to an inactive fund.'')) (\<lambda>_.
          Inr fundId)
      | _ \<Rightarrow> Inl (BusinessRuleViolationError STR ''All selected obligations must belong to the same fund.''))))))"

definition createExplicitPaymentBody :: "time \<Rightarrow> explicitPaymentParams \<Rightarrow> (fin_db, payment) tx" where
  "createExplicitPaymentBody now q d =
     (case findByIdempotencyKey d (epp_payerId q) (epp_buildingId q) (epp_idempotencyKey q) of
        Some existing \<Rightarrow>
          if sameExplicitRequest d q existing then Inr (existing, d)
          else Inl (ConflictError STR ''Idempotency key was already used with a different payment request.'')
      | None \<Rightarrow>
          bind_r (explicitChecks q d) (\<lambda>fundId.
          let its = selectedItems d q; adjs = selectedAdjustments d q;
              amount = sum_of itemOutstanding its + sum_of adjOutstanding adjs;
              p = newPayment now (fresh_id d) (epp_buildingId q) (epp_unitId q) fundId (epp_payerId q)
                    amount (epp_method q) EXPLICIT_SELECTION (epp_idempotencyKey q)
                    (epp_reference q) (epp_note q)
          in Inr (p, take_id (d\<lparr>payments := payments d @ [p],
                                selections := selections d @ newSelections (fresh_id d) its adjs\<rparr>))))"

definition createExplicitPayment :: "time \<Rightarrow> explicitPaymentParams \<Rightarrow> (fin_db, payment) tx" where
  "createExplicitPayment now q = transaction (createExplicitPaymentBody now q)"

section \<open>Rejecting\<close>

definition setActiveSelections :: "id \<Rightarrow> reservationState \<Rightarrow> fin_db \<Rightarrow> fin_db" where
  "setActiveSelections pid st d =
     d\<lparr>selections := upd_where (\<lambda>s. ds_paymentId s = pid \<and> ds_state s = Some ACTIVE)
        (\<lambda>s. s\<lparr>ds_state := Some st\<rparr>) (selections d)\<rparr>"

definition rejectPaymentBody :: "id \<Rightarrow> string option \<Rightarrow> (fin_db, payment) tx" where
  "rejectPaymentBody pid reason d =
     (case findPaymentById d pid of
        None \<Rightarrow> Inl (BusinessRuleViolationError STR ''Payment not found.'')
      | Some current \<Rightarrow>
          if pm_status current \<noteq> PENDING_APPROVAL
          then Inl (BusinessRuleViolationError STR ''Only a pending payment can be rejected.'')
          else let p = current\<lparr>pm_status := REJECTED, pm_rejectedReason := reason\<rparr>;
                   d1 = setPayment pid (\<lambda>p. p\<lparr>pm_status := REJECTED, pm_rejectedReason := reason\<rparr>) d
               in Inr (p, if pm_selectionMode p = EXPLICIT_SELECTION
                          then setActiveSelections pid RELEASED d1 else d1))"

definition rejectPayment :: "id \<Rightarrow> string option \<Rightarrow> (fin_db, payment) tx" where
  "rejectPayment pid reason = transaction (rejectPaymentBody pid reason)"

section \<open>Approving\<close>

record approveParams =
  ap_paymentId :: id
  ap_buildingId :: id
  ap_unitId :: id
  ap_fundId :: id
  ap_amount :: money
  ap_actorId :: id

text \<open>One selected obligation: re-read it, check it has not moved, allocate and pay it.\<close>

definition applySelection :: "approveParams \<Rightarrow> debtSelection \<Rightarrow> fin_db \<Rightarrow> fin_db result" where
  "applySelection q s d =
     (case ds_target s of
        CHARGE_ITEM iid \<Rightarrow>
          (case findChargeItemById d iid of
             None \<Rightarrow> Inl (PrismaError STR ''P2025'')
           | Some i \<Rightarrow>
               if itemOutstanding i \<noteq> ds_selectedAmount s \<or> ci_unitId i \<noteq> ap_unitId q \<or>
                  \<not> collectable d i
               then Inl (ConflictError STR ''Selected ChargeItem changed before approval.'')
               else Inr (payItem (ap_paymentId q) i (ds_selectedAmount s) d))
      | ADJUSTMENT_OB aid \<Rightarrow>
          (case findAdjustmentById d aid of
             None \<Rightarrow> Inl (PrismaError STR ''P2025'')
           | Some a \<Rightarrow>
               if adjOutstanding a \<noteq> ds_selectedAmount s \<or> aj_unitId a \<noteq> ap_unitId q
               then Inl (ConflictError STR ''Selected Adjustment changed before approval.'')
               else Inr (payAdjustment (ap_paymentId q) a (ds_selectedAmount s) d)))"

fun applySelections :: "approveParams \<Rightarrow> debtSelection list \<Rightarrow> fin_db \<Rightarrow> fin_db result" where
  "applySelections q [] d = Inr d"
| "applySelections q (s # ss) d = bind_r (applySelection q s d) (applySelections q ss)"

text \<open>The cash side shared by both modes: one PAYMENT entry and the fund's balance.\<close>

definition postPayment :: "time \<Rightarrow> approveParams \<Rightarrow> fin_db \<Rightarrow> fin_db result" where
  "postPayment now q d =
     bind_r (addLedger now (ap_buildingId q) (ap_fundId q) PAYMENT CREDIT (ap_amount q) RefPayment
              (ap_paymentId q) (Some (ap_actorId q)) d)
       (\<lambda>d1. if affectsFundBalance PAYMENT then fundIncrement (ap_fundId q) (ap_amount q) d1 else Inr d1)"

definition markApproved :: "time \<Rightarrow> approveParams \<Rightarrow> payment \<Rightarrow> payment" where
  "markApproved now q p =
     p\<lparr>pm_status := APPROVED, pm_approvedById := Some (ap_actorId q), pm_approvedAt := Some now\<rparr>"

definition approveExplicit :: "time \<Rightarrow> approveParams \<Rightarrow> payment \<Rightarrow> fin_db \<Rightarrow> fin_db result" where
  "approveExplicit now q current d =
     (let sels = selectionsOf d (ap_paymentId q) in
      bind_r (assert_r (\<not> (sels = [] \<or> list_ex (\<lambda>s. ds_state s \<noteq> Some ACTIVE) sels))
        (ConflictError STR ''Explicit payment reservations are no longer active.'')) (\<lambda>_.
      bind_r (assert_r (\<not> (sum_of ds_selectedAmount sels \<noteq> pm_amount current \<or>
                           pm_amount current \<noteq> ap_amount q))
        (BusinessRuleViolationError STR ''Explicit selection total must equal Payment.amount.'')) (\<lambda>_.
      bind_r (applySelections q sels d) (\<lambda>d1.
      postPayment now q
        (setPayment (ap_paymentId q) (markApproved now q)
          (setActiveSelections (ap_paymentId q) APPLIED d1))))))"

text \<open>
  The automatic mode: outstanding items first, then outstanding positive adjustments, then
  the unit's credit balance.
\<close>

definition settleAutomatically :: "approveParams \<Rightarrow> fin_db \<Rightarrow> fin_db" where
  "settleAutomatically q d =
     (let (rem1, d1) = settle_loop itemOutstanding (payItem (ap_paymentId q))
                         (outstandingItems d (ap_unitId q)) (ap_amount q) d;
          (rem2, d2) = (if rem1 > 0
             then settle_loop adjOutstanding (payAdjustment (ap_paymentId q))
                    (outstandingAdjustments d1 (ap_unitId q)) rem1 d1
             else (rem1, d1))
      in if rem2 > 0 then creditUpsert (ap_unitId q) (ap_buildingId q) rem2 d2 else d2)"

definition approvePaymentBody :: "time \<Rightarrow> approveParams \<Rightarrow> (fin_db, payment) tx" where
  "approvePaymentBody now q d =
     (case findPaymentById d (ap_paymentId q) of
        None \<Rightarrow> Inl (BusinessRuleViolationError STR ''Only a pending payment can be approved.'')
      | Some current \<Rightarrow>
          if pm_status current \<noteq> PENDING_APPROVAL
          then Inl (BusinessRuleViolationError STR ''Only a pending payment can be approved.'')
          else bind_r
            (if pm_selectionMode current = EXPLICIT_SELECTION
             then approveExplicit now q current d
             else postPayment now q (settleAutomatically q
                    (setPayment (ap_paymentId q) (markApproved now q) d)))
            (\<lambda>d'. Inr (markApproved now q current, d')))"

definition approvePayment :: "time \<Rightarrow> approveParams \<Rightarrow> (fin_db, payment) tx" where
  "approvePayment now q = transaction (approvePaymentBody now q)"

section \<open>Reversing and refunding\<close>

definition allocationsOf :: "fin_db \<Rightarrow> id \<Rightarrow> allocation list" where
  "allocationsOf d pid = filter (\<lambda>a. al_paymentId a = pid) (allocations d)"

definition allocatedTotal :: "fin_db \<Rightarrow> id \<Rightarrow> money" where
  "allocatedTotal d pid = sum_of al_amount (allocationsOf d pid)"

definition undoAllocation :: "allocation \<Rightarrow> fin_db \<Rightarrow> fin_db" where
  "undoAllocation al d =
     (case al_target al of
        CHARGE_ITEM iid \<Rightarrow>
          (case findChargeItemById d iid of
             Some i \<Rightarrow> setItemPaid (ci_id i) (max 0 (ci_paidAmount i - al_amount al)) (ci_amount i) d
           | None \<Rightarrow> d)
      | ADJUSTMENT_OB aid \<Rightarrow>
          (case findAdjustmentById d aid of
             Some a \<Rightarrow> setAdjPaid (aj_id a) (max 0 (aj_paidAmount a - al_amount al)) d
           | None \<Rightarrow> d))"

fun undoAllocations :: "allocation list \<Rightarrow> fin_db \<Rightarrow> fin_db" where
  "undoAllocations [] d = d"
| "undoAllocations (a # as) d = undoAllocations as (undoAllocation a d)"

record reverseParams =
  rv_paymentId :: id
  rv_buildingId :: id
  rv_fundId :: id
  rv_amount :: money
  rv_actorId :: id

definition reversePaymentBody :: "time \<Rightarrow> reverseParams \<Rightarrow> (fin_db, payment) tx" where
  "reversePaymentBody now q d =
     (case findPaymentById d (rv_paymentId q) of
        None \<Rightarrow> Inl (BusinessRuleViolationError STR ''Payment not found.'')
      | Some current \<Rightarrow>
          bind_r (assert_r (pm_status current = APPROVED)
            (BusinessRuleViolationError STR ''Only an approved payment can be reversed.'')) (\<lambda>_.
          bind_r (assert_r (\<not> allocatedTotal d (pm_id current) > pm_amount current)
            (BusinessRuleViolationError STR ''Payment allocation history exceeds the payment amount.'')) (\<lambda>_.
          bind_r (assert_r (\<not> pm_amount current - allocatedTotal d (pm_id current) > 0)
            (BusinessRuleViolationError STR ''Payments that generated unit credit cannot be reversed in MVP.'')) (\<lambda>_.
          let mark = (\<lambda>p. p\<lparr>pm_status := REVERSED, pm_reversedAt := Some now\<rparr>);
              d1 = setPayment (rv_paymentId q) mark d;
              d2 = undoAllocations (allocationsOf d1 (rv_paymentId q)) d1
          in bind_r (addLedger now (rv_buildingId q) (rv_fundId q) REVERSAL DEBIT (rv_amount q) RefPayment
                      (rv_paymentId q) (Some (rv_actorId q)) d2) (\<lambda>d3.
             bind_r (fundIncrement (rv_fundId q) (- rv_amount q) d3) (\<lambda>d4.
             Inr (mark current, d4)))))))"

definition reversePayment :: "time \<Rightarrow> reverseParams \<Rightarrow> (fin_db, payment) tx" where
  "reversePayment now q = transaction (reversePaymentBody now q)"

record refundParams =
  rp_paymentId :: id
  rp_unitId :: id
  rp_buildingId :: id
  rp_fundId :: id
  rp_amount :: money
  rp_paymentAmount :: money
  rp_reason :: string
  rp_createdById :: id

definition createRefundBody :: "time \<Rightarrow> refundParams \<Rightarrow> (fin_db, refund) tx" where
  "createRefundBody now q d =
     (case findPaymentById d (rp_paymentId q) of
        None \<Rightarrow> Inl (BusinessRuleViolationError STR ''Only an approved payment can be refunded.'')
      | Some current \<Rightarrow>
          bind_r (assert_r (pm_status current = APPROVED)
            (BusinessRuleViolationError STR ''Only an approved payment can be refunded.'')) (\<lambda>_.
          bind_r (assert_r (\<not> allocatedTotal d (pm_id current) > pm_amount current)
            (BusinessRuleViolationError STR ''Payment allocation history exceeds the payment amount.'')) (\<lambda>_.
          bind_r (assert_r (\<not> pm_amount current - allocatedTotal d (pm_id current) > 0)
            (BusinessRuleViolationError STR ''Payments that generated unit credit cannot be refunded in MVP.'')) (\<lambda>_.
          bind_r (assert_r (\<not> allocatedTotal d (pm_id current) > 0)
            (BusinessRuleViolationError STR ''Payments allocated to obligations cannot be refunded in MVP.'')) (\<lambda>_.
          bind_r (assert_r (\<not> 0 < count_where (\<lambda>r. rf_paymentId r = rp_paymentId q) (refunds d))
            (BusinessRuleViolationError STR ''This payment has already been refunded.'')) (\<lambda>_.
          let r = \<lparr>rf_id = fresh_id d, rf_paymentId = rp_paymentId q, rf_unitId = rp_unitId q,
                   rf_buildingId = rp_buildingId q, rf_amount = rp_amount q, rf_reason = rp_reason q,
                   rf_createdById = rp_createdById q, rf_createdAt = now\<rparr>;
              d1 = take_id (d\<lparr>refunds := refunds d @ [r]\<rparr>);
              d2 = (if rp_amount q \<ge> rp_paymentAmount q
                    then setPayment (rp_paymentId q) (\<lambda>p. p\<lparr>pm_status := REFUNDED\<rparr>) d1 else d1)
          in bind_r (addLedger now (rp_buildingId q) (rp_fundId q) REFUND DEBIT (rp_amount q) RefRefund
                      (rf_id r) (Some (rp_createdById q)) d2) (\<lambda>d3.
             bind_r (fundIncrement (rp_fundId q) (- rp_amount q) d3) (\<lambda>d4.
             Inr (r, d4)))))))))"

definition createRefund :: "time \<Rightarrow> refundParams \<Rightarrow> (fin_db, refund) tx" where
  "createRefund now q = transaction (createRefundBody now q)"

end
