(* ===== verification/Charge_Repo.thy ===== *)
theory Charge_Repo
  imports Payment_Repo
begin

text \<open>
  The other transactions of \<open>FinanceRepository\<close>: funds, charge series, charge batches
  (create, issue, cancel), adjustments and opening-balance corrections, expenses.  The
  unique indexes, foreign keys and check constraints of the schema that these statements
  can violate are part of the model (errors P2002, P2003 and SQL state 23514).
\<close>

section \<open>Funds\<close>

record createFundParams =
  cf_buildingId :: id
  cf_name :: string
  cf_type :: fundType
  cf_description :: "string option"
  cf_isDefault :: "bool option"
  cf_initialBalance :: "money option"
  cf_accountLinkType :: "fundAccountLinkType option"
  cf_accountReference :: "string option"
  cf_actorId :: "id option"

definition nameTaken :: "fin_db \<Rightarrow> id \<Rightarrow> string \<Rightarrow> bool" where
  "nameTaken d bid name = list_ex (\<lambda>f. fd_buildingId f = bid \<and> fd_name f = name) (funds d)"

definition newFund :: "time \<Rightarrow> id \<Rightarrow> createFundParams \<Rightarrow> fund" where
  "newFund now fid q =
     \<lparr>fd_id = fid, fd_buildingId = cf_buildingId q, fd_name = cf_name q, fd_type = cf_type q,
      fd_description = cf_description q, fd_isDefault = (cf_isDefault q = Some True),
      fd_isActive = True, fd_accountLinkType = cf_accountLinkType q,
      fd_accountReference = cf_accountReference q, fd_balance = 0, fd_createdAt = now\<rparr>"

text \<open>\<open>fund.create\<close>, with the unique index on building and name.\<close>

definition insertFund :: "time \<Rightarrow> createFundParams \<Rightarrow> (fin_db, fund) tx" where
  "insertFund now q d =
     (if nameTaken d (cf_buildingId q) (cf_name q) then Inl (PrismaError STR ''P2002'')
      else let f = newFund now (fresh_id d) q in Inr (f, take_id (d\<lparr>funds := funds d @ [f]\<rparr>)))"

definition createFundBody :: "time \<Rightarrow> createFundParams \<Rightarrow> (fin_db, fund) tx" where
  "createFundBody now q d =
     bind_r (insertFund now q d) (\<lambda>(f, d1).
       if 0 < the_num (cf_initialBalance q)
       then let n = the_num (cf_initialBalance q) in
            bind_r (addLedger now (cf_buildingId q) (fd_id f) OPENING_BALANCE CREDIT n RefFund (fd_id f)
                      (cf_actorId q) d1) (\<lambda>d2.
            bind_r (fundIncrement (fd_id f) n d2) (\<lambda>d3.
            Inr (f\<lparr>fd_balance := fd_balance f + n\<rparr>, d3)))
       else Inr (f, d1))"

definition createFund :: "time \<Rightarrow> createFundParams \<Rightarrow> (fin_db, fund) tx" where
  "createFund now q = transaction (createFundBody now q)"

record updateFundParams =
  uf_name :: "string option"
  uf_type :: "fundType option"
  uf_description :: "string option"
  uf_accountLinkType :: "fundAccountLinkType option"
  uf_accountReference :: "string option"

text \<open>An absent field of an update keeps the column.\<close>

definition keep :: "'a option \<Rightarrow> 'a \<Rightarrow> 'a" where
  "keep new old = (case new of Some x \<Rightarrow> x | None \<Rightarrow> old)"

definition keep_opt :: "'a option \<Rightarrow> 'a option \<Rightarrow> 'a option" where
  "keep_opt new old = (case new of Some x \<Rightarrow> Some x | None \<Rightarrow> old)"

definition patchFund :: "updateFundParams \<Rightarrow> fund \<Rightarrow> fund" where
  "patchFund q f =
     f\<lparr>fd_name := keep (uf_name q) (fd_name f), fd_type := keep (uf_type q) (fd_type f),
       fd_description := keep_opt (uf_description q) (fd_description f),
       fd_accountLinkType := keep_opt (uf_accountLinkType q) (fd_accountLinkType f),
       fd_accountReference := keep_opt (uf_accountReference q) (fd_accountReference f)\<rparr>"

definition setFund :: "id \<Rightarrow> (fund \<Rightarrow> fund) \<Rightarrow> fin_db \<Rightarrow> fin_db" where
  "setFund fid g d = d\<lparr>funds := upd_where (\<lambda>f. fd_id f = fid) g (funds d)\<rparr>"

definition updateFund :: "id \<Rightarrow> updateFundParams \<Rightarrow> (fin_db, fund) tx" where
  "updateFund fid q d =
     (case findFundById d fid of
        None \<Rightarrow> Inl (PrismaError STR ''P2025'')
      | Some f \<Rightarrow>
          if list_ex (\<lambda>g. fd_id g \<noteq> fid \<and> fd_buildingId g = fd_buildingId f \<and>
                           fd_name g = fd_name (patchFund q f)) (funds d)
          then Inl (PrismaError STR ''P2002'')
          else Inr (patchFund q f, setFund fid (patchFund q) d))"

definition setFundActive :: "id \<Rightarrow> bool \<Rightarrow> (fin_db, fund) tx" where
  "setFundActive fid isActive d =
     (case findFundById d fid of
        None \<Rightarrow> Inl (PrismaError STR ''P2025'')
      | Some f \<Rightarrow> Inr (f\<lparr>fd_isActive := isActive\<rparr>, setFund fid (\<lambda>f. f\<lparr>fd_isActive := isActive\<rparr>) d))"

definition findDefaultFund :: "fin_db \<Rightarrow> id \<Rightarrow> fund option" where
  "findDefaultFund d bid = find (\<lambda>f. fd_buildingId f = bid \<and> fd_isDefault f) (funds d)"

text \<open>
  The name the code gives the default fund, in UTF-8 (the Persian words for "current
  fund").
\<close>

definition defaultFundName :: string where
  "defaultFundName = map char_of [216, 181, 217, 134, 216, 175, 217, 136, 217, 130, 32,
     216, 172, 216, 167, 216, 177, 219, 140 :: nat]"

definition getOrCreateDefaultFund :: "time \<Rightarrow> id \<Rightarrow> (fin_db, fund) tx" where
  "getOrCreateDefaultFund now bid d =
     (case findDefaultFund d bid of
        Some existing \<Rightarrow> Inr (existing, d)
      | None \<Rightarrow> insertFund now \<lparr>cf_buildingId = bid, cf_name = defaultFundName, cf_type = FT_CURRENT,
                  cf_description = None, cf_isDefault = Some True, cf_initialBalance = None,
                  cf_accountLinkType = None, cf_accountReference = None, cf_actorId = None\<rparr> d)"

text \<open>
  The active funds a charge may go to.  The listing's order (type, name, id) plays no role
  in what the service decides from it; the model keeps insertion order.
\<close>

definition listActiveChargeOptionFunds :: "fin_db \<Rightarrow> id \<Rightarrow> fund list" where
  "listActiveChargeOptionFunds d bid =
     filter (\<lambda>f. fd_buildingId f = bid \<and> fd_isActive f) (funds d)"

section \<open>Charge series\<close>

definition findChargeSeriesById :: "fin_db \<Rightarrow> id \<Rightarrow> chargeSeries option" where
  "findChargeSeriesById d sid = find_row cs_id sid (seriesRows d)"

definition createChargeSeries :: "id \<Rightarrow> string \<Rightarrow> (fin_db, chargeSeries) tx" where
  "createChargeSeries bid name d =
     (if list_ex (\<lambda>s. cs_buildingId s = bid \<and> cs_name s = name) (seriesRows d)
      then Inl (PrismaError STR ''P2002'')
      else let s = \<lparr>cs_id = fresh_id d, cs_buildingId = bid, cs_name = name, cs_isActive = True\<rparr>
           in Inr (s, take_id (d\<lparr>seriesRows := seriesRows d @ [s]\<rparr>)))"

section \<open>Creating a charge batch\<close>

record createBatchParams =
  bp_buildingId :: id
  bp_fundId :: id
  bp_title :: string
  bp_description :: "string option"
  bp_calculationMethod :: chargeCalculationMethod
  bp_kind :: "chargeKind option"
  bp_expectedFundType :: "fundType option"
  bp_seriesId :: "id option"
  bp_periodStart :: "time option"
  bp_periodEnd :: "time option"
  bp_dueDate :: "time option"
  bp_createdById :: id
  bp_items :: "(id \<times> money) list"
  bp_unitScope :: "chargeUnitScope option"
  bp_payerType :: "chargePayerType option"
  bp_lateFeeType :: "lateFeeType option"
  bp_lateFeeValue :: "int option"
  bp_lateFeeGraceDays :: "int option"

definition newBatch :: "time \<Rightarrow> id \<Rightarrow> createBatchParams \<Rightarrow> chargeBatch" where
  "newBatch now bid q =
     \<lparr>cb_id = bid, cb_buildingId = bp_buildingId q, cb_fundId = bp_fundId q, cb_title = bp_title q,
      cb_description = bp_description q, cb_calculationMethod = bp_calculationMethod q,
      cb_totalAmount = sum_of snd (bp_items q), cb_status = DRAFT, cb_kind = bp_kind q,
      cb_seriesId = bp_seriesId q, cb_periodStart = bp_periodStart q, cb_periodEnd = bp_periodEnd q,
      cb_dueDate = bp_dueDate q, cb_unitScope = bp_unitScope q, cb_payerType = bp_payerType q,
      cb_lateFeeType = bp_lateFeeType q, cb_lateFeeValue = bp_lateFeeValue q,
      cb_lateFeeGraceDays = bp_lateFeeGraceDays q, cb_createdById = bp_createdById q,
      cb_issuedAt = None, cb_cancelledAt = None, cb_createdAt = now\<rparr>"

definition newItem :: "time \<Rightarrow> id \<Rightarrow> id \<Rightarrow> id \<times> money \<Rightarrow> chargeItem" where
  "newItem now bid iid i =
     \<lparr>ci_id = iid, ci_chargeBatchId = bid, ci_unitId = fst i, ci_amount = snd i, ci_paidAmount = 0,
      ci_status = UNPAID, ci_resolvedPayerType = None, ci_createdAt = now\<rparr>"

text \<open>\<open>chargeItem.createMany\<close>: one row per requested item, in order.\<close>

fun addItems :: "time \<Rightarrow> id \<Rightarrow> (id \<times> money) list \<Rightarrow> fin_db \<Rightarrow> fin_db" where
  "addItems now bid [] d = d"
| "addItems now bid (i # is) d =
     addItems now bid is (take_id (d\<lparr>items := items d @ [newItem now bid (fresh_id d) i]\<rparr>))"

text \<open>The row lock's query: the fund still is what the caller validated.\<close>

definition compatibleFundRow :: "fin_db \<Rightarrow> createBatchParams \<Rightarrow> fundType \<Rightarrow> bool" where
  "compatibleFundRow d q t \<longleftrightarrow>
     count_where (\<lambda>f. fd_id f = bp_fundId q \<and> fd_buildingId f = bp_buildingId q \<and> fd_isActive f \<and>
       fd_type f = t) (funds d) = 1"

text \<open>\<open>charge_batches_monthly_series_period_check\<close> and the partial unique index.\<close>

definition monthlyCheck :: "createBatchParams \<Rightarrow> bool" where
  "monthlyCheck q \<longleftrightarrow>
     (bp_kind q = Some MONTHLY \<and> bp_seriesId q \<noteq> None \<and> bp_periodStart q \<noteq> None) \<or>
     (bp_kind q \<noteq> Some MONTHLY \<and> bp_seriesId q = None)"

definition monthlyPeriodTaken :: "fin_db \<Rightarrow> createBatchParams \<Rightarrow> bool" where
  "monthlyPeriodTaken d q \<longleftrightarrow> bp_kind q = Some MONTHLY \<and>
     list_ex (\<lambda>b. cb_kind b = Some MONTHLY \<and> cb_seriesId b = bp_seriesId q \<and>
       cb_periodStart b = bp_periodStart q) (batches d)"

text \<open>\<open>unitExists\<close> is the foreign key of \<open>ChargeItem.unitId\<close>.\<close>

definition createChargeBatchBody ::
  "time \<Rightarrow> (id \<Rightarrow> bool) \<Rightarrow> createBatchParams \<Rightarrow> (fin_db, chargeBatch) tx" where
  "createChargeBatchBody now unitExists q d =
     bind_r (assert_r (case (bp_kind q, bp_expectedFundType q) of
                         (Some _, Some t) \<Rightarrow> compatibleFundRow d q t | _ \<Rightarrow> True)
       (ConflictError STR ''The selected fund changed after it was validated.'')) (\<lambda>_.
     bind_r (assert_r (monthlyCheck q) (PrismaError STR ''23514'')) (\<lambda>_.
     bind_r (assert_r (findFundById d (bp_fundId q) \<noteq> None \<and>
                       (case bp_seriesId q of Some s \<Rightarrow> findChargeSeriesById d s \<noteq> None | None \<Rightarrow> True))
       (PrismaError STR ''P2003'')) (\<lambda>_.
     bind_r (assert_r (\<not> monthlyPeriodTaken d q) (PrismaError STR ''P2002'')) (\<lambda>_.
     bind_r (assert_r (list_all (\<lambda>i. unitExists (fst i)) (bp_items q)) (PrismaError STR ''P2003'')) (\<lambda>_.
     let b = newBatch now (fresh_id d) q
     in Inr (b, addItems now (cb_id b) (bp_items q) (take_id (d\<lparr>batches := batches d @ [b]\<rparr>))))))))"

definition createChargeBatch ::
  "time \<Rightarrow> (id \<Rightarrow> bool) \<Rightarrow> createBatchParams \<Rightarrow> (fin_db, chargeBatch) tx" where
  "createChargeBatch now unitExists q = transaction (createChargeBatchBody now unitExists q)"

section \<open>Cancelling and issuing\<close>

definition setBatch :: "id \<Rightarrow> (chargeBatch \<Rightarrow> chargeBatch) \<Rightarrow> fin_db \<Rightarrow> fin_db" where
  "setBatch bid g d = d\<lparr>batches := upd_where (\<lambda>b. cb_id b = bid) g (batches d)\<rparr>"

definition cancelChargeBatchBody :: "time \<Rightarrow> id \<Rightarrow> id \<Rightarrow> (fin_db, chargeBatch) tx" where
  "cancelChargeBatchBody now cbid bid d =
     (case findChargeBatchById d cbid of
        None \<Rightarrow> Inl (BusinessRuleViolationError STR ''Charge batch not found.'')
      | Some current \<Rightarrow>
          bind_r (assert_r (cb_buildingId current = bid)
            (BusinessRuleViolationError STR ''Charge batch not found.'')) (\<lambda>_.
          bind_r (assert_r (\<not> (cb_status current = CLOSED \<or> cb_status current = CANCELLED))
            (BusinessRuleViolationError STR ''This charge batch cannot be cancelled again.'')) (\<lambda>_.
          bind_r (assert_r (\<not> list_ex (\<lambda>i. 0 < ci_paidAmount i) (itemsOfBatch d cbid))
            (BusinessRuleViolationError
              STR ''This charge batch has payments already applied to it and cannot be cancelled.'')) (\<lambda>_.
          bind_r (assert_r (count_where (\<lambda>b. cb_id b = cbid \<and> cb_status b = cb_status current) (batches d) = 1)
            (ConflictError STR ''This charge batch changed before it could be cancelled.'')) (\<lambda>_.
          let mark = (\<lambda>b. b\<lparr>cb_status := CANCELLED, cb_cancelledAt := Some now\<rparr>)
          in Inr (mark current, setBatch cbid mark d))))))"

definition cancelChargeBatch :: "time \<Rightarrow> id \<Rightarrow> id \<Rightarrow> (fin_db, chargeBatch) tx" where
  "cancelChargeBatch now cbid bid = transaction (cancelChargeBatchBody now cbid bid)"

record payerResolution =
  pr_chargeItemId :: id
  pr_resolvedPayerType :: chargePayerType
  pr_personIds :: "id list"

record issueParams =
  is_chargeBatchId :: id
  is_buildingId :: id
  is_actorId :: id
  is_payerResolutions :: "payerResolution list"

text \<open>\<open>chargeItemPayer.createMany\<close>, with the unique index on item and person.\<close>

fun addPayers :: "id \<Rightarrow> id list \<Rightarrow> fin_db \<Rightarrow> fin_db result" where
  "addPayers iid [] d = Inr d"
| "addPayers iid (p # ps) d =
     (if list_ex (\<lambda>r. cp_chargeItemId r = iid \<and> cp_personId r = p) (itemPayers d)
      then Inl (PrismaError STR ''P2002'')
      else addPayers iid ps
             (d\<lparr>itemPayers := itemPayers d @ [\<lparr>cp_chargeItemId = iid, cp_personId = p\<rparr>]\<rparr>))"

definition setResolvedPayer :: "id \<Rightarrow> chargePayerType \<Rightarrow> fin_db \<Rightarrow> fin_db" where
  "setResolvedPayer iid t d =
     d\<lparr>items := upd_where (\<lambda>i. ci_id i = iid) (\<lambda>i. i\<lparr>ci_resolvedPayerType := Some t\<rparr>) (items d)\<rparr>"

fun writeResolutions :: "payerResolution list \<Rightarrow> fin_db \<Rightarrow> fin_db result" where
  "writeResolutions [] d = Inr d"
| "writeResolutions (r # rs) d =
     (if findChargeItemById d (pr_chargeItemId r) = None then Inl (PrismaError STR ''P2025'')
      else bind_r (addPayers (pr_chargeItemId r) (pr_personIds r)
             (setResolvedPayer (pr_chargeItemId r) (pr_resolvedPayerType r) d))
             (writeResolutions rs))"

text \<open>
  One item of the credit loop.  The item is the row read at the start of the transaction,
  the credit is read afresh.
\<close>

definition takeCredit :: "id \<Rightarrow> money \<Rightarrow> fin_db \<Rightarrow> fin_db" where
  "takeCredit uid n d =
     d\<lparr>credits := upd_where (\<lambda>c. cr_unitId c = uid \<and> n \<le> cr_balance c)
        (\<lambda>c. c\<lparr>cr_balance := cr_balance c - n\<rparr>) (credits d)\<rparr>"

definition applyCreditToItem ::
  "time \<Rightarrow> issueParams \<Rightarrow> id \<Rightarrow> chargeItem \<Rightarrow> fin_db \<Rightarrow> fin_db result" where
  "applyCreditToItem now q fid i d =
     (case find_row cr_unitId (ci_unitId i) (credits d) of
        None \<Rightarrow> Inr d
      | Some c \<Rightarrow>
          if cr_balance c \<le> 0 then Inr d
          else if itemOutstanding i \<le> 0 then Inr d
          else let applied = min (cr_balance c) (itemOutstanding i);
                   d1 = waiveItem i applied d
               in if count_where (\<lambda>c. cr_unitId c = ci_unitId i \<and> applied \<le> cr_balance c) (credits d1) \<noteq> 1
                  then Inl (ConflictError STR ''The unit credit balance changed before it could be applied.'')
                  else addLedger now (is_buildingId q) fid CREDIT_APPLIED CREDIT applied RefChargeItem
                         (ci_id i) (Some (is_actorId q)) (takeCredit (ci_unitId i) applied d1))"

fun applyCredits :: "time \<Rightarrow> issueParams \<Rightarrow> id \<Rightarrow> chargeItem list \<Rightarrow> fin_db \<Rightarrow> fin_db result" where
  "applyCredits now q fid [] d = Inr d"
| "applyCredits now q fid (i # is) d =
     bind_r (applyCreditToItem now q fid i d) (applyCredits now q fid is)"

definition markIssued :: "time \<Rightarrow> chargeBatch \<Rightarrow> chargeBatch" where
  "markIssued now b = b\<lparr>cb_status := ISSUED, cb_issuedAt := Some now\<rparr>"

definition issueChargeBatchBody :: "time \<Rightarrow> issueParams \<Rightarrow> (fin_db, chargeBatch) tx" where
  "issueChargeBatchBody now q d =
     (case findChargeBatchById d (is_chargeBatchId q) of
        None \<Rightarrow> Inl (BusinessRuleViolationError STR ''Charge batch not found.'')
      | Some current \<Rightarrow>
          let its = itemsOfBatch d (is_chargeBatchId q) in
          bind_r (assert_r (cb_buildingId current = is_buildingId q)
            (BusinessRuleViolationError STR ''Charge batch not found.'')) (\<lambda>_.
          bind_r (assert_r (cb_status current = DRAFT)
            (BusinessRuleViolationError STR ''Only a DRAFT charge batch can be issued.'')) (\<lambda>_.
          bind_r (assert_r (\<not> (cb_totalAmount current \<le> 0 \<or> its = []))
            (BusinessRuleViolationError STR ''A charge batch with no charge items cannot be issued.'')) (\<lambda>_.
          bind_r (assert_r (count_where (\<lambda>b. cb_id b = is_chargeBatchId q \<and> cb_status b = DRAFT) (batches d) = 1)
            (ConflictError STR ''This charge batch changed before it could be issued.'')) (\<lambda>_.
          bind_r (writeResolutions (is_payerResolutions q) (setBatch (is_chargeBatchId q) (markIssued now) d)) (\<lambda>d1.
          bind_r (applyCredits now q (cb_fundId current) its d1) (\<lambda>d2.
          bind_r (addLedger now (is_buildingId q) (cb_fundId current) CHARGE DEBIT (cb_totalAmount current)
                    RefChargeBatch (is_chargeBatchId q) (Some (is_actorId q)) d2) (\<lambda>d3.
          Inr (markIssued now current, d3)))))))))"

definition issueChargeBatch :: "time \<Rightarrow> issueParams \<Rightarrow> (fin_db, chargeBatch) tx" where
  "issueChargeBatch now q = transaction (issueChargeBatchBody now q)"

section \<open>Adjustments\<close>

record adjustmentParams =
  ja_unitId :: id
  ja_buildingId :: id
  ja_fundId :: id
  ja_amount :: money
  ja_reason :: string
  ja_createdById :: id
  ja_sourceType :: "adjustmentSource option"
  ja_sourceId :: "id option"

definition newAdjustment :: "time \<Rightarrow> id \<Rightarrow> adjustmentParams \<Rightarrow> adjustment" where
  "newAdjustment now aid q =
     \<lparr>aj_id = aid, aj_unitId = ja_unitId q, aj_buildingId = ja_buildingId q, aj_fundId = ja_fundId q,
      aj_amount = ja_amount q, aj_paidAmount = 0, aj_reason = ja_reason q,
      aj_createdById = ja_createdById q, aj_createdAt = now, aj_sourceType = ja_sourceType q,
      aj_sourceId = ja_sourceId q\<rparr>"

text \<open>
  The unique index on source type and source id; rows where either is null never collide.
\<close>

definition sourceTaken :: "fin_db \<Rightarrow> adjustmentParams \<Rightarrow> bool" where
  "sourceTaken d q \<longleftrightarrow> ja_sourceType q \<noteq> None \<and> ja_sourceId q \<noteq> None \<and>
     list_ex (\<lambda>a. aj_sourceType a = ja_sourceType q \<and> aj_sourceId a = ja_sourceId q) (adjustments d)"

definition insertAdjustment :: "time \<Rightarrow> adjustmentParams \<Rightarrow> (fin_db, adjustment) tx" where
  "insertAdjustment now q d =
     (if findFundById d (ja_fundId q) = None then Inl (PrismaError STR ''P2003'')
      else if sourceTaken d q then Inl (PrismaError STR ''P2002'')
      else let a = newAdjustment now (fresh_id d) q
           in Inr (a, take_id (d\<lparr>adjustments := adjustments d @ [a]\<rparr>)))"

text \<open>\<open>if (params.sourceType === 'LATE_FEE' && params.sourceId)\<close> and its check.\<close>

definition lateFeeSourceOk :: "fin_db \<Rightarrow> adjustmentParams \<Rightarrow> bool" where
  "lateFeeSourceOk d q \<longleftrightarrow>
     (if ja_sourceType q = Some LATE_FEE \<and> \<not> falsy_str (ja_sourceId q)
      then (case Option.bind (ja_sourceId q) (findChargeItemById d) of
              None \<Rightarrow> False
            | Some i \<Rightarrow> ci_unitId i = ja_unitId q \<and> collectable d i)
      else True)"

definition ledgerAdjustment :: "time \<Rightarrow> adjustmentParams \<Rightarrow> id \<Rightarrow> fin_db \<Rightarrow> fin_db result" where
  "ledgerAdjustment now q aid d =
     addLedger now (ja_buildingId q) (ja_fundId q) ADJUSTMENT (if ja_amount q < 0 then CREDIT else DEBIT)
       \<bar>ja_amount q\<bar> RefAdjustment aid (Some (ja_createdById q)) d"

definition createAdjustmentBody :: "time \<Rightarrow> adjustmentParams \<Rightarrow> (fin_db, adjustment) tx" where
  "createAdjustmentBody now q d =
     bind_r (assert_r (lateFeeSourceOk d q)
       (BusinessRuleViolationError STR ''A late fee can only be applied to an active issued obligation.'')) (\<lambda>_.
     bind_r (insertAdjustment now q d) (\<lambda>(a, d1).
     let d2 = (if ja_amount q < 0
               then snd (settle_loop itemOutstanding waiveItem (outstandingItems d1 (ja_unitId q))
                           \<bar>ja_amount q\<bar> d1)
               else d1)
     in bind_r (ledgerAdjustment now q (aj_id a) d2) (\<lambda>d3. Inr (a, d3))))"

definition createAdjustment :: "time \<Rightarrow> adjustmentParams \<Rightarrow> (fin_db, adjustment) tx" where
  "createAdjustment now q = transaction (createAdjustmentBody now q)"

section \<open>Opening balance corrections\<close>

definition correctionsOf :: "fin_db \<Rightarrow> id \<Rightarrow> adjustment list" where
  "correctionsOf d uid =
     filter (\<lambda>a. aj_unitId a = uid \<and> aj_sourceType a = Some OPENING_BALANCE_CORRECTION) (adjustments d)"

definition getUnitOpeningBalanceCorrectionTotal :: "fin_db \<Rightarrow> id \<Rightarrow> money" where
  "getUnitOpeningBalanceCorrectionTotal d uid = sum_of aj_amount (correctionsOf d uid)"

definition priorCorrections :: "fin_db \<Rightarrow> id \<Rightarrow> id \<Rightarrow> adjustment list" where
  "priorCorrections d uid aid =
     sort_key aj_createdAt (filter (\<lambda>a. 0 < aj_amount a \<and> aj_id a \<noteq> aid) (correctionsOf d uid))"

record correctionParams =
  oc_unitId :: id
  oc_buildingId :: id
  oc_fundId :: id
  oc_targetBalance :: money
  oc_reason :: string
  oc_createdById :: id

record correctionResult =
  cor_adjustment :: adjustment
  cor_previousBalance :: money
  cor_newBalance :: money
  cor_delta :: money

definition correctionAdjustment :: "correctionParams \<Rightarrow> money \<Rightarrow> adjustmentParams" where
  "correctionAdjustment q delta =
     \<lparr>ja_unitId = oc_unitId q, ja_buildingId = oc_buildingId q, ja_fundId = oc_fundId q,
      ja_amount = delta, ja_reason = oc_reason q, ja_createdById = oc_createdById q,
      ja_sourceType = Some OPENING_BALANCE_CORRECTION, ja_sourceId = None\<rparr>"

definition applyDownwardCorrection :: "correctionParams \<Rightarrow> id \<Rightarrow> money \<Rightarrow> fin_db \<Rightarrow> fin_db" where
  "applyDownwardCorrection q aid n d =
     (let (remaining, d1) = settle_loop adjOutstanding waiveAdjustment
             (priorCorrections d (oc_unitId q) aid) n d
      in if remaining > 0 then creditUpsert (oc_unitId q) (oc_buildingId q) remaining d1 else d1)"

definition applyOpeningBalanceCorrectionBody ::
  "time \<Rightarrow> correctionParams \<Rightarrow> (fin_db, correctionResult) tx" where
  "applyOpeningBalanceCorrectionBody now q d =
     (let previousBalance = getUnitOpeningBalanceCorrectionTotal d (oc_unitId q);
          delta = oc_targetBalance q - previousBalance;
          jq = correctionAdjustment q delta
      in bind_r (assert_r (delta \<noteq> 0)
           (BusinessRuleViolationError STR ''no correction is needed.'')) (\<lambda>_.
         bind_r (insertAdjustment now jq d) (\<lambda>(a, d1).
         let d2 = (if delta < 0 then applyDownwardCorrection q (aj_id a) \<bar>delta\<bar> d1 else d1)
         in bind_r (ledgerAdjustment now jq (aj_id a) d2) (\<lambda>d3.
            Inr (\<lparr>cor_adjustment = a, cor_previousBalance = previousBalance,
                  cor_newBalance = oc_targetBalance q, cor_delta = delta\<rparr>, d3)))))"

definition applyOpeningBalanceCorrection ::
  "time \<Rightarrow> correctionParams \<Rightarrow> (fin_db, correctionResult) tx" where
  "applyOpeningBalanceCorrection now q = transaction (applyOpeningBalanceCorrectionBody now q)"

section \<open>Expenses\<close>

record expenseParams =
  xp_buildingId :: id
  xp_fundId :: id
  xp_title :: string
  xp_description :: "string option"
  xp_category :: expenseCategory
  xp_amount :: money
  xp_occurredAt :: time
  xp_createdById :: id
  xp_idempotencyKey :: "string option"

definition findExpenseByIdempotencyKey :: "fin_db \<Rightarrow> string \<Rightarrow> expense option" where
  "findExpenseByIdempotencyKey d key = find (\<lambda>e. ex_idempotencyKey e = Some key) (expenses d)"

definition newExpense :: "time \<Rightarrow> id \<Rightarrow> expenseParams \<Rightarrow> expense" where
  "newExpense now eid q =
     \<lparr>ex_id = eid, ex_buildingId = xp_buildingId q, ex_fundId = xp_fundId q, ex_title = xp_title q,
      ex_description = xp_description q, ex_category = xp_category q, ex_amount = xp_amount q,
      ex_occurredAt = xp_occurredAt q, ex_status = POSTED, ex_createdById = xp_createdById q,
      ex_voidedAt = None, ex_voidedById = None, ex_voidReason = None,
      ex_idempotencyKey = xp_idempotencyKey q, ex_createdAt = now\<rparr>"

definition keyUsed :: "fin_db \<Rightarrow> string option \<Rightarrow> bool" where
  "keyUsed d key = (case key of Some k \<Rightarrow> findExpenseByIdempotencyKey d k \<noteq> None | None \<Rightarrow> False)"

definition createExpenseBody :: "time \<Rightarrow> expenseParams \<Rightarrow> (fin_db, expense) tx" where
  "createExpenseBody now q d =
     (case findFundById d (xp_fundId q) of
        None \<Rightarrow> Inl (PrismaError STR ''P2025'')
      | Some f \<Rightarrow>
          bind_r (assert_r (\<not> fd_balance f < xp_amount q)
            (BusinessRuleViolationError STR ''This expense's amount exceeds the fund's current balance.'')) (\<lambda>_.
          bind_r (assert_r (\<not> keyUsed d (xp_idempotencyKey q)) (PrismaError STR ''P2002'')) (\<lambda>_.
          let e = newExpense now (fresh_id d) q;
              d1 = take_id (d\<lparr>expenses := expenses d @ [e]\<rparr>)
          in bind_r (addLedger now (xp_buildingId q) (xp_fundId q) EXPENSE DEBIT (xp_amount q) RefExpense
                      (ex_id e) (Some (xp_createdById q)) d1) (\<lambda>d2.
             bind_r (fundIncrement (xp_fundId q) (- xp_amount q) d2) (\<lambda>d3.
             Inr (e, d3))))))"

definition createExpense :: "time \<Rightarrow> expenseParams \<Rightarrow> (fin_db, expense) tx" where
  "createExpense now q = transaction (createExpenseBody now q)"

record voidParams =
  vp_expenseId :: id
  vp_buildingId :: id
  vp_fundId :: id
  vp_amount :: money
  vp_voidReason :: string
  vp_actorId :: id

definition markVoided :: "time \<Rightarrow> voidParams \<Rightarrow> expense \<Rightarrow> expense" where
  "markVoided now q e =
     e\<lparr>ex_status := VOIDED, ex_voidedAt := Some now, ex_voidedById := Some (vp_actorId q),
       ex_voidReason := Some (vp_voidReason q)\<rparr>"

definition voidExpenseBody :: "time \<Rightarrow> voidParams \<Rightarrow> (fin_db, expense) tx" where
  "voidExpenseBody now q d =
     (let claimable = (\<lambda>e. ex_id e = vp_expenseId q \<and> ex_status e = POSTED);
          d1 = d\<lparr>expenses := upd_where claimable (markVoided now q) (expenses d)\<rparr>
      in bind_r (assert_r (count_where claimable (expenses d) = 1)
           (ConflictError STR ''This expense is no longer POSTED (it may have already been voided).'')) (\<lambda>_.
         bind_r (addLedger now (vp_buildingId q) (vp_fundId q) EXPENSE CREDIT (vp_amount q) RefExpense
                   (vp_expenseId q) (Some (vp_actorId q)) d1) (\<lambda>d2.
         bind_r (fundIncrement (vp_fundId q) (vp_amount q) d2) (\<lambda>d3.
         case findExpenseById d3 (vp_expenseId q) of
           Some e \<Rightarrow> Inr (e, d3) | None \<Rightarrow> Inl (PrismaError STR ''P2025'')))))"

definition voidExpense :: "time \<Rightarrow> voidParams \<Rightarrow> (fin_db, expense) tx" where
  "voidExpense now q = transaction (voidExpenseBody now q)"

end
