(* ===== verification/Finance_Invariant.thy ===== *)
theory Finance_Invariant
  imports Charge_Repo
begin

text \<open>
  What the finance tables satisfy between transactions, as predicates over the tables each
  one depends on, and how the single writes of \<open>Finance_Store\<close> act on them.
\<close>

section \<open>Keys come from the supply\<close>

definition keyed :: "(nat \<Rightarrow> id) \<Rightarrow> nat \<Rightarrow> ('r \<Rightarrow> id) \<Rightarrow> 'r list \<Rightarrow> bool" where
  "keyed supply n key rows \<longleftrightarrow> distinct (map key rows) \<and> key ` set rows \<subseteq> supply ` {..<n}"

lemma keyed_Nil [simp]: "keyed supply n key []"
  by (simp add: keyed_def)

lemma keyed_Suc: "keyed supply n key rows \<Longrightarrow> keyed supply (Suc n) key rows"
  by (simp add: keyed_def lessThan_Suc subset_insertI2)

lemma keyed_insert:
  assumes "inj supply" "keyed supply n key rows" "key r = supply n"
  shows "keyed supply (Suc n) key (rows @ [r])"
proof -
  have "supply n \<notin> supply ` {..<n}" using assms(1) by (auto dest: injD)
  then have "supply n \<notin> key ` set rows" using assms(2) by (auto simp: keyed_def)
  with assms show ?thesis by (auto simp: keyed_def lessThan_Suc)
qed

lemma keyed_cong: "map key rows = map key rows' \<Longrightarrow> keyed s n key rows = keyed s n key rows'"
  unfolding keyed_def by (metis list.set_map)

lemma keyed_upd [simp]:
  "(\<And>r. key (f r) = key r) \<Longrightarrow> keyed supply n key (upd_where P f rows) = keyed supply n key rows"
  by (rule keyed_cong) (simp add: map_key_upd_where)

lemma keyed_distinct: "keyed supply n key rows \<Longrightarrow> distinct (map key rows)"
  by (simp add: keyed_def)

lemma keyed_fresh: "inj supply \<Longrightarrow> keyed supply n key rows \<Longrightarrow> r \<in> set rows \<Longrightarrow> key r \<noteq> supply n"
  unfolding keyed_def by (metis image_subset_iff imageE injD lessThan_iff less_irrefl)

definition ids_ok :: "fin_db \<Rightarrow> bool" where
  "ids_ok d \<longleftrightarrow> inj (fin_ids d) \<and>
     keyed (fin_ids d) (fin_next d) fd_id (funds d) \<and>
     keyed (fin_ids d) (fin_next d) cb_id (batches d) \<and>
     keyed (fin_ids d) (fin_next d) ci_id (items d) \<and>
     keyed (fin_ids d) (fin_next d) pm_id (payments d) \<and>
     keyed (fin_ids d) (fin_next d) aj_id (adjustments d) \<and>
     keyed (fin_ids d) (fin_next d) ex_id (expenses d)"

lemma ids_ok_distinct:
  assumes "ids_ok d"
  shows "distinct (map fd_id (funds d))" "distinct (map cb_id (batches d))"
    "distinct (map ci_id (items d))" "distinct (map pm_id (payments d))"
    "distinct (map aj_id (adjustments d))" "distinct (map ex_id (expenses d))"
  using assms by (auto simp: ids_ok_def keyed_def)

lemma ids_ok_take_id [simp]: "ids_ok d \<Longrightarrow> ids_ok (take_id d)"
  by (simp add: ids_ok_def take_id_def keyed_Suc)

lemma item_found: "ids_ok d \<Longrightarrow> i \<in> set (items d) \<Longrightarrow> findChargeItemById d (ci_id i) = Some i"
  unfolding findChargeItemById_def by (rule find_row_distinct [OF ids_ok_distinct(3)])

lemma adjustment_found:
  "ids_ok d \<Longrightarrow> a \<in> set (adjustments d) \<Longrightarrow> findAdjustmentById d (aj_id a) = Some a"
  unfolding findAdjustmentById_def by (rule find_row_distinct [OF ids_ok_distinct(5)])

lemma payment_found: "ids_ok d \<Longrightarrow> p \<in> set (payments d) \<Longrightarrow> findPaymentById d (pm_id p) = Some p"
  unfolding findPaymentById_def by (rule find_row_distinct [OF ids_ok_distinct(4)])

lemma fund_found: "ids_ok d \<Longrightarrow> f \<in> set (funds d) \<Longrightarrow> findFundById d (fd_id f) = Some f"
  unfolding findFundById_def by (rule find_row_distinct [OF ids_ok_distinct(1)])

lemma batch_found: "ids_ok d \<Longrightarrow> b \<in> set (batches d) \<Longrightarrow> findChargeBatchById d (cb_id b) = Some b"
  unfolding findChargeBatchById_def by (rule find_row_distinct [OF ids_ok_distinct(2)])

section \<open>Amounts stay in bounds\<close>

definition item_ok :: "chargeItem \<Rightarrow> bool" where
  "item_ok i \<longleftrightarrow> 0 \<le> ci_paidAmount i \<and> ci_paidAmount i \<le> ci_amount i \<and>
     ci_status i = computeItemStatus (ci_paidAmount i) (ci_amount i)"

definition adj_ok :: "adjustment \<Rightarrow> bool" where
  "adj_ok a \<longleftrightarrow> 0 \<le> aj_paidAmount a \<and> aj_paidAmount a \<le> max 0 (aj_amount a)"

definition rows_ok :: "fin_db \<Rightarrow> bool" where
  "rows_ok d \<longleftrightarrow> (\<forall>i\<in>set (items d). item_ok i) \<and> (\<forall>a\<in>set (adjustments d). adj_ok a)"

definition credits_ok :: "fin_db \<Rightarrow> bool" where
  "credits_ok d \<longleftrightarrow> distinct (map cr_unitId (credits d)) \<and> (\<forall>c\<in>set (credits d). 0 \<le> cr_balance c)"

lemma item_ok_PAID: "item_ok i \<Longrightarrow> ci_status i = PAID \<Longrightarrow> itemOutstanding i = 0"
  by (auto simp: item_ok_def computeItemStatus_def itemOutstanding_def split: if_splits)

lemma item_ok_outstanding: "item_ok i \<Longrightarrow> 0 \<le> itemOutstanding i"
  by (simp add: item_ok_def itemOutstanding_def)

section \<open>The cash ledger\<close>

text \<open>
  The signed effect of a ledger entry on its fund: the entry types of the fund statement,
  credits in, debits out.
\<close>

definition cashEffect :: "ledgerEntry \<Rightarrow> money" where
  "cashEffect l =
     (if le_entryType l \<in> set fundStatementEntryTypes
      then (case le_direction l of CREDIT \<Rightarrow> le_amount l | DEBIT \<Rightarrow> - le_amount l) else 0)"

definition statementTotal :: "fin_db \<Rightarrow> id \<Rightarrow> money" where
  "statementTotal d fid = sum_of cashEffect (filter (\<lambda>l. le_fundId l = fid) (ledger d))"

definition balance_ok :: "fin_db \<Rightarrow> bool" where
  "balance_ok d \<longleftrightarrow> le_fundId ` set (ledger d) \<subseteq> set (map fd_id (funds d)) \<and>
     (\<forall>f\<in>set (funds d). fd_balance f = statementTotal d (fd_id f))"

lemma findFundById_mem: "findFundById d fid \<noteq> None \<longleftrightarrow> fid \<in> set (map fd_id (funds d))"
  by (auto simp: findFundById_def find_row_None_iff)

lemma statementTotal_fresh:
  assumes "balance_ok d" "fid \<notin> set (map fd_id (funds d))"
  shows "statementTotal d fid = 0"
proof -
  have "filter (\<lambda>l. le_fundId l = fid) (ledger d) = []"
    using assms by (auto simp: balance_ok_def filter_empty_conv)
  then show ?thesis by (simp add: statementTotal_def)
qed

lemma statementTotal_addLedger:
  assumes "addLedger now bid fid ty dir n rt ri ac d = Inr d'"
  shows "statementTotal d' x = statementTotal d x +
    (if x = fid \<and> ty \<in> set fundStatementEntryTypes
     then (case dir of CREDIT \<Rightarrow> n | DEBIT \<Rightarrow> - n) else 0)"
  using assms unfolding addLedger_Inr_iff
  by (cases dir) (auto simp: statementTotal_def cashEffect_def take_id_def)

lemma addLedger_funds:
  "addLedger now bid fid ty dir n rt ri ac d = Inr d' \<Longrightarrow>
    funds d' = funds d \<and> le_fundId ` set (ledger d') = insert fid (le_fundId ` set (ledger d)) \<and>
    fid \<in> set (map fd_id (funds d))"
  unfolding addLedger_Inr_iff findFundById_mem by (auto simp: take_id_def)

text \<open>An entry outside the statement leaves every balance where it is.\<close>

lemma balance_ok_addLedger_other:
  assumes "balance_ok d" "addLedger now bid fid ty dir n rt ri ac d = Inr d'"
    and "ty \<notin> set fundStatementEntryTypes"
  shows "balance_ok d'"
  using assms(1,3) addLedger_funds [OF assms(2)] statementTotal_addLedger [OF assms(2)]
  by (simp add: balance_ok_def)

text \<open>A cash entry together with the matching movement of its fund keeps them equal.\<close>

lemma balance_ok_post:
  assumes "balance_ok d" "addLedger now bid fid ty dir n rt ri ac d = Inr d1"
    and "fundIncrement fid m d1 = Inr d'" and "ty \<in> set fundStatementEntryTypes"
    and "m = (case dir of CREDIT \<Rightarrow> n | DEBIT \<Rightarrow> - n)"
  shows "balance_ok d'"
proof -
  have d': "funds d' = upd_where (\<lambda>f. fd_id f = fid) (\<lambda>f. f\<lparr>fd_balance := fd_balance f + m\<rparr>) (funds d)"
    "ledger d' = ledger d1"
    using assms(3) addLedger_funds [OF assms(2)]
    by (auto simp: fundIncrement_Inr_iff bumpBalance_def)
  have st: "statementTotal d' x = statementTotal d x + (if x = fid then m else 0)" for x
    using statementTotal_addLedger [OF assms(2), of x] assms(4,5) d'(2)
    by (simp add: statementTotal_def split: if_splits)
  have keys: "map fd_id (funds d') = map fd_id (funds d)"
    unfolding d'(1) by (rule map_key_upd_where) simp
  have "fd_balance f = statementTotal d' (fd_id f)" if f: "f \<in> set (funds d')" for f
  proof -
    from f obtain f0 where f0: "f0 \<in> set (funds d)"
      "f = (if fd_id f0 = fid then f0\<lparr>fd_balance := fd_balance f0 + m\<rparr> else f0)"
      unfolding d'(1) set_upd_where by blast
    have "fd_balance f0 = statementTotal d (fd_id f0)" using assms(1) f0(1) by (simp add: balance_ok_def)
    with f0(2) show ?thesis by (cases "fd_id f0 = fid") (simp_all add: st)
  qed
  moreover have "le_fundId ` set (ledger d') \<subseteq> set (map fd_id (funds d'))"
    using assms(1) addLedger_funds [OF assms(2)] unfolding d'(2) keys by (simp add: balance_ok_def)
  ultimately show ?thesis by (simp add: balance_ok_def)
qed

text \<open>Rows of funds may change as long as their identity and balance stay.\<close>

lemma balance_ok_setFund:
  assumes "balance_ok d" "\<And>f. fd_id (g f) = fd_id f" "\<And>f. fd_balance (g f) = fd_balance f"
  shows "balance_ok (setFund fid g d)"
proof -
  have "map fd_id (funds (setFund fid g d)) = map fd_id (funds d)"
    using assms(2) by (simp add: setFund_def map_key_upd_where)
  moreover have "statementTotal (setFund fid g d) x = statementTotal d x" for x
    by (simp add: setFund_def statementTotal_def)
  ultimately show ?thesis
    using assms unfolding balance_ok_def by (auto simp: setFund_def set_upd_where)
qed

lemma balance_ok_insertFund:
  assumes "balance_ok d" "fd_balance f = 0" "fd_id f \<notin> set (map fd_id (funds d))"
  shows "balance_ok (take_id (d\<lparr>funds := funds d @ [f]\<rparr>))"
proof -
  have "statementTotal d (fd_id f) = 0" using assms statementTotal_fresh by blast
  with assms show ?thesis by (auto simp: balance_ok_def statementTotal_def take_id_def)
qed

text \<open>The predicate looks at two tables only.\<close>

lemma balance_ok_cong: "funds d' = funds d \<Longrightarrow> ledger d' = ledger d \<Longrightarrow> balance_ok d' = balance_ok d"
  by (simp add: balance_ok_def statementTotal_def)

section \<open>Paid amounts and allocations\<close>

definition paidOf :: "fin_db \<Rightarrow> obligation \<Rightarrow> money" where
  "paidOf d ob =
     (case ob of
        CHARGE_ITEM iid \<Rightarrow> (case findChargeItemById d iid of Some i \<Rightarrow> ci_paidAmount i | None \<Rightarrow> 0)
      | ADJUSTMENT_OB aid \<Rightarrow>
          (case findAdjustmentById d aid of Some a \<Rightarrow> aj_paidAmount a | None \<Rightarrow> 0))"

definition existsOb :: "fin_db \<Rightarrow> obligation \<Rightarrow> bool" where
  "existsOb d ob \<longleftrightarrow>
     (case ob of CHARGE_ITEM iid \<Rightarrow> iid \<in> set (map ci_id (items d))
      | ADJUSTMENT_OB aid \<Rightarrow> aid \<in> set (map aj_id (adjustments d)))"

text \<open>What the payments with identifiers in \<open>A\<close> have put on an obligation.\<close>

definition allocatedOn :: "id set \<Rightarrow> allocation list \<Rightarrow> obligation \<Rightarrow> money" where
  "allocatedOn A als ob = sum_of al_amount (filter (\<lambda>al. al_paymentId al \<in> A \<and> al_target al = ob) als)"

definition approvedIds :: "fin_db \<Rightarrow> id set" where
  "approvedIds d = pm_id ` {p \<in> set (payments d). pm_status p = APPROVED}"

definition alloc_ok :: "fin_db \<Rightarrow> bool" where
  "alloc_ok d \<longleftrightarrow>
     (\<forall>al\<in>set (allocations d). 0 < al_amount al \<and> existsOb d (al_target al) \<and>
        (\<exists>p\<in>set (payments d). pm_id p = al_paymentId al \<and> pm_status p \<in> {APPROVED, REVERSED})) \<and>
     (\<forall>p\<in>set (payments d). allocatedTotal d (pm_id p) \<le> pm_amount p) \<and>
     (\<forall>ob. allocatedOn (approvedIds d) (allocations d) ob \<le> paidOf d ob)"

definition pay_ok :: "fin_db \<Rightarrow> bool" where
  "pay_ok d \<longleftrightarrow> (\<forall>p\<in>set (payments d). 0 < pm_amount p)"

lemma allocatedOn_simps [simp]:
  "allocatedOn A [] ob = 0"
  "allocatedOn A (xs @ ys) ob = allocatedOn A xs ob + allocatedOn A ys ob"
  "allocatedOn A (al # xs) ob =
     (if al_paymentId al \<in> A \<and> al_target al = ob then al_amount al else 0) + allocatedOn A xs ob"
  by (simp_all add: allocatedOn_def)

lemma allocatedOn_cong:
  "(\<And>al. al \<in> set als \<Longrightarrow> al_paymentId al \<in> A \<longleftrightarrow> al_paymentId al \<in> B) \<Longrightarrow>
    allocatedOn A als ob = allocatedOn B als ob"
  by (induction als) auto

section \<open>Reservations\<close>

text \<open>
  A live reservation belongs to a pending explicit payment, reserves something, and is the
  only live one of its obligation; a pending explicit payment's amount is the total of its
  selections, all of them live.
\<close>

definition sel_ok :: "fin_db \<Rightarrow> bool" where
  "sel_ok d \<longleftrightarrow>
     (\<forall>s\<in>set (selections d). 0 < ds_selectedAmount s \<and>
        (\<exists>p\<in>set (payments d). pm_id p = ds_paymentId s \<and> pm_selectionMode p = EXPLICIT_SELECTION \<and>
           (ds_state s = Some ACTIVE \<longrightarrow> pm_status p = PENDING_APPROVAL))) \<and>
     (\<forall>ob. length (activeFor d ob) \<le> 1) \<and>
     (\<forall>p\<in>set (payments d). pm_selectionMode p = EXPLICIT_SELECTION \<longrightarrow>
        sum_of ds_selectedAmount (selectionsOf d (pm_id p)) = pm_amount p \<and>
        (pm_status p = PENDING_APPROVAL \<longrightarrow>
           (\<forall>s\<in>set (selectionsOf d (pm_id p)). ds_state s = Some ACTIVE)))"

text \<open>The invariant of the component.\<close>

definition fin_inv :: "fin_db \<Rightarrow> bool" where
  "fin_inv d \<longleftrightarrow> ids_ok d \<and> rows_ok d \<and> credits_ok d \<and> balance_ok d \<and> pay_ok d \<and> alloc_ok d \<and> sel_ok d"

lemmas inv_defs = fin_inv_def ids_ok_def rows_ok_def credits_ok_def pay_ok_def

lemma fin_invD:
  assumes "fin_inv d"
  shows "ids_ok d" "rows_ok d" "credits_ok d" "balance_ok d" "pay_ok d" "alloc_ok d" "sel_ok d"
  using assms by (auto simp: fin_inv_def)

lemma empty_fin_inv: "inj supply \<Longrightarrow> fin_inv (empty_fin supply)"
  by (simp add: fin_inv_def ids_ok_def rows_ok_def credits_ok_def balance_ok_def pay_ok_def
      alloc_ok_def sel_ok_def empty_fin_def activeFor_def selectionsOf_def paidOf_def
      findChargeItemById_def findAdjustmentById_def find_row_def split: obligation.splits)

end
