(* ===== verification/Finance_Settlement.thy ===== *)
theory Finance_Settlement
  imports Finance_Invariant
begin

text \<open>
  What a settlement does to the tables, however it is written in the code: the relation
  \<open>settles\<close> says that a list of (obligation, amount) pairs has been put on the paid amounts
  of the items and adjustments, within their bounds and without touching any other column.
  Single writes are instances, and the relation composes, so loops are too.
\<close>

section \<open>The relation\<close>

definition onTarget :: "(obligation \<times> money) list \<Rightarrow> obligation \<Rightarrow> money" where
  "onTarget pl ob = sum_of snd (filter (\<lambda>p. fst p = ob) pl)"

lemma onTarget_simps [simp]:
  "onTarget [] ob = 0" "onTarget (p # ps) ob = (if fst p = ob then snd p else 0) + onTarget ps ob"
  "onTarget (ps @ qs) ob = onTarget ps ob + onTarget qs ob"
  by (simp_all add: onTarget_def)

definition itemIdentity :: "chargeItem \<Rightarrow> id \<times> id \<times> id \<times> money \<times> time" where
  "itemIdentity i = (ci_id i, ci_chargeBatchId i, ci_unitId i, ci_amount i, ci_createdAt i)"

definition adjIdentity :: "adjustment \<Rightarrow> adjustment" where
  "adjIdentity a = a\<lparr>aj_paidAmount := 0\<rparr>"

definition settles :: "(obligation \<times> money) list \<Rightarrow> fin_db \<Rightarrow> fin_db \<Rightarrow> bool" where
  "settles pl d d' \<longleftrightarrow>
     map itemIdentity (items d') = map itemIdentity (items d) \<and>
     map adjIdentity (adjustments d') = map adjIdentity (adjustments d) \<and>
     rows_ok d' \<and> (\<forall>ob. paidOf d' ob = paidOf d ob + onTarget pl ob)"

lemma settles_refl: "rows_ok d \<Longrightarrow> settles [] d d"
  by (simp add: settles_def)

lemma settles_trans: "settles ps d d1 \<Longrightarrow> settles qs d1 d2 \<Longrightarrow> settles (ps @ qs) d d2"
  by (simp add: settles_def)

lemma map_via: "map f xs = map f ys \<Longrightarrow> (\<And>x. g (f x) = h x) \<Longrightarrow> map h xs = map h ys"
proof -
  assume a: "map f xs = map f ys" and g: "\<And>x. g (f x) = h x"
  have "map h xs = map g (map f xs)" "map h ys = map g (map f ys)" by (simp_all add: g comp_def)
  with a show ?thesis by simp
qed

lemma settles_keys:
  assumes "settles pl d d'"
  shows "map ci_id (items d') = map ci_id (items d)" "map aj_id (adjustments d') = map aj_id (adjustments d)"
proof -
  show "map ci_id (items d') = map ci_id (items d)"
    using assms by (intro map_via [of itemIdentity _ _ fst]) (auto simp: settles_def itemIdentity_def)
  show "map aj_id (adjustments d') = map aj_id (adjustments d)"
    using assms by (intro map_via [of adjIdentity _ _ aj_id]) (auto simp: settles_def adjIdentity_def)
qed

lemma settles_existsOb: "settles pl d d' \<Longrightarrow> existsOb d' ob = existsOb d ob"
  by (cases ob) (simp_all add: existsOb_def settles_keys)

lemma settles_ids_ok:
  assumes "settles pl d d'" "ids_ok d"
    and "fin_ids d' = fin_ids d" "fin_next d' = fin_next d" "funds d' = funds d" "batches d' = batches d"
    and "map pm_id (payments d') = map pm_id (payments d)" "expenses d' = expenses d"
  shows "ids_ok d'"
  using assms settles_keys [OF assms(1)] keyed_cong [of ci_id "items d'" "items d"]
    keyed_cong [of aj_id "adjustments d'" "adjustments d"]
    keyed_cong [of pm_id "payments d'" "payments d"]
  by (simp add: ids_ok_def)

section \<open>The single writes\<close>

text \<open>The row a loop read earlier, as far as the loop uses it, is still in the table.\<close>

definition sees_item :: "fin_db \<Rightarrow> chargeItem \<Rightarrow> bool" where
  "sees_item d i \<longleftrightarrow>
     (\<exists>j\<in>set (items d). itemIdentity j = itemIdentity i \<and> ci_paidAmount j = ci_paidAmount i)"

definition sees_adj :: "fin_db \<Rightarrow> adjustment \<Rightarrow> bool" where
  "sees_adj d a \<longleftrightarrow> a \<in> set (adjustments d)"

lemma sees_item_mem: "i \<in> set (items d) \<Longrightarrow> sees_item d i"
  by (auto simp: sees_item_def)

lemma paidOf_setItemPaid:
  "iid \<in> ci_id ` set (items d) \<Longrightarrow>
    paidOf (setItemPaid iid n m d) ob = (if ob = CHARGE_ITEM iid then n else paidOf d ob)"
  by (cases ob) (auto simp: paidOf_def setItemPaid_def findChargeItemById_def findAdjustmentById_def
      find_row_upd_same find_row_None_iff split: option.splits)

lemma paidOf_setAdjPaid:
  "aid \<in> aj_id ` set (adjustments d) \<Longrightarrow>
    paidOf (setAdjPaid aid n d) ob = (if ob = ADJUSTMENT_OB aid then n else paidOf d ob)"
  by (cases ob) (auto simp: paidOf_def setAdjPaid_def findChargeItemById_def findAdjustmentById_def
      find_row_upd_same find_row_None_iff split: option.splits)

lemma sees_item_row:
  assumes "distinct (map ci_id (items d))" "sees_item d i"
  shows "\<exists>j\<in>set (items d). itemIdentity j = itemIdentity i \<and> ci_paidAmount j = ci_paidAmount i \<and>
    findChargeItemById d (ci_id i) = Some j \<and> (\<forall>x\<in>set (items d). ci_id x = ci_id i \<longrightarrow> x = j)"
proof -
  obtain j where j: "j \<in> set (items d)" "itemIdentity j = itemIdentity i"
    "ci_paidAmount j = ci_paidAmount i" using assms(2) by (auto simp: sees_item_def)
  then have id: "ci_id j = ci_id i" by (simp add: itemIdentity_def)
  moreover have "findChargeItemById d (ci_id j) = Some j"
    unfolding findChargeItemById_def by (rule find_row_distinct [OF assms(1) j(1)])
  moreover have "x = j" if "x \<in> set (items d)" "ci_id x = ci_id i" for x
  proof (rule inj_onD [of ci_id "set (items d)"])
    show "inj_on ci_id (set (items d))" using assms(1) by (simp add: distinct_map)
    show "ci_id x = ci_id j" using that(2) id by simp
  qed (use that j in simp_all)
  ultimately show ?thesis using j unfolding id by blast
qed

lemma settles_setItemPaid:
  assumes "distinct (map ci_id (items d))" "rows_ok d" "sees_item d i"
    and "0 \<le> n" "n \<le> ci_amount i"
  shows "settles [(CHARGE_ITEM (ci_id i), n - ci_paidAmount i)] d (setItemPaid (ci_id i) n (ci_amount i) d)"
proof -
  obtain j where j: "j \<in> set (items d)" "itemIdentity j = itemIdentity i"
    "ci_paidAmount j = ci_paidAmount i" "findChargeItemById d (ci_id i) = Some j"
    "\<forall>x\<in>set (items d). ci_id x = ci_id i \<longrightarrow> x = j"
    using sees_item_row [OF assms(1,3)] by (elim bexE conjE) rule
  have ij: "ci_id j = ci_id i" "ci_amount j = ci_amount i" using j(2) by (simp_all add: itemIdentity_def)
  let ?d = "setItemPaid (ci_id i) n (ci_amount i) d"
  have "map itemIdentity (items ?d) = map itemIdentity (items d)"
    unfolding setItemPaid_def by (simp, rule map_key_upd_where) (simp add: itemIdentity_def)
  moreover have "rows_ok ?d"
    using assms(2,4,5) ij(2) j(5) unfolding rows_ok_def setItemPaid_def
    by (auto simp: set_upd_where item_ok_def)
  moreover have "paidOf ?d ob = paidOf d ob + onTarget [(CHARGE_ITEM (ci_id i), n - ci_paidAmount i)] ob" for ob
  proof -
    have "paidOf d (CHARGE_ITEM (ci_id i)) = ci_paidAmount i" using j(3,4) by (simp add: paidOf_def)
    moreover have "ci_id i \<in> ci_id ` set (items d)" using j(1) ij(1) by (metis imageI)
    ultimately show ?thesis using paidOf_setItemPaid [of "ci_id i" d n "ci_amount i" ob] by auto
  qed
  ultimately show ?thesis by (simp add: settles_def setItemPaid_def)
qed

lemma settles_setAdjPaid:
  assumes "distinct (map aj_id (adjustments d))" "rows_ok d" "a \<in> set (adjustments d)"
    and "0 \<le> n" "n \<le> max 0 (aj_amount a)"
  shows "settles [(ADJUSTMENT_OB (aj_id a), n - aj_paidAmount a)] d (setAdjPaid (aj_id a) n d)"
proof -
  let ?d = "setAdjPaid (aj_id a) n d"
  have uniq: "x = a" if "x \<in> set (adjustments d)" "aj_id x = aj_id a" for x
    using that assms(1,3) by (auto simp: distinct_map inj_on_def)
  have found: "findAdjustmentById d (aj_id a) = Some a"
    unfolding findAdjustmentById_def by (rule find_row_distinct [OF assms(1,3)])
  have "map adjIdentity (adjustments ?d) = map adjIdentity (adjustments d)"
    unfolding setAdjPaid_def by (simp, rule map_key_upd_where) (simp add: adjIdentity_def)
  moreover have "rows_ok ?d"
    using assms(2,4,5) unfolding rows_ok_def setAdjPaid_def
    by (auto simp: set_upd_where adj_ok_def dest: uniq)
  moreover have "paidOf ?d ob = paidOf d ob + onTarget [(ADJUSTMENT_OB (aj_id a), n - aj_paidAmount a)] ob" for ob
  proof -
    have "paidOf d (ADJUSTMENT_OB (aj_id a)) = aj_paidAmount a" using found by (simp add: paidOf_def)
    then show ?thesis using paidOf_setAdjPaid [of "aj_id a" d n ob] assms(3) by auto
  qed
  ultimately show ?thesis by (simp add: settles_def setAdjPaid_def)
qed

text \<open>Recording an allocation touches neither items nor adjustments.\<close>

lemma addAllocation_frame [simp]:
  "items (addAllocation pid ob n d) = items d" "adjustments (addAllocation pid ob n d) = adjustments d"
  "rows_ok (addAllocation pid ob n d) = rows_ok d" "paidOf (addAllocation pid ob n d) x = paidOf d x"
  "sees_item (addAllocation pid ob n d) i = sees_item d i"
  by (cases x; simp add: addAllocation_def rows_ok_def paidOf_def sees_item_def findChargeItemById_def
      findAdjustmentById_def)+

lemma settles_addAllocation [simp]: "settles pl (addAllocation pid ob n d) d' = settles pl d d'"
  by (simp add: settles_def)

lemma settles_payItem:
  assumes "distinct (map ci_id (items d))" "rows_ok d" "sees_item d i" "0 < n" "n \<le> itemOutstanding i"
  shows "settles [(CHARGE_ITEM (ci_id i), n)] d (payItem pid i n d)"
    and "settles [(CHARGE_ITEM (ci_id i), n)] d (waiveItem i n d)"
proof -
  obtain j where "j \<in> set (items d)" "ci_paidAmount j = ci_paidAmount i"
    using assms(3) by (auto simp: sees_item_def)
  then have "0 \<le> ci_paidAmount i" using assms(2) by (auto simp: rows_ok_def item_ok_def)
  then have b: "0 \<le> ci_paidAmount i + n" "ci_paidAmount i + n \<le> ci_amount i"
    using assms(4,5) by (simp_all add: itemOutstanding_def)
  show "settles [(CHARGE_ITEM (ci_id i), n)] d (waiveItem i n d)"
    using settles_setItemPaid [OF assms(1-3) b] by (simp add: waiveItem_def)
  show "settles [(CHARGE_ITEM (ci_id i), n)] d (payItem pid i n d)"
    using settles_setItemPaid [of "addAllocation pid (CHARGE_ITEM (ci_id i)) n d", OF _ _ _ b] assms(1-3)
    by (simp add: payItem_def)
qed

lemma settles_payAdjustment:
  assumes "distinct (map aj_id (adjustments d))" "rows_ok d" "a \<in> set (adjustments d)"
    and "0 < n" "n \<le> adjOutstanding a"
  shows "settles [(ADJUSTMENT_OB (aj_id a), n)] d (payAdjustment pid a n d)"
    and "settles [(ADJUSTMENT_OB (aj_id a), n)] d (waiveAdjustment a n d)"
proof -
  have "0 \<le> aj_paidAmount a" using assms(2,3) by (auto simp: rows_ok_def adj_ok_def)
  then have b: "0 \<le> aj_paidAmount a + n" "aj_paidAmount a + n \<le> max 0 (aj_amount a)"
    using assms(4,5) by (simp_all add: adjOutstanding_def)
  show "settles [(ADJUSTMENT_OB (aj_id a), n)] d (waiveAdjustment a n d)"
    using settles_setAdjPaid [OF assms(1-3) b] by (simp add: waiveAdjustment_def)
  show "settles [(ADJUSTMENT_OB (aj_id a), n)] d (payAdjustment pid a n d)"
    using settles_setAdjPaid [of "addAllocation pid (ADJUSTMENT_OB (aj_id a)) n d", OF _ _ _ b] assms(1-3)
    by (simp add: payAdjustment_def)
qed

text \<open>Everything a settlement leaves alone: the store without the three tables it writes.\<close>

definition frame :: "fin_db \<Rightarrow> fin_db" where
  "frame d = d\<lparr>items := [], adjustments := [], allocations := []\<rparr>"

lemma frameD:
  assumes "frame d' = frame d"
  shows "funds d' = funds d" "seriesRows d' = seriesRows d" "batches d' = batches d"
    "itemPayers d' = itemPayers d" "payments d' = payments d" "selections d' = selections d"
    "credits d' = credits d" "ledger d' = ledger d" "expenses d' = expenses d" "refunds d' = refunds d"
    "fin_ids d' = fin_ids d" "fin_next d' = fin_next d"
proof -
  have "f (frame d') = f (frame d)" for f :: "fin_db \<Rightarrow> 'b" using assms by simp
  note * = this
  show "funds d' = funds d" using * [of funds] by (simp add: frame_def)
  show "seriesRows d' = seriesRows d" using * [of seriesRows] by (simp add: frame_def)
  show "batches d' = batches d" using * [of batches] by (simp add: frame_def)
  show "itemPayers d' = itemPayers d" using * [of itemPayers] by (simp add: frame_def)
  show "payments d' = payments d" using * [of payments] by (simp add: frame_def)
  show "selections d' = selections d" using * [of selections] by (simp add: frame_def)
  show "credits d' = credits d" using * [of credits] by (simp add: frame_def)
  show "ledger d' = ledger d" using * [of ledger] by (simp add: frame_def)
  show "expenses d' = expenses d" using * [of expenses] by (simp add: frame_def)
  show "refunds d' = refunds d" using * [of refunds] by (simp add: frame_def)
  show "fin_ids d' = fin_ids d" using * [of fin_ids] by (simp add: frame_def)
  show "fin_next d' = fin_next d" using * [of fin_next] by (simp add: frame_def)
qed

lemma frame_pays [simp]:
  "frame (payItem pid i n d) = frame d" "frame (waiveItem i n d) = frame d"
  "frame (payAdjustment pid a n d) = frame d" "frame (waiveAdjustment a n d) = frame d"
  by (simp_all add: frame_def write_defs)

lemma allocations_pays [simp]:
  "allocations (payItem pid i n d) =
     allocations d @ [\<lparr>al_paymentId = pid, al_target = CHARGE_ITEM (ci_id i), al_amount = n\<rparr>]"
  "allocations (waiveItem i n d) = allocations d"
  "allocations (payAdjustment pid a n d) =
     allocations d @ [\<lparr>al_paymentId = pid, al_target = ADJUSTMENT_OB (aj_id a), al_amount = n\<rparr>]"
  "allocations (waiveAdjustment a n d) = allocations d"
  by (simp_all add: write_defs)

section \<open>Loops\<close>

text \<open>
  A plan over rows with different keys settles exactly what it lists: each step leaves the
  rows of the other keys as the loop read them.
\<close>

locale settling =
  fixes target :: "'r \<Rightarrow> obligation"
    and outstanding :: "'r \<Rightarrow> money"
    and apply_row :: "'r \<Rightarrow> money \<Rightarrow> fin_db \<Rightarrow> fin_db"
    and sees :: "fin_db \<Rightarrow> 'r \<Rightarrow> bool"
    and good :: "fin_db \<Rightarrow> bool"
    and entry :: "obligation \<Rightarrow> money \<Rightarrow> allocation list"
  assumes step: "good d \<Longrightarrow> rows_ok d \<Longrightarrow> sees d r \<Longrightarrow> 0 < n \<Longrightarrow> n \<le> outstanding r \<Longrightarrow>
      settles [(target r, n)] d (apply_row r n d)"
    and step_good: "good d \<Longrightarrow> good (apply_row r n d)"
    and step_sees: "sees d r' \<Longrightarrow> target r' \<noteq> target r \<Longrightarrow> sees (apply_row r n d) r'"
    and step_frame: "frame (apply_row r n d) = frame d"
    and step_entry: "allocations (apply_row r n d) = allocations d @ entry (target r) n"
begin

definition targets :: "('r \<times> money) list \<Rightarrow> (obligation \<times> money) list" where
  "targets ps = map (\<lambda>p. (target (fst p), snd p)) ps"

lemma plan_frame: "frame (apply_plan apply_row ps d) = frame d"
  by (induction ps arbitrary: d) (auto simp: step_frame)

lemma plan_entries:
  "allocations (apply_plan apply_row ps d) =
     allocations d @ concat (map (\<lambda>p. entry (fst p) (snd p)) (targets ps))"
  by (induction ps arbitrary: d) (auto simp: targets_def step_entry)

lemma targets_bounds:
  "(ob, n) \<in> set (targets (settle_plan outstanding rs m)) \<Longrightarrow> 0 < n \<and> ob \<in> target ` set rs"
  by (auto simp: targets_def dest: settle_plan_bounds)

lemma targets_total: "sum_of snd (targets ps) = sum_of snd ps"
  by (induction ps) (auto simp: targets_def)

lemma plan_settles:
  assumes "good d" "rows_ok d" "distinct (map (\<lambda>p. target (fst p)) ps)"
    and "\<And>r n. (r, n) \<in> set ps \<Longrightarrow> sees d r \<and> 0 < n \<and> n \<le> outstanding r"
  shows "settles (targets ps) d (apply_plan apply_row ps d)"
  using assms
proof (induction ps arbitrary: d)
  case Nil
  then show ?case by (simp add: settles_refl targets_def)
next
  case (Cons p ps)
  obtain r n where p: "p = (r, n)" by (cases p)
  let ?d = "apply_row r n d"
  have rn: "sees d r" "0 < n" "n \<le> outstanding r" using Cons.prems(4) [of r n] p by simp_all
  have one: "settles [(target r, n)] d ?d" using Cons.prems(1,2) rn by (rule step)
  have "settles (targets ps) ?d (apply_plan apply_row ps ?d)"
  proof (rule Cons.IH)
    show "good ?d" by (rule step_good [OF Cons.prems(1)])
    show "rows_ok ?d" using one by (simp add: settles_def)
    show "distinct (map (\<lambda>p. target (fst p)) ps)" using Cons.prems(3) by simp
    show "sees ?d r' \<and> 0 < n' \<and> n' \<le> outstanding r'" if m: "(r', n') \<in> set ps" for r' n'
    proof -
      have "target r' \<noteq> target r" using Cons.prems(3) m p by (force simp: image_iff)
      then show ?thesis using Cons.prems(4) [of r' n'] m step_sees by simp
    qed
  qed
  from settles_trans [OF one this] show ?case by (simp add: p targets_def)
qed

lemma loop_settles:
  assumes "good d" "rows_ok d" "distinct (map target rs)" "\<And>r. r \<in> set rs \<Longrightarrow> sees d r"
  shows "settles (targets (settle_plan outstanding rs m)) d (snd (settle_loop outstanding apply_row rs m d))"
  unfolding settle_loop_plan snd_conv
proof (rule plan_settles)
  show "distinct (map (\<lambda>p. target (fst p)) (settle_plan outstanding rs m))"
    using settle_plan_subseq [OF assms(3)] .
  show "sees d r \<and> 0 < n \<and> n \<le> outstanding r" if "(r, n) \<in> set (settle_plan outstanding rs m)" for r n
    using settle_plan_bounds [OF that] assms(4) by blast
qed (use assms in simp_all)

end

definition items_distinct :: "fin_db \<Rightarrow> bool" where
  "items_distinct d \<longleftrightarrow> distinct (map ci_id (items d))"

definition adjs_distinct :: "fin_db \<Rightarrow> bool" where
  "adjs_distinct d \<longleftrightarrow> distinct (map aj_id (adjustments d))"

lemma keys_setPaid [simp]:
  "map ci_id (items (setItemPaid iid n m d)) = map ci_id (items d)"
  "map aj_id (adjustments (setAdjPaid iid n d)) = map aj_id (adjustments d)"
  by (simp_all add: setItemPaid_def setAdjPaid_def map_key_upd_where)

lemma sees_item_setItemPaid:
  "sees_item d i' \<Longrightarrow> ci_id i' \<noteq> iid \<Longrightarrow> sees_item (setItemPaid iid n m d) i'"
  by (auto simp: sees_item_def setItemPaid_def set_upd_where itemIdentity_def image_iff split: if_splits)

lemma sees_adj_setAdjPaid:
  "sees_adj d a \<Longrightarrow> aj_id a \<noteq> aid \<Longrightarrow> sees_adj (setAdjPaid aid n d) a"
  by (auto simp: sees_adj_def setAdjPaid_def set_upd_where)

lemma adjustments_addAllocation [simp]: "sees_adj (addAllocation pid ob n d) a = sees_adj d a"
  by (simp add: sees_adj_def)

lemma pay_frames [simp]:
  "items_distinct (payItem pid i n d) = items_distinct d"
  "items_distinct (waiveItem i n d) = items_distinct d"
  "adjs_distinct (payAdjustment pid a n d) = adjs_distinct d"
  "adjs_distinct (waiveAdjustment a n d) = adjs_distinct d"
  by (simp_all add: items_distinct_def adjs_distinct_def payItem_def waiveItem_def payAdjustment_def
      waiveAdjustment_def)

lemma pay_sees:
  "sees_item d i' \<Longrightarrow> ci_id i' \<noteq> ci_id i \<Longrightarrow> sees_item (payItem pid i n d) i'"
  "sees_item d i' \<Longrightarrow> ci_id i' \<noteq> ci_id i \<Longrightarrow> sees_item (waiveItem i n d) i'"
  "sees_adj d a' \<Longrightarrow> aj_id a' \<noteq> aj_id a \<Longrightarrow> sees_adj (payAdjustment pid a n d) a'"
  "sees_adj d a' \<Longrightarrow> aj_id a' \<noteq> aj_id a \<Longrightarrow> sees_adj (waiveAdjustment a n d) a'"
  by (simp_all add: payItem_def waiveItem_def payAdjustment_def waiveAdjustment_def
      sees_item_setItemPaid sees_adj_setAdjPaid)

interpretation paying: settling "\<lambda>i. CHARGE_ITEM (ci_id i)" itemOutstanding "payItem pid" sees_item
  items_distinct "\<lambda>ob n. [\<lparr>al_paymentId = pid, al_target = ob, al_amount = n\<rparr>]" for pid
  by unfold_locales (simp_all add: items_distinct_def [THEN iffD1] settles_payItem pay_sees)

interpretation waiving: settling "\<lambda>i. CHARGE_ITEM (ci_id i)" itemOutstanding waiveItem sees_item
  items_distinct "\<lambda>_ _. []"
  by unfold_locales (simp_all add: items_distinct_def [THEN iffD1] settles_payItem pay_sees)

interpretation payingAdj: settling "\<lambda>a. ADJUSTMENT_OB (aj_id a)" adjOutstanding "payAdjustment pid"
  sees_adj adjs_distinct "\<lambda>ob n. [\<lparr>al_paymentId = pid, al_target = ob, al_amount = n\<rparr>]" for pid
  by unfold_locales (simp_all add: adjs_distinct_def [THEN iffD1] sees_adj_def [THEN iffD1] settles_payAdjustment pay_sees)

interpretation waivingAdj: settling "\<lambda>a. ADJUSTMENT_OB (aj_id a)" adjOutstanding waiveAdjustment
  sees_adj adjs_distinct "\<lambda>_ _. []"
  by unfold_locales (simp_all add: adjs_distinct_def [THEN iffD1] sees_adj_def [THEN iffD1] settles_payAdjustment pay_sees)

end
