(* ===== verification/Payment_Steps.thy ===== *)
theory Payment_Steps
  imports Finance_Settlement
begin

text \<open>
  The payment transactions preserve the invariant of the finance tables.
\<close>

section \<open>What approving settles\<close>

definition allocRow :: "id \<Rightarrow> obligation \<times> money \<Rightarrow> allocation" where
  "allocRow pid p = \<lparr>al_paymentId = pid, al_target = fst p, al_amount = snd p\<rparr>"

text \<open>
  Payment \<open>pid\<close> puts the pairs of \<open>pl\<close> on obligations that exist, with one allocation
  each, and nothing else changes.
\<close>

definition pays :: "id \<Rightarrow> (obligation \<times> money) list \<Rightarrow> fin_db \<Rightarrow> fin_db \<Rightarrow> bool" where
  "pays pid pl d d' \<longleftrightarrow> settles pl d d' \<and> frame d' = frame d \<and>
     allocations d' = allocations d @ map (allocRow pid) pl \<and>
     (\<forall>p\<in>set pl. 0 < snd p \<and> existsOb d (fst p))"

lemma pays_refl: "rows_ok d \<Longrightarrow> pays pid [] d d"
  by (simp add: pays_def settles_refl)

lemma pays_trans: "pays pid ps d d1 \<Longrightarrow> pays pid qs d1 d2 \<Longrightarrow> pays pid (ps @ qs) d d2"
  using settles_existsOb [of ps d d1] by (auto simp: pays_def intro: settles_trans)

lemma pays_rows_ok: "pays pid pl d d' \<Longrightarrow> rows_ok d'"
  by (simp add: pays_def settles_def)

lemma pays_ids_ok: "pays pid pl d d' \<Longrightarrow> ids_ok d \<Longrightarrow> ids_ok d'"
  using settles_ids_ok [of pl d d'] frameD [of d' d] by (simp add: pays_def)

lemma concat_single: "concat (map (\<lambda>p. [f p]) xs) = map f xs"
  by (induction xs) auto

lemma outstandingItems_sub: "i \<in> set (outstandingItems d uid) \<Longrightarrow> i \<in> set (items d)"
  by (auto simp: outstandingItems_def unpaidItems_def)

lemma outstandingItems_distinct: "ids_ok d \<Longrightarrow> distinct (map ci_id (outstandingItems d uid))"
  using ids_ok_distinct(3) [of d] by (simp add: outstandingItems_def unpaidItems_def distinct_map_filter)

lemma outstandingAdjustments_sub: "a \<in> set (outstandingAdjustments d uid) \<Longrightarrow> a \<in> set (adjustments d)"
  by (auto simp: outstandingAdjustments_def positiveAdjustments_def)

lemma outstandingAdjustments_distinct: "ids_ok d \<Longrightarrow> distinct (map aj_id (outstandingAdjustments d uid))"
  using ids_ok_distinct(5) [of d]
  by (simp add: outstandingAdjustments_def positiveAdjustments_def distinct_map_filter)

lemma distinct_CHARGE_ITEM: "distinct (map ci_id is) \<Longrightarrow> distinct (map (\<lambda>i. CHARGE_ITEM (ci_id i)) is)"
  by (auto simp: distinct_map inj_on_def)

lemma distinct_ADJUSTMENT_OB: "distinct (map aj_id as) \<Longrightarrow> distinct (map (\<lambda>a. ADJUSTMENT_OB (aj_id a)) as)"
  by (auto simp: distinct_map inj_on_def)

definition itemPlan :: "fin_db \<Rightarrow> id \<Rightarrow> money \<Rightarrow> (obligation \<times> money) list" where
  "itemPlan d uid n = map (\<lambda>p. (CHARGE_ITEM (ci_id (fst p)), snd p))
     (settle_plan itemOutstanding (outstandingItems d uid) n)"

definition adjPlan :: "fin_db \<Rightarrow> id \<Rightarrow> money \<Rightarrow> (obligation \<times> money) list" where
  "adjPlan d uid n = map (\<lambda>p. (ADJUSTMENT_OB (aj_id (fst p)), snd p))
     (settle_plan adjOutstanding (outstandingAdjustments d uid) n)"

lemma itemLoop_pays:
  assumes "ids_ok d" "rows_ok d"
  shows "pays pid (itemPlan d uid n) d
    (snd (settle_loop itemOutstanding (payItem pid) (outstandingItems d uid) n d))"
proof -
  let ?ps = "settle_plan itemOutstanding (outstandingItems d uid) n"
  have t: "paying.targets ?ps = itemPlan d uid n" by (simp add: paying.targets_def itemPlan_def)
  have "settles (itemPlan d uid n) d
      (snd (settle_loop itemOutstanding (payItem pid) (outstandingItems d uid) n d))"
    unfolding t [symmetric] using ids_ok_distinct(3) [OF assms(1)] assms outstandingItems_distinct
    by (intro paying.loop_settles)
      (auto simp: items_distinct_def intro!: sees_item_mem distinct_CHARGE_ITEM dest: outstandingItems_sub)
  moreover have "0 < m \<and> existsOb d ob" if "(ob, m) \<in> set (itemPlan d uid n)" for ob m
    using that paying.targets_bounds [of ob m "outstandingItems d uid" n] outstandingItems_sub
    unfolding t by (force simp: existsOb_def)
  ultimately show ?thesis
    using paying.plan_frame [of pid ?ps d] paying.plan_entries [of pid ?ps d]
    unfolding pays_def settle_loop_plan t by (auto simp: concat_single allocRow_def [abs_def])
qed

lemma adjLoop_pays:
  assumes "ids_ok d" "rows_ok d"
  shows "pays pid (adjPlan d uid n) d
    (snd (settle_loop adjOutstanding (payAdjustment pid) (outstandingAdjustments d uid) n d))"
proof -
  let ?ps = "settle_plan adjOutstanding (outstandingAdjustments d uid) n"
  have t: "payingAdj.targets ?ps = adjPlan d uid n" by (simp add: payingAdj.targets_def adjPlan_def)
  have "settles (adjPlan d uid n) d
      (snd (settle_loop adjOutstanding (payAdjustment pid) (outstandingAdjustments d uid) n d))"
    unfolding t [symmetric] using ids_ok_distinct(5) [OF assms(1)] assms outstandingAdjustments_distinct
    by (intro payingAdj.loop_settles)
      (auto simp: adjs_distinct_def sees_adj_def intro!: distinct_ADJUSTMENT_OB
        dest: outstandingAdjustments_sub)
  moreover have "0 < m \<and> existsOb d ob" if "(ob, m) \<in> set (adjPlan d uid n)" for ob m
    using that payingAdj.targets_bounds [of ob m "outstandingAdjustments d uid" n]
      outstandingAdjustments_sub
    unfolding t by (force simp: existsOb_def)
  ultimately show ?thesis
    using payingAdj.plan_frame [of pid ?ps d] payingAdj.plan_entries [of pid ?ps d]
    unfolding pays_def settle_loop_plan t by (auto simp: concat_single allocRow_def [abs_def])
qed

lemma itemPlan_total: "sum_of snd (itemPlan d uid n) = sum_of snd (settle_plan itemOutstanding (outstandingItems d uid) n)"
  by (simp add: itemPlan_def sum_of_def comp_def)

lemma adjPlan_total: "sum_of snd (adjPlan d uid n) = sum_of snd (settle_plan adjOutstanding (outstandingAdjustments d uid) n)"
  by (simp add: adjPlan_def sum_of_def comp_def)

text \<open>
  The automatic mode: the items in order, then the adjustments in order with what the items
  left, then credit for the rest.  \<open>autoPlan\<close> and \<open>autoRest\<close> are what it decides.
\<close>

definition autoItems :: "fin_db \<Rightarrow> approveParams \<Rightarrow> (obligation \<times> money) list" where
  "autoItems d q = itemPlan d (ap_unitId q) (ap_amount q)"

definition autoAdjs :: "fin_db \<Rightarrow> approveParams \<Rightarrow> (obligation \<times> money) list" where
  "autoAdjs d q = adjPlan d (ap_unitId q) (ap_amount q - sum_of snd (autoItems d q))"

definition autoRest :: "fin_db \<Rightarrow> approveParams \<Rightarrow> money" where
  "autoRest d q = ap_amount q - sum_of snd (autoItems d q) - sum_of snd (autoAdjs d q)"

lemma settle_total_le:
  assumes "0 \<le> n" shows "sum_of snd (settle_plan f rs n) \<le> n"
  using settle_plan_total [OF assms, of f rs] by simp

lemma adjPlan_after_items:
  assumes "pays pid pl d d1" "\<And>ob n. (ob, n) \<in> set pl \<Longrightarrow> \<exists>i. ob = CHARGE_ITEM i"
    and "adjustments d1 = adjustments d"
  shows "adjPlan d1 uid n = adjPlan d uid n"
  using assms(3) by (simp add: adjPlan_def outstandingAdjustments_def positiveAdjustments_def)

lemma payItem_adjustments: "adjustments (apply_plan (payItem pid) ps d) = adjustments d"
  by (induction ps arbitrary: d) (auto simp: payItem_def setItemPaid_def addAllocation_def)

lemma settleAutomatically_pays:
  assumes "ids_ok d" "rows_ok d" "0 < ap_amount q"
  shows "\<exists>d2. settleAutomatically q d =
      (if autoRest d q > 0 then creditUpsert (ap_unitId q) (ap_buildingId q) (autoRest d q) d2 else d2) \<and>
    pays (ap_paymentId q) (autoItems d q @ autoAdjs d q) d d2 \<and> 0 \<le> autoRest d q"
proof -
  let ?uid = "ap_unitId q" and ?n = "ap_amount q" and ?pid = "ap_paymentId q"
  define d1 where "d1 = snd (settle_loop itemOutstanding (payItem ?pid) (outstandingItems d ?uid) ?n d)"
  define r1 where "r1 = ?n - sum_of snd (autoItems d q)"
  have loop1: "settle_loop itemOutstanding (payItem ?pid) (outstandingItems d ?uid) ?n d = (r1, d1)"
    by (simp add: d1_def r1_def settle_loop_plan autoItems_def itemPlan_total)
  have p1: "pays ?pid (autoItems d q) d d1"
    unfolding d1_def autoItems_def by (rule itemLoop_pays [OF assms(1,2)])
  have r1: "0 \<le> r1"
    using settle_total_le [of ?n itemOutstanding "outstandingItems d ?uid"] assms(3)
    by (simp add: r1_def autoItems_def itemPlan_total)
  have adjs: "adjustments d1 = adjustments d" by (simp add: d1_def settle_loop_plan payItem_adjustments)
  then have plan2: "adjPlan d1 ?uid r1 = autoAdjs d q"
    by (simp add: autoAdjs_def r1_def adjPlan_def outstandingAdjustments_def positiveAdjustments_def)
  define d2 where "d2 = (if r1 > 0 then snd (settle_loop adjOutstanding (payAdjustment ?pid)
      (outstandingAdjustments d1 ?uid) r1 d1) else d1)"
  have p2: "pays ?pid (autoAdjs d q) d1 d2"
  proof (cases "r1 > 0")
    case True
    then show ?thesis
      using adjLoop_pays [OF pays_ids_ok [OF p1 assms(1)] pays_rows_ok [OF p1], of ?pid ?uid r1] plan2
      by (simp add: d2_def)
  next
    case False
    with r1 have "autoAdjs d q = []" by (simp flip: plan2 add: adjPlan_def)
    with False show ?thesis using pays_refl [OF pays_rows_ok [OF p1]] by (simp add: d2_def)
  qed
  have rest: "autoRest d q = r1 - sum_of snd (autoAdjs d q)" by (simp add: autoRest_def r1_def)
  have "(if r1 > 0 then settle_loop adjOutstanding (payAdjustment ?pid) (outstandingAdjustments d1 ?uid) r1 d1
      else (r1, d1)) = (autoRest d q, d2)"
  proof (cases "r1 > 0")
    case True
    then show ?thesis by (simp add: d2_def rest settle_loop_plan plan2 [symmetric] adjPlan_total)
  next
    case False
    with r1 have "autoAdjs d q = []" by (simp flip: plan2 add: adjPlan_def)
    with False show ?thesis by (simp add: d2_def rest)
  qed
  then have "settleAutomatically q d =
      (if autoRest d q > 0 then creditUpsert ?uid (ap_buildingId q) (autoRest d q) d2 else d2)"
    by (simp add: settleAutomatically_def loop1)
  moreover have "0 \<le> autoRest d q"
    using settle_total_le [OF r1, of adjOutstanding "outstandingAdjustments d1 ?uid"]
    by (simp add: rest plan2 [symmetric] adjPlan_total)
  ultimately show ?thesis using pays_trans [OF p1 p2] by blast
qed

text \<open>The explicit mode settles exactly the selections.\<close>

definition selPair :: "debtSelection \<Rightarrow> obligation \<times> money" where
  "selPair s = (ds_target s, ds_selectedAmount s)"

lemma applySelection_pays:
  assumes "ids_ok d" "rows_ok d" "0 < ds_selectedAmount s" "applySelection q s d = Inr d'"
  shows "pays (ap_paymentId q) [selPair s] d d'"
proof (cases "ds_target s")
  case (CHARGE_ITEM iid)
  with assms(4) obtain i where i: "findChargeItemById d iid = Some i"
    "itemOutstanding i = ds_selectedAmount s" "d' = payItem (ap_paymentId q) i (ds_selectedAmount s) d"
    by (auto simp: applySelection_def split: option.splits if_splits)
  then have "i \<in> set (items d)" "ci_id i = iid" by (auto simp: findChargeItemById_def)
  with settles_payItem(1) [OF ids_ok_distinct(3) [OF assms(1)] assms(2) sees_item_mem, of i]
  show ?thesis using i assms(3) CHARGE_ITEM
    by (auto simp: pays_def selPair_def allocRow_def existsOb_def)
next
  case (ADJUSTMENT_OB aid)
  with assms(4) obtain a where a: "findAdjustmentById d aid = Some a"
    "adjOutstanding a = ds_selectedAmount s" "d' = payAdjustment (ap_paymentId q) a (ds_selectedAmount s) d"
    by (auto simp: applySelection_def split: option.splits if_splits)
  then have "a \<in> set (adjustments d)" "aj_id a = aid" by (auto simp: findAdjustmentById_def)
  with settles_payAdjustment(1) [OF ids_ok_distinct(5) [OF assms(1)] assms(2), of a]
  show ?thesis using a assms(3) ADJUSTMENT_OB
    by (auto simp: pays_def selPair_def allocRow_def existsOb_def)
qed

lemma applySelections_pays:
  assumes "ids_ok d" "rows_ok d" "\<forall>s\<in>set ss. 0 < ds_selectedAmount s" "applySelections q ss d = Inr d'"
  shows "pays (ap_paymentId q) (map selPair ss) d d'"
  using assms
proof (induction ss arbitrary: d)
  case Nil
  then show ?case by (simp add: pays_refl)
next
  case (Cons s ss)
  then obtain d1 where d1: "applySelection q s d = Inr d1" "applySelections q ss d1 = Inr d'"
    by (auto simp: effect_simps)
  have p: "pays (ap_paymentId q) [selPair s] d d1"
    using applySelection_pays [OF Cons.prems(1,2) _ d1(1)] Cons.prems(3) by simp
  have "pays (ap_paymentId q) (map selPair ss) d1 d'"
    using Cons.IH [OF pays_ids_ok [OF p Cons.prems(1)] pays_rows_ok [OF p] _ d1(2)] Cons.prems(3) by simp
  from pays_trans [OF p this] show ?case by simp
qed

text \<open>What is owed in all on an obligation, paid or not.\<close>

definition amountOf :: "fin_db \<Rightarrow> obligation \<Rightarrow> money" where
  "amountOf d ob =
     (case ob of
        CHARGE_ITEM iid \<Rightarrow> (case findChargeItemById d iid of Some i \<Rightarrow> ci_amount i | None \<Rightarrow> 0)
      | ADJUSTMENT_OB aid \<Rightarrow> (case findAdjustmentById d aid of Some a \<Rightarrow> aj_amount a | None \<Rightarrow> 0))"

lemma amount_kept:
  "map itemIdentity xs = map itemIdentity ys \<Longrightarrow> map_option ci_amount (find_row ci_id k xs) = map_option ci_amount (find_row ci_id k ys)"
  "map adjIdentity as = map adjIdentity bs \<Longrightarrow> map_option aj_amount (find_row aj_id k as) = map_option aj_amount (find_row aj_id k bs)"
proof -
  show "map itemIdentity xs = map itemIdentity ys \<Longrightarrow> map_option ci_amount (find_row ci_id k xs) = map_option ci_amount (find_row ci_id k ys)"
  proof (induction xs arbitrary: ys)
    case (Cons x xs)
    obtain y zs where ys: "ys = y # zs" "itemIdentity x = itemIdentity y" "map itemIdentity xs = map itemIdentity zs"
      using Cons.prems by (cases ys) simp_all
    have "ci_id x = ci_id y" "ci_amount x = ci_amount y" using ys(2) by (simp_all add: itemIdentity_def)
    then show ?case using Cons.IH [OF ys(3)] by (simp add: ys(1) find_row_def)
  qed simp
  show "map adjIdentity as = map adjIdentity bs \<Longrightarrow> map_option aj_amount (find_row aj_id k as) = map_option aj_amount (find_row aj_id k bs)"
  proof (induction as arbitrary: bs)
    case (Cons x xs)
    obtain y zs where bs: "bs = y # zs" "adjIdentity x = adjIdentity y" "map adjIdentity xs = map adjIdentity zs"
      using Cons.prems by (cases bs) simp_all
    have "aj_id x = aj_id y" "aj_amount x = aj_amount y"
      using arg_cong [OF bs(2), of aj_id] arg_cong [OF bs(2), of aj_amount] by (simp_all add: adjIdentity_def)
    then show ?case using Cons.IH [OF bs(3)] by (simp add: bs(1) find_row_def)
  qed simp
qed

lemma amountOf_settles: "settles pl d d' \<Longrightarrow> amountOf d' ob = amountOf d ob"
  using amount_kept(1) [of "items d'" "items d"] amount_kept(2) [of "adjustments d'" "adjustments d"]
  unfolding settles_def amountOf_def findChargeItemById_def findAdjustmentById_def
  by (auto split: obligation.split option.split) (metis map_option_eq_Some option.distinct(1) option.inject option.simps(8,9))+

lemma selPair_simps: "fst (selPair s) = ds_target s" "snd (selPair s) = ds_selectedAmount s"
  by (simp_all add: selPair_def)

lemma applySelection_exact: "applySelection q s d = Inr d' \<Longrightarrow> ds_selectedAmount s = amountOf d (ds_target s) - paidOf d (ds_target s)"
  by (auto simp: applySelection_def amountOf_def paidOf_def itemOutstanding_def adjOutstanding_def split: obligation.splits option.splits if_splits)

text \<open>Each selection is the whole outstanding amount of its obligation, and none is selected twice.\<close>

lemma applySelections_exact:
  assumes "ids_ok d" "rows_ok d" "\<forall>s\<in>set ss. 0 < ds_selectedAmount s" "applySelections q ss d = Inr d'" "s \<in> set ss"
  shows "ds_selectedAmount s = amountOf d (ds_target s) - paidOf d (ds_target s) \<and> onTarget (map selPair ss) (ds_target s) = ds_selectedAmount s"
  using assms
proof (induction ss arbitrary: d s)
  case (Cons x ss)
  obtain d1 where d1: "applySelection q x d = Inr d1" "applySelections q ss d1 = Inr d'"
    using Cons.prems(4) by (auto simp: effect_simps)
  have p: "pays (ap_paymentId q) [selPair x] d d1"
    using applySelection_pays [OF Cons.prems(1,2) _ d1(1)] Cons.prems(3) by simp
  then have st: "settles [selPair x] d d1" by (simp add: pays_def)
  note now = applySelection_exact [OF d1(1)]
  have rest: "ds_selectedAmount y = amountOf d1 (ds_target y) - paidOf d1 (ds_target y) \<and>
      onTarget (map selPair ss) (ds_target y) = ds_selectedAmount y" if "y \<in> set ss" for y
    using Cons.IH [OF pays_ids_ok [OF p Cons.prems(1)] pays_rows_ok [OF p] _ d1(2) that] Cons.prems(3) by simp
  have paid: "paidOf d1 ob = paidOf d ob + (if ds_target x = ob then ds_selectedAmount x else 0)" for ob
    using st by (simp add: settles_def selPair_simps)
  have other: "ds_target y \<noteq> ds_target x" if "y \<in> set ss" for y
    using rest [OF that] paid [of "ds_target x"] now amountOf_settles [OF st, of "ds_target x"] Cons.prems(3) that by fastforce
  have none: "onTarget (map selPair ys) ob = 0" if "\<forall>y\<in>set ys. ds_target y \<noteq> ob" for ys ob
    using that by (induction ys) (auto simp: selPair_simps)
  show ?case
  proof (cases "s = x")
    case True
    then show ?thesis using now none [of ss "ds_target x"] other by (simp add: selPair_simps)
  next
    case False
    then have s: "s \<in> set ss" using Cons.prems(5) by simp
    have "fst (selPair x) \<noteq> ds_target s" using other [OF s] by (simp add: selPair_simps)
    then show ?thesis
      using rest [OF s] other [OF s] paid [of "ds_target s"] amountOf_settles [OF st, of "ds_target s"] by simp
  qed
qed simp

lemma amountOf_cong: "items d' = items d \<Longrightarrow> adjustments d' = adjustments d \<Longrightarrow> amountOf d' ob = amountOf d ob"
  by (cases ob) (simp_all add: amountOf_def findChargeItemById_def findAdjustmentById_def)

section \<open>Which tables each part reads\<close>

lemma rows_ok_cong: "items d' = items d \<Longrightarrow> adjustments d' = adjustments d \<Longrightarrow> rows_ok d' = rows_ok d"
  by (simp add: rows_ok_def)

lemma paidOf_cong: "items d' = items d \<Longrightarrow> adjustments d' = adjustments d \<Longrightarrow> paidOf d' ob = paidOf d ob"
  by (cases ob) (simp_all add: paidOf_def findChargeItemById_def findAdjustmentById_def)

lemma existsOb_cong: "items d' = items d \<Longrightarrow> adjustments d' = adjustments d \<Longrightarrow> existsOb d' ob = existsOb d ob"
  by (cases ob) (simp_all add: existsOb_def)

lemma alloc_ok_cong:
  "items d' = items d \<Longrightarrow> adjustments d' = adjustments d \<Longrightarrow> allocations d' = allocations d \<Longrightarrow>
    payments d' = payments d \<Longrightarrow> alloc_ok d' = alloc_ok d"
  using paidOf_cong [of d' d] existsOb_cong [of d' d]
  by (simp add: alloc_ok_def allocatedTotal_def allocationsOf_def approvedIds_def)

lemma sel_ok_cong: "selections d' = selections d \<Longrightarrow> payments d' = payments d \<Longrightarrow> sel_ok d' = sel_ok d"
  by (simp add: sel_ok_def activeFor_def selectionsOf_def)

text \<open>Posting to the ledger, alone or together with the fund, preserves the invariant.\<close>

lemma fin_inv_addLedger_other:
  assumes "fin_inv d" "addLedger now bid fid ty dir n rt ri ac d = Inr d'"
    and "ty \<notin> set fundStatementEntryTypes"
  shows "fin_inv d'"
proof -
  have d': "items d' = items d" "adjustments d' = adjustments d" "allocations d' = allocations d"
    "payments d' = payments d" "selections d' = selections d" "credits d' = credits d"
    using assms(2) by (auto simp: addLedger_Inr_iff take_id_def)
  have "ids_ok d'" using assms(1,2) by (auto simp: addLedger_Inr_iff inv_defs take_id_def keyed_Suc)
  with assms(1) d' show ?thesis
    using balance_ok_addLedger_other [OF _ assms(2,3)] rows_ok_cong [of d' d] alloc_ok_cong [of d' d]
      sel_ok_cong [of d' d]
    by (simp add: fin_inv_def credits_ok_def pay_ok_def)
qed

lemma fin_inv_post:
  assumes "fin_inv d" "addLedger now bid fid ty dir n rt ri ac d = Inr d1"
    and "fundIncrement fid m d1 = Inr d'" and "ty \<in> set fundStatementEntryTypes"
    and "m = (case dir of CREDIT \<Rightarrow> n | DEBIT \<Rightarrow> - n)"
  shows "fin_inv d'"
proof -
  have d': "items d' = items d" "adjustments d' = adjustments d" "allocations d' = allocations d"
    "payments d' = payments d" "selections d' = selections d" "credits d' = credits d"
    using assms(2,3) by (auto simp: addLedger_Inr_iff fundIncrement_Inr_iff bumpBalance_def take_id_def)
  have "ids_ok d'"
    using assms(1-3)
    by (auto simp: addLedger_Inr_iff fundIncrement_Inr_iff bumpBalance_def inv_defs take_id_def keyed_Suc)
  with assms(1) d' show ?thesis
    using balance_ok_post [OF _ assms(2-5)] rows_ok_cong [of d' d] alloc_ok_cong [of d' d]
      sel_ok_cong [of d' d]
    by (simp add: fin_inv_def credits_ok_def pay_ok_def)
qed

section \<open>Approving\<close>

lemma allocatedOn_allocRow:
  "allocatedOn A (map (allocRow pid) pl) ob = (if pid \<in> A then onTarget pl ob else 0)"
  by (induction pl) (auto simp: allocRow_def)

lemma sum_allocRow:
  "sum_of al_amount (filter (\<lambda>a. al_paymentId a = x) (map (allocRow pid) pl)) =
    (if x = pid then sum_of snd pl else 0)"
  by (induction pl) (auto simp: allocRow_def)

lemma payment_unique:
  "ids_ok d \<Longrightarrow> p \<in> set (payments d) \<Longrightarrow> r \<in> set (payments d) \<Longrightarrow> pm_id r = pm_id p \<Longrightarrow> r = p"
  using payment_found [of d p] payment_found [of d r] by simp

lemma pending_unallocated:
  assumes "fin_inv d" "p \<in> set (payments d)" "pm_status p \<notin> {APPROVED, REVERSED}" "al \<in> set (allocations d)"
  shows "al_paymentId al \<noteq> pm_id p"
  using assms payment_unique [OF fin_invD(1) [OF assms(1)] assms(2)] fin_invD(6) [OF assms(1)]
  by (fastforce simp: alloc_ok_def)

lemma alloc_ok_approved:
  assumes inv: "fin_inv d" and p: "p \<in> set (payments d)" "pm_status p \<notin> {APPROVED, REVERSED}"
    and pay: "payments d' = upd_where (\<lambda>r. pm_id r = pm_id p) g (payments d)"
      "\<And>r. pm_id (g r) = pm_id r" "\<And>r. pm_amount (g r) = pm_amount r" "\<And>r. pm_status (g r) = APPROVED"
    and st: "settles pl d d'" and al: "allocations d' = allocations d @ map (allocRow (pm_id p)) pl"
    and pl: "\<forall>x\<in>set pl. 0 < snd x \<and> existsOb d (fst x)" "sum_of snd pl \<le> pm_amount p"
  shows "alloc_ok d'"
proof -
  let ?pid = "pm_id p"
  note ids = fin_invD(1) [OF inv] and ok = fin_invD(6) [OF inv, unfolded alloc_ok_def]
  have other: "al_paymentId a \<noteq> ?pid" if "a \<in> set (allocations d)" for a
    using pending_unallocated [OF inv p that] .
  have set': "set (payments d') = (\<lambda>r. if pm_id r = ?pid then g r else r) ` set (payments d)"
    unfolding pay(1) by (rule set_upd_where)
  have gp: "g p \<in> set (payments d')" unfolding set' using p(1) by force
  have app: "approvedIds d' = insert ?pid (approvedIds d)"
  proof (intro equalityI subsetI)
    fix x assume "x \<in> approvedIds d'"
    then obtain r where "r \<in> set (payments d)" "x = pm_id (if pm_id r = ?pid then g r else r)"
      "pm_status (if pm_id r = ?pid then g r else r) = APPROVED"
      unfolding approvedIds_def set' by blast
    then show "x \<in> insert ?pid (approvedIds d)" by (auto simp: approvedIds_def pay(2) split: if_splits)
  next
    fix x assume x: "x \<in> insert ?pid (approvedIds d)"
    show "x \<in> approvedIds d'"
    proof (cases "x = ?pid")
      case True
      then show ?thesis using gp pay(2,4) by (auto simp: approvedIds_def intro!: image_eqI [of _ _ "g p"])
    next
      case False
      with x obtain r where "r \<in> set (payments d)" "pm_status r = APPROVED" "x = pm_id r"
        by (auto simp: approvedIds_def)
      with False show ?thesis unfolding approvedIds_def set' by (auto intro!: image_eqI [of _ _ r])
    qed
  qed
  have exists: "existsOb d' ob = existsOb d ob" for ob by (rule settles_existsOb [OF st])
  have "0 < al_amount a \<and> existsOb d' (al_target a) \<and>
      (\<exists>r\<in>set (payments d'). pm_id r = al_paymentId a \<and> pm_status r \<in> {APPROVED, REVERSED})"
    if a: "a \<in> set (allocations d')" for a
  proof (cases "a \<in> set (allocations d)")
    case True
    then obtain r where r: "r \<in> set (payments d)" "pm_id r = al_paymentId a" "pm_status r \<in> {APPROVED, REVERSED}"
      using ok by blast
    then have "r \<in> set (payments d')" unfolding set' using other [OF True] by force
    with r ok True show ?thesis by (auto simp: exists)
  next
    case False
    then obtain x where "x \<in> set pl" "a = allocRow ?pid x" using a al by auto
    with pl(1) gp pay(2,4) show ?thesis by (auto simp: exists allocRow_def intro!: bexI [of _ "g p"])
  qed
  moreover have "allocatedTotal d' (pm_id r) \<le> pm_amount r" if r: "r \<in> set (payments d')" for r
  proof -
    obtain r0 where r0: "r0 \<in> set (payments d)" "pm_id r = pm_id r0" "pm_amount r = pm_amount r0"
      using r pay(2,3) unfolding set' by (auto split: if_splits)
    have tot: "allocatedTotal d' (pm_id r) = allocatedTotal d (pm_id r0) + (if pm_id r0 = ?pid then sum_of snd pl else 0)"
      using r0(2) by (simp add: allocatedTotal_def allocationsOf_def al sum_allocRow)
    show ?thesis
    proof (cases "pm_id r0 = ?pid")
      case True
      then have "r0 = p" using payment_unique [OF ids p(1) r0(1)] by simp
      moreover have "allocationsOf d ?pid = []" using other by (auto simp: allocationsOf_def filter_empty_conv)
      ultimately show ?thesis using tot pl(2) r0(3) by (simp add: allocatedTotal_def)
    next
      case False
      then show ?thesis using tot ok r0 by simp
    qed
  qed
  moreover have "allocatedOn (approvedIds d') (allocations d') ob \<le> paidOf d' ob" for ob
  proof -
    have "allocatedOn (insert ?pid (approvedIds d)) (allocations d) ob = allocatedOn (approvedIds d) (allocations d) ob"
      by (rule allocatedOn_cong) (use other in auto)
    moreover have "allocatedOn (approvedIds d) (allocations d) ob \<le> paidOf d ob" using ok by blast
    ultimately show ?thesis using st by (simp add: app al allocatedOn_allocRow settles_def)
  qed
  ultimately show ?thesis by (simp add: alloc_ok_def)
qed

text \<open>
  Resolving a payment: its selections leave the live state with it.  Approving, rejecting
  and reversing are instances.
\<close>

lemma sel_ok_resolve:
  assumes inv: "fin_inv d" and p: "p \<in> set (payments d)"
    and pay: "payments d' = upd_where (\<lambda>r. pm_id r = pm_id p) g (payments d)"
      "\<And>r. pm_id (g r) = pm_id r" "\<And>r. pm_amount (g r) = pm_amount r"
      "\<And>r. pm_selectionMode (g r) = pm_selectionMode r" "\<And>r. pm_status (g r) \<noteq> PENDING_APPROVAL"
    and sel: "selections d' = upd_where (\<lambda>s. ds_paymentId s = pm_id p \<and> ds_state s = Some ACTIVE)
        (\<lambda>s. s\<lparr>ds_state := Some st\<rparr>) (selections d)" and st: "st \<noteq> ACTIVE"
  shows "sel_ok d'"
proof -
  let ?pid = "pm_id p" and ?f = "\<lambda>s::debtSelection. if ds_paymentId s = pm_id p \<and> ds_state s = Some ACTIVE
      then s\<lparr>ds_state := Some st\<rparr> else s"
  note ids = fin_invD(1) [OF inv] and ok = fin_invD(7) [OF inv, unfolded sel_ok_def]
  have setp: "set (payments d') = (\<lambda>r. if pm_id r = ?pid then g r else r) ` set (payments d)"
    unfolding pay(1) by (rule set_upd_where)
  have sels: "selections d' = map ?f (selections d)" by (simp add: sel upd_where_def)
  have f: "ds_paymentId (?f s) = ds_paymentId s" "ds_target (?f s) = ds_target s"
    "ds_selectedAmount (?f s) = ds_selectedAmount s"
    "ds_state (?f s) = Some ACTIVE \<longleftrightarrow> ds_state s = Some ACTIVE \<and> ds_paymentId s \<noteq> ?pid" for s
    using st by auto
  have one: "0 < ds_selectedAmount s' \<and> (\<exists>r\<in>set (payments d'). pm_id r = ds_paymentId s' \<and>
      pm_selectionMode r = EXPLICIT_SELECTION \<and> (ds_state s' = Some ACTIVE \<longrightarrow> pm_status r = PENDING_APPROVAL))"
    if "s' \<in> set (selections d')" for s'
  proof -
    from that have "s' \<in> ?f ` set (selections d)" unfolding sels by (simp only: set_map)
    then obtain s where s: "s \<in> set (selections d)" "s' = ?f s" by (rule imageE)
    then obtain r where r: "r \<in> set (payments d)" "pm_id r = ds_paymentId s" "pm_selectionMode r = EXPLICIT_SELECTION"
      "ds_state s = Some ACTIVE \<longrightarrow> pm_status r = PENDING_APPROVAL" "0 < ds_selectedAmount s" using ok by blast
    have "(if pm_id r = ?pid then g r else r) \<in> set (payments d')" unfolding setp using r(1) by blast
    then show ?thesis using r f [of s] pay(2,4) unfolding s(2)
      by (intro conjI bexI [of _ "if pm_id r = ?pid then g r else r"]) auto
  qed
  have two: "length (activeFor d' ob) \<le> 1" for ob
  proof -
    have "filter (\<lambda>s. ds_target s = ob \<and> ds_state s = Some ACTIVE) (map ?f (selections d)) =
        map ?f (filter (\<lambda>s. (ds_target s = ob \<and> ds_state s = Some ACTIVE) \<and> ds_paymentId s \<noteq> ?pid) (selections d))"
      unfolding filter_map comp_def f(2,4) by (rule arg_cong [of _ _ "map ?f"]) (rule filter_cong, auto)
    then have "length (activeFor d' ob) = length (filter (\<lambda>s. ds_paymentId s \<noteq> ?pid) (activeFor d ob))"
      by (simp add: activeFor_def sels conj_commute)
    then show ?thesis using ok length_filter_le [of "\<lambda>s. ds_paymentId s \<noteq> ?pid" "activeFor d ob"]
      by (metis le_trans)
  qed
  have three: "sum_of ds_selectedAmount (selectionsOf d' (pm_id r)) = pm_amount r \<and>
      (pm_status r = PENDING_APPROVAL \<longrightarrow> (\<forall>s\<in>set (selectionsOf d' (pm_id r)). ds_state s = Some ACTIVE))"
    if r: "r \<in> set (payments d')" "pm_selectionMode r = EXPLICIT_SELECTION" for r
  proof -
    obtain r0 where r0: "r0 \<in> set (payments d)" "r = (if pm_id r0 = ?pid then g r0 else r0)"
      using r(1) unfolding setp by blast
    have same: "pm_id r = pm_id r0" "pm_amount r = pm_amount r0" "pm_selectionMode r0 = EXPLICIT_SELECTION"
      using r0(2) r(2) pay(2-4) by (auto split: if_splits)
    have so: "selectionsOf d' x = map ?f (selectionsOf d x)" for x
      by (simp add: selectionsOf_def sels filter_map comp_def f(1))
    have "sum_of ds_selectedAmount (map ?f xs) = sum_of ds_selectedAmount xs" for xs
      by (induction xs) auto
    then have "sum_of ds_selectedAmount (selectionsOf d' (pm_id r)) = pm_amount r"
      using ok r0(1) same by (simp add: so)
    moreover have "ds_state s = Some ACTIVE" if pend: "pm_status r = PENDING_APPROVAL" and mem: "s \<in> set (selectionsOf d' (pm_id r))" for s
    proof -
      have r: "pm_id r0 \<noteq> ?pid" "r = r0" using r0(2) pay(5) pend by (auto split: if_splits)
      from mem have "s \<in> ?f ` set (selectionsOf d (pm_id r))" unfolding so by (simp only: set_map)
      then obtain s0 where s0: "s0 \<in> set (selectionsOf d (pm_id r))" "s = ?f s0" by (rule imageE)
      then have "ds_state s0 = Some ACTIVE" "ds_paymentId s0 = pm_id r0"
        using ok r0(1) same pend r(2) by (auto simp: selectionsOf_def)
      with r s0(2) show ?thesis by simp
    qed
    ultimately show ?thesis by blast
  qed
  show ?thesis unfolding sel_ok_def using one two three by blast
qed

text \<open>A payment that has no live selection may move without touching the selections.\<close>

lemma no_live_selection:
  assumes "fin_inv d" "p \<in> set (payments d)"
    and "pm_status p \<noteq> PENDING_APPROVAL \<or> pm_selectionMode p \<noteq> EXPLICIT_SELECTION"
  shows "upd_where (\<lambda>s. ds_paymentId s = pm_id p \<and> ds_state s = Some ACTIVE) h (selections d) = selections d"
proof (rule upd_where_none)
  fix s assume s: "s \<in> set (selections d)"
  show "\<not> (ds_paymentId s = pm_id p \<and> ds_state s = Some ACTIVE)"
  proof
    assume a: "ds_paymentId s = pm_id p \<and> ds_state s = Some ACTIVE"
    with s obtain r where "r \<in> set (payments d)" "pm_id r = pm_id p"
      "pm_selectionMode r = EXPLICIT_SELECTION" "pm_status r = PENDING_APPROVAL"
      using fin_invD(7) [OF assms(1)] by (auto simp: sel_ok_def)
    with payment_unique [OF fin_invD(1) [OF assms(1)] assms(2)] assms(3) show False by auto
  qed
qed

end
