(* ===== verification/Payment_Inv.thy ===== *)
theory Payment_Inv
  imports Payment_Steps
begin

text \<open>
  Each payment transaction keeps \<open>fin_inv\<close>, and what reversing does to the obligations.
\<close>

section \<open>Shared facts\<close>

lemma alloc_okD:
  assumes "alloc_ok d"
  shows "al \<in> set (allocations d) \<Longrightarrow> 0 < al_amount al"
    and "al \<in> set (allocations d) \<Longrightarrow> existsOb d (al_target al)"
    and "al \<in> set (allocations d) \<Longrightarrow>
      \<exists>p\<in>set (payments d). pm_id p = al_paymentId al \<and> pm_status p \<in> {APPROVED, REVERSED}"
    and "p \<in> set (payments d) \<Longrightarrow> allocatedTotal d (pm_id p) \<le> pm_amount p"
    and "allocatedOn (approvedIds d) (allocations d) ob \<le> paidOf d ob"
  using assms unfolding alloc_ok_def by (elim conjE ballE allE; simp)+

lemma settles_cong:
  assumes "items d1 = items d" "adjustments d1 = adjustments d" "items d2 = items d'"
    "adjustments d2 = adjustments d'"
  shows "settles pl d1 d2 = settles pl d d'"
  using assms paidOf_cong [of d1 d] paidOf_cong [of d2 d'] rows_ok_cong [of d2 d']
  by (simp add: settles_def)

lemma credits_ok_upsert:
  assumes "credits_ok d" "0 \<le> n"
  shows "credits_ok (creditUpsert uid bid n d)"
proof (cases "find_row cr_unitId uid (credits d)")
  case None
  then have "uid \<notin> cr_unitId ` set (credits d)" by (simp add: find_row_None_iff)
  with assms None show ?thesis by (auto simp: creditUpsert_def credits_ok_def)
next
  case (Some c)
  with assms show ?thesis
    by (auto simp: creditUpsert_def credits_ok_def map_key_upd_where set_upd_where)
qed

lemma creditUpsert_frame [simp]:
  "items (creditUpsert uid bid n d) = items d" "adjustments (creditUpsert uid bid n d) = adjustments d"
  "allocations (creditUpsert uid bid n d) = allocations d" "payments (creditUpsert uid bid n d) = payments d"
  "selections (creditUpsert uid bid n d) = selections d" "funds (creditUpsert uid bid n d) = funds d"
  "ledger (creditUpsert uid bid n d) = ledger d" "batches (creditUpsert uid bid n d) = batches d"
  "expenses (creditUpsert uid bid n d) = expenses d" "fin_ids (creditUpsert uid bid n d) = fin_ids d"
  "fin_next (creditUpsert uid bid n d) = fin_next d"
  by (simp_all add: creditUpsert_def split: option.splits)

lemma findPayment_mem: "findPaymentById d pid = Some p \<Longrightarrow> p \<in> set (payments d) \<and> pm_id p = pid"
  by (auto simp: findPaymentById_def)

lemma pay_ok_upd:
  "pay_ok d \<Longrightarrow> payments d' = upd_where P g (payments d) \<Longrightarrow> (\<And>r. pm_amount (g r) = pm_amount r) \<Longrightarrow> pay_ok d'"
  by (auto simp: pay_ok_def set_upd_where)

text \<open>
  A state that moved one payment to APPROVED and put a plan within its amount on the
  obligations satisfies the invariant again.
\<close>

lemma fin_inv_approved:
  assumes inv: "fin_inv d" and p: "p \<in> set (payments d)" "pm_status p = PENDING_APPROVAL"
    and pay: "payments d' = upd_where (\<lambda>r. pm_id r = pm_id p) (markApproved now q) (payments d)"
    and st: "settles pl d d'" and al: "allocations d' = allocations d @ map (allocRow (pm_id p)) pl"
    and pl: "\<forall>x\<in>set pl. 0 < snd x \<and> existsOb d (fst x)" "sum_of snd pl \<le> pm_amount p"
    and sel: "selections d' = upd_where (\<lambda>s. ds_paymentId s = pm_id p \<and> ds_state s = Some ACTIVE)
        (\<lambda>s. s\<lparr>ds_state := Some APPLIED\<rparr>) (selections d)"
    and same: "funds d' = funds d" "ledger d' = ledger d" "batches d' = batches d" "expenses d' = expenses d"
      "fin_ids d' = fin_ids d" "fin_next d' = fin_next d" and cr: "credits_ok d'"
  shows "fin_inv d'"
proof -
  note i = fin_invD [OF inv]
  have m: "pm_id (markApproved now q r) = pm_id r" "pm_amount (markApproved now q r) = pm_amount r"
    "pm_selectionMode (markApproved now q r) = pm_selectionMode r"
    "pm_status (markApproved now q r) = APPROVED" for r
    by (simp_all add: markApproved_def)
  have "map pm_id (payments d') = map pm_id (payments d)"
    unfolding pay by (rule map_key_upd_where) (simp add: m)
  then have "ids_ok d'" using settles_ids_ok [OF st i(1)] same by simp
  moreover have "alloc_ok d'"
    by (rule alloc_ok_approved [OF inv p(1) _ pay m(1,2,4) st al pl]) (simp add: p(2))
  moreover have "sel_ok d'"
    by (rule sel_ok_resolve [OF inv p(1) pay m(1-3) _ sel]) (simp_all add: m)
  moreover have "pay_ok d'" by (rule pay_ok_upd [OF i(5) pay m(2)])
  ultimately show ?thesis
    using st cr i(4) balance_ok_cong [OF same(1,2)] by (simp add: fin_inv_def settles_def)
qed

lemma postPayment_steps:
  assumes "postPayment now q d = Inr d'"
  obtains d1 where "addLedger now (ap_buildingId q) (ap_fundId q) PAYMENT CREDIT (ap_amount q) RefPayment
      (ap_paymentId q) (Some (ap_actorId q)) d = Inr d1"
    "fundIncrement (ap_fundId q) (ap_amount q) d1 = Inr d'"
  using assms by (auto simp: postPayment_def affectsFundBalance_def bind_r_Inr_iff)

lemma fin_inv_postPayment: "fin_inv d \<Longrightarrow> postPayment now q d = Inr d' \<Longrightarrow> fin_inv d'"
  by (erule postPayment_steps, erule (2) fin_inv_post) (simp_all add: fundStatementEntryTypes_def)

section \<open>Approving\<close>

text \<open>The state both modes reach just before the cash posting.\<close>

definition explicitTables :: "time \<Rightarrow> approveParams \<Rightarrow> fin_db \<Rightarrow> fin_db" where
  "explicitTables now q d1 =
     setPayment (ap_paymentId q) (markApproved now q) (setActiveSelections (ap_paymentId q) APPLIED d1)"

lemma approveExplicit_tables:
  assumes inv: "fin_inv d" and p: "findPaymentById d (ap_paymentId q) = Some p"
    "pm_status p = PENDING_APPROVAL" "pm_selectionMode p = EXPLICIT_SELECTION"
    and ok: "approveExplicit now q p d = Inr d'"
  shows "\<exists>d1. pays (pm_id p) (map selPair (selectionsOf d (pm_id p))) d d1 \<and>
    postPayment now q (explicitTables now q d1) = Inr d' \<and> fin_inv (explicitTables now q d1) \<and>
    sum_of ds_selectedAmount (selectionsOf d (pm_id p)) = pm_amount p \<and>
    (\<forall>s\<in>set (selectionsOf d (pm_id p)). ds_selectedAmount s = amountOf d (ds_target s) - paidOf d (ds_target s) \<and>
       onTarget (map selPair (selectionsOf d (pm_id p))) (ds_target s) = ds_selectedAmount s)"
proof -
  note i = fin_invD [OF inv] and pm = findPayment_mem [OF p(1)]
  let ?sels = "selectionsOf d (pm_id p)"
  obtain d1 where d1: "applySelections q ?sels d = Inr d1" "sum_of ds_selectedAmount ?sels = pm_amount p"
    "postPayment now q (explicitTables now q d1) = Inr d'"
    using ok pm by (auto simp: approveExplicit_def explicitTables_def Let_def bind_r_Inr_iff assert_r_Inr_iff)
  have pos: "\<forall>s\<in>set ?sels. 0 < ds_selectedAmount s" using i(7) by (auto simp: sel_ok_def selectionsOf_def)
  have pays: "pays (pm_id p) (map selPair ?sels) d d1"
    using applySelections_pays [OF i(1,2) pos d1(1)] pm by simp
  have sum: "sum_of snd (map selPair xs) = sum_of ds_selectedAmount xs" for xs
    by (induction xs) (auto simp: selPair_def)
  note fr = frameD [of d1 d]
  have fr1: "frame d1 = frame d" using pays by (simp add: pays_def)
  have "fin_inv (explicitTables now q d1)"
  proof (rule fin_inv_approved [OF inv, of p _ now q "map selPair ?sels"])
    show "settles (map selPair ?sels) d (explicitTables now q d1)"
      using pays settles_cong [of d d "explicitTables now q d1" d1]
      by (simp add: pays_def explicitTables_def setPayment_def setActiveSelections_def)
    show "sum_of snd (map selPair ?sels) \<le> pm_amount p" by (simp add: sum d1(2))
    show "credits_ok (explicitTables now q d1)"
      using i(3) fr [OF fr1] by (simp add: explicitTables_def setPayment_def setActiveSelections_def credits_ok_def)
  qed (use pm p pays fr [OF fr1] in
      \<open>simp_all add: pays_def explicitTables_def setPayment_def setActiveSelections_def\<close>)
  with pays d1 applySelections_exact [OF i(1,2) pos d1(1)] show ?thesis by blast
qed

text \<open>
  The automatic mode reads tables the status change does not touch, so its plan is the one
  of the state before.
\<close>

lemma setPayment_frame [simp]:
  "items (setPayment pid g d) = items d" "adjustments (setPayment pid g d) = adjustments d"
  "allocations (setPayment pid g d) = allocations d" "selections (setPayment pid g d) = selections d"
  "credits (setPayment pid g d) = credits d" "batches (setPayment pid g d) = batches d"
  "funds (setPayment pid g d) = funds d" "ledger (setPayment pid g d) = ledger d"
  "expenses (setPayment pid g d) = expenses d" "fin_ids (setPayment pid g d) = fin_ids d"
  "fin_next (setPayment pid g d) = fin_next d"
  "payments (setPayment pid g d) = upd_where (\<lambda>p. pm_id p = pid) g (payments d)"
  by (simp_all add: setPayment_def)

lemma outstanding_cong:
  assumes "items d' = items d" "batches d' = batches d" "adjustments d' = adjustments d"
  shows "outstandingItems d' uid = outstandingItems d uid"
    "outstandingAdjustments d' uid = outstandingAdjustments d uid"
proof -
  have b: "findChargeBatchById d' = findChargeBatchById d" by (rule ext) (simp add: findChargeBatchById_def assms)
  have "dueKey d' = dueKey d" "collectable d' = collectable d"
    by (rule ext, simp add: dueKey_def collectable_def b)+
  with assms show "outstandingItems d' uid = outstandingItems d uid"
    "outstandingAdjustments d' uid = outstandingAdjustments d uid"
    by (simp_all add: outstandingItems_def unpaidItems_def outstandingAdjustments_def positiveAdjustments_def)
qed

lemma auto_cong:
  assumes "items d' = items d" "batches d' = batches d" "adjustments d' = adjustments d"
  shows "autoItems d' q = autoItems d q" "autoAdjs d' q = autoAdjs d q" "autoRest d' q = autoRest d q"
  using outstanding_cong [OF assms]
  by (simp_all add: autoItems_def autoAdjs_def autoRest_def itemPlan_def adjPlan_def)

lemma ids_ok_setPayment: "(\<And>r. pm_id (g r) = pm_id r) \<Longrightarrow> ids_ok (setPayment pid g d) = ids_ok d"
  by (simp add: ids_ok_def)

lemma approveAuto_tables:
  assumes inv: "fin_inv d" and p: "findPaymentById d (ap_paymentId q) = Some p"
    "pm_status p = PENDING_APPROVAL" "pm_selectionMode p \<noteq> EXPLICIT_SELECTION" "ap_amount q = pm_amount p"
  shows "\<exists>d2. settleAutomatically q (setPayment (ap_paymentId q) (markApproved now q) d) =
      (if autoRest d q > 0 then creditUpsert (ap_unitId q) (ap_buildingId q) (autoRest d q) d2 else d2) \<and>
    pays (pm_id p) (autoItems d q @ autoAdjs d q) (setPayment (ap_paymentId q) (markApproved now q) d) d2 \<and>
    0 \<le> autoRest d q \<and>
    fin_inv (settleAutomatically q (setPayment (ap_paymentId q) (markApproved now q) d))"
proof -
  note i = fin_invD [OF inv] and pm = findPayment_mem [OF p(1)]
  let ?d0 = "setPayment (ap_paymentId q) (markApproved now q) d" and ?pl = "autoItems d q @ autoAdjs d q"
  have pos: "0 < ap_amount q" using i(5) pm p(4) by (auto simp: pay_ok_def)
  have d0: "ids_ok ?d0" "rows_ok ?d0"
    using i(1,2) rows_ok_cong [of ?d0 d] by (simp_all add: ids_ok_setPayment markApproved_def)
  have auto: "autoItems ?d0 q = autoItems d q" "autoAdjs ?d0 q = autoAdjs d q" "autoRest ?d0 q = autoRest d q"
    by (rule auto_cong; simp)+
  have "\<exists>d2. settleAutomatically q ?d0 =
      (if autoRest d q > 0 then creditUpsert (ap_unitId q) (ap_buildingId q) (autoRest d q) d2 else d2) \<and>
    pays (pm_id p) ?pl ?d0 d2 \<and> 0 \<le> autoRest d q"
    using settleAutomatically_pays [OF d0 pos] unfolding auto pm [THEN conjunct2] .
  then obtain d2 where d2: "settleAutomatically q ?d0 =
      (if autoRest d q > 0 then creditUpsert (ap_unitId q) (ap_buildingId q) (autoRest d q) d2 else d2)"
    "pays (pm_id p) ?pl ?d0 d2" "0 \<le> autoRest d q" by (elim exE conjE)
  define dp where "dp = settleAutomatically q ?d0"
  have dp: "items dp = items d2" "adjustments dp = adjustments d2" "allocations dp = allocations d2"
    "payments dp = payments d2" "selections dp = selections d2" "funds dp = funds d2" "ledger dp = ledger d2"
    "batches dp = batches d2" "expenses dp = expenses d2" "fin_ids dp = fin_ids d2" "fin_next dp = fin_next d2"
    unfolding dp_def d2(1) by simp_all
  note fr = frameD [of d2 ?d0, OF d2(2) [unfolded pays_def, THEN conjunct2, THEN conjunct1]]
  have "fin_inv dp"
  proof (rule fin_inv_approved [OF inv, of p _ now q ?pl])
    show "settles ?pl d dp"
      using d2(2) settles_cong [of d ?d0 dp d2] dp(1,2) by (simp add: pays_def)
    show "sum_of snd ?pl \<le> pm_amount p" using d2(3) p(4) by (simp add: autoRest_def)
    show "\<forall>x\<in>set ?pl. 0 < snd x \<and> existsOb d (fst x)"
      using d2(2) existsOb_cong [of ?d0 d] by (simp add: pays_def)
    show "selections dp = upd_where (\<lambda>s. ds_paymentId s = pm_id p \<and> ds_state s = Some ACTIVE)
        (\<lambda>s. s\<lparr>ds_state := Some APPLIED\<rparr>) (selections d)"
      using no_live_selection [OF inv, of p] pm p(3) dp(5) fr by simp
    have "credits_ok d2" using i(3) fr by (simp add: credits_ok_def)
    then show "credits_ok dp" unfolding dp_def d2(1) using credits_ok_upsert by auto
  qed (use pm p d2(2) fr dp in \<open>simp_all add: pays_def\<close>)
  with d2 show ?thesis unfolding dp_def by blast
qed

lemma approvePayment_inv:
  assumes inv: "fin_inv d" and q: "findPaymentById d (ap_paymentId q) = Some p" "ap_amount q = pm_amount p"
    and ok: "approvePayment now q d = Inr (r, d')"
  shows "fin_inv d'"
proof -
  have body: "approvePaymentBody now q d = Inr (r, d')" using ok by (simp add: approvePayment_def effect_simps)
  then have pend: "pm_status p = PENDING_APPROVAL" using q(1) by (auto simp: approvePaymentBody_def split: if_splits)
  show ?thesis
  proof (cases "pm_selectionMode p = EXPLICIT_SELECTION")
    case True
    then have "approveExplicit now q p d = Inr d'"
      using body q(1) pend by (auto simp: approvePaymentBody_def bind_r_Inr_iff)
    from approveExplicit_tables [OF inv q(1) pend True this] show ?thesis using fin_inv_postPayment by blast
  next
    case False
    then have "postPayment now q (settleAutomatically q (setPayment (ap_paymentId q) (markApproved now q) d)) = Inr d'"
      using body q(1) pend by (auto simp: approvePaymentBody_def bind_r_Inr_iff)
    with approveAuto_tables [OF inv q(1) pend False q(2)] show ?thesis using fin_inv_postPayment by blast
  qed
qed

section \<open>Rejecting\<close>

lemma rejectPayment_inv:
  assumes inv: "fin_inv d" and ok: "rejectPayment pid reason d = Inr (r, d')"
  shows "fin_inv d'"
proof -
  let ?mark = "\<lambda>p. p\<lparr>pm_status := REJECTED, pm_rejectedReason := reason\<rparr>"
  obtain p where p: "findPaymentById d pid = Some p" "pm_status p = PENDING_APPROVAL"
    "d' = (if pm_selectionMode p = EXPLICIT_SELECTION then setActiveSelections pid RELEASED (setPayment pid ?mark d)
           else setPayment pid ?mark d)"
    using ok by (auto simp: rejectPayment_def rejectPaymentBody_def effect_simps Let_def split: option.splits if_splits)
  note i = fin_invD [OF inv] and pm = findPayment_mem [OF p(1)]
  have tabs: "items d' = items d" "adjustments d' = adjustments d" "allocations d' = allocations d"
    "payments d' = upd_where (\<lambda>r. pm_id r = pm_id p) ?mark (payments d)" "credits d' = credits d"
    "funds d' = funds d" "ledger d' = ledger d"
    using p(3) pm by (auto simp: setActiveSelections_def)
  have ids: "ids_ok d'" using i(1) p(3) by (auto simp: ids_ok_def setActiveSelections_def)
  have "selections d' = upd_where (\<lambda>s. ds_paymentId s = pm_id p \<and> ds_state s = Some ACTIVE)
      (\<lambda>s. s\<lparr>ds_state := Some RELEASED\<rparr>) (selections d)"
    using p(3) pm no_live_selection [OF inv, of p] by (auto simp: setActiveSelections_def)
  then have sel: "sel_ok d'" by (intro sel_ok_resolve [OF inv _ tabs(4), where st = RELEASED]) (simp_all add: pm)
  have ex: "x \<in> approvedIds d' \<longleftrightarrow> x \<in> approvedIds d" for x
    using payment_unique [OF i(1) pm [THEN conjunct1]] p(2)
    by (auto simp: approvedIds_def tabs(4) set_upd_where image_iff split: if_splits) fastforce+
  have "alloc_ok d'"
  proof -
    have a: "\<exists>r\<in>set (payments d'). pm_id r = al_paymentId a \<and> pm_status r \<in> {APPROVED, REVERSED}"
      if am: "a \<in> set (allocations d)" for a
    proof -
      obtain r where r: "r \<in> set (payments d)" "pm_id r = al_paymentId a" "pm_status r \<in> {APPROVED, REVERSED}"
        using alloc_okD(3) [OF i(6) am] by (elim bexE conjE)
      have "al_paymentId a \<noteq> pm_id p"
        using pending_unallocated [OF inv pm [THEN conjunct1] _ am] p(2) by simp
      then have "r \<in> set (payments d')" using r(1,2) unfolding tabs(4) set_upd_where by (intro image_eqI [of _ _ r]) simp_all
      with r(2,3) show ?thesis by blast
    qed
    have "approvedIds d' = approvedIds d" using ex by blast
    then show ?thesis
      using i(6) a paidOf_cong [OF tabs(1,2)] existsOb_cong [OF tabs(1,2)]
      by (auto simp: alloc_ok_def allocatedTotal_def allocationsOf_def tabs(3,4) set_upd_where)
  qed
  then show ?thesis
    using i ids sel tabs rows_ok_cong [OF tabs(1,2)] balance_ok_cong [OF tabs(6,7)] pay_ok_upd [OF i(5) tabs(4)]
    by (simp add: fin_inv_def credits_ok_def)
qed

section \<open>Reporting\<close>

text \<open>A new pending payment under a fresh identifier disturbs none of the old rows.\<close>

lemma allocations_fresh:
  assumes "fin_inv d" "a \<in> set (allocations d)"
  shows "al_paymentId a \<noteq> fresh_id d"
proof -
  obtain r where r: "r \<in> set (payments d)" "pm_id r = al_paymentId a"
    using alloc_okD(3) [OF fin_invD(6) [OF assms(1)] assms(2)] by blast
  moreover have "pm_id r \<noteq> fin_ids d (fin_next d)"
    using fin_invD(1) [OF assms(1)] r(1) unfolding ids_ok_def by (meson keyed_fresh)
  ultimately show ?thesis by (simp add: fresh_id_def)
qed

lemma alloc_ok_newPayment:
  assumes inv: "fin_inv d" and p: "pm_id p = fresh_id d" "pm_status p = PENDING_APPROVAL" "0 < pm_amount p"
    and d': "payments d' = payments d @ [p]" "allocations d' = allocations d"
      "items d' = items d" "adjustments d' = adjustments d"
  shows "alloc_ok d'"
proof -
  note ok = alloc_okD [OF fin_invD(6) [OF inv]]
  have "approvedIds d' = approvedIds d" using p(2) by (auto simp: approvedIds_def d'(1))
  moreover have "allocationsOf d (pm_id p) = []"
    using allocations_fresh [OF inv] p(1) by (auto simp: allocationsOf_def filter_empty_conv)
  then have "allocatedTotal d' (pm_id p) = 0" by (simp add: allocatedTotal_def allocationsOf_def d'(2))
  ultimately show ?thesis
    using ok p(3) paidOf_cong [OF d'(3,4)] existsOb_cong [OF d'(3,4)]
    by (auto simp: alloc_ok_def d'(1,2) allocatedTotal_def allocationsOf_def)
qed

lemma sel_okD:
  assumes "sel_ok d"
  shows "s \<in> set (selections d) \<Longrightarrow> 0 < ds_selectedAmount s"
    and "s \<in> set (selections d) \<Longrightarrow> \<exists>p\<in>set (payments d). pm_id p = ds_paymentId s \<and>
      pm_selectionMode p = EXPLICIT_SELECTION \<and> (ds_state s = Some ACTIVE \<longrightarrow> pm_status p = PENDING_APPROVAL)"
    and "length (activeFor d ob) \<le> 1"
    and "p \<in> set (payments d) \<Longrightarrow> pm_selectionMode p = EXPLICIT_SELECTION \<Longrightarrow>
      sum_of ds_selectedAmount (selectionsOf d (pm_id p)) = pm_amount p"
    and "p \<in> set (payments d) \<Longrightarrow> pm_selectionMode p = EXPLICIT_SELECTION \<Longrightarrow>
      pm_status p = PENDING_APPROVAL \<Longrightarrow> s \<in> set (selectionsOf d (pm_id p)) \<Longrightarrow> ds_state s = Some ACTIVE"
  using assms unfolding sel_ok_def by (elim conjE ballE allE; simp)+

lemma selections_fresh:
  assumes "fin_inv d" "s \<in> set (selections d)"
  shows "ds_paymentId s \<noteq> fresh_id d"
proof -
  obtain r where r: "r \<in> set (payments d)" "pm_id r = ds_paymentId s"
    using sel_okD(2) [OF fin_invD(7) [OF assms(1)] assms(2)] by blast
  moreover have "pm_id r \<noteq> fin_ids d (fin_next d)"
    using fin_invD(1) [OF assms(1)] r(1) unfolding ids_ok_def by (meson keyed_fresh)
  ultimately show ?thesis by (simp add: fresh_id_def)
qed

lemma fin_inv_newPayment:
  assumes inv: "fin_inv d" and p: "pm_id p = fresh_id d" "pm_status p = PENDING_APPROVAL" "0 < pm_amount p"
    and d': "d' = take_id (d\<lparr>payments := payments d @ [p], selections := selections d @ news\<rparr>)"
    and sel: "sel_ok d'"
  shows "fin_inv d'"
proof -
  note i = fin_invD [OF inv]
  have tabs: "payments d' = payments d @ [p]" "allocations d' = allocations d" "items d' = items d"
    "adjustments d' = adjustments d" "credits d' = credits d" "funds d' = funds d" "ledger d' = ledger d"
    by (simp_all add: d' take_id_def)
  have "ids_ok d'" using i(1) p(1) by (auto simp: ids_ok_def d' take_id_def fresh_id_def keyed_Suc intro: keyed_insert)
  moreover have "pay_ok d'" using i(5) p(3) by (auto simp: pay_ok_def tabs(1))
  ultimately show ?thesis
    using i sel alloc_ok_newPayment [OF inv p tabs(1-4)] rows_ok_cong [OF tabs(3,4)]
      balance_ok_cong [OF tabs(6,7)] by (simp add: fin_inv_def credits_ok_def tabs(5))
qed

lemma createPayment_inv:
  assumes inv: "fin_inv d" and n: "0 < cpp_amount q" and ok: "createPayment now q d = Inr (r, d')"
  shows "fin_inv d'"
proof (cases "findByIdempotencyKey d (cpp_payerId q) (cpp_buildingId q) (cpp_idempotencyKey q)")
  case (Some p)
  then show ?thesis using ok inv
    by (auto simp: createPayment_def createPaymentBody_def effect_simps split: if_splits)
next
  case None
  define p where "p = newPayment now (fresh_id d) (cpp_buildingId q) (cpp_unitId q) (cpp_fundId q)
      (cpp_payerId q) (cpp_amount q) (cpp_method q) LEGACY_AUTOMATIC (cpp_idempotencyKey q)
      (cpp_reference q) (cpp_note q)"
  have d': "d' = take_id (d\<lparr>payments := payments d @ [p], selections := selections d @ []\<rparr>)"
    using ok None by (auto simp: createPayment_def createPaymentBody_def effect_simps p_def Let_def split: if_splits)
  have p: "pm_id p = fresh_id d" "pm_status p = PENDING_APPROVAL" "pm_amount p = cpp_amount q"
    "pm_selectionMode p = LEGACY_AUTOMATIC" by (simp_all add: p_def newPayment_def)
  note s = sel_okD [OF fin_invD(7) [OF inv]]
  have "sel_ok d'" unfolding sel_ok_def d'
  proof (intro conjI ballI allI impI)
    fix x assume "x \<in> set (payments (take_id (d\<lparr>payments := payments d @ [p], selections := selections d @ []\<rparr>)))"
      "pm_selectionMode x = EXPLICIT_SELECTION"
    then have "x \<in> set (payments d)" using p(4) by (auto simp: take_id_def)
    moreover assume "pm_selectionMode x = EXPLICIT_SELECTION"
    ultimately show "sum_of ds_selectedAmount (selectionsOf (take_id
        (d\<lparr>payments := payments d @ [p], selections := selections d @ []\<rparr>)) (pm_id x)) = pm_amount x"
      using s(4) by (simp add: take_id_def selectionsOf_def)
  next
    fix x t assume a: "x \<in> set (payments (take_id (d\<lparr>payments := payments d @ [p], selections := selections d @ []\<rparr>)))"
      "pm_selectionMode x = EXPLICIT_SELECTION" "pm_status x = PENDING_APPROVAL"
      "t \<in> set (selectionsOf (take_id (d\<lparr>payments := payments d @ [p], selections := selections d @ []\<rparr>)) (pm_id x))"
    then have "x \<in> set (payments d)" "t \<in> set (selectionsOf d (pm_id x))"
      using p(4) by (auto simp: take_id_def selectionsOf_def)
    with s(5) a(2,3) show "ds_state t = Some ACTIVE" by blast
  qed (use s(1-3) in \<open>auto simp: take_id_def activeFor_def\<close>)
  with fin_inv_newPayment [OF inv p(1,2) _ d'] p(3) n show ?thesis by simp
qed

text \<open>An explicit payment reserves obligations nobody has reserved, one reservation each.\<close>

definition explicitPayment :: "time \<Rightarrow> explicitPaymentParams \<Rightarrow> id \<Rightarrow> fin_db \<Rightarrow> payment" where
  "explicitPayment now q fundId d =
     newPayment now (fresh_id d) (epp_buildingId q) (epp_unitId q) fundId (epp_payerId q)
       (sum_of itemOutstanding (selectedItems d q) + sum_of adjOutstanding (selectedAdjustments d q))
       (epp_method q) EXPLICIT_SELECTION (epp_idempotencyKey q) (epp_reference q) (epp_note q)"

lemma createExplicitPayment_new:
  assumes "findByIdempotencyKey d (epp_payerId q) (epp_buildingId q) (epp_idempotencyKey q) = None"
    and "createExplicitPayment now q d = Inr (r, d')"
  shows "\<exists>fundId. explicitChecks q d = Inr fundId \<and> r = explicitPayment now q fundId d \<and>
    d' = take_id (d\<lparr>payments := payments d @ [r],
           selections := selections d @ newSelections (fresh_id d) (selectedItems d q) (selectedAdjustments d q)\<rparr>)"
  using assms by (auto simp: createExplicitPayment_def createExplicitPaymentBody_def effect_simps
      explicitPayment_def Let_def)

lemma explicitChecks_targets:
  assumes "explicitChecks q d = Inr fundId"
  shows "i \<in> set (selectedItems d q) \<Longrightarrow> 0 < itemOutstanding i \<and> activeFor d (CHARGE_ITEM (ci_id i)) = []"
    and "a \<in> set (selectedAdjustments d q) \<Longrightarrow> 0 < adjOutstanding a \<and> activeFor d (ADJUSTMENT_OB (aj_id a)) = []"
    and "selectedItems d q \<noteq> [] \<or> selectedAdjustments d q \<noteq> []"
  using assms by (auto simp: explicitChecks_def Let_def effect_simps list_ex_iff not_le split: list.splits)

lemma newSelections_simps:
  "s \<in> set (newSelections pid its adjs) \<longleftrightarrow>
     (\<exists>i\<in>set its. s = \<lparr>ds_paymentId = pid, ds_target = CHARGE_ITEM (ci_id i),
        ds_selectedAmount = itemOutstanding i, ds_state = Some ACTIVE\<rparr>) \<or>
     (\<exists>a\<in>set adjs. s = \<lparr>ds_paymentId = pid, ds_target = ADJUSTMENT_OB (aj_id a),
        ds_selectedAmount = adjOutstanding a, ds_state = Some ACTIVE\<rparr>)"
  by (auto simp: newSelections_def itemOutstanding_def adjOutstanding_def)

lemma sum_newSelections:
  "sum_of ds_selectedAmount (newSelections pid its adjs) = sum_of itemOutstanding its + sum_of adjOutstanding adjs"
  by (simp add: newSelections_def sum_of_def itemOutstanding_def [abs_def] adjOutstanding_def [abs_def] comp_def)

lemma distinct_newSelections:
  assumes "distinct (map ci_id its)" "distinct (map aj_id adjs)"
  shows "distinct (map ds_target (newSelections pid its adjs))"
  using assms by (auto simp: newSelections_def comp_def distinct_map inj_on_def)

lemma distinct_map_filter_le_1: "distinct (map f xs) \<Longrightarrow> length (filter (\<lambda>x. f x = y \<and> P x) xs) \<le> 1"
proof (induction xs)
  case (Cons x xs)
  show ?case
  proof (cases "f x = y")
    case True
    then have "filter (\<lambda>x. f x = y \<and> P x) xs = []" using Cons.prems by (auto simp: filter_empty_conv image_iff)
    then show ?thesis by simp
  qed (use Cons in simp)
qed simp

lemma sum_of_pos: "xs \<noteq> [] \<Longrightarrow> (\<And>x. x \<in> set xs \<Longrightarrow> 0 < f x) \<Longrightarrow> 0 < sum_of f xs"
proof (induction xs)
  case (Cons x xs)
  then show ?case by (cases "xs = []") (auto intro: add_pos_pos)
qed simp

lemma createExplicitPayment_inv:
  assumes inv: "fin_inv d" and ok: "createExplicitPayment now q d = Inr (r, d')"
  shows "fin_inv d'"
proof (cases "findByIdempotencyKey d (epp_payerId q) (epp_buildingId q) (epp_idempotencyKey q)")
  case (Some p)
  then show ?thesis using ok inv
    by (auto simp: createExplicitPayment_def createExplicitPaymentBody_def effect_simps split: if_splits)
next
  case None
  let ?its = "selectedItems d q" and ?adjs = "selectedAdjustments d q"
  define news where "news = newSelections (fresh_id d) ?its ?adjs"
  obtain fundId where c: "explicitChecks q d = Inr fundId" and r: "r = explicitPayment now q fundId d"
    and d': "d' = take_id (d\<lparr>payments := payments d @ [r], selections := selections d @ news\<rparr>)"
    using createExplicitPayment_new [OF None ok] unfolding news_def by blast
  note t = explicitChecks_targets [OF c] and s = sel_okD [OF fin_invD(7) [OF inv]]
  have p: "pm_id r = fresh_id d" "pm_status r = PENDING_APPROVAL" "pm_selectionMode r = EXPLICIT_SELECTION"
    "pm_amount r = sum_of itemOutstanding ?its + sum_of adjOutstanding ?adjs"
    by (simp_all add: r explicitPayment_def newPayment_def)
  have news: "0 < ds_selectedAmount x \<and> ds_paymentId x = fresh_id d \<and> ds_state x = Some ACTIVE \<and>
      activeFor d (ds_target x) = []" if "x \<in> set news" for x
    using that t(1,2) unfolding news_def newSelections_simps by auto
  have dist: "distinct (map ds_target news)"
    unfolding news_def by (rule distinct_newSelections)
      (simp_all add: selectedItems_def selectedAdjustments_def distinct_map_filter
        ids_ok_distinct(3,5) [OF fin_invD(1) [OF inv]])
  have tot: "sum_of ds_selectedAmount news = pm_amount r" by (simp add: news_def sum_newSelections p(4))
  have pos: "0 < pm_amount r"
  proof -
    have "0 \<le> sum_of itemOutstanding ?its" "0 \<le> sum_of adjOutstanding ?adjs"
      using t(1,2) by (simp_all add: sum_of_nonneg less_imp_le)
    moreover have "?its \<noteq> [] \<Longrightarrow> 0 < sum_of itemOutstanding ?its" "?adjs \<noteq> [] \<Longrightarrow> 0 < sum_of adjOutstanding ?adjs"
      using sum_of_pos [of ?its itemOutstanding] sum_of_pos [of ?adjs adjOutstanding] t(1,2) by blast+
    ultimately show ?thesis using t(3) unfolding p(4) by linarith
  qed
  have selOf: "selectionsOf d' x = selectionsOf d x @ (if x = fresh_id d then news else [])" for x
    using news by (auto simp: d' take_id_def selectionsOf_def filter_empty_conv intro!: filter_True)
  have old: "selectionsOf d (fresh_id d) = []"
    using selections_fresh [OF inv] by (auto simp: selectionsOf_def filter_empty_conv)
  have frp: "pm_id x \<noteq> fresh_id d" if "x \<in> set (payments d)" for x
    using fin_invD(1) [OF inv] that unfolding ids_ok_def fresh_id_def by (meson keyed_fresh)
  have pays: "set (payments d') = insert r (set (payments d))" "set (selections d') = set (selections d) \<union> set news"
    by (auto simp: d' take_id_def)
  have "sel_ok d'" unfolding sel_ok_def
  proof (intro conjI ballI allI impI)
    fix x assume "x \<in> set (selections d')"
    then consider "x \<in> set (selections d)" | "x \<in> set news" by (auto simp: pays)
    then show "0 < ds_selectedAmount x" by cases (use s(1) news in blast)+
  next
    fix x assume "x \<in> set (selections d')"
    then consider "x \<in> set (selections d)" | "x \<in> set news" by (auto simp: pays)
    then show "\<exists>y\<in>set (payments d'). pm_id y = ds_paymentId x \<and> pm_selectionMode y = EXPLICIT_SELECTION \<and>
        (ds_state x = Some ACTIVE \<longrightarrow> pm_status y = PENDING_APPROVAL)"
    proof cases
      case 1
      from s(2) [OF this] show ?thesis unfolding pays by blast
    next
      case 2
      then show ?thesis using news p by (auto simp: pays)
    qed
  next
    fix ob
    have split: "activeFor d' ob = activeFor d ob @ filter (\<lambda>x. ds_target x = ob \<and> ds_state x = Some ACTIVE) news"
      by (simp add: activeFor_def d' take_id_def)
    show "length (activeFor d' ob) \<le> 1"
    proof (cases "\<exists>x\<in>set news. ds_target x = ob")
      case True
      then have "activeFor d ob = []" using news by blast
      then show ?thesis unfolding split using distinct_map_filter_le_1 [OF dist] by simp
    next
      case False
      then have "filter (\<lambda>x. ds_target x = ob \<and> ds_state x = Some ACTIVE) news = []" by (auto simp: filter_empty_conv)
      then show ?thesis unfolding split using s(3) by simp
    qed
  next
    fix x assume "x \<in> set (payments d')" "pm_selectionMode x = EXPLICIT_SELECTION"
    then show "sum_of ds_selectedAmount (selectionsOf d' (pm_id x)) = pm_amount x"
      using s(4) frp old tot p(1) by (auto simp: pays selOf)
  next
    fix x y assume "x \<in> set (payments d')" "pm_selectionMode x = EXPLICIT_SELECTION"
      "pm_status x = PENDING_APPROVAL" "y \<in> set (selectionsOf d' (pm_id x))"
    then show "ds_state y = Some ACTIVE" using s(5) frp old news p(1) by (auto simp: pays selOf)
  qed
  with fin_inv_newPayment [OF inv p(1,2) pos d'] show ?thesis by simp
qed

section \<open>Reversing and refunding\<close>

text \<open>What the allocations of a list put on an obligation.\<close>

definition listedOn :: "allocation list \<Rightarrow> obligation \<Rightarrow> money" where
  "listedOn als ob = sum_of al_amount (filter (\<lambda>a. al_target a = ob) als)"

definition undoPlan :: "allocation list \<Rightarrow> (obligation \<times> money) list" where
  "undoPlan als = map (\<lambda>a. (al_target a, - al_amount a)) als"

lemma onTarget_undoPlan: "onTarget (undoPlan als) ob = - listedOn als ob"
  by (induction als) (auto simp: undoPlan_def listedOn_def)

lemma undoAllocation_settles:
  assumes "ids_ok d" "rows_ok d" "existsOb d (al_target a)" "0 < al_amount a" "al_amount a \<le> paidOf d (al_target a)"
  shows "settles (undoPlan [a]) d (undoAllocation a d)"
    and "frame (undoAllocation a d) = frame d" and "allocations (undoAllocation a d) = allocations d"
proof -
  show "settles (undoPlan [a]) d (undoAllocation a d)"
  proof (cases "al_target a")
    case (CHARGE_ITEM iid)
    with assms(3) obtain i where "i \<in> set (items d)" "ci_id i = iid" by (auto simp: existsOb_def)
    then have i: "i \<in> set (items d)" "findChargeItemById d iid = Some i" using item_found [OF assms(1)] by auto
    have "item_ok i" using assms(2) i(1) by (simp add: rows_ok_def)
    then have "0 \<le> ci_paidAmount i - al_amount a" "ci_paidAmount i - al_amount a \<le> ci_amount i"
      using assms(4,5) i(2) CHARGE_ITEM by (simp_all add: paidOf_def item_ok_def)
    from settles_setItemPaid [OF ids_ok_distinct(3) [OF assms(1)] assms(2) sees_item_mem [OF i(1)] this] this
    show ?thesis using i(2) CHARGE_ITEM \<open>ci_id i = iid\<close> by (simp add: undoAllocation_def undoPlan_def)
  next
    case (ADJUSTMENT_OB aid)
    with assms(3) obtain j where "j \<in> set (adjustments d)" "aj_id j = aid" by (auto simp: existsOb_def)
    then have j: "j \<in> set (adjustments d)" "findAdjustmentById d aid = Some j"
      using adjustment_found [OF assms(1)] by auto
    have "adj_ok j" using assms(2) j(1) by (simp add: rows_ok_def)
    then have "0 \<le> aj_paidAmount j - al_amount a" "aj_paidAmount j - al_amount a \<le> max 0 (aj_amount j)"
      using assms(4,5) j(2) ADJUSTMENT_OB by (simp_all add: paidOf_def adj_ok_def)
    from settles_setAdjPaid [OF ids_ok_distinct(5) [OF assms(1)] assms(2) j(1) this] this
    show ?thesis using j(2) ADJUSTMENT_OB \<open>aj_id j = aid\<close> by (simp add: undoAllocation_def undoPlan_def)
  qed
  show "frame (undoAllocation a d) = frame d" "allocations (undoAllocation a d) = allocations d"
    by (auto simp: undoAllocation_def frame_def write_defs split: obligation.splits option.splits)
qed

lemma undoAllocations_settles:
  assumes "ids_ok d" "rows_ok d" "\<forall>a\<in>set als. existsOb d (al_target a) \<and> 0 < al_amount a"
    and "\<And>ob. listedOn als ob \<le> paidOf d ob"
  shows "settles (undoPlan als) d (undoAllocations als d) \<and> frame (undoAllocations als d) = frame d \<and>
    allocations (undoAllocations als d) = allocations d"
  using assms
proof (induction als arbitrary: d)
  case Nil
  then show ?case by (simp add: undoPlan_def settles_refl)
next
  case (Cons a as)
  let ?d = "undoAllocation a d"
  have rest: "0 \<le> listedOn as ob" for ob
    using Cons.prems(3) by (auto simp: listedOn_def less_imp_le intro!: sum_of_nonneg)
  have "al_amount a \<le> paidOf d (al_target a)"
    using Cons.prems(4) [of "al_target a"] rest [of "al_target a"] by (simp add: listedOn_def)
  with undoAllocation_settles [OF Cons.prems(1,2)] Cons.prems(3)
  have one: "settles (undoPlan [a]) d ?d" "frame ?d = frame d" "allocations ?d = allocations d" by auto
  have "settles (undoPlan as) ?d (undoAllocations as ?d) \<and> frame (undoAllocations as ?d) = frame ?d \<and>
      allocations (undoAllocations as ?d) = allocations ?d"
  proof (rule Cons.IH)
    show "ids_ok ?d" using settles_ids_ok [OF one(1) Cons.prems(1)] frameD [OF one(2)] by simp
    show "rows_ok ?d" using one(1) by (simp add: settles_def)
    show "\<forall>a\<in>set as. existsOb ?d (al_target a) \<and> 0 < al_amount a"
      using Cons.prems(3) settles_existsOb [OF one(1)] by simp
    show "listedOn as ob \<le> paidOf ?d ob" for ob
      using Cons.prems(4) [of ob] one(1)
      by (cases "al_target a = ob") (simp_all add: settles_def undoPlan_def listedOn_def)
  qed
  with one settles_trans [OF one(1), of "undoPlan as"] show ?case by (simp add: undoPlan_def)
qed

lemma allocatedOn_single: "allocatedOn {pid} als ob = listedOn (filter (\<lambda>a. al_paymentId a = pid) als) ob"
  by (induction als) (auto simp: listedOn_def)

lemma allocatedOn_remove:
  "pid \<in> A \<Longrightarrow> allocatedOn A als ob = allocatedOn (A - {pid}) als ob + allocatedOn {pid} als ob"
  by (induction als) auto

lemma allocatedOn_nonneg: "(\<And>a. a \<in> set als \<Longrightarrow> 0 < al_amount a) \<Longrightarrow> 0 \<le> allocatedOn A als ob"
  unfolding allocatedOn_def by (rule sum_of_nonneg) (auto intro: less_imp_le)

text \<open>The state just before the cash posting of a reversal.\<close>

definition reversedTables :: "time \<Rightarrow> id \<Rightarrow> fin_db \<Rightarrow> fin_db" where
  "reversedTables now pid d =
     undoAllocations (allocationsOf d pid)
       (setPayment pid (\<lambda>p. p\<lparr>pm_status := REVERSED, pm_reversedAt := Some now\<rparr>) d)"

lemma reversedTables_settles:
  assumes inv: "fin_inv d" and p: "p \<in> set (payments d)" "pm_status p = APPROVED"
  shows "settles (undoPlan (allocationsOf d (pm_id p))) d (reversedTables now (pm_id p) d)"
    and "frame (reversedTables now (pm_id p) d) =
      frame (setPayment (pm_id p) (\<lambda>p. p\<lparr>pm_status := REVERSED, pm_reversedAt := Some now\<rparr>) d)"
    and "allocations (reversedTables now (pm_id p) d) = allocations d"
    and "\<And>ob. listedOn (allocationsOf d (pm_id p)) ob \<le> paidOf d ob"
proof -
  note i = fin_invD [OF inv]
  let ?d0 = "setPayment (pm_id p) (\<lambda>p. p\<lparr>pm_status := REVERSED, pm_reversedAt := Some now\<rparr>) d"
    and ?als = "allocationsOf d (pm_id p)"
  have le: "listedOn ?als ob \<le> paidOf d ob" for ob
  proof -
    have "pm_id p \<in> approvedIds d" using p by (auto simp: approvedIds_def)
    then have "allocatedOn {pm_id p} (allocations d) ob \<le> allocatedOn (approvedIds d) (allocations d) ob"
      using allocatedOn_remove [of "pm_id p" "approvedIds d" "allocations d" ob]
        allocatedOn_nonneg [of "allocations d" "approvedIds d - {pm_id p}" ob] alloc_okD(1) [OF i(6)] by simp
    then show ?thesis using alloc_okD(5) [OF i(6), of ob] by (simp add: allocatedOn_single allocationsOf_def)
  qed
  then show "listedOn ?als ob \<le> paidOf d ob" for ob .
  have "settles (undoPlan ?als) ?d0 (undoAllocations ?als ?d0) \<and> frame (undoAllocations ?als ?d0) = frame ?d0 \<and>
    allocations (undoAllocations ?als ?d0) = allocations ?d0"
  proof (rule undoAllocations_settles)
    show "ids_ok ?d0" using i(1) by (simp add: ids_ok_setPayment)
    show "rows_ok ?d0" using i(2) rows_ok_cong [of ?d0 d] by simp
    show "\<forall>a\<in>set ?als. existsOb ?d0 (al_target a) \<and> 0 < al_amount a"
      using alloc_okD(1,2) [OF i(6)] existsOb_cong [of ?d0 d] by (auto simp: allocationsOf_def)
    show "listedOn ?als ob \<le> paidOf ?d0 ob" for ob using le [of ob] paidOf_cong [of ?d0 d ob] by simp
  qed
  then show "settles (undoPlan ?als) d (reversedTables now (pm_id p) d)"
    "frame (reversedTables now (pm_id p) d) = frame ?d0"
    "allocations (reversedTables now (pm_id p) d) = allocations d"
    using settles_cong [of ?d0 d "reversedTables now (pm_id p) d" "reversedTables now (pm_id p) d"]
    by (simp_all add: reversedTables_def)
qed

lemma fin_inv_reversedTables:
  assumes inv: "fin_inv d" and p: "p \<in> set (payments d)" "pm_status p = APPROVED"
  shows "fin_inv (reversedTables now (pm_id p) d)"
proof -
  note i = fin_invD [OF inv] and r = reversedTables_settles(1-3) [OF inv p, of now]
  let ?mark = "\<lambda>p. p\<lparr>pm_status := REVERSED, pm_reversedAt := Some now\<rparr>"
  let ?d = "reversedTables now (pm_id p) d"
  note fr = frameD [OF r(2), simplified]
  have pay: "payments ?d = upd_where (\<lambda>x. pm_id x = pm_id p) ?mark (payments d)" using fr by simp
  have setp: "set (payments ?d) = (\<lambda>x. if pm_id x = pm_id p then ?mark x else x) ` set (payments d)"
    unfolding pay by (rule set_upd_where)
  have "map pm_id (payments ?d) = map pm_id (payments d)" unfolding pay by (rule map_key_upd_where) simp
  then have "ids_ok ?d" using settles_ids_ok [OF r(1) i(1)] fr by simp
  moreover have "sel_ok ?d"
    using no_live_selection [OF inv p(1), of "\<lambda>s. s\<lparr>ds_state := Some RELEASED\<rparr>"] p(2) fr
    by (intro sel_ok_resolve [OF inv p(1) pay, where st = RELEASED]) simp_all
  moreover have "alloc_ok ?d" unfolding alloc_ok_def
  proof (intro conjI ballI allI)
    fix a assume "a \<in> set (allocations ?d)"
    then have a: "a \<in> set (allocations d)" using r(3) by simp
    then show "0 < al_amount a" by (rule alloc_okD(1) [OF i(6)])
    show "existsOb ?d (al_target a)" using alloc_okD(2) [OF i(6) a] settles_existsOb [OF r(1)] by simp
    obtain x where x: "x \<in> set (payments d)" "pm_id x = al_paymentId a" "pm_status x \<in> {APPROVED, REVERSED}"
      using alloc_okD(3) [OF i(6) a] by (elim bexE conjE)
    have "(if pm_id x = pm_id p then ?mark x else x) \<in> set (payments ?d)" unfolding setp using x(1) by (rule imageI)
    then show "\<exists>x\<in>set (payments ?d). pm_id x = al_paymentId a \<and> pm_status x \<in> {APPROVED, REVERSED}"
      by (rule rev_bexI) (use x(2,3) in auto)
  next
    fix x assume "x \<in> set (payments ?d)"
    then obtain x0 where "x0 \<in> set (payments d)" "pm_id x = pm_id x0" "pm_amount x = pm_amount x0"
      unfolding setp by (auto split: if_splits)
    then show "allocatedTotal ?d (pm_id x) \<le> pm_amount x"
      using alloc_okD(4) [OF i(6)] r(3) by (simp add: allocatedTotal_def allocationsOf_def)
  next
    fix ob
    have app: "approvedIds ?d = approvedIds d - {pm_id p}"
    proof (intro equalityI subsetI)
      fix x assume "x \<in> approvedIds ?d"
      then show "x \<in> approvedIds d - {pm_id p}" unfolding approvedIds_def setp by (auto split: if_splits)
    next
      fix x assume "x \<in> approvedIds d - {pm_id p}"
      then obtain y where "y \<in> set (payments d)" "pm_status y = APPROVED" "x = pm_id y" "x \<noteq> pm_id p"
        by (auto simp: approvedIds_def)
      then show "x \<in> approvedIds ?d" unfolding approvedIds_def setp by (auto intro!: image_eqI [of _ _ y])
    qed
    have "pm_id p \<in> approvedIds d" using p by (auto simp: approvedIds_def)
    from allocatedOn_remove [OF this, of "allocations d" ob] alloc_okD(5) [OF i(6), of ob]
    show "allocatedOn (approvedIds ?d) (allocations ?d) ob \<le> paidOf ?d ob"
      using r(1,3) by (simp add: app settles_def onTarget_undoPlan allocatedOn_single allocationsOf_def)
  qed
  ultimately show ?thesis
    using i r(1) fr balance_ok_cong [of ?d d] pay_ok_upd [OF i(5) pay]
    by (simp add: fin_inv_def settles_def credits_ok_def)
qed

lemma reversePayment_steps:
  assumes "reversePayment now q d = Inr (r, d')"
  shows "\<exists>p d1. findPaymentById d (rv_paymentId q) = Some p \<and> pm_status p = APPROVED \<and>
    allocatedTotal d (pm_id p) = pm_amount p \<and>
    addLedger now (rv_buildingId q) (rv_fundId q) REVERSAL DEBIT (rv_amount q) RefPayment (rv_paymentId q)
      (Some (rv_actorId q)) (reversedTables now (rv_paymentId q) d) = Inr d1 \<and>
    fundIncrement (rv_fundId q) (- rv_amount q) d1 = Inr d'"
  using assms
  by (auto simp: reversePayment_def reversePaymentBody_def effect_simps reversedTables_def Let_def
      allocationsOf_def split: option.splits)

lemma reversePayment_inv:
  assumes inv: "fin_inv d" and ok: "reversePayment now q d = Inr (r, d')"
  shows "fin_inv d'"
proof -
  obtain p d1 where p: "findPaymentById d (rv_paymentId q) = Some p" "pm_status p = APPROVED"
    and l: "addLedger now (rv_buildingId q) (rv_fundId q) REVERSAL DEBIT (rv_amount q) RefPayment (rv_paymentId q)
      (Some (rv_actorId q)) (reversedTables now (rv_paymentId q) d) = Inr d1"
    and f: "fundIncrement (rv_fundId q) (- rv_amount q) d1 = Inr d'"
    using reversePayment_steps [OF ok] by blast
  note pm = findPayment_mem [OF p(1)]
  have "fin_inv (reversedTables now (rv_paymentId q) d)"
    using fin_inv_reversedTables [OF inv _ p(2)] pm by metis
  from fin_inv_post [OF this l f] show ?thesis by (simp add: fundStatementEntryTypes_def)
qed

text \<open>
  A refund needs a payment whose whole amount is allocated, and then one with nothing
  allocated: no positive payment passes both checks.
\<close>

lemma createRefund_fails:
  assumes "pay_ok d" "createRefund now q d = Inr x"
  shows False
proof -
  obtain r d' where x: "x = (r, d')" by (cases x)
  obtain p where p: "findPaymentById d (rp_paymentId q) = Some p"
    "\<not> pm_amount p - allocatedTotal d (pm_id p) > 0" "\<not> allocatedTotal d (pm_id p) > 0"
    using assms(2) unfolding x
    by (auto simp: createRefund_def createRefundBody_def effect_simps split: option.splits)
  moreover have "0 < pm_amount p" using assms(1) findPayment_mem [OF p(1)] by (simp add: pay_ok_def)
  ultimately show False by simp
qed

end
