(* ===== verification/Charge_Inv.thy ===== *)
theory Charge_Inv
  imports Payment_Inv
begin

text \<open>
  The transactions on funds, charge batches, adjustments and expenses keep \<open>fin_inv\<close>.
\<close>

section \<open>Settlements that are not payments\<close>

lemma fin_inv_settles:
  assumes inv: "fin_inv d" and st: "settles pl d d'" "\<forall>x\<in>set pl. 0 \<le> snd x"
    and same: "allocations d' = allocations d" "payments d' = payments d" "selections d' = selections d"
      "funds d' = funds d" "ledger d' = ledger d" "batches d' = batches d" "expenses d' = expenses d"
      "fin_ids d' = fin_ids d" "fin_next d' = fin_next d" and cr: "credits_ok d'"
  shows "fin_inv d'"
proof -
  note i = fin_invD [OF inv]
  have "0 \<le> onTarget pl ob" for ob
    unfolding onTarget_def by (rule sum_of_nonneg) (use st(2) in auto)
  then have "paidOf d ob \<le> paidOf d' ob" for ob using st(1) by (simp add: settles_def)
  then have le: "x \<le> paidOf d ob \<Longrightarrow> x \<le> paidOf d' ob" for x ob using order_trans by blast
  have "alloc_ok d'" unfolding alloc_ok_def same(1,2)
  proof (intro conjI ballI allI)
    fix a assume a: "a \<in> set (allocations d)"
    show "0 < al_amount a" by (rule alloc_okD(1) [OF i(6) a])
    show "existsOb d' (al_target a)" using alloc_okD(2) [OF i(6) a] settles_existsOb [OF st(1)] by simp
    show "\<exists>p\<in>set (payments d). pm_id p = al_paymentId a \<and> pm_status p \<in> {APPROVED, REVERSED}"
      by (rule alloc_okD(3) [OF i(6) a])
  next
    fix p assume "p \<in> set (payments d)"
    from alloc_okD(4) [OF i(6) this] show "allocatedTotal d' (pm_id p) \<le> pm_amount p"
      by (simp add: allocatedTotal_def allocationsOf_def same(1))
  next
    fix ob
    show "allocatedOn (approvedIds d') (allocations d) ob \<le> paidOf d' ob"
      using le [OF alloc_okD(5) [OF i(6)]] by (simp add: approvedIds_def same(2))
  qed
  moreover have "ids_ok d'" using settles_ids_ok [OF st(1) i(1)] same by simp
  ultimately show ?thesis
    using i st(1) cr sel_ok_cong [OF same(3,2)] balance_ok_cong [OF same(4,5)]
    by (simp add: fin_inv_def settles_def pay_ok_def same(2))
qed

text \<open>Tables the invariant does not look at, and rows it looks at by key only.\<close>

lemma fin_inv_setBatch:
  assumes "fin_inv d" "\<And>b. cb_id (g b) = cb_id b"
  shows "fin_inv (setBatch bid g d)"
proof -
  let ?d = "setBatch bid g d"
  have same: "items ?d = items d" "adjustments ?d = adjustments d" "allocations ?d = allocations d"
    "payments ?d = payments d" "selections ?d = selections d" "funds ?d = funds d" "ledger ?d = ledger d"
    by (simp_all add: setBatch_def)
  have "ids_ok ?d" using assms by (simp add: fin_inv_def ids_ok_def setBatch_def)
  moreover have "credits_ok ?d = credits_ok d" "pay_ok ?d = pay_ok d"
    by (simp_all add: credits_ok_def pay_ok_def setBatch_def)
  ultimately show ?thesis
    using assms(1) rows_ok_cong [OF same(1,2)] alloc_ok_cong [OF same(1-4)] sel_ok_cong [OF same(5,4)]
      balance_ok_cong [OF same(6,7)] by (simp add: fin_inv_def)
qed

section \<open>Funds and series\<close>

lemma insertFund_inv:
  assumes inv: "fin_inv d" and ok: "insertFund now q d = Inr (f, d')"
  shows "fin_inv d'"
proof -
  have d': "d' = take_id (d\<lparr>funds := funds d @ [f]\<rparr>)" "fd_id f = fin_ids d (fin_next d)" "fd_balance f = 0"
    using ok by (auto simp: insertFund_def newFund_def Let_def fresh_id_def split: if_splits)
  note i = fin_invD [OF inv]
  have "fd_id f \<notin> set (map fd_id (funds d))"
    using i(1) unfolding d'(2) ids_ok_def by (auto dest: keyed_fresh)
  then have "balance_ok d'" unfolding d'(1) using balance_ok_insertFund [OF i(4) d'(3)] by simp
  moreover have "ids_ok d'" using i(1) d'(2) by (auto simp: d'(1) ids_ok_def take_id_def keyed_Suc intro: keyed_insert)
  moreover have same: "items d' = items d" "adjustments d' = adjustments d" "allocations d' = allocations d"
    "payments d' = payments d" "selections d' = selections d" "credits d' = credits d"
    by (simp_all add: d'(1) take_id_def)
  ultimately show ?thesis
    using i rows_ok_cong [OF same(1,2)] alloc_ok_cong [OF same(1-4)] sel_ok_cong [OF same(5,4)]
    by (simp add: fin_inv_def credits_ok_def pay_ok_def same)
qed

lemma createFund_inv:
  assumes inv: "fin_inv d" and ok: "createFund now q d = Inr (r, d')"
  shows "fin_inv d'"
proof -
  obtain f d1 where f: "insertFund now q d = Inr (f, d1)"
    and rest: "d' = d1 \<or> (\<exists>n d2. addLedger now (cf_buildingId q) (fd_id f) OPENING_BALANCE CREDIT n RefFund
        (fd_id f) (cf_actorId q) d1 = Inr d2 \<and> fundIncrement (fd_id f) n d2 = Inr d')"
    using ok by (auto simp: createFund_def createFundBody_def effect_simps Let_def split: if_splits)
  note d1 = insertFund_inv [OF inv f]
  from rest show ?thesis using d1 by (auto intro: fin_inv_post simp: fundStatementEntryTypes_def)
qed

lemma getOrCreateDefaultFund_inv:
  "fin_inv d \<Longrightarrow> getOrCreateDefaultFund now bid d = Inr (r, d') \<Longrightarrow> fin_inv d'"
  by (auto simp: getOrCreateDefaultFund_def dest: insertFund_inv split: option.splits)

lemma fin_inv_setFund:
  assumes "fin_inv d" "\<And>f. fd_id (g f) = fd_id f" "\<And>f. fd_balance (g f) = fd_balance f"
  shows "fin_inv (setFund fid g d)"
proof -
  let ?d = "setFund fid g d"
  have same: "items ?d = items d" "adjustments ?d = adjustments d" "allocations ?d = allocations d"
    "payments ?d = payments d" "selections ?d = selections d"
    by (simp_all add: setFund_def)
  have "ids_ok ?d" using assms(1,2) by (simp add: fin_inv_def ids_ok_def setFund_def)
  moreover have "credits_ok ?d = credits_ok d" "pay_ok ?d = pay_ok d"
    by (simp_all add: credits_ok_def pay_ok_def setFund_def)
  ultimately show ?thesis
    using assms rows_ok_cong [OF same(1,2)] alloc_ok_cong [OF same(1-4)] sel_ok_cong [OF same(5,4)]
      balance_ok_setFund [of d g fid] by (simp add: fin_inv_def)
qed

lemma updateFund_inv: "fin_inv d \<Longrightarrow> updateFund fid q d = Inr (r, d') \<Longrightarrow> fin_inv d'"
  by (auto simp: updateFund_def patchFund_def [abs_def] intro!: fin_inv_setFund split: option.splits if_splits)

lemma setFundActive_inv: "fin_inv d \<Longrightarrow> setFundActive fid act d = Inr (r, d') \<Longrightarrow> fin_inv d'"
  by (auto simp: setFundActive_def intro!: fin_inv_setFund split: option.splits)

lemma createChargeSeries_inv:
  assumes inv: "fin_inv d" and ok: "createChargeSeries bid name d = Inr (r, d')"
  shows "fin_inv d'"
proof -
  have same: "items d' = items d" "adjustments d' = adjustments d" "allocations d' = allocations d"
    "payments d' = payments d" "selections d' = selections d" "funds d' = funds d" "ledger d' = ledger d"
    "credits d' = credits d" "batches d' = batches d" "expenses d' = expenses d" "fin_ids d' = fin_ids d"
    "fin_next d' = Suc (fin_next d)"
    using ok by (auto simp: createChargeSeries_def Let_def take_id_def split: if_splits)
  have "ids_ok d'" using fin_invD(1) [OF inv] by (simp add: ids_ok_def same keyed_Suc)
  with inv rows_ok_cong [OF same(1,2)] alloc_ok_cong [OF same(1-4)] sel_ok_cong [OF same(5,4)]
    balance_ok_cong [OF same(6,7)] show ?thesis by (simp add: fin_inv_def credits_ok_def pay_ok_def same)
qed

section \<open>Charge batches\<close>

text \<open>New rows, with nothing paid on them, leave the obligations as they were.\<close>

lemma alloc_ok_more:
  assumes ok: "alloc_ok d" and same: "allocations d' = allocations d" "payments d' = payments d"
    and ob: "\<And>ob. existsOb d ob \<Longrightarrow> existsOb d' ob" "\<And>ob. paidOf d' ob = paidOf d ob"
  shows "alloc_ok d'"
  unfolding alloc_ok_def same
proof (intro conjI ballI allI)
  fix a assume a: "a \<in> set (allocations d)"
  show "0 < al_amount a" "existsOb d' (al_target a)"
    "\<exists>p\<in>set (payments d). pm_id p = al_paymentId a \<and> pm_status p \<in> {APPROVED, REVERSED}"
    using alloc_okD(1-3) [OF ok a] ob(1) by auto
next
  fix p assume "p \<in> set (payments d)"
  then show "allocatedTotal d' (pm_id p) \<le> pm_amount p"
    using alloc_okD(4) [OF ok] by (simp add: allocatedTotal_def allocationsOf_def same)
next
  fix ob show "allocatedOn (approvedIds d') (allocations d) ob \<le> paidOf d' ob"
    using alloc_okD(5) [OF ok] by (simp add: ob(2) approvedIds_def same)
qed

lemma fin_inv_addItem:
  assumes inv: "fin_inv d" and n: "0 \<le> snd it"
  shows "fin_inv (take_id (d\<lparr>items := items d @ [newItem now bid (fresh_id d) it]\<rparr>))"
proof -
  let ?i = "newItem now bid (fresh_id d) it"
  let ?d = "take_id (d\<lparr>items := items d @ [?i]\<rparr>)"
  note i = fin_invD [OF inv]
  have same: "allocations ?d = allocations d" "payments ?d = payments d" "selections ?d = selections d"
    "funds ?d = funds d" "ledger ?d = ledger d" by (simp_all add: take_id_def)
  have new: "ci_id ?i = fin_ids d (fin_next d)" "ci_paidAmount ?i = 0" "item_ok ?i"
    using n by (simp_all add: newItem_def fresh_id_def item_ok_def computeItemStatus_def)
  have "ids_ok ?d" using i(1) new(1) by (auto simp: ids_ok_def take_id_def keyed_Suc intro: keyed_insert)
  moreover have "rows_ok ?d" using i(2) new(3) by (auto simp: rows_ok_def take_id_def)
  moreover have "alloc_ok ?d"
  proof (rule alloc_ok_more [OF i(6) same(1,2)])
    fix ob
    have "paidOf (take_id (d\<lparr>items := items d @ [x]\<rparr>)) ob = paidOf d ob" if "ci_paidAmount x = 0" for x
      using that by (cases ob) (auto simp: paidOf_def findChargeItemById_def findAdjustmentById_def take_id_def
          find_row_append split: option.splits)
    then show "paidOf ?d ob = paidOf d ob" using new(2) by blast
    show "existsOb d ob \<Longrightarrow> existsOb ?d ob" by (cases ob) (auto simp: existsOb_def take_id_def)
  qed
  ultimately show ?thesis
    using i sel_ok_cong [OF same(3,2)] balance_ok_cong [OF same(4,5)]
    by (simp add: fin_inv_def credits_ok_def pay_ok_def take_id_def)
qed

lemma addItems_inv: "fin_inv d \<Longrightarrow> \<forall>i\<in>set is. 0 \<le> snd i \<Longrightarrow> fin_inv (addItems now bid is d)"
  by (induction now bid "is" d rule: addItems.induct) (simp_all add: fin_inv_addItem)

lemma createChargeBatch_inv:
  assumes inv: "fin_inv d" and n: "\<forall>i\<in>set (bp_items q). 0 \<le> snd i"
    and ok: "createChargeBatch now ux q d = Inr (r, d')"
  shows "fin_inv d'"
proof -
  let ?b = "newBatch now (fresh_id d) q"
  let ?d = "take_id (d\<lparr>batches := batches d @ [?b]\<rparr>)"
  have d': "d' = addItems now (cb_id ?b) (bp_items q) ?d"
    using ok by (auto simp: createChargeBatch_def createChargeBatchBody_def effect_simps Let_def)
  note i = fin_invD [OF inv]
  have same: "items ?d = items d" "adjustments ?d = adjustments d" "allocations ?d = allocations d"
    "payments ?d = payments d" "selections ?d = selections d" "funds ?d = funds d" "ledger ?d = ledger d"
    by (simp_all add: take_id_def)
  have "cb_id ?b = fin_ids d (fin_next d)" by (simp add: newBatch_def fresh_id_def)
  then have "ids_ok ?d" using i(1) by (auto simp: ids_ok_def take_id_def keyed_Suc intro: keyed_insert)
  then have "fin_inv ?d"
    using i rows_ok_cong [OF same(1,2)] alloc_ok_cong [OF same(1-4)] sel_ok_cong [OF same(5,4)]
      balance_ok_cong [OF same(6,7)] by (simp add: fin_inv_def credits_ok_def pay_ok_def take_id_def)
  then show ?thesis unfolding d' by (rule addItems_inv [OF _ n])
qed

lemma cancelChargeBatch_inv:
  "fin_inv d \<Longrightarrow> cancelChargeBatch now cbid bid d = Inr (r, d') \<Longrightarrow> fin_inv d'"
  by (auto simp: cancelChargeBatch_def cancelChargeBatchBody_def effect_simps Let_def
      intro!: fin_inv_setBatch split: option.splits)

text \<open>Recording payers changes no amount.\<close>

lemma settles_setResolvedPayer: "rows_ok d \<Longrightarrow> settles [] d (setResolvedPayer iid t d)"
proof -
  assume rows: "rows_ok d"
  let ?d = "setResolvedPayer iid t d"
  have "map itemIdentity (items ?d) = map itemIdentity (items d)"
    unfolding setResolvedPayer_def by (simp, rule map_key_upd_where) (simp add: itemIdentity_def)
  moreover have "rows_ok ?d" using rows by (auto simp: rows_ok_def setResolvedPayer_def set_upd_where item_ok_def)
  moreover have "paidOf ?d ob = paidOf d ob" for ob
    by (cases ob) (auto simp: paidOf_def setResolvedPayer_def findChargeItemById_def findAdjustmentById_def
        find_row_upd_same split: option.splits)
  ultimately show ?thesis by (simp add: settles_def setResolvedPayer_def)
qed

lemma sees_item_setResolvedPayer:
  assumes "sees_item d i"
  shows "sees_item (setResolvedPayer iid t d) i"
proof -
  let ?f = "\<lambda>j. if ci_id j = iid then j\<lparr>ci_resolvedPayerType := Some t\<rparr> else j"
  obtain j where j: "j \<in> set (items d)" "itemIdentity j = itemIdentity i" "ci_paidAmount j = ci_paidAmount i"
    using assms by (auto simp: sees_item_def)
  have "?f j \<in> set (items (setResolvedPayer iid t d))"
    unfolding setResolvedPayer_def using j(1) by (simp add: set_upd_where)
  moreover have "itemIdentity (?f j) = itemIdentity i" "ci_paidAmount (?f j) = ci_paidAmount i"
    using j(2,3) by (simp_all add: itemIdentity_def)
  ultimately show ?thesis unfolding sees_item_def by blast
qed

lemma addPayers_frame: "addPayers iid ps d = Inr d' \<Longrightarrow> \<exists>rows. d' = d\<lparr>itemPayers := rows\<rparr>"
proof (induction ps arbitrary: d)
  case Nil
  then have "d' = d\<lparr>itemPayers := itemPayers d\<rparr>" by simp
  then show ?case by blast
next
  case (Cons p ps)
  let ?d = "d\<lparr>itemPayers := itemPayers d @ [\<lparr>cp_chargeItemId = iid, cp_personId = p\<rparr>]\<rparr>"
  have "addPayers iid ps ?d = Inr d'" using Cons.prems by (simp split: if_splits)
  from Cons.IH [OF this] obtain rows where "d' = ?d\<lparr>itemPayers := rows\<rparr>" by blast
  then have "d' = d\<lparr>itemPayers := rows\<rparr>" by simp
  then show ?case by blast
qed

lemma fin_inv_itemPayers [simp]: "fin_inv (d\<lparr>itemPayers := rows\<rparr>) = fin_inv d"
proof -
  let ?d = "d\<lparr>itemPayers := rows\<rparr>"
  have "rows_ok ?d = rows_ok d" "alloc_ok ?d = alloc_ok d" "sel_ok ?d = sel_ok d" "balance_ok ?d = balance_ok d"
    by (rule rows_ok_cong alloc_ok_cong sel_ok_cong balance_ok_cong; simp)+
  then show ?thesis by (simp add: fin_inv_def ids_ok_def credits_ok_def pay_ok_def)
qed

lemma writeResolutions_inv:
  "fin_inv d \<Longrightarrow> writeResolutions rs d = Inr d' \<Longrightarrow>
    fin_inv d' \<and> (\<forall>i. sees_item d i \<longrightarrow> sees_item d' i)"
proof (induction rs arbitrary: d)
  case Nil
  then show ?case by simp
next
  case (Cons r rs)
  let ?d = "setResolvedPayer (pr_chargeItemId r) (pr_resolvedPayerType r) d"
  obtain d1 where d1: "addPayers (pr_chargeItemId r) (pr_personIds r) ?d = Inr d1" "writeResolutions rs d1 = Inr d'"
    using Cons.prems(2) by (auto simp: effect_simps split: if_splits)
  then obtain rows where rows: "d1 = ?d\<lparr>itemPayers := rows\<rparr>" using addPayers_frame by blast
  have "fin_inv ?d"
    using fin_inv_settles [OF Cons.prems(1) settles_setResolvedPayer] fin_invD(2,3) [OF Cons.prems(1)]
    by (simp add: setResolvedPayer_def credits_ok_def)
  then have "fin_inv d1" by (simp add: rows)
  moreover have "sees_item d i \<Longrightarrow> sees_item d1 i" for i
    using sees_item_setResolvedPayer [of d i] by (simp add: rows sees_item_def)
  ultimately show ?case using Cons.IH d1(2) by blast
qed

lemma credits_ok_takeCredit: "credits_ok d \<Longrightarrow> credits_ok (takeCredit uid n d)"
  by (auto simp: credits_ok_def takeCredit_def map_key_upd_where set_upd_where)

lemma applyCreditToItem_inv:
  assumes inv: "fin_inv d" and ok: "applyCreditToItem now q fid i d = Inr d'" and sees: "sees_item d i"
  shows "fin_inv d' \<and> (\<forall>j. ci_id j \<noteq> ci_id i \<longrightarrow> sees_item d j \<longrightarrow> sees_item d' j)"
proof (cases "d' = d")
  case True
  then show ?thesis using inv by simp
next
  case False
  then obtain c :: creditBalance where c: "0 < cr_balance c" "0 < itemOutstanding i"
    and l: "addLedger now (is_buildingId q) fid CREDIT_APPLIED CREDIT (min (cr_balance c) (itemOutstanding i))
       RefChargeItem (ci_id i) (Some (is_actorId q))
       (takeCredit (ci_unitId i) (min (cr_balance c) (itemOutstanding i))
         (waiveItem i (min (cr_balance c) (itemOutstanding i)) d)) = Inr d'"
    using ok by (auto simp: applyCreditToItem_def Let_def not_le split: option.splits if_splits)
  let ?n = "min (cr_balance c) (itemOutstanding i)"
  let ?d = "takeCredit (ci_unitId i) ?n (waiveItem i ?n d)"
  note fi = fin_invD [OF inv]
  have "settles [(CHARGE_ITEM (ci_id i), ?n)] d (waiveItem i ?n d)"
    using settles_payItem(2) [OF ids_ok_distinct(3) [OF fi(1)] fi(2) sees, of ?n] c by simp
  then have "settles [(CHARGE_ITEM (ci_id i), ?n)] d ?d"
    using settles_cong [of d d ?d "waiveItem i ?n d"] by (simp add: takeCredit_def)
  moreover note fr = frameD [OF frame_pays(2) [of i ?n d]]
  moreover have "credits_ok (waiveItem i ?n d)" using fi(3) fr by (simp add: credits_ok_def)
  then have "credits_ok ?d" by (rule credits_ok_takeCredit)
  ultimately have "fin_inv ?d"
    using c by (intro fin_inv_settles [OF inv, where pl = "[(CHARGE_ITEM (ci_id i), ?n)]"])
      (simp_all add: takeCredit_def)
  from fin_inv_addLedger_other [OF this l] have "fin_inv d'" by (simp add: fundStatementEntryTypes_def)
  moreover have "sees_item d' j" if "ci_id j \<noteq> ci_id i" "sees_item d j" for j
    using pay_sees(2) [OF that(2,1), of ?n] l
    by (auto simp: addLedger_Inr_iff take_id_def takeCredit_def sees_item_def)
  ultimately show ?thesis by blast
qed

lemma applyCredits_inv:
  assumes "fin_inv d" "applyCredits now q fid is d = Inr d'" "distinct (map ci_id is)"
    and "\<forall>i\<in>set is. sees_item d i"
  shows "fin_inv d'"
  using assms
proof (induction "is" arbitrary: d)
  case Nil
  then show ?case by simp
next
  case (Cons i "is")
  then obtain d1 where d1: "applyCreditToItem now q fid i d = Inr d1" "applyCredits now q fid is d1 = Inr d'"
    by (auto simp: effect_simps)
  have "fin_inv d1 \<and> (\<forall>j. ci_id j \<noteq> ci_id i \<longrightarrow> sees_item d j \<longrightarrow> sees_item d1 j)"
    using applyCreditToItem_inv [OF Cons.prems(1) d1(1)] Cons.prems(4) by simp
  moreover have "\<forall>j\<in>set is. ci_id j \<noteq> ci_id i" using Cons.prems(3) by (simp add: image_iff) metis
  ultimately show ?case using Cons.IH [OF _ d1(2)] Cons.prems(3,4) by simp
qed

lemma issueChargeBatch_inv:
  assumes inv: "fin_inv d" and ok: "issueChargeBatch now q d = Inr (r, d')"
  shows "fin_inv d'"
proof -
  let ?its = "itemsOfBatch d (is_chargeBatchId q)" and ?d0 = "setBatch (is_chargeBatchId q) (markIssued now) d"
  obtain b :: chargeBatch and d1 d2 where d1: "writeResolutions (is_payerResolutions q) ?d0 = Inr d1"
    and d2: "applyCredits now q (cb_fundId b) ?its d1 = Inr d2"
    and d3: "addLedger now (is_buildingId q) (cb_fundId b) CHARGE DEBIT (cb_totalAmount b) RefChargeBatch
      (is_chargeBatchId q) (Some (is_actorId q)) d2 = Inr d'"
    using ok by (auto simp: issueChargeBatch_def issueChargeBatchBody_def transaction_Inr_iff
        bind_r_Inr_iff assert_r_Inr_iff Let_def split: option.splits)
  have "fin_inv ?d0" by (rule fin_inv_setBatch [OF inv]) (simp add: markIssued_def)
  note w = writeResolutions_inv [OF this d1]
  have "sees_item ?d0 i" if "i \<in> set ?its" for i
    using that by (intro sees_item_mem) (simp add: itemsOfBatch_def setBatch_def)
  moreover have "distinct (map ci_id ?its)"
    using ids_ok_distinct(3) [OF fin_invD(1) [OF inv]] by (simp add: itemsOfBatch_def distinct_map_filter)
  ultimately have "fin_inv d2" using applyCredits_inv [OF _ d2] w by blast
  from fin_inv_addLedger_other [OF this d3] show ?thesis by (simp add: fundStatementEntryTypes_def)
qed

section \<open>Adjustments and corrections\<close>

lemma insertAdjustment_inv:
  assumes inv: "fin_inv d" and ok: "insertAdjustment now q d = Inr (a, d')"
  shows "fin_inv d' \<and> aj_id a = fresh_id d \<and> adjustments d' = adjustments d @ [a] \<and> aj_paidAmount a = 0"
proof -
  have d': "d' = take_id (d\<lparr>adjustments := adjustments d @ [a]\<rparr>)"
    and a: "aj_id a = fin_ids d (fin_next d)" "aj_paidAmount a = 0" "adj_ok a"
    using ok by (auto simp: insertAdjustment_def newAdjustment_def fresh_id_def adj_ok_def Let_def split: if_splits)
  note i = fin_invD [OF inv]
  have same: "allocations d' = allocations d" "payments d' = payments d" "selections d' = selections d"
    "funds d' = funds d" "ledger d' = ledger d" "credits d' = credits d" by (simp_all add: d' take_id_def)
  have "ids_ok d'" using i(1) a(1) by (auto simp: d' ids_ok_def take_id_def keyed_Suc intro: keyed_insert)
  moreover have "rows_ok d'" using i(2) a(3) by (auto simp: d' rows_ok_def take_id_def)
  moreover have "alloc_ok d'"
  proof (rule alloc_ok_more [OF i(6) same(1,2)])
    fix ob
    show "paidOf d' ob = paidOf d ob" using a(2)
      by (cases ob) (auto simp: d' paidOf_def findChargeItemById_def findAdjustmentById_def take_id_def
          find_row_append split: option.splits)
    show "existsOb d ob \<Longrightarrow> existsOb d' ob" by (cases ob) (auto simp: d' existsOb_def take_id_def)
  qed
  moreover have "sel_ok d'" "balance_ok d'"
    using i(4,7) sel_ok_cong [OF same(3,2)] balance_ok_cong [OF same(4,5)] by simp_all
  ultimately show ?thesis
    using i a by (simp add: fin_inv_def credits_ok_def pay_ok_def same d' take_id_def fresh_id_def)
qed

lemma fin_inv_frame_settles:
  assumes inv: "fin_inv d" and st: "settles pl d d'" "\<forall>x\<in>set pl. 0 \<le> snd x"
    and fr: "frame d' = frame d" "allocations d' = allocations d"
  shows "fin_inv d'"
  using frameD [OF fr(1)] fr(2) fin_invD(3) [OF inv]
  by (intro fin_inv_settles [OF inv st]) (simp_all add: credits_ok_def)

lemma waiver_inv:
  assumes inv: "fin_inv d"
  shows "fin_inv (snd (settle_loop itemOutstanding waiveItem (outstandingItems d uid) n d))"
proof -
  let ?ps = "settle_plan itemOutstanding (outstandingItems d uid) n"
  note i = fin_invD [OF inv]
  have "settles (waiving.targets ?ps) d
      (snd (settle_loop itemOutstanding waiveItem (outstandingItems d uid) n d))"
    using ids_ok_distinct(3) [OF i(1)] i(2) outstandingItems_distinct [OF i(1)]
    by (intro waiving.loop_settles)
      (auto simp: items_distinct_def intro!: sees_item_mem distinct_CHARGE_ITEM dest: outstandingItems_sub)
  moreover have "\<forall>x\<in>set (waiving.targets ?ps). 0 \<le> snd x"
    using waiving.targets_bounds [of _ _ "outstandingItems d uid" n] by fastforce
  ultimately show ?thesis
    using waiving.plan_frame [of ?ps d] waiving.plan_entries [of ?ps d]
    by (intro fin_inv_frame_settles [OF inv, where pl = "waiving.targets ?ps"])
      (simp_all add: settle_loop_plan)
qed

lemma createAdjustment_inv:
  assumes inv: "fin_inv d" and ok: "createAdjustment now q d = Inr (r, d')"
  shows "fin_inv d'"
proof -
  obtain a d1 where a: "insertAdjustment now q d = Inr (a, d1)"
    and l: "ledgerAdjustment now q (aj_id a) (if ja_amount q < 0
         then snd (settle_loop itemOutstanding waiveItem (outstandingItems d1 (ja_unitId q)) \<bar>ja_amount q\<bar> d1)
         else d1) = Inr d'"
    using ok by (auto simp: createAdjustment_def createAdjustmentBody_def effect_simps Let_def)
  have "fin_inv d1" using insertAdjustment_inv [OF inv a] by simp
  then have "fin_inv (if ja_amount q < 0
         then snd (settle_loop itemOutstanding waiveItem (outstandingItems d1 (ja_unitId q)) \<bar>ja_amount q\<bar> d1)
         else d1)" by (simp add: waiver_inv)
  from fin_inv_addLedger_other [OF this l [unfolded ledgerAdjustment_def]]
  show ?thesis by (simp add: fundStatementEntryTypes_def)
qed

lemma fin_inv_creditUpsert:
  assumes "fin_inv d" "0 \<le> n"
  shows "fin_inv (creditUpsert uid bid n d)"
  using assms settles_refl [of d] settles_cong [of d d "creditUpsert uid bid n d" d] fin_invD(2,3) [OF assms(1)]
  by (intro fin_inv_settles [OF assms(1), where pl = "[]"]) (simp_all add: credits_ok_upsert)

lemma applyDownwardCorrection_inv:
  assumes inv: "fin_inv d" and n: "0 \<le> n"
  shows "fin_inv (applyDownwardCorrection q aid n d)"
proof -
  let ?rs = "priorCorrections d (oc_unitId q) aid"
  let ?ps = "settle_plan adjOutstanding ?rs n"
  let ?d = "snd (settle_loop adjOutstanding waiveAdjustment ?rs n d)"
  note i = fin_invD [OF inv]
  have sub: "a \<in> set (adjustments d)" if "a \<in> set ?rs" for a
    using that by (auto simp: priorCorrections_def correctionsOf_def)
  have "distinct (map aj_id ?rs)"
    using ids_ok_distinct(5) [OF i(1)] by (simp add: priorCorrections_def correctionsOf_def distinct_map_filter)
  then have "settles (waivingAdj.targets ?ps) d ?d"
    using ids_ok_distinct(5) [OF i(1)] i(2) sub
    by (intro waivingAdj.loop_settles) (auto simp: adjs_distinct_def sees_adj_def intro!: distinct_ADJUSTMENT_OB)
  moreover have "\<forall>x\<in>set (waivingAdj.targets ?ps). 0 \<le> snd x"
    using waivingAdj.targets_bounds [of _ _ ?rs n] by fastforce
  ultimately have "fin_inv ?d"
    using waivingAdj.plan_frame [of ?ps d] waivingAdj.plan_entries [of ?ps d]
    by (intro fin_inv_frame_settles [OF inv, where pl = "waivingAdj.targets ?ps"])
      (simp_all add: settle_loop_plan)
  then show ?thesis
    by (auto simp: applyDownwardCorrection_def fin_inv_creditUpsert split: prod.splits)
qed

lemma applyOpeningBalanceCorrection_inv:
  assumes inv: "fin_inv d" and ok: "applyOpeningBalanceCorrection now q d = Inr (r, d')"
  shows "fin_inv d'"
proof -
  define delta where "delta = oc_targetBalance q - getUnitOpeningBalanceCorrectionTotal d (oc_unitId q)"
  obtain a d1 where a: "insertAdjustment now (correctionAdjustment q delta) d = Inr (a, d1)"
    and l: "ledgerAdjustment now (correctionAdjustment q delta) (aj_id a)
         (if delta < 0 then applyDownwardCorrection q (aj_id a) \<bar>delta\<bar> d1 else d1) = Inr d'"
    using ok unfolding delta_def
    by (auto simp: applyOpeningBalanceCorrection_def applyOpeningBalanceCorrectionBody_def
        effect_simps Let_def)
  have "fin_inv d1" using insertAdjustment_inv [OF inv a] by simp
  then have "fin_inv (if delta < 0 then applyDownwardCorrection q (aj_id a) \<bar>delta\<bar> d1 else d1)"
    by (simp add: applyDownwardCorrection_inv)
  from fin_inv_addLedger_other [OF this l [unfolded ledgerAdjustment_def]]
  show ?thesis by (simp add: fundStatementEntryTypes_def)
qed

section \<open>Expenses\<close>

lemma fin_inv_expenses:
  assumes inv: "fin_inv d" and k: "keyed (fin_ids d) (fin_next d) ex_id rows"
  shows "fin_inv (d\<lparr>expenses := rows\<rparr>)"
proof -
  let ?d = "d\<lparr>expenses := rows\<rparr>"
  have "rows_ok ?d = rows_ok d" "alloc_ok ?d = alloc_ok d" "sel_ok ?d = sel_ok d" "balance_ok ?d = balance_ok d"
    by (rule rows_ok_cong alloc_ok_cong sel_ok_cong balance_ok_cong; simp)+
  then show ?thesis using inv k by (simp add: fin_inv_def ids_ok_def credits_ok_def pay_ok_def)
qed

lemma fin_inv_take_id: "fin_inv d \<Longrightarrow> fin_inv (take_id d)"
proof -
  assume inv: "fin_inv d"
  have "rows_ok (take_id d) = rows_ok d" "alloc_ok (take_id d) = alloc_ok d" "sel_ok (take_id d) = sel_ok d"
    "balance_ok (take_id d) = balance_ok d"
    by (rule rows_ok_cong alloc_ok_cong sel_ok_cong balance_ok_cong; simp add: take_id_def)+
  with inv ids_ok_take_id [of d] show ?thesis
    by (simp add: fin_inv_def) (simp add: credits_ok_def pay_ok_def take_id_def)
qed

lemma createExpense_inv:
  assumes inv: "fin_inv d" and ok: "createExpense now q d = Inr (r, d')"
  shows "fin_inv d'"
proof -
  let ?d = "take_id (d\<lparr>expenses := expenses d @ [newExpense now (fresh_id d) q]\<rparr>)"
  have swap: "?d = take_id d\<lparr>expenses := expenses d @ [newExpense now (fresh_id d) q]\<rparr>"
    by (cases d) (simp add: take_id_def)
  obtain d1 where l: "addLedger now (xp_buildingId q) (xp_fundId q) EXPENSE DEBIT (xp_amount q) RefExpense
        (ex_id (newExpense now (fresh_id d) q)) (Some (xp_createdById q)) ?d = Inr d1"
    and f: "fundIncrement (xp_fundId q) (- xp_amount q) d1 = Inr d'"
    using ok by (auto simp: createExpense_def createExpenseBody_def transaction_Inr_iff bind_r_Inr_iff
        assert_r_Inr_iff Let_def split: option.splits)
  have "fin_inv ?d" unfolding swap
  proof (rule fin_inv_expenses [OF fin_inv_take_id [OF inv]])
    show "keyed (fin_ids (take_id d)) (fin_next (take_id d)) ex_id (expenses d @ [newExpense now (fresh_id d) q])"
      using fin_invD(1) [OF inv]
      by (auto simp: ids_ok_def take_id_def newExpense_def fresh_id_def intro!: keyed_insert)
  qed
  from fin_inv_post [OF this l f] show ?thesis by (simp add: fundStatementEntryTypes_def)
qed

lemma voidExpense_inv:
  assumes inv: "fin_inv d" and ok: "voidExpense now q d = Inr (r, d')"
  shows "fin_inv d'"
proof -
  let ?d = "d\<lparr>expenses := upd_where (\<lambda>e. ex_id e = vp_expenseId q \<and> ex_status e = POSTED)
      (markVoided now q) (expenses d)\<rparr>"
  obtain d1 where l: "addLedger now (vp_buildingId q) (vp_fundId q) EXPENSE CREDIT (vp_amount q) RefExpense
        (vp_expenseId q) (Some (vp_actorId q)) ?d = Inr d1"
    and f: "fundIncrement (vp_fundId q) (vp_amount q) d1 = Inr d'"
    using ok by (auto simp: voidExpense_def voidExpenseBody_def transaction_Inr_iff bind_r_Inr_iff
        assert_r_Inr_iff Let_def split: option.splits)
  have "fin_inv ?d"
    using fin_invD(1) [OF inv]
    by (intro fin_inv_expenses [OF inv]) (simp add: ids_ok_def markVoided_def)
  from fin_inv_post [OF this l f] show ?thesis by (simp add: fundStatementEntryTypes_def)
qed

section \<open>The machine of finance transactions\<close>

text \<open>
  One rule per transaction of the repository.  The premises are what the service
  guarantees about the parameters: reported amounts are positive
  (\<open>assertPositiveAmount\<close>), requested items are not negative (the charge policy and the
  allocation), and an approval repeats the columns of the payment row it was read from,
  which never change.
\<close>

inductive fin_step :: "fin_db \<Rightarrow> fin_db \<Rightarrow> bool" where
  createFund: "createFund now cq d = Inr (f, d') \<Longrightarrow> fin_step d d'"
| updateFund: "updateFund fid uq d = Inr (f, d') \<Longrightarrow> fin_step d d'"
| setFundActive: "setFundActive fid act d = Inr (f, d') \<Longrightarrow> fin_step d d'"
| defaultFund: "getOrCreateDefaultFund now bid d = Inr (f, d') \<Longrightarrow> fin_step d d'"
| createSeries: "createChargeSeries bid name d = Inr (s, d') \<Longrightarrow> fin_step d d'"
| createBatch: "createChargeBatch now ux bq d = Inr (b, d') \<Longrightarrow> \<forall>i\<in>set (bp_items bq). 0 \<le> snd i \<Longrightarrow>
    fin_step d d'"
| cancelBatch: "cancelChargeBatch now cbid bid d = Inr (b, d') \<Longrightarrow> fin_step d d'"
| issueBatch: "issueChargeBatch now iq d = Inr (b, d') \<Longrightarrow> fin_step d d'"
| createAdjustment: "createAdjustment now jq d = Inr (j, d') \<Longrightarrow> fin_step d d'"
| correctOpening: "applyOpeningBalanceCorrection now oq d = Inr (c, d') \<Longrightarrow> fin_step d d'"
| createPayment: "createPayment now pq d = Inr (p, d') \<Longrightarrow> 0 < cpp_amount pq \<Longrightarrow> fin_step d d'"
| createExplicit: "createExplicitPayment now eq d = Inr (p, d') \<Longrightarrow> fin_step d d'"
| reject: "rejectPayment pid reason d = Inr (p, d') \<Longrightarrow> fin_step d d'"
| approve: "approvePayment now aq d = Inr (p', d') \<Longrightarrow> findPaymentById d (ap_paymentId aq) = Some p \<Longrightarrow>
    ap_amount aq = pm_amount p \<Longrightarrow> ap_unitId aq = pm_unitId p \<Longrightarrow> ap_fundId aq = pm_fundId p \<Longrightarrow> fin_step d d'"
| reverse: "reversePayment now vq d = Inr (p, d') \<Longrightarrow> fin_step d d'"
| refund: "createRefund now rq d = Inr (r, d') \<Longrightarrow> fin_step d d'"
| createExpense: "createExpense now xq d = Inr (e, d') \<Longrightarrow> fin_step d d'"
| voidExpense: "voidExpense now wq d = Inr (e, d') \<Longrightarrow> fin_step d d'"

inductive fin_reachable :: "fin_db \<Rightarrow> bool" where
  start: "inj supply \<Longrightarrow> fin_reachable (empty_fin supply)"
| step: "fin_reachable d \<Longrightarrow> fin_step d d' \<Longrightarrow> fin_reachable d'"

lemma fin_step_inv: "fin_step d d' \<Longrightarrow> fin_inv d \<Longrightarrow> fin_inv d'"
proof (induction rule: fin_step.induct)
  case (refund now rq d r d')
  then show ?case using createRefund_fails fin_invD(5) by blast
qed (blast intro: createFund_inv updateFund_inv setFundActive_inv getOrCreateDefaultFund_inv
    createChargeSeries_inv createChargeBatch_inv cancelChargeBatch_inv issueChargeBatch_inv
    createAdjustment_inv applyOpeningBalanceCorrection_inv createPayment_inv createExplicitPayment_inv
    rejectPayment_inv approvePayment_inv reversePayment_inv createExpense_inv voidExpense_inv)+

lemma fin_reachable_inv: "fin_reachable d \<Longrightarrow> fin_inv d"
  by (induction rule: fin_reachable.induct) (auto intro: empty_fin_inv fin_step_inv)

end
