(* ===== verification/Pagination.thy ===== *)
theory Pagination
  imports Js_Number Prelude
begin

text \<open>
  Page/limit pagination (\<^verbatim>\<open>src/src/common/pagination/pagination.util.ts\<close>): reading the
  query parameters, the window a page selects, and the metadata block.  The pages a client
  can walk through are a partition of the listing.
\<close>

definition defaultPageLimit :: int where "defaultPageLimit = 20"
definition maxPageLimit :: int where "maxPageLimit = 100"

record paginationParams =
  pg_page :: int
  pg_limit :: int

record paginationMeta =
  pgm_page :: int
  pgm_limit :: int
  pgm_total :: int
  pgm_totalPages :: int

text \<open>
  The query strings arrive here as what \<open>Number(...)\<close> makes of them: a finite number,
  or nothing for NaN and the infinities, for which \<open>Number.isInteger\<close> is false.
\<close>

definition isInteger :: "rat option \<Rightarrow> bool" where
  "isInteger x = (case x of Some r \<Rightarrow> of_int \<lfloor>r\<rfloor> = r | None \<Rightarrow> False)"

definition the_int :: "rat option \<Rightarrow> int" where
  "the_int x = (case x of Some r \<Rightarrow> \<lfloor>r\<rfloor> | None \<Rightarrow> 0)"

definition parsePagination :: "rat option \<Rightarrow> rat option \<Rightarrow> paginationParams" where
  "parsePagination parsedPage parsedLimit =
     \<lparr>pg_page = (if isInteger parsedPage \<and> the_int parsedPage \<ge> 1 then the_int parsedPage else 1),
      pg_limit = (if isInteger parsedLimit \<and> the_int parsedLimit \<ge> 1
                  then min (the_int parsedLimit) maxPageLimit else defaultPageLimit)\<rparr>"

definition toSkipTake :: "paginationParams \<Rightarrow> int \<times> int" where
  "toSkipTake p = ((pg_page p - 1) * pg_limit p, pg_limit p)"

definition js_ceil :: "rat \<Rightarrow> int" where "js_ceil x = \<lceil>x\<rceil>"

definition buildPaginationMeta :: "paginationParams \<Rightarrow> int \<Rightarrow> paginationMeta" where
  "buildPaginationMeta p tot =
     \<lparr>pgm_page = pg_page p, pgm_limit = pg_limit p, pgm_total = tot,
      pgm_totalPages = max 1 (js_ceil (js_div (of_int tot) (of_int (pg_limit p))))\<rparr>"

text \<open>\<open>findMany({ skip, take })\<close> of an ordered listing.\<close>

definition window :: "int \<times> int \<Rightarrow> 'a list \<Rightarrow> 'a list" where
  "window st xs = take (nat (snd st)) (drop (nat (fst st)) xs)"

section \<open>What pagination guarantees\<close>

lemma parsePagination_bounds:
  "1 \<le> pg_page (parsePagination a b) \<and> 1 \<le> pg_limit (parsePagination a b) \<and>
    pg_limit (parsePagination a b) \<le> maxPageLimit"
  by (simp add: parsePagination_def maxPageLimit_def defaultPageLimit_def)

lemma window_length: "1 \<le> pg_limit p \<Longrightarrow> int (length (window (toSkipTake p) xs)) \<le> pg_limit p"
  by (simp add: window_def toSkipTake_def)

text \<open>The number of pages, exactly: division in floating point does not disturb it.\<close>

lemma ceil_js_div:
  assumes T: "0 \<le> T" "T < 2 ^ 53" and n: "0 < n"
  shows "js_ceil (js_div (of_int T) (of_int n)) = (T + n - 1) div n"
proof -
  let ?x = "of_int T / of_int n :: rat" and ?k = "(T + n - 1) div n"
  have x0: "0 \<le> ?x" using T n by simp
  have T': "(of_int T :: rat) < 2 ^ 53"
    using T(2) by (metis of_int_less_iff of_int_numeral of_int_power)
  have split: "T + n - 1 = ?k * n + (T + n - 1) mod n" by simp
  have mod: "0 \<le> (T + n - 1) mod n" "(T + n - 1) mod n < n" using n by simp_all
  have "(?k - 1) * n = ?k * n - n" by (simp add: left_diff_distrib)
  then have b: "T \<le> ?k * n" "(?k - 1) * n + 1 \<le> T" using split mod by linarith+
  have "(of_int T :: rat) \<le> of_int (?k * n)" using b(1) by (simp only: of_int_le_iff)
  then have up: "?x \<le> of_int ?k" using n by (simp add: field_simps)
  have "(of_int ((?k - 1) * n + 1) :: rat) \<le> of_int T" using b(2) by (simp only: of_int_le_iff)
  then have "((of_int ?k - 1) * of_int n + 1) / of_int n \<le> ?x"
    using n by (intro divide_right_mono) simp_all
  moreover have "((of_int ?k - 1) * of_int n + 1) / of_int n = of_int ?k - 1 + 1 / (of_int n :: rat)"
    using n by (simp add: add_divide_distrib)
  ultimately have lo: "of_int ?k - 1 + 1 / of_int n \<le> ?x" by simp
  have "0 \<le> ?k" using T n by (simp add: pos_imp_zdiv_nonneg_iff)
  have "?k \<le> T"
  proof -
    have "T * 1 \<le> T * n" using T n by (intro mult_left_mono) auto
    moreover have "(T + 1) * n = T * n + n" by (simp add: distrib_right)
    moreover have "T + 1 \<le> ?k \<Longrightarrow> (T + 1) * n \<le> ?k * n" using n by (intro mult_right_mono) auto
    ultimately show ?thesis using split mod by linarith
  qed
  have "fl ?x \<le> of_int ?k"
  proof -
    have "fl ?x \<le> fl (of_int ?k)" using x0 up by (rule fl_mono)
    also have "\<dots> = of_int ?k" using \<open>0 \<le> ?k\<close> \<open>?k \<le> T\<close> T by (intro fl_of_int) auto
    finally show ?thesis .
  qed
  moreover have "of_int ?k - 1 < fl ?x"
  proof -
    have "?x - ulp * ?x \<le> fl ?x" using fl_bounds(1) [OF x0] by (simp only: left_diff_distrib mult_1_left)
    moreover have "ulp * ?x < 1 / of_int n" using T' n by (simp add: ulp_def field_simps)
    ultimately show ?thesis using lo by linarith
  qed
  ultimately show ?thesis by (simp add: js_ceil_def js_div_def ceiling_eq_iff)
qed

text \<open>Walking through the pages visits every row once, in order.\<close>

lemma windows_concat:
  "0 < l \<Longrightarrow> concat (map (\<lambda>k. take l (drop (k * l) xs)) [0..<m]) = take (m * l) xs"
proof (induction m)
  case (Suc m)
  then show ?case by (simp add: take_add [symmetric] add.commute)
qed simp

definition pageNumbers :: "int \<Rightarrow> int list" where
  "pageNumbers n = map (\<lambda>k. int k + 1) [0..<nat n]"

lemma pages_partition:
  assumes l: "1 \<le> l" and len: "length xs < 2 ^ 53"
  shows "concat (map (\<lambda>k. window (toSkipTake \<lparr>pg_page = k, pg_limit = l\<rparr>) xs)
      (pageNumbers (pgm_totalPages (buildPaginationMeta \<lparr>pg_page = 1, pg_limit = l\<rparr> (int (length xs)))))) = xs"
proof -
  let ?T = "int (length xs)"
  let ?m = "max 1 ((?T + l - 1) div l)"
  have "int (length xs) < int (2 ^ 53)" using len by (simp only: of_nat_less_iff)
  then have "?T < 2 ^ 53" by simp
  then have m: "pgm_totalPages (buildPaginationMeta \<lparr>pg_page = 1, pg_limit = l\<rparr> ?T) = ?m"
    using ceil_js_div [of ?T l] l by (simp add: buildPaginationMeta_def)
  have w: "window (toSkipTake \<lparr>pg_page = int k + 1, pg_limit = l\<rparr>) xs = take (nat l) (drop (k * nat l) xs)" for k
  proof -
    have "nat (int k * l) = k * nat l" using l by (simp add: nat_mult_distrib)
    then show ?thesis by (simp add: window_def toSkipTake_def)
  qed
  have "concat (map (\<lambda>k. window (toSkipTake \<lparr>pg_page = k, pg_limit = l\<rparr>) xs) (pageNumbers ?m)) =
      concat (map (\<lambda>k. take (nat l) (drop (k * nat l) xs)) [0..<nat ?m])"
    by (simp add: pageNumbers_def comp_def w)
  also have "\<dots> = take (nat ?m * nat l) xs" using l by (intro windows_concat) simp
  also have "\<dots> = xs"
  proof (rule take_all)
    have d: "?T + l - 1 = (?T + l - 1) div l * l + (?T + l - 1) mod l" by simp
    have "(?T + l - 1) mod l < l" using l by simp
    then have "?T \<le> (?T + l - 1) div l * l" using d by linarith
    also have "\<dots> \<le> ?m * l" using l by (intro mult_right_mono) auto
    finally have "?T \<le> ?m * l" .
    moreover have "int (nat ?m * nat l) = ?m * l" using l by simp
    ultimately show "length xs \<le> nat ?m * nat l" by linarith
  qed
  finally show ?thesis by (simp only: m)
qed

end
