(* ===== verification/Finance_Reads.thy ===== *)
theory Finance_Reads
  imports Charge_Inv Pagination
begin

text \<open>
  The read side of \<open>FinanceRepository\<close>: paginated lists, what the resident may select,
  the building's debt summaries, the fund statement and the reports.  Where the database
  leaves the order of rows with equal keys open, the model keeps insertion order.
\<close>

section \<open>Lists\<close>

text \<open>\<open>{ items, total }\<close> of a listing that is already filtered and ordered.\<close>

definition paged :: "int \<times> int \<Rightarrow> 'r list \<Rightarrow> 'r list \<times> int" where
  "paged st rows = (window st rows, int (length rows))"

definition newest_first :: "('r \<Rightarrow> time) \<Rightarrow> 'r list \<Rightarrow> 'r list" where
  "newest_first created rows = sort_key (\<lambda>r. - created r) rows"

definition listFunds :: "fin_db \<Rightarrow> id \<Rightarrow> int \<times> int \<Rightarrow> fund list \<times> int" where
  "listFunds d bid st = paged st (sort_key fd_createdAt (filter (\<lambda>f. fd_buildingId f = bid) (funds d)))"

definition listChargeBatches :: "fin_db \<Rightarrow> id \<Rightarrow> int \<times> int \<Rightarrow> chargeBatch list \<times> int" where
  "listChargeBatches d bid st =
     paged st (newest_first cb_createdAt (filter (\<lambda>b. cb_buildingId b = bid) (batches d)))"

definition listChargeItemsByUnit :: "fin_db \<Rightarrow> id \<Rightarrow> int \<times> int \<Rightarrow> chargeItem list \<times> int" where
  "listChargeItemsByUnit d uid st =
     paged st (newest_first ci_createdAt (filter (\<lambda>i. ci_unitId i = uid) (items d)))"

definition listAdjustmentsByUnit :: "fin_db \<Rightarrow> id \<Rightarrow> int \<times> int \<Rightarrow> adjustment list \<times> int" where
  "listAdjustmentsByUnit d uid st =
     paged st (newest_first aj_createdAt (filter (\<lambda>a. aj_unitId a = uid) (adjustments d)))"

definition listPayments :: "fin_db \<Rightarrow> id \<Rightarrow> int \<times> int \<Rightarrow> paymentStatus option \<Rightarrow> payment list \<times> int" where
  "listPayments d bid st status =
     paged st (newest_first pm_createdAt
       (filter (\<lambda>p. pm_buildingId p = bid \<and> (status = None \<or> Some (pm_status p) = status)) (payments d)))"

definition listPaymentsByUnit :: "fin_db \<Rightarrow> id \<Rightarrow> int \<times> int \<Rightarrow> payment list \<times> int" where
  "listPaymentsByUnit d uid st =
     paged st (newest_first pm_createdAt (filter (\<lambda>p. pm_unitId p = uid) (payments d)))"

definition findRefundsByPayment :: "fin_db \<Rightarrow> id \<Rightarrow> refund list" where
  "findRefundsByPayment d pid = newest_first rf_createdAt (filter (\<lambda>r. rf_paymentId r = pid) (refunds d))"

definition listRefundsByPayment :: "fin_db \<Rightarrow> id \<Rightarrow> int \<times> int \<Rightarrow> refund list \<times> int" where
  "listRefundsByPayment d pid st = paged st (findRefundsByPayment d pid)"

record expenseFilters =
  xf_fundId :: "id option"
  xf_category :: "expenseCategory option"
  xf_status :: "expenseStatus option"
  xf_fromDate :: "time option"
  xf_toDate :: "time option"

definition in_window :: "time option \<Rightarrow> time option \<Rightarrow> time \<Rightarrow> bool" where
  "in_window fromDate toDate t \<longleftrightarrow>
     (case fromDate of Some a \<Rightarrow> a \<le> t | None \<Rightarrow> True) \<and> (case toDate of Some b \<Rightarrow> t \<le> b | None \<Rightarrow> True)"

definition listExpenses :: "fin_db \<Rightarrow> id \<Rightarrow> int \<times> int \<Rightarrow> expenseFilters \<Rightarrow> expense list \<times> int" where
  "listExpenses d bid st q =
     paged st (newest_first ex_occurredAt
       (filter (\<lambda>e. ex_buildingId e = bid \<and>
          (falsy_str (xf_fundId q) \<or> Some (ex_fundId e) = xf_fundId q) \<and>
          (xf_category q = None \<or> Some (ex_category e) = xf_category q) \<and>
          ex_status e = (case xf_status q of Some s \<Rightarrow> s | None \<Rightarrow> POSTED) \<and>
          in_window (xf_fromDate q) (xf_toDate q) (ex_occurredAt e)) (expenses d)))"

definition listLedger :: "fin_db \<Rightarrow> id \<Rightarrow> id option \<Rightarrow> int \<times> int \<Rightarrow> ledgerEntry list \<times> int" where
  "listLedger d bid fid st =
     paged st (newest_first le_createdAt
       (filter (\<lambda>l. le_buildingId l = bid \<and> (falsy_str fid \<or> Some (le_fundId l) = fid)) (ledger d)))"

text \<open>
  The statement's order is creation time, then identifier, both descending; identifiers
  are strings, compared here by the database's rank of them.
\<close>

definition getFundStatement ::
  "(id \<Rightarrow> nat) \<Rightarrow> fin_db \<Rightarrow> id \<Rightarrow> id \<Rightarrow> int \<times> int \<Rightarrow> ledgerEntry list \<times> int \<times> expense list" where
  "getFundStatement idRank d bid fid st =
     (let rows = sort_key (\<lambda>l. (- le_createdAt l, - int (idRank (le_id l))))
            (filter (\<lambda>l. le_buildingId l = bid \<and> le_fundId l = fid \<and>
               le_entryType l \<in> set fundStatementEntryTypes) (ledger d));
          page = window st rows;
          expenseIds = remdups (map le_referenceId (filter (\<lambda>l. le_entryType l = EXPENSE) page))
      in (page, int (length rows), filter (\<lambda>e. ex_id e \<in> set expenseIds) (expenses d)))"

definition listChargeSeries :: "(string \<Rightarrow> nat) \<Rightarrow> fin_db \<Rightarrow> id \<Rightarrow> chargeSeries list" where
  "listChargeSeries nameRank d bid =
     sort_key (\<lambda>s. nameRank (cs_name s)) (filter (\<lambda>s. cs_buildingId s = bid \<and> cs_isActive s) (seriesRows d))"

section \<open>Late fees\<close>

text \<open>The same selection as the unit's unpaid items; only the projection differs.\<close>

definition listLateFeeEligibleCandidates :: "fin_db \<Rightarrow> id \<Rightarrow> chargeItem list" where
  "listLateFeeEligibleCandidates d uid =
     filter (\<lambda>i. ci_unitId i = uid \<and> ci_status i \<noteq> PAID \<and> collectable d i) (items d)"

definition findAppliedLateFeeChargeItemIds :: "fin_db \<Rightarrow> id list \<Rightarrow> id set" where
  "findAppliedLateFeeChargeItemIds d ids =
     (if ids = [] then {}
      else set (concat (map (\<lambda>a. case aj_sourceId a of Some s \<Rightarrow> [s] | None \<Rightarrow> [])
             (filter (\<lambda>a. aj_sourceType a = Some LATE_FEE \<and> (\<exists>i\<in>set ids. aj_sourceId a = Some i))
               (adjustments d)))))"

definition findAdjustmentBySource :: "fin_db \<Rightarrow> adjustmentSource \<Rightarrow> id \<Rightarrow> adjustment option" where
  "findAdjustmentBySource d ty sid =
     find (\<lambda>a. aj_sourceType a = Some ty \<and> aj_sourceId a = Some sid) (adjustments d)"

section \<open>What a resident may select\<close>

datatype unselectableReason = PENDING_RESERVATION | OLDER_MONTHLY_OBLIGATION_REQUIRED

record selectableRow =
  sr_obligation :: obligation
  sr_title :: string
  sr_originalAmount :: money
  sr_remainingPayable :: money
  sr_selectable :: bool
  sr_unselectableReason :: "unselectableReason option"
  sr_blockedBy :: "obligation option"

definition batchOf :: "fin_db \<Rightarrow> chargeItem \<Rightarrow> chargeBatch option" where
  "batchOf d i = findChargeBatchById d (ci_chargeBatchId i)"

text \<open>The series of a monthly item, when it has one (an empty string counts as none).\<close>

definition monthlySeries :: "fin_db \<Rightarrow> chargeItem \<Rightarrow> id option" where
  "monthlySeries d i =
     (case batchOf d i of
        Some b \<Rightarrow> (if cb_kind b = Some MONTHLY \<and> \<not> falsy_str (cb_seriesId b) then cb_seriesId b else None)
      | None \<Rightarrow> None)"

definition selectableItems :: "fin_db \<Rightarrow> id \<Rightarrow> chargeItem list" where
  "selectableItems d uid =
     sort_key (\<lambda>i. case Option.bind (batchOf d i) cb_periodStart of
                     Some t \<Rightarrow> (0::nat, t, ci_createdAt i) | None \<Rightarrow> (1, 0, ci_createdAt i))
       (unpaidItems d uid)"

text \<open>
  One pass: the predecessor of an outstanding monthly item is the last outstanding one of
  its series before it.
\<close>

fun predecessors ::
  "fin_db \<Rightarrow> chargeItem list \<Rightarrow> (id \<rightharpoonup> id) \<Rightarrow> (id \<rightharpoonup> id) \<Rightarrow> (id \<rightharpoonup> id)" where
  "predecessors d [] latest pred = pred"
| "predecessors d (i # is) latest pred =
     (case monthlySeries d i of
        Some s \<Rightarrow>
          if itemOutstanding i > 0
          then predecessors d is (latest(s \<mapsto> ci_id i))
                 (case latest s of Some p \<Rightarrow> pred(ci_id i \<mapsto> p) | None \<Rightarrow> pred)
          else predecessors d is latest pred
      | None \<Rightarrow> predecessors d is latest pred)"

definition selectableItemRow :: "fin_db \<Rightarrow> (id \<rightharpoonup> id) \<Rightarrow> chargeItem \<Rightarrow> selectableRow" where
  "selectableItemRow d pred i =
     (let reserved = (activeFor d (CHARGE_ITEM (ci_id i)) \<noteq> []);
          reason = (if reserved then Some PENDING_RESERVATION
                    else if pred (ci_id i) \<noteq> None then Some OLDER_MONTHLY_OBLIGATION_REQUIRED else None)
      in \<lparr>sr_obligation = CHARGE_ITEM (ci_id i),
          sr_title = (case batchOf d i of Some b \<Rightarrow> cb_title b | None \<Rightarrow> []),
          sr_originalAmount = ci_amount i, sr_remainingPayable = itemOutstanding i,
          sr_selectable = (reason = None), sr_unselectableReason = reason,
          sr_blockedBy = (if reserved then None else map_option CHARGE_ITEM (pred (ci_id i)))\<rparr>)"

definition selectableAdjRow :: "fin_db \<Rightarrow> adjustment \<Rightarrow> selectableRow" where
  "selectableAdjRow d a =
     (let reserved = (activeFor d (ADJUSTMENT_OB (aj_id a)) \<noteq> [])
      in \<lparr>sr_obligation = ADJUSTMENT_OB (aj_id a), sr_title = aj_reason a,
          sr_originalAmount = aj_amount a, sr_remainingPayable = adjOutstanding a,
          sr_selectable = (\<not> reserved),
          sr_unselectableReason = (if reserved then Some PENDING_RESERVATION else None),
          sr_blockedBy = None\<rparr>)"

definition listSelectableObligations :: "fin_db \<Rightarrow> id \<Rightarrow> selectableRow list" where
  "listSelectableObligations d uid =
     (let its = selectableItems d uid; pred = predecessors d its Map.empty Map.empty
      in filter (\<lambda>r. sr_remainingPayable r > 0) (map (selectableItemRow d pred) its) @
         filter (\<lambda>r. sr_remainingPayable r > 0)
           (map (selectableAdjRow d) (sort_key aj_createdAt (positiveAdjustments d uid))))"

section \<open>Debt summaries\<close>

text \<open>
  One page of units, four queries over all of them, grouped by unit: the result is the
  single-unit snapshot of each.
\<close>

definition batchedRemaining :: "fin_db \<Rightarrow> id list \<Rightarrow> id \<Rightarrow> money" where
  "batchedRemaining d unitIds uid =
     (let chargeItems = filter (\<lambda>i. ci_unitId i \<in> set unitIds \<and> ci_status i \<noteq> PAID \<and> collectable d i) (items d);
          adjs = filter (\<lambda>a. aj_unitId a \<in> set unitIds \<and> 0 < aj_amount a) (adjustments d);
          creditRows = filter (\<lambda>c. cr_unitId c \<in> set unitIds) (credits d);
          pend = filter (\<lambda>p. pm_unitId p \<in> set unitIds \<and> pm_status p = PENDING_APPROVAL) (payments d)
      in remainingPayable (buildDebtSnapshot
           (filter (\<lambda>i. ci_unitId i = uid) chargeItems) (filter (\<lambda>a. aj_unitId a = uid) adjs)
           (case find_row cr_unitId uid creditRows of Some c \<Rightarrow> cr_balance c | None \<Rightarrow> 0)
           (filter (\<lambda>p. pm_unitId p = uid) pend)))"

definition listUnitDebtSummaries ::
  "fin_db \<Rightarrow> bld_db \<Rightarrow> id \<Rightarrow> int \<times> int \<Rightarrow> (id \<times> money) list \<times> int" where
  "listUnitDebtSummaries d b bid st =
     (let us = listUnits b bid; unitIds = map u_id (window st us)
      in (if unitIds = [] then [] else map (\<lambda>uid. (uid, batchedRemaining d unitIds uid)) unitIds,
          int (length us)))"

lemma find_row_filter: "find_row key k (filter (\<lambda>r. key r \<in> S) rows) = (if k \<in> S then find_row key k rows else None)"
  by (induction rows) (auto simp: find_row_def)

lemma batchedRemaining_eq:
  assumes "uid \<in> set unitIds"
  shows "batchedRemaining d unitIds uid = remainingPayable (computeDebtSnapshot d uid)"
proof -
  have f: "filter (\<lambda>x. u x = uid) (filter (\<lambda>x. u x \<in> set unitIds \<and> P x) xs) = filter (\<lambda>x. u x = uid \<and> P x) xs"
    for u P and xs :: "'b list"
    using assms by (auto intro!: filter_cong)
  show ?thesis
    unfolding batchedRemaining_def Let_def f find_row_filter computeDebtSnapshot_def unpaidItems_def
      positiveAdjustments_def pendingPayments_def creditOf_def
    using assms by simp
qed

text \<open>The batched listing agrees with the single-unit computation.\<close>

lemma listUnitDebtSummaries_eq:
  "fst (listUnitDebtSummaries d b bid st) =
     map (\<lambda>u. (u_id u, remainingPayable (computeDebtSnapshot d (u_id u)))) (window st (listUnits b bid))"
  by (auto simp: listUnitDebtSummaries_def Let_def batchedRemaining_eq)

section \<open>Reports\<close>

record financialSummary =
  fs_funds :: "fund list"
  fs_totalOutstanding :: money
  fs_totalCollected :: money
  fs_totalExpenses :: money
  fs_chargeBatchCount :: nat

definition getFinancialSummary :: "fin_db \<Rightarrow> id \<Rightarrow> financialSummary" where
  "getFinancialSummary d bid =
     (let outstandingRows = filter (\<lambda>i. (case batchOf d i of
             Some b \<Rightarrow> cb_buildingId b = bid \<and> (cb_status b = ISSUED \<or> cb_status b = CLOSED) | None \<Rightarrow> False) \<and>
             ci_status i \<noteq> PAID) (items d);
          positive = sum_of aj_amount (filter (\<lambda>a. aj_buildingId a = bid \<and> 0 < aj_amount a) (adjustments d));
          collected = sum_of pm_amount (filter (\<lambda>p. pm_buildingId p = bid \<and> pm_status p = APPROVED) (payments d));
          refunded = sum_of rf_amount (filter (\<lambda>r. rf_buildingId r = bid \<and>
             (case findPaymentById d (rf_paymentId r) of Some p \<Rightarrow> pm_status p = APPROVED | None \<Rightarrow> False)) (refunds d))
      in \<lparr>fs_funds = filter (\<lambda>f. fd_buildingId f = bid) (funds d),
          fs_totalOutstanding = sum_of (\<lambda>i. ci_amount i - ci_paidAmount i) outstandingRows + positive,
          fs_totalCollected = collected - refunded,
          fs_totalExpenses = sum_of ex_amount (filter (\<lambda>e. ex_buildingId e = bid \<and> ex_status e = POSTED) (expenses d)),
          fs_chargeBatchCount = count_where (\<lambda>b. cb_buildingId b = bid) (batches d)\<rparr>)"

text \<open>The items billed in a building and time window.\<close>

definition billedItems :: "fin_db \<Rightarrow> id \<Rightarrow> time option \<Rightarrow> time option \<Rightarrow> chargeItem list" where
  "billedItems d bid fromDate toDate =
     filter (\<lambda>i. (case batchOf d i of Some b \<Rightarrow> cb_buildingId b = bid | None \<Rightarrow> False) \<and>
       in_window fromDate toDate (ci_createdAt i)) (items d)"

record rateReport =
  rr_totalBilled :: money
  rr_numerator :: money
  rr_rate :: "rat option"

definition rateOf :: "money \<Rightarrow> money \<Rightarrow> rat option" where
  "rateOf num billed = (if billed > 0 then Some (js_div (of_int num) (of_int billed)) else None)"

definition getCollectionRate :: "fin_db \<Rightarrow> id \<Rightarrow> time option \<Rightarrow> time option \<Rightarrow> rateReport" where
  "getCollectionRate d bid fromDate toDate =
     (let rows = billedItems d bid fromDate toDate;
          totalBilled = sum_of ci_amount rows; totalCollected = sum_of ci_paidAmount rows
      in \<lparr>rr_totalBilled = totalBilled, rr_numerator = totalCollected, rr_rate = rateOf totalCollected totalBilled\<rparr>)"

definition getPaymentRegistrationRate :: "fin_db \<Rightarrow> id \<Rightarrow> time option \<Rightarrow> time option \<Rightarrow> rateReport" where
  "getPaymentRegistrationRate d bid fromDate toDate =
     (let totalBilled = sum_of ci_amount (billedItems d bid fromDate toDate);
          totalRegistered = sum_of pm_amount
            (filter (\<lambda>p. pm_buildingId p = bid \<and> in_window fromDate toDate (pm_createdAt p)) (payments d))
      in \<lparr>rr_totalBilled = totalBilled, rr_numerator = totalRegistered,
          rr_rate = rateOf totalRegistered totalBilled\<rparr>)"

text \<open>A building never collects more than it billed.\<close>

lemma sum_of_mono: "(\<And>x. x \<in> set xs \<Longrightarrow> f x \<le> g x) \<Longrightarrow> sum_of f xs \<le> sum_of g xs"
  by (induction xs) (auto intro: add_mono)

lemma collectionRate_bounds:
  assumes "fin_inv d" "rr_totalBilled (getCollectionRate d bid a b) \<le> 2 ^ 53"
  shows "0 \<le> rr_numerator (getCollectionRate d bid a b) \<and>
    rr_numerator (getCollectionRate d bid a b) \<le> rr_totalBilled (getCollectionRate d bid a b) \<and>
    (\<forall>r. rr_rate (getCollectionRate d bid a b) = Some r \<longrightarrow> 0 \<le> r \<and> r \<le> 1)"
proof -
  let ?rows = "billedItems d bid a b"
  let ?T = "sum_of ci_amount ?rows" and ?C = "sum_of ci_paidAmount ?rows"
  have ok: "0 \<le> ci_paidAmount i \<and> ci_paidAmount i \<le> ci_amount i" if "i \<in> set ?rows" for i
    using that fin_invD(2) [OF assms(1)] by (auto simp: billedItems_def rows_ok_def item_ok_def)
  have c: "0 \<le> ?C" "?C \<le> ?T" using ok by (auto intro: sum_of_nonneg sum_of_mono)
  have "0 \<le> js_div (of_int ?C) (of_int ?T) \<and> js_div (of_int ?C) (of_int ?T) \<le> 1" if "0 < ?T"
  proof -
    have x: "0 \<le> (of_int ?C / of_int ?T :: rat)" "of_int ?C / of_int ?T \<le> (1 :: rat)"
      using c that by (auto simp: divide_le_eq_1)
    have "fl (of_int ?C / of_int ?T) \<le> fl 1" by (rule fl_mono [OF x])
    moreover have "fl 1 = 1" using fl_of_int [of 1] by simp
    ultimately show ?thesis using fl_nonneg [OF x(1)] by (simp add: js_div_def)
  qed
  then show ?thesis using c by (auto simp: getCollectionRate_def Let_def rateOf_def)
qed

section \<open>Statement rows\<close>

datatype descriptionCode =
  DC_OPENING_BALANCE | DC_UNIT_CHARGE_PAYMENT | DC_EXPENSE_VOID | DC_PAYMENT_REFUND | DC_PAYMENT_REVERSAL

record statementRow =
  st_id :: id
  st_occurredAt :: time
  st_direction :: ledgerDirection
  st_amount :: money
  st_type :: ledgerEntryType
  st_descriptionCode :: "descriptionCode option"
  st_description :: "string option"

definition projectStatementRow :: "ledgerEntry \<Rightarrow> (id \<rightharpoonup> expense) \<Rightarrow> statementRow" where
  "projectStatementRow entry expenseById =
     (let row = (\<lambda>t code desc. \<lparr>st_id = le_id entry, st_occurredAt = t, st_direction = le_direction entry,
            st_amount = le_amount entry, st_type = le_entryType entry, st_descriptionCode = code,
            st_description = desc\<rparr>);
          e = expenseById (le_referenceId entry)
      in case (le_entryType entry, le_direction entry) of
           (OPENING_BALANCE, CREDIT) \<Rightarrow> row (le_createdAt entry) (Some DC_OPENING_BALANCE) None
         | (PAYMENT, CREDIT) \<Rightarrow> row (le_createdAt entry) (Some DC_UNIT_CHARGE_PAYMENT) None
         | (EXPENSE, DEBIT) \<Rightarrow>
             row (case e of Some x \<Rightarrow> ex_occurredAt x | None \<Rightarrow> le_createdAt entry) None (map_option ex_title e)
         | (EXPENSE, CREDIT) \<Rightarrow> row (le_createdAt entry) (Some DC_EXPENSE_VOID) (map_option ex_title e)
         | (REFUND, DEBIT) \<Rightarrow> row (le_createdAt entry) (Some DC_PAYMENT_REFUND) None
         | (REVERSAL, DEBIT) \<Rightarrow> row (le_createdAt entry) (Some DC_PAYMENT_REVERSAL) None
         | _ \<Rightarrow> row (le_createdAt entry) None None)"

end
