(* ===== verification/Finance_Service.thy ===== *)
theory Finance_Service
  imports Finance_Reads
begin

text \<open>
  \<open>FinanceService\<close> (\<^verbatim>\<open>src/src/modules/finance/application/finance.service.ts\<close>): each public
  method over the world it acts on (the finance tables, the building tables it reads, the
  audit log and the emitted domain events).  A method is a \<open>svc\<close>: what an earlier step
  committed stays when a later one throws, as a default fund created on the way to a
  rejected payment does.  \<open>now\<close> stands for every \<open>new Date()\<close> of one call.  Request
  identifiers and free-form audit metadata, which no modelled code reads, are left out.
\<close>

section \<open>The world\<close>

datatype domainEvent =
    ChargeBatchIssuedEvent id id money id
  | ChargeBatchCancelledEvent id id id
  | PaymentApprovedEvent id id id money id id
  | PaymentRejectedEvent id id id id
  | PaymentReversedEvent id id id money id
  | PaymentRefundedEvent id id id money id bool
  | AdjustmentCreatedEvent id id id money id
  | ExpenseCreatedEvent id id id money id
  | ExpenseVoidedEvent id id id money id

record auditRow =
  au_actorId :: id
  au_buildingId :: id
  au_action :: msg
  au_entityId :: id
  au_reason :: "string option"

record world =
  w_fin :: fin_db
  w_bld :: bld_db
  w_audit :: "auditRow list"
  w_events :: "domainEvent list"

type_synonym 'a call = "(world, 'a) svc"

definition fin_tx :: "(fin_db, 'a) tx \<Rightarrow> 'a call" where
  "fin_tx t w = (case t (w_fin w) of Inl e \<Rightarrow> (Inl e, w) | Inr (a, d) \<Rightarrow> (Inr a, w\<lparr>w_fin := d\<rparr>))"

definition check :: "'a result \<Rightarrow> 'a call" where
  "check r w = (r, w)"

definition ask :: "(world \<Rightarrow> 'a) \<Rightarrow> 'a call" where
  "ask f w = (Inr (f w), w)"

definition audit :: "id \<Rightarrow> id \<Rightarrow> msg \<Rightarrow> id \<Rightarrow> string option \<Rightarrow> unit call" where
  "audit actor bid action entity reason w =
     (Inr (), w\<lparr>w_audit := w_audit w @ [\<lparr>au_actorId = actor, au_buildingId = bid, au_action = action,
        au_entityId = entity, au_reason = reason\<rparr>]\<rparr>)"

definition emit :: "domainEvent \<Rightarrow> unit call" where
  "emit e w = (Inr (), w\<lparr>w_events := w_events w @ [e]\<rparr>)"

definition catch_p2002 :: "'a call \<Rightarrow> 'a call \<Rightarrow> 'a call" where
  "catch_p2002 m h w = (case m w of (Inl e, w') \<Rightarrow> if e = PrismaError STR ''P2002'' then h w' else (Inl e, w')
     | (Inr a, w') \<Rightarrow> (Inr a, w'))"

section \<open>Guards\<close>

definition getBuilding :: "id \<Rightarrow> building call" where
  "getBuilding bid w = (case findBuildingById (w_bld w) bid of
     Some b \<Rightarrow> (Inr b, w) | None \<Rightarrow> (Inl (NotFoundAppError STR ''Building not found.''), w))"

definition getOwnUnit :: "id \<Rightarrow> id \<Rightarrow> unit_row call" where
  "getOwnUnit bid uid w = (case findUnitById (w_bld w) uid of
     Some u \<Rightarrow> if u_buildingId u = bid then (Inr u, w) else (Inl (NotFoundAppError STR ''Unit not found.''), w)
   | None \<Rightarrow> (Inl (NotFoundAppError STR ''Unit not found.''), w))"

text \<open>The shape shared by the lookups that hide rows of other buildings.\<close>

definition own :: "('r \<Rightarrow> id) \<Rightarrow> msg \<Rightarrow> id \<Rightarrow> 'r option \<Rightarrow> 'r result" where
  "own buildingOf message bid x = (case x of
     Some r \<Rightarrow> if buildingOf r = bid then Inr r else Inl (NotFoundAppError message)
   | None \<Rightarrow> Inl (NotFoundAppError message))"

definition getFund :: "id \<Rightarrow> id \<Rightarrow> fund call" where
  "getFund bid fid = lift_svc (\<lambda>w. own fd_buildingId STR ''Fund not found.'' bid (findFundById (w_fin w) fid))"

definition getChargeBatch :: "id \<Rightarrow> id \<Rightarrow> chargeBatch call" where
  "getChargeBatch bid cbid =
     lift_svc (\<lambda>w. own cb_buildingId STR ''Charge batch not found.'' bid (findChargeBatchById (w_fin w) cbid))"

definition getOwnPayment :: "id \<Rightarrow> id \<Rightarrow> payment call" where
  "getOwnPayment bid pid =
     lift_svc (\<lambda>w. own pm_buildingId STR ''Payment not found.'' bid (findPaymentById (w_fin w) pid))"

definition getOwnExpense :: "id \<Rightarrow> id \<Rightarrow> expense call" where
  "getOwnExpense bid eid =
     lift_svc (\<lambda>w. own ex_buildingId STR ''Expense not found.'' bid (findExpenseById (w_fin w) eid))"

definition resolveFundForWrite :: "time \<Rightarrow> id \<Rightarrow> id option \<Rightarrow> fund call" where
  "resolveFundForWrite now bid fid =
     bind_svc (if falsy_str fid then bind_svc (fin_tx (getOrCreateDefaultFund now bid)) (\<lambda>f. return_svc (Some f))
               else ask (\<lambda>w. findFundById (w_fin w) (the fid))) (\<lambda>fo.
     bind_svc (check (own fd_buildingId STR ''Fund not found.'' bid fo)) (\<lambda>f.
     bind_svc (check (assertActive (fd_isActive f))) (\<lambda>_.
     return_svc f)))"

section \<open>Funds\<close>

definition svc_createFund :: "time \<Rightarrow> id \<Rightarrow> createFundParams \<Rightarrow> id \<Rightarrow> fund call" where
  "svc_createFund now bid dto actor =
     bind_svc (getBuilding bid) (\<lambda>_.
     bind_svc (fin_tx (createFund now (dto\<lparr>cf_buildingId := bid, cf_isDefault := None, cf_actorId := Some actor\<rparr>))) (\<lambda>f.
     bind_svc (audit actor bid STR ''FundCreated'' (fd_id f) None) (\<lambda>_.
     return_svc f)))"

definition svc_updateFund :: "id \<Rightarrow> id \<Rightarrow> updateFundParams \<Rightarrow> id \<Rightarrow> fund call" where
  "svc_updateFund bid fid dto actor =
     bind_svc (getFund bid fid) (\<lambda>existing.
     bind_svc (check (assertActive (fd_isActive existing))) (\<lambda>_.
     bind_svc (fin_tx (updateFund fid dto)) (\<lambda>f.
     bind_svc (audit actor bid STR ''FundUpdated'' fid None) (\<lambda>_.
     return_svc f))))"

definition deactivateFund :: "id \<Rightarrow> id \<Rightarrow> id \<Rightarrow> fund call" where
  "deactivateFund bid fid actor =
     bind_svc (getFund bid fid) (\<lambda>existing.
     bind_svc (check (assertDeactivatable (fd_isDefault existing))) (\<lambda>_.
     bind_svc (fin_tx (setFundActive fid False)) (\<lambda>f.
     bind_svc (audit actor bid STR ''FundDeactivated'' fid None) (\<lambda>_.
     return_svc f))))"

definition reactivateFund :: "id \<Rightarrow> id \<Rightarrow> id \<Rightarrow> fund call" where
  "reactivateFund bid fid actor =
     bind_svc (getFund bid fid) (\<lambda>_.
     bind_svc (fin_tx (setFundActive fid True)) (\<lambda>f.
     bind_svc (audit actor bid STR ''FundReactivated'' fid None) (\<lambda>_.
     return_svc f)))"

section \<open>Resolving a charge request\<close>

definition resolveChargeClassification :: "id \<Rightarrow> createChargeBatchDto \<Rightarrow> chargeSeries option call" where
  "resolveChargeClassification bid dto =
     bind_svc (check (assertValidClassification dto)) (\<lambda>_.
     if dto_chargeKind dto \<noteq> Some MONTHLY then return_svc None
     else bind_svc (lift_svc (\<lambda>w. own cs_buildingId STR ''Charge series not found.'' bid
              (Option.bind (dto_seriesId dto) (findChargeSeriesById (w_fin w))))) (\<lambda>s.
          if \<not> cs_isActive s
          then throw_svc (BusinessRuleViolationError STR ''An inactive charge series cannot receive new charges.'')
          else return_svc (Some s)))"

datatype chargeMode = PREVIEW | CREATE

text \<open>An explicitly named fund: it exists in the building and is active.\<close>

definition explicitFund :: "id \<Rightarrow> id \<Rightarrow> fund call" where
  "explicitFund bid fid =
     bind_svc (getFund bid fid) (\<lambda>f. bind_svc (check (assertActive (fd_isActive f))) (\<lambda>_. return_svc f))"

definition compatibleFunds :: "fin_db \<Rightarrow> id \<Rightarrow> chargeKind \<Rightarrow> fund list" where
  "compatibleFunds d bid k = filter (\<lambda>f. isFundCompatible k (fd_type f)) (listActiveChargeOptionFunds d bid)"

text \<open>The fund and \<open>willCreateDefaultFund\<close>.\<close>

definition resolveChargeFund ::
  "time \<Rightarrow> id \<Rightarrow> createChargeBatchDto \<Rightarrow> chargeMode \<Rightarrow> (fund option \<times> bool) call" where
  "resolveChargeFund now bid dto mode =
     (case dto_chargeKind dto of
        None \<Rightarrow>
          (case mode of
             CREATE \<Rightarrow> bind_svc (resolveFundForWrite now bid (dto_fundId dto)) (\<lambda>f. return_svc (Some f, False))
           | PREVIEW \<Rightarrow>
               if \<not> falsy_str (dto_fundId dto)
               then bind_svc (explicitFund bid (the (dto_fundId dto))) (\<lambda>f. return_svc (Some f, False))
               else bind_svc (ask (\<lambda>w. findDefaultFund (w_fin w) bid)) (\<lambda>fo.
                    bind_svc (case fo of Some f \<Rightarrow> check (assertActive (fd_isActive f)) | None \<Rightarrow> return_svc ()) (\<lambda>_.
                    return_svc (fo, fo = None))))
      | Some k \<Rightarrow>
          bind_svc (check (assertSupportedForNewCreation k)) (\<lambda>_.
          if \<not> falsy_str (dto_fundId dto)
          then bind_svc (explicitFund bid (the (dto_fundId dto))) (\<lambda>f.
               bind_svc (check (assertFundCompatible k (fd_type f))) (\<lambda>_. return_svc (Some f, False)))
          else bind_svc (ask (\<lambda>w. compatibleFunds (w_fin w) bid k)) (\<lambda>fs.
               case fs of
                 [f] \<Rightarrow> return_svc (Some f, False)
               | [] \<Rightarrow> throw_svc (ChargeFundSelectionRequiredError
                        STR ''No active compatible fund exists for this charge type.'')
               | _ \<Rightarrow> throw_svc (ChargeFundSelectionRequiredError
                        STR ''Multiple active compatible funds exist; fundId is required.''))))"

definition filterUnitsByScope :: "unit_row list \<Rightarrow> chargeUnitScope \<Rightarrow> id list option \<Rightarrow> unit_row list result" where
  "filterUnitsByScope us scope unitIds =
     (case scope of
        SCOPE_ALL \<Rightarrow> Inr us
      | MANUAL \<Rightarrow>
          let ids = (case unitIds of Some x \<Rightarrow> x | None \<Rightarrow> []) in
          bind_r (assertUnitsBelongToBuilding ids (set (map u_id us))) (\<lambda>_.
          Inr (filter (\<lambda>u. u_id u \<in> set ids) us))
      | SCOPE_TYPE t \<Rightarrow> Inr (filter (\<lambda>u. u_type u = t) us))"

record resolvedItems =
  ri_items :: "(id \<times> money) list"
  ri_scope :: "chargeUnitScope option"
  ri_skipped :: nat

definition areaOf :: "unit_row \<Rightarrow> rat" where
  "areaOf u = (case u_areaSqm u of Some a \<Rightarrow> a | None \<Rightarrow> 0)"

definition resolveChargeItems :: "bld_db \<Rightarrow> id \<Rightarrow> createChargeBatchDto \<Rightarrow> resolvedItems result" where
  "resolveChargeItems b bid dto =
     bind_r (assertValidCalculationInputs dto) (\<lambda>_.
     if dto_calculationMethod dto = MIXED
     then Inr \<lparr>ri_items = (case dto_items dto of Some its \<Rightarrow> its | None \<Rightarrow> []), ri_scope = None, ri_skipped = 0\<rparr>
     else
       let scope = (case dto_unitScope dto of Some s \<Rightarrow> s | None \<Rightarrow> SCOPE_ALL) in
       bind_r (filterUnitsByScope (listUnits b bid) scope (dto_unitIds dto)) (\<lambda>us.
       if dto_calculationMethod dto = FIXED then
         (case dto_totalAmount dto of
            Some t \<Rightarrow> Inr \<lparr>ri_items = allocateEqually t (map u_id us), ri_scope = Some scope, ri_skipped = 0\<rparr>
          | None \<Rightarrow> Inr \<lparr>ri_items = map (\<lambda>u. (u_id u, the_num (dto_amountPerUnit dto))) us,
                         ri_scope = Some scope, ri_skipped = 0\<rparr>)
       else
         let withArea = filter (\<lambda>u. 0 < areaOf u) us;
             skipped = length us - length withArea
         in case dto_totalAmount dto of
              Some t \<Rightarrow>
                if withArea = []
                then Inl (BusinessRuleViolationError
                       STR ''An AREA_BASED charge batch requires at least one in-scope unit with a positive area configured'')
                else Inr \<lparr>ri_items = allocateByArea t (map (\<lambda>u. (u_id u, areaOf u)) withArea),
                          ri_scope = Some scope, ri_skipped = skipped\<rparr>
            | None \<Rightarrow>
                Inr \<lparr>ri_items = map (\<lambda>u. (u_id u, js_round (js_mul (of_int (the_num (dto_ratePerSqm dto))) (areaOf u)))) withArea,
                     ri_scope = Some scope, ri_skipped = skipped\<rparr>))"

definition resolvePayers :: "bld_db \<Rightarrow> id \<Rightarrow> chargePayerType option \<Rightarrow> (chargePayerType \<times> id list) option" where
  "resolvePayers b uid payerType =
     (case payerType of
        None \<Rightarrow> None
      | Some t \<Rightarrow>
          (case (if t = PT_RESIDENT \<or> t = PT_TENANT then findCurrentTenancyForUnit b uid else None) of
             Some tenancy \<Rightarrow> Some (PT_RESIDENT, [tn_personId tenancy])
           | None \<Rightarrow> Some (PT_OWNER, getCurrentOwnerPersonIds b uid)))"

section \<open>Charge batches\<close>

text \<open>\<open>x ? new Date(x) : undefined\<close>; the DTO admits valid dates only.\<close>

definition dateOf :: "dateString option \<Rightarrow> time option" where
  "dateOf x = (if falsy_date x then None else Option.bind x dt_time)"

definition batchParams :: "id \<Rightarrow> createChargeBatchDto \<Rightarrow> fund \<Rightarrow> resolvedItems \<Rightarrow> id \<Rightarrow> createBatchParams" where
  "batchParams bid dto f ri actor =
     \<lparr>bp_buildingId = bid, bp_fundId = fd_id f, bp_title = dto_title dto, bp_description = dto_description dto,
      bp_calculationMethod = dto_calculationMethod dto, bp_kind = dto_chargeKind dto,
      bp_expectedFundType = (if dto_chargeKind dto = None then None else Some (fd_type f)),
      bp_seriesId = dto_seriesId dto, bp_periodStart = dateOf (dto_periodStart dto),
      bp_periodEnd = dateOf (dto_periodEnd dto), bp_dueDate = dateOf (dto_dueDate dto),
      bp_createdById = actor, bp_items = ri_items ri, bp_unitScope = ri_scope ri,
      bp_payerType = dto_payerType dto, bp_lateFeeType = dto_lateFeeType dto,
      bp_lateFeeValue = dto_lateFeeValue dto, bp_lateFeeGraceDays = dto_lateFeeGraceDays dto\<rparr>"

definition unitExists :: "bld_db \<Rightarrow> id \<Rightarrow> bool" where
  "unitExists b uid \<longleftrightarrow> findUnitById b uid \<noteq> None"

definition svc_createChargeBatch :: "time \<Rightarrow> id \<Rightarrow> createChargeBatchDto \<Rightarrow> id \<Rightarrow> chargeBatch call" where
  "svc_createChargeBatch now bid dto actor =
     bind_svc (getBuilding bid) (\<lambda>_.
     bind_svc (resolveChargeClassification bid dto) (\<lambda>_.
     bind_svc (resolveChargeFund now bid dto CREATE) (\<lambda>(fo, _).
     bind_svc (lift_svc (\<lambda>w. resolveChargeItems (w_bld w) bid dto)) (\<lambda>ri.
     bind_svc (ask w_bld) (\<lambda>b.
     bind_svc (catch_p2002 (fin_tx (createChargeBatch now (unitExists b) (batchParams bid dto (the fo) ri actor)))
                (if dto_chargeKind dto = Some MONTHLY
                 then throw_svc (DuplicateError STR ''This charge series already has a charge for this period.'')
                 else throw_svc (PrismaError STR ''P2002''))) (\<lambda>batch.
     bind_svc (audit actor bid STR ''ChargeBatchCreated'' (cb_id batch) None) (\<lambda>_.
     return_svc batch)))))))"

record previewItem =
  pv_unitId :: id
  pv_unitNumber :: "string option"
  pv_unitType :: "unitType option"
  pv_amount :: money
  pv_resolvedPayerType :: "chargePayerType option"
  pv_payerPersonIds :: "id list"

datatype previewWarning = WillCreateDefaultFund | NoCurrentOwner nat | NoUnitsMatched | AreaMissing nat

record chargePreview =
  cpv_chargeKind :: "chargeKind option"
  cpv_series :: "chargeSeries option"
  cpv_fund :: "fund option"
  cpv_willCreateDefaultFund :: bool
  cpv_unitScope :: "chargeUnitScope option"
  cpv_items :: "previewItem list"
  cpv_totalUnitCount :: nat
  cpv_grandTotal :: money
  cpv_lateFee :: "(lateFeeType \<times> int option \<times> int) option"
  cpv_warnings :: "previewWarning list"

definition previewItemOf :: "bld_db \<Rightarrow> id \<Rightarrow> chargePayerType option \<Rightarrow> id \<times> money \<Rightarrow> previewItem" where
  "previewItemOf b bid payerType it =
     (let u = find (\<lambda>u. u_id u = fst it) (listUnits b bid); payer = resolvePayers b (fst it) payerType
      in \<lparr>pv_unitId = fst it, pv_unitNumber = map_option u_unitNumber u, pv_unitType = map_option u_type u,
          pv_amount = snd it, pv_resolvedPayerType = map_option fst payer,
          pv_payerPersonIds = (case payer of Some p \<Rightarrow> snd p | None \<Rightarrow> [])\<rparr>)"

definition previewWarnings :: "bool \<Rightarrow> previewItem list \<Rightarrow> nat \<Rightarrow> previewWarning list" where
  "previewWarnings willCreate its skipped =
     (let noOwner = length (filter (\<lambda>i. pv_resolvedPayerType i = Some PT_OWNER \<and> pv_payerPersonIds i = []) its)
      in (if willCreate then [WillCreateDefaultFund] else []) @
         (if noOwner > 0 then [NoCurrentOwner noOwner] else []) @
         (if its = [] then [NoUnitsMatched] else []) @
         (if skipped > 0 then [AreaMissing skipped] else []))"

definition previewChargeBatch :: "time \<Rightarrow> id \<Rightarrow> createChargeBatchDto \<Rightarrow> chargePreview call" where
  "previewChargeBatch now bid dto =
     bind_svc (getBuilding bid) (\<lambda>_.
     bind_svc (resolveChargeClassification bid dto) (\<lambda>series.
     bind_svc (resolveChargeFund now bid dto PREVIEW) (\<lambda>(fo, willCreate).
     bind_svc (lift_svc (\<lambda>w. resolveChargeItems (w_bld w) bid dto)) (\<lambda>ri.
     bind_svc (ask w_bld) (\<lambda>b.
     let its = map (previewItemOf b bid (dto_payerType dto)) (ri_items ri)
     in return_svc
       \<lparr>cpv_chargeKind = dto_chargeKind dto, cpv_series = series, cpv_fund = fo,
        cpv_willCreateDefaultFund = willCreate, cpv_unitScope = ri_scope ri, cpv_items = its,
        cpv_totalUnitCount = length its, cpv_grandTotal = sum_of pv_amount its,
        cpv_lateFee = map_option (\<lambda>t. (t, dto_lateFeeValue dto, the_num (dto_lateFeeGraceDays dto)))
                        (dto_lateFeeType dto),
        cpv_warnings = previewWarnings willCreate its (ri_skipped ri)\<rparr>)))))"

definition payerResolutionOf :: "bld_db \<Rightarrow> chargePayerType option \<Rightarrow> chargeItem \<Rightarrow> payerResolution" where
  "payerResolutionOf b t i =
     (case resolvePayers b (ci_unitId i) t of
        Some (rt, ps) \<Rightarrow> \<lparr>pr_chargeItemId = ci_id i, pr_resolvedPayerType = rt, pr_personIds = ps\<rparr>
      | None \<Rightarrow> \<lparr>pr_chargeItemId = ci_id i, pr_resolvedPayerType = PT_OWNER, pr_personIds = []\<rparr>)"

definition payerResolutionsFor :: "world \<Rightarrow> chargeBatch \<Rightarrow> payerResolution list" where
  "payerResolutionsFor w batch =
     (if cb_payerType batch = None then []
      else map (payerResolutionOf (w_bld w) (cb_payerType batch)) (itemsOfBatch (w_fin w) (cb_id batch)))"

definition svc_issueChargeBatch :: "time \<Rightarrow> id \<Rightarrow> id \<Rightarrow> id \<Rightarrow> chargeBatch call" where
  "svc_issueChargeBatch now bid cbid actor =
     bind_svc (getChargeBatch bid cbid) (\<lambda>batch.
     bind_svc (check (assertIssuable (cb_status batch) (cb_totalAmount batch))) (\<lambda>_.
     bind_svc (ask (\<lambda>w. payerResolutionsFor w batch)) (\<lambda>rs.
     bind_svc (fin_tx (issueChargeBatch now \<lparr>is_chargeBatchId = cbid, is_buildingId = bid, is_actorId = actor,
                 is_payerResolutions = rs\<rparr>)) (\<lambda>issued.
     bind_svc (audit actor bid STR ''ChargeBatchIssued'' cbid None) (\<lambda>_.
     bind_svc (emit (ChargeBatchIssuedEvent cbid bid (cb_totalAmount batch) actor)) (\<lambda>_.
     return_svc issued))))))"

definition svc_cancelChargeBatch :: "time \<Rightarrow> id \<Rightarrow> id \<Rightarrow> id \<Rightarrow> chargeBatch call" where
  "svc_cancelChargeBatch now bid cbid actor =
     bind_svc (getChargeBatch bid cbid) (\<lambda>_.
     bind_svc (fin_tx (cancelChargeBatch now cbid bid)) (\<lambda>cancelled.
     bind_svc (audit actor bid STR ''ChargeBatchCancelled'' cbid None) (\<lambda>_.
     bind_svc (emit (ChargeBatchCancelledEvent cbid bid actor)) (\<lambda>_.
     return_svc cancelled))))"

end
