(* ===== verification/Finance_Calls.thy ===== *)
theory Finance_Calls
  imports Finance_Service
begin

text \<open>
  The rest of \<open>FinanceService\<close>: late fees, adjustments, debts, payments, refunds, expenses
  and reports, and the guard in front of the unit routes.
\<close>

section \<open>Late fees\<close>

text \<open>
  \<open>addDays\<close> is the date arithmetic of the server's time zone (\<open>Finance_Policies\<close>).
\<close>

definition lateFeeFor :: "(time \<Rightarrow> int \<Rightarrow> time) \<Rightarrow> time \<Rightarrow> fin_db \<Rightarrow> bool \<Rightarrow> chargeItem \<Rightarrow> money option" where
  "lateFeeFor addDays now d applied i =
     (case batchOf d i of
        None \<Rightarrow> None
      | Some b \<Rightarrow> computeLateFeeEligibility addDays
          \<lparr>lf_batchStatus = cb_status b, lf_type = cb_lateFeeType b, lf_value = cb_lateFeeValue b,
           lf_graceDays = cb_lateFeeGraceDays b, lf_dueDate = cb_dueDate b, lf_now = now,
           lf_itemAmount = ci_amount i, lf_itemPaidAmount = ci_paidAmount i, lf_alreadyApplied = applied\<rparr>)"

definition listUnitChargeItems ::
  "(time \<Rightarrow> int \<Rightarrow> time) \<Rightarrow> time \<Rightarrow> id \<Rightarrow> id \<Rightarrow> paginationParams \<Rightarrow>
   ((chargeItem \<times> money option) list \<times> paginationMeta) call" where
  "listUnitChargeItems addDays now bid uid p =
     bind_svc (getOwnUnit bid uid) (\<lambda>_.
     ask (\<lambda>w. let (rows, tot) = listChargeItemsByUnit (w_fin w) uid (toSkipTake p);
                 appliedIds = findAppliedLateFeeChargeItemIds (w_fin w) (map ci_id rows)
             in (map (\<lambda>i. (i, lateFeeFor addDays now (w_fin w) (ci_id i \<in> appliedIds) i)) rows,
                 buildPaginationMeta p tot)))"

text \<open>The stored reason: the words, an em dash (UTF-8) and the batch's title.\<close>

definition lateFeeReason :: "string \<Rightarrow> string" where
  "lateFeeReason title = ''Late fee '' @ map char_of [226, 128, 148 :: nat] @ '' '' @ title"

definition lateFeeParamsOf :: "id \<Rightarrow> id \<Rightarrow> chargeItem \<Rightarrow> chargeBatch \<Rightarrow> money \<Rightarrow> id \<Rightarrow> adjustmentParams" where
  "lateFeeParamsOf bid uid i b amount actor =
     \<lparr>ja_unitId = uid, ja_buildingId = bid, ja_fundId = cb_fundId b, ja_amount = amount,
      ja_reason = lateFeeReason (cb_title b), ja_createdById = actor, ja_sourceType = Some LATE_FEE,
      ja_sourceId = Some (ci_id i)\<rparr>"

definition ownChargeItem :: "id \<Rightarrow> id \<Rightarrow> id \<Rightarrow> (chargeItem \<times> chargeBatch) call" where
  "ownChargeItem bid uid iid = lift_svc (\<lambda>w.
     case findChargeItemById (w_fin w) iid of
       None \<Rightarrow> Inl (NotFoundAppError STR ''Charge item not found.'')
     | Some i \<Rightarrow>
         (case batchOf (w_fin w) i of
            None \<Rightarrow> Inl (NotFoundAppError STR ''Charge item not found.'')
          | Some b \<Rightarrow> if ci_unitId i \<noteq> uid \<or> cb_buildingId b \<noteq> bid
                      then Inl (NotFoundAppError STR ''Charge item not found.'') else Inr (i, b)))"

definition duplicateLateFee :: "app_error" where
  "duplicateLateFee = DuplicateError STR ''A late fee has already been applied to this charge item.''"

definition applyLateFee :: "(time \<Rightarrow> int \<Rightarrow> time) \<Rightarrow> time \<Rightarrow> id \<Rightarrow> id \<Rightarrow> id \<Rightarrow> id \<Rightarrow> adjustment call" where
  "applyLateFee addDays now bid uid iid actor =
     bind_svc (ownChargeItem bid uid iid) (\<lambda>(i, b).
     bind_svc (ask (\<lambda>w. findAdjustmentBySource (w_fin w) LATE_FEE iid \<noteq> None)) (\<lambda>alreadyApplied.
     if alreadyApplied then throw_svc duplicateLateFee
     else bind_svc (ask (\<lambda>w. lateFeeFor addDays now (w_fin w) alreadyApplied i)) (\<lambda>fee.
       case fee of
         None \<Rightarrow> throw_svc (BusinessRuleViolationError STR ''This charge item is not eligible for a late fee.'')
       | Some amount \<Rightarrow>
           bind_svc (catch_p2002 (fin_tx (createAdjustment now (lateFeeParamsOf bid uid i b amount actor)))
                      (throw_svc duplicateLateFee)) (\<lambda>a.
           bind_svc (audit actor bid STR ''LateFeeApplied'' (aj_id a) None) (\<lambda>_.
           bind_svc (emit (AdjustmentCreatedEvent (aj_id a) bid uid amount actor)) (\<lambda>_.
           return_svc a))))))"

section \<open>Adjustments and opening balance\<close>

record createAdjustmentDto =
  adto_amount :: money
  adto_reason :: string
  adto_fundId :: "id option"

definition svc_createAdjustment :: "time \<Rightarrow> id \<Rightarrow> id \<Rightarrow> createAdjustmentDto \<Rightarrow> id \<Rightarrow> adjustment call" where
  "svc_createAdjustment now bid uid dto actor =
     bind_svc (getOwnUnit bid uid) (\<lambda>_.
     bind_svc (check (assertValidAdjustmentAmount (adto_amount dto))) (\<lambda>_.
     bind_svc (resolveFundForWrite now bid (adto_fundId dto)) (\<lambda>f.
     bind_svc (fin_tx (createAdjustment now \<lparr>ja_unitId = uid, ja_buildingId = bid, ja_fundId = fd_id f,
                 ja_amount = adto_amount dto, ja_reason = adto_reason dto, ja_createdById = actor,
                 ja_sourceType = None, ja_sourceId = None\<rparr>)) (\<lambda>a.
     bind_svc (audit actor bid STR ''AdjustmentCreated'' (aj_id a) (Some (adto_reason dto))) (\<lambda>_.
     bind_svc (emit (AdjustmentCreatedEvent (aj_id a) bid uid (adto_amount dto) actor)) (\<lambda>_.
     return_svc a))))))"

definition getUnitOpeningBalance :: "id \<Rightarrow> id \<Rightarrow> money call" where
  "getUnitOpeningBalance bid uid =
     bind_svc (getOwnUnit bid uid) (\<lambda>_. ask (\<lambda>w. getUnitOpeningBalanceCorrectionTotal (w_fin w) uid))"

record correctOpeningBalanceDto =
  odto_targetBalance :: money
  odto_reason :: string
  odto_fundId :: "id option"

definition correctOpeningBalance ::
  "time \<Rightarrow> id \<Rightarrow> id \<Rightarrow> correctOpeningBalanceDto \<Rightarrow> id \<Rightarrow> correctionResult call" where
  "correctOpeningBalance now bid uid dto actor =
     bind_svc (getOwnUnit bid uid) (\<lambda>_.
     bind_svc (resolveFundForWrite now bid (odto_fundId dto)) (\<lambda>f.
     bind_svc (fin_tx (applyOpeningBalanceCorrection now \<lparr>oc_unitId = uid, oc_buildingId = bid,
                 oc_fundId = fd_id f, oc_targetBalance = odto_targetBalance dto, oc_reason = odto_reason dto,
                 oc_createdById = actor\<rparr>)) (\<lambda>r.
     bind_svc (audit actor bid STR ''UnitOpeningBalanceCorrected'' (aj_id (cor_adjustment r)) (Some (odto_reason dto))) (\<lambda>_.
     bind_svc (emit (AdjustmentCreatedEvent (aj_id (cor_adjustment r)) bid uid (cor_delta r) actor)) (\<lambda>_.
     return_svc r)))))"

section \<open>Debt\<close>

record unitDebt =
  ud_snapshot :: debtSnapshot
  ud_eligibleLateFeeTotal :: money
  ud_eligibleLateFees :: "(id \<times> money) list"

definition eligibleLateFees :: "(time \<Rightarrow> int \<Rightarrow> time) \<Rightarrow> time \<Rightarrow> fin_db \<Rightarrow> id \<Rightarrow> (id \<times> money) list" where
  "eligibleLateFees addDays now d uid =
     (let cands = listLateFeeEligibleCandidates d uid;
          appliedIds = findAppliedLateFeeChargeItemIds d (map ci_id cands)
      in concat (map (\<lambda>i. case lateFeeFor addDays now d (ci_id i \<in> appliedIds) i of
                           Some n \<Rightarrow> [(ci_id i, n)] | None \<Rightarrow> []) cands))"

definition getUnitDebt :: "(time \<Rightarrow> int \<Rightarrow> time) \<Rightarrow> time \<Rightarrow> id \<Rightarrow> id \<Rightarrow> unitDebt call" where
  "getUnitDebt addDays now bid uid =
     bind_svc (getOwnUnit bid uid) (\<lambda>_.
     ask (\<lambda>w. let fees = eligibleLateFees addDays now (w_fin w) uid
             in \<lparr>ud_snapshot = computeDebtSnapshot (w_fin w) uid, ud_eligibleLateFeeTotal = sum_of snd fees,
                 ud_eligibleLateFees = fees\<rparr>))"

definition svc_listUnitDebtSummaries :: "id \<Rightarrow> paginationParams \<Rightarrow> ((id \<times> money) list \<times> paginationMeta) call" where
  "svc_listUnitDebtSummaries bid p =
     bind_svc (getBuilding bid) (\<lambda>_.
     ask (\<lambda>w. let (rows, tot) = listUnitDebtSummaries (w_fin w) (w_bld w) bid (toSkipTake p)
             in (rows, buildPaginationMeta p tot)))"

section \<open>Reporting payments\<close>

text \<open>The payer is the tenant when there is one, else one of the owners.\<close>

definition assertValidPayerForUnit :: "id \<Rightarrow> id \<Rightarrow> bld_db \<Rightarrow> unit result" where
  "assertValidPayerForUnit uid payer b =
     (case findCurrentTenancyForUnit b uid of
        Some t \<Rightarrow> assert_r (tn_personId t = payer)
          (AuthorizationError STR ''The payer must be the unit's current tenant.'')
      | None \<Rightarrow> assert_r (isCurrentOwnerOfUnit b uid payer)
          (AuthorizationError STR ''The payer must be one of the unit's current owners.''))"

record createPaymentDto =
  pdto_payerPersonId :: id
  pdto_amount :: money
  pdto_method :: paymentMethod
  pdto_idempotencyKey :: string
  pdto_fundId :: "id option"
  pdto_reference :: "string option"
  pdto_note :: "string option"
  pdto_isManualAmount :: "bool option"

definition paymentParams :: "id \<Rightarrow> id \<Rightarrow> createPaymentDto \<Rightarrow> id \<Rightarrow> createPaymentParams" where
  "paymentParams bid uid dto fid =
     \<lparr>cpp_buildingId = bid, cpp_unitId = uid, cpp_fundId = fid, cpp_payerId = pdto_payerPersonId dto,
      cpp_amount = pdto_amount dto, cpp_method = pdto_method dto, cpp_idempotencyKey = pdto_idempotencyKey dto,
      cpp_reference = pdto_reference dto, cpp_note = pdto_note dto,
      cpp_isManualAmount = (pdto_isManualAmount dto = Some True)\<rparr>"

definition svc_createPayment :: "time \<Rightarrow> id \<Rightarrow> id \<Rightarrow> createPaymentDto \<Rightarrow> id \<Rightarrow> payment call" where
  "svc_createPayment now bid uid dto actor =
     bind_svc (getOwnUnit bid uid) (\<lambda>_.
     bind_svc (lift_svc (\<lambda>w. assertValidPayerForUnit uid (pdto_payerPersonId dto) (w_bld w))) (\<lambda>_.
     bind_svc (check (assertPositiveAmount (pdto_amount dto))) (\<lambda>_.
     bind_svc (resolveFundForWrite now bid (pdto_fundId dto)) (\<lambda>f.
     bind_svc (fin_tx (createPayment now (paymentParams bid uid dto (fd_id f)))) (\<lambda>p.
     bind_svc (audit actor bid STR ''PaymentReported'' (pm_id p) None) (\<lambda>_.
     return_svc p))))))"

definition assertCanPayExactUnit :: "id \<Rightarrow> id \<Rightarrow> id \<Rightarrow> unit call" where
  "assertCanPayExactUnit bid uid person =
     bind_svc (getOwnUnit bid uid) (\<lambda>_.
     lift_svc (\<lambda>w. assert_r (MANAGER \<in> set (getRoles (w_bld w) person bid) \<or>
         isCurrentOwnerOfUnit (w_bld w) uid person \<or> currentTenantPersonId (w_bld w) uid = Some person)
       (AuthorizationError STR ''You do not have payment authority for this unit.'')))"

text \<open>Obligation identifiers on the wire: a type, a colon, an identifier.\<close>

definition encodeObligationId :: "obligation \<Rightarrow> string" where
  "encodeObligationId t = (case t of
     CHARGE_ITEM i \<Rightarrow> ''CHARGE_ITEM'' @ '':'' @ i | ADJUSTMENT_OB i \<Rightarrow> ''ADJUSTMENT'' @ '':'' @ i)"

definition parseObligationId :: "string \<Rightarrow> obligation result" where
  "parseObligationId s =
     (let bad = Inl (BusinessRuleViolationError STR ''Invalid obligation identifier.'');
          ty = takeWhile (\<lambda>c. c \<noteq> CHR '':'') s; rest = dropWhile (\<lambda>c. c \<noteq> CHR '':'') s
      in case rest of
           [] \<Rightarrow> bad
         | _ # i \<Rightarrow>
             if ty = [] \<or> i = [] then bad
             else if ty = ''CHARGE_ITEM'' then Inr (CHARGE_ITEM i)
             else if ty = ''ADJUSTMENT'' then Inr (ADJUSTMENT_OB i)
             else bad)"

fun parse_all :: "string list \<Rightarrow> obligation list result" where
  "parse_all [] = Inr []"
| "parse_all (s # ss) = bind_r (parseObligationId s) (\<lambda>t. bind_r (parse_all ss) (\<lambda>ts. Inr (t # ts)))"

definition parseExplicitObligations :: "string list \<Rightarrow> obligation list result" where
  "parseExplicitObligations ids =
     bind_r (assert_r (length (remdups ids) = length ids)
       (DuplicateError STR ''Duplicate obligation identifiers are not allowed.'')) (\<lambda>_. parse_all ids)"

definition getSelectableObligations :: "id \<Rightarrow> id \<Rightarrow> id \<Rightarrow> selectableRow list call" where
  "getSelectableObligations bid uid actor =
     bind_svc (assertCanPayExactUnit bid uid actor) (\<lambda>_. ask (\<lambda>w. listSelectableObligations (w_fin w) uid))"

record createExplicitPaymentDto =
  edto_obligationIds :: "string list"
  edto_method :: paymentMethod
  edto_idempotencyKey :: string
  edto_reference :: "string option"
  edto_note :: "string option"

definition explicitParams :: "id \<Rightarrow> id \<Rightarrow> createExplicitPaymentDto \<Rightarrow> id \<Rightarrow> obligation list \<Rightarrow> explicitPaymentParams" where
  "explicitParams bid uid dto actor targets =
     \<lparr>epp_buildingId = bid, epp_unitId = uid, epp_payerId = actor, epp_method = edto_method dto,
      epp_idempotencyKey = edto_idempotencyKey dto, epp_reference = edto_reference dto,
      epp_note = edto_note dto, epp_targets = targets\<rparr>"

definition svc_createExplicitPayment :: "time \<Rightarrow> id \<Rightarrow> id \<Rightarrow> createExplicitPaymentDto \<Rightarrow> id \<Rightarrow> payment call" where
  "svc_createExplicitPayment now bid uid dto actor =
     bind_svc (assertCanPayExactUnit bid uid actor) (\<lambda>_.
     bind_svc (check (parseExplicitObligations (edto_obligationIds dto))) (\<lambda>targets.
     catch_p2002
       (bind_svc (fin_tx (createExplicitPayment now (explicitParams bid uid dto actor targets))) (\<lambda>p.
        bind_svc (audit actor bid STR ''ExplicitPaymentReported'' (pm_id p) None) (\<lambda>_. return_svc p)))
       (throw_svc (ConflictError STR ''One or more obligations are already reserved.''))))"

section \<open>Reading payments\<close>

definition getPaymentForViewer :: "id \<Rightarrow> id \<Rightarrow> id \<Rightarrow> payment call" where
  "getPaymentForViewer bid pid actor =
     bind_svc (getOwnPayment bid pid) (\<lambda>p.
     if pm_payerId p \<noteq> actor
     then bind_svc (ask (\<lambda>w. getRoles (w_bld w) actor (pm_buildingId p))) (\<lambda>roles.
          if MANAGER \<in> set roles \<or> ACCOUNTANT \<in> set roles then return_svc p
          else throw_svc (AuthorizationError
            STR ''Only the payer or a Manager/Accountant of this building may access this payment receipt.''))
     else return_svc p)"

definition getPaymentForPayer :: "id \<Rightarrow> id \<Rightarrow> id \<Rightarrow> payment call" where
  "getPaymentForPayer bid pid actor =
     bind_svc (getOwnPayment bid pid) (\<lambda>p.
     if pm_payerId p \<noteq> actor
     then throw_svc (AuthorizationError STR ''Only the original payer may upload a receipt for this payment.'')
     else return_svc p)"

text \<open>\<open>FinanceUnitReadGuard.canActivate\<close>.\<close>

definition financeUnitReadGuard :: "id \<Rightarrow> id \<Rightarrow> id \<Rightarrow> bool call" where
  "financeUnitReadGuard user bid uid = lift_svc (\<lambda>w.
     if canReadUnitFinance (w_bld w) user bid uid then Inr True
     else Inl (AuthorizationError STR ''You do not have access to this unit finance data.''))"

section \<open>Resolving payments\<close>

definition svc_approvePayment :: "time \<Rightarrow> id \<Rightarrow> id \<Rightarrow> id \<Rightarrow> payment call" where
  "svc_approvePayment now bid pid actor =
     bind_svc (getOwnPayment bid pid) (\<lambda>p.
     bind_svc (check (assertPending (pm_status p))) (\<lambda>_.
     bind_svc (fin_tx (approvePayment now \<lparr>ap_paymentId = pid, ap_buildingId = bid, ap_unitId = pm_unitId p,
                 ap_fundId = pm_fundId p, ap_amount = pm_amount p, ap_actorId = actor\<rparr>)) (\<lambda>approved.
     bind_svc (audit actor bid STR ''PaymentApproved'' pid None) (\<lambda>_.
     bind_svc (emit (PaymentApprovedEvent pid bid (pm_unitId p) (pm_amount p) actor (pm_payerId p))) (\<lambda>_.
     return_svc approved)))))"

definition svc_rejectPayment :: "id \<Rightarrow> id \<Rightarrow> string option \<Rightarrow> id \<Rightarrow> payment call" where
  "svc_rejectPayment bid pid reason actor =
     bind_svc (getOwnPayment bid pid) (\<lambda>p.
     bind_svc (check (assertPending (pm_status p))) (\<lambda>_.
     bind_svc (fin_tx (rejectPayment pid reason)) (\<lambda>rejected.
     bind_svc (audit actor bid STR ''PaymentRejected'' pid reason) (\<lambda>_.
     bind_svc (emit (PaymentRejectedEvent pid bid (pm_unitId p) actor)) (\<lambda>_.
     return_svc rejected)))))"

definition svc_reversePayment :: "time \<Rightarrow> id \<Rightarrow> id \<Rightarrow> string \<Rightarrow> id \<Rightarrow> msg option \<Rightarrow> payment call" where
  "svc_reversePayment now bid pid reason actor auditAction =
     bind_svc (getOwnPayment bid pid) (\<lambda>p.
     bind_svc (check (assertReversible (pm_status p))) (\<lambda>_.
     bind_svc (fin_tx (reversePayment now \<lparr>rv_paymentId = pid, rv_buildingId = bid, rv_fundId = pm_fundId p,
                 rv_amount = pm_amount p, rv_actorId = actor\<rparr>)) (\<lambda>reversed.
     bind_svc (audit actor bid (case auditAction of Some a \<Rightarrow> a | None \<Rightarrow> STR ''PaymentReversed'') pid (Some reason)) (\<lambda>_.
     bind_svc (emit (PaymentReversedEvent pid bid (pm_unitId p) (pm_amount p) actor)) (\<lambda>_.
     return_svc reversed)))))"

definition refundPayment :: "time \<Rightarrow> id \<Rightarrow> id \<Rightarrow> money option \<Rightarrow> string \<Rightarrow> id \<Rightarrow> msg option \<Rightarrow> refund call" where
  "refundPayment now bid pid amount reason actor auditAction =
     bind_svc (getOwnPayment bid pid) (\<lambda>p.
     bind_svc (ask (\<lambda>w. findRefundsByPayment (w_fin w) pid)) (\<lambda>existingRefunds.
     let refundAmount = (case amount of Some n \<Rightarrow> n | None \<Rightarrow> pm_amount p) in
     bind_svc (check (assertRefundable (pm_status p) refundAmount (pm_amount p) (existingRefunds \<noteq> []))) (\<lambda>_.
     bind_svc (fin_tx (createRefund now \<lparr>rp_paymentId = pid, rp_unitId = pm_unitId p, rp_buildingId = bid,
                 rp_fundId = pm_fundId p, rp_amount = refundAmount, rp_paymentAmount = pm_amount p,
                 rp_reason = reason, rp_createdById = actor\<rparr>)) (\<lambda>r.
     bind_svc (audit actor bid (case auditAction of Some a \<Rightarrow> a | None \<Rightarrow> STR ''PaymentRefunded'') pid (Some reason)) (\<lambda>_.
     bind_svc (emit (PaymentRefundedEvent pid bid (pm_unitId p) refundAmount actor (refundAmount \<ge> pm_amount p))) (\<lambda>_.
     return_svc r))))))"

section \<open>Expenses\<close>

record createExpenseDto =
  xdto_fundId :: "id option"
  xdto_title :: string
  xdto_description :: "string option"
  xdto_category :: expenseCategory
  xdto_amount :: money
  xdto_occurredAt :: "dateString option"
  xdto_idempotencyKey :: "string option"

definition svcExpenseParams :: "time \<Rightarrow> id \<Rightarrow> createExpenseDto \<Rightarrow> id \<Rightarrow> id \<Rightarrow> expenseParams" where
  "svcExpenseParams now bid dto fid actor =
     \<lparr>xp_buildingId = bid, xp_fundId = fid, xp_title = xdto_title dto, xp_description = xdto_description dto,
      xp_category = xdto_category dto, xp_amount = xdto_amount dto,
      xp_occurredAt = (case dateOf (xdto_occurredAt dto) of Some t \<Rightarrow> t | None \<Rightarrow> now),
      xp_createdById = actor, xp_idempotencyKey = xdto_idempotencyKey dto\<rparr>"

text \<open>
  The retry path returns the expense found under the key and ends the call: no audit row,
  no event.
\<close>

definition svc_createExpense :: "time \<Rightarrow> id \<Rightarrow> createExpenseDto \<Rightarrow> id \<Rightarrow> expense call" where
  "svc_createExpense now bid dto actor =
     bind_svc (getBuilding bid) (\<lambda>_.
     bind_svc (check (assertValidAmount (xdto_amount dto))) (\<lambda>_.
     bind_svc (resolveFundForWrite now bid (xdto_fundId dto)) (\<lambda>f.
     bind_svc (check (assertSufficientFundBalance (fd_balance f) (xdto_amount dto))) (\<lambda>_.
     bind_svc (catch_p2002
         (bind_svc (fin_tx (createExpense now (svcExpenseParams now bid dto (fd_id f) actor))) (\<lambda>e. return_svc (e, True)))
         (if falsy_str (xdto_idempotencyKey dto) then throw_svc (PrismaError STR ''P2002'')
          else bind_svc (ask (\<lambda>w. findExpenseByIdempotencyKey (w_fin w) (the (xdto_idempotencyKey dto)))) (\<lambda>existing.
               case existing of Some e \<Rightarrow> return_svc (e, False) | None \<Rightarrow> throw_svc (PrismaError STR ''P2002'')))) (\<lambda>(e, fresh).
     if \<not> fresh then return_svc e
     else
       bind_svc (audit actor bid STR ''ExpenseCreated'' (ex_id e) None) (\<lambda>_.
       bind_svc (emit (ExpenseCreatedEvent (ex_id e) bid (fd_id f) (xdto_amount dto) actor)) (\<lambda>_.
       return_svc e)))))))"

definition svc_voidExpense :: "time \<Rightarrow> id \<Rightarrow> id \<Rightarrow> string \<Rightarrow> id \<Rightarrow> expense call" where
  "svc_voidExpense now bid eid reason actor =
     bind_svc (getOwnExpense bid eid) (\<lambda>e.
     bind_svc (check (assertVoidable (ex_status e))) (\<lambda>_.
     bind_svc (fin_tx (voidExpense now \<lparr>vp_expenseId = eid, vp_buildingId = bid, vp_fundId = ex_fundId e,
                 vp_amount = ex_amount e, vp_voidReason = reason, vp_actorId = actor\<rparr>)) (\<lambda>voided.
     bind_svc (audit actor bid STR ''ExpenseVoided'' eid (Some reason)) (\<lambda>_.
     bind_svc (emit (ExpenseVoidedEvent eid bid (ex_fundId e) (ex_amount e) actor)) (\<lambda>_.
     return_svc voided)))))"

section \<open>Reports and options\<close>

definition svc_getFundStatement ::
  "(id \<Rightarrow> nat) \<Rightarrow> id \<Rightarrow> id \<Rightarrow> paginationParams \<Rightarrow> (statementRow list \<times> paginationMeta) call" where
  "svc_getFundStatement idRank bid fid p =
     bind_svc (getBuilding bid) (\<lambda>_.
     bind_svc (getFund bid fid) (\<lambda>_.
     ask (\<lambda>w. let (page, tot, exps) = getFundStatement idRank (w_fin w) bid fid (toSkipTake p)
             in (map (\<lambda>l. projectStatementRow l (\<lambda>i. find_row ex_id i exps)) page, buildPaginationMeta p tot))))"

definition svc_getFinancialSummary :: "id \<Rightarrow> financialSummary call" where
  "svc_getFinancialSummary bid = bind_svc (getBuilding bid) (\<lambda>_. ask (\<lambda>w. getFinancialSummary (w_fin w) bid))"

definition svc_getCollectionRate :: "id \<Rightarrow> time option \<Rightarrow> time option \<Rightarrow> rateReport call" where
  "svc_getCollectionRate bid a b = bind_svc (getBuilding bid) (\<lambda>_. ask (\<lambda>w. getCollectionRate (w_fin w) bid a b))"

definition svc_getPaymentRegistrationRate :: "id \<Rightarrow> time option \<Rightarrow> time option \<Rightarrow> rateReport call" where
  "svc_getPaymentRegistrationRate bid a b =
     bind_svc (getBuilding bid) (\<lambda>_. ask (\<lambda>w. getPaymentRegistrationRate (w_fin w) bid a b))"

definition getChargeOptions :: "id \<Rightarrow> (chargeKind \<times> fund list) list call" where
  "getChargeOptions bid =
     bind_svc (getBuilding bid) (\<lambda>_.
     ask (\<lambda>w. filter (\<lambda>o1. snd o1 \<noteq> [])
       (map (\<lambda>k. (k, filter (\<lambda>f. isFundCompatible k (fd_type f)) (listActiveChargeOptionFunds (w_fin w) bid)))
         newChargeKindOrder)))"

text \<open>\<open>String.prototype.trim\<close> on the characters of the model (one byte each).\<close>

definition is_space :: "char \<Rightarrow> bool" where
  "is_space c \<longleftrightarrow> of_char c \<in> {9, 10, 11, 12, 13, 32 :: nat}"

definition trim :: "string \<Rightarrow> string" where
  "trim s = rev (dropWhile is_space (rev (dropWhile is_space s)))"

definition svc_createChargeSeries :: "id \<Rightarrow> string \<Rightarrow> chargeSeries call" where
  "svc_createChargeSeries bid name =
     bind_svc (getBuilding bid) (\<lambda>_.
     catch_p2002 (fin_tx (createChargeSeries bid (trim name)))
       (throw_svc (DuplicateError STR ''A charge series with this name already exists.'')))"

text \<open>The list endpoints: a guard, a page of the listing, its metadata.\<close>

definition paged_svc :: "'g call \<Rightarrow> paginationParams \<Rightarrow> (fin_db \<Rightarrow> int \<times> int \<Rightarrow> 'r list \<times> int) \<Rightarrow>
   ('r list \<times> paginationMeta) call" where
  "paged_svc guard p listing =
     bind_svc guard (\<lambda>_. ask (\<lambda>w. let (rows, tot) = listing (w_fin w) (toSkipTake p)
       in (rows, buildPaginationMeta p tot)))"

definition svc_listFunds :: "id \<Rightarrow> paginationParams \<Rightarrow> (fund list \<times> paginationMeta) call" where
  "svc_listFunds bid p = paged_svc (return_svc ()) p (\<lambda>d. listFunds d bid)"

definition svc_listChargeBatches :: "id \<Rightarrow> paginationParams \<Rightarrow> (chargeBatch list \<times> paginationMeta) call" where
  "svc_listChargeBatches bid p = paged_svc (return_svc ()) p (\<lambda>d. listChargeBatches d bid)"

definition listUnitAdjustments :: "id \<Rightarrow> id \<Rightarrow> paginationParams \<Rightarrow> (adjustment list \<times> paginationMeta) call" where
  "listUnitAdjustments bid uid p = paged_svc (getOwnUnit bid uid) p (\<lambda>d. listAdjustmentsByUnit d uid)"

definition listPaymentRefunds :: "id \<Rightarrow> id \<Rightarrow> paginationParams \<Rightarrow> (refund list \<times> paginationMeta) call" where
  "listPaymentRefunds bid pid p = paged_svc (getOwnPayment bid pid) p (\<lambda>d. listRefundsByPayment d pid)"

definition svc_listExpenses :: "id \<Rightarrow> paginationParams \<Rightarrow> expenseFilters \<Rightarrow> (expense list \<times> paginationMeta) call" where
  "svc_listExpenses bid p q = paged_svc (getBuilding bid) p (\<lambda>d st. listExpenses d bid st q)"

definition svc_listLedger :: "id \<Rightarrow> id option \<Rightarrow> paginationParams \<Rightarrow> (ledgerEntry list \<times> paginationMeta) call" where
  "svc_listLedger bid fid p = paged_svc (getBuilding bid) p (\<lambda>d. listLedger d bid fid)"

end
