(* ===== verification/Finance_Api.thy ===== *)
theory Finance_Api
  imports Finance_Calls
begin

text \<open>
  Every call of the finance service moves the tables by transactions of the repository, so
  the invariant of the tables holds after any history of requests.
\<close>

section \<open>What a call may do to the tables\<close>

definition fin_steps :: "fin_db \<Rightarrow> fin_db \<Rightarrow> bool" where
  "fin_steps = fin_step\<^sup>*\<^sup>*"

text \<open>
  From a world with \<open>P\<close>, the call takes steps of the machine only, and on success leaves a
  world with \<open>Q\<close> of its result.
\<close>

definition runs :: "(world \<Rightarrow> bool) \<Rightarrow> 'a call \<Rightarrow> ('a \<Rightarrow> world \<Rightarrow> bool) \<Rightarrow> bool" where
  "runs P c Q \<longleftrightarrow> (\<forall>w r w'. P w \<longrightarrow> c w = (r, w') \<longrightarrow>
     fin_steps (w_fin w) (w_fin w') \<and> (\<forall>x. r = Inr x \<longrightarrow> Q x w'))"

lemma fin_steps_refl [simp]: "fin_steps d d"
  by (simp add: fin_steps_def)

lemma runs_bind:
  assumes "runs P m Q" "\<And>x. runs (Q x) (f x) R"
  shows "runs P (bind_svc m f) R"
  unfolding runs_def
proof (intro allI impI)
  fix w r w' assume w: "P w" "bind_svc m f w = (r, w')"
  obtain r1 w1 where m: "m w = (r1, w1)" by (cases "m w")
  then have s: "fin_steps (w_fin w) (w_fin w1)" "\<And>x. r1 = Inr x \<Longrightarrow> Q x w1"
    using assms(1) w(1) by (auto simp: runs_def)
  show "fin_steps (w_fin w) (w_fin w') \<and> (\<forall>x. r = Inr x \<longrightarrow> R x w')"
  proof (cases r1)
    case (Inl e)
    with w(2) m s show ?thesis by (auto simp: bind_svc_def)
  next
    case (Inr x)
    with w(2) m have "f x w1 = (r, w')" by (simp add: bind_svc_def)
    with assms(2) s(2) [OF Inr] have "fin_steps (w_fin w1) (w_fin w') \<and> (\<forall>x. r = Inr x \<longrightarrow> R x w')"
      by (auto simp: runs_def)
    with s(1) show ?thesis by (auto simp: fin_steps_def)
  qed
qed

lemma runs_weaken: "runs P c Q \<Longrightarrow> (\<And>w. P' w \<Longrightarrow> P w) \<Longrightarrow> (\<And>x w. Q x w \<Longrightarrow> Q' x w) \<Longrightarrow> runs P' c Q'"
  unfolding runs_def by blast

named_theorems runs_rules "calls that only read, or only write the audit log and the events"

lemma runs_pure:
  assumes "\<And>w. w_fin (snd (c w)) = w_fin w" "\<And>w x w'. P w \<Longrightarrow> c w = (Inr x, w') \<Longrightarrow> Q x w'"
  shows "runs P c Q"
  unfolding runs_def
proof (intro allI impI conjI)
  fix w r w' assume w: "P w" "c w = (r, w')"
  then show "fin_steps (w_fin w) (w_fin w')" using assms(1) [of w] by simp
  fix x assume "r = Inr x"
  then show "Q x w'" using assms(2) w by blast
qed

lemma runs_read [runs_rules]:
  "runs P (return_svc x) (\<lambda>_. P)" "runs P (throw_svc e) Q" "runs P (check r) (\<lambda>x w. r = Inr x \<and> P w)"
  "runs P (ask g) (\<lambda>x w. x = g w \<and> P w)" "runs P (lift_svc h) (\<lambda>x w. h w = Inr x \<and> P w)"
  "runs P (getBuilding bid) (\<lambda>_. P)" "runs P (getOwnUnit bid uid) (\<lambda>_. P)"
  by (rule runs_pure; force simp: return_svc_def throw_svc_def check_def ask_def lift_svc_def
      getBuilding_def getOwnUnit_def split: option.splits if_splits)+

text \<open>The audit log and the events are not read by what follows.\<close>

definition fin_only :: "(world \<Rightarrow> bool) \<Rightarrow> bool" where
  "fin_only P \<longleftrightarrow> (\<forall>w w'. w_fin w' = w_fin w \<longrightarrow> w_bld w' = w_bld w \<longrightarrow> P w \<longrightarrow> P w')"

lemma runs_audit [runs_rules]: "runs (\<lambda>_. True) (audit a b c d e) (\<lambda>_ _. True)"
  "runs (\<lambda>_. True) (emit v) (\<lambda>_ _. True)"
  by (rule runs_pure; simp add: audit_def emit_def)+

lemma runs_tx:
  assumes "\<And>w x d. P w \<Longrightarrow> t (w_fin w) = Inr (x, d) \<Longrightarrow> fin_step (w_fin w) d"
    and "\<And>w x d. P w \<Longrightarrow> t (w_fin w) = Inr (x, d) \<Longrightarrow> Q x (w\<lparr>w_fin := d\<rparr>)"
  shows "runs P (fin_tx t) Q"
  using assms by (auto simp: runs_def fin_tx_def fin_steps_def split: sum.splits prod.splits)

lemma runs_catch:
  assumes "runs P m Q" "\<And>e. runs (\<lambda>_. True) h Q"
  shows "runs P (catch_p2002 m h) Q"
  unfolding runs_def
proof (intro allI impI)
  fix w r w' assume w: "P w" "catch_p2002 m h w = (r, w')"
  obtain r1 w1 where m: "m w = (r1, w1)" by (cases "m w")
  then have s: "fin_steps (w_fin w) (w_fin w1)" "\<And>x. r1 = Inr x \<Longrightarrow> Q x w1"
    using assms(1) w(1) by (auto simp: runs_def)
  show "fin_steps (w_fin w) (w_fin w') \<and> (\<forall>x. r = Inr x \<longrightarrow> Q x w')"
  proof (cases "r1 = Inl (PrismaError STR ''P2002'')")
    case True
    then have "h w1 = (r, w')" using w(2) m by (simp add: catch_p2002_def)
    then have "fin_steps (w_fin w1) (w_fin w') \<and> (\<forall>x. r = Inr x \<longrightarrow> Q x w')"
      using assms(2) by (auto simp: runs_def)
    with s(1) show ?thesis by (auto simp: fin_steps_def)
  next
    case False
    then have "(r, w') = (r1, w1)" using w(2) m by (auto simp: catch_p2002_def split: sum.splits if_splits)
    with s show ?thesis by auto
  qed
qed

abbreviation harmless :: "'a call \<Rightarrow> bool" where
  "harmless c \<equiv> runs (\<lambda>_. True) c (\<lambda>_ _. True)"

lemma runs_drop: "runs P c Q \<Longrightarrow> (\<And>w. P' w \<Longrightarrow> P w) \<Longrightarrow> runs P' c (\<lambda>_ _. True)"
  unfolding runs_def by blast

named_theorems harmless_intros "how a harmless call is put together"

lemma harmless_bind [harmless_intros]:
  "harmless m \<Longrightarrow> (\<And>x. harmless (f x)) \<Longrightarrow> harmless (bind_svc m f)"
  by (rule runs_bind)

lemma harmless_read [harmless_intros]:
  "harmless (return_svc x)" "harmless (throw_svc e)" "harmless (check r)" "harmless (ask g)"
  "harmless (lift_svc h)" "harmless (getBuilding bid)" "harmless (getOwnUnit bid uid)"
  "harmless (audit a b c d e1)" "harmless (emit v)"
  by (rule runs_rules runs_rules [THEN runs_drop], simp?)+

lemma harmless_cases [harmless_intros]:
  "(b \<Longrightarrow> harmless c1) \<Longrightarrow> (\<not> b \<Longrightarrow> harmless c2) \<Longrightarrow> harmless (if b then c1 else c2)"
  "(\<And>a b. harmless (g a b)) \<Longrightarrow> harmless (case p of (a, b) \<Rightarrow> g a b)"
  "harmless c1 \<Longrightarrow> (\<And>x. harmless (h x)) \<Longrightarrow> harmless (case xo of None \<Rightarrow> c1 | Some x \<Rightarrow> h x)"
  by (simp_all split: prod.splits option.splits)

lemma harmless_tx [harmless_intros]:
  "(\<And>d x d'. t d = Inr (x, d') \<Longrightarrow> fin_step d d') \<Longrightarrow> harmless (fin_tx t)"
  by (rule runs_tx) auto

lemma harmless_catch [harmless_intros]: "harmless m \<Longrightarrow> harmless h \<Longrightarrow> harmless (catch_p2002 m h)"
  by (rule runs_catch)

section \<open>Charge requests never ask for negative amounts\<close>

lemma js_nonneg:
  "0 \<le> x \<Longrightarrow> 0 \<le> y \<Longrightarrow> 0 \<le> js_mul x y" "0 \<le> x \<Longrightarrow> 0 \<le> y \<Longrightarrow> 0 \<le> js_div x y"
  "0 \<le> x \<Longrightarrow> 0 \<le> y \<Longrightarrow> 0 \<le> js_add x y"
  by (simp_all add: js_mul_def js_div_def js_add_def fl_nonneg)

lemma allocateEqually_nonneg:
  assumes "0 \<le> t" "i \<in> set (allocateEqually t ids)"
  shows "0 \<le> snd i"
proof -
  have "0 \<le> js_floor (js_div (of_int t) (of_int (int (length ids))))"
    using js_nonneg(2) [of "of_int t" "of_int (int (length ids))"] assms(1) by (simp add: js_floor_def)
  then show ?thesis using assms(2) by (auto simp: allocateEqually_def Let_def)
qed

lemma allocateEqually_pos: "0 < t \<Longrightarrow> i \<in> set (allocateEqually t ids) \<Longrightarrow> 0 \<le> snd i"
  by (rule allocateEqually_nonneg [OF less_imp_le])

lemma totalAreaOf_nonneg:
  assumes "\<forall>u\<in>set us. 0 \<le> snd u" shows "0 \<le> totalAreaOf us"
proof -
  have "0 \<le> s \<Longrightarrow> 0 \<le> foldl (\<lambda>s u. js_add s (snd u)) s us" for s
    using assms by (induction us arbitrary: s) (auto intro: js_nonneg)
  then show ?thesis by (simp add: totalAreaOf_def)
qed

lemma allocateByArea_nonneg:
  assumes "0 \<le> t" "\<forall>u\<in>set us. 0 \<le> snd u" "i \<in> set (allocateByArea t us)"
  shows "0 \<le> snd i"
proof -
  have "0 \<le> sh_floorAmount s" if sm: "s \<in> set (sharesOf t us)" for s
  proof -
    obtain u where u: "u \<in> set us" "sh_floorAmount s = js_floor (exactShare t (totalAreaOf us) (snd u))"
      using sharesOf_mem [OF sm] by blast
    have "0 \<le> exactShare t (totalAreaOf us) (snd u)"
      unfolding exactShare_def using assms(1,2) u(1) totalAreaOf_nonneg [OF assms(2)] by (intro js_nonneg) auto
    then show ?thesis by (simp add: u(2) js_floor_def)
  qed
  with assms(3) show ?thesis by (auto simp: allocateByArea_def Let_def)
qed

lemma resolveChargeItems_nonneg:
  assumes "resolveChargeItems b bid dto = Inr ri" "i \<in> set (ri_items ri)"
  shows "0 \<le> snd i"
proof -
  have v: "assertValidCalculationInputs dto = Inr ()" using assms(1) by (auto simp: resolveChargeItems_def effect_simps)
  show ?thesis
  proof (cases "dto_calculationMethod dto")
    case FIXED
    from valid_inputs_FIXED [OF v this] show ?thesis
    proof (elim disjE exE conjE)
      fix n assume "0 < n" "dto_totalAmount dto = Some n"
      with assms FIXED show ?thesis
        by (auto simp: resolveChargeItems_def effect_simps Let_def dest: allocateEqually_pos)
    next
      fix n assume "0 < n" "dto_amountPerUnit dto = Some n" "dto_totalAmount dto = None"
      with assms FIXED show ?thesis
        by (auto simp: resolveChargeItems_def effect_simps Let_def the_num_def)
    qed
  next
    case AREA_BASED
    from valid_inputs_AREA [OF v this] show ?thesis
    proof (elim disjE exE conjE)
      fix n assume "0 < n" "dto_totalAmount dto = Some n"
      with assms AREA_BASED obtain us where "\<forall>u\<in>set us. 0 \<le> snd u" "i \<in> set (allocateByArea n us)"
        by (auto simp: resolveChargeItems_def effect_simps Let_def split: if_splits intro!: that)
      with \<open>0 < n\<close> show ?thesis by (auto intro: allocateByArea_nonneg less_imp_le)
    next
      fix n assume n: "0 < n" "dto_ratePerSqm dto = Some n" "dto_totalAmount dto = None"
      have "0 \<le> js_round (js_mul (of_int n) a)" if "0 < a" for a
        using js_nonneg(1) [of "of_int n" a] that n(1) by (simp add: js_round_def)
      with n assms AREA_BASED show ?thesis
        by (auto simp: resolveChargeItems_def effect_simps Let_def the_num_def)
    qed
  next
    case MIXED
    from valid_inputs_MIXED [OF v this] assms MIXED show ?thesis
      by (auto simp: resolveChargeItems_def effect_simps Let_def intro: less_imp_le)
  qed
qed

section \<open>The calls that write\<close>

lemma lift_harmless [harmless_intros]:
  "harmless (getFund bid fid)" "harmless (getChargeBatch bid cbid)" "harmless (getOwnPayment bid pid)"
  "harmless (getOwnExpense bid eid)" "harmless (ownChargeItem bid uid iid)"
  by (simp_all only: getFund_def getChargeBatch_def getOwnPayment_def getOwnExpense_def
      ownChargeItem_def harmless_read)

lemma resolveFundForWrite_harmless [harmless_intros]: "harmless (resolveFundForWrite now bid fid)"
  unfolding resolveFundForWrite_def by (intro harmless_intros) (rule fin_step.defaultFund)

lemma explicitFund_harmless [harmless_intros]: "harmless (explicitFund bid fid)"
  unfolding explicitFund_def by (intro harmless_intros)

lemma classification_harmless [harmless_intros]: "harmless (resolveChargeClassification bid dto)"
  unfolding resolveChargeClassification_def by (intro harmless_intros)

lemma resolveChargeFund_harmless [harmless_intros]: "harmless (resolveChargeFund now bid dto mode)"
  unfolding resolveChargeFund_def
  by (cases mode; simp only: chargeMode.case) (intro harmless_intros; simp split: list.splits; intro conjI allI impI harmless_intros)+

lemma funds_harmless [harmless_intros]:
  "harmless (svc_createFund now bid cdto actor)" "harmless (svc_updateFund bid fid udto actor)"
  "harmless (deactivateFund bid fid actor)" "harmless (reactivateFund bid fid actor)"
  "harmless (svc_createChargeSeries bid name)"
  unfolding svc_createFund_def svc_updateFund_def deactivateFund_def reactivateFund_def svc_createChargeSeries_def
  by (intro harmless_intros; erule fin_step.intros)+

lemma batches_harmless [harmless_intros]:
  "harmless (svc_issueChargeBatch now bid cbid actor)" "harmless (svc_cancelChargeBatch now bid cbid actor)"
  unfolding svc_issueChargeBatch_def svc_cancelChargeBatch_def
  by (intro harmless_intros; erule fin_step.intros)+

lemma adjustments_harmless [harmless_intros]:
  "harmless (applyLateFee addDays now bid uid iid actor)" "harmless (svc_createAdjustment now bid uid jdto actor)"
  "harmless (correctOpeningBalance now bid uid odto actor)"
  unfolding applyLateFee_def svc_createAdjustment_def correctOpeningBalance_def
  by (intro harmless_intros; erule fin_step.intros)+

lemma payments_harmless [harmless_intros]:
  "harmless (svc_createExplicitPayment now bid uid edto actor)" "harmless (svc_rejectPayment bid pid reason actor)"
  "harmless (svc_reversePayment now bid pid rreason actor act)"
  "harmless (refundPayment now bid pid amount rreason actor act)"
  unfolding svc_createExplicitPayment_def assertCanPayExactUnit_def svc_rejectPayment_def
    svc_reversePayment_def refundPayment_def Let_def
  by (intro harmless_intros; erule fin_step.intros)+

lemma expenses_harmless [harmless_intros]:
  "harmless (svc_createExpense now bid xdto actor)" "harmless (svc_voidExpense now bid eid vreason actor)"
  unfolding svc_createExpense_def svc_voidExpense_def
  by (intro harmless_intros; erule fin_step.intros)+

lemma fact_bind:
  assumes "\<And>w x w'. m w = (Inr x, w') \<Longrightarrow> Q x w'" "harmless m" "\<And>x. runs (Q x) (f x) (\<lambda>_ _. True)"
  shows "harmless (bind_svc m f)"
proof (rule runs_bind [OF _ assms(3)])
  show "runs (\<lambda>_. True) m Q"
    using assms(1,2) by (auto simp: runs_def)
qed

lemma createBatch_harmless [harmless_intros]: "harmless (svc_createChargeBatch now bid dto actor)"
proof -
  have "harmless (bind_svc (lift_svc (\<lambda>w. resolveChargeItems (w_bld w) bid dto)) (\<lambda>ri.
     bind_svc (ask w_bld) (\<lambda>b.
     bind_svc (catch_p2002 (fin_tx (createChargeBatch now (unitExists b) (batchParams bid dto f ri actor)))
                (if dto_chargeKind dto = Some MONTHLY then throw_svc e1 else throw_svc e2)) (\<lambda>batch.
     bind_svc (audit actor bid a1 (cb_id batch) None) (\<lambda>_.
     return_svc batch)))))" (is "harmless (bind_svc _ ?rest)") for f e1 e2 a1
  proof (rule fact_bind [where Q="\<lambda>ri w. \<forall>i\<in>set (ri_items ri). 0 \<le> snd i"])
    fix ri
    have "harmless (?rest ri)" if "\<forall>i\<in>set (ri_items ri). 0 \<le> snd i"
      using that by (intro harmless_intros) (erule fin_step.createBatch, simp add: batchParams_def)
    then show "runs (\<lambda>w. \<forall>i\<in>set (ri_items ri). 0 \<le> snd i) (?rest ri) (\<lambda>_ _. True)"
      by (auto simp: runs_def)
  qed (auto simp: lift_svc_def split: sum.splits dest: resolveChargeItems_nonneg intro: harmless_intros)
  then show ?thesis
    unfolding svc_createChargeBatch_def
    by (intro harmless_bind [OF harmless_read(6)] harmless_bind [OF classification_harmless]
        harmless_bind [OF resolveChargeFund_harmless] harmless_cases(2))
qed

lemma createPayment_harmless [harmless_intros]: "harmless (svc_createPayment now bid uid dto actor)"
proof (cases "assertPositiveAmount (pdto_amount dto) = Inr ()")
  case True
  then have pos: "0 < pdto_amount dto" by (simp add: assertPositiveAmount_def effect_simps split: if_splits)
  show ?thesis
    unfolding svc_createPayment_def
    by (intro harmless_intros) (erule fin_step.createPayment, simp add: paymentParams_def pos)
next
  case False
  have "harmless (bind_svc (check (assertPositiveAmount (pdto_amount dto))) g)" for g :: "unit \<Rightarrow> payment call"
    by (rule fact_bind [where Q="\<lambda>_ _. False"]) (use False in \<open>auto simp: check_def runs_def\<close>)
  then show ?thesis
    unfolding svc_createPayment_def
    by (intro harmless_bind [OF harmless_read(7)] harmless_bind [OF harmless_read(5)])
qed

lemma approve_harmless [harmless_intros]: "harmless (svc_approvePayment now bid pid actor)"
  unfolding svc_approvePayment_def
proof (rule fact_bind [where Q="\<lambda>p w. findPaymentById (w_fin w) pid = Some p"], goal_cases)
  case (3 p)
  have c: "runs P (check r) (\<lambda>_. P)" for P and r :: "unit result"
    by (auto simp: runs_def check_def)
  show ?case
    by (rule runs_bind [OF c], rule runs_bind [where Q="\<lambda>_ _. True"], rule runs_tx)
       (auto intro: fin_step.approve harmless_intros)
qed (auto simp: getOwnPayment_def lift_svc_def own_def split: sum.splits option.splits if_splits intro: harmless_intros)

section \<open>Histories of requests\<close>

text \<open>
  One constructor per route of the controller that writes; \<open>ChangeBuilding\<close> is anything the
  other modules do to the building tables between two requests.
\<close>

datatype finRequest =
    CreateFund time id createFundParams id
  | UpdateFund id id updateFundParams id
  | DeactivateFund id id id
  | ReactivateFund id id id
  | CreateSeries id string
  | CreateBatch time id createChargeBatchDto id
  | IssueBatch time id id id
  | CancelBatch time id id id
  | ApplyLateFee time id id id id
  | CreateAdjustment time id id createAdjustmentDto id
  | CorrectOpeningBalance time id id correctOpeningBalanceDto id
  | CreatePayment time id id createPaymentDto id
  | CreateExplicitPayment time id id createExplicitPaymentDto id
  | ApprovePayment time id id id
  | RejectPayment id id "string option" id
  | ReversePayment time id id string id "msg option"
  | RefundPayment time id id "money option" string id "msg option"
  | CreateExpense time id createExpenseDto id
  | VoidExpense time id id string id
  | ChangeBuilding bld_db

definition perform :: "'a call \<Rightarrow> world \<Rightarrow> app_error option \<times> world" where
  "perform c w = (case c w of (Inl e, w') \<Rightarrow> (Some e, w') | (Inr x, w') \<Rightarrow> (None, w'))"

fun handle :: "(time \<Rightarrow> int \<Rightarrow> time) \<Rightarrow> finRequest \<Rightarrow> world \<Rightarrow> app_error option \<times> world" where
  "handle ad (CreateFund now bid q a) = perform (svc_createFund now bid q a)"
| "handle ad (UpdateFund bid fid q a) = perform (svc_updateFund bid fid q a)"
| "handle ad (DeactivateFund bid fid a) = perform (deactivateFund bid fid a)"
| "handle ad (ReactivateFund bid fid a) = perform (reactivateFund bid fid a)"
| "handle ad (CreateSeries bid n) = perform (svc_createChargeSeries bid n)"
| "handle ad (CreateBatch now bid q a) = perform (svc_createChargeBatch now bid q a)"
| "handle ad (IssueBatch now bid b a) = perform (svc_issueChargeBatch now bid b a)"
| "handle ad (CancelBatch now bid b a) = perform (svc_cancelChargeBatch now bid b a)"
| "handle ad (ApplyLateFee now bid uid i a) = perform (applyLateFee ad now bid uid i a)"
| "handle ad (CreateAdjustment now bid uid q a) = perform (svc_createAdjustment now bid uid q a)"
| "handle ad (CorrectOpeningBalance now bid uid q a) = perform (correctOpeningBalance now bid uid q a)"
| "handle ad (CreatePayment now bid uid q a) = perform (svc_createPayment now bid uid q a)"
| "handle ad (CreateExplicitPayment now bid uid q a) = perform (svc_createExplicitPayment now bid uid q a)"
| "handle ad (ApprovePayment now bid p a) = perform (svc_approvePayment now bid p a)"
| "handle ad (RejectPayment bid p r a) = perform (svc_rejectPayment bid p r a)"
| "handle ad (ReversePayment now bid p r a act) = perform (svc_reversePayment now bid p r a act)"
| "handle ad (RefundPayment now bid p n r a act) = perform (refundPayment now bid p n r a act)"
| "handle ad (CreateExpense now bid q a) = perform (svc_createExpense now bid q a)"
| "handle ad (VoidExpense now bid e r a) = perform (svc_voidExpense now bid e r a)"
| "handle ad (ChangeBuilding b) = (\<lambda>w. (None, w\<lparr>w_bld := b\<rparr>))"

definition run_history :: "(time \<Rightarrow> int \<Rightarrow> time) \<Rightarrow> finRequest list \<Rightarrow> world \<Rightarrow> world" where
  "run_history ad rs w = foldl (\<lambda>w r. snd (handle ad r w)) w rs"

lemma harmless_perform: "harmless c \<Longrightarrow> fin_steps (w_fin w) (w_fin (snd (perform c w)))"
  by (cases "c w") (auto simp: runs_def perform_def split: sum.splits)

lemma handle_steps: "fin_steps (w_fin w) (w_fin (snd (handle ad r w)))"
  by (cases r) (simp_all only: handle.simps snd_conv world.simps fin_steps_refl,
      (rule harmless_perform, intro harmless_intros)+, simp)

lemma run_history_steps: "fin_steps (w_fin w) (w_fin (run_history ad rs w))"
proof (induction rs arbitrary: w)
  case (Cons r rs)
  from handle_steps [of w ad r] Cons [of "snd (handle ad r w)"]
  show ?case by (simp add: run_history_def fin_steps_def)
qed (simp add: run_history_def)

lemma fin_steps_reachable: "fin_steps d d' \<Longrightarrow> fin_reachable d \<Longrightarrow> fin_reachable d'"
  unfolding fin_steps_def by (induction rule: rtranclp_induct) (auto intro: fin_reachable.step)

lemma history_reachable:
  "inj supply \<Longrightarrow> w_fin w = empty_fin supply \<Longrightarrow> fin_reachable (w_fin (run_history ad rs w))"
  using fin_steps_reachable [OF run_history_steps] by (simp add: fin_reachable.start)

lemmas history_inv = history_reachable [THEN fin_reachable_inv]

end
