(* ===== verification/Finance_Scenario.thy ===== *)
theory Finance_Scenario
  imports Finance_Api
begin

text \<open>
  A small concrete building and a history of requests on it, from which the statements
  of \<open>Finance_Properties\<close> are exercised: one unit with one owner, a manager, one fund, a
  charge of 100 and of 40, and payments in both modes.
\<close>

definition demo_ids :: "nat \<Rightarrow> id" where
  "demo_ids n = replicate (Suc n) CHR ''x''"

lemma demo_ids_inj: "inj demo_ids"
  by (rule injI) (simp add: demo_ids_def)

definition demo_person :: "id \<Rightarrow> string \<Rightarrow> person" where
  "demo_person p phone = \<lparr>pe_id = p, pe_phone = phone, pe_fullName = None, pe_firstName = None,
     pe_lastName = None, pe_createdAt = 0, pe_isSuspended = False, pe_isBackofficeApproved = False,
     pe_xpBalance = 0, pe_email = None\<rparr>"

definition demo_bld :: bld_db where
  "demo_bld =
     \<lparr>persons = [demo_person ''m'' ''+989120000001'', demo_person ''o'' ''+989120000002''],
      buildings = [\<lparr>bd_id = ''b'', bd_name = ''Tower'', bd_buildingType = BT_RESIDENTIAL,
        bd_description = None, bd_country = ''IR'', bd_province = None, bd_city = ''c'',
        bd_district = ''d'', bd_mainStreet = ''s'', bd_subStreet = None, bd_alley = None,
        bd_plateNumber = ''1'', bd_addressLine = ''s'', bd_postalCode = ''1'', bd_totalBlocks = 1,
        bd_totalUnits = 1, bd_totalFloors = None, bd_status = BS_VERIFIED,
        bd_createdById = ''m'', bd_recoveryModeEnteredAt = None, bd_createdAt = 0\<rparr>],
      blocks = [],
      unitRows = [\<lparr>u_id = ''u'', u_buildingId = ''b'', u_blockId = None, u_floorId = None,
        u_floorNumber = None, u_unitNumber = ''1'', u_type = RESIDENTIAL, u_areaSqm = Some 80,
        u_parkingCount = None, u_storageCount = None, u_occupancyStatus = OWNER_OCCUPIED,
        u_ownerFullName = None, u_ownerFirstName = None, u_ownerLastName = None,
        u_ownerPhone = None, u_ownerInviteSentAt = None\<rparr>],
      ownerships = [\<lparr>ow_id = ''w'', ow_unitId = ''u'', ow_personId = ''o'', ow_startDate = 0,
        ow_endDate = None, ow_isCurrent = True\<rparr>],
      tenancies = [],
      memberships = [\<lparr>mb_id = ''n'', mb_personId = ''m'', mb_buildingId = ''b'', mb_unitId = None,
        mb_role = MANAGER, mb_managerState = Some ML_VERIFIED, mb_managerAssignmentType = None,
        mb_assignedById = None, mb_startedAt = 0, mb_endedAt = None, mb_isCurrent = True\<rparr>],
      membershipRequests = [],
      settingsRows = [], bld_ids = demo_ids, bld_next = 0, bld_collation = (\<lambda>_. 0)\<rparr>"

definition demo_start :: world where
  "demo_start = \<lparr>w_fin = empty_fin demo_ids, w_bld = demo_bld, w_audit = [], w_events = []\<rparr>"

definition demo_fund :: createFundParams where
  "demo_fund = \<lparr>cf_buildingId = ''b'', cf_name = ''Main'', cf_type = FT_CURRENT, cf_description = None,
     cf_isDefault = None, cf_initialBalance = Some 500, cf_accountLinkType = None,
     cf_accountReference = None, cf_actorId = None\<rparr>"

definition demo_charge :: "money \<Rightarrow> createChargeBatchDto" where
  "demo_charge n = \<lparr>dto_chargeKind = None, dto_seriesId = None, dto_fundId = Some (demo_ids 0),
     dto_title = ''Charge'', dto_description = None, dto_calculationMethod = MIXED,
     dto_amountPerUnit = None, dto_ratePerSqm = None, dto_totalAmount = None,
     dto_items = Some [(''u'', n)], dto_periodStart = None, dto_periodEnd = None, dto_dueDate = None,
     dto_unitScope = None, dto_unitIds = None, dto_payerType = None, dto_lateFeeType = None,
     dto_lateFeeValue = None, dto_lateFeeGraceDays = None\<rparr>"

definition demo_payment :: "money \<Rightarrow> string \<Rightarrow> createPaymentDto" where
  "demo_payment n key = \<lparr>pdto_payerPersonId = ''o'', pdto_amount = n, pdto_method = CASH,
     pdto_idempotencyKey = key, pdto_fundId = Some (demo_ids 0), pdto_reference = None, pdto_note = None,
     pdto_isManualAmount = None\<rparr>"

abbreviation no_addDays :: "time \<Rightarrow> int \<Rightarrow> time" where
  "no_addDays t n \<equiv> t + 86400000 * n"

definition demo_charges :: "finRequest list" where
  "demo_charges =
     [CreateFund 1 ''b'' demo_fund ''m'', CreateBatch 2 ''b'' (demo_charge 100) ''m'',
      IssueBatch 3 ''b'' (demo_ids 2) ''m'', CreateBatch 4 ''b'' (demo_charge 40) ''m'',
      IssueBatch 5 ''b'' (demo_ids 5) ''m'']"

definition demo_explicit_request :: createExplicitPaymentDto where
  "demo_explicit_request = \<lparr>edto_obligationIds = [''CHARGE_ITEM:'' @ demo_ids 6], edto_method = CASH,
     edto_idempotencyKey = ''e'', edto_reference = None, edto_note = None\<rparr>"

text \<open>The charges are issued; a payment of 120 is reported; or the second item is selected.\<close>

definition charged :: fin_db where
  "charged = w_fin (run_history no_addDays demo_charges demo_start)"

definition reported_history :: "finRequest list" where
  "reported_history = demo_charges @ [CreatePayment 6 ''b'' ''u'' (demo_payment 120 ''k'') ''o'']"

definition reported :: fin_db where
  "reported = w_fin (run_history no_addDays reported_history demo_start)"

definition selected_history :: "finRequest list" where
  "selected_history = demo_charges @ [CreateExplicitPayment 6 ''b'' ''u'' demo_explicit_request ''o'']"

definition selected :: fin_db where
  "selected = w_fin (run_history no_addDays selected_history demo_start)"

text \<open>Paying 200 for a debt of 140 leaves 60 of credit; then 50 more is charged.\<close>

definition overpaid_history :: "finRequest list" where
  "overpaid_history = demo_charges @
     [CreatePayment 6 ''b'' ''u'' (demo_payment 200 ''k''\<lparr>pdto_isManualAmount := Some True\<rparr>) ''o'',
      ApprovePayment 7 ''b'' (demo_ids 8) ''m'', CreateBatch 8 ''b'' (demo_charge 50) ''m'']"

definition overpaid :: fin_db where
  "overpaid = w_fin (run_history no_addDays overpaid_history demo_start)"

lemma demo_reachable:
  "fin_reachable charged" "fin_reachable reported" "fin_reachable selected" "fin_reachable overpaid"
  unfolding charged_def reported_def selected_def overpaid_def
  by (rule history_reachable [OF demo_ids_inj], simp add: demo_start_def)+

definition approve_params :: "money \<Rightarrow> approveParams" where
  "approve_params n = \<lparr>ap_paymentId = demo_ids 8, ap_buildingId = ''b'', ap_unitId = ''u'',
     ap_fundId = demo_ids 0, ap_amount = n, ap_actorId = ''m''\<rparr>"

definition reverse_params :: "money \<Rightarrow> reverseParams" where
  "reverse_params n = \<lparr>rv_paymentId = demo_ids 8, rv_buildingId = ''b'', rv_fundId = demo_ids 0,
     rv_amount = n, rv_actorId = ''m''\<rparr>"

text \<open>Requests to single transactions and calls on these tables.\<close>

definition demo_report :: "money \<Rightarrow> createPaymentParams" where
  "demo_report n = \<lparr>cpp_buildingId = ''b'', cpp_unitId = ''u'', cpp_fundId = demo_ids 0, cpp_payerId = ''o'',
     cpp_amount = n, cpp_method = CASH, cpp_idempotencyKey = ''k'', cpp_reference = None, cpp_note = None,
     cpp_isManualAmount = False\<rparr>"

definition demo_explicit :: explicitPaymentParams where
  "demo_explicit = \<lparr>epp_buildingId = ''b'', epp_unitId = ''u'', epp_payerId = ''o'', epp_method = CASH,
     epp_idempotencyKey = ''e'', epp_reference = None, epp_note = None, epp_targets = [CHARGE_ITEM (demo_ids 6)]\<rparr>"

definition demo_issue :: issueParams where
  "demo_issue = \<lparr>is_chargeBatchId = demo_ids 10, is_buildingId = ''b'', is_actorId = ''m'', is_payerResolutions = []\<rparr>"

definition demo_adjust :: "money \<Rightarrow> adjustmentParams" where
  "demo_adjust n = \<lparr>ja_unitId = ''u'', ja_buildingId = ''b'', ja_fundId = demo_ids 0, ja_amount = n, ja_reason = [],
     ja_createdById = ''m'', ja_sourceType = None, ja_sourceId = None\<rparr>"

definition demo_correction :: "money \<Rightarrow> correctionParams" where
  "demo_correction n = \<lparr>oc_unitId = ''u'', oc_buildingId = ''b'', oc_fundId = demo_ids 0, oc_targetBalance = n,
     oc_reason = [], oc_createdById = ''m''\<rparr>"

definition demo_expense :: "money \<Rightarrow> expenseParams" where
  "demo_expense n = \<lparr>xp_buildingId = ''b'', xp_fundId = demo_ids 0, xp_title = ''Lamp'', xp_description = None,
     xp_category = EC_REPAIR, xp_amount = n, xp_occurredAt = 6, xp_createdById = ''m'', xp_idempotencyKey = None\<rparr>"

definition demo_void :: "money \<Rightarrow> voidParams" where
  "demo_void n = \<lparr>vp_expenseId = demo_ids 8, vp_buildingId = ''b'', vp_fundId = demo_ids 0, vp_amount = n,
     vp_voidReason = [], vp_actorId = ''m''\<rparr>"

definition demo_dto :: createChargeBatchDto where
  "demo_dto = (demo_charge 90)\<lparr>dto_payerType := Some PT_RESIDENT\<rparr>"

definition demo_world :: world where
  "demo_world = run_history no_addDays demo_charges demo_start"

lemma returned: "\<not> isl x \<Longrightarrow> \<exists>a b. x = Inr (a, b)"
  by (cases x) auto

end
