(* ===== verification/Payment_Effects.thy ===== *)
theory Payment_Effects
  imports Charge_Inv
begin

text \<open>
  What a payment does to the tables, beyond keeping them well formed: how approving and
  reversing move obligations, credit and fund balances.
\<close>

section \<open>Shared facts\<close>

definition balanceOf :: "fin_db \<Rightarrow> id \<Rightarrow> money" where
  "balanceOf d fid = (case findFundById d fid of Some f \<Rightarrow> fd_balance f | None \<Rightarrow> 0)"

lemma balanceOf_cong: "funds d' = funds d \<Longrightarrow> balanceOf d' fid = balanceOf d fid"
  by (simp add: balanceOf_def findFundById_def)

text \<open>One cash posting: the ledger entry and the balance, nothing else.\<close>

lemma posting:
  assumes "addLedger now bid fid ty dir n rt ri ac d = Inr d1" "fundIncrement fid m d1 = Inr d'"
  shows "items d' = items d" "adjustments d' = adjustments d" "allocations d' = allocations d"
    "payments d' = payments d" "selections d' = selections d" "credits d' = credits d"
    "batches d' = batches d" "expenses d' = expenses d"
    "balanceOf d' x = balanceOf d x + (if x = fid then m else 0)"
  using assms
  by (auto simp: effect_simps take_id_def bumpBalance_def balanceOf_def findFundById_def
      find_row_upd_same find_row_None_iff split: option.splits)

lemma listedOn_allocRow: "listedOn (map (allocRow pid) pl) ob = onTarget pl ob"
  by (induction pl) (auto simp: listedOn_def allocRow_def)

lemma total_allocRow: "sum_of al_amount (map (allocRow pid) pl) = sum_of snd pl"
  by (induction pl) (auto simp: allocRow_def)

lemma outstanding_total_nn:
  "(\<And>r. r \<in> set rs \<Longrightarrow> 0 \<le> f r) \<Longrightarrow> outstanding_total f rs = sum_of f rs"
  by (induction rs) auto

lemma sum_of_sort_key [simp]: "sum_of f (sort_key k xs) = sum_of f xs"
proof -
  have "sum_of f ys = sum_mset (image_mset f (mset ys))" for ys by (induction ys) auto
  then show ?thesis by simp
qed

lemma outstanding_total_sort_key [simp]:
  "outstanding_total f (sort_key k xs) = outstanding_total f xs"
proof -
  have "outstanding_total f ys = sum_of (\<lambda>r. max 0 (f r)) ys" for ys by (induction ys) auto
  then show ?thesis by simp
qed

text \<open>The debt of the snapshot is what the two queries list as outstanding.\<close>

lemma totalDebt_outstanding:
  assumes "rows_ok d"
  shows "totalDebt (computeDebtSnapshot d uid) =
    outstanding_total itemOutstanding (outstandingItems d uid) +
    outstanding_total adjOutstanding (outstandingAdjustments d uid)"
proof -
  have "outstanding_total itemOutstanding (unpaidItems d uid) = sum_of itemOutstanding (unpaidItems d uid)"
    using assms by (intro outstanding_total_nn) (auto simp: unpaidItems_def rows_ok_def item_ok_outstanding)
  moreover have "outstanding_total adjOutstanding xs = sum_of (\<lambda>a. max 0 (aj_amount a - aj_paidAmount a)) xs" for xs
    by (induction xs) (auto simp: adjOutstanding_def)
  moreover have "itemOutstanding = (\<lambda>i. ci_amount i - ci_paidAmount i)"
    by (rule ext) (simp add: itemOutstanding_def)
  ultimately show ?thesis
    by (simp add: computeDebtSnapshot_def buildDebtSnapshot_def Let_def outstandingItems_def
        outstandingAdjustments_def)
qed

lemma auto_total:
  assumes "rows_ok d" "0 \<le> ap_amount q"
  shows "sum_of snd (autoItems d q @ autoAdjs d q) =
    min (ap_amount q) (totalDebt (computeDebtSnapshot d (ap_unitId q)))"
proof -
  let ?I = "outstanding_total itemOutstanding (outstandingItems d (ap_unitId q))"
    and ?A = "outstanding_total adjOutstanding (outstandingAdjustments d (ap_unitId q))"
  have i: "sum_of snd (autoItems d q) = min (ap_amount q) ?I"
    using settle_plan_total [OF assms(2)] by (simp add: autoItems_def itemPlan_total)
  then have "0 \<le> ap_amount q - sum_of snd (autoItems d q)" by simp
  from settle_plan_total [OF this] have
    "sum_of snd (autoAdjs d q) = min (ap_amount q - sum_of snd (autoItems d q)) ?A"
    by (simp add: autoAdjs_def adjPlan_total)
  moreover have "0 \<le> ?I" "0 \<le> ?A" by simp_all
  ultimately have "sum_of snd (autoItems d q) + sum_of snd (autoAdjs d q) = min (ap_amount q) (?I + ?A)"
    using i by linarith
  then show ?thesis by (simp add: totalDebt_outstanding [OF assms(1)])
qed

lemma creditOf_upsert:
  "creditOf (creditUpsert uid bid n d) x = creditOf d x + (if x = uid then n else 0)"
  by (auto simp: creditOf_def creditUpsert_def find_row_upd_same find_row_append
      split: option.splits dest: find_row_Some)

lemma creditOf_cong: "credits d' = credits d \<Longrightarrow> creditOf d' uid = creditOf d uid"
  by (simp add: creditOf_def)

section \<open>Approving\<close>

lemma approve_pending:
  assumes "approvePayment now q d = Inr (r, d')" "findPaymentById d (ap_paymentId q) = Some p"
  shows "pm_status p = PENDING_APPROVAL" "r = markApproved now q p"
    "pm_selectionMode p = EXPLICIT_SELECTION \<Longrightarrow> approveExplicit now q p d = Inr d'"
    "pm_selectionMode p \<noteq> EXPLICIT_SELECTION \<Longrightarrow>
      postPayment now q (settleAutomatically q (setPayment (ap_paymentId q) (markApproved now q) d)) = Inr d'"
  using assms by (auto simp: approvePayment_def effect_simps approvePaymentBody_def split: if_splits)

lemma pending_allocations:
  assumes "fin_inv d" "p \<in> set (payments d)" "pm_status p = PENDING_APPROVAL"
  shows "allocationsOf d (pm_id p) = []"
  using pending_unallocated [OF assms(1,2)] assms(3) by (auto simp: allocationsOf_def filter_empty_conv)

lemma paid_by_plan:
  assumes "fin_inv d" "p \<in> set (payments d)" "pm_status p = PENDING_APPROVAL" "pays (pm_id p) pl d0 d1"
    and "items d0 = items d" "adjustments d0 = adjustments d" "allocations d0 = allocations d"
    and "items d' = items d1" "adjustments d' = adjustments d1" "allocations d' = allocations d1"
  shows "allocationsOf d' (pm_id p) = map (allocRow (pm_id p)) pl"
    "paidOf d' ob = paidOf d ob + onTarget pl ob"
proof -
  have "filter (\<lambda>a. al_paymentId a = pm_id p) (map (allocRow (pm_id p)) pl) = map (allocRow (pm_id p)) pl"
    by (simp add: filter_id_conv allocRow_def)
  then show "allocationsOf d' (pm_id p) = map (allocRow (pm_id p)) pl"
    using pending_allocations [OF assms(1-3)] assms(4,7,10) by (simp add: allocationsOf_def pays_def)
  show "paidOf d' ob = paidOf d ob + onTarget pl ob"
    using assms(4) paidOf_cong [OF assms(8,9)] paidOf_cong [OF assms(5,6)] by (simp add: pays_def settles_def)
qed

lemma approve_automatic_effect:
  assumes inv: "fin_inv d" and p: "findPaymentById d (ap_paymentId q) = Some p" "ap_amount q = pm_amount p"
    "pm_selectionMode p = LEGACY_AUTOMATIC" and ok: "approvePayment now q d = Inr (r, d')"
  shows "paidOf d' ob = paidOf d ob + listedOn (allocationsOf d' (pm_id p)) ob"
    "allocatedTotal d' (pm_id p) = min (pm_amount p) (totalDebt (computeDebtSnapshot d (ap_unitId q)))"
    "creditOf d' (ap_unitId q) = creditOf d (ap_unitId q) + (pm_amount p - allocatedTotal d' (pm_id p))"
    "balanceOf d' (ap_fundId q) = balanceOf d (ap_fundId q) + pm_amount p"
proof -
  note pm = findPayment_mem [OF p(1)] and i = fin_invD [OF inv]
  have mode: "pm_selectionMode p \<noteq> EXPLICIT_SELECTION" using p(3) by simp
  note ap = approve_pending(1) [OF ok p(1)] approve_pending(4) [OF ok p(1) mode]
  let ?d0 = "setPayment (ap_paymentId q) (markApproved now q) d" and ?pl = "autoItems d q @ autoAdjs d q"
  let ?s = "settleAutomatically q ?d0"
  obtain d2 where d2: "?s = (if autoRest d q > 0 then creditUpsert (ap_unitId q) (ap_buildingId q) (autoRest d q) d2 else d2)"
    "pays (pm_id p) ?pl ?d0 d2" "0 \<le> autoRest d q"
    using approveAuto_tables [OF inv p(1) ap(1) mode p(2), of now] by blast
  obtain dl where "addLedger now (ap_buildingId q) (ap_fundId q) PAYMENT CREDIT (ap_amount q) RefPayment
      (ap_paymentId q) (Some (ap_actorId q)) ?s = Inr dl" "fundIncrement (ap_fundId q) (ap_amount q) dl = Inr d'"
    using postPayment_steps [OF ap(2)] .
  note post = posting [OF this]
  note fr = frameD [of d2 ?d0, OF d2(2) [unfolded pays_def, THEN conjunct2, THEN conjunct1]]
  have s: "items ?s = items d2" "adjustments ?s = adjustments d2" "allocations ?s = allocations d2"
    "funds ?s = funds d2" by (simp_all add: d2(1))
  note paid = paid_by_plan [OF inv pm [THEN conjunct1] ap(1) d2(2), of d', unfolded post s setPayment_frame, OF refl refl refl refl refl refl]
  show "paidOf d' ob = paidOf d ob + listedOn (allocationsOf d' (pm_id p)) ob"
    unfolding paid listedOn_allocRow ..
  have pos: "0 \<le> ap_amount q" using i(5) pm p(2) by (force simp: pay_ok_def)
  have tot: "allocatedTotal d' (pm_id p) = sum_of snd ?pl"
    unfolding allocatedTotal_def paid(1) total_allocRow ..
  then show "allocatedTotal d' (pm_id p) = min (pm_amount p) (totalDebt (computeDebtSnapshot d (ap_unitId q)))"
    using auto_total [OF i(2) pos] p(2) by simp
  have "creditOf d' (ap_unitId q) = creditOf d (ap_unitId q) + autoRest d q"
    using creditOf_cong [of d' ?s] creditOf_cong [of d2 d] post(6) fr(7) d2(3)
    by (simp add: d2(1) creditOf_upsert split: if_splits)
  then show "creditOf d' (ap_unitId q) = creditOf d (ap_unitId q) + (pm_amount p - allocatedTotal d' (pm_id p))"
    using p(2) by (simp add: tot autoRest_def)
  show "balanceOf d' (ap_fundId q) = balanceOf d (ap_fundId q) + pm_amount p"
    using post(9) [of "ap_fundId q"] balanceOf_cong [of ?s d] s(4) fr p(2) by simp
qed

lemma filter_resolved:
  "(\<And>s. s \<in> set xs \<Longrightarrow> ds_paymentId s = pid \<Longrightarrow> ds_state s = Some ACTIVE) \<Longrightarrow>
    filter (\<lambda>s. ds_paymentId s = pid) (upd_where (\<lambda>s. ds_paymentId s = pid \<and> ds_state s = Some ACTIVE)
      (\<lambda>s. s\<lparr>ds_state := st\<rparr>) xs) =
    map (\<lambda>s. s\<lparr>ds_state := st\<rparr>) (filter (\<lambda>s. ds_paymentId s = pid) xs)" for xs :: "debtSelection list"
  by (induction xs) auto

lemma approve_explicit_effect:
  assumes inv: "fin_inv d" and p: "findPaymentById d (ap_paymentId q) = Some p"
    "pm_selectionMode p = EXPLICIT_SELECTION" and ok: "approvePayment now q d = Inr (r, d')"
  shows "allocationsOf d' (pm_id p) = map (\<lambda>s. allocRow (pm_id p) (selPair s)) (selectionsOf d (pm_id p))"
    "paidOf d' ob = paidOf d ob + listedOn (allocationsOf d' (pm_id p)) ob"
    "allocatedTotal d' (pm_id p) = pm_amount p"
    "selectionsOf d' (pm_id p) = map (\<lambda>s. s\<lparr>ds_state := Some APPLIED\<rparr>) (selectionsOf d (pm_id p))"
    "creditOf d' uid = creditOf d uid"
    "\<forall>s\<in>set (selectionsOf d (pm_id p)). ds_selectedAmount s = amountOf d (ds_target s) - paidOf d (ds_target s) \<and>
      paidOf d' (ds_target s) = amountOf d' (ds_target s) \<and> amountOf d' (ds_target s) = amountOf d (ds_target s)"
proof -
  note pm = findPayment_mem [OF p(1)] and i = fin_invD [OF inv]
  note ap = approve_pending(1) [OF ok p(1)] approve_pending(3) [OF ok p(1,2)]
  obtain d1 where d1: "pays (pm_id p) (map selPair (selectionsOf d (pm_id p))) d d1"
    "postPayment now q (explicitTables now q d1) = Inr d'"
    "sum_of ds_selectedAmount (selectionsOf d (pm_id p)) = pm_amount p"
    and exact: "\<forall>s\<in>set (selectionsOf d (pm_id p)). ds_selectedAmount s = amountOf d (ds_target s) - paidOf d (ds_target s) \<and>
      onTarget (map selPair (selectionsOf d (pm_id p))) (ds_target s) = ds_selectedAmount s"
    using approveExplicit_tables [OF inv p(1) ap(1) p(2) ap(2)] by blast
  obtain dl where "addLedger now (ap_buildingId q) (ap_fundId q) PAYMENT CREDIT (ap_amount q) RefPayment
      (ap_paymentId q) (Some (ap_actorId q)) (explicitTables now q d1) = Inr dl"
    "fundIncrement (ap_fundId q) (ap_amount q) dl = Inr d'"
    using postPayment_steps [OF d1(2)] .
  note post = posting [OF this]
  note fr = frameD [of d1 d, OF d1(1) [unfolded pays_def, THEN conjunct2, THEN conjunct1]]
  have e: "items (explicitTables now q d1) = items d1" "adjustments (explicitTables now q d1) = adjustments d1"
    "allocations (explicitTables now q d1) = allocations d1" "credits (explicitTables now q d1) = credits d1"
    by (simp_all add: explicitTables_def setActiveSelections_def)
  note paid = paid_by_plan [OF inv pm [THEN conjunct1] ap(1) d1(1), of d', unfolded post e, OF refl refl refl refl refl refl]
  show "allocationsOf d' (pm_id p) = map (\<lambda>s. allocRow (pm_id p) (selPair s)) (selectionsOf d (pm_id p))"
    by (simp add: paid)
  show "paidOf d' ob = paidOf d ob + listedOn (allocationsOf d' (pm_id p)) ob"
    unfolding paid listedOn_allocRow ..
  have "sum_of snd (map selPair xs) = sum_of ds_selectedAmount xs" for xs
    by (induction xs) (auto simp: selPair_def)
  then show "allocatedTotal d' (pm_id p) = pm_amount p"
    unfolding allocatedTotal_def paid(1) total_allocRow d1(3) [symmetric] .
  have act: "ds_state s = Some ACTIVE" if "s \<in> set (selections d)" "ds_paymentId s = pm_id p" for s
    using i(7) pm p(2) ap(1) that by (auto simp: sel_ok_def selectionsOf_def)
  have "selections d' = upd_where (\<lambda>s. ds_paymentId s = pm_id p \<and> ds_state s = Some ACTIVE)
      (\<lambda>s. s\<lparr>ds_state := Some APPLIED\<rparr>) (selections d)"
    using post(5) fr pm by (simp add: explicitTables_def setActiveSelections_def)
  moreover note filter_resolved [of "selections d" "pm_id p", OF act]
  ultimately show "selectionsOf d' (pm_id p) = map (\<lambda>s. s\<lparr>ds_state := Some APPLIED\<rparr>) (selectionsOf d (pm_id p))"
    by (simp add: selectionsOf_def)
  show "creditOf d' uid = creditOf d uid"
    using creditOf_cong [of d' d] post(6) e(4) fr(7) by simp
  have "amountOf d' ob = amountOf d ob" for ob
    using amountOf_cong [of d' d1 ob] amountOf_settles [OF d1(1) [unfolded pays_def, THEN conjunct1], of ob] post(1,2) e(1,2) by simp
  then show "\<forall>s\<in>set (selectionsOf d (pm_id p)). ds_selectedAmount s = amountOf d (ds_target s) - paidOf d (ds_target s) \<and>
      paidOf d' (ds_target s) = amountOf d' (ds_target s) \<and> amountOf d' (ds_target s) = amountOf d (ds_target s)"
    using exact paid(2) by simp
qed

section \<open>Reversing\<close>

lemma reverse_effect:
  assumes inv: "fin_inv d" and ok: "reversePayment now q d = Inr (r, d')"
  shows "paidOf d' ob = paidOf d ob - listedOn (allocationsOf d (rv_paymentId q)) ob"
    "balanceOf d' x = balanceOf d x - (if x = rv_fundId q then rv_amount q else 0)"
    "allocations d' = allocations d" "creditOf d' uid = creditOf d uid"
    "payments d' = upd_where (\<lambda>p. pm_id p = rv_paymentId q)
      (\<lambda>p. p\<lparr>pm_status := REVERSED, pm_reversedAt := Some now\<rparr>) (payments d)"
proof -
  obtain p d1 where p: "findPaymentById d (rv_paymentId q) = Some p" "pm_status p = APPROVED"
    and l: "addLedger now (rv_buildingId q) (rv_fundId q) REVERSAL DEBIT (rv_amount q) RefPayment (rv_paymentId q)
      (Some (rv_actorId q)) (reversedTables now (rv_paymentId q) d) = Inr d1"
    and f: "fundIncrement (rv_fundId q) (- rv_amount q) d1 = Inr d'"
    using reversePayment_steps [OF ok] by blast
  note pm = findPayment_mem [OF p(1)]
  note rt = reversedTables_settles(1-3) [OF inv pm [THEN conjunct1] p(2), of now, unfolded pm [THEN conjunct2]]
  note fr = frameD [OF rt(2), simplified] and post = posting [OF l f]
  show "paidOf d' ob = paidOf d ob - listedOn (allocationsOf d (rv_paymentId q)) ob"
    using paidOf_cong [OF post(1,2), of ob] rt(1) by (simp add: settles_def onTarget_undoPlan)
  show "balanceOf d' x = balanceOf d x - (if x = rv_fundId q then rv_amount q else 0)"
    using post(9) [of x] balanceOf_cong [OF fr(1)] by simp
  show "allocations d' = allocations d" using post(3) rt(3) by simp
  show "creditOf d' uid = creditOf d uid" using creditOf_cong [of d' d uid] post(6) fr(7) by simp
  show "payments d' = upd_where (\<lambda>p. pm_id p = rv_paymentId q)
      (\<lambda>p. p\<lparr>pm_status := REVERSED, pm_reversedAt := Some now\<rparr>) (payments d)"
    using post(4) fr by simp
qed

text \<open>The body of a reversal passes exactly when these four checks do.\<close>

lemma undoAllocation_funds [simp]: "funds (undoAllocation a d) = funds d"
  by (auto simp: undoAllocation_def setItemPaid_def setAdjPaid_def split: obligation.splits option.splits)

lemma undoAllocations_funds [simp]: "funds (undoAllocations as d) = funds d"
  by (induction as arbitrary: d) auto

lemma findFund_cong: "funds d' = funds d \<Longrightarrow> findFundById d' fid = findFundById d fid"
  by (simp add: findFundById_def)

lemma reverse_accepted:
  "(\<exists>x. reversePaymentBody now q d = Inr x) \<longleftrightarrow>
    (\<exists>p. findPaymentById d (rv_paymentId q) = Some p \<and> pm_status p = APPROVED \<and>
      allocatedTotal d (pm_id p) = pm_amount p \<and> findFundById d (rv_fundId q) \<noteq> None)"
proof (cases "findPaymentById d (rv_paymentId q)")
  case (Some p)
  let ?d0 = "setPayment (rv_paymentId q) (\<lambda>p. p\<lparr>pm_status := REVERSED, pm_reversedAt := Some now\<rparr>) d"
  have fund: "findFundById (take_id (undoAllocations as ?d0 \<lparr>ledger := ls\<rparr>)) fid = findFundById d fid"
    "findFundById (undoAllocations as ?d0) fid = findFundById d fid" for as ls fid
    by (rule findFund_cong, simp add: take_id_def)+
  show ?thesis
    by (cases "findFundById d (rv_fundId q) = None")
      (auto simp: Some reversePaymentBody_def addLedger_def fundIncrement_def fund Let_def assert_r_def)
qed (simp add: reversePaymentBody_def)

section \<open>The life of a payment\<close>

text \<open>What never changes about a reported payment.\<close>

definition paymentIdentity ::
  "payment \<Rightarrow> id \<times> id \<times> id \<times> id \<times> id \<times> money \<times> paymentMethod \<times> paymentSelectionMode \<times> string option" where
  "paymentIdentity p = (pm_id p, pm_buildingId p, pm_unitId p, pm_fundId p, pm_payerId p, pm_amount p,
     pm_method p, pm_selectionMode p, pm_idempotencyKey p)"

text \<open>The order in which a payment moves through its states.\<close>

fun mayBecome :: "paymentStatus \<Rightarrow> paymentStatus \<Rightarrow> bool" where
  "mayBecome PENDING_APPROVAL s = (s \<noteq> REFUNDED)"
| "mayBecome APPROVED s = (s \<in> {APPROVED, REVERSED})"
| "mayBecome s s' = (s' = s)"

lemma mayBecome_refl [simp]: "mayBecome s s"
  by (cases s) auto

lemma mayBecome_trans: "mayBecome a b \<Longrightarrow> mayBecome b c \<Longrightarrow> mayBecome a c"
  by (cases a; cases b) auto

definition evolves :: "fin_db \<Rightarrow> fin_db \<Rightarrow> bool" where
  "evolves d d' \<longleftrightarrow> (\<forall>p\<in>set (payments d). \<exists>p'\<in>set (payments d').
     paymentIdentity p' = paymentIdentity p \<and> mayBecome (pm_status p) (pm_status p'))"

lemma evolves_refl [simp]: "evolves d d"
  by (auto simp: evolves_def)

lemma evolves_trans: "evolves d d1 \<Longrightarrow> evolves d1 d2 \<Longrightarrow> evolves d d2"
  unfolding evolves_def by (metis mayBecome_trans)

lemma evolves_same: "payments d' = payments d \<Longrightarrow> evolves d d'"
  by (auto simp: evolves_def)

lemma evolves_append: "\<exists>ps. payments d' = payments d @ ps \<Longrightarrow> evolves d d'"
  by (auto simp: evolves_def)

lemma evolves_upd:
  assumes "payments d' = upd_where (\<lambda>p. pm_id p = pid) g (payments d)"
    and "\<And>p. p \<in> set (payments d) \<Longrightarrow> pm_id p = pid \<Longrightarrow>
      paymentIdentity (g p) = paymentIdentity p \<and> mayBecome (pm_status p) (pm_status (g p))"
  shows "evolves d d'"
  unfolding evolves_def
proof
  fix p assume p: "p \<in> set (payments d)"
  then have "(if pm_id p = pid then g p else p) \<in> set (payments d')" unfolding assms(1) set_upd_where by (rule imageI)
  then show "\<exists>p'\<in>set (payments d'). paymentIdentity p' = paymentIdentity p \<and> mayBecome (pm_status p) (pm_status p')"
    by (rule rev_bexI) (use assms(2) [OF p] in auto)
qed

text \<open>The transactions on other tables.\<close>

lemma apply_plan_keeps: "(\<And>r n s. g (app r n s) = g s) \<Longrightarrow> g (apply_plan app ps s) = g s"
  by (induction ps arbitrary: s) auto

lemma settle_loop_keeps: "(\<And>r n s. g (app r n s) = g s) \<Longrightarrow> g (snd (settle_loop f app rs n s)) = g s"
  by (simp add: settle_loop_plan apply_plan_keeps)

lemma payments_keep [simp]:
  "payments (take_id d) = payments d" "payments (addItems now bid is d) = payments d"
  "payments (takeCredit uid n d) = payments d" "payments (waiveItem i n d) = payments d"
  "payments (waiveAdjustment a n d) = payments d" "payments (setBatch bid g d) = payments d"
  "payments (setFund fid h d) = payments d" "payments (setResolvedPayer iid t d) = payments d"
  "payments (payItem pid i n d) = payments d" "payments (payAdjustment pid a n d) = payments d"
  by (induction "is" arbitrary: d)
    (simp_all add: take_id_def takeCredit_def write_defs setBatch_def setFund_def setResolvedPayer_def)

lemma setActiveSelections_payments [simp]: "payments (setActiveSelections pid st d) = payments d"
  by (simp add: setActiveSelections_def)

lemma payments_keep_r:
  "addLedger now bid fid ty dir n rt ri ac d = Inr d' \<Longrightarrow> payments d' = payments d"
  "fundIncrement fid m d = Inr d' \<Longrightarrow> payments d' = payments d"
  "addPayers iid ps d = Inr d' \<Longrightarrow> payments d' = payments d"
  "insertFund now cq d = Inr (f, d') \<Longrightarrow> payments d' = payments d"
  "insertAdjustment now jq d = Inr (a, d') \<Longrightarrow> payments d' = payments d"
  by (auto simp: addLedger_Inr_iff fundIncrement_Inr_iff bumpBalance_def insertFund_def insertAdjustment_def
      Let_def take_id_def split: if_splits dest: addPayers_frame)

lemma writeResolutions_payments: "writeResolutions rs d = Inr d' \<Longrightarrow> payments d' = payments d"
  by (induction rs arbitrary: d) (force simp: bind_r_Inr_iff dest: payments_keep_r split: if_splits)+

lemma applyCredits_payments: "applyCredits now q fid is d = Inr d' \<Longrightarrow> payments d' = payments d"
proof (induction "is" arbitrary: d)
  case (Cons i "is")
  have "payments d1 = payments d" if "applyCreditToItem now q fid i d = Inr d1" for d1
    using that by (auto simp: applyCreditToItem_def Let_def split: option.splits if_splits dest: payments_keep_r)
  with Cons show ?case by (force simp: bind_r_Inr_iff)
qed simp

lemma loops_payments [simp]:
  "payments (snd (settle_loop f waiveItem is n d)) = payments d"
  "payments (snd (settle_loop h waiveAdjustment as n d)) = payments d"
  "payments (applyDownwardCorrection q aid n d) = payments d"
  by (simp_all add: settle_loop_keeps applyDownwardCorrection_def
      split_beta)

lemma bodies_payments:
  "createFund now cq d = Inr (f, d') \<Longrightarrow> payments d' = payments d"
  "updateFund fid uq d = Inr (f, d') \<Longrightarrow> payments d' = payments d"
  "setFundActive fid act d = Inr (f, d') \<Longrightarrow> payments d' = payments d"
  "getOrCreateDefaultFund now bid d = Inr (f, d') \<Longrightarrow> payments d' = payments d"
  "createChargeSeries bid name d = Inr (s, d') \<Longrightarrow> payments d' = payments d"
  "createChargeBatch now ux bq d = Inr (b, d') \<Longrightarrow> payments d' = payments d"
  "cancelChargeBatch now cbid bid d = Inr (b, d') \<Longrightarrow> payments d' = payments d"
  by (auto simp: createFund_def createFundBody_def updateFund_def setFundActive_def
      getOrCreateDefaultFund_def createChargeSeries_def createChargeBatch_def createChargeBatchBody_def
      cancelChargeBatch_def cancelChargeBatchBody_def transaction_Inr_iff bind_r_Inr_iff assert_r_Inr_iff Let_def
      split: option.splits if_splits dest!: payments_keep_r)

lemma issue_payments: "issueChargeBatch now iq d = Inr (b, d') \<Longrightarrow> payments d' = payments d"
  by (auto simp: issueChargeBatch_def issueChargeBatchBody_def transaction_Inr_iff bind_r_Inr_iff
      assert_r_Inr_iff Let_def split: option.splits
      dest!: payments_keep_r writeResolutions_payments applyCredits_payments)

lemma corrections_payments:
  "createAdjustment now jq d = Inr (j, d') \<Longrightarrow> payments d' = payments d"
  "applyOpeningBalanceCorrection now oq d = Inr (c, d') \<Longrightarrow> payments d' = payments d"
  by (auto simp: createAdjustment_def createAdjustmentBody_def applyOpeningBalanceCorrection_def
      applyOpeningBalanceCorrectionBody_def transaction_Inr_iff bind_r_Inr_iff assert_r_Inr_iff Let_def
      ledgerAdjustment_def split: if_splits dest!: payments_keep_r)

lemma expenses_payments:
  "createExpense now xq d = Inr (e, d') \<Longrightarrow> payments d' = payments d"
  "voidExpense now wq d = Inr (e, d') \<Longrightarrow> payments d' = payments d"
  by (auto simp: createExpense_def createExpenseBody_def voidExpense_def voidExpenseBody_def
      transaction_Inr_iff bind_r_Inr_iff assert_r_Inr_iff Let_def
      split: option.splits dest!: payments_keep_r)

lemma reject_evolves: "rejectPayment pid reason d = Inr (p, d') \<Longrightarrow> ids_ok d \<Longrightarrow> evolves d d'"
proof -
  assume ok: "rejectPayment pid reason d = Inr (p, d')" and ids: "ids_ok d"
  obtain c where c: "findPaymentById d pid = Some c" "pm_status c = PENDING_APPROVAL"
    "payments d' = upd_where (\<lambda>p. pm_id p = pid) (\<lambda>p. p\<lparr>pm_status := REJECTED, pm_rejectedReason := reason\<rparr>) (payments d)"
    using ok by (auto simp: rejectPayment_def rejectPaymentBody_def effect_simps Let_def setActiveSelections_def
        split: option.splits if_splits)
  show ?thesis
  proof (rule evolves_upd [OF c(3)], intro conjI)
    fix x assume "x \<in> set (payments d)" "pm_id x = pid"
    then have "x = c" using payment_found [OF ids] c(1) by force
    then show "mayBecome (pm_status x) (pm_status (x\<lparr>pm_status := REJECTED, pm_rejectedReason := reason\<rparr>))"
      using c(2) by simp
  qed (simp add: paymentIdentity_def)
qed

lemma approve_evolves:
  assumes inv: "fin_inv d" and p: "findPaymentById d (ap_paymentId q) = Some p" "ap_amount q = pm_amount p"
    and ok: "approvePayment now q d = Inr (r, d')"
  shows "payments d' = upd_where (\<lambda>x. pm_id x = ap_paymentId q) (markApproved now q) (payments d)"
    and "evolves d d'"
proof -
  note i = fin_invD [OF inv] and pend = approve_pending(1) [OF ok p(1)]
  show pay: "payments d' = upd_where (\<lambda>x. pm_id x = ap_paymentId q) (markApproved now q) (payments d)"
  proof (cases "pm_selectionMode p = EXPLICIT_SELECTION")
    case True
    obtain d1 where d1: "pays (pm_id p) (map selPair (selectionsOf d (pm_id p))) d d1"
      "postPayment now q (explicitTables now q d1) = Inr d'"
      using approveExplicit_tables [OF inv p(1) pend True approve_pending(3) [OF ok p(1) True]] by blast
    note fr = frameD [of d1 d, OF d1(1) [unfolded pays_def, THEN conjunct2, THEN conjunct1]]
    show ?thesis
      using postPayment_steps [OF d1(2)] posting(4) fr by (metis explicitTables_def setActiveSelections_payments setPayment_frame(12))
  next
    case False
    let ?d0 = "setPayment (ap_paymentId q) (markApproved now q) d"
    obtain d2 where d2: "settleAutomatically q ?d0 =
        (if autoRest d q > 0 then creditUpsert (ap_unitId q) (ap_buildingId q) (autoRest d q) d2 else d2)"
      "pays (pm_id p) (autoItems d q @ autoAdjs d q) ?d0 d2"
      using approveAuto_tables [OF inv p(1) pend False p(2), of now] by blast
    note fr = frameD [of d2 ?d0, OF d2(2) [unfolded pays_def, THEN conjunct2, THEN conjunct1]]
    have "payments d' = payments (settleAutomatically q ?d0)"
      using postPayment_steps [OF approve_pending(4) [OF ok p(1) False]] posting(4) by metis
    with d2(1) fr show ?thesis by simp
  qed
  show "evolves d d'"
  proof (rule evolves_upd [OF pay], intro conjI)
    fix x assume "x \<in> set (payments d)" "pm_id x = ap_paymentId q"
    then have "x = p" using payment_found [OF i(1)] p(1) by force
    then show "mayBecome (pm_status x) (pm_status (markApproved now q x))" using pend by (simp add: markApproved_def)
  qed (simp add: paymentIdentity_def markApproved_def)
qed

lemma reverse_evolves:
  assumes inv: "fin_inv d" and ok: "reversePayment now q d = Inr (r, d')"
  shows "evolves d d'"
proof -
  obtain p where p: "findPaymentById d (rv_paymentId q) = Some p" "pm_status p = APPROVED"
    using reversePayment_steps [OF ok] by blast
  show ?thesis
  proof (rule evolves_upd [OF reverse_effect(5) [OF inv ok]], intro conjI)
    fix x assume "x \<in> set (payments d)" "pm_id x = rv_paymentId q"
    then have "x = p" using payment_found [OF fin_invD(1) [OF inv]] p(1) by force
    then show "mayBecome (pm_status x) (pm_status (x\<lparr>pm_status := REVERSED, pm_reversedAt := Some now\<rparr>))"
      using p(2) by simp
  qed (simp add: paymentIdentity_def)
qed

lemma reports_evolve:
  "createPayment now pq d = Inr (p, d') \<Longrightarrow> evolves d d'"
  "createExplicitPayment now eq d = Inr (p, d') \<Longrightarrow> evolves d d'"
  by (auto simp: createPayment_def createPaymentBody_def createExplicitPayment_def createExplicitPaymentBody_def
      effect_simps Let_def take_id_def split: option.splits if_splits intro!: evolves_append)

lemma fin_step_evolves: "fin_step d d' \<Longrightarrow> fin_inv d \<Longrightarrow> evolves d d'"
proof (induction rule: fin_step.induct)
  case (refund now rq d r d')
  then show ?case using createRefund_fails fin_invD(5) by blast
next
  case (approve now aq d p' d' p)
  then show ?case using approve_evolves(2) by blast
next
  case (reject pid reason d p d')
  then show ?case using reject_evolves fin_invD(1) by blast
qed (blast intro: evolves_same bodies_payments issue_payments corrections_payments expenses_payments
      reverse_evolves reports_evolve)+

lemma fin_steps_evolve: "fin_step\<^sup>*\<^sup>* d d' \<Longrightarrow> fin_inv d \<Longrightarrow> evolves d d' \<and> fin_inv d'"
  by (induction rule: rtranclp_induct) (auto intro: fin_step_inv evolves_trans fin_step_evolves)

end
