(* ===== verification/Charge_Effects.thy ===== *)
theory Charge_Effects
  imports Payment_Effects
begin

text \<open>
  What the remaining transactions do: reporting a payment and repeating the report, credit
  at issue time, waivers, opening-balance corrections, expenses.
\<close>

section \<open>Reporting by amount\<close>

lemma createPayment_new:
  assumes "createPayment now q d = Inr (r, d')"
    and "findByIdempotencyKey d (cpp_payerId q) (cpp_buildingId q) (cpp_idempotencyKey q) = None"
  shows "cpp_isManualAmount q \<or> cpp_amount q \<le> remainingPayable (computeDebtSnapshot d (cpp_unitId q))"
    "r = newPayment now (fresh_id d) (cpp_buildingId q) (cpp_unitId q) (cpp_fundId q) (cpp_payerId q)
      (cpp_amount q) (cpp_method q) LEGACY_AUTOMATIC (cpp_idempotencyKey q) (cpp_reference q) (cpp_note q)"
    "d' = take_id (d\<lparr>payments := payments d @ [r]\<rparr>)" "int4_ok d'"
  using assms by (auto simp: createPayment_def createPaymentBody_def effect_simps Let_def split: if_splits)

lemma snapshot_after_report:
  assumes "pm_status p = PENDING_APPROVAL"
  shows "computeDebtSnapshot (take_id (d\<lparr>payments := payments d @ [p]\<rparr>)) uid =
    buildDebtSnapshot (unpaidItems d uid) (positiveAdjustments d uid) (creditOf d uid)
      (pendingPayments d uid @ (if pm_unitId p = uid then [p] else []))"
  using assms
  by (auto simp: computeDebtSnapshot_def take_id_def unpaidItems_def collectable_def findChargeBatchById_def
      positiveAdjustments_def creditOf_def pendingPayments_def)

lemma report_uses_up_payable:
  assumes ok: "createPayment now q d = Inr (r, d')"
    and new: "findByIdempotencyKey d (cpp_payerId q) (cpp_buildingId q) (cpp_idempotencyKey q) = None"
    and q: "\<not> cpp_isManualAmount q" "0 < cpp_amount q"
  shows "remainingPayable (computeDebtSnapshot d' (cpp_unitId q)) =
    remainingPayable (computeDebtSnapshot d (cpp_unitId q)) - cpp_amount q"
proof -
  note n = createPayment_new [OF ok new]
  have "pm_status r = PENDING_APPROVAL" "pm_amount r = cpp_amount q" "pm_unitId r = cpp_unitId q"
    unfolding n(2) by (simp_all add: newPayment_def)
  with n(1) q show ?thesis
    unfolding n(3) snapshot_after_report [OF \<open>pm_status r = PENDING_APPROVAL\<close>]
    by (simp add: computeDebtSnapshot_def buildDebtSnapshot_def Let_def)
qed

lemma find_append: "find P (xs @ ys) = (case find P xs of Some x \<Rightarrow> Some x | None \<Rightarrow> find P ys)"
  by (induction xs) auto

lemma report_replay:
  assumes ok: "createPayment now q d = Inr (r, d')"
  shows "createPayment now' q d' = Inr (r, d')"
proof (cases "findByIdempotencyKey d (cpp_payerId q) (cpp_buildingId q) (cpp_idempotencyKey q)")
  case None
  note n = createPayment_new [OF ok this]
  have "findByIdempotencyKey d' (cpp_payerId q) (cpp_buildingId q) (cpp_idempotencyKey q) = Some r"
    using None unfolding n(3) n(2) findByIdempotencyKey_def by (simp add: find_append newPayment_def take_id_def)
  with n(4) show ?thesis
    by (simp add: createPayment_def transaction_def createPaymentBody_def) (simp add: n(2) newPayment_def)
next
  case (Some p)
  with ok show ?thesis
    by (auto simp: createPayment_def createPaymentBody_def effect_simps transaction_def split: if_splits)
qed

section \<open>Reporting against selected obligations\<close>

lemma mset_of_lookup:
  assumes "distinct (map key xs)" "length (filter (\<lambda>x. key x \<in> set ks) xs) = length ks"
  shows "mset (map key (filter (\<lambda>x. key x \<in> set ks) xs)) = mset ks"
proof -
  let ?ys = "map key (filter (\<lambda>x. key x \<in> set ks) xs)"
  have dy: "distinct ?ys" using assms(1) by (simp add: distinct_map_filter)
  have sub: "set ?ys \<subseteq> set ks" by auto
  have "card (set ?ys) = length ks" using distinct_card [OF dy] assms(2) by simp
  moreover have "card (set ?ys) \<le> card (set ks)" using sub by (simp add: card_mono)
  ultimately have c: "card (set ks) = length ks" using card_length [of ks] by linarith
  then have "distinct ks" by (rule card_distinct)
  moreover have "set ?ys = set ks" using card_subset_eq [OF _ sub] c \<open>card (set ?ys) = length ks\<close> by simp
  ultimately show ?thesis using dy set_eq_iff_mset_eq_distinct by blast
qed

lemma targets_split:
  "mset (map CHARGE_ITEM (chargeIdsOf ts)) + mset (map ADJUSTMENT_OB (adjustmentIdsOf ts)) = mset ts"
  by (induction ts) (auto simp: chargeIdsOf_def adjustmentIdsOf_def split: obligation.splits)

lemma newSelections_targets:
  "map ds_target (newSelections pid its adjs) =
    map (\<lambda>i. CHARGE_ITEM (ci_id i)) its @ map (\<lambda>a. ADJUSTMENT_OB (aj_id a)) adjs"
  by (simp add: newSelections_def comp_def)

lemma explicitChecks_all:
  assumes "ids_ok d" "explicitChecks q d = Inr fundId"
  shows "mset (map ds_target (newSelections pid (selectedItems d q) (selectedAdjustments d q))) = mset (epp_targets q)"
proof -
  have len: "length (selectedItems d q) = length (chargeIdsOf (epp_targets q))"
    "length (selectedAdjustments d q) = length (adjustmentIdsOf (epp_targets q))"
    using assms(2) by (auto simp: explicitChecks_def Let_def effect_simps)
  have "mset (map ci_id (selectedItems d q)) = mset (chargeIdsOf (epp_targets q))"
    "mset (map aj_id (selectedAdjustments d q)) = mset (adjustmentIdsOf (epp_targets q))"
    using len mset_of_lookup ids_ok_distinct(3,5) [OF assms(1)]
    unfolding selectedItems_def selectedAdjustments_def by blast+
  then have "mset (map CHARGE_ITEM (map ci_id (selectedItems d q))) = mset (map CHARGE_ITEM (chargeIdsOf (epp_targets q)))"
    "mset (map ADJUSTMENT_OB (map aj_id (selectedAdjustments d q))) = mset (map ADJUSTMENT_OB (adjustmentIdsOf (epp_targets q)))"
    by (metis mset_map)+
  then show ?thesis using targets_split [of "epp_targets q"] by (simp add: newSelections_targets comp_def)
qed

lemma explicit_report_effect:
  assumes inv: "fin_inv d" and ok: "createExplicitPayment now q d = Inr (r, d')"
    and new: "findByIdempotencyKey d (epp_payerId q) (epp_buildingId q) (epp_idempotencyKey q) = None"
  shows "mset (map ds_target (selectionsOf d' (pm_id r))) = mset (epp_targets q)"
    "s \<in> set (selectionsOf d' (pm_id r)) \<Longrightarrow> ds_state s = Some ACTIVE"
    "pm_amount r = sum_of ds_selectedAmount (selectionsOf d' (pm_id r))"
    "pm_status r = PENDING_APPROVAL" "findByIdempotencyKey d' (epp_payerId q) (epp_buildingId q) (epp_idempotencyKey q) = Some r"
    "items d' = items d" "adjustments d' = adjustments d" "int4_ok d'"
proof -
  obtain fundId where c: "explicitChecks q d = Inr fundId" "r = explicitPayment now q fundId d"
    "d' = take_id (d\<lparr>payments := payments d @ [r],
       selections := selections d @ newSelections (fresh_id d) (selectedItems d q) (selectedAdjustments d q)\<rparr>)"
    using createExplicitPayment_new [OF new ok] by blast
  let ?news = "newSelections (fresh_id d) (selectedItems d q) (selectedAdjustments d q)"
  have id: "pm_id r = fresh_id d" by (simp add: c(2) explicitPayment_def newPayment_def)
  have "filter (\<lambda>s. ds_paymentId s = fresh_id d) (selections d) = []"
    using selections_fresh [OF inv] by (auto simp: filter_empty_conv fresh_id_def)
  moreover have "filter (\<lambda>s. ds_paymentId s = fresh_id d) ?news = ?news"
    by (auto simp: filter_id_conv newSelections_simps)
  ultimately have sel: "selectionsOf d' (pm_id r) = ?news"
    by (simp add: selectionsOf_def c(3) take_id_def id)
  show "mset (map ds_target (selectionsOf d' (pm_id r))) = mset (epp_targets q)"
    unfolding sel by (rule explicitChecks_all [OF fin_invD(1) [OF inv] c(1)])
  show "s \<in> set (selectionsOf d' (pm_id r)) \<Longrightarrow> ds_state s = Some ACTIVE"
    unfolding sel newSelections_simps by auto
  show "pm_amount r = sum_of ds_selectedAmount (selectionsOf d' (pm_id r))"
    unfolding sel by (simp add: sum_newSelections c(2) explicitPayment_def newPayment_def)
  show "pm_status r = PENDING_APPROVAL" by (simp add: c(2) explicitPayment_def newPayment_def)
  show "findByIdempotencyKey d' (epp_payerId q) (epp_buildingId q) (epp_idempotencyKey q) = Some r"
    using new unfolding c(3) findByIdempotencyKey_def
    by (simp add: find_append take_id_def) (simp add: c(2) explicitPayment_def newPayment_def)
  show "items d' = items d" "adjustments d' = adjustments d" by (simp_all add: c(3) take_id_def)
  show "int4_ok d'" using ok by (simp add: createExplicitPayment_def effect_simps)
qed

lemma explicit_report_replay:
  assumes inv: "fin_inv d" and ok: "createExplicitPayment now q d = Inr (r, d')"
  shows "createExplicitPayment now' q d' = Inr (r, d')"
proof (cases "findByIdempotencyKey d (epp_payerId q) (epp_buildingId q) (epp_idempotencyKey q)")
  case None
  note e = explicit_report_effect [OF inv ok None]
  obtain fundId where "r = explicitPayment now q fundId d" using createExplicitPayment_new [OF None ok] by blast
  then have "sameExplicitRequest d' q r"
    using e(1) by (simp add: sameExplicitRequest_def explicitPayment_def newPayment_def)
  with e(5,8) show ?thesis
    by (simp add: createExplicitPayment_def transaction_def createExplicitPaymentBody_def)
next
  case (Some p)
  with ok show ?thesis
    by (auto simp: createExplicitPayment_def createExplicitPaymentBody_def effect_simps transaction_def split: if_splits)
qed

section \<open>Waivers and credit on the items of a unit\<close>

text \<open>What has been paid or waived on the charge items of a unit, in all.\<close>

definition unitPaid :: "fin_db \<Rightarrow> id \<Rightarrow> money" where
  "unitPaid d uid = sum_of ci_paidAmount (filter (\<lambda>i. ci_unitId i = uid) (items d))"

lemma sum_of_filter: "sum_of f (filter P xs) = sum_of (\<lambda>x. if P x then f x else 0) xs"
  by (induction xs) auto

lemma unitPaid_cong: "items d' = items d \<Longrightarrow> unitPaid d' uid = unitPaid d uid"
  by (simp add: unitPaid_def)

lemma unitPaid_waiveItem:
  assumes "distinct (map ci_id (items d))" "sees_item d i"
  shows "unitPaid (waiveItem i n d) uid = unitPaid d uid + (if ci_unitId i = uid then n else 0)"
proof -
  obtain j where j: "j \<in> set (items d)" "itemIdentity j = itemIdentity i" "ci_paidAmount j = ci_paidAmount i"
    using assms(2) by (auto simp: sees_item_def)
  then have ij: "ci_id j = ci_id i" "ci_unitId j = ci_unitId i" by (simp_all add: itemIdentity_def)
  show ?thesis
    unfolding unitPaid_def waiveItem_def setItemPaid_def sum_of_filter
    by (simp add: sum_of_upd_key [OF assms(1) j(1) ij(1)] ij j(3))
qed

lemma creditOf_takeCredit:
  assumes "count_where (\<lambda>c. cr_unitId c = uid \<and> n \<le> cr_balance c) (credits d) = 1" "distinct (map cr_unitId (credits d))"
  shows "creditOf (takeCredit uid n d) x = creditOf d x - (if x = uid then n else 0)"
proof -
  have "\<exists>c\<in>set (credits d). cr_unitId c = uid \<and> n \<le> cr_balance c"
    using assms(1) count_where_pos [of "\<lambda>c. cr_unitId c = uid \<and> n \<le> cr_balance c" "credits d"] by simp
  then obtain c where c: "c \<in> set (credits d)" "cr_unitId c = uid" "n \<le> cr_balance c" by blast
  then have "find_row cr_unitId uid (credits d) = Some c" using find_row_distinct [OF assms(2)] by metis
  with c(3) show ?thesis
    by (auto simp: creditOf_def takeCredit_def find_row_upd_same c(2) split: option.splits dest: find_row_Some)
qed

lemma applyCreditToItem_moves:
  assumes inv: "fin_inv d" and ok: "applyCreditToItem now q fid i d = Inr d'" and sees: "sees_item d i"
  shows "creditOf d' uid + unitPaid d' uid = creditOf d uid + unitPaid d uid" "creditOf d' uid \<le> creditOf d uid"
proof -
  have "creditOf d' uid + unitPaid d' uid = creditOf d uid + unitPaid d uid \<and> creditOf d' uid \<le> creditOf d uid"
  proof (cases "d' = d")
    case False
    obtain c :: creditBalance where pos: "0 < cr_balance c" "0 < itemOutstanding i"
      and cnt: "count_where (\<lambda>r. cr_unitId r = ci_unitId i \<and> min (cr_balance c) (itemOutstanding i) \<le> cr_balance r)
        (credits (waiveItem i (min (cr_balance c) (itemOutstanding i)) d)) = 1"
      and l: "addLedger now (is_buildingId q) fid CREDIT_APPLIED CREDIT (min (cr_balance c) (itemOutstanding i))
        RefChargeItem (ci_id i) (Some (is_actorId q))
        (takeCredit (ci_unitId i) (min (cr_balance c) (itemOutstanding i))
          (waiveItem i (min (cr_balance c) (itemOutstanding i)) d)) = Inr d'"
      using ok False by (auto simp: applyCreditToItem_def Let_def not_le split: option.splits if_splits)
    let ?n = "min (cr_balance c) (itemOutstanding i)"
    note fr = frameD [OF frame_pays(2) [of i ?n d]]
    have same: "credits d' = credits (takeCredit (ci_unitId i) ?n (waiveItem i ?n d))" "items d' = items (waiveItem i ?n d)"
      using l by (auto simp: addLedger_Inr_iff take_id_def takeCredit_def)
    have dist: "distinct (map cr_unitId (credits (waiveItem i ?n d)))"
      using fin_invD(3) [OF inv] fr(7) by (simp add: credits_ok_def)
    have "creditOf d' uid = creditOf d uid - (if uid = ci_unitId i then ?n else 0)"
      using creditOf_cong [OF same(1)] creditOf_takeCredit [OF cnt dist, of uid] creditOf_cong [OF fr(7), of uid]
      by simp
    moreover have "unitPaid d' uid = unitPaid d uid + (if ci_unitId i = uid then ?n else 0)"
      using unitPaid_cong [OF same(2)] unitPaid_waiveItem [OF ids_ok_distinct(3) [OF fin_invD(1) [OF inv]] sees]
      by simp
    ultimately show ?thesis using pos by auto
  qed simp
  then show "creditOf d' uid + unitPaid d' uid = creditOf d uid + unitPaid d uid"
    "creditOf d' uid \<le> creditOf d uid" by auto
qed

lemma applyCredits_moves:
  assumes "fin_inv d" "applyCredits now q fid is d = Inr d'" "distinct (map ci_id is)" "\<forall>i\<in>set is. sees_item d i"
  shows "creditOf d' uid + unitPaid d' uid = creditOf d uid + unitPaid d uid \<and> creditOf d' uid \<le> creditOf d uid"
  using assms
proof (induction "is" arbitrary: d)
  case (Cons i "is")
  then obtain d1 where d1: "applyCreditToItem now q fid i d = Inr d1" "applyCredits now q fid is d1 = Inr d'"
    by (auto simp: effect_simps)
  have "fin_inv d1 \<and> (\<forall>j. ci_id j \<noteq> ci_id i \<longrightarrow> sees_item d j \<longrightarrow> sees_item d1 j)"
    using applyCreditToItem_inv [OF Cons.prems(1) d1(1)] Cons.prems(4) by simp
  moreover have "\<forall>j\<in>set is. ci_id j \<noteq> ci_id i" using Cons.prems(3) by (simp add: image_iff) metis
  ultimately have "creditOf d' uid + unitPaid d' uid = creditOf d1 uid + unitPaid d1 uid \<and> creditOf d' uid \<le> creditOf d1 uid"
    using Cons.IH [OF _ d1(2)] Cons.prems(3,4) by simp
  then show ?case using applyCreditToItem_moves [OF Cons.prems(1) d1(1), of uid] Cons.prems(4) by simp
qed simp

lemma writeResolutions_moves:
  "writeResolutions rs d = Inr d' \<Longrightarrow> credits d' = credits d \<and> unitPaid d' uid = unitPaid d uid"
proof (induction rs arbitrary: d)
  case (Cons r rs)
  have "unitPaid (setResolvedPayer iid t d) uid = unitPaid d uid" for iid t
    unfolding unitPaid_def setResolvedPayer_def sum_of_filter by (simp, rule sum_of_upd_same) simp
  with Cons show ?case
    by (force simp: bind_r_Inr_iff setResolvedPayer_def unitPaid_def split: if_splits dest: addPayers_frame)
qed simp

lemma issue_moves_credit:
  assumes inv: "fin_inv d" and ok: "issueChargeBatch now q d = Inr (r, d')"
  shows "creditOf d' uid + unitPaid d' uid = creditOf d uid + unitPaid d uid \<and> creditOf d' uid \<le> creditOf d uid"
proof -
  let ?its = "itemsOfBatch d (is_chargeBatchId q)" and ?d0 = "setBatch (is_chargeBatchId q) (markIssued now) d"
  obtain b :: chargeBatch and d1 d2 where d1: "writeResolutions (is_payerResolutions q) ?d0 = Inr d1"
    and d2: "applyCredits now q (cb_fundId b) ?its d1 = Inr d2"
    and d3: "addLedger now (is_buildingId q) (cb_fundId b) CHARGE DEBIT (cb_totalAmount b) RefChargeBatch
      (is_chargeBatchId q) (Some (is_actorId q)) d2 = Inr d'"
    using ok by (auto simp: issueChargeBatch_def issueChargeBatchBody_def transaction_Inr_iff
        bind_r_Inr_iff assert_r_Inr_iff Let_def split: option.splits)
  have inv0: "fin_inv ?d0" by (rule fin_inv_setBatch [OF inv]) (simp add: markIssued_def)
  note w = writeResolutions_inv [OF inv0 d1]
  have "\<forall>i\<in>set ?its. sees_item ?d0 i"
    by (auto intro!: sees_item_mem simp: itemsOfBatch_def setBatch_def)
  moreover have "distinct (map ci_id ?its)"
    using ids_ok_distinct(3) [OF fin_invD(1) [OF inv]] by (simp add: itemsOfBatch_def distinct_map_filter)
  ultimately have "creditOf d2 uid + unitPaid d2 uid = creditOf d1 uid + unitPaid d1 uid \<and> creditOf d2 uid \<le> creditOf d1 uid"
    using applyCredits_moves [OF _ d2] w by blast
  moreover have "creditOf d' uid = creditOf d2 uid" "unitPaid d' uid = unitPaid d2 uid"
    using d3 by (auto simp: addLedger_Inr_iff take_id_def creditOf_def unitPaid_def)
  moreover have "creditOf d1 uid = creditOf d uid" "unitPaid d1 uid = unitPaid d uid"
    using writeResolutions_moves [OF d1, of uid] by (simp_all add: setBatch_def creditOf_def unitPaid_def)
  ultimately show ?thesis by simp
qed

text \<open>A negative adjustment waives item debt up to its size; what exceeds the debt is dropped.\<close>

lemma waive_plan_unitPaid:
  assumes "distinct (map ci_id (items d))" "distinct (map (\<lambda>p. ci_id (fst p)) ps)"
    "\<forall>p\<in>set ps. sees_item d (fst p) \<and> ci_unitId (fst p) = uid"
  shows "unitPaid (apply_plan waiveItem ps d) uid = unitPaid d uid + sum_of snd ps"
  using assms
proof (induction ps arbitrary: d)
  case (Cons p ps)
  obtain i n where p: "p = (i, n)" by (cases p)
  have "distinct (map ci_id (items (waiveItem i n d)))"
    using Cons.prems(1) by (simp add: waiveItem_def)
  moreover have "\<forall>p\<in>set ps. sees_item (waiveItem i n d) (fst p) \<and> ci_unitId (fst p) = uid"
    using Cons.prems(2,3) pay_sees(2) by (fastforce simp: p image_iff)
  ultimately show ?case
    using Cons.IH [of "waiveItem i n d"] Cons.prems unitPaid_waiveItem [of d i n uid] by (simp add: p)
qed simp

lemma waiver_effect:
  fixes uid :: id
  assumes inv: "fin_inv d" and n: "0 \<le> n"
  defines "d' \<equiv> snd (settle_loop itemOutstanding waiveItem (outstandingItems d uid) n d)"
  shows "unitPaid d' uid = unitPaid d uid + min n (chargeItemDebt (computeDebtSnapshot d uid))"
proof -
  let ?ps = "settle_plan itemOutstanding (outstandingItems d uid) n"
  note i = fin_invD [OF inv]
  have "sees_item d (fst p) \<and> ci_unitId (fst p) = uid" if "p \<in> set ?ps" for p
  proof -
    have "fst p \<in> set (outstandingItems d uid)"
      using settle_plan_bounds [of "fst p" "snd p" itemOutstanding "outstandingItems d uid" n] that by simp
    then show ?thesis by (auto intro: sees_item_mem simp: outstandingItems_def unpaidItems_def)
  qed
  then have "\<forall>p\<in>set ?ps. sees_item d (fst p) \<and> ci_unitId (fst p) = uid" by blast
  moreover have "distinct (map (\<lambda>p. ci_id (fst p)) ?ps)"
    by (rule settle_plan_subseq) (rule outstandingItems_distinct [OF i(1)])
  ultimately have "unitPaid d' uid = unitPaid d uid + sum_of snd ?ps"
    unfolding d'_def settle_loop_plan snd_conv using waive_plan_unitPaid [OF ids_ok_distinct(3) [OF i(1)]] by blast
  moreover have "outstanding_total itemOutstanding (unpaidItems d uid) = sum_of itemOutstanding (unpaidItems d uid)"
    using i(2) by (intro outstanding_total_nn) (auto simp: unpaidItems_def rows_ok_def item_ok_outstanding)
  moreover have "chargeItemDebt (computeDebtSnapshot d uid) = sum_of itemOutstanding (unpaidItems d uid)"
    by (simp add: computeDebtSnapshot_def buildDebtSnapshot_def Let_def itemOutstanding_def [abs_def])
  ultimately show ?thesis
    using settle_plan_total [OF n, of itemOutstanding "outstandingItems d uid"]
    by (simp add: outstandingItems_def)
qed

lemma adjustment_waives:
  assumes inv: "fin_inv d" and neg: "ja_amount q < 0" and ok: "createAdjustment now q d = Inr (r, d')"
  shows "unitPaid d' (ja_unitId q) =
      unitPaid d (ja_unitId q) + min \<bar>ja_amount q\<bar> (chargeItemDebt (computeDebtSnapshot d (ja_unitId q)))"
    "creditOf d' uid = creditOf d uid" "funds d' = funds d"
proof -
  obtain a d1 where a: "insertAdjustment now q d = Inr (a, d1)"
    and l: "ledgerAdjustment now q (aj_id a)
      (snd (settle_loop itemOutstanding waiveItem (outstandingItems d1 (ja_unitId q)) \<bar>ja_amount q\<bar> d1)) = Inr d'"
    using ok neg by (auto simp: createAdjustment_def createAdjustmentBody_def effect_simps Let_def)
  let ?d2 = "snd (settle_loop itemOutstanding waiveItem (outstandingItems d1 (ja_unitId q)) \<bar>ja_amount q\<bar> d1)"
  have d1: "d1 = take_id (d\<lparr>adjustments := adjustments d @ [a]\<rparr>)"
    using a by (auto simp: insertAdjustment_def Let_def split: if_splits)
  have inv1: "fin_inv d1" using insertAdjustment_inv [OF inv a] by simp
  have post: "items d' = items ?d2" "credits d' = credits ?d2" "funds d' = funds ?d2"
    using l by (auto simp: ledgerAdjustment_def addLedger_Inr_iff take_id_def)
  have "chargeItemDebt (computeDebtSnapshot d1 u) = chargeItemDebt (computeDebtSnapshot d u)" for u
    by (simp add: d1 computeDebtSnapshot_def buildDebtSnapshot_def Let_def take_id_def unpaidItems_def
        collectable_def findChargeBatchById_def)
  moreover have "unitPaid d1 u = unitPaid d u" for u by (simp add: d1 take_id_def unitPaid_def)
  ultimately show "unitPaid d' (ja_unitId q) =
      unitPaid d (ja_unitId q) + min \<bar>ja_amount q\<bar> (chargeItemDebt (computeDebtSnapshot d (ja_unitId q)))"
    using waiver_effect [OF inv1, of "\<bar>ja_amount q\<bar>" "ja_unitId q"] unitPaid_cong [OF post(1)] by simp
  have "credits ?d2 = credits d1" "funds ?d2 = funds d1"
    by (rule settle_loop_keeps, simp add: write_defs)+
  then show "creditOf d' uid = creditOf d uid" "funds d' = funds d"
    using post by (simp_all add: d1 take_id_def creditOf_def)
qed

section \<open>Opening-balance corrections\<close>

lemma corrections_keep:
  "getUnitOpeningBalanceCorrectionTotal (waiveAdjustment a n d) uid = getUnitOpeningBalanceCorrectionTotal d uid"
  unfolding getUnitOpeningBalanceCorrectionTotal_def correctionsOf_def waiveAdjustment_def setAdjPaid_def sum_of_filter
  by (simp, rule sum_of_upd_same) simp

lemma corrections_cong:
  "adjustments d' = adjustments d \<Longrightarrow>
    getUnitOpeningBalanceCorrectionTotal d' uid = getUnitOpeningBalanceCorrectionTotal d uid"
  by (simp add: getUnitOpeningBalanceCorrectionTotal_def correctionsOf_def)

lemma adjustments_upsert [simp]: "adjustments (creditUpsert uid bid n d) = adjustments d"
  by (simp add: creditUpsert_def split: option.splits)

lemma downward_keeps:
  "getUnitOpeningBalanceCorrectionTotal (applyDownwardCorrection q aid n d) uid =
    getUnitOpeningBalanceCorrectionTotal d uid"
proof -
  have "getUnitOpeningBalanceCorrectionTotal (snd (settle_loop f waiveAdjustment rs n d)) uid =
      getUnitOpeningBalanceCorrectionTotal d uid" for f rs
    by (rule settle_loop_keeps) (rule corrections_keep)
  then show ?thesis
    unfolding applyDownwardCorrection_def
    by (auto simp: split_beta intro: trans [OF corrections_cong [OF adjustments_upsert]])
qed

lemma correction_reaches_target:
  assumes "applyOpeningBalanceCorrection now q d = Inr (c, d')"
  shows "getUnitOpeningBalanceCorrectionTotal d' (oc_unitId q) = oc_targetBalance q"
    "cor_delta c = oc_targetBalance q - getUnitOpeningBalanceCorrectionTotal d (oc_unitId q)" "cor_delta c \<noteq> 0"
proof -
  define delta where "delta = oc_targetBalance q - getUnitOpeningBalanceCorrectionTotal d (oc_unitId q)"
  have "applyOpeningBalanceCorrectionBody now q d = Inr (c, d')"
    using assms by (simp add: applyOpeningBalanceCorrection_def transaction_Inr_iff)
  note body = this [unfolded applyOpeningBalanceCorrectionBody_def Let_def, folded delta_def]
  obtain a d1 where a: "insertAdjustment now (correctionAdjustment q delta) d = Inr (a, d1)"
    and l: "ledgerAdjustment now (correctionAdjustment q delta) (aj_id a)
         (if delta < 0 then applyDownwardCorrection q (aj_id a) \<bar>delta\<bar> d1 else d1) = Inr d'"
    and c: "cor_delta c = delta" "delta \<noteq> 0"
    using body by (auto simp: bind_r_Inr_iff assert_r_Inr_iff)
  show "cor_delta c = oc_targetBalance q - getUnitOpeningBalanceCorrectionTotal d (oc_unitId q)" "cor_delta c \<noteq> 0"
    using c by (simp_all add: delta_def)
  have "a = newAdjustment now (fresh_id d) (correctionAdjustment q delta)"
    "d1 = take_id (d\<lparr>adjustments := adjustments d @ [a]\<rparr>)"
    using a by (auto simp: insertAdjustment_def Let_def split: if_splits)
  then have "getUnitOpeningBalanceCorrectionTotal d1 (oc_unitId q) = oc_targetBalance q"
    by (simp add: getUnitOpeningBalanceCorrectionTotal_def correctionsOf_def take_id_def newAdjustment_def
        correctionAdjustment_def delta_def)
  moreover have "adjustments d' = adjustments (if delta < 0 then applyDownwardCorrection q (aj_id a) \<bar>delta\<bar> d1 else d1)"
    using l by (auto simp: ledgerAdjustment_def addLedger_Inr_iff take_id_def)
  ultimately show "getUnitOpeningBalanceCorrectionTotal d' (oc_unitId q) = oc_targetBalance q"
    using corrections_cong downward_keeps by (metis (full_types))
qed

section \<open>Expenses\<close>

lemma createExpense_effect:
  assumes "createExpense now q d = Inr (e, d')"
  shows "xp_amount q \<le> balanceOf d (xp_fundId q)"
    "balanceOf d' x = balanceOf d x - (if x = xp_fundId q then xp_amount q else 0)"
    "ex_status e = POSTED" "ex_amount e = xp_amount q" "ex_fundId e = xp_fundId q" "e \<in> set (expenses d')"
proof -
  obtain f d1 d2 where f: "findFundById d (xp_fundId q) = Some f" "\<not> fd_balance f < xp_amount q"
    and e: "e = newExpense now (fresh_id d) q" and d1: "d1 = take_id (d\<lparr>expenses := expenses d @ [e]\<rparr>)"
    and l: "addLedger now (xp_buildingId q) (xp_fundId q) EXPENSE DEBIT (xp_amount q) RefExpense
        (ex_id e) (Some (xp_createdById q)) d1 = Inr d2" "fundIncrement (xp_fundId q) (- xp_amount q) d2 = Inr d'"
    using assms by (auto simp: createExpense_def createExpenseBody_def transaction_Inr_iff bind_r_Inr_iff
        assert_r_Inr_iff Let_def split: option.splits)
  note post = posting [OF l]
  show "xp_amount q \<le> balanceOf d (xp_fundId q)" using f by (simp add: balanceOf_def)
  have "balanceOf d1 x = balanceOf d x" by (rule balanceOf_cong) (simp add: d1 take_id_def)
  then show "balanceOf d' x = balanceOf d x - (if x = xp_fundId q then xp_amount q else 0)"
    using post(9) [of x] by simp
  show "ex_status e = POSTED" "ex_amount e = xp_amount q" "ex_fundId e = xp_fundId q"
    by (simp_all add: e newExpense_def)
  show "e \<in> set (expenses d')" using post(8) by (simp add: d1 take_id_def)
qed

lemma voidExpense_effect:
  assumes "voidExpense now q d = Inr (e, d')"
  shows "balanceOf d' x = balanceOf d x + (if x = vp_fundId q then vp_amount q else 0)"
    "e \<in> set (expenses d')" "ex_id e = vp_expenseId q"
    "expenses d' = upd_where (\<lambda>e. ex_id e = vp_expenseId q \<and> ex_status e = POSTED) (markVoided now q) (expenses d)"
proof -
  let ?claim = "\<lambda>e. ex_id e = vp_expenseId q \<and> ex_status e = POSTED"
  let ?d1 = "d\<lparr>expenses := upd_where ?claim (markVoided now q) (expenses d)\<rparr>"
  obtain d2 where l: "addLedger now (vp_buildingId q) (vp_fundId q) EXPENSE CREDIT (vp_amount q) RefExpense
        (vp_expenseId q) (Some (vp_actorId q)) ?d1 = Inr d2" "fundIncrement (vp_fundId q) (vp_amount q) d2 = Inr d'"
    and e: "findExpenseById d' (vp_expenseId q) = Some e"
    using assms by (auto simp: voidExpense_def voidExpenseBody_def transaction_Inr_iff bind_r_Inr_iff
        assert_r_Inr_iff Let_def split: option.splits)
  note post = posting [OF l]
  show "balanceOf d' x = balanceOf d x + (if x = vp_fundId q then vp_amount q else 0)"
    using post(9) [of x] balanceOf_cong [of ?d1 d x] by simp
  show "e \<in> set (expenses d')" "ex_id e = vp_expenseId q"
    using e by (auto simp: findExpenseById_def)
  show "expenses d' = upd_where ?claim (markVoided now q) (expenses d)" using post(8) by simp
qed

text \<open>Nothing POSTED is left under the identifier, so a second void is refused.\<close>

lemma voidExpense_once:
  assumes "voidExpense now q d = Inr (e, d')" "vp_expenseId q' = vp_expenseId q"
  shows "voidExpense now' q' d' =
    Inl (ConflictError STR ''This expense is no longer POSTED (it may have already been voided).'')"
proof -
  let ?claim = "\<lambda>e. ex_id e = vp_expenseId q \<and> ex_status e = POSTED"
  have "count_where ?claim (upd_where ?claim (markVoided now q) xs) = 0" for xs
    by (induction xs) (auto simp: count_where_def markVoided_def)
  then show ?thesis
    using voidExpense_effect(4) [OF assms(1)]
    by (simp add: voidExpense_def voidExpenseBody_def transaction_def assms(2))
qed

section \<open>The automatic mode pays the oldest items first\<close>

lemma settle_plan_full_before:
  assumes "(r, a) \<in> set (settle_plan f (xs @ r # ys) n)" "r \<notin> set xs" "r \<notin> set ys" "x \<in> set xs" "0 < f x"
  shows "(x, f x) \<in> set (settle_plan f (xs @ r # ys) n)"
  using assms
proof (induction xs arbitrary: n)
  case (Cons y xs)
  have n: "0 < n" using Cons.prems(1) by (cases "n \<le> 0") auto
  show ?case
  proof (cases "f y \<le> 0")
    case True
    with Cons n show ?thesis by (auto simp: Let_def)
  next
    case False
    have tail: "(r, a) \<in> set (settle_plan f (xs @ r # ys) (n - min n (f y)))"
      using Cons.prems(1,2) n False by (auto simp: Let_def)
    then have "f y < n" by (cases "n \<le> f y") auto
    then show ?thesis using Cons.IH [OF tail] Cons.prems(2-5) n False tail by (auto simp: Let_def)
  qed
qed simp

lemma sorted_before:
  assumes "sorted (map k xs)" "x \<in> set xs" "y \<in> set xs" "k x < k y"
  shows "\<exists>as bs. xs = as @ y # bs \<and> x \<in> set as"
proof -
  obtain as bs where ab: "xs = as @ y # bs" using assms(3) split_list by fast
  have "x \<notin> set bs" using assms(1,4) ab by (auto simp: sorted_append)
  with assms(2,4) ab show ?thesis by auto
qed

lemma onTarget_mem:
  assumes "distinct (map fst pl)" "(ob, n) \<in> set pl" shows "onTarget pl ob = n"
  using assms
proof (induction pl)
  case (Cons p pl)
  have zero: "ob \<notin> fst ` set ps \<Longrightarrow> onTarget ps ob = 0" for ps :: "(obligation \<times> money) list"
    by (induction ps) auto
  from Cons zero [of pl] show ?case by (cases p) (auto simp: image_iff)
qed simp

lemma onTarget_zero: "ob \<notin> fst ` set pl \<Longrightarrow> onTarget pl ob = 0"
  by (induction pl) auto

lemma approve_oldest_first:
  assumes inv: "fin_inv d" and p: "findPaymentById d (ap_paymentId q) = Some p" "ap_amount q = pm_amount p"
    "pm_selectionMode p = LEGACY_AUTOMATIC" and ok: "approvePayment now q d = Inr (r, d')"
    and ij: "i \<in> set (outstandingItems d (ap_unitId q))" "j \<in> set (outstandingItems d (ap_unitId q))"
      "dueKey d i < dueKey d j" and later: "0 < listedOn (allocationsOf d' (pm_id p)) (CHARGE_ITEM (ci_id j))"
  shows "paidOf d' (CHARGE_ITEM (ci_id i)) = ci_amount i"
proof -
  note pm = findPayment_mem [OF p(1)] and inv' = fin_invD [OF inv]
  have mode: "pm_selectionMode p \<noteq> EXPLICIT_SELECTION" using p(3) by simp
  note ap = approve_pending(1) [OF ok p(1)] approve_pending(4) [OF ok p(1) mode]
  let ?d0 = "setPayment (ap_paymentId q) (markApproved now q) d" and ?pl = "autoItems d q @ autoAdjs d q"
  let ?s = "settleAutomatically q ?d0" and ?its = "outstandingItems d (ap_unitId q)"
  let ?ps = "settle_plan itemOutstanding ?its (ap_amount q)"
  obtain d2 where d2: "?s = (if autoRest d q > 0 then creditUpsert (ap_unitId q) (ap_buildingId q) (autoRest d q) d2 else d2)"
    "pays (pm_id p) ?pl ?d0 d2"
    using approveAuto_tables [OF inv p(1) ap(1) mode p(2), of now] by blast
  obtain dl where "addLedger now (ap_buildingId q) (ap_fundId q) PAYMENT CREDIT (ap_amount q) RefPayment
      (ap_paymentId q) (Some (ap_actorId q)) ?s = Inr dl" "fundIncrement (ap_fundId q) (ap_amount q) dl = Inr d'"
    using postPayment_steps [OF ap(2)] .
  note post = posting [OF this]
  have s: "items ?s = items d2" "adjustments ?s = adjustments d2" "allocations ?s = allocations d2"
    by (simp_all add: d2(1))
  note paid = paid_by_plan [OF inv pm [THEN conjunct1] ap(1) d2(2), of d', unfolded post s setPayment_frame, OF refl refl refl refl refl refl]
  have dist: "distinct (map ci_id ?its)" by (rule outstandingItems_distinct [OF inv'(1)])
  have plan: "autoItems d q = map (\<lambda>p. (CHARGE_ITEM (ci_id (fst p)), snd p)) ?ps"
    by (simp add: autoItems_def itemPlan_def)
  have adjs: "onTarget (autoAdjs d q) (CHARGE_ITEM x) = 0" for x
    by (rule onTarget_zero) (auto simp: autoAdjs_def adjPlan_def)
  have dp: "distinct (map fst (autoItems d q))"
  proof -
    have "distinct (map (\<lambda>p. ci_id (fst p)) ?ps)" by (rule settle_plan_subseq [OF dist])
    then show ?thesis by (auto simp: plan comp_def distinct_map inj_on_def)
  qed
  have "0 < onTarget (autoItems d q) (CHARGE_ITEM (ci_id j))"
    using later unfolding paid(1) listedOn_allocRow by (simp add: adjs)
  then have "CHARGE_ITEM (ci_id j) \<in> fst ` set (autoItems d q)" using onTarget_zero by force
  then obtain j' n where "(j', n) \<in> set ?ps" "ci_id j' = ci_id j" by (auto simp: plan)
  moreover have "j' = j" using calculation ij(2) dist settle_plan_bounds [of j' n]
    by (metis (no_types, lifting) distinct_map inj_onD)
  ultimately have jn: "(j, n) \<in> set ?ps" by simp
  have "sorted (map (dueKey d) ?its)" by (simp add: outstandingItems_def)
  then obtain as bs where ab: "?its = as @ j # bs" "i \<in> set as" using sorted_before ij by metis
  have "distinct ?its" using dist distinct_map by blast
  then have jj: "j \<notin> set as" "j \<notin> set bs" by (auto simp: ab)
  have row: "i \<in> set (items d)" using outstandingItems_sub [OF ij(1)] .
  then have paidi: "paidOf d (CHARGE_ITEM (ci_id i)) = ci_paidAmount i"
    by (simp add: paidOf_def item_found [OF inv'(1)])
  have nn: "0 \<le> itemOutstanding i" using inv'(2) row by (simp add: rows_ok_def item_ok_outstanding)
  have "onTarget (autoItems d q) (CHARGE_ITEM (ci_id i)) = itemOutstanding i"
  proof (cases "0 < itemOutstanding i")
    case True
    have "(i, itemOutstanding i) \<in> set ?ps"
      using settle_plan_full_before [OF jn [unfolded ab(1)] jj ab(2) True] unfolding ab(1) .
    then show ?thesis by (intro onTarget_mem [OF dp]) (force simp: plan)
  next
    case False
    have "CHARGE_ITEM (ci_id i) \<notin> fst ` set (autoItems d q)"
    proof
      assume "CHARGE_ITEM (ci_id i) \<in> fst ` set (autoItems d q)"
      then obtain i' m where im: "(i', m) \<in> set ?ps" "ci_id i' = ci_id i" by (auto simp: plan)
      then have "i' \<in> set ?its" "0 < itemOutstanding i'" using settle_plan_bounds [of i' m] by fastforce+
      moreover from this(1) im(2) have "i' = i" using ij(1) dist by (metis distinct_map inj_onD)
      ultimately show False using False by simp
    qed
    then show ?thesis using False nn by (simp add: onTarget_zero)
  qed
  then show ?thesis using paid(2) [of "CHARGE_ITEM (ci_id i)"] by (simp add: adjs paidi itemOutstanding_def)
qed

section \<open>The cash side and the row of an approved payment\<close>

lemma approve_posts:
  assumes inv: "fin_inv d" and p: "findPaymentById d (ap_paymentId q) = Some p" "ap_amount q = pm_amount p"
    and ok: "approvePayment now q d = Inr (r, d')"
  shows "balanceOf d' (ap_fundId q) = balanceOf d (ap_fundId q) + ap_amount q"
proof (cases "pm_selectionMode p")
  case LEGACY_AUTOMATIC
  then show ?thesis using approve_automatic_effect(4) [OF inv p _ ok] p(2) by simp
next
  case EXPLICIT_SELECTION
  obtain d1 where d1: "pays (pm_id p) (map selPair (selectionsOf d (pm_id p))) d d1"
    "postPayment now q (explicitTables now q d1) = Inr d'"
    using approveExplicit_tables [OF inv p(1) approve_pending(1) [OF ok p(1)] EXPLICIT_SELECTION
        approve_pending(3) [OF ok p(1) EXPLICIT_SELECTION]] by blast
  obtain dl where "addLedger now (ap_buildingId q) (ap_fundId q) PAYMENT CREDIT (ap_amount q) RefPayment
      (ap_paymentId q) (Some (ap_actorId q)) (explicitTables now q d1) = Inr dl"
    "fundIncrement (ap_fundId q) (ap_amount q) dl = Inr d'"
    using postPayment_steps [OF d1(2)] .
  note post = posting(9) [OF this]
  have "funds (explicitTables now q d1) = funds d"
    using frameD(1) [of d1 d] d1(1) by (simp add: pays_def explicitTables_def setActiveSelections_def)
  from balanceOf_cong [OF this, of "ap_fundId q"] show ?thesis using post [of "ap_fundId q"] by simp
qed

lemma approved_row:
  assumes inv: "fin_inv d" and p: "findPaymentById d (ap_paymentId q) = Some p" "ap_amount q = pm_amount p"
    and ok: "approvePayment now q d = Inr (r, d')"
  shows "findPaymentById d' (ap_paymentId q) = Some (markApproved now q p)"
  using approve_evolves(1) [OF inv p ok] p(1) findPayment_mem [OF p(1)]
  by (simp add: findPaymentById_def find_row_upd_same markApproved_def)

end
