(* ===== verification/Scenario_Runs.thy ===== *)
theory Scenario_Runs
  imports Finance_Scenario Charge_Effects
begin

text \<open>
  What the histories of \<open>Finance_Scenario\<close> compute to, evaluated once.
\<close>

text \<open>The predicates collect what is asked of one state, so that the state is computed once.\<close>

definition overpaidRuns :: "fin_db \<Rightarrow> bool" where
  "overpaidRuns d \<longleftrightarrow> (funds d \<noteq> [] \<and> fd_balance (hd (funds d)) = 700) \<and>
     (1 < length (items d) \<and> ci_paidAmount (items d ! 1) = 40) \<and> map al_amount (allocations d) = [100, 40] \<and>
     \<not> isl (issueChargeBatch 9 demo_issue d) \<and> (creditOf d ''u'' = 60 \<and> unitPaid d ''u'' = 140)"

definition approvedRuns :: "(payment \<times> fin_db) result \<Rightarrow> id \<Rightarrow> bool" where
  "approvedRuns r i \<longleftrightarrow> \<not> isl r \<and>
     (case r of Inl _ \<Rightarrow> False | Inr (_, d) \<Rightarrow> 0 < listedOn (allocationsOf d (demo_ids 8)) (CHARGE_ITEM i)) \<and>
     \<not> isl (case r of Inl e \<Rightarrow> Inl e | Inr (_, d) \<Rightarrow> reversePayment 8 (reverse_params 120) d)"

definition reportedRuns :: "fin_db \<Rightarrow> bool" where
  "reportedRuns d \<longleftrightarrow>
     (payments d \<noteq> [] \<and> pm_status (hd (payments d)) = PENDING_APPROVAL \<and> pm_amount (hd (payments d)) = 120) \<and>
     approvedRuns (approvePayment 7 (approve_params 120) d) (ci_id (items d ! 1)) \<and>
     findPaymentById d (ap_paymentId (approve_params 120)) = Some (hd (payments d)) \<and>
     (pm_amount (hd (payments d)) = 120 \<and> pm_selectionMode (hd (payments d)) = LEGACY_AUTOMATIC \<and>
      pm_id (hd (payments d)) = demo_ids 8) \<and> totalDebt (computeDebtSnapshot d ''u'') = 140 \<and>
     outstandingItems d (ap_unitId (approve_params 120)) = [(items d ! 0), (items d ! 1)] \<and>
     dueKey d (items d ! 0) < dueKey d (items d ! 1) \<and>
     (ci_id (items d ! 0) = demo_ids 3 \<and> ci_amount (items d ! 0) = 100) \<and>
     ap_amount (approve_params 120) = pm_amount (hd (payments d)) \<and>
     ap_unitId (approve_params 120) = pm_unitId (hd (payments d)) \<and>
     ap_fundId (approve_params 120) = pm_fundId (hd (payments d))"

definition selectedRuns :: "fin_db \<Rightarrow> bool" where
  "selectedRuns d \<longleftrightarrow> activeFor d (CHARGE_ITEM (demo_ids 6)) \<noteq> [] \<and>
     \<not> isl (approvePayment 7 (approve_params 40) d) \<and>
     findPaymentById d (ap_paymentId (approve_params 40)) = Some (hd (payments d)) \<and>
     pm_amount (hd (payments d)) = 40 \<and> pm_selectionMode (hd (payments d)) = EXPLICIT_SELECTION \<and>
     pm_id (hd (payments d)) = demo_ids 8"

definition chargedRuns :: "fin_db \<Rightarrow> bool" where
  "chargedRuns d \<longleftrightarrow> \<not> isl (createPayment 6 (demo_report 120) d) \<and>
     findByIdempotencyKey d (cpp_payerId (demo_report 120)) (cpp_buildingId (demo_report 120))
       (cpp_idempotencyKey (demo_report 120)) = None \<and>
     (case createExplicitPayment 6 demo_explicit d of Inl _ \<Rightarrow> False | Inr (s, _) \<Rightarrow> pm_amount s = 40) \<and>
     \<not> isl (createAdjustment 6 (demo_adjust (- 500)) d) \<and>
     (unitPaid d ''u'' = 0 \<and> chargeItemDebt (computeDebtSnapshot d ''u'') = 140) \<and>
     \<not> isl (applyOpeningBalanceCorrection 6 (demo_correction 30) d) \<and>
     \<not> isl (case createExpense 6 (demo_expense 200) d of Inl x \<Rightarrow> Inl x
       | Inr (_, d') \<Rightarrow> voidExpense 7 (demo_void 200) d') \<and>
     balanceOf d (demo_ids 0) = 500"

definition serviceRuns :: "world \<Rightarrow> bool" where
  "serviceRuns w \<longleftrightarrow> \<not> isl (fst (previewChargeBatch 6 ''b'' demo_dto w)) \<and>
     \<not> isl (fst (svc_createChargeBatch 6 ''b'' demo_dto ''m'' w))"

lemma demo_evaluated:
  "overpaidRuns overpaid" "reportedRuns reported" "selectedRuns selected" "chargedRuns charged" "serviceRuns demo_world"
  by code_simp+

lemmas demo_facts = demo_evaluated [unfolded overpaidRuns_def reportedRuns_def approvedRuns_def selectedRuns_def chargedRuns_def serviceRuns_def]

lemma demo_runs:
  "funds (w_fin (run_history no_addDays overpaid_history demo_start)) \<noteq> [] \<and>
     fd_balance (hd (funds (w_fin (run_history no_addDays overpaid_history demo_start)))) = 700"
  "1 < length (items overpaid) \<and> ci_paidAmount (items overpaid ! 1) = 40"
  "activeFor selected (CHARGE_ITEM (demo_ids 6)) \<noteq> []"
  "map al_amount (allocations overpaid) = [100, 40]"
  "payments reported \<noteq> [] \<and> pm_status (hd (payments reported)) = PENDING_APPROVAL \<and>
     pm_amount (hd (payments reported)) = 120"
  using demo_facts unfolding overpaid_def [symmetric] by blast+

lemma demo_reported:
  "\<not> isl (approvePayment 7 (approve_params 120) reported)"
  "findPaymentById reported (ap_paymentId (approve_params 120)) = Some (hd (payments reported))"
  "pm_amount (hd (payments reported)) = 120 \<and> pm_selectionMode (hd (payments reported)) = LEGACY_AUTOMATIC \<and>
    pm_id (hd (payments reported)) = demo_ids 8 \<and> totalDebt (computeDebtSnapshot reported ''u'') = 140"
  "pm_amount (hd (payments reported)) = 120 \<and> pm_selectionMode (hd (payments reported)) = LEGACY_AUTOMATIC \<and>
    pm_id (hd (payments reported)) = demo_ids 8"
  "outstandingItems reported (ap_unitId (approve_params 120)) = [(items reported ! 0), (items reported ! 1)]"
  "dueKey reported (items reported ! 0) < dueKey reported (items reported ! 1)"
  "ci_id (items reported ! 0) = demo_ids 3 \<and> ci_amount (items reported ! 0) = 100"
  "case approvePayment 7 (approve_params 120) reported of Inl _ \<Rightarrow> False
    | Inr (_, d) \<Rightarrow> 0 < listedOn (allocationsOf d (demo_ids 8)) (CHARGE_ITEM (ci_id (items reported ! 1)))"
  using demo_facts by blast+

lemma demo_approvals:
  "\<not> isl (approvePayment 7 (approve_params 40) selected)"
  "findPaymentById selected (ap_paymentId (approve_params 40)) = Some (hd (payments selected))"
  "pm_amount (hd (payments selected)) = 40"
  "pm_selectionMode (hd (payments selected)) = EXPLICIT_SELECTION"
  "pm_id (hd (payments selected)) = demo_ids 8"
  "\<not> isl (case approvePayment 7 (approve_params 120) reported of Inl e \<Rightarrow> Inl e
     | Inr (_, d) \<Rightarrow> reversePayment 8 (reverse_params 120) d)"
  "ap_amount (approve_params 120) = pm_amount (hd (payments reported))"
  "ap_unitId (approve_params 120) = pm_unitId (hd (payments reported))"
  "ap_fundId (approve_params 120) = pm_fundId (hd (payments reported))"
  "\<not> isl (createPayment 6 (demo_report 120) charged)"
  "findByIdempotencyKey charged (cpp_payerId (demo_report 120)) (cpp_buildingId (demo_report 120))
    (cpp_idempotencyKey (demo_report 120)) = None"
  "case createExplicitPayment 6 demo_explicit charged of Inl _ \<Rightarrow> False | Inr (s, _) \<Rightarrow> pm_amount s = 40"
  using demo_facts by blast+

lemma demo_calls:
  "map snd (allocateEqually 100 [''a'', ''b'', ''c'']) = [34, 33, 33]"
  "allocateByArea 10 [(''a'', 1 :: rat), (''b'', 3)] = [(''a'', 3), (''b'', 7)]"
  by code_simp+

lemma demo_changes:
  "\<not> isl (issueChargeBatch 9 demo_issue overpaid)"
  "creditOf overpaid ''u'' = 60 \<and> unitPaid overpaid ''u'' = 140"
  "\<not> isl (createAdjustment 6 (demo_adjust (- 500)) charged)"
  "unitPaid charged ''u'' = 0 \<and> chargeItemDebt (computeDebtSnapshot charged ''u'') = 140"
  "\<not> isl (applyOpeningBalanceCorrection 6 (demo_correction 30) charged)"
  "\<not> isl (case createExpense 6 (demo_expense 200) charged of Inl x \<Rightarrow> Inl x
    | Inr (_, d) \<Rightarrow> voidExpense 7 (demo_void 200) d)"
  "balanceOf charged (demo_ids 0) = 500"
  using demo_facts by blast+

lemma demo_service:
  "\<not> isl (fst (previewChargeBatch 6 ''b'' demo_dto demo_world))"
  "\<not> isl (fst (svc_createChargeBatch 6 ''b'' demo_dto ''m'' demo_world))"
  using demo_facts by blast+

lemma demo_payers: "snd (the (resolvePayers demo_bld ''u'' (Some PT_RESIDENT))) = [''o'']"
  by code_simp

end
