(* ===== verification/Service_Facts.thy ===== *)
theory Service_Facts
  imports Finance_Api Charge_Effects
begin

text \<open>
  What single calls of the finance service guarantee: the preview of a charge is what
  creating it does, a payment is attributed to a person responsible for the unit, charges
  stay inside the building, identifiers on the wire parse back.
\<close>

section \<open>Preview and creation\<close>

lemma bind_svc_pure:
  assumes "\<And>w. snd (m w) = w" "\<And>x w. snd (f x w) = w"
  shows "snd (bind_svc m f w) = w"
proof (cases "m w")
  case (Pair r w1)
  then have "w1 = w" using assms(1) [of w] by simp
  with Pair assms(2) show ?thesis by (cases r) (simp_all add: bind_svc_def)
qed

lemma reads_pure:
  "snd (return_svc x w) = w" "snd (throw_svc e w) = w" "snd (check r w) = w" "snd (ask g w) = w"
  "snd (lift_svc h w) = w" "snd (getBuilding bid w) = w" "snd (getFund bid fid w) = w"
  by (simp_all add: return_svc_def throw_svc_def check_def ask_def lift_svc_def getBuilding_def getFund_def
      split: option.splits)

lemma classification_pure: "snd (resolveChargeClassification bid dto w) = w"
  unfolding resolveChargeClassification_def
  by (intro bind_svc_pure) (auto simp: reads_pure lift_svc_def split: if_splits intro!: bind_svc_pure)

lemma explicitFund_pure: "snd (explicitFund bid fid w) = w"
  unfolding explicitFund_def by (intro bind_svc_pure) (simp_all add: reads_pure)

lemma previewFund_pure: "snd (resolveChargeFund now bid dto PREVIEW w) = w"
  unfolding resolveChargeFund_def
  by (auto simp: reads_pure explicitFund_pure intro!: bind_svc_pure split: option.splits list.splits)

lemma preview_pure: "snd (previewChargeBatch now bid dto w) = w"
  unfolding previewChargeBatch_def Let_def
  by (intro bind_svc_pure) (auto simp: reads_pure classification_pure previewFund_pure split: prod.splits
      intro!: bind_svc_pure)

lemma addItems_rows:
  "\<exists>news. items (addItems now bid is d) = items d @ news \<and>
    map (\<lambda>i. (ci_unitId i, ci_amount i, ci_chargeBatchId i)) news = map (\<lambda>p. (fst p, snd p, bid)) is"
proof (induction "is" arbitrary: d)
  case (Cons p ps)
  let ?i = "newItem now bid (fresh_id d) p"
  obtain news where n: "items (addItems now bid (p # ps) d) = items d @ [?i] @ news"
    "map (\<lambda>i. (ci_unitId i, ci_amount i, ci_chargeBatchId i)) news = map (\<lambda>p. (fst p, snd p, bid)) ps"
    using Cons [of "take_id (d\<lparr>items := items d @ [?i]\<rparr>)"] by (auto simp: take_id_def)
  then show ?case by (intro exI [of _ "?i # news"]) (simp add: newItem_def)
qed simp

lemma createBatch_rows:
  assumes "createChargeBatch now ux q d = Inr (b, d')"
  shows "\<exists>news. items d' = items d @ news \<and>
      map (\<lambda>i. (ci_unitId i, ci_amount i, ci_chargeBatchId i)) news = map (\<lambda>p. (fst p, snd p, cb_id b)) (bp_items q)"
    "cb_totalAmount b = sum_of snd (bp_items q)" "\<forall>p\<in>set (bp_items q). ux (fst p)" "cb_status b = DRAFT"
    "cb_buildingId b = bp_buildingId q"
proof -
  have b: "b = newBatch now (fresh_id d) q" "\<forall>p\<in>set (bp_items q). ux (fst p)"
    "d' = addItems now (cb_id b) (bp_items q) (take_id (d\<lparr>batches := batches d @ [b]\<rparr>))"
    using assms by (auto simp: createChargeBatch_def createChargeBatchBody_def transaction_Inr_iff
        bind_r_Inr_iff assert_r_Inr_iff Let_def list_all_iff)
  show "\<exists>news. items d' = items d @ news \<and>
      map (\<lambda>i. (ci_unitId i, ci_amount i, ci_chargeBatchId i)) news = map (\<lambda>p. (fst p, snd p, cb_id b)) (bp_items q)"
    using addItems_rows [of now "cb_id b" "bp_items q" "take_id (d\<lparr>batches := batches d @ [b]\<rparr>)"]
    unfolding b(3) by (simp add: take_id_def)
  show "cb_totalAmount b = sum_of snd (bp_items q)" "\<forall>p\<in>set (bp_items q). ux (fst p)" "cb_status b = DRAFT"
    "cb_buildingId b = bp_buildingId q"
    using b(1,2) by (simp_all add: newBatch_def)
qed

text \<open>Resolving the fund may insert the default fund, which touches no item and no building row.\<close>

lemma bind_svc_InrE:
  assumes "bind_svc m f w = (Inr y, w')"
  obtains x w1 where "m w = (Inr x, w1)" "f x w1 = (Inr y, w')"
  using assms by (auto simp: effect_simps)

lemma lift_Inr: "lift_svc h w = (Inr x, w') \<longleftrightarrow> h w = Inr x \<and> w' = w"
  by (auto simp: lift_svc_def)

lemma catch_p2002_Inr: "catch_p2002 m (throw_svc e) w = (Inr x, w') \<longleftrightarrow> m w = (Inr x, w')"
  by (auto simp: catch_p2002_def throw_svc_def split: prod.splits sum.splits if_splits)

definition keeps_rows :: "'a call \<Rightarrow> bool" where
  "keeps_rows c \<longleftrightarrow> (\<forall>w. items (w_fin (snd (c w))) = items (w_fin w) \<and> w_bld (snd (c w)) = w_bld w)"

named_theorems keeps_intros "how a call that keeps items and building rows is put together"

lemma keeps_bind [keeps_intros]:
  assumes "keeps_rows m" "\<And>x. keeps_rows (f x)"
  shows "keeps_rows (bind_svc m f)"
  unfolding keeps_rows_def
proof
  fix w
  obtain r w1 where "m w = (r, w1)" by (cases "m w")
  moreover from this have "items (w_fin w1) = items (w_fin w) \<and> w_bld w1 = w_bld w"
    using assms(1) unfolding keeps_rows_def by (metis snd_conv)
  ultimately show "items (w_fin (snd (bind_svc m f w))) = items (w_fin w) \<and> w_bld (snd (bind_svc m f w)) = w_bld w"
    using assms(2) by (cases r) (auto simp: bind_svc_def keeps_rows_def)
qed

lemma keeps_pure: "(\<And>w. snd (c w) = w) \<Longrightarrow> keeps_rows c"
  by (simp add: keeps_rows_def)

lemmas keeps_reads [keeps_intros] = reads_pure [THEN keeps_pure] explicitFund_pure [THEN keeps_pure]

lemma keeps_if [keeps_intros]: "keeps_rows c1 \<Longrightarrow> keeps_rows c2 \<Longrightarrow> keeps_rows (if b then c1 else c2)"
  by simp

lemma defaultFund_items: "getOrCreateDefaultFund now bid d = Inr (f, d') \<Longrightarrow> items d' = items d"
  by (auto simp: getOrCreateDefaultFund_def insertFund_def Let_def take_id_def split: option.splits if_splits)

lemma keeps_defaultFund [keeps_intros]: "keeps_rows (fin_tx (getOrCreateDefaultFund now bid))"
  by (auto simp: keeps_rows_def fin_tx_def split: sum.splits prod.splits dest: defaultFund_items)

lemma keeps_resolveFund [keeps_intros]: "keeps_rows (resolveFundForWrite now bid fid)"
  unfolding resolveFundForWrite_def by (intro keeps_intros)

lemma keeps_single [keeps_intros]:
  "(\<And>f. keeps_rows (g f)) \<Longrightarrow> keeps_rows (case fs of [] \<Rightarrow> throw_svc e1 | [f] \<Rightarrow> g f | _ # _ # _ \<Rightarrow> throw_svc e2)"
  by (auto split: list.splits intro: keeps_intros)

lemma chargeFund_keeps: "keeps_rows (resolveChargeFund now bid dto mode)"
proof (cases mode)
  case PREVIEW
  then show ?thesis by (simp add: keeps_pure previewFund_pure)
next
  case CREATE
  show ?thesis
    unfolding resolveChargeFund_def CREATE chargeMode.case
    by (auto split: option.splits intro!: keeps_intros)
qed

lemma create_resolves:
  assumes "svc_createChargeBatch now bid dto actor w = (Inr batch, w')"
  shows "\<exists>ri f d1. resolveChargeItems (w_bld w) bid dto = Inr ri \<and> items d1 = items (w_fin w) \<and>
    createChargeBatch now (unitExists (w_bld w)) (batchParams bid dto f ri actor) d1 = Inr (batch, w_fin w')"
proof -
  obtain bl w1 cs w2 p w3 where st: "getBuilding bid w = (Inr bl, w1)"
    "resolveChargeClassification bid dto w1 = (Inr cs, w2)" "resolveChargeFund now bid dto CREATE w2 = (Inr p, w3)"
    using assms unfolding svc_createChargeBatch_def bind_svc_Inr_iff by blast
  have w2: "w1 = w" "w2 = w"
    using reads_pure(6) [of bid w] classification_pure [of bid dto w1] st(1,2) by auto
  have keep: "items (w_fin w3) = items (w_fin w)" "w_bld w3 = w_bld w"
    using chargeFund_keeps [of now bid dto CREATE] st(3) unfolding w2 keeps_rows_def by (metis snd_conv)+
  have "\<exists>ri w4. resolveChargeItems (w_bld w3) bid dto = Inr ri \<and>
      fin_tx (createChargeBatch now (unitExists (w_bld w3)) (batchParams bid dto (the (fst p)) ri actor)) w3 =
        (Inr batch, w4) \<and> w_fin w' = w_fin w4"
    using assms st unfolding svc_createChargeBatch_def bind_svc_Inr_iff
    by (cases p) (auto simp: bind_svc_Inr_iff lift_Inr ask_def catch_p2002_Inr audit_def split: if_splits)
  then obtain ri w4 where ri: "resolveChargeItems (w_bld w3) bid dto = Inr ri"
    and tx: "fin_tx (createChargeBatch now (unitExists (w_bld w3)) (batchParams bid dto (the (fst p)) ri actor)) w3 =
        (Inr batch, w4)" "w_fin w' = w_fin w4" by blast
  from tx have "createChargeBatch now (unitExists (w_bld w3)) (batchParams bid dto (the (fst p)) ri actor) (w_fin w3) =
      Inr (batch, w_fin w')"
    by (auto simp: fin_tx_def split: sum.splits prod.splits)
  with ri keep show ?thesis by metis
qed

lemma preview_resolves:
  assumes "previewChargeBatch now bid dto w = (Inr pv, w')"
  shows "\<exists>ri. resolveChargeItems (w_bld w) bid dto = Inr ri \<and>
    cpv_items pv = map (previewItemOf (w_bld w) bid (dto_payerType dto)) (ri_items ri) \<and>
    cpv_grandTotal pv = sum_of pv_amount (cpv_items pv) \<and> w' = w"
proof -
  have w': "w' = w" using assms preview_pure [of now bid dto w] by simp
  obtain bl w1 cs w2 p w3 where st: "getBuilding bid w = (Inr bl, w1)"
    "resolveChargeClassification bid dto w1 = (Inr cs, w2)" "resolveChargeFund now bid dto PREVIEW w2 = (Inr p, w3)"
    using assms unfolding previewChargeBatch_def bind_svc_Inr_iff by blast
  have "w1 = w" "w2 = w" "w3 = w"
    using reads_pure(6) [of bid w] classification_pure [of bid dto w1] previewFund_pure [of now bid dto w2] st by auto
  with assms st have "\<exists>ri. resolveChargeItems (w_bld w) bid dto = Inr ri \<and>
    cpv_items pv = map (previewItemOf (w_bld w) bid (dto_payerType dto)) (ri_items ri) \<and>
    cpv_grandTotal pv = sum_of pv_amount (cpv_items pv)"
    unfolding previewChargeBatch_def bind_svc_Inr_iff Let_def
    by (cases p) (auto simp: bind_svc_Inr_iff lift_Inr ask_def)
  with w' show ?thesis by blast
qed

lemma preview_is_creation:
  assumes pv: "previewChargeBatch now bid dto w = (Inr pv, w1)"
    and cr: "svc_createChargeBatch now' bid dto actor w = (Inr batch, w')"
  shows "\<exists>news. items (w_fin w') = items (w_fin w) @ news \<and>
      map (\<lambda>i. (ci_unitId i, ci_amount i, ci_chargeBatchId i)) news =
      map (\<lambda>p. (pv_unitId p, pv_amount p, cb_id batch)) (cpv_items pv)"
    "cb_totalAmount batch = cpv_grandTotal pv"
proof -
  obtain ri f d1 where r: "resolveChargeItems (w_bld w) bid dto = Inr ri" "items d1 = items (w_fin w)"
    "createChargeBatch now' (unitExists (w_bld w)) (batchParams bid dto f ri actor) d1 = Inr (batch, w_fin w')"
    using create_resolves [OF cr] by blast
  have p: "cpv_items pv = map (previewItemOf (w_bld w) bid (dto_payerType dto)) (ri_items ri)"
    "cpv_grandTotal pv = sum_of pv_amount (cpv_items pv)"
    using preview_resolves [OF pv] r(1) by auto
  have f: "pv_unitId (previewItemOf b x t it) = fst it" "pv_amount (previewItemOf b x t it) = snd it" for b x t it
    by (simp_all add: previewItemOf_def Let_def)
  show "\<exists>news. items (w_fin w') = items (w_fin w) @ news \<and>
      map (\<lambda>i. (ci_unitId i, ci_amount i, ci_chargeBatchId i)) news =
      map (\<lambda>p. (pv_unitId p, pv_amount p, cb_id batch)) (cpv_items pv)"
    using createBatch_rows(1) [OF r(3)] by (simp add: r(2) p(1) f batchParams_def comp_def)
  show "cb_totalAmount batch = cpv_grandTotal pv"
    using createBatch_rows(2) [OF r(3)] by (simp add: p f batchParams_def sum_of_def comp_def)
qed

text \<open>Outside MIXED, only units of the building are charged.\<close>

lemma filtered_units:
  "filterUnitsByScope vs scope ids = Inr us \<Longrightarrow> set us \<subseteq> set vs"
  by (cases scope) (auto simp: filterUnitsByScope_def effect_simps Let_def)

lemma allocated_units:
  "fst ` set (allocateEqually t ids) = set ids" "fst ` set (allocateByArea t us) = fst ` set us"
  using arg_cong [OF allocateEqually_units, of set] arg_cong [OF allocateByArea_units, of set] by simp_all

lemma allocated_mem:
  "(a, n) \<in> set (allocateEqually t ids) \<Longrightarrow> a \<in> set ids"
  "(a, n) \<in> set (allocateByArea t us) \<Longrightarrow> a \<in> fst ` set us"
  using allocated_units by (metis image_eqI fst_conv)+

lemma resolved_units:
  assumes "resolveChargeItems b bid dto = Inr ri" "dto_calculationMethod dto \<noteq> MIXED"
  shows "fst ` set (ri_items ri) \<subseteq> {u_id u |u. u \<in> set (unitRows b) \<and> u_buildingId u = bid}"
proof -
  obtain us where us: "set us \<subseteq> set (listUnits b bid)" "fst ` set (ri_items ri) \<subseteq> u_id ` set us"
  proof -
    obtain us where "filterUnitsByScope (listUnits b bid) (case dto_unitScope dto of Some s \<Rightarrow> s | None \<Rightarrow> SCOPE_ALL)
        (dto_unitIds dto) = Inr us"
      using assms by (auto simp: resolveChargeItems_def effect_simps Let_def)
    moreover from this have "fst ` set (ri_items ri) \<subseteq> u_id ` set us"
      using assms
      by (cases "dto_calculationMethod dto"; cases "dto_totalAmount dto")
        (auto simp: resolveChargeItems_def effect_simps Let_def image_image split: if_splits dest!: allocated_mem)
    ultimately show thesis using that filtered_units by blast
  qed
  then show ?thesis by (force simp: listUnits_set)
qed

lemma created_units:
  assumes "svc_createChargeBatch now bid dto actor w = (Inr batch, w')"
  shows "\<exists>news. items (w_fin w') = items (w_fin w) @ news \<and>
    (\<forall>i\<in>set news. ci_chargeBatchId i = cb_id batch \<and> unitExists (w_bld w) (ci_unitId i) \<and>
      (dto_calculationMethod dto \<noteq> MIXED \<longrightarrow>
        (\<exists>u\<in>set (unitRows (w_bld w)). u_id u = ci_unitId i \<and> u_buildingId u = bid)))"
proof -
  obtain ri f d1 where r: "resolveChargeItems (w_bld w) bid dto = Inr ri" "items d1 = items (w_fin w)"
    "createChargeBatch now (unitExists (w_bld w)) (batchParams bid dto f ri actor) d1 = Inr (batch, w_fin w')"
    using create_resolves [OF assms] by blast
  obtain news where n: "items (w_fin w') = items (w_fin w) @ news"
    "map (\<lambda>i. (ci_unitId i, ci_amount i, ci_chargeBatchId i)) news = map (\<lambda>p. (fst p, snd p, cb_id batch)) (ri_items ri)"
    using createBatch_rows(1) [OF r(3)] r(2) by (auto simp: batchParams_def)
  have "ci_chargeBatchId i = cb_id batch \<and> ci_unitId i \<in> fst ` set (ri_items ri)" if "i \<in> set news" for i
  proof -
    have "(ci_unitId i, ci_amount i, ci_chargeBatchId i) \<in> set (map (\<lambda>p. (fst p, snd p, cb_id batch)) (ri_items ri))"
      using that unfolding n(2) [symmetric] by force
    then show ?thesis by auto
  qed
  moreover have "\<forall>p\<in>set (ri_items ri). unitExists (w_bld w) (fst p)"
    using createBatch_rows(3) [OF r(3)] by (simp add: batchParams_def)
  ultimately show ?thesis using n(1) resolved_units [OF r(1)] by (intro exI [of _ news]) force
qed

section \<open>Who may be charged and who may pay\<close>

lemma payer_responsible:
  "assertValidPayerForUnit uid payer b = Inr () \<longleftrightarrow> payer \<in> dir.responsible b uid"
proof (cases "findCurrentTenancyForUnit b uid")
  case (Some t)
  then have "currentTenantPersonId b uid = Some (tn_personId t)" by (simp add: currentTenantPersonId_def)
  then show ?thesis using dir.responsible_tenant Some
    by (auto simp: assertValidPayerForUnit_def effect_simps)
next
  case None
  then have "currentTenantPersonId b uid = None" by (simp add: currentTenantPersonId_def)
  then show ?thesis using dir.responsible_owner None
    by (auto simp: assertValidPayerForUnit_def effect_simps)
qed

lemma resolved_payers_responsible:
  assumes "t \<noteq> PT_OWNER"
  shows "set (snd (the (resolvePayers b uid (Some t)))) = dir.responsible b uid"
proof (cases "findCurrentTenancyForUnit b uid")
  case (Some u)
  then have "currentTenantPersonId b uid = Some (tn_personId u)" by (simp add: currentTenantPersonId_def)
  then show ?thesis using dir.responsible_tenant Some assms
    by (cases t) (auto simp: resolvePayers_def)
next
  case None
  then have "currentTenantPersonId b uid = None" by (simp add: currentTenantPersonId_def)
  then show ?thesis using dir.responsible_owner None dir.isOwner_iff
    by (auto simp: resolvePayers_def)
qed

lemma createPayment_payer:
  assumes "svc_createPayment now bid uid dto actor w = (Inr p, w')"
  shows "pdto_payerPersonId dto \<in> dir.responsible (w_bld w) uid"
proof -
  obtain u w1 where "getOwnUnit bid uid w = (Inr u, w1)"
    "assertValidPayerForUnit uid (pdto_payerPersonId dto) (w_bld w1) = Inr ()"
    using assms unfolding svc_createPayment_def bind_svc_Inr_iff by (auto simp: lift_Inr)
  moreover from this(1) have "w1 = w" by (auto simp: getOwnUnit_def split: option.splits if_splits)
  ultimately show ?thesis by (simp add: payer_responsible)
qed

text \<open>Who pays by selection: whoever is responsible, an owner beside a tenant, and the manager.\<close>

lemma exact_payers:
  assumes "\<not> isl (fst (getOwnUnit bid uid w))"
  shows "{p. fst (assertCanPayExactUnit bid uid p w) = Inr ()} =
    dir.responsible (w_bld w) uid \<union> set (getCurrentOwnerPersonIds (w_bld w) uid) \<union> {p. MANAGER \<in> set (getRoles (w_bld w) p bid)}"
proof -
  obtain u where "getOwnUnit bid uid w = (Inr u, w)"
    using assms by (auto simp: getOwnUnit_def bind_svc_def lift_svc_def ask_def split: option.splits sum.splits if_splits)
  then have "fst (assertCanPayExactUnit bid uid p w) = Inr () \<longleftrightarrow> MANAGER \<in> set (getRoles (w_bld w) p bid) \<or>
      isCurrentOwnerOfUnit (w_bld w) uid p \<or> currentTenantPersonId (w_bld w) uid = Some p" for p
    by (auto simp: assertCanPayExactUnit_def bind_svc_def lift_svc_def assert_r_def)
  then show ?thesis
    using dir.responsible_tenant dir.responsible_owner dir.isOwner_iff
    by (cases "currentTenantPersonId (w_bld w) uid") auto
qed

section \<open>Identifiers on the wire\<close>

lemma parse_encode:
  assumes "(case t of CHARGE_ITEM i \<Rightarrow> i | ADJUSTMENT_OB i \<Rightarrow> i) \<noteq> []"
  shows "parseObligationId (encodeObligationId t) = Inr t"
proof -
  have "i \<noteq> [] \<Longrightarrow> parseObligationId (''CHARGE_ITEM'' @ '':'' @ i) = Inr (CHARGE_ITEM i)"
    "i \<noteq> [] \<Longrightarrow> parseObligationId (''ADJUSTMENT'' @ '':'' @ i) = Inr (ADJUSTMENT_OB i)" for i
    by (simp_all add: parseObligationId_def Let_def)
  with assms show ?thesis by (cases t) (simp_all add: encodeObligationId_def)
qed

lemma encode_parse:
  assumes "parseObligationId s = Inr t" shows "encodeObligationId t = s"
proof -
  let ?ty = "takeWhile (\<lambda>c. c \<noteq> CHR '':'') s" and ?rest = "dropWhile (\<lambda>c. c \<noteq> CHR '':'') s"
  obtain c i where rest: "?rest = c # i" using assms by (cases ?rest) (auto simp: parseObligationId_def)
  then have c: "c = CHR '':''" using hd_dropWhile [of "\<lambda>c. c \<noteq> CHR '':''" s] by simp
  have s: "s = ?ty @ '':'' @ i" using takeWhile_dropWhile_id [of "\<lambda>c. c \<noteq> CHR '':''" s] rest c by simp
  have "(?ty = ''CHARGE_ITEM'' \<and> t = CHARGE_ITEM i) \<or> (?ty = ''ADJUSTMENT'' \<and> t = ADJUSTMENT_OB i)"
    using assms rest by (auto simp: parseObligationId_def Let_def split: if_splits)
  then show ?thesis using s by (auto simp: encodeObligationId_def)
qed

end
