(* ===== verification/Finance_Properties.thy ===== *)
theory Finance_Properties
  imports Scenario_Runs Service_Facts
begin

text \<open>
  The properties of the finance module.  Each follows from the lemmas of the component
  theories; those with hypotheses are exercised on the history of \<open>Finance_Scenario\<close>.
\<close>

section \<open>After any history of requests\<close>

text \<open>
  C1.  After any sequence of requests to the finance service, from empty tables, with any
  changes of the building tables in between and any of the requests rejected: every fund's
  stored balance is the signed sum of its fund-statement entries (opening balance, payments,
  reversals, refunds, expenses) in the ledger.
\<close>

theorem fund_balance_is_ledger_sum:
  assumes "inj supply" "w_fin w = empty_fin supply"
    and "f \<in> set (funds (w_fin (run_history ad rs w)))"
  shows "fd_balance f = statementTotal (w_fin (run_history ad rs w)) (fd_id f)"
  using history_inv [OF assms(1,2), of ad rs, THEN fin_invD(4)] assms(3) by (simp add: balance_ok_def)

theorem fund_balance_is_ledger_sum_witness:
  "\<exists>f\<in>set (funds (w_fin (run_history no_addDays overpaid_history demo_start))).
     fd_balance f = 700 \<and>
     fd_balance f = statementTotal (w_fin (run_history no_addDays overpaid_history demo_start)) (fd_id f)"
proof -
  let ?f = "hd (funds (w_fin (run_history no_addDays overpaid_history demo_start)))"
  have "funds (w_fin (run_history no_addDays overpaid_history demo_start)) \<noteq> [] \<and> fd_balance ?f = 700"
    by (rule demo_runs demo_reported demo_approvals)
  moreover from this have "?f \<in> set (funds (w_fin (run_history no_addDays overpaid_history demo_start)))" by simp
  moreover from fund_balance_is_ledger_sum [OF demo_ids_inj _ this]
  have "fd_balance ?f = statementTotal (w_fin (run_history no_addDays overpaid_history demo_start)) (fd_id ?f)"
    by (simp add: demo_start_def)
  ultimately show ?thesis by blast
qed

text \<open>
  C2.  After any such sequence, every charge item has \<open>0 \<le> paidAmount \<le> amount\<close> and the
  status that \<open>computeItemStatus\<close> gives for them, every adjustment's \<open>paidAmount\<close> lies between
  0 and its positive amount, and no unit's credit balance is negative.
\<close>

theorem amounts_stay_in_bounds:
  assumes "inj supply" "w_fin w = empty_fin supply"
  shows "let d = w_fin (run_history ad rs w) in (\<forall>i\<in>set (items d). 0 \<le> ci_paidAmount i \<and> ci_paidAmount i \<le> ci_amount i \<and>
       ci_status i = computeItemStatus (ci_paidAmount i) (ci_amount i)) \<and>
     (\<forall>a\<in>set (adjustments d). 0 \<le> aj_paidAmount a \<and> aj_paidAmount a \<le> max 0 (aj_amount a)) \<and>
     (\<forall>c\<in>set (credits d). 0 \<le> cr_balance c)"
  using history_inv [OF assms(1,2), of ad rs, THEN fin_invD(2)] history_inv [OF assms(1,2), of ad rs, THEN fin_invD(3)]
  by (simp add: Let_def rows_ok_def credits_ok_def item_ok_def adj_ok_def)

theorem amounts_stay_in_bounds_witness:
  "let i = items overpaid ! 1 in ci_paidAmount i \<le> ci_amount i \<and> ci_paidAmount i = 40 \<and>
     ci_status i = computeItemStatus (ci_paidAmount i) (ci_amount i)"
proof -
  have i: "1 < length (items overpaid) \<and> ci_paidAmount (items overpaid ! 1) = 40" by (rule demo_runs demo_reported demo_approvals)
  then have "items overpaid ! 1 \<in> set (items overpaid)" by simp
  moreover have "w_fin demo_start = empty_fin demo_ids" by (simp add: demo_start_def)
  ultimately show ?thesis
    using amounts_stay_in_bounds [OF demo_ids_inj, of demo_start no_addDays overpaid_history] i
    unfolding Let_def by (metis overpaid_def)
qed

text \<open>
  C3.  After any such sequence, no obligation is reserved twice: at most one selection of an
  obligation is ACTIVE, and an ACTIVE selection belongs to an explicit payment that is still
  pending approval, whose amount is the total of its selections.
\<close>

theorem reservations_are_exclusive:
  assumes "inj supply" "w_fin w = empty_fin supply"
  shows "let d = w_fin (run_history ad rs w) in length (activeFor d ob) \<le> 1 \<and>
    (\<forall>s\<in>set (selections d). ds_state s = Some ACTIVE \<longrightarrow>
       (\<exists>p\<in>set (payments d). pm_id p = ds_paymentId s \<and> pm_selectionMode p = EXPLICIT_SELECTION \<and>
          pm_status p = PENDING_APPROVAL \<and> pm_amount p = sum_of ds_selectedAmount (selectionsOf d (pm_id p))))"
proof -
  let ?d = "w_fin (run_history ad rs w)"
  have sel: "sel_ok ?d" by (rule history_inv [OF assms(1,2), THEN fin_invD(7)])
  then show ?thesis using sel_okD(3) [OF sel] unfolding Let_def sel_ok_def by metis
qed

theorem reservations_are_exclusive_witness:
  "length (activeFor selected (CHARGE_ITEM (demo_ids 6))) \<le> 1 \<and> activeFor selected (CHARGE_ITEM (demo_ids 6)) \<noteq> []"
proof -
  have "w_fin demo_start = empty_fin demo_ids" by (simp add: demo_start_def)
  then have "length (activeFor selected (CHARGE_ITEM (demo_ids 6))) \<le> 1"
    using reservations_are_exclusive [OF demo_ids_inj, of demo_start no_addDays selected_history]
    unfolding selected_def Let_def by blast
  moreover have "activeFor selected (CHARGE_ITEM (demo_ids 6)) \<noteq> []" by (rule demo_runs demo_reported demo_approvals)
  ultimately show ?thesis by blast
qed

text \<open>
  C4.  After any such sequence, allocations are backed: each is positive and belongs to an
  approved or reversed payment, a payment's allocations never exceed its amount, and what
  the approved payments have put on an obligation never exceeds its paid amount.
\<close>

theorem allocations_are_backed:
  assumes "inj supply" "w_fin w = empty_fin supply"
  shows "let d = w_fin (run_history ad rs w) in (\<forall>a\<in>set (allocations d). 0 < al_amount a \<and>
       (\<exists>p\<in>set (payments d). pm_id p = al_paymentId a \<and> pm_status p \<in> {APPROVED, REVERSED})) \<and>
     (\<forall>p\<in>set (payments d). allocatedTotal d (pm_id p) \<le> pm_amount p) \<and>
     allocatedOn (approvedIds d) (allocations d) ob \<le> paidOf d ob"
proof -
  have "alloc_ok (w_fin (run_history ad rs w))" by (rule history_inv [OF assms(1,2), THEN fin_invD(6)])
  then show ?thesis unfolding Let_def alloc_ok_def by blast
qed

theorem allocations_are_backed_witness:
  "map al_amount (allocations overpaid) = [100, 40] \<and>
   allocatedOn (approvedIds overpaid) (allocations overpaid) (CHARGE_ITEM (demo_ids 6)) \<le>
     paidOf overpaid (CHARGE_ITEM (demo_ids 6))"
proof -
  have "map al_amount (allocations overpaid) = [100, 40]" by (rule demo_runs demo_reported demo_approvals)
  moreover have "w_fin demo_start = empty_fin demo_ids" by (simp add: demo_start_def)
  ultimately show ?thesis
    using allocations_are_backed [OF demo_ids_inj, of demo_start no_addDays overpaid_history]
    unfolding overpaid_def Let_def by blast
qed

text \<open>
  C5.  The life of a payment.  Whatever requests follow, a reported payment keeps its
  building, unit, fund, payer, amount, method and mode; a pending one may be approved or
  rejected, an approved one may be reversed, a rejected or reversed one never changes, and
  no payment ever becomes REFUNDED.
\<close>

theorem payment_life_cycle:
  assumes "inj supply" "w_fin w = empty_fin supply"
    and "p \<in> set (payments (w_fin (run_history ad rs w)))"
  shows "\<exists>p'\<in>set (payments (w_fin (run_history ad (rs @ rs') w))).
    paymentIdentity p' = paymentIdentity p \<and> mayBecome (pm_status p) (pm_status p')"
proof -
  let ?w = "run_history ad rs w"
  have "fin_step\<^sup>*\<^sup>* (w_fin ?w) (w_fin (run_history ad rs' ?w))"
    using run_history_steps by (simp add: fin_steps_def)
  then have "evolves (w_fin ?w) (w_fin (run_history ad rs' ?w))"
    using fin_steps_evolve history_inv [OF assms(1,2)] by blast
  moreover have "run_history ad (rs @ rs') w = run_history ad rs' ?w" by (simp add: run_history_def)
  ultimately show ?thesis using assms(3) by (simp add: evolves_def)
qed

theorem payment_life_cycle_witness:
  "\<exists>p'\<in>set (payments (w_fin (run_history no_addDays (reported_history @ [ApprovePayment 7 ''b'' (demo_ids 8) ''m'']) demo_start))).
     mayBecome PENDING_APPROVAL (pm_status p') \<and> pm_amount p' = 120"
proof -
  let ?p = "hd (payments reported)"
  have p: "payments reported \<noteq> [] \<and> pm_status ?p = PENDING_APPROVAL \<and> pm_amount ?p = 120" by (rule demo_runs demo_reported demo_approvals)
  then have "?p \<in> set (payments (w_fin (run_history no_addDays reported_history demo_start)))"
    by (simp flip: reported_def)
  from payment_life_cycle [OF demo_ids_inj _ this, of "[ApprovePayment 7 ''b'' (demo_ids 8) ''m'']"] p
  show ?thesis by (auto simp: demo_start_def paymentIdentity_def)
qed

section \<open>Approving, reversing and refunding\<close>

text \<open>
  C6.  Approving a payment reported by amount, in any reachable state: its allocations are
  exactly what is added to the paid amounts of the obligations; they total the smaller of
  the payment and the unit's debt; the rest becomes the unit's credit; and the fund gains
  the whole amount.
\<close>

theorem automatic_approval_conserves_money:
  assumes "fin_reachable d" "findPaymentById d (ap_paymentId q) = Some p" "ap_amount q = pm_amount p"
    and "pm_selectionMode p = LEGACY_AUTOMATIC" "approvePayment now q d = Inr (r, d')"
  shows "paidOf d' ob = paidOf d ob + listedOn (allocationsOf d' (pm_id p)) ob \<and>
    allocatedTotal d' (pm_id p) = min (pm_amount p) (totalDebt (computeDebtSnapshot d (ap_unitId q))) \<and>
    creditOf d' (ap_unitId q) = creditOf d (ap_unitId q) + (pm_amount p - allocatedTotal d' (pm_id p)) \<and>
    balanceOf d' (ap_fundId q) = balanceOf d (ap_fundId q) + pm_amount p"
  using approve_automatic_effect [OF fin_reachable_inv [OF assms(1)] assms(2-5)] by blast

theorem automatic_approval_conserves_money_witness:
  "\<exists>r d'. approvePayment 7 (approve_params 120) reported = Inr (r, d') \<and>
     allocatedTotal d' (demo_ids 8) = min 120 (totalDebt (computeDebtSnapshot reported ''u'')) \<and>
     totalDebt (computeDebtSnapshot reported ''u'') = 140"
proof -
  have "\<not> isl (approvePayment 7 (approve_params 120) reported)" by (rule demo_runs demo_reported demo_approvals)
  then obtain r d' where ok: "approvePayment 7 (approve_params 120) reported = Inr (r, d')" using returned by blast
  have p: "findPaymentById reported (ap_paymentId (approve_params 120)) = Some (hd (payments reported))" by (rule demo_runs demo_reported demo_approvals)
  have f: "pm_amount (hd (payments reported)) = 120 \<and> pm_selectionMode (hd (payments reported)) = LEGACY_AUTOMATIC \<and>
    pm_id (hd (payments reported)) = demo_ids 8 \<and> totalDebt (computeDebtSnapshot reported ''u'') = 140" by (rule demo_runs demo_reported demo_approvals)
  show ?thesis
    using automatic_approval_conserves_money [OF demo_reachable(2) p _ _ ok] f ok
    by (simp add: approve_params_def)
qed

text \<open>
  C7.  The automatic mode pays the oldest charge first: when an unpaid item receives
  anything, every unpaid item of the unit that comes before it (by due date, then creation)
  ends up paid in full.
\<close>

theorem automatic_approval_pays_oldest_first:
  assumes "fin_reachable d" "findPaymentById d (ap_paymentId q) = Some p" "ap_amount q = pm_amount p"
    and "pm_selectionMode p = LEGACY_AUTOMATIC" "approvePayment now q d = Inr (r, d')"
    and "i \<in> set (outstandingItems d (ap_unitId q))" "j \<in> set (outstandingItems d (ap_unitId q))"
    and "dueKey d i < dueKey d j" "0 < listedOn (allocationsOf d' (pm_id p)) (CHARGE_ITEM (ci_id j))"
  shows "paidOf d' (CHARGE_ITEM (ci_id i)) = ci_amount i"
  by (rule approve_oldest_first [OF fin_reachable_inv [OF assms(1)] assms(2-9)])

theorem automatic_approval_pays_oldest_first_witness:
  "\<exists>r d'. approvePayment 7 (approve_params 120) reported = Inr (r, d') \<and>
     paidOf d' (CHARGE_ITEM (demo_ids 3)) = 100"
proof -
  let ?i = "items reported ! 0" and ?j = "items reported ! 1"
  have "\<not> isl (approvePayment 7 (approve_params 120) reported)" by (rule demo_runs demo_reported demo_approvals)
  then obtain r d' where ok: "approvePayment 7 (approve_params 120) reported = Inr (r, d')" using returned by blast
  have p: "findPaymentById reported (ap_paymentId (approve_params 120)) = Some (hd (payments reported))" by (rule demo_runs demo_reported demo_approvals)
  have f: "pm_amount (hd (payments reported)) = 120 \<and> pm_selectionMode (hd (payments reported)) = LEGACY_AUTOMATIC \<and>
    pm_id (hd (payments reported)) = demo_ids 8" by (rule demo_runs demo_reported demo_approvals)
  have o: "outstandingItems reported (ap_unitId (approve_params 120)) = [?i, ?j]" by (rule demo_runs demo_reported demo_approvals)
  have lt: "dueKey reported ?i < dueKey reported ?j" by (rule demo_runs demo_reported demo_approvals)
  have ids: "ci_id ?i = demo_ids 3 \<and> ci_amount ?i = 100" by (rule demo_runs demo_reported demo_approvals)
  have "case approvePayment 7 (approve_params 120) reported of Inl _ \<Rightarrow> False
    | Inr (_, d) \<Rightarrow> 0 < listedOn (allocationsOf d (demo_ids 8)) (CHARGE_ITEM (ci_id ?j))" by (rule demo_runs demo_reported demo_approvals)
  then have "0 < listedOn (allocationsOf d' (pm_id (hd (payments reported)))) (CHARGE_ITEM (ci_id ?j))"
    using ok f by simp
  from automatic_approval_pays_oldest_first [OF demo_reachable(2) p _ _ ok _ _ lt this] f o ids ok
  show ?thesis by (simp add: approve_params_def)
qed

text \<open>
  C8.  Approving an explicit payment settles exactly what was selected, in full: one allocation per
  selection, of the selected amount, in order; that amount is all that was outstanding on the
  obligation, whose paid amount then is its whole amount; the paid amounts grow by the allocations and nothing
  else; they total the payment; the reservations become APPLIED; no credit is created.
\<close>

theorem explicit_approval_settles_the_selection:
  assumes "fin_reachable d" "findPaymentById d (ap_paymentId q) = Some p"
    and "pm_selectionMode p = EXPLICIT_SELECTION" "approvePayment now q d = Inr (r, d')"
  shows "allocationsOf d' (pm_id p) = map (\<lambda>s. \<lparr>al_paymentId = pm_id p, al_target = ds_target s,
      al_amount = ds_selectedAmount s\<rparr>) (selectionsOf d (pm_id p)) \<and>
    paidOf d' ob = paidOf d ob + listedOn (allocationsOf d' (pm_id p)) ob \<and>
    allocatedTotal d' (pm_id p) = pm_amount p \<and>
    selectionsOf d' (pm_id p) = map (\<lambda>s. s\<lparr>ds_state := Some APPLIED\<rparr>) (selectionsOf d (pm_id p)) \<and>
    (\<forall>s\<in>set (selectionsOf d (pm_id p)). ds_selectedAmount s = amountOf d (ds_target s) - paidOf d (ds_target s) \<and>
      paidOf d' (ds_target s) = amountOf d' (ds_target s) \<and> amountOf d' (ds_target s) = amountOf d (ds_target s)) \<and>
    creditOf d' uid = creditOf d uid"
  using approve_explicit_effect [OF fin_reachable_inv [OF assms(1)] assms(2-4)]
  by (simp add: allocRow_def selPair_def)

theorem explicit_approval_settles_the_selection_witness:
  "\<exists>r d'. approvePayment 7 (approve_params 40) selected = Inr (r, d') \<and>
     allocatedTotal d' (demo_ids 8) = 40 \<and> list_all (\<lambda>s. paidOf d' (ds_target s) = amountOf d' (ds_target s)) (selectionsOf selected (demo_ids 8)) \<and>
     paidOf d' (CHARGE_ITEM (demo_ids 6)) =
       paidOf selected (CHARGE_ITEM (demo_ids 6)) + listedOn (allocationsOf d' (demo_ids 8)) (CHARGE_ITEM (demo_ids 6))"
proof -
  have "\<not> isl (approvePayment 7 (approve_params 40) selected)" by (rule demo_runs demo_reported demo_approvals)
  then obtain r d' where ok: "approvePayment 7 (approve_params 40) selected = Inr (r, d')" using returned by blast
  have p: "findPaymentById selected (ap_paymentId (approve_params 40)) = Some (hd (payments selected))" by (rule demo_runs demo_reported demo_approvals)
  have f: "pm_amount (hd (payments selected)) = 40" "pm_selectionMode (hd (payments selected)) = EXPLICIT_SELECTION"
    "pm_id (hd (payments selected)) = demo_ids 8" by (rule demo_runs demo_reported demo_approvals)+
  show ?thesis
    using explicit_approval_settles_the_selection [OF demo_reachable(3) p f(2) ok, of "CHARGE_ITEM (demo_ids 6)", unfolded f(1,3)] ok
    by (intro exI [of _ r] exI [of _ d'] conjI) (blast | simp add: list_all_iff)+
qed

text \<open>
  C9.  Reversing an approved payment undoes it: every obligation's paid amount, the balance of its
  fund and the credit of its unit are what they were before the approval.
\<close>

theorem reversal_undoes_approval:
  assumes "fin_reachable d" "findPaymentById d (ap_paymentId q) = Some p"
    and "ap_amount q = pm_amount p" "ap_unitId q = pm_unitId p" "ap_fundId q = pm_fundId p"
    and "approvePayment now q d = Inr (r, d1)" "reversePayment now' v d1 = Inr (r', d2)"
    and "rv_paymentId v = ap_paymentId q" "rv_fundId v = ap_fundId q" "rv_amount v = ap_amount q"
  shows "paidOf d2 ob = paidOf d ob \<and> balanceOf d2 (ap_fundId q) = balanceOf d (ap_fundId q) \<and>
    creditOf d2 (ap_unitId q) = creditOf d (ap_unitId q)"
proof -
  note inv = fin_reachable_inv [OF assms(1)]
  have inv1: "fin_inv d1" by (rule approvePayment_inv [OF inv assms(2,3,6)])
  have pid: "pm_id p = ap_paymentId q" using findPayment_mem [OF assms(2)] by simp
  note rv = reverse_effect [OF inv1 assms(7), unfolded assms(8-10)]
  have paid: "paidOf d1 ob = paidOf d ob + listedOn (allocationsOf d1 (ap_paymentId q)) ob" for ob
    using approve_automatic_effect(1) [OF inv assms(2,3) _ assms(6), of ob]
      approve_explicit_effect(2) [OF inv assms(2) _ assms(6), of ob] unfolding pid
    by (cases "pm_selectionMode p") auto
  then have 1: "paidOf d2 ob = paidOf d ob" using rv(1) by simp
  have bal: "balanceOf d1 (ap_fundId q) = balanceOf d (ap_fundId q) + ap_amount q"
    by (rule approve_posts [OF inv assms(2,3,6)])
  then have 2: "balanceOf d2 (ap_fundId q) = balanceOf d (ap_fundId q)" using rv(2) by simp
  obtain p1 where p1: "findPaymentById d1 (ap_paymentId q) = Some p1" "allocatedTotal d1 (pm_id p1) = pm_amount p1"
    using reversePayment_steps [OF assms(7)] assms(8) by auto
  have "pm_amount p1 = pm_amount p" "pm_id p1 = pm_id p"
    using approved_row [OF inv assms(2,3,6)] p1(1) by (auto simp: markApproved_def)
  then have "creditOf d1 (ap_unitId q) = creditOf d (ap_unitId q)"
    using approve_automatic_effect(3) [OF inv assms(2,3) _ assms(6)]
      approve_explicit_effect(5) [OF inv assms(2) _ assms(6), of "ap_unitId q"] p1(2)
    by (cases "pm_selectionMode p") auto
  then have "creditOf d2 (ap_unitId q) = creditOf d (ap_unitId q)" using rv(4) by simp
  with 1 2 show ?thesis by blast
qed

theorem reversal_undoes_approval_witness:
  "\<exists>r d1 r' d2. approvePayment 7 (approve_params 120) reported = Inr (r, d1) \<and>
     reversePayment 8 (reverse_params 120) d1 = Inr (r', d2) \<and>
     paidOf d2 (CHARGE_ITEM (demo_ids 3)) = paidOf reported (CHARGE_ITEM (demo_ids 3))"
proof -
  have "\<not> isl (case approvePayment 7 (approve_params 120) reported of Inl e \<Rightarrow> Inl e
     | Inr (_, d) \<Rightarrow> reversePayment 8 (reverse_params 120) d)" by (rule demo_runs demo_reported demo_approvals)
  then obtain r d1 r' d2 where ok: "approvePayment 7 (approve_params 120) reported = Inr (r, d1)"
    "reversePayment 8 (reverse_params 120) d1 = Inr (r', d2)"
    using returned by (fastforce split: sum.splits prod.splits)
  have p: "findPaymentById reported (ap_paymentId (approve_params 120)) = Some (hd (payments reported))" by (rule demo_runs demo_reported demo_approvals)
  have "ap_amount (approve_params 120) = pm_amount (hd (payments reported))"
    "ap_unitId (approve_params 120) = pm_unitId (hd (payments reported))"
    "ap_fundId (approve_params 120) = pm_fundId (hd (payments reported))" by (rule demo_runs demo_reported demo_approvals)+
  from reversal_undoes_approval [OF demo_reachable(2) p this ok] ok
  show ?thesis by (simp add: approve_params_def reverse_params_def)
qed

text \<open>
  When a reversal is accepted: exactly when the payment is approved, its allocations
  make up its whole amount (no credit was created) and its fund exists.
\<close>

lemma reversal_accepted_iff:
  "(\<exists>x. reversePaymentBody now q d = Inr x) \<longleftrightarrow>
    (\<exists>p. findPaymentById d (rv_paymentId q) = Some p \<and> pm_status p = APPROVED \<and>
      allocatedTotal d (pm_id p) = pm_amount p \<and> findFundById d (rv_fundId q) \<noteq> None)"
  by (rule reverse_accepted)

text \<open>
  C11.  Refunds never succeed: in every reachable state \<open>createRefund\<close> fails for every
  payment, since it demands of the same positive amount that it be allocated in full and
  that nothing of it be allocated.
\<close>

theorem refund_never_succeeds:
  assumes "fin_reachable d" shows "isl (createRefund now q d)"
proof (cases "createRefund now q d")
  case (Inr x)
  then show ?thesis using createRefund_fails [OF fin_invD(5) [OF fin_reachable_inv [OF assms]]] by blast
qed simp

theorem refund_never_succeeds_witness:
  "isl (createRefund 9 \<lparr>rp_paymentId = demo_ids 8, rp_unitId = ''u'', rp_buildingId = ''b'', rp_fundId = demo_ids 0,
     rp_amount = 200, rp_paymentAmount = 200, rp_reason = [], rp_createdById = ''m''\<rparr> overpaid)"
  by (rule refund_never_succeeds [OF demo_reachable(4)])

end
