(* ===== verification/Charge_Properties.thy ===== *)
theory Charge_Properties
  imports Scenario_Runs Service_Facts
begin

text \<open>
  The properties of reporting payments, dividing and issuing charges, adjusting debt and
  paying expenses, and of the calls that wrap them.
\<close>

lemma returned_call: "\<not> isl (fst x) \<Longrightarrow> \<exists>a w. x = (Inr a, w)"
  by (cases x; cases "fst x") auto

section \<open>Reporting a payment\<close>

text \<open>
  C12.  A payment reported without manual entry is never more than what the unit still has
  to report, and once reported that figure has dropped by exactly its amount, so a debt
  cannot be reported twice under different keys.
\<close>

theorem report_reserves_the_debt:
  assumes "createPayment now q d = Inr (r, d')" "\<not> cpp_isManualAmount q" "0 < cpp_amount q"
    and "findByIdempotencyKey d (cpp_payerId q) (cpp_buildingId q) (cpp_idempotencyKey q) = None"
  shows "cpp_amount q \<le> remainingPayable (computeDebtSnapshot d (cpp_unitId q)) \<and>
    remainingPayable (computeDebtSnapshot d' (cpp_unitId q)) =
      remainingPayable (computeDebtSnapshot d (cpp_unitId q)) - cpp_amount q"
  using report_uses_up_payable [OF assms(1,4,2,3)] createPayment_new(1) [OF assms(1,4)] assms(2) by simp

theorem report_reserves_the_debt_witness:
  "\<exists>r d'. createPayment 6 (demo_report 120) charged = Inr (r, d') \<and>
     remainingPayable (computeDebtSnapshot d' ''u'') = remainingPayable (computeDebtSnapshot charged ''u'') - 120"
proof -
  have "\<not> isl (createPayment 6 (demo_report 120) charged)" by (rule demo_approvals demo_changes demo_calls demo_service)
  then obtain r d' where ok: "createPayment 6 (demo_report 120) charged = Inr (r, d')" using returned by blast
  moreover have "findByIdempotencyKey charged (cpp_payerId (demo_report 120)) (cpp_buildingId (demo_report 120))
    (cpp_idempotencyKey (demo_report 120)) = None" by (rule demo_approvals demo_changes demo_calls demo_service)
  ultimately show ?thesis using report_reserves_the_debt [OF ok] by (simp add: demo_report_def)
qed

text \<open>
  C13.  Repeating a report is harmless: sending the same request again, at any later time,
  answers with the same payment and changes nothing, for reports by amount and by selection.
\<close>

theorem repeated_report_is_idempotent:
  "(createPayment now q d = Inr (r, d') \<longrightarrow> createPayment now' q d' = Inr (r, d')) \<and>
   (fin_reachable d \<and> createExplicitPayment now x d = Inr (s, d2) \<longrightarrow>
     createExplicitPayment now' x d2 = Inr (s, d2))"
  using report_replay explicit_report_replay fin_reachable_inv by blast

theorem repeated_report_is_idempotent_witness:
  "\<exists>s d2. createExplicitPayment 6 demo_explicit charged = Inr (s, d2) \<and>
     createExplicitPayment 99 demo_explicit d2 = Inr (s, d2) \<and> pm_amount s = 40"
proof -
  have "case createExplicitPayment 6 demo_explicit charged of Inl _ \<Rightarrow> False | Inr (s, _) \<Rightarrow> pm_amount s = 40"
    by (rule demo_approvals demo_changes demo_calls demo_service)
  then obtain s d2 where "createExplicitPayment 6 demo_explicit charged = Inr (s, d2)" "pm_amount s = 40"
    by (auto split: sum.splits)
  then show ?thesis using repeated_report_is_idempotent demo_reachable(1) by blast
qed

section \<open>Dividing a total\<close>

text \<open>
  C14.  The equal split hands out exactly the total, to the units in their order, and no two
  units differ by more than one currency unit.
\<close>

theorem equal_split_is_exact_and_fair:
  assumes "0 \<le> t" "t < 2 ^ 53" "ids \<noteq> []"
  shows "sum_of snd (allocateEqually t ids) = t \<and> map fst (allocateEqually t ids) = ids \<and>
    (\<forall>a\<in>set (map snd (allocateEqually t ids)). a = t div int (length ids) \<or> a = t div int (length ids) + 1)"
proof -
  have "a = t div int (length ids) \<or> a = t div int (length ids) + 1" if m: "a \<in> set (map snd (allocateEqually t ids))" for a
  proof -
    obtain u where "(u, a) \<in> set (allocateEqually t ids)" using m by auto
    then show ?thesis by (rule allocateEqually_fair [OF assms(1,2)])
  qed
  then show ?thesis using allocateEqually_total [OF assms] allocateEqually_units by blast
qed

theorem equal_split_is_exact_and_fair_witness:
  "sum_of snd (allocateEqually 100 [''a'', ''b'', ''c'']) = 100 \<and>
   map snd (allocateEqually 100 [''a'', ''b'', ''c'']) = [34, 33, 33]"
proof -
  have "map snd (allocateEqually 100 [''a'', ''b'', ''c'']) = [34, 33, 33]" by (rule demo_approvals demo_changes demo_calls demo_service)
  then show ?thesis using equal_split_is_exact_and_fair [of 100 "[''a'', ''b'', ''c'']"] by simp
qed

text \<open>
  C15.  The split by area, although computed in floating point, hands out exactly the total,
  and every unit's amount is within 1.01 of its exact share, for up to 10000 units with
  positive areas and any positive 32-bit total.
\<close>

theorem area_split_is_exact_and_near:
  assumes "units \<noteq> []" "distinct (map fst units)" "\<And>u. u \<in> set units \<Longrightarrow> 0 < snd u"
    and "length units \<le> maxUnits" "0 < t" "t < 2 ^ 31" "(uid, area) \<in> set units" "(uid, amount) \<in> set (allocateByArea t units)"
  shows "sum_of snd (allocateByArea t units) = t \<and>
    \<bar>of_int amount - of_int t * area / rsum (map snd units)\<bar> < 1 + 1 / 100"
proof
  show "sum_of snd (allocateByArea t units) = t" by (rule allocateByArea_total [OF assms(1-6)])
  show "\<bar>of_int amount - of_int t * area / rsum (map snd units)\<bar> < 1 + 1 / 100"
    by (rule allocateByArea_near [OF assms(3) assms(4,5,6,2,7,8)])
qed

theorem area_split_is_exact_and_near_witness:
  "sum_of snd (allocateByArea 10 [(''a'', 1), (''b'', 3)]) = 10 \<and>
   \<bar>of_int 3 - 10 * 1 / rsum [1, 3]\<bar> < 1 + 1 / 100"
proof -
  have "allocateByArea 10 [(''a'', 1), (''b'', 3)] = [(''a'', 3), (''b'', 7)]" by (rule demo_approvals demo_changes demo_calls demo_service)
  moreover have "0 < snd u" if "u \<in> set [(''a'', 1), (''b'', 3)]" for u :: "id \<times> rat" using that by auto
  ultimately show ?thesis
    using area_split_is_exact_and_near [of "[(''a'', 1), (''b'', 3)]" 10 "''a''" 1 3]
    by (simp add: maxUnits_def)
qed

section \<open>Debt\<close>

text \<open>
  C16.  Issuing a batch moves credit and creates none: for every unit, its credit plus all
  that has been paid on its charge items is the same before and after, and its credit does
  not grow.
\<close>

theorem issuing_only_moves_credit:
  assumes "fin_reachable d" "issueChargeBatch now q d = Inr (r, d')"
  shows "creditOf d' uid + unitPaid d' uid = creditOf d uid + unitPaid d uid \<and> creditOf d' uid \<le> creditOf d uid"
  by (rule issue_moves_credit [OF fin_reachable_inv [OF assms(1)] assms(2)])

theorem issuing_only_moves_credit_witness:
  "\<exists>r d'. issueChargeBatch 9 demo_issue overpaid = Inr (r, d') \<and>
     creditOf d' ''u'' + unitPaid d' ''u'' = 200 \<and> creditOf overpaid ''u'' = 60"
proof -
  have "\<not> isl (issueChargeBatch 9 demo_issue overpaid)" by (rule demo_approvals demo_changes demo_calls demo_service)
  then obtain r d' where ok: "issueChargeBatch 9 demo_issue overpaid = Inr (r, d')" using returned by blast
  have "creditOf overpaid ''u'' = 60 \<and> unitPaid overpaid ''u'' = 140" by (rule demo_approvals demo_changes demo_calls demo_service)
  with issuing_only_moves_credit [OF demo_reachable(4) ok, of "''u''"] ok show ?thesis by auto
qed

text \<open>
  C17.  A waiver reduces debt and nothing else: a negative adjustment pays the unit's charge
  items by its size or by their whole outstanding debt, whichever is less; it makes no
  credit for any unit and moves no fund.
\<close>

theorem waiver_is_bounded_by_debt:
  assumes "fin_reachable d" "ja_amount q < 0" "createAdjustment now q d = Inr (r, d')"
  shows "unitPaid d' (ja_unitId q) = unitPaid d (ja_unitId q) +
      min \<bar>ja_amount q\<bar> (chargeItemDebt (computeDebtSnapshot d (ja_unitId q))) \<and>
    creditOf d' uid = creditOf d uid \<and> funds d' = funds d"
  using adjustment_waives [OF fin_reachable_inv [OF assms(1)] assms(2,3)] by blast

theorem waiver_is_bounded_by_debt_witness:
  "\<exists>r d'. createAdjustment 6 (demo_adjust (- 500)) charged = Inr (r, d') \<and> unitPaid d' ''u'' = 140"
proof -
  have "\<not> isl (createAdjustment 6 (demo_adjust (- 500)) charged)" by (rule demo_approvals demo_changes demo_calls demo_service)
  then obtain r d' where ok: "createAdjustment 6 (demo_adjust (- 500)) charged = Inr (r, d')" using returned by blast
  have "unitPaid charged ''u'' = 0 \<and> chargeItemDebt (computeDebtSnapshot charged ''u'') = 140" by (rule demo_approvals demo_changes demo_calls demo_service)
  with waiver_is_bounded_by_debt [OF demo_reachable(1) _ ok] ok show ?thesis by (simp add: demo_adjust_def)
qed

text \<open>
  C18.  An opening-balance correction reaches its target: afterwards the unit's corrections
  total exactly the target, the recorded difference is the target minus the earlier total,
  and a correction that would change nothing is refused.
\<close>

theorem correction_reaches_its_target:
  assumes "applyOpeningBalanceCorrection now q d = Inr (c, d')"
  shows "getUnitOpeningBalanceCorrectionTotal d' (oc_unitId q) = oc_targetBalance q \<and>
    cor_delta c = oc_targetBalance q - getUnitOpeningBalanceCorrectionTotal d (oc_unitId q) \<and> cor_delta c \<noteq> 0"
  using correction_reaches_target [OF assms] by blast

theorem correction_reaches_its_target_witness:
  "\<exists>c d'. applyOpeningBalanceCorrection 6 (demo_correction 30) charged = Inr (c, d') \<and>
     getUnitOpeningBalanceCorrectionTotal d' ''u'' = 30"
proof -
  have "\<not> isl (applyOpeningBalanceCorrection 6 (demo_correction 30) charged)" by (rule demo_approvals demo_changes demo_calls demo_service)
  then obtain c d' where ok: "applyOpeningBalanceCorrection 6 (demo_correction 30) charged = Inr (c, d')"
    using returned by blast
  from correction_reaches_its_target [OF ok] ok show ?thesis by (simp add: demo_correction_def)
qed

section \<open>Expenses\<close>

text \<open>
  C19.  An expense never exceeds the balance of its fund and is taken from it exactly;
  voiding it restores every fund's balance; and a second void of the same expense, whoever
  asks for it, fails with a conflict.
\<close>

theorem expense_is_paid_and_voided_once:
  assumes "createExpense now q d = Inr (e, d1)" "voidExpense now' v d1 = Inr (e', d2)"
    and "vp_fundId v = xp_fundId q" "vp_amount v = xp_amount q" "vp_expenseId v' = vp_expenseId v"
  shows "xp_amount q \<le> balanceOf d (xp_fundId q) \<and>
    balanceOf d1 (xp_fundId q) = balanceOf d (xp_fundId q) - xp_amount q \<and> balanceOf d2 fid = balanceOf d fid \<and>
    voidExpense now'' v' d2 =
      Inl (ConflictError STR ''This expense is no longer POSTED (it may have already been voided).'')"
  using createExpense_effect(1,2) [OF assms(1)] voidExpense_effect(1) [OF assms(2)] voidExpense_once [OF assms(2,5)]
    assms(3,4) by auto

theorem expense_is_paid_and_voided_once_witness:
  "\<exists>e d1 e' d2. createExpense 6 (demo_expense 200) charged = Inr (e, d1) \<and> voidExpense 7 (demo_void 200) d1 = Inr (e', d2) \<and>
     balanceOf d2 (demo_ids 0) = 500 \<and> isl (voidExpense 8 (demo_void 200) d2)"
proof -
  have "\<not> isl (case createExpense 6 (demo_expense 200) charged of Inl x \<Rightarrow> Inl x
    | Inr (_, d) \<Rightarrow> voidExpense 7 (demo_void 200) d)" by (rule demo_approvals demo_changes demo_calls demo_service)
  then obtain e d1 e' d2 where ok: "createExpense 6 (demo_expense 200) charged = Inr (e, d1)"
    "voidExpense 7 (demo_void 200) d1 = Inr (e', d2)"
    using returned by (fastforce split: sum.splits prod.splits)
  have "balanceOf charged (demo_ids 0) = 500" by (rule demo_approvals demo_changes demo_calls demo_service)
  with expense_is_paid_and_voided_once [OF ok _ _ refl, of "demo_ids 0" 8] ok
  show ?thesis by (auto simp: demo_expense_def demo_void_def)
qed

section \<open>Calls of the service\<close>

text \<open>
  C20.  The preview of a charge writes nothing, and what creating the same charge then
  stores is what was shown: one new item per previewed row, with its unit and amount, and
  the previewed grand total.
\<close>

theorem preview_shows_what_creation_stores:
  assumes "previewChargeBatch now bid dto w = (Inr pv, w1)" "svc_createChargeBatch now' bid dto actor w = (Inr batch, w')"
  shows "w1 = w \<and> cb_totalAmount batch = cpv_grandTotal pv \<and>
    (\<exists>news. items (w_fin w') = items (w_fin w) @ news \<and>
      map (\<lambda>i. (ci_unitId i, ci_amount i, ci_chargeBatchId i)) news =
      map (\<lambda>p. (pv_unitId p, pv_amount p, cb_id batch)) (cpv_items pv))"
  using preview_is_creation [OF assms] preview_resolves [OF assms(1)] by blast

theorem preview_shows_what_creation_stores_witness:
  "\<exists>pv batch w'. previewChargeBatch 6 ''b'' demo_dto demo_world = (Inr pv, demo_world) \<and>
     svc_createChargeBatch 6 ''b'' demo_dto ''m'' demo_world = (Inr batch, w') \<and>
     cb_totalAmount batch = cpv_grandTotal pv"
proof -
  have "\<not> isl (fst (previewChargeBatch 6 ''b'' demo_dto demo_world))"
    "\<not> isl (fst (svc_createChargeBatch 6 ''b'' demo_dto ''m'' demo_world))" by (rule demo_approvals demo_changes demo_calls demo_service)+
  then obtain pv w1 batch w' where ok: "previewChargeBatch 6 ''b'' demo_dto demo_world = (Inr pv, w1)"
    "svc_createChargeBatch 6 ''b'' demo_dto ''m'' demo_world = (Inr batch, w')"
    by (metis returned_call)
  with preview_shows_what_creation_stores [OF ok] show ?thesis by metis
qed

text \<open>
  C21.  A charge that is not itemised by hand reaches only units of its own building; every
  item it stores belongs to the new batch and to an existing unit.
\<close>

theorem charges_reach_units_of_the_building:
  assumes "svc_createChargeBatch now bid dto actor w = (Inr batch, w')"
  shows "\<exists>news. items (w_fin w') = items (w_fin w) @ news \<and>
    (\<forall>i\<in>set news. ci_chargeBatchId i = cb_id batch \<and> unitExists (w_bld w) (ci_unitId i) \<and>
      (dto_calculationMethod dto \<noteq> MIXED \<longrightarrow>
        (\<exists>u\<in>set (unitRows (w_bld w)). u_id u = ci_unitId i \<and> u_buildingId u = bid)))"
  by (rule created_units [OF assms])

theorem charges_reach_units_of_the_building_witness:
  "\<exists>batch w' news. svc_createChargeBatch 6 ''b'' demo_dto ''m'' demo_world = (Inr batch, w') \<and>
     items (w_fin w') = items (w_fin demo_world) @ news"
proof -
  have "\<not> isl (fst (svc_createChargeBatch 6 ''b'' demo_dto ''m'' demo_world))" by (rule demo_approvals demo_changes demo_calls demo_service)
  then obtain batch w' where ok: "svc_createChargeBatch 6 ''b'' demo_dto ''m'' demo_world = (Inr batch, w')"
    using returned_call by blast
  from charges_reach_units_of_the_building [OF ok] ok show ?thesis by blast
qed

text \<open>
  C22.  The people a resident's charge names as payers, the current tenant when there is one and
  else the current owners, are exactly the people a payment reported by amount is accepted for; a
  payment by selection is accepted from these, from the current owners even beside a tenant, and
  from the manager of the building, and from no one else.
\<close>

theorem charged_payers_are_accepted_payers:
  assumes "t \<noteq> PT_OWNER" "\<not> isl (fst (getOwnUnit bid uid w))" "ps = set (snd (the (resolvePayers (w_bld w) uid (Some t))))"
  shows "{p. assertValidPayerForUnit uid p (w_bld w) = Inr ()} = ps \<and>
    {p. fst (assertCanPayExactUnit bid uid p w) = Inr ()} =
      ps \<union> set (getCurrentOwnerPersonIds (w_bld w) uid) \<union> {p. MANAGER \<in> set (getRoles (w_bld w) p bid)}"
  using resolved_payers_responsible [OF assms(1)] exact_payers [OF assms(2)] by (auto simp: assms(3) payer_responsible)

theorem charged_payers_are_accepted_payers_witness:
  "{p. assertValidPayerForUnit ''u'' p demo_bld = Inr ()} = {''o''} \<and>
    fst (assertCanPayExactUnit ''b'' ''u'' ''m'' demo_start) = Inr ()"
proof -
  have "\<not> isl (fst (getOwnUnit ''b'' ''u'' demo_start))" "MANAGER \<in> set (getRoles (w_bld demo_start) ''m'' ''b'')" by code_simp+
  moreover have "w_bld demo_start = demo_bld" by (simp add: demo_start_def)
  moreover have "snd (the (resolvePayers demo_bld ''u'' (Some PT_RESIDENT))) = [''o'']" by (rule demo_payers)
  ultimately show ?thesis
    using charged_payers_are_accepted_payers [of PT_RESIDENT "''b''" "''u''" demo_start, OF _ _ refl] by auto
qed

text \<open>
  C23.  Obligation identifiers survive the wire: a parsed identifier prints back to the
  same text, and the identifier of an obligation with a non-empty key parses to it.
\<close>

theorem obligation_ids_round_trip:
  "(parseObligationId s = Inr t \<longrightarrow> encodeObligationId t = s) \<and>
   (k \<noteq> [] \<longrightarrow> parseObligationId (encodeObligationId (CHARGE_ITEM k)) = Inr (CHARGE_ITEM k) \<and>
     parseObligationId (encodeObligationId (ADJUSTMENT_OB k)) = Inr (ADJUSTMENT_OB k))"
  using encode_parse parse_encode [of "CHARGE_ITEM k"] parse_encode [of "ADJUSTMENT_OB k"] by simp

theorem obligation_ids_round_trip_witness:
  "parseObligationId (encodeObligationId (ADJUSTMENT_OB ''a:b'')) = Inr (ADJUSTMENT_OB ''a:b'')"
  using obligation_ids_round_trip [of _ _ "''a:b''"] by simp

text \<open>
  C24.  The building's debt page, which computes all its units from four batched queries,
  shows for each unit what the single-unit query computes.
\<close>

theorem batched_debts_agree_with_single_units:
  "fst (listUnitDebtSummaries d b bid st) =
     map (\<lambda>u. (u_id u, remainingPayable (computeDebtSnapshot d (u_id u)))) (window st (listUnits b bid))"
  by (rule listUnitDebtSummaries_eq)

text \<open>
  C25.  Walking all pages of a listing, from 1 to the reported number of pages, returns
  every row exactly once and in order.
\<close>

theorem pages_partition_the_listing:
  assumes "1 \<le> l" "length xs < 2 ^ 53"
  shows "concat (map (\<lambda>k. window (toSkipTake \<lparr>pg_page = k, pg_limit = l\<rparr>) xs)
      (pageNumbers (pgm_totalPages (buildPaginationMeta \<lparr>pg_page = 1, pg_limit = l\<rparr> (int (length xs)))))) = xs"
  by (rule pages_partition [OF assms])

theorem pages_partition_the_listing_witness:
  "concat (map (\<lambda>k. window (toSkipTake \<lparr>pg_page = k, pg_limit = 2\<rparr>) [1, 2, 3 :: int])
      (pageNumbers (pgm_totalPages (buildPaginationMeta \<lparr>pg_page = 1, pg_limit = 2\<rparr> 3)))) = [1, 2, 3]"
  using pages_partition_the_listing [of 2 "[1, 2, 3]"] by simp

end
