(* ===== verification/Finance_Findings.thy ===== *)
theory Finance_Findings
  imports Finance_Scenario
begin

text \<open>
  Concrete histories on which the code does something it does not mean to.
\<close>

section \<open>A share of zero blocks explicit payment\<close>

text \<open>
  Two units share one fund and one monthly series.  A total of 1 over two units leaves the
  second unit an item of amount 0, which no payment can ever settle.
\<close>

definition two_units :: bld_db where
  "two_units = demo_bld\<lparr>unitRows := unitRows demo_bld @
       [(hd (unitRows demo_bld))\<lparr>u_id := ''v'', u_unitNumber := ''2''\<rparr>],
     ownerships := ownerships demo_bld @ [(hd (ownerships demo_bld))\<lparr>ow_id := ''ww'', ow_unitId := ''v''\<rparr>]\<rparr>"

definition monthly :: "string \<Rightarrow> time \<Rightarrow> money \<Rightarrow> createChargeBatchDto" where
  "monthly label t amount = (demo_charge 0)\<lparr>dto_chargeKind := Some MONTHLY, dto_seriesId := Some (demo_ids 2),
     dto_periodStart := Some (DateString label (Some t)), dto_calculationMethod := FIXED,
     dto_items := None, dto_totalAmount := Some amount\<rparr>"

definition zero_share_history :: "finRequest list" where
  "zero_share_history =
     [CreateFund 1 ''b'' demo_fund ''m'', CreateSeries ''b'' ''Monthly'',
      CreateBatch 2 ''b'' (monthly ''1'' 0 1) ''m'', IssueBatch 3 ''b'' (demo_ids 3) ''m'',
      CreateBatch 4 ''b'' (monthly ''2'' 86400000 4) ''m'', IssueBatch 5 ''b'' (demo_ids 7) ''m'']"

definition zero_share :: world where
  "zero_share = run_history no_addDays zero_share_history (demo_start\<lparr>w_bld := two_units\<rparr>)"

text \<open>The manager of building \<open>b\<close> itemises a unit of building \<open>c\<close>; an added debt of 30 is paid.\<close>

definition two_buildings :: bld_db where
  "two_buildings = demo_bld\<lparr>unitRows := unitRows demo_bld @
       [(hd (unitRows demo_bld))\<lparr>u_id := ''v'', u_buildingId := ''c''\<rparr>]\<rparr>"

definition foreign_charge_history :: "finRequest list" where
  "foreign_charge_history =
     [CreateFund 1 ''b'' demo_fund ''m'',
      CreateBatch 2 ''b'' ((demo_charge 0)\<lparr>dto_items := Some [(''v'', 70)]\<rparr>) ''m'', IssueBatch 3 ''b'' (demo_ids 2) ''m'']"

definition settled_adjustment_history :: "finRequest list" where
  "settled_adjustment_history =
     [CreateFund 1 ''b'' demo_fund ''m'',
      CreateAdjustment 2 ''b'' ''u'' \<lparr>adto_amount = 30, adto_reason = ''Damage'', adto_fundId = Some (demo_ids 0)\<rparr> ''m'',
      CreatePayment 3 ''b'' ''u'' (demo_payment 30 ''k'') ''o'', ApprovePayment 4 ''b'' (demo_ids 4) ''m'']"

definition later_item :: createExplicitPaymentDto where
  "later_item = demo_explicit_request\<lparr>edto_obligationIds := [''CHARGE_ITEM:'' @ demo_ids 9]\<rparr>"

text \<open>
  The only thing the second unit owes is the later item, which is listed as selectable, and
  selecting it alone is refused by a business rule
  (422), as a gap; the item that stands in the way is not payable, so selecting both is a conflict (409).
\<close>

definition selecting :: "nat list \<Rightarrow> world \<Rightarrow> nat" where
  "selecting ids w = (case fst (svc_createExplicitPayment 6 ''b'' ''v''
       (later_item\<lparr>edto_obligationIds := map (\<lambda>n. ''CHARGE_ITEM:'' @ demo_ids n) ids\<rparr>) ''o'' w) of
     Inl e \<Rightarrow> httpStatus e | Inr _ \<Rightarrow> 201)"

definition blockedByZero :: "world \<Rightarrow> bool" where
  "blockedByZero w \<longleftrightarrow>
     map (\<lambda>r. (sr_obligation r, sr_remainingPayable r, sr_selectable r)) (listSelectableObligations (w_fin w) ''v'') =
       [(CHARGE_ITEM (demo_ids 9), 2, True)] \<and> selecting [9] w = 422 \<and> selecting [5, 9] w = 409"

lemma zero_share_blocks_explicit_payment: "blockedByZero zero_share"
  by code_simp

section \<open>An itemised charge reaches another building\<close>

text \<open>The manager of building \<open>b\<close> puts a debt of 70 on a unit of building \<open>c\<close>.\<close>

lemma itemised_charge_reaches_other_building:
  "remainingPayable (computeDebtSnapshot
     (w_fin (run_history no_addDays foreign_charge_history (demo_start\<lparr>w_bld := two_buildings\<rparr>))) ''v'') = 70"
  "map u_buildingId (filter (\<lambda>u. u_id u = ''v'') (unitRows two_buildings)) = [''c'']"
  by code_simp+

section \<open>The financial summary counts settled adjustments\<close>

text \<open>After an added debt of 30 is paid, the unit owes nothing and the building is said to be owed 30.\<close>

definition settledYetOwed :: "fin_db \<Rightarrow> bool" where
  "settledYetOwed d \<longleftrightarrow> totalDebt (computeDebtSnapshot d ''u'') = 0 \<and> fs_totalOutstanding (getFinancialSummary d ''b'') = 30"

lemma summary_counts_settled_adjustment:
  "settledYetOwed (w_fin (run_history no_addDays settled_adjustment_history demo_start))"
  by code_simp

end
