(* ===== verification/Building_Policies.thy ===== *)
theory Building_Policies
  imports Building_Types
begin

text \<open>
  The policies of \<^verbatim>\<open>src/src/modules/building/domain/policies\<close>: pure checks and the shaping
  of rows for a caller.  Messages are ASCII here: typographic apostrophes are written plainly, and
  a Persian message is given in English.
\<close>

section \<open>Manager assignment\<close>

definition assertCandidateIsMember :: "bool \<Rightarrow> unit result" where
  "assertCandidateIsMember isMember = assert_r isMember (BusinessRuleViolationError
     STR ''A person must already be a member of this building before they can be assigned as manager.'')"

text \<open>\<open>current && current === next\<close>: no current manager, or an empty id, never clashes.\<close>

definition assertNotSelfHandoff :: "id option \<Rightarrow> id \<Rightarrow> unit result" where
  "assertNotSelfHandoff current new = assert_r
     (\<not> (case current of None \<Rightarrow> False | Some c \<Rightarrow> c \<noteq> [] \<and> c = new))
     (BusinessRuleViolationError STR ''This person is already the active manager.'')"

definition assertNoActiveManager :: "membership option \<Rightarrow> unit result" where
  "assertNoActiveManager existing = assert_r (existing = None) (ConflictError
     STR ''This building already has an active manager. End the current management before assigning a new one.'')"

definition assertProvisional :: "managerLifecycleState option \<Rightarrow> unit result" where
  "assertProvisional st = assert_r (st = Some ML_PROVISIONAL)
     (BusinessRuleViolationError STR ''Only a provisional manager can be verified.'')"

definition assertHasActiveManager :: "membership option \<Rightarrow> membership result" where
  "assertHasActiveManager existing = (case existing of Some m \<Rightarrow> Inr m
     | None \<Rightarrow> Inl (BusinessRuleViolationError STR ''This building does not currently have an active manager.''))"

section \<open>Ownership\<close>

definition assertCallerIsCurrentOwner :: "bool \<Rightarrow> unit result" where
  "assertCallerIsCurrentOwner isOwner = assert_r isOwner
     (AuthorizationError STR ''Only the unit's current owner may initiate an ownership transfer.'')"

definition ownerInvited :: "string option \<Rightarrow> string \<Rightarrow> bool" where
  "ownerInvited unitOwnerPhone callerPhone \<longleftrightarrow>
     (case unitOwnerPhone of None \<Rightarrow> False | Some p \<Rightarrow> p \<noteq> [] \<and> p = callerPhone)"

definition assertEligible :: "bool \<Rightarrow> string option \<Rightarrow> string \<Rightarrow> unit result" where
  "assertEligible hasOwner unitOwnerPhone callerPhone =
     bind_r (assert_r (\<not> hasOwner) (BusinessRuleViolationError STR ''This unit already has a registered owner.'')) (\<lambda>_.
     assert_r (ownerInvited unitOwnerPhone callerPhone) (AuthorizationError
       STR ''You are not the invited owner of this unit. Ask the building manager to register your phone number as this unit's owner first.''))"

section \<open>Tenancy\<close>

definition assertUnitAvailableForTenancy :: "tenancy option \<Rightarrow> unit result" where
  "assertUnitAvailableForTenancy existing = assert_r (existing = None)
     (BusinessRuleViolationError STR ''This unit already has an active tenancy.'')"

definition assertCanCreate :: "bool \<Rightarrow> bool \<Rightarrow> unit result" where
  "assertCanCreate isOwner isManager = assert_r (isOwner \<or> isManager) (AuthorizationError
     STR ''Only the unit's current owner or the building manager may register a tenancy.'')"

definition assertCanManage :: "bool \<Rightarrow> bool \<Rightarrow> bool \<Rightarrow> unit result" where
  "assertCanManage isOwner isManager isTenant = assert_r (isOwner \<or> isManager \<or> isTenant) (AuthorizationError
     STR ''Only the unit's current owner, the building manager, or the tenant themselves may manage this tenancy.'')"

definition assertUnitHasOwner :: "bool \<Rightarrow> unit result" where
  "assertUnitHasOwner hasOwner = assert_r hasOwner (BusinessRuleViolationError
     STR ''This unit must have a registered owner before a tenancy can be created.'')"

definition assertCanGiveNotice :: "tenancyStatus \<Rightarrow> unit result" where
  "assertCanGiveNotice st = assert_r (st = TS_ACTIVE)
     (BusinessRuleViolationError STR ''Notice can only be given on an ACTIVE tenancy (current status: ).'')"

definition assertCanEnd :: "tenancyStatus \<Rightarrow> unit result" where
  "assertCanEnd st = assert_r (st \<in> {TS_ACTIVE, TS_NOTICE_GIVEN})
     (BusinessRuleViolationError STR ''Tenancy is already ended (status: ).'')"

section \<open>Building setup\<close>

definition assertCanCreateBuilding :: "membershipRole list \<Rightarrow> unit result" where
  "assertCanCreateBuilding roles = assert_r (\<not> (roles \<noteq> [] \<and> list_all (\<lambda>r. r = TENANT) roles))
     (BusinessRuleViolationError
       STR ''A Tenant cannot create a new Building. Contact the building manager if you believe this is a mistake.'')"

definition assertUniqueUnitNumber :: "string list \<Rightarrow> string \<Rightarrow> unit result" where
  "assertUniqueUnitNumber existing candidate = assert_r (\<not> List.member existing candidate)
     (BusinessRuleViolationError STR ''Unit already exists in this building.'')"

definition assertPostalCodeAvailable :: "building option \<Rightarrow> unit result" where
  "assertPostalCodeAvailable existing = assert_r (existing = None)
     (DuplicateError STR ''A building with this postal code is already registered.'')"

section \<open>What a caller sees of a unit\<close>

record unitPrivacyContext =
  cx_isManager :: bool
  cx_isCurrentOwnerOfUnit :: bool
  cx_isCurrentTenantOfUnit :: bool
  cx_isInvitedOwnerCandidate :: bool

record personSummary =
  ps_personId :: id
  ps_firstName :: "string option"
  ps_lastName :: "string option"
  ps_phone :: string

definition canSeePendingOwnerFields :: "unitPrivacyContext \<Rightarrow> bool" where
  "canSeePendingOwnerFields c \<longleftrightarrow> cx_isManager c \<or> cx_isCurrentOwnerOfUnit c \<or> cx_isInvitedOwnerCandidate c"

definition canSeeCurrentOwnerSummary :: "unitPrivacyContext \<Rightarrow> bool" where
  "canSeeCurrentOwnerSummary c \<longleftrightarrow> cx_isManager c \<or> cx_isCurrentOwnerOfUnit c \<or> cx_isCurrentTenantOfUnit c"

definition canSeeCurrentTenantSummary :: "unitPrivacyContext \<Rightarrow> bool" where
  "canSeeCurrentTenantSummary c \<longleftrightarrow> cx_isManager c \<or> cx_isCurrentOwnerOfUnit c \<or> cx_isCurrentTenantOfUnit c"

text \<open>
  A response: the columns of the unit that stay, the pending-owner columns when they are
  not deleted from the object, and the two summaries.
\<close>

record pendingOwner =
  po_ownerFullName :: "string option"
  po_ownerFirstName :: "string option"
  po_ownerLastName :: "string option"
  po_ownerPhone :: "string option"
  po_ownerInviteSentAt :: "time option"

record unitPublic =
  pu_id :: id
  pu_buildingId :: id
  pu_blockId :: "id option"
  pu_floorId :: "id option"
  pu_floorNumber :: "int option"
  pu_unitNumber :: string
  pu_type :: unitType
  pu_areaSqm :: "rat option"
  pu_parkingCount :: "int option"
  pu_storageCount :: "int option"
  pu_occupancyStatus :: unitOccupancyStatus

record shapedUnit =
  su_public :: unitPublic
  su_pendingOwner :: "pendingOwner option"
  su_currentOwner :: "personSummary option"
  su_currentTenant :: "personSummary option"

definition publicPart :: "unit_row \<Rightarrow> unitPublic" where
  "publicPart u = \<lparr>pu_id = u_id u, pu_buildingId = u_buildingId u, pu_blockId = u_blockId u,
     pu_floorId = u_floorId u, pu_floorNumber = u_floorNumber u, pu_unitNumber = u_unitNumber u,
     pu_type = u_type u, pu_areaSqm = u_areaSqm u, pu_parkingCount = u_parkingCount u,
     pu_storageCount = u_storageCount u, pu_occupancyStatus = u_occupancyStatus u\<rparr>"

definition pendingPart :: "unit_row \<Rightarrow> pendingOwner" where
  "pendingPart u = \<lparr>po_ownerFullName = u_ownerFullName u, po_ownerFirstName = u_ownerFirstName u,
     po_ownerLastName = u_ownerLastName u, po_ownerPhone = u_ownerPhone u,
     po_ownerInviteSentAt = u_ownerInviteSentAt u\<rparr>"

definition shapeUnit ::
  "unit_row \<Rightarrow> unitPrivacyContext \<Rightarrow> personSummary option \<Rightarrow> personSummary option \<Rightarrow> shapedUnit" where
  "shapeUnit u c currentOwner currentTenant =
     \<lparr>su_public = publicPart u,
      su_pendingOwner = (if canSeePendingOwnerFields c then Some (pendingPart u) else None),
      su_currentOwner = (if canSeeCurrentOwnerSummary c then currentOwner else None),
      su_currentTenant = (if canSeeCurrentTenantSummary c then currentTenant else None)\<rparr>"

definition assertCanAccessUnitHistory :: "unitPrivacyContext \<Rightarrow> unit result" where
  "assertCanAccessUnitHistory c = assert_r (cx_isManager c \<or> cx_isCurrentOwnerOfUnit c \<or> cx_isCurrentTenantOfUnit c)
     (AuthorizationError STR ''You do not have access to this unit's history.'')"

text \<open>
  A history row carries the id of its person and, in the listings, the joined person; both
  are nulled on rows the caller may not see in full.  \<open>he_row\<close> holds the other columns.
\<close>

record personBrief =
  pb_id :: id
  pb_fullName :: "string option"
  pb_phone :: string

record 'r historyEntry =
  he_row :: 'r
  he_personId :: "id option"
  he_person :: "personBrief option"

definition shapeHistoryEntry :: "'r historyEntry \<Rightarrow> unitPrivacyContext \<Rightarrow> id \<Rightarrow> 'r historyEntry" where
  "shapeHistoryEntry e c caller =
     (if cx_isManager c \<or> he_personId e = Some caller then e else e\<lparr>he_personId := None, he_person := None\<rparr>)"

end
