(* ===== verification/Governance_Types.thy ===== *)
theory Governance_Types
  imports Building_Types
begin

text \<open>
  The rows of the governance domain of \<^verbatim>\<open>src/prisma/schema.prisma\<close>: votes, their options,
  eligibility snapshots, ballots and results, standing proxies, meetings and attendance.
\<close>

datatype voteCategory = VC_MANAGEMENT | VC_FINANCIAL | VC_LEGAL | VC_MAINTENANCE | VC_COMMUNITY

datatype voteStatus = VS_DRAFT | VS_ACTIVE | VS_CLOSED | VS_CANCELLED

datatype voteEligibilityType = VE_OWNER | VE_TENANT

datatype voteResultStatus = VR_PASSED | VR_NOT_PASSED | VR_QUORUM_NOT_MET

datatype voteScopeType = SC_ENTIRE_BUILDING | SC_BLOCK | SC_PROPERTY_TYPE | SC_SELECTED_UNITS

record vote =
  vt_id :: id
  vt_buildingId :: id
  vt_title :: string
  vt_description :: "string option"
  vt_category :: voteCategory
  vt_status :: voteStatus
  vt_isManagerElection :: bool
  vt_quorumPercent :: "int option"
  vt_startAt :: time
  vt_endAt :: time
  vt_createdById :: id
  vt_publishedAt :: "time option"
  vt_closedAt :: "time option"
  vt_cancelledAt :: "time option"
  vt_cancelReason :: "string option"
  vt_createdAt :: time
  vt_meetingId :: "id option"
  vt_scopeType :: voteScopeType
  vt_scopeBlockId :: "id option"
  vt_scopeUnitType :: "unitType option"
  vt_scopeUnitIds :: "id list"

record voteOption =
  vo_id :: id
  vo_voteId :: id
  vo_label :: string
  vo_value :: string
  vo_sortOrder :: nat

record voteSnapshot =
  vs_voteId :: id
  vs_unitId :: id
  vs_eligiblePersonId :: id
  vs_eligibilityType :: voteEligibilityType
  vs_capturedAt :: time

record ballot =
  bl_id :: id
  bl_voteId :: id
  bl_unitId :: id
  bl_voterPersonId :: id
  bl_selectedOptionId :: id
  bl_submittedAt :: time

record voteResult =
  vr_voteId :: id
  vr_totalEligibleCount :: nat
  vr_totalBallotCount :: nat
  vr_quorumMet :: bool
  vr_winningOptionId :: "id option"
  vr_resultStatus :: voteResultStatus
  vr_publishedAt :: "time option"

record voteProxy =
  vp_id :: id
  vp_unitId :: id
  vp_buildingId :: id
  vp_granterPersonId :: id
  vp_proxyPersonId :: id
  vp_isCurrent :: bool
  vp_grantedAt :: time
  vp_revokedAt :: "time option"

record meeting =
  mt_id :: id
  mt_buildingId :: id
  mt_title :: string
  mt_scheduledAt :: time
  mt_location :: "string option"
  mt_minutes :: "string option"
  mt_createdById :: id
  mt_archivedAt :: "time option"

record attendance =
  at_meetingId :: id
  at_personId :: id
  at_recordedAt :: time

record gov_db =
  votes :: "vote list"
  voteOptions :: "voteOption list"
  snapshots :: "voteSnapshot list"
  ballots :: "ballot list"
  voteResults :: "voteResult list"
  voteProxies :: "voteProxy list"
  meetings :: "meeting list"
  attendances :: "attendance list"
  gov_ids :: "nat \<Rightarrow> id"
  gov_next :: nat

definition fresh_gid :: "gov_db \<Rightarrow> id" where
  "fresh_gid g = gov_ids g (gov_next g)"

definition take_gid :: "gov_db \<Rightarrow> gov_db" where
  "take_gid g = g\<lparr>gov_next := Suc (gov_next g)\<rparr>"

end
