(* ===== verification/Building_Repo.thy ===== *)
theory Building_Repo
  imports Building_Policies Governance_Types
begin

text \<open>
  The methods of \<^verbatim>\<open>building.repository.ts\<close>: lookups, and writes as transactions over the
  building tables.  A write fails like the database does: P2002 for a duplicate key, P2003
  for a missing referenced row, P2025 for an update of a missing row.
\<close>

section \<open>Lookups\<close>

definition listForPerson :: "bld_db \<Rightarrow> id \<Rightarrow> building list" where
  "listForPerson b p = rev (sort_key bd_createdAt (rev
     (filter (\<lambda>d. \<exists>m\<in>set (memberships b). mb_buildingId m = bd_id d \<and> mb_personId m = p \<and> mb_isCurrent m)
       (buildings b))))"

definition findByPostalCode :: "bld_db \<Rightarrow> string \<Rightarrow> building option" where
  "findByPostalCode b code = find_row bd_postalCode code (buildings b)"

definition findBlockById :: "bld_db \<Rightarrow> id \<Rightarrow> block option" where
  "findBlockById b k = find_row bk_id k (blocks b)"

definition countUnitsByIdsInBuilding :: "bld_db \<Rightarrow> id \<Rightarrow> id list \<Rightarrow> nat" where
  "countUnitsByIdsInBuilding b bid uids =
     count_where (\<lambda>u. u_buildingId u = bid \<and> List.member uids (u_id u)) (unitRows b)"

definition findPersonByPhone :: "bld_db \<Rightarrow> string \<Rightarrow> person option" where
  "findPersonByPhone b phone = find_row pe_phone phone (persons b)"

definition findPersonById :: "bld_db \<Rightarrow> id \<Rightarrow> person option" where
  "findPersonById b p = find_row pe_id p (persons b)"

definition getCurrentRolesAcrossBuildings :: "bld_db \<Rightarrow> id \<Rightarrow> membershipRole list" where
  "getCurrentRolesAcrossBuildings b p =
     remdups (map mb_role (filter (\<lambda>m. mb_personId m = p \<and> mb_isCurrent m) (memberships b)))"

definition findUnlinkedOwnerUnitsByPhone :: "bld_db \<Rightarrow> string \<Rightarrow> unit_row list" where
  "findUnlinkedOwnerUnitsByPhone b phone =
     filter (\<lambda>u. u_ownerPhone u = Some phone \<and> \<not> hasCurrentOwnership b (u_id u)) (unitRows b)"

definition findMembershipRequestById :: "bld_db \<Rightarrow> id \<Rightarrow> membershipRequest option" where
  "findMembershipRequestById b r = find_row mr_id r (membershipRequests b)"

definition briefOf :: "bld_db \<Rightarrow> id \<Rightarrow> personBrief option" where
  "briefOf b p = map_option (\<lambda>q. \<lparr>pb_id = pe_id q, pb_fullName = pe_fullName q, pb_phone = pe_phone q\<rparr>)
     (findPersonById b p)"

text \<open>Newest first; rows of one instant keep their insertion order.\<close>

definition newest :: "('r \<Rightarrow> time) \<Rightarrow> 'r list \<Rightarrow> 'r list" where
  "newest since rows = sort_key (\<lambda>r. - since r) rows"

definition listMembershipRequests :: "bld_db \<Rightarrow> id \<Rightarrow> (membershipRequest \<times> personBrief option) list" where
  "listMembershipRequests b bid = map (\<lambda>r. (r, briefOf b (mr_personId r)))
     (newest mr_createdAt (filter (\<lambda>r. mr_buildingId r = bid) (membershipRequests b)))"

definition getVerifiedRoles :: "bld_db \<Rightarrow> id \<Rightarrow> id \<Rightarrow> membershipRole list" where
  "getVerifiedRoles b p bid = map mb_role
     (filter (\<lambda>m. mb_role m \<noteq> MANAGER \<or> mb_managerState m = Some ML_VERIFIED)
       (filter (\<lambda>m. mb_personId m = p \<and> mb_buildingId m = bid \<and> mb_isCurrent m) (memberships b)))"

definition findMemberByPhone :: "bld_db \<Rightarrow> id \<Rightarrow> string \<Rightarrow> person option" where
  "findMemberByPhone b bid phone =
     Option.bind (find (\<lambda>m. mb_buildingId m = bid \<and> mb_isCurrent m \<and>
         map_option pe_phone (findPersonById b (mb_personId m)) = Some phone) (memberships b))
       (\<lambda>m. findPersonById b (mb_personId m))"

definition listCurrentMemberPersonIds :: "bld_db \<Rightarrow> id \<Rightarrow> id list" where
  "listCurrentMemberPersonIds b bid =
     remdups (map mb_personId (filter (\<lambda>m. mb_buildingId m = bid \<and> mb_isCurrent m) (memberships b)))"

definition listCurrentMemberPersonIdsByRoles :: "bld_db \<Rightarrow> id \<Rightarrow> membershipRole list \<Rightarrow> id list" where
  "listCurrentMemberPersonIdsByRoles b bid roles =
     remdups (map mb_personId (filter (\<lambda>m. mb_buildingId m = bid \<and> mb_isCurrent m \<and> List.member roles (mb_role m))
       (memberships b)))"

definition managesNow :: "id \<Rightarrow> membership \<Rightarrow> bool" where
  "managesNow bid m \<longleftrightarrow> mb_buildingId m = bid \<and> mb_role m = MANAGER \<and> mb_isCurrent m"

definition getCurrentManagerMembership :: "bld_db \<Rightarrow> id \<Rightarrow> membership option" where
  "getCurrentManagerMembership b bid = find (managesNow bid) (memberships b)"

definition listManagementHistory :: "bld_db \<Rightarrow> id \<Rightarrow> membership list" where
  "listManagementHistory b bid =
     newest mb_startedAt (filter (\<lambda>m. mb_buildingId m = bid \<and> mb_role m = MANAGER) (memberships b))"

definition countCurrentOwners :: "bld_db \<Rightarrow> id \<Rightarrow> nat" where
  "countCurrentOwners b bid =
     length (remdups (map mb_personId
       (filter (\<lambda>m. mb_buildingId m = bid \<and> mb_role m = OWNER \<and> mb_isCurrent m) (memberships b))))"

definition findSimilarAddressBuildings :: "bld_db \<Rightarrow> string \<Rightarrow> string \<Rightarrow> string \<Rightarrow> id \<Rightarrow> id \<Rightarrow> building list" where
  "findSimilarAddressBuildings b city district street excludeBuilding excludeCreator =
     take 5 (filter (\<lambda>d. bd_city d = city \<and> bd_district d = district \<and> bd_mainStreet d = street \<and>
       bd_id d \<noteq> excludeBuilding \<and> bd_createdById d \<noteq> excludeCreator) (buildings b))"

definition isInvitedOwnerForUnit :: "bld_db \<Rightarrow> id \<Rightarrow> id \<Rightarrow> id \<Rightarrow> bool" where
  "isInvitedOwnerForUnit b bid uid p =
     (case findUnitById b uid of None \<Rightarrow> False
      | Some u \<Rightarrow> u_buildingId u = bid \<and> u_ownerPhone u \<notin> {None, Some []} \<and> \<not> hasCurrentOwnership b uid \<and>
          (case findPersonById b p of None \<Rightarrow> False | Some q \<Rightarrow> pe_phone q \<noteq> [] \<and> u_ownerPhone u = Some (pe_phone q)))"

text \<open>\<open>where: { unit: { buildingId } }\<close>.\<close>

definition unitIn :: "bld_db \<Rightarrow> id \<Rightarrow> id \<Rightarrow> bool" where
  "unitIn b bid uid \<longleftrightarrow> map_option u_buildingId (findUnitById b uid) = Some bid"

definition findCurrentOwnedUnitIdsForPerson :: "bld_db \<Rightarrow> id \<Rightarrow> id \<Rightarrow> id list" where
  "findCurrentOwnedUnitIdsForPerson b bid p =
     map ow_unitId (filter (\<lambda>w. ow_personId w = p \<and> ow_isCurrent w \<and> unitIn b bid (ow_unitId w)) (ownerships b))"

definition findCurrentTenantUnitIdsForPerson :: "bld_db \<Rightarrow> id \<Rightarrow> id \<Rightarrow> id list" where
  "findCurrentTenantUnitIdsForPerson b bid p =
     map tn_unitId (filter (\<lambda>t. tn_personId t = p \<and> tn_isCurrent t \<and> unitIn b bid (tn_unitId t)) (tenancies b))"

definition findUnitIdsWithCurrentOwnership :: "bld_db \<Rightarrow> id \<Rightarrow> id list" where
  "findUnitIdsWithCurrentOwnership b bid =
     map ow_unitId (filter (\<lambda>w. ow_isCurrent w \<and> unitIn b bid (ow_unitId w)) (ownerships b))"

definition summaryOf :: "bld_db \<Rightarrow> id \<Rightarrow> personSummary option" where
  "summaryOf b p = map_option (\<lambda>q. \<lparr>ps_personId = pe_id q, ps_firstName = pe_firstName q,
     ps_lastName = pe_lastName q, ps_phone = pe_phone q\<rparr>) (findPersonById b p)"

definition findCurrentOwnerSummaryForUnit :: "bld_db \<Rightarrow> id \<Rightarrow> personSummary option" where
  "findCurrentOwnerSummaryForUnit b uid =
     Option.bind (find (\<lambda>w. ow_unitId w = uid \<and> ow_isCurrent w) (ownerships b)) (\<lambda>w. summaryOf b (ow_personId w))"

definition findCurrentTenantSummaryForUnit :: "bld_db \<Rightarrow> id \<Rightarrow> personSummary option" where
  "findCurrentTenantSummaryForUnit b uid =
     Option.bind (find (\<lambda>t. tn_unitId t = uid \<and> tn_isCurrent t) (tenancies b)) (\<lambda>t. summaryOf b (tn_personId t))"

text \<open>\<open>new Map(rows.map(...))\<close>: of several rows with one key the last one stays.\<close>

definition findCurrentOwnerSummariesForUnits :: "bld_db \<Rightarrow> id list \<Rightarrow> id \<Rightarrow> personSummary option" where
  "findCurrentOwnerSummariesForUnits b uids uid =
     Option.bind (find (\<lambda>w. ow_unitId w = uid)
         (rev (filter (\<lambda>w. List.member uids (ow_unitId w) \<and> ow_isCurrent w) (ownerships b))))
       (\<lambda>w. summaryOf b (ow_personId w))"

definition findCurrentTenantSummariesForUnits :: "bld_db \<Rightarrow> id list \<Rightarrow> id \<Rightarrow> personSummary option" where
  "findCurrentTenantSummariesForUnits b uids uid =
     Option.bind (find (\<lambda>t. tn_unitId t = uid)
         (rev (filter (\<lambda>t. List.member uids (tn_unitId t) \<and> tn_isCurrent t) (tenancies b))))
       (\<lambda>t. summaryOf b (tn_personId t))"

definition listOwnershipHistoryForUnit :: "bld_db \<Rightarrow> id \<Rightarrow> ownership list" where
  "listOwnershipHistoryForUnit b uid = newest ow_startDate (filter (\<lambda>w. ow_unitId w = uid) (ownerships b))"

definition findTenancyById :: "bld_db \<Rightarrow> id \<Rightarrow> tenancy option" where
  "findTenancyById b t = find_row tn_id t (tenancies b)"

definition listTenanciesForUnit :: "bld_db \<Rightarrow> id \<Rightarrow> tenancy list" where
  "listTenanciesForUnit b uid = newest tn_startDate (filter (\<lambda>t. tn_unitId t = uid) (tenancies b))"

definition currentTenantPersonIds :: "bld_db \<Rightarrow> id \<Rightarrow> id list" where
  "currentTenantPersonIds b uid =
     map tn_personId (filter (\<lambda>t. tn_unitId t = uid \<and> tn_isCurrent t) (tenancies b))"

definition findLiveEligibleVoterForUnit :: "bld_db \<Rightarrow> id \<Rightarrow> bool \<Rightarrow> (id \<times> voteEligibilityType) option" where
  "findLiveEligibleVoterForUnit b uid allowTenantVoting =
     (let ts = currentTenantPersonIds b uid; ws = getCurrentOwnerPersonIds b uid
      in if allowTenantVoting \<and> length ts = 1 then Some (hd ts, VE_TENANT)
         else if length ws = 1 then Some (hd ws, VE_OWNER) else None)"

section \<open>Writes\<close>

definition fresh_bid :: "bld_db \<Rightarrow> id" where
  "fresh_bid b = bld_ids b (bld_next b)"

definition take_bid :: "bld_db \<Rightarrow> bld_db" where
  "take_bid b = b\<lparr>bld_next := Suc (bld_next b)\<rparr>"

definition needs :: "'r option \<Rightarrow> msg \<Rightarrow> 'r result" where
  "needs x code = (case x of None \<Rightarrow> Inl (PrismaError code) | Some r \<Rightarrow> Inr r)"

definition createPersonWithName :: "time \<Rightarrow> string \<Rightarrow> string \<Rightarrow> string \<Rightarrow> (bld_db, person) tx" where
  "createPersonWithName now phone firstName lastName b =
     (let p = \<lparr>pe_id = fresh_bid b, pe_phone = phone, pe_fullName = None, pe_firstName = Some firstName,
                pe_lastName = Some lastName, pe_createdAt = now, pe_isSuspended = False,
                pe_isBackofficeApproved = False, pe_xpBalance = 0, pe_email = None\<rparr>
      in if findPersonByPhone b phone \<noteq> None then Inl (PrismaError STR ''P2002'')
         else Inr (p, take_bid (b\<lparr>persons := persons b @ [p]\<rparr>)))"

text \<open>A name fills a column that is null; an empty or missing name fills nothing.\<close>

definition fill :: "string option \<Rightarrow> string option \<Rightarrow> string option" where
  "fill old new = (if old = None \<and> new \<noteq> Some [] then new else old)"

definition fillMissingPersonName :: "id \<Rightarrow> string option \<Rightarrow> string option \<Rightarrow> bld_db \<Rightarrow> bld_db" where
  "fillMissingPersonName p firstName lastName b =
     b\<lparr>persons := upd_where (\<lambda>q. pe_id q = p)
        (\<lambda>q. q\<lparr>pe_firstName := fill (pe_firstName q) firstName, pe_lastName := fill (pe_lastName q) lastName\<rparr>)
        (persons b)\<rparr>"

text \<open>A nullable foreign key that points nowhere.\<close>

definition dangling :: "('k \<Rightarrow> 'r option) \<Rightarrow> 'k option \<Rightarrow> bool" where
  "dangling lookup k = (case k of None \<Rightarrow> False | Some i \<Rightarrow> lookup i = None)"

definition insertMembership :: "membership \<Rightarrow> (bld_db, membership) tx" where
  "insertMembership m b =
     (if findPersonById b (mb_personId m) = None \<or> findBuildingById b (mb_buildingId m) = None \<or>
         dangling (findUnitById b) (mb_unitId m) \<or> dangling (findPersonById b) (mb_assignedById m)
      then Inl (PrismaError STR ''P2003'')
      else Inr (m\<lparr>mb_id := fresh_bid b\<rparr>,
                take_bid (b\<lparr>memberships := memberships b @ [m\<lparr>mb_id := fresh_bid b\<rparr>]\<rparr>)))"

definition plainMembership :: "time \<Rightarrow> id \<Rightarrow> id \<Rightarrow> id option \<Rightarrow> membershipRole \<Rightarrow> membership" where
  "plainMembership now p bid uid r = \<lparr>mb_id = [], mb_personId = p, mb_buildingId = bid, mb_unitId = uid,
     mb_role = r, mb_managerState = None, mb_managerAssignmentType = None, mb_assignedById = None,
     mb_startedAt = now, mb_endedAt = None, mb_isCurrent = True\<rparr>"

definition insertOwnership :: "time \<Rightarrow> id \<Rightarrow> id \<Rightarrow> (bld_db, ownership) tx" where
  "insertOwnership now uid p b =
     (let w = \<lparr>ow_id = fresh_bid b, ow_unitId = uid, ow_personId = p, ow_startDate = now, ow_endDate = None,
                ow_isCurrent = True\<rparr>
      in if findUnitById b uid = None \<or> findPersonById b p = None then Inl (PrismaError STR ''P2003'')
         else Inr (w, take_bid (b\<lparr>ownerships := ownerships b @ [w]\<rparr>)))"

text \<open>
  The transaction inserts the ownership and the membership; the name is filled afterwards,
  outside it, and cannot fail.
\<close>

definition linkOwnerToUnit ::
  "time \<Rightarrow> id \<Rightarrow> id \<Rightarrow> id \<Rightarrow> string option \<Rightarrow> string option \<Rightarrow> (bld_db, membership) tx" where
  "linkOwnerToUnit now uid bid p firstName lastName b =
     bind_r (insertOwnership now uid p b) (\<lambda>(_, b1).
     bind_r (insertMembership (plainMembership now p bid (Some uid) OWNER) b1) (\<lambda>(m, b2).
     Inr (m, fillMissingPersonName p firstName lastName b2)))"

record buildingParams =
  np_createdById :: id
  np_role :: membershipRole
  np_name :: "string option"
  np_buildingType :: buildingType
  np_description :: "string option"
  np_country :: string
  np_province :: "string option"
  np_city :: string
  np_district :: string
  np_mainStreet :: string
  np_subStreet :: "string option"
  np_alley :: "string option"
  np_plateNumber :: string
  np_addressLine :: string
  np_postalCode :: string
  np_totalBlocks :: int
  np_totalUnits :: int
  np_totalFloors :: "int option"

text \<open>
  Strings are UTF-8 bytes: \<open>blank\<close> recognises the encodings of the characters \<open>trim\<close>
  removes, and the default name is the Persian word for building before the street.
\<close>

fun blank :: "nat list \<Rightarrow> bool" where
  "blank [] = True"
| "blank (a # v) =
     (if 9 \<le> a \<and> a \<le> 13 \<or> a = 32 then blank v
      else case v of
        b # w \<Rightarrow>
          if a = 194 \<and> b = 160 then blank w
          else (case w of
            c # x \<Rightarrow>
              if a = 225 \<and> b = 154 \<and> c = 128 \<or>
                 a = 226 \<and> b = 128 \<and> (128 \<le> c \<and> c \<le> 138 \<or> c = 168 \<or> c = 169 \<or> c = 175) \<or>
                 a = 226 \<and> b = 129 \<and> c = 159 \<or> a = 227 \<and> b = 128 \<and> c = 128 \<or> a = 239 \<and> b = 187 \<and> c = 191
              then blank x else False
            | [] \<Rightarrow> False)
      | [] \<Rightarrow> False)"

definition sakhteman :: string where
  "sakhteman = map char_of [216, 179, 216, 167, 216, 174, 216, 170, 217, 133, 216, 167, 217, 134, 32 :: nat]"

definition buildingName :: "string option \<Rightarrow> string \<Rightarrow> string" where
  "buildingName name street =
     (case name of Some n \<Rightarrow> if blank (map of_char n) then sakhteman @ street else n | None \<Rightarrow> sakhteman @ street)"

definition newBuilding :: "time \<Rightarrow> id \<Rightarrow> buildingParams \<Rightarrow> building" where
  "newBuilding now i q = \<lparr>bd_id = i, bd_name = buildingName (np_name q) (np_mainStreet q),
     bd_buildingType = np_buildingType q, bd_description = np_description q, bd_country = np_country q,
     bd_province = np_province q, bd_city = np_city q, bd_district = np_district q,
     bd_mainStreet = np_mainStreet q, bd_subStreet = np_subStreet q, bd_alley = np_alley q,
     bd_plateNumber = np_plateNumber q, bd_addressLine = np_addressLine q, bd_postalCode = np_postalCode q,
     bd_totalBlocks = np_totalBlocks q, bd_totalUnits = np_totalUnits q, bd_totalFloors = np_totalFloors q,
     bd_status = BS_PENDING, bd_createdById = np_createdById q, bd_recoveryModeEnteredAt = None,
     bd_createdAt = now\<rparr>"

definition skeletonUnit :: "id \<Rightarrow> id \<Rightarrow> string \<Rightarrow> unit_row" where
  "skeletonUnit i bid num = \<lparr>u_id = i, u_buildingId = bid, u_blockId = None, u_floorId = None,
     u_floorNumber = None, u_unitNumber = num, u_type = RESIDENTIAL, u_areaSqm = None, u_parkingCount = None,
     u_storageCount = None, u_occupancyStatus = VACANT, u_ownerFullName = None, u_ownerFirstName = None,
     u_ownerLastName = None, u_ownerPhone = None, u_ownerInviteSentAt = None\<rparr>"

text \<open>\<open>String(n)\<close> of a natural number.\<close>

fun decimal :: "nat \<Rightarrow> string" where
  "decimal n = (if n < 10 then [char_of (48 + n)] else decimal (n div 10) @ [char_of (48 + n mod 10)])"

declare decimal.simps [simp del]

fun addSkeletonUnits :: "id \<Rightarrow> nat list \<Rightarrow> bld_db \<Rightarrow> bld_db" where
  "addSkeletonUnits bid [] b = b"
| "addSkeletonUnits bid (n # ns) b =
     addSkeletonUnits bid ns (take_bid (b\<lparr>unitRows := unitRows b @ [skeletonUnit (fresh_bid b) bid (decimal n)]\<rparr>))"

definition foundingMembership :: "time \<Rightarrow> id \<Rightarrow> id \<Rightarrow> membershipRole \<Rightarrow> membership" where
  "foundingMembership now p bid r = (plainMembership now p bid None r)
     \<lparr>mb_managerState := (if r = MANAGER then Some ML_PROVISIONAL else None),
      mb_managerAssignmentType := (if r = MANAGER then Some MA_PROVISIONAL else None)\<rparr>"

definition createBuildingWithFoundingMember :: "time \<Rightarrow> buildingParams \<Rightarrow> (bld_db, building) tx" where
  "createBuildingWithFoundingMember now q b =
     (if findPersonById b (np_createdById q) = None then Inl (PrismaError STR ''P2003'')
      else if findByPostalCode b (np_postalCode q) \<noteq> None then Inl (PrismaError STR ''P2002'')
      else let d = newBuilding now (fresh_bid b) q in
        bind_r (insertMembership (foundingMembership now (np_createdById q) (bd_id d) (np_role q))
                  (take_bid (b\<lparr>buildings := buildings b @ [d]\<rparr>))) (\<lambda>(_, b1).
        Inr (d, addSkeletonUnits (bd_id d) [1 ..< Suc (nat (np_totalUnits q))] b1)))"

record createUnitParams =
  nu_blockId :: "id option"
  nu_floorId :: "id option"
  nu_unitNumber :: string
  nu_type :: "unitType option"
  nu_areaSqm :: "rat option"

text \<open>
  Floors have no table here: \<open>floors\<close> says which floor identifiers exist.
\<close>

definition createUnit :: "(id \<Rightarrow> bool) \<Rightarrow> id \<Rightarrow> createUnitParams \<Rightarrow> (bld_db, unit_row) tx" where
  "createUnit floors bid q b =
     (let u = (skeletonUnit (fresh_bid b) bid (nu_unitNumber q))
                \<lparr>u_blockId := nu_blockId q, u_floorId := nu_floorId q,
                 u_type := (case nu_type q of Some t \<Rightarrow> t | None \<Rightarrow> RESIDENTIAL), u_areaSqm := nu_areaSqm q\<rparr>
      in if findBuildingById b bid = None \<or> dangling (findBlockById b) (nu_blockId q) \<or>
            dangling (\<lambda>f. if floors f then Some f else None) (nu_floorId q) then Inl (PrismaError STR ''P2003'')
         else if \<exists>v\<in>set (unitRows b). u_buildingId v = bid \<and> u_unitNumber v = nu_unitNumber q
           then Inl (PrismaError STR ''P2002'')
         else Inr (u, take_bid (b\<lparr>unitRows := unitRows b @ [u]\<rparr>)))"

text \<open>
  A field of an update: absent (the column stays) or given (a value, or null).  A null for
  a column that has no null is refused by the client before it reaches the database.
\<close>

datatype 'a field = Absent | Given 'a

primrec patch :: "'a field \<Rightarrow> 'a \<Rightarrow> 'a" where
  "patch Absent old = old"
| "patch (Given x) old = x"

record updateUnitParams =
  uu_floorNumber :: "int option field"
  uu_areaSqm :: "rat option field"
  uu_parkingCount :: "int option field"
  uu_storageCount :: "int option field"
  uu_occupancyStatus :: "unitOccupancyStatus option field"
  uu_ownerFullName :: "string option field"
  uu_ownerFirstName :: "string option field"
  uu_ownerLastName :: "string option field"
  uu_ownerPhone :: "string option field"

definition patchUnit :: "updateUnitParams \<Rightarrow> unit_row \<Rightarrow> unit_row" where
  "patchUnit q u = u\<lparr>u_floorNumber := patch (uu_floorNumber q) (u_floorNumber u),
     u_areaSqm := patch (uu_areaSqm q) (u_areaSqm u), u_parkingCount := patch (uu_parkingCount q) (u_parkingCount u),
     u_storageCount := patch (uu_storageCount q) (u_storageCount u),
     u_occupancyStatus := (case uu_occupancyStatus q of Given (Some x) \<Rightarrow> x | _ \<Rightarrow> u_occupancyStatus u),
     u_ownerFullName := patch (uu_ownerFullName q) (u_ownerFullName u),
     u_ownerFirstName := patch (uu_ownerFirstName q) (u_ownerFirstName u),
     u_ownerLastName := patch (uu_ownerLastName q) (u_ownerLastName u),
     u_ownerPhone := patch (uu_ownerPhone q) (u_ownerPhone u)\<rparr>"

text \<open>\<open>unit.update({ where: { id } })\<close> and its result.\<close>

definition modifyUnit :: "id \<Rightarrow> (unit_row \<Rightarrow> unit_row) \<Rightarrow> (bld_db, unit_row) tx" where
  "modifyUnit uid f b = bind_r (needs (findUnitById b uid) STR ''P2025'') (\<lambda>u.
     Inr (f u, b\<lparr>unitRows := upd_where (\<lambda>v. u_id v = uid) f (unitRows b)\<rparr>))"

definition updateUnit :: "id \<Rightarrow> updateUnitParams \<Rightarrow> (bld_db, unit_row) tx" where
  "updateUnit uid q b =
     (if uu_occupancyStatus q = Given None then Inl (PrismaError STR ''PrismaClientValidationError'')
      else modifyUnit uid (patchUnit q) b)"

definition markOwnerInviteSent :: "time \<Rightarrow> id \<Rightarrow> (bld_db, unit_row) tx" where
  "markOwnerInviteSent now uid = modifyUnit uid (\<lambda>u. u\<lparr>u_ownerInviteSentAt := Some now\<rparr>)"

definition createMembershipRequest ::
  "time \<Rightarrow> id \<Rightarrow> id \<Rightarrow> membershipRole \<Rightarrow> string option \<Rightarrow> (bld_db, membershipRequest) tx" where
  "createMembershipRequest now bid p r message b =
     (let q = \<lparr>mr_id = fresh_bid b, mr_buildingId = bid, mr_personId = p, mr_role = r, mr_message = message,
                mr_status = MR_PENDING, mr_createdAt = now\<rparr>
      in if findPersonById b p = None \<or> findBuildingById b bid = None then Inl (PrismaError STR ''P2003'')
         else Inr (q, take_bid (b\<lparr>membershipRequests := membershipRequests b @ [q]\<rparr>)))"

definition updateMembershipRequestStatus :: "id \<Rightarrow> membershipRequestStatus \<Rightarrow> (bld_db, membershipRequest) tx" where
  "updateMembershipRequestStatus i st b =
     bind_r (needs (findMembershipRequestById b i) STR ''P2025'') (\<lambda>q.
     Inr (q\<lparr>mr_status := st\<rparr>, b\<lparr>membershipRequests :=
       upd_where (\<lambda>r. mr_id r = i) (\<lambda>r. r\<lparr>mr_status := st\<rparr>) (membershipRequests b)\<rparr>))"

definition createMembership :: "time \<Rightarrow> id \<Rightarrow> id \<Rightarrow> membershipRole \<Rightarrow> (bld_db, membership) tx" where
  "createMembership now p bid r =
     insertMembership ((plainMembership now p bid None r)
       \<lparr>mb_managerState := (if r = MANAGER then Some ML_PROVISIONAL else None),
        mb_managerAssignmentType := (if r = MANAGER then Some MA_APPOINTED else None)\<rparr>)"

text \<open>\<open>membership.update({ where: { id } })\<close>.\<close>

definition modifyMembership :: "id \<Rightarrow> (membership \<Rightarrow> membership) \<Rightarrow> (bld_db, membership) tx" where
  "modifyMembership i f b =
     bind_r (needs (find_row mb_id i (memberships b)) STR ''P2025'') (\<lambda>m.
     Inr (f m, b\<lparr>memberships := upd_where (\<lambda>x. mb_id x = i) f (memberships b)\<rparr>))"

definition endedManager :: "time \<Rightarrow> membership \<Rightarrow> membership" where
  "endedManager now m = m\<lparr>mb_isCurrent := False, mb_endedAt := Some now, mb_managerState := Some ML_FORMER\<rparr>"

definition clearRecovery :: "id \<Rightarrow> bld_db \<Rightarrow> bld_db" where
  "clearRecovery bid b =
     b\<lparr>buildings := upd_where (\<lambda>d. bd_id d = bid) (\<lambda>d. d\<lparr>bd_recoveryModeEnteredAt := None\<rparr>) (buildings b)\<rparr>"

definition changeManager ::
  "time \<Rightarrow> id \<Rightarrow> id \<Rightarrow> managerAssignmentType \<Rightarrow> id option \<Rightarrow> (bld_db, membership) tx" where
  "changeManager now bid newManager ty assignedBy b =
     bind_r (case getCurrentManagerMembership b bid of None \<Rightarrow> Inr b
             | Some c \<Rightarrow> bind_r (modifyMembership (mb_id c) (endedManager now) b) (\<lambda>(_, b1). Inr b1)) (\<lambda>b1.
     let st = (if ty = MA_PROVISIONAL then ML_PROVISIONAL else ML_VERIFIED) in
     bind_r (insertMembership ((plainMembership now newManager bid None MANAGER)
               \<lparr>mb_managerState := Some st, mb_managerAssignmentType := Some ty, mb_assignedById := assignedBy\<rparr>) b1)
       (\<lambda>(m, b2). Inr (m, if st = ML_VERIFIED then clearRecovery bid b2 else b2)))"

definition verifyManagerMembership :: "id \<Rightarrow> (bld_db, membership) tx" where
  "verifyManagerMembership i = modifyMembership i (\<lambda>m. m\<lparr>mb_managerState := Some ML_VERIFIED\<rparr>)"

definition endManagement :: "time \<Rightarrow> id \<Rightarrow> (bld_db, membership) tx" where
  "endManagement now i = modifyMembership i (endedManager now)"

definition suspendManagement :: "id \<Rightarrow> (bld_db, membership) tx" where
  "suspendManagement i = modifyMembership i (\<lambda>m. m\<lparr>mb_managerState := Some ML_SUSPENDED\<rparr>)"

definition modifyBuilding :: "id \<Rightarrow> (building \<Rightarrow> building) \<Rightarrow> (bld_db, building) tx" where
  "modifyBuilding bid f b = bind_r (needs (findBuildingById b bid) STR ''P2025'') (\<lambda>d.
     Inr (f d, b\<lparr>buildings := upd_where (\<lambda>x. bd_id x = bid) f (buildings b)\<rparr>))"

definition updateBuildingStatus :: "id \<Rightarrow> buildingStatus \<Rightarrow> (bld_db, building) tx" where
  "updateBuildingStatus bid st = modifyBuilding bid (\<lambda>d. d\<lparr>bd_status := st\<rparr>)"

definition setRecoveryMode :: "time \<Rightarrow> id \<Rightarrow> bool \<Rightarrow> (bld_db, building) tx" where
  "setRecoveryMode now bid entering =
     modifyBuilding bid (\<lambda>d. d\<lparr>bd_recoveryModeEnteredAt := (if entering then Some now else None)\<rparr>)"

definition endedOwnership :: "time \<Rightarrow> ownership \<Rightarrow> ownership" where
  "endedOwnership now w = w\<lparr>ow_isCurrent := False, ow_endDate := Some now\<rparr>"

definition endedMembership :: "time \<Rightarrow> membership \<Rightarrow> membership" where
  "endedMembership now m = m\<lparr>mb_isCurrent := False, mb_endedAt := Some now\<rparr>"

definition transferOwnership :: "time \<Rightarrow> id \<Rightarrow> string \<Rightarrow> (bld_db, unit_row) tx" where
  "transferOwnership now uid newOwnerPhone b =
     modifyUnit uid (\<lambda>u. u\<lparr>u_ownerPhone := Some newOwnerPhone, u_ownerFullName := None, u_ownerInviteSentAt := None\<rparr>)
       (b\<lparr>ownerships := upd_where (\<lambda>w. ow_unitId w = uid \<and> ow_isCurrent w) (endedOwnership now) (ownerships b),
          memberships := upd_where (\<lambda>m. mb_unitId m = Some uid \<and> mb_role m = OWNER \<and> mb_isCurrent m)
            (endedMembership now) (memberships b)\<rparr>)"

definition createTenancy :: "time \<Rightarrow> id \<Rightarrow> id \<Rightarrow> id \<Rightarrow> (bld_db, tenancy) tx" where
  "createTenancy now uid bid p b =
     (let t = \<lparr>tn_id = fresh_bid b, tn_unitId = uid, tn_personId = p, tn_status = TS_ACTIVE, tn_startDate = now,
                tn_endDate = None, tn_noticeGivenAt = None, tn_terminationReason = None, tn_isCurrent = True\<rparr>
      in if findUnitById b uid = None \<or> findPersonById b p = None then Inl (PrismaError STR ''P2003'')
         else bind_r (insertMembership (plainMembership now p bid (Some uid) TENANT)
                (take_bid (b\<lparr>tenancies := tenancies b @ [t]\<rparr>))) (\<lambda>(_, b1).
              bind_r (modifyUnit uid (\<lambda>u. u\<lparr>u_occupancyStatus := TENANT_OCCUPIED\<rparr>) b1) (\<lambda>(_, b2).
              Inr (t, b2))))"

text \<open>\<open>tenancy.update({ where: { id } })\<close>.\<close>

definition modifyTenancy :: "id \<Rightarrow> (tenancy \<Rightarrow> tenancy) \<Rightarrow> (bld_db, tenancy) tx" where
  "modifyTenancy i f b = bind_r (needs (findTenancyById b i) STR ''P2025'') (\<lambda>t.
     Inr (f t, b\<lparr>tenancies := upd_where (\<lambda>x. tn_id x = i) f (tenancies b)\<rparr>))"

definition giveTenancyNotice :: "time \<Rightarrow> id \<Rightarrow> (bld_db, tenancy) tx" where
  "giveTenancyNotice now i =
     modifyTenancy i (\<lambda>t. t\<lparr>tn_status := TS_NOTICE_GIVEN, tn_noticeGivenAt := Some now\<rparr>)"

definition endedTenancy :: "time \<Rightarrow> string option \<Rightarrow> tenancy \<Rightarrow> tenancy" where
  "endedTenancy now reason t = t\<lparr>tn_isCurrent := False, tn_status := TS_ENDED, tn_endDate := Some now,
     tn_terminationReason := (case reason of None \<Rightarrow> tn_terminationReason t | Some r \<Rightarrow> Some r)\<rparr>"

definition endTenancy :: "time \<Rightarrow> id \<Rightarrow> id \<Rightarrow> id \<Rightarrow> string option \<Rightarrow> (bld_db, tenancy) tx" where
  "endTenancy now i uid p reason b =
     bind_r (modifyTenancy i (endedTenancy now reason) b) (\<lambda>(t, b1).
     bind_r (modifyUnit uid (\<lambda>u. u\<lparr>u_occupancyStatus := VACANT\<rparr>)
       (b1\<lparr>memberships := upd_where (\<lambda>m. mb_unitId m = Some uid \<and> mb_personId m = p \<and> mb_role m = TENANT \<and> mb_isCurrent m)
          (endedMembership now) (memberships b1)\<rparr>)) (\<lambda>(_, b2).
     Inr (t, b2)))"

text \<open>
  The upsert; its retry after a lost race applies the same update to the row that won, so a
  serial run is the plain upsert.
\<close>

definition upsertBuildingSettings :: "id \<Rightarrow> bool option \<Rightarrow> (bld_db, bool) tx" where
  "upsertBuildingSettings bid allow b =
     (case find_row bs_buildingId bid (settingsRows b) of
        Some s \<Rightarrow> (let v = (case allow of Some x \<Rightarrow> x | None \<Rightarrow> bs_allowTenantVoting s)
          in Inr (v, b\<lparr>settingsRows := upd_where (\<lambda>x. bs_buildingId x = bid)
               (\<lambda>x. x\<lparr>bs_allowTenantVoting := v\<rparr>) (settingsRows b)\<rparr>))
      | None \<Rightarrow>
          if findBuildingById b bid = None then Inl (PrismaError STR ''P2003'')
          else (let v = (allow = Some True)
            in Inr (v, b\<lparr>settingsRows := settingsRows b @ [\<lparr>bs_buildingId = bid, bs_allowTenantVoting = v\<rparr>]\<rparr>)))"

end
