(* ===== verification/Case_Types.thy ===== *)
theory Case_Types
  imports Building_Types
begin

text \<open>
  The rows of the cases domain of \<^verbatim>\<open>src/prisma/schema.prisma\<close>: requests, complaints and
  suggestions, their messages and the history of their assignments.
\<close>

datatype caseType = CT_MAINTENANCE | CT_COMPLAINT | CT_SUGGESTION | CT_GENERAL

datatype caseStatus = CS_OPEN | CS_IN_PROGRESS | CS_WAITING_USER | CS_RESOLVED | CS_CLOSED

datatype casePriority = CP_LOW | CP_NORMAL | CP_HIGH | CP_URGENT

datatype caseVisibility = CV_PUBLIC | CV_PRIVATE

datatype caseResolutionCode =
  CR_COMPLETED | CR_REJECTED | CR_DUPLICATE | CR_INVALID | CR_EXTERNAL_RESOLUTION | CR_OTHER

record case_row =
  ca_id :: id
  ca_buildingId :: id
  ca_unitId :: "id option"
  ca_type :: caseType
  ca_title :: string
  ca_description :: string
  ca_status :: caseStatus
  ca_priority :: casePriority
  ca_visibility :: caseVisibility
  ca_isAgainstManager :: bool
  ca_resolutionCode :: "caseResolutionCode option"
  ca_createdById :: id
  ca_assigneeId :: "id option"
  ca_createdAt :: time
  ca_closedAt :: "time option"
  ca_mergedIntoId :: "id option"

record caseMessage =
  cm_id :: id
  cm_caseId :: id
  cm_senderId :: id
  cm_message :: string
  cm_isInternal :: bool
  cm_createdAt :: time

record caseAssignment =
  cg_id :: id
  cg_caseId :: id
  cg_assignedToId :: id
  cg_assignedById :: id
  cg_note :: "string option"
  cg_assignedAt :: time

record case_db =
  caseRows :: "case_row list"
  caseMessages :: "caseMessage list"
  caseAssignments :: "caseAssignment list"
  case_ids :: "nat \<Rightarrow> id"
  case_next :: nat

definition fresh_cid :: "case_db \<Rightarrow> id" where
  "fresh_cid c = case_ids c (case_next c)"

definition take_cid :: "case_db \<Rightarrow> case_db" where
  "take_cid c = c\<lparr>case_next := Suc (case_next c)\<rparr>"

end
