(* ===== verification/Backoffice_Types.thy ===== *)
theory Backoffice_Types
  imports Case_Types
begin

text \<open>
  The rows of the back office of \<^verbatim>\<open>src/prisma/schema.prisma\<close>: platform staff with their
  roles and permissions, the queues of building and manager verification, fraud cases with
  their enforcement actions, support and compliance cases, legal holds and subscriptions.
  Left out are \<open>updatedAt\<close> and labels no modelled code reads.
\<close>

section \<open>Staff\<close>

datatype platformStaffRole = REVIEWER | SENIOR_REVIEWER | PLATFORM_ADMIN

datatype permissionKey =
    PK_USER_VIEW | PK_USER_EDIT | PK_BUILDING_VIEW | PK_BUILDING_EDIT | PK_MARKETPLACE_REVIEW
  | PK_MARKETPLACE_APPROVE | PK_FINANCE_VIEW | PK_FINANCE_REFUND | PK_AUDIT_VIEW | PK_SYSTEM_SETTINGS
  | PK_FEATURE_FLAGS | PK_SUBSCRIPTION_VIEW | PK_SUBSCRIPTION_MANAGE | PK_BUILDING_VERIFICATION_VIEW
  | PK_BUILDING_VERIFICATION_MANAGE | PK_MANAGER_VERIFICATION_VIEW | PK_MANAGER_VERIFICATION_MANAGE
  | PK_FRAUD_VIEW | PK_FRAUD_MANAGE | PK_SUPPORT_VIEW | PK_SUPPORT_MANAGE | PK_COMPLIANCE_VIEW
  | PK_COMPLIANCE_MANAGE | PK_LEGAL_HOLD_MANAGE | PK_PERSON_ACCESS_VIEW | PK_PERSON_ACCESS_MANAGE
  | PK_NOTIFICATION_TEMPLATE_VIEW | PK_NOTIFICATION_TEMPLATE_MANAGE | PK_SCHEDULER_TRIGGER
  | PK_GAMIFICATION_ANALYTICS_VIEW | PK_MONITORING_VIEW | PK_MAINTENANCE_MODE_VIEW
  | PK_MAINTENANCE_MODE_MANAGE | PK_FEATURE_FLAGS_VIEW | PK_FEATURE_FLAGS_MANAGE | PK_DASHBOARD_VIEW
  | PK_NOTIFICATION_DELIVERY_VIEW | PK_NOTIFICATION_DELIVERY_MANAGE | PK_PROVIDER_SETTINGS_VIEW
  | PK_PROVIDER_SETTINGS_MANAGE | PK_ANALYTICS_VIEW | PK_GAMIFICATION_CORRECTION_MANAGE
  | PK_ADVERTISING_VIEW | PK_ADVERTISING_MANAGE | PK_GOVERNANCE_VIEW | PK_GOVERNANCE_MANAGE

record platformStaff =
  sf_id :: id
  sf_personId :: id
  sf_role :: platformStaffRole
  sf_isActive :: bool

record rbacRole =
  rr_id :: id
  rr_name :: string

record permissionRow =
  pk_id :: id
  pk_key :: permissionKey

record rolePermission =
  rp_id :: id
  rp_roleId :: id
  rp_permissionId :: id
  rp_addedById :: "id option"
  rp_revokedById :: "id option"
  rp_revokedAt :: "time option"

record staffRole =
  sr_id :: id
  sr_staffId :: id
  sr_roleId :: id
  sr_assignedById :: "id option"
  sr_revokedById :: "id option"
  sr_revokedAt :: "time option"

section \<open>Verification\<close>

datatype verificationPriority = PR_LOW | PR_NORMAL | PR_HIGH | PR_CRITICAL

datatype buildingVerificationDecision = BD_APPROVE | BD_REJECT | BD_REQUEST_INFORMATION

datatype managerVerificationStatus = MV_PENDING | MV_VERIFIED | MV_REJECTED | MV_SUSPENDED

datatype managerVerificationDecision = MD_APPROVE | MD_REJECT | MD_SUSPEND | MD_RESTORE

datatype managerVerificationSource = OWNER_APPROVAL | ADMIN_REVIEW | ELECTION | RECOVERY_APPOINTMENT

record buildingVerificationCase =
  bv_id :: id
  bv_buildingId :: id
  bv_status :: buildingStatus
  bv_priority :: verificationPriority
  bv_riskScore :: int
  bv_riskFlags :: "msg list"
  bv_isAppeal :: bool
  bv_previousCaseId :: "id option"
  bv_assignedToId :: "id option"
  bv_reviewedById :: "id option"
  bv_decision :: "buildingVerificationDecision option"
  bv_reason :: "string option"
  bv_decidedAt :: "time option"
  bv_createdAt :: time

record managerVerificationCase =
  mv_id :: id
  mv_buildingId :: id
  mv_membershipId :: id
  mv_candidateId :: id
  mv_status :: managerVerificationStatus
  mv_verificationSource :: "managerVerificationSource option"
  mv_decision :: "managerVerificationDecision option"
  mv_priority :: verificationPriority
  mv_requiredApprovalPercent :: int
  mv_isReverification :: bool
  mv_reviewedById :: "id option"
  mv_reason :: "string option"
  mv_decidedAt :: "time option"
  mv_createdAt :: time

record managerVerificationApproval =
  ma_id :: id
  ma_caseId :: id
  ma_ownerPersonId :: id
  ma_approvedAt :: time

section \<open>Fraud\<close>

datatype fraudCaseStatus = FS_OPEN | FS_UNDER_INVESTIGATION | FS_CONFIRMED | FS_DISMISSED

datatype fraudCaseSource = SYSTEM_SIGNAL | USER_REPORT

datatype fraudSignalType = MULTIPLE_MANAGER_CLAIMS | MASS_REGISTRATIONS | SUSPICIOUS_BUILDING_CREATION
  | EXCESSIVE_APPEALS | ABNORMAL_ACTIVITY | OTHER_SIGNAL

datatype enforcementActionType = EA_WARNING | EA_TEMPORARY_RESTRICTION | EA_VERIFICATION_REVOCATION
  | EA_ACCOUNT_SUSPENSION

datatype enforcementTargetType = TT_PERSON | TT_BUILDING | TT_MANAGER_CLAIM

datatype enforcementAppealStatus = AP_NONE | AP_PENDING | AP_UPHELD | AP_OVERTURNED

text \<open>What \<open>JSON.stringify\<close> keeps of the target before an action took effect.\<close>

datatype previousTargetState =
    WasSuspended bool
  | WasStatus buildingStatus
  | WasManager "managerLifecycleState option" "time option"

record fraudCase =
  fc_id :: id
  fc_status :: fraudCaseStatus
  fc_priority :: verificationPriority
  fc_source :: fraudCaseSource
  fc_signalType :: "fraudSignalType option"
  fc_reportedById :: "id option"
  fc_targetPersonId :: "id option"
  fc_targetBuildingId :: "id option"
  fc_description :: "string option"
  fc_evidenceNotes :: "string option"
  fc_assignedToId :: "id option"
  fc_reviewedById :: "id option"
  fc_reason :: "string option"
  fc_isReopen :: bool
  fc_previousCaseId :: "id option"
  fc_decidedAt :: "time option"
  fc_createdAt :: time

record fraudCaseEvidence =
  fe_id :: id
  fe_fraudCaseId :: id
  fe_notes :: string
  fe_authorId :: "id option"
  fe_createdAt :: time

record enforcementAction =
  ea_id :: id
  ea_fraudCaseId :: id
  ea_type :: enforcementActionType
  ea_targetType :: enforcementTargetType
  ea_targetPersonId :: "id option"
  ea_targetBuildingId :: "id option"
  ea_targetMembershipId :: "id option"
  ea_reason :: "string option"
  ea_issuedById :: id
  ea_issuedAt :: time
  ea_appealStatus :: enforcementAppealStatus
  ea_appealReason :: "string option"
  ea_appealedAt :: "time option"
  ea_appealDecidedById :: "id option"
  ea_appealDecidedAt :: "time option"
  ea_idempotencyKey :: "string option"
  ea_effectApplied :: bool
  ea_previousTargetState :: "previousTargetState option"
  ea_effectReversedAt :: "time option"

section \<open>Support, compliance, legal holds\<close>

datatype supportCaseCategory = SC_TECHNICAL | SC_BILLING | SC_VERIFICATION | SC_FRAUD | SC_GOVERNANCE | SC_OTHER

datatype supportCaseResolutionCode = RC_USER_ERROR | RC_CONFIGURATION_ISSUE | RC_BUG_FIXED
  | RC_DUPLICATE_REQUEST | RC_NOT_REPRODUCIBLE | RC_OTHER

record supportCase =
  su_id :: id
  su_category :: supportCaseCategory
  su_status :: caseStatus
  su_priority :: verificationPriority
  su_subject :: string
  su_description :: string
  su_createdById :: id
  su_assignedToId :: "id option"
  su_linkedEntityType :: "string option"
  su_linkedEntityId :: "string option"
  su_resolutionCode :: "supportCaseResolutionCode option"
  su_resolution :: "string option"
  su_mergedIntoId :: "id option"
  su_resolvedAt :: "time option"
  su_closedAt :: "time option"
  su_createdAt :: time

record supportCaseMessage =
  sg_id :: id
  sg_caseId :: id
  sg_senderId :: id
  sg_body :: string
  sg_isInternal :: bool
  sg_createdAt :: time

datatype complianceCaseCategory = CC_REPEATED_FRAUD | CC_REPEATED_SUSPENSION | CC_FINANCIAL_ANOMALY | CC_OTHER

record complianceCase =
  cc_id :: id
  cc_category :: complianceCaseCategory
  cc_status :: fraudCaseStatus
  cc_priority :: verificationPriority
  cc_subjectActorId :: "id option"
  cc_linkedEntityType :: "string option"
  cc_linkedEntityId :: "string option"
  cc_sourceAuditLogIds :: "id list"
  cc_description :: string
  cc_isAutoDetected :: bool
  cc_activeDetectionKey :: "(complianceCaseCategory \<times> id) option"
  cc_openedById :: "id option"
  cc_assignedToId :: "id option"
  cc_decidedById :: "id option"
  cc_decisionReason :: "string option"
  cc_decidedAt :: "time option"
  cc_createdAt :: time

record auditLegalHold =
  lh_id :: id
  lh_entityType :: string
  lh_entityId :: string
  lh_reason :: string
  lh_placedById :: id
  lh_placedAt :: time
  lh_releasedById :: "id option"
  lh_releasedAt :: "time option"
  lh_isActive :: bool

section \<open>Subscriptions\<close>

datatype subscriptionPlan = FREE | PRO | ENTERPRISE

datatype subscriptionStatus = SS_TRIAL | SS_ACTIVE | SS_EXPIRED | SS_CANCELLED

datatype subscriptionFeatureKey =
    FK_BUILDING_REGISTRATION | FK_PROPERTIES | FK_OWNERS | FK_TENANTS | FK_BASIC_CHARGES | FK_BASIC_PAYMENTS
  | FK_DEBT_VIEW | FK_IN_APP_NOTIFICATIONS | FK_ONLINE_PAYMENT | FK_DOCUMENTS | FK_VOTING | FK_MEETINGS
  | FK_REQUESTS | FK_REPORTS | FK_FUNDS | FK_ADVANCED_ACCOUNTING | FK_SMS | FK_EMAIL | FK_PUSH_NOTIFICATIONS
  | FK_AUTOMATION

datatype featureGrantType = GT_PROMOTION | GT_SUPPORT | GT_PARTNERSHIP | GT_TRIAL_EXTENSION | GT_BETA_TESTING
  | GT_OTHER

record subscription =
  ss_id :: id
  ss_buildingId :: id
  ss_plan :: subscriptionPlan
  ss_status :: subscriptionStatus
  ss_trialEndsAt :: "time option"
  ss_trialUsed :: bool
  ss_gracePeriodDays :: int
  ss_currentPeriodEndsAt :: "time option"
  ss_gracePeriodEndsAt :: "time option"
  ss_cancelledAt :: "time option"
  ss_createdAt :: time

record subscriptionChangeLog =
  sl_id :: id
  sl_subscriptionId :: id
  sl_fromPlan :: "subscriptionPlan option"
  sl_toPlan :: "subscriptionPlan option"
  sl_fromStatus :: "subscriptionStatus option"
  sl_toStatus :: "subscriptionStatus option"
  sl_changedById :: "id option"
  sl_reason :: "string option"
  sl_createdAt :: time

record featureGrant =
  fg_id :: id
  fg_subscriptionId :: id
  fg_featureKey :: subscriptionFeatureKey
  fg_grantType :: featureGrantType
  fg_reason :: "string option"
  fg_grantedById :: id
  fg_grantedAt :: time
  fg_expiresAt :: "time option"
  fg_revokedById :: "id option"
  fg_revokedAt :: "time option"

section \<open>The store\<close>

record bo_db =
  platformStaffs :: "platformStaff list"
  rbacRoles :: "rbacRole list"
  permissionRows :: "permissionRow list"
  rolePermissions :: "rolePermission list"
  staffRoles :: "staffRole list"
  buildingCases :: "buildingVerificationCase list"
  managerCases :: "managerVerificationCase list"
  managerApprovals :: "managerVerificationApproval list"
  fraudCases :: "fraudCase list"
  fraudEvidence :: "fraudCaseEvidence list"
  enforcements :: "enforcementAction list"
  supportCases :: "supportCase list"
  supportMessages :: "supportCaseMessage list"
  complianceCases :: "complianceCase list"
  legalHolds :: "auditLegalHold list"
  subscriptions :: "subscription list"
  changeLogs :: "subscriptionChangeLog list"
  featureGrants :: "featureGrant list"
  bo_ids :: "nat \<Rightarrow> id"
  bo_next :: nat

definition fresh_oid :: "bo_db \<Rightarrow> id" where
  "fresh_oid o' = bo_ids o' (bo_next o')"

definition take_oid :: "bo_db \<Rightarrow> bo_db" where
  "take_oid o' = o'\<lparr>bo_next := Suc (bo_next o')\<rparr>"

end
