(* ===== verification/Auth_Types.thy ===== *)
theory Auth_Types
  imports Building_Types
begin

text \<open>
  The rows of sign-in of \<^verbatim>\<open>src/prisma/schema.prisma\<close>: one-time codes, devices and refresh
  tokens.  Left out is the label of a device, which no modelled code reads or writes.
\<close>

datatype otpPurpose = LOGIN | REGISTER | VERIFY_PHONE

record otpRequest =
  op_id :: id
  op_phone :: string
  op_purpose :: otpPurpose
  op_codeHash :: string
  op_attempts :: int
  op_maxAttempts :: int
  op_expiresAt :: time
  op_consumedAt :: "time option"
  op_createdAt :: time

record device =
  dv_id :: id
  dv_personId :: id
  dv_deviceToken :: string
  dv_platform :: string
  dv_lastSeenAt :: time
  dv_createdAt :: time
  dv_revokedAt :: "time option"
  dv_pushToken :: "string option"

record refreshToken =
  rt_id :: id
  rt_personId :: id
  rt_deviceId :: id
  rt_tokenHash :: string
  rt_expiresAt :: time
  rt_revokedAt :: "time option"
  rt_replacedBy :: "id option"
  rt_createdAt :: time

record auth_db =
  otpRequests :: "otpRequest list"
  devices :: "device list"
  refreshTokens :: "refreshToken list"
  auth_ids :: "nat \<Rightarrow> id"
  auth_next :: nat

definition fresh_aid :: "auth_db \<Rightarrow> id" where
  "fresh_aid a = auth_ids a (auth_next a)"

definition take_aid :: "auth_db \<Rightarrow> auth_db" where
  "take_aid a = a\<lparr>auth_next := Suc (auth_next a)\<rparr>"

end
