(* ===== verification/Game_Types.thy ===== *)
theory Game_Types
  imports Building_Types
begin

text \<open>
  The rows of gamification of \<^verbatim>\<open>src/prisma/schema.prisma\<close>: experience points, achievements
  and the scores of buildings with their leagues.
\<close>

datatype xpReason = PROFILE_CREATED | BUILDING_SETUP_COMPLETED | CHARGE_PAID | VOTE_PARTICIPATED
  | CASE_RESOLVED | CHARGE_PAID_REVERSED | ADMIN_CORRECTION

datatype achievementCode = FIRST_STEPS | BUILDING_FOUNDER | FIRST_PAYMENT | FIRST_VOTE | COMMUNITY_HELPER

datatype leagueTier = BRONZE | SILVER | GOLD | PLATINUM | DIAMOND

record xpTransaction =
  xt_id :: id
  xt_personId :: id
  xt_buildingId :: "id option"
  xt_reason :: xpReason
  xt_amount :: int
  xt_sourceEvent :: "msg option"
  xt_referenceType :: "msg option"
  xt_referenceId :: "id option"
  xt_createdAt :: time

record achievementDefinition =
  ad_id :: id
  ad_code :: achievementCode
  ad_title :: string
  ad_xpBonus :: int

record personAchievement =
  pa_id :: id
  pa_personId :: id
  pa_definitionId :: id
  pa_buildingId :: "id option"
  pa_unlockedAt :: time
  pa_revokedById :: "id option"
  pa_revokedAt :: "time option"

record buildingScore =
  sc_id :: id
  sc_buildingId :: id
  sc_score :: int
  sc_leagueTier :: leagueTier

record buildingScoreEvent =
  se_id :: id
  se_buildingScoreId :: id
  se_delta :: int
  se_reason :: xpReason
  se_sourceEvent :: "msg option"
  se_previousTier :: leagueTier
  se_newTier :: leagueTier
  se_createdAt :: time

record game_db =
  xpTransactions :: "xpTransaction list"
  definitions :: "achievementDefinition list"
  achievements :: "personAchievement list"
  scores :: "buildingScore list"
  scoreEvents :: "buildingScoreEvent list"
  game_ids :: "nat \<Rightarrow> id"
  game_next :: nat

definition fresh_xid :: "game_db \<Rightarrow> id" where
  "fresh_xid d = game_ids d (game_next d)"

definition take_xid :: "game_db \<Rightarrow> game_db" where
  "take_xid d = d\<lparr>game_next := Suc (game_next d)\<rparr>"

end
