(* ===== verification/Site.thy ===== *)
theory Site
  imports Governance_Types Case_Types Backoffice_Types Auth_Types Game_Types Finance_Service
begin

text \<open>
  The world of the services outside finance: all tables, the audit log and the emitted
  events; the steps their methods are made of; and a calculus of preconditions for them.
\<close>

section \<open>The state\<close>

datatype siteEvent =
    UnitCreatedEvent id id id
  | BuildingCreatedEvent id id membershipRole
  | ManagerChangedEvent id id "id option" "id option"
  | OwnershipTransferInitiatedEvent id id id string
  | TenancyCreatedEvent id id id id
  | TenancyEndedEvent id id id id
  | VotePublishedEvent id id "id option"
  | VoteClosedEvent id id voteResultStatus "id option"
  | VoteCancelledEvent id id id
  | BallotCastEvent id id id id
  | MeetingCreatedEvent id id id
  | MeetingArchivedEvent id id id
  | CaseCreatedEvent id id id
  | CaseAssignedEvent id id id
  | CaseStatusChangedEvent id id caseStatus caseStatus id
  | BuildingVerificationDecidedEvent id id buildingStatus id
  | ManagerVerificationDecidedEvent id id managerVerificationStatus id
  | FraudCaseDecidedEvent id fraudCaseStatus "id option"
  | EnforcementActionIssuedEvent id id enforcementActionType id
  | SupportCaseResolvedEvent id id
  | PersonAuthenticatedEvent id id bool
  | XpAwardedEvent id "id option" xpReason int int
  | AchievementUnlockedEvent id achievementCode string "id option"
  | BuildingScoreChangedEvent id int int leagueTier leagueTier
  | LeagueTierChangedEvent id leagueTier leagueTier bool

record siteAudit =
  sa_actorId :: "id option"
  sa_buildingId :: "id option"
  sa_action :: msg
  sa_entityId :: id
  sa_reason :: "string option"

record site =
  s_fin :: fin_db
  s_bld :: bld_db
  s_gov :: gov_db
  s_case :: case_db
  s_bo :: bo_db
  s_auth :: auth_db
  s_game :: game_db
  s_audit :: "siteAudit list"
  s_events :: "siteEvent list"

type_synonym 'a action = "(site, 'a) svc"

section \<open>Steps\<close>

definition bld_tx :: "(bld_db, 'a) tx \<Rightarrow> 'a action" where
  "bld_tx t s = (case t (s_bld s) of Inl e \<Rightarrow> (Inl e, s) | Inr (x, b) \<Rightarrow> (Inr x, s\<lparr>s_bld := b\<rparr>))"

definition gov_tx :: "(gov_db, 'a) tx \<Rightarrow> 'a action" where
  "gov_tx t s = (case t (s_gov s) of Inl e \<Rightarrow> (Inl e, s) | Inr (x, g) \<Rightarrow> (Inr x, s\<lparr>s_gov := g\<rparr>))"

definition case_tx :: "(case_db, 'a) tx \<Rightarrow> 'a action" where
  "case_tx t s = (case t (s_case s) of Inl e \<Rightarrow> (Inl e, s) | Inr (x, c) \<Rightarrow> (Inr x, s\<lparr>s_case := c\<rparr>))"

definition bo_tx :: "(bo_db, 'a) tx \<Rightarrow> 'a action" where
  "bo_tx t s = (case t (s_bo s) of Inl e \<Rightarrow> (Inl e, s) | Inr (x, d) \<Rightarrow> (Inr x, s\<lparr>s_bo := d\<rparr>))"

definition auth_tx :: "(auth_db, 'a) tx \<Rightarrow> 'a action" where
  "auth_tx t s = (case t (s_auth s) of Inl e \<Rightarrow> (Inl e, s) | Inr (x, d) \<Rightarrow> (Inr x, s\<lparr>s_auth := d\<rparr>))"

definition game_tx :: "(game_db, 'a) tx \<Rightarrow> 'a action" where
  "game_tx t s = (case t (s_game s) of Inl e \<Rightarrow> (Inl e, s) | Inr (x, d) \<Rightarrow> (Inr x, s\<lparr>s_game := d\<rparr>))"

text \<open>A transaction over tables of several components.\<close>

definition site_tx :: "(site, 'a) tx \<Rightarrow> 'a action" where
  "site_tx t s = (case t s of Inl e \<Rightarrow> (Inl e, s) | Inr (x, s') \<Rightarrow> (Inr x, s'))"

text \<open>A transaction that reads every table and writes building tables.\<close>

definition site_bld_tx :: "(site \<Rightarrow> (bld_db, 'a) tx) \<Rightarrow> 'a action" where
  "site_bld_tx t s = bld_tx (t s) s"

definition site_gov_tx :: "(site \<Rightarrow> (gov_db, 'a) tx) \<Rightarrow> 'a action" where
  "site_gov_tx t s = gov_tx (t s) s"

definition query :: "(site \<Rightarrow> 'a) \<Rightarrow> 'a action" where
  "query f s = (Inr (f s), s)"

definition guard :: "'a result \<Rightarrow> 'a action" where
  "guard r s = (r, s)"

definition record_audit :: "id option \<Rightarrow> id option \<Rightarrow> msg \<Rightarrow> id \<Rightarrow> string option \<Rightarrow> unit action" where
  "record_audit actor bid what entity reason s =
     (Inr (), s\<lparr>s_audit := s_audit s @ [\<lparr>sa_actorId = actor, sa_buildingId = bid, sa_action = what,
        sa_entityId = entity, sa_reason = reason\<rparr>]\<rparr>)"

definition publish :: "siteEvent \<Rightarrow> unit action" where
  "publish e s = (Inr (), s\<lparr>s_events := s_events s @ [e]\<rparr>)"

text \<open>\<open>try m catch h\<close>: what \<open>m\<close> did before it threw stays.\<close>

definition try_catch :: "'a action \<Rightarrow> (app_error \<Rightarrow> 'a action) \<Rightarrow> 'a action" where
  "try_catch m h s = (case m s of (Inl e, s') \<Rightarrow> h e s' | (Inr x, s') \<Rightarrow> (Inr x, s'))"

fun for_each :: "'b list \<Rightarrow> ('b \<Rightarrow> 'a action) \<Rightarrow> 'a list action" where
  "for_each [] f = return_svc []"
| "for_each (x # xs) f = bind_svc (f x) (\<lambda>y. bind_svc (for_each xs f) (\<lambda>ys. return_svc (y # ys)))"

text \<open>\<open>Error.message\<close>.\<close>

fun errorMessage :: "app_error \<Rightarrow> string" where
  "errorMessage (ValidationError m) = String.explode m"
| "errorMessage (AuthorizationError m) = String.explode m"
| "errorMessage (NotFoundAppError m) = String.explode m"
| "errorMessage (ConflictError m) = String.explode m"
| "errorMessage (BusinessRuleViolationError m) = String.explode m"
| "errorMessage (IncompatibleChargeFundError m) = String.explode m"
| "errorMessage (DeprecatedChargeKindError m) = String.explode m"
| "errorMessage (ChargeFundSelectionRequiredError m) = String.explode m"
| "errorMessage (DuplicateError m) = String.explode m"
| "errorMessage (RateLimitError m) = String.explode m"
| "errorMessage (NotImplementedAppError m) = String.explode m"
| "errorMessage (UnexpectedAppError m) = String.explode m"
| "errorMessage (ServiceUnavailableError m) = String.explode m"
| "errorMessage (PrismaError m) = String.explode m"

section \<open>Preconditions\<close>

text \<open>
  \<open>wp c Q E s\<close>: running \<open>c\<close> in \<open>s\<close> ends in a result and state with \<open>Q\<close>, or in an error and a
  state with \<open>E\<close>.  Actions always end, so there is no partial version.
\<close>

definition wp :: "'a action \<Rightarrow> ('a \<Rightarrow> site \<Rightarrow> bool) \<Rightarrow> (app_error \<Rightarrow> site \<Rightarrow> bool) \<Rightarrow> site \<Rightarrow> bool" where
  "wp c Q E s = (case c s of (Inl e, t) \<Rightarrow> E e t | (Inr x, t) \<Rightarrow> Q x t)"

named_theorems wp_simps "preconditions of actions"

lemma wp_bind [wp_simps]: "wp (bind_svc m f) Q E = wp m (\<lambda>x. wp (f x) Q E) E"
  by (rule ext) (simp add: wp_def bind_svc_def split: prod.split sum.split)

lemma wp_steps [wp_simps]:
  "wp (return_svc x) Q E = Q x" "wp (Pair (Inr x)) Q E = Q x"
  "wp (throw_svc e) Q E = E e" "wp (Pair (Inl e)) Q E = E e"
  "wp (query f) Q E = (\<lambda>s. Q (f s) s)"
  "wp (guard r) Q E = (\<lambda>s. case r of Inl e \<Rightarrow> E e s | Inr x \<Rightarrow> Q x s)"
  "wp (lift_svc h) Q E = (\<lambda>s. case h s of Inl e \<Rightarrow> E e s | Inr x \<Rightarrow> Q x s)"
  "wp (bld_tx t) Q E = (\<lambda>s. case t (s_bld s) of Inl e \<Rightarrow> E e s | Inr (x, b) \<Rightarrow> Q x (s\<lparr>s_bld := b\<rparr>))"
  "wp (gov_tx u) Q E = (\<lambda>s. case u (s_gov s) of Inl e \<Rightarrow> E e s | Inr (x, g) \<Rightarrow> Q x (s\<lparr>s_gov := g\<rparr>))"
  "wp (case_tx v) Q E = (\<lambda>s. case v (s_case s) of Inl e \<Rightarrow> E e s | Inr (x, c) \<Rightarrow> Q x (s\<lparr>s_case := c\<rparr>))"
  "wp (bo_tx t1) Q E = (\<lambda>s. case t1 (s_bo s) of Inl e \<Rightarrow> E e s | Inr (x, d) \<Rightarrow> Q x (s\<lparr>s_bo := d\<rparr>))"
  "wp (auth_tx t2) Q E = (\<lambda>s. case t2 (s_auth s) of Inl e \<Rightarrow> E e s | Inr (x, d) \<Rightarrow> Q x (s\<lparr>s_auth := d\<rparr>))"
  "wp (game_tx t3) Q E = (\<lambda>s. case t3 (s_game s) of Inl e \<Rightarrow> E e s | Inr (x, d) \<Rightarrow> Q x (s\<lparr>s_game := d\<rparr>))"
  "wp (site_tx t4) Q E = (\<lambda>s. case t4 s of Inl e \<Rightarrow> E e s | Inr (x, s') \<Rightarrow> Q x s')"
  "wp (site_bld_tx t') Q E = (\<lambda>s. wp (bld_tx (t' s)) Q E s)"
  "wp (site_gov_tx u') Q E = (\<lambda>s. wp (gov_tx (u' s)) Q E s)"
  by (rule ext, auto simp: wp_def return_svc_def throw_svc_def query_def guard_def lift_svc_def bld_tx_def
      gov_tx_def case_tx_def bo_tx_def auth_tx_def game_tx_def site_tx_def site_bld_tx_def site_gov_tx_def split: sum.split prod.split)+

lemma wp_logs [wp_simps]:
  "wp (record_audit a bid w i n) Q E = (\<lambda>s. Q () (snd (record_audit a bid w i n s)))"
  "wp (publish ev) Q E = (\<lambda>s. Q () (snd (publish ev s)))"
  by (rule ext, simp add: wp_def record_audit_def publish_def)+

lemma wp_try [wp_simps]: "wp (try_catch m h) Q E = wp m Q (\<lambda>e. wp (h e) Q E)"
  by (rule ext) (simp add: wp_def try_catch_def split: prod.split sum.split)

lemma log_frames [simp]:
  "s_fin (snd (record_audit a bid w i r s)) = s_fin s" "s_bld (snd (record_audit a bid w i r s)) = s_bld s"
  "s_gov (snd (record_audit a bid w i r s)) = s_gov s" "s_case (snd (record_audit a bid w i r s)) = s_case s"
  "s_bo (snd (record_audit a bid w i r s)) = s_bo s" "s_auth (snd (record_audit a bid w i r s)) = s_auth s"
  "s_game (snd (record_audit a bid w i r s)) = s_game s" "s_events (snd (record_audit a bid w i r s)) = s_events s"
  "s_fin (snd (publish ev s)) = s_fin s" "s_bld (snd (publish ev s)) = s_bld s"
  "s_gov (snd (publish ev s)) = s_gov s" "s_case (snd (publish ev s)) = s_case s"
  "s_bo (snd (publish ev s)) = s_bo s" "s_auth (snd (publish ev s)) = s_auth s" "s_game (snd (publish ev s)) = s_game s"
  "s_audit (snd (publish ev s)) = s_audit s"
  by (simp_all add: record_audit_def publish_def)

lemma wp_mono:
  assumes "wp c Q E s" "\<And>x t. Q x t \<Longrightarrow> Q' x t" "\<And>e t. E e t \<Longrightarrow> E' e t"
  shows "wp c Q' E' s"
  using assms by (auto simp: wp_def split: prod.splits sum.splits)

lemma wp_result: "wp c Q E s \<Longrightarrow> c s = (Inr x, t) \<Longrightarrow> Q x t"
  "wp c Q E s \<Longrightarrow> c s = (Inl e, t) \<Longrightarrow> E e t"
  by (simp_all add: wp_def)

lemma wp_all: "(\<And>e t. c s = (Inl e, t) \<Longrightarrow> E e t) \<Longrightarrow> (\<And>x t. c s = (Inr x, t) \<Longrightarrow> Q x t) \<Longrightarrow> wp c Q E s"
  by (auto simp: wp_def split: prod.splits sum.splits)

lemma wp_for_each:
  assumes "\<And>x. x \<in> set xs \<Longrightarrow> (\<And>s. I s \<Longrightarrow> wp (f x) (\<lambda>_. I) (\<lambda>_. I) s)" "I s"
  shows "wp (for_each xs f) (\<lambda>_. I) (\<lambda>_. I) s"
  using assms
proof (induction xs arbitrary: s)
  case Nil
  then show ?case by (simp add: wp_simps)
next
  case (Cons x xs)
  have "wp (f x) (\<lambda>_. I) (\<lambda>_. I) s" using Cons.prems by simp
  then have "wp (f x) (\<lambda>_. wp (for_each xs f) (\<lambda>_. I) (\<lambda>_. I)) (\<lambda>_. I) s"
    by (rule wp_mono) (use Cons in auto)
  then show ?case by (simp add: wp_bind wp_steps)
qed

section \<open>Actions that keep an invariant\<close>

text \<open>
  The contract between an invariant and the actions of a service: whoever starts with the
  invariant ends with it, whether the action answers or throws.  The log and the events
  are not part of what an invariant may read.
\<close>

locale site_invariant =
  fixes I :: "site \<Rightarrow> bool"
  assumes log_free: "s_fin t = s_fin s \<Longrightarrow> s_bld t = s_bld s \<Longrightarrow> s_gov t = s_gov s \<Longrightarrow>
    s_case t = s_case s \<Longrightarrow> s_bo t = s_bo s \<Longrightarrow> s_auth t = s_auth s \<Longrightarrow> s_game t = s_game s \<Longrightarrow> I s \<Longrightarrow> I t"
begin

definition kept_by :: "'a action \<Rightarrow> bool" where
  "kept_by c \<longleftrightarrow> (\<forall>s. I s \<longrightarrow> wp c (\<lambda>_. I) (\<lambda>_. I) s)"

lemma kept_byI: "(\<And>s. I s \<Longrightarrow> wp c (\<lambda>_. I) (\<lambda>_. I) s) \<Longrightarrow> kept_by c"
  by (simp add: kept_by_def)

lemma kept_byD: "kept_by c \<Longrightarrow> I s \<Longrightarrow> I (snd (c s))"
  by (cases "c s"; cases "fst (c s)") (auto simp: kept_by_def wp_def split: prod.splits sum.splits)

lemma kept_bind: "kept_by m \<Longrightarrow> (\<And>x. kept_by (f x)) \<Longrightarrow> kept_by (bind_svc m f)"
  unfolding kept_by_def by (auto simp: wp_simps intro: wp_mono [where Q = "\<lambda>_. I" and E = "\<lambda>_. I"])

lemma kept_try: "kept_by m \<Longrightarrow> (\<And>e. kept_by (h e)) \<Longrightarrow> kept_by (try_catch m h)"
  unfolding kept_by_def by (auto simp: wp_simps intro: wp_mono [where Q = "\<lambda>_. I" and E = "\<lambda>_. I"])

lemma kept_reads: "kept_by (return_svc x)" "kept_by (throw_svc e)" "kept_by (query f)" "kept_by (guard r)"
  "kept_by (lift_svc h)"
  by (auto simp: kept_by_def wp_simps split: sum.split)

lemma kept_logs: "kept_by (record_audit a bid w i r)" "kept_by (publish ev)"
  by (auto simp: kept_by_def wp_simps intro: log_free [rotated 7])

lemma kept_for_each: "(\<And>x. x \<in> set xs \<Longrightarrow> kept_by (f x)) \<Longrightarrow> kept_by (for_each xs f)"
  unfolding kept_by_def by (blast intro: wp_for_each)

lemma kept_if: "kept_by a \<Longrightarrow> kept_by b \<Longrightarrow> kept_by (if p then a else b)"
  by simp

lemma kept_option: "kept_by a \<Longrightarrow> (\<And>x. kept_by (g x)) \<Longrightarrow> kept_by (case y of None \<Rightarrow> a | Some x \<Rightarrow> g x)"
  by (cases y) auto

lemma kept_prod: "(\<And>x y. kept_by (g x y)) \<Longrightarrow> kept_by (case p of (x, y) \<Rightarrow> g x y)"
  by (cases p) auto

lemma kept_bld_tx:
  "(\<And>s x b. I s \<Longrightarrow> t (s_bld s) = Inr (x, b) \<Longrightarrow> I (s\<lparr>s_bld := b\<rparr>)) \<Longrightarrow> kept_by (bld_tx t)"
  by (auto simp: kept_by_def wp_simps split: sum.split)

lemma kept_gov_tx:
  "(\<And>s x g. I s \<Longrightarrow> t (s_gov s) = Inr (x, g) \<Longrightarrow> I (s\<lparr>s_gov := g\<rparr>)) \<Longrightarrow> kept_by (gov_tx t)"
  by (auto simp: kept_by_def wp_simps split: sum.split)

lemma kept_case_tx:
  "(\<And>s x c. I s \<Longrightarrow> t (s_case s) = Inr (x, c) \<Longrightarrow> I (s\<lparr>s_case := c\<rparr>)) \<Longrightarrow> kept_by (case_tx t)"
  by (auto simp: kept_by_def wp_simps split: sum.split)

lemma kept_bo_tx:
  "(\<And>s x d. I s \<Longrightarrow> t (s_bo s) = Inr (x, d) \<Longrightarrow> I (s\<lparr>s_bo := d\<rparr>)) \<Longrightarrow> kept_by (bo_tx t)"
  by (auto simp: kept_by_def wp_simps split: sum.split)

lemma kept_auth_tx:
  "(\<And>s x d. I s \<Longrightarrow> t (s_auth s) = Inr (x, d) \<Longrightarrow> I (s\<lparr>s_auth := d\<rparr>)) \<Longrightarrow> kept_by (auth_tx t)"
  by (auto simp: kept_by_def wp_simps split: sum.split)

lemma kept_game_tx:
  "(\<And>s x d. I s \<Longrightarrow> t (s_game s) = Inr (x, d) \<Longrightarrow> I (s\<lparr>s_game := d\<rparr>)) \<Longrightarrow> kept_by (game_tx t)"
  by (auto simp: kept_by_def wp_simps split: sum.split)

lemma kept_site_tx:
  "(\<And>s x s'. I s \<Longrightarrow> t s = Inr (x, s') \<Longrightarrow> I s') \<Longrightarrow> kept_by (site_tx t)"
  by (auto simp: kept_by_def wp_simps split: sum.split)

lemmas kept_rules = kept_bind kept_try kept_reads kept_logs kept_if kept_option kept_prod kept_for_each

end

end
