(* ===== verification/Building_Service.thy ===== *)
theory Building_Service
  imports Building_Repo Site Pagination
begin

text \<open>
  \<open>BuildingService\<close> (\<^verbatim>\<open>src/src/modules/building/application/building.service.ts\<close>): each method as
  an action over the site.  \<open>now\<close> stands for every \<open>new Date()\<close> of one call.
\<close>

section \<open>Lookups\<close>

definition bld :: "(bld_db \<Rightarrow> 'a) \<Rightarrow> 'a action" where
  "bld f = query (\<lambda>s. f (s_bld s))"

definition getById :: "id \<Rightarrow> building action" where
  "getById bid = lift_svc (\<lambda>s. case findBuildingById (s_bld s) bid of
     Some d \<Rightarrow> Inr d | None \<Rightarrow> Inl (NotFoundAppError STR ''Building not found.''))"

definition ownUnit :: "id \<Rightarrow> id \<Rightarrow> unit_row action" where
  "ownUnit bid uid = lift_svc (\<lambda>s. case findUnitById (s_bld s) uid of
     Some u \<Rightarrow> if u_buildingId u = bid then Inr u else Inl (NotFoundAppError STR ''Unit not found.'')
   | None \<Rightarrow> Inl (NotFoundAppError STR ''Unit not found.''))"

definition svc_getOwnUnit :: "id \<Rightarrow> id \<Rightarrow> unit_row action" where
  "svc_getOwnUnit bid uid = bind_svc (getById bid) (\<lambda>_. ownUnit bid uid)"

definition phoneMatches :: "unit_row \<Rightarrow> person option \<Rightarrow> bool" where
  "phoneMatches u caller \<longleftrightarrow> u_ownerPhone u \<notin> {None, Some []} \<and>
     (case caller of None \<Rightarrow> False | Some q \<Rightarrow> pe_phone q \<noteq> [] \<and> u_ownerPhone u = Some (pe_phone q))"

section \<open>Reading units\<close>

text \<open>The caller's standing towards one unit of a list, from the batched reads.\<close>

definition listContext :: "bld_db \<Rightarrow> id \<Rightarrow> id \<Rightarrow> membershipRole list \<Rightarrow> unit_row \<Rightarrow> unitPrivacyContext" where
  "listContext b bid p roles u =
     (let owner = List.member (findCurrentOwnedUnitIdsForPerson b bid p) (u_id u)
      in \<lparr>cx_isManager = List.member roles MANAGER,
          cx_isCurrentOwnerOfUnit = owner,
          cx_isCurrentTenantOfUnit = List.member (findCurrentTenantUnitIdsForPerson b bid p) (u_id u),
          cx_isInvitedOwnerCandidate = (\<not> owner \<and> \<not> List.member (findUnitIdsWithCurrentOwnership b bid) (u_id u) \<and>
            phoneMatches u (findPersonById b p))\<rparr>)"

definition shapeUnitsForCaller ::
  "bld_db \<Rightarrow> unit_row list \<Rightarrow> id \<Rightarrow> id \<Rightarrow> membershipRole list \<Rightarrow> shapedUnit list" where
  "shapeUnitsForCaller b us bid p roles =
     map (\<lambda>u. shapeUnit u (listContext b bid p roles u)
        (findCurrentOwnerSummariesForUnits b (map u_id us) (u_id u))
        (findCurrentTenantSummariesForUnits b (map u_id us) (u_id u))) us"

definition svc_listUnits :: "id \<Rightarrow> id \<Rightarrow> shapedUnit list action" where
  "svc_listUnits bid p = bld (\<lambda>b. shapeUnitsForCaller b (listUnits b bid) bid p (getRoles b p bid))"

text \<open>\<open>units\<close> of \<open>include: { units: true }\<close> comes in the database's order.\<close>

definition getBuildingForPerson :: "id \<Rightarrow> id \<Rightarrow> (building \<times> shapedUnit list \<times> membershipRole list) action" where
  "getBuildingForPerson bid p =
     bind_svc (getById bid) (\<lambda>d.
     bld (\<lambda>b. (d, shapeUnitsForCaller b (filter (\<lambda>u. u_buildingId u = bid) (unitRows b)) bid p (getRoles b p bid),
        getRoles b p bid)))"

definition svc_listUnitMetadataPage ::
  "id \<Rightarrow> id \<Rightarrow> paginationParams \<Rightarrow> (shapedUnit list \<times> paginationMeta) action" where
  "svc_listUnitMetadataPage bid p pg = bld (\<lambda>b.
     let (skip, tk) = toSkipTake pg;
         page = take (nat tk) (drop (nat skip) (listUnits b bid))
     in (shapeUnitsForCaller b page bid p (getRoles b p bid),
         buildPaginationMeta pg (int (length (listUnits b bid)))))"

record unitForPerson =
  uf_unit :: shapedUnit
  uf_isCurrentOwner :: bool
  uf_isCurrentTenant :: bool
  uf_canClaimOwnership :: bool

definition isCurrentTenant :: "bld_db \<Rightarrow> id \<Rightarrow> id \<Rightarrow> bool" where
  "isCurrentTenant b uid p \<longleftrightarrow> map_option tn_personId (findCurrentTenancyForUnit b uid) = Some p"

definition canClaimOwnership :: "bld_db \<Rightarrow> unit_row \<Rightarrow> id \<Rightarrow> id \<Rightarrow> bool" where
  "canClaimOwnership b u uid p \<longleftrightarrow> \<not> isCurrentOwnerOfUnit b uid p \<and> \<not> hasCurrentOwnership b uid \<and>
     phoneMatches u (findPersonById b p)"

definition getUnitForPerson :: "id \<Rightarrow> id \<Rightarrow> id \<Rightarrow> unitForPerson action" where
  "getUnitForPerson bid uid p =
     bind_svc (svc_getOwnUnit bid uid) (\<lambda>u.
     bld (\<lambda>b.
       let c = \<lparr>cx_isManager = List.member (getRoles b p bid) MANAGER,
                cx_isCurrentOwnerOfUnit = isCurrentOwnerOfUnit b uid p,
                cx_isCurrentTenantOfUnit = isCurrentTenant b uid p,
                cx_isInvitedOwnerCandidate = canClaimOwnership b u uid p\<rparr>
       in \<lparr>uf_unit = shapeUnit u c (findCurrentOwnerSummaryForUnit b uid) (findCurrentTenantSummaryForUnit b uid),
           uf_isCurrentOwner = isCurrentOwnerOfUnit b uid p, uf_isCurrentTenant = isCurrentTenant b uid p,
           uf_canClaimOwnership = canClaimOwnership b u uid p\<rparr>))"

section \<open>Owners\<close>

definition linkOwnerAccountByPhone :: "time \<Rightarrow> id \<Rightarrow> string \<Rightarrow> id list action" where
  "linkOwnerAccountByPhone now p phone =
     bind_svc (bld (\<lambda>b. findUnlinkedOwnerUnitsByPhone b phone)) (\<lambda>us.
     for_each us (\<lambda>u.
       bind_svc (bld_tx (linkOwnerToUnit now (u_id u) (u_buildingId u) p (u_ownerFirstName u) (u_ownerLastName u))) (\<lambda>_.
       bind_svc (record_audit (Some p) (Some (u_buildingId u)) STR ''OwnerAutoLinked'' (u_id u) None) (\<lambda>_.
       return_svc (u_buildingId u)))))"

definition claimOwnership :: "time \<Rightarrow> id \<Rightarrow> id \<Rightarrow> id \<Rightarrow> membership action" where
  "claimOwnership now bid uid p =
     bind_svc (svc_getOwnUnit bid uid) (\<lambda>u.
     bind_svc (bld (\<lambda>b. (hasCurrentOwnership b uid, findPersonById b p))) (\<lambda>(hasOwner, caller).
     bind_svc (guard (case caller of None \<Rightarrow> Inl (NotFoundAppError STR ''Person not found.'') | Some q \<Rightarrow> Inr q)) (\<lambda>q.
     bind_svc (guard (assertEligible hasOwner (u_ownerPhone u) (pe_phone q))) (\<lambda>_.
     bind_svc (bld_tx (linkOwnerToUnit now uid bid p (u_ownerFirstName u) (u_ownerLastName u))) (\<lambda>m.
     bind_svc (record_audit (Some p) (Some bid) STR ''OwnerSelfClaimed'' uid None) (\<lambda>_.
     return_svc m))))))"

definition svc_transferOwnership :: "time \<Rightarrow> id \<Rightarrow> id \<Rightarrow> string \<Rightarrow> id \<Rightarrow> unit_row action" where
  "svc_transferOwnership now bid uid phone actor =
     bind_svc (svc_getOwnUnit bid uid) (\<lambda>_.
     bind_svc (bld (\<lambda>b. isCurrentOwnerOfUnit b uid actor)) (\<lambda>isOwner.
     bind_svc (guard (assertCallerIsCurrentOwner isOwner)) (\<lambda>_.
     bind_svc (bld_tx (transferOwnership now uid phone)) (\<lambda>u.
     bind_svc (record_audit (Some actor) (Some bid) STR ''OwnershipTransferInitiated'' uid None) (\<lambda>_.
     bind_svc (publish (OwnershipTransferInitiatedEvent uid bid actor phone)) (\<lambda>_.
     return_svc u))))))"

section \<open>Units\<close>

definition addUnit :: "(id \<Rightarrow> bool) \<Rightarrow> id \<Rightarrow> id \<Rightarrow> createUnitParams \<Rightarrow> unit_row action" where
  "addUnit floors bid p dto =
     bind_svc (getById bid) (\<lambda>_.
     bind_svc (bld (\<lambda>b. map u_unitNumber (listUnits b bid))) (\<lambda>existing.
     bind_svc (guard (assertUniqueUnitNumber existing (nu_unitNumber dto))) (\<lambda>_.
     bind_svc (bld_tx (createUnit floors bid dto)) (\<lambda>u.
     bind_svc (record_audit (Some p) (Some bid) STR ''UnitCreated'' (u_id u) None) (\<lambda>_.
     bind_svc (publish (UnitCreatedEvent (u_id u) bid p)) (\<lambda>_.
     return_svc u))))))"

definition svc_updateUnit :: "id \<Rightarrow> id \<Rightarrow> updateUnitParams \<Rightarrow> id \<Rightarrow> unit_row action" where
  "svc_updateUnit bid uid dto p =
     bind_svc (svc_getOwnUnit bid uid) (\<lambda>_.
     bind_svc (bld_tx (updateUnit uid dto)) (\<lambda>u.
     bind_svc (record_audit (Some p) (Some bid) STR ''UnitUpdated'' uid None) (\<lambda>_.
     return_svc u)))"

text \<open>The relations of a unit, in the order \<open>deleteUnitIfUnused\<close> counts them.\<close>

definition unitRelations :: "site \<Rightarrow> id \<Rightarrow> (msg \<times> nat) list" where
  "unitRelations s uid =
     [(STR ''ownerships'', count_where (\<lambda>w. ow_unitId w = uid) (ownerships (s_bld s))),
      (STR ''memberships'', count_where (\<lambda>m. mb_unitId m = Some uid) (memberships (s_bld s))),
      (STR ''tenancies'', count_where (\<lambda>t. tn_unitId t = uid) (tenancies (s_bld s))),
      (STR ''chargeItems'', count_where (\<lambda>i. ci_unitId i = uid) (items (s_fin s))),
      (STR ''payments'', count_where (\<lambda>p. pm_unitId p = uid) (payments (s_fin s))),
      (STR ''creditBalances'', count_where (\<lambda>c. cr_unitId c = uid) (credits (s_fin s))),
      (STR ''adjustments'', count_where (\<lambda>a. aj_unitId a = uid) (adjustments (s_fin s))),
      (STR ''refunds'', count_where (\<lambda>r. rf_unitId r = uid) (refunds (s_fin s))),
      (STR ''voteEligibilitySnapshots'', count_where (\<lambda>v. vs_unitId v = uid) (snapshots (s_gov s))),
      (STR ''ballots'', count_where (\<lambda>v. bl_unitId v = uid) (ballots (s_gov s))),
      (STR ''voteProxies'', count_where (\<lambda>v. vp_unitId v = uid) (voteProxies (s_gov s))),
      (STR ''cases'', count_where (\<lambda>c. ca_unitId c = Some uid) (caseRows (s_case s)))]"

definition blockedBy :: "site \<Rightarrow> id \<Rightarrow> msg list" where
  "blockedBy s uid = map fst (filter (\<lambda>(_, n). 0 < n) (unitRelations s uid))"

definition deleteUnitIfUnused :: "id \<Rightarrow> site \<Rightarrow> (bld_db, msg list) tx" where
  "deleteUnitIfUnused uid s b =
     (if blockedBy s uid \<noteq> [] then Inr (blockedBy s uid, b)
      else bind_r (needs (findUnitById b uid) STR ''P2025'') (\<lambda>_.
           Inr ([], b\<lparr>unitRows := filter (\<lambda>u. u_id u \<noteq> uid) (unitRows b)\<rparr>)))"

definition deleteUnit :: "id \<Rightarrow> id \<Rightarrow> id \<Rightarrow> id action" where
  "deleteUnit bid uid p =
     bind_svc (svc_getOwnUnit bid uid) (\<lambda>_.
     bind_svc (site_bld_tx (deleteUnitIfUnused uid)) (\<lambda>blocked.
     bind_svc (guard (assert_r (blocked = []) (ConflictError
        STR ''This unit cannot be deleted because it already has related records or history.''))) (\<lambda>_.
     bind_svc (record_audit (Some p) (Some bid) STR ''UnitDeleted'' uid None) (\<lambda>_.
     return_svc uid))))"

definition noUnitChange :: updateUnitParams where
  "noUnitChange = \<lparr>uu_floorNumber = Absent, uu_areaSqm = Absent, uu_parkingCount = Absent, uu_storageCount = Absent,
     uu_occupancyStatus = Absent, uu_ownerFullName = Absent, uu_ownerFirstName = Absent, uu_ownerLastName = Absent,
     uu_ownerPhone = Absent\<rparr>"

definition inviteWith :: "time \<Rightarrow> updateUnitParams \<Rightarrow> id \<Rightarrow> id \<Rightarrow> id \<Rightarrow> unit_row action" where
  "inviteWith now change bid uid p =
     bind_svc (svc_getOwnUnit bid uid) (\<lambda>_.
     bind_svc (bld_tx (updateUnit uid change)) (\<lambda>_.
     bind_svc (bld_tx (markOwnerInviteSent now uid)) (\<lambda>u.
     bind_svc (record_audit (Some p) (Some bid) STR ''UnitOwnerInvited'' uid None) (\<lambda>_.
     return_svc u))))"

definition inviteOwner :: "time \<Rightarrow> id \<Rightarrow> id \<Rightarrow> string \<Rightarrow> string \<Rightarrow> id \<Rightarrow> unit_row action" where
  "inviteOwner now bid uid fullName phone p = inviteWith now
     (noUnitChange\<lparr>uu_ownerFullName := Given (Some fullName), uu_ownerPhone := Given (Some phone)\<rparr>) bid uid p"

definition inviteOwnerV2 :: "time \<Rightarrow> id \<Rightarrow> id \<Rightarrow> string \<Rightarrow> string \<Rightarrow> string \<Rightarrow> id \<Rightarrow> unit_row action" where
  "inviteOwnerV2 now bid uid firstName lastName phone p = inviteWith now
     (noUnitChange\<lparr>uu_ownerFirstName := Given (Some firstName), uu_ownerLastName := Given (Some lastName),
        uu_ownerFullName := Given (Some (firstName @ '' '' @ lastName)), uu_ownerPhone := Given (Some phone)\<rparr>)
     bid uid p"

section \<open>Membership requests\<close>

definition requestMembership :: "time \<Rightarrow> id \<Rightarrow> id \<Rightarrow> membershipRole \<Rightarrow> string option \<Rightarrow> membershipRequest action" where
  "requestMembership now bid p r message =
     bind_svc (getById bid) (\<lambda>_.
     bind_svc (bld_tx (createMembershipRequest now bid p r message)) (\<lambda>q.
     bind_svc (record_audit (Some p) (Some bid) STR ''MembershipRequested'' (mr_id q) None) (\<lambda>_.
     return_svc q)))"

definition resolveMembershipRequest :: "time \<Rightarrow> id \<Rightarrow> id \<Rightarrow> bool \<Rightarrow> id \<Rightarrow> membershipRequest action" where
  "resolveMembershipRequest now bid i approve actor =
     bind_svc (lift_svc (\<lambda>s. case findMembershipRequestById (s_bld s) i of
         Some q \<Rightarrow> if mr_buildingId q = bid then Inr q else Inl (NotFoundAppError STR ''Membership request not found.'')
       | None \<Rightarrow> Inl (NotFoundAppError STR ''Membership request not found.''))) (\<lambda>q.
     bind_svc (bld_tx (updateMembershipRequestStatus i (if approve then MR_APPROVED else MR_REJECTED))) (\<lambda>updated.
     bind_svc (if \<not> approve then return_svc ()
               else bind_svc (if mr_role q = MANAGER
                       then bind_svc (bld (\<lambda>b. getCurrentManagerMembership b bid)) (\<lambda>m. guard (assertNoActiveManager m))
                       else return_svc ()) (\<lambda>_.
                    bind_svc (bld_tx (createMembership now (mr_personId q) bid (mr_role q))) (\<lambda>_. return_svc ()))) (\<lambda>_.
     bind_svc (record_audit (Some actor) (Some bid)
        (if approve then STR ''MembershipRequestApproved'' else STR ''MembershipRequestRejected'') i None) (\<lambda>_.
     return_svc updated))))"

section \<open>Management\<close>

definition svc_changeManager ::
  "time \<Rightarrow> id \<Rightarrow> id \<Rightarrow> managerAssignmentType \<Rightarrow> id option \<Rightarrow> membership action" where
  "svc_changeManager now bid newManager ty actor =
     bind_svc (getById bid) (\<lambda>_.
     bind_svc (bld (\<lambda>b. getCurrentManagerMembership b bid)) (\<lambda>current.
     bind_svc (guard (assertNotSelfHandoff (map_option mb_personId current) newManager)) (\<lambda>_.
     bind_svc (bld (\<lambda>b. getRoles b newManager bid)) (\<lambda>roles.
     bind_svc (guard (assertCandidateIsMember (roles \<noteq> []))) (\<lambda>_.
     bind_svc (bld_tx (changeManager now bid newManager ty actor)) (\<lambda>m.
     bind_svc (record_audit actor (Some bid) STR ''ManagerChanged'' (mb_id m) None) (\<lambda>_.
     bind_svc (publish (ManagerChangedEvent bid newManager (map_option mb_personId current) actor)) (\<lambda>_.
     return_svc m))))))))"

definition svc_endManagement :: "time \<Rightarrow> id \<Rightarrow> id \<Rightarrow> membership action" where
  "svc_endManagement now bid actor =
     bind_svc (bld (\<lambda>b. getCurrentManagerMembership b bid)) (\<lambda>current.
     bind_svc (guard (assertHasActiveManager current)) (\<lambda>c.
     bind_svc (bld_tx (endManagement now (mb_id c))) (\<lambda>m.
     bind_svc (record_audit (Some actor) (Some bid) STR ''ManagementEnded'' (mb_id c) None) (\<lambda>_.
     return_svc m))))"

section \<open>History\<close>

record ownershipMeta =
  om_id :: id
  om_unitId :: id
  om_startDate :: time
  om_endDate :: "time option"
  om_isCurrent :: bool

record tenancyMeta =
  tm_id :: id
  tm_unitId :: id
  tm_status :: tenancyStatus
  tm_startDate :: time
  tm_endDate :: "time option"
  tm_noticeGivenAt :: "time option"
  tm_terminationReason :: "string option"
  tm_isCurrent :: bool

definition ownershipMetaOf :: "ownership \<Rightarrow> ownershipMeta" where
  "ownershipMetaOf w = \<lparr>om_id = ow_id w, om_unitId = ow_unitId w, om_startDate = ow_startDate w,
     om_endDate = ow_endDate w, om_isCurrent = ow_isCurrent w\<rparr>"

definition tenancyMetaOf :: "tenancy \<Rightarrow> tenancyMeta" where
  "tenancyMetaOf t = \<lparr>tm_id = tn_id t, tm_unitId = tn_unitId t, tm_status = tn_status t,
     tm_startDate = tn_startDate t, tm_endDate = tn_endDate t, tm_noticeGivenAt = tn_noticeGivenAt t,
     tm_terminationReason = tn_terminationReason t, tm_isCurrent = tn_isCurrent t\<rparr>"

definition buildHistoryAccessContext :: "bld_db \<Rightarrow> id \<Rightarrow> id \<Rightarrow> id \<Rightarrow> unitPrivacyContext" where
  "buildHistoryAccessContext b bid uid p =
     \<lparr>cx_isManager = List.member (getRoles b p bid) MANAGER,
      cx_isCurrentOwnerOfUnit = isCurrentOwnerOfUnit b uid p,
      cx_isCurrentTenantOfUnit = isCurrentTenant b uid p, cx_isInvitedOwnerCandidate = False\<rparr>"

definition historyAccess :: "id \<Rightarrow> id \<Rightarrow> id \<Rightarrow> unitPrivacyContext action" where
  "historyAccess bid uid p =
     bind_svc (svc_getOwnUnit bid uid) (\<lambda>_.
     bind_svc (bld (\<lambda>b. buildHistoryAccessContext b bid uid p)) (\<lambda>c.
     bind_svc (guard (assertCanAccessUnitHistory c)) (\<lambda>_.
     return_svc c)))"

definition getOwnershipHistory :: "id \<Rightarrow> id \<Rightarrow> id \<Rightarrow> ownershipMeta historyEntry list action" where
  "getOwnershipHistory bid uid p =
     bind_svc (historyAccess bid uid p) (\<lambda>c.
     bld (\<lambda>b. map (\<lambda>w. shapeHistoryEntry \<lparr>he_row = ownershipMetaOf w, he_personId = Some (ow_personId w),
        he_person = briefOf b (ow_personId w)\<rparr> c p) (listOwnershipHistoryForUnit b uid)))"

definition getTenancyHistory :: "id \<Rightarrow> id \<Rightarrow> id \<Rightarrow> tenancyMeta historyEntry list action" where
  "getTenancyHistory bid uid p =
     bind_svc (historyAccess bid uid p) (\<lambda>c.
     bld (\<lambda>b. map (\<lambda>t. shapeHistoryEntry \<lparr>he_row = tenancyMetaOf t, he_personId = Some (tn_personId t),
        he_person = briefOf b (tn_personId t)\<rparr> c p) (listTenanciesForUnit b uid)))"

definition getCurrentTenancy :: "id \<Rightarrow> id \<Rightarrow> id \<Rightarrow> tenancyMeta historyEntry option action" where
  "getCurrentTenancy bid uid p =
     bind_svc (historyAccess bid uid p) (\<lambda>c.
     bld (\<lambda>b. map_option (\<lambda>t. shapeHistoryEntry \<lparr>he_row = tenancyMetaOf t, he_personId = Some (tn_personId t),
        he_person = None\<rparr> c p) (findCurrentTenancyForUnit b uid)))"

section \<open>Tenancies\<close>

definition assertManagesUnit :: "id \<Rightarrow> id \<Rightarrow> id \<Rightarrow> bool \<Rightarrow> id option \<Rightarrow> unit action" where
  "assertManagesUnit bid uid actor requireOwnerOrManagerOnly tenant =
     lift_svc (\<lambda>s.
       let isOwner = isCurrentOwnerOfUnit (s_bld s) uid actor;
           isManager = List.member (getRoles (s_bld s) actor bid) MANAGER
       in if requireOwnerOrManagerOnly then assertCanCreate isOwner isManager
          else assertCanManage isOwner isManager (tenant = Some actor))"

definition svc_createTenancy :: "time \<Rightarrow> id \<Rightarrow> id \<Rightarrow> id \<Rightarrow> id \<Rightarrow> tenancy action" where
  "svc_createTenancy now bid uid tenant actor =
     bind_svc (svc_getOwnUnit bid uid) (\<lambda>_.
     bind_svc (assertManagesUnit bid uid actor True None) (\<lambda>_.
     bind_svc (bld (\<lambda>b. hasCurrentOwnership b uid)) (\<lambda>hasOwner.
     bind_svc (guard (assertUnitHasOwner hasOwner)) (\<lambda>_.
     bind_svc (bld (\<lambda>b. findCurrentTenancyForUnit b uid)) (\<lambda>existing.
     bind_svc (guard (assertUnitAvailableForTenancy existing)) (\<lambda>_.
     bind_svc (bld_tx (createTenancy now uid bid tenant)) (\<lambda>t.
     bind_svc (record_audit (Some actor) (Some bid) STR ''TenancyCreated'' (tn_id t) None) (\<lambda>_.
     bind_svc (publish (TenancyCreatedEvent (tn_id t) uid bid tenant)) (\<lambda>_.
     return_svc t)))))))))"

definition registerTenant :: "time \<Rightarrow> id \<Rightarrow> id \<Rightarrow> string \<Rightarrow> string \<Rightarrow> string \<Rightarrow> id \<Rightarrow> tenancy action" where
  "registerTenant now bid uid firstName lastName phone actor =
     bind_svc (bld (\<lambda>b. findPersonByPhone b phone)) (\<lambda>found.
     bind_svc (case found of
         None \<Rightarrow> bld_tx (createPersonWithName now phone firstName lastName)
       | Some q \<Rightarrow> bld_tx (\<lambda>b. Inr (q, fillMissingPersonName (pe_id q) (Some firstName) (Some lastName) b))) (\<lambda>q.
     svc_createTenancy now bid uid (pe_id q) actor))"

definition getOwnTenancy :: "id \<Rightarrow> id \<Rightarrow> tenancy action" where
  "getOwnTenancy bid i =
     bind_svc (lift_svc (\<lambda>s. case findTenancyById (s_bld s) i of
        Some t \<Rightarrow> Inr t | None \<Rightarrow> Inl (NotFoundAppError STR ''Tenancy not found.''))) (\<lambda>t.
     bind_svc (svc_getOwnUnit bid (tn_unitId t)) (\<lambda>_.
     return_svc t))"

definition svc_giveTenancyNotice :: "time \<Rightarrow> id \<Rightarrow> id \<Rightarrow> id \<Rightarrow> tenancy action" where
  "svc_giveTenancyNotice now bid i actor =
     bind_svc (getOwnTenancy bid i) (\<lambda>t.
     bind_svc (assertManagesUnit bid (tn_unitId t) actor False (Some (tn_personId t))) (\<lambda>_.
     bind_svc (guard (assertCanGiveNotice (tn_status t))) (\<lambda>_.
     bind_svc (bld_tx (giveTenancyNotice now i)) (\<lambda>updated.
     bind_svc (record_audit (Some actor) (Some bid) STR ''TenancyNoticeGiven'' i None) (\<lambda>_.
     return_svc updated)))))"

definition svc_endTenancy :: "time \<Rightarrow> id \<Rightarrow> id \<Rightarrow> string option \<Rightarrow> id \<Rightarrow> tenancy action" where
  "svc_endTenancy now bid i reason actor =
     bind_svc (getOwnTenancy bid i) (\<lambda>t.
     bind_svc (assertManagesUnit bid (tn_unitId t) actor False (Some (tn_personId t))) (\<lambda>_.
     bind_svc (guard (assertCanEnd (tn_status t))) (\<lambda>_.
     bind_svc (bld_tx (endTenancy now i (tn_unitId t) (tn_personId t) reason)) (\<lambda>updated.
     bind_svc (record_audit (Some actor) (Some bid) STR ''TenancyEnded'' i reason) (\<lambda>_.
     bind_svc (publish (TenancyEndedEvent i (tn_unitId t) bid (tn_personId t))) (\<lambda>_.
     return_svc updated))))))"

section \<open>Settings\<close>

definition getSettings :: "id \<Rightarrow> bool action" where
  "getSettings bid = bind_svc (getById bid) (\<lambda>_. bld (\<lambda>b. getBuildingSettings b bid))"

definition updateSettings :: "id \<Rightarrow> bool option \<Rightarrow> id \<Rightarrow> bool action" where
  "updateSettings bid allow actor =
     bind_svc (getById bid) (\<lambda>_.
     bind_svc (bld_tx (upsertBuildingSettings bid allow)) (\<lambda>v.
     bind_svc (record_audit (Some actor) (Some bid) STR ''BuildingSettingsUpdated'' bid None) (\<lambda>_.
     return_svc v)))"

end
