(* ===== verification/Building_Inv.thy ===== *)
theory Building_Inv
  imports Building_Repo
begin

text \<open>
  What holds of the building tables between calls: identifiers and natural keys are
  unique, references resolve, a building has at most one current manager, a unit at most
  one current owner and one current tenant, and the memberships of owners and tenants
  mirror the ownerships and tenancies.  Every transaction of \<open>Building_Repo\<close> keeps it,
  some of them under the check their service makes first.
\<close>

section \<open>The invariant\<close>

definition usedIds :: "bld_db \<Rightarrow> id set" where
  "usedIds b = pe_id ` set (persons b) \<union> bd_id ` set (buildings b) \<union> u_id ` set (unitRows b) \<union>
     ow_id ` set (ownerships b) \<union> tn_id ` set (tenancies b) \<union> mb_id ` set (memberships b)"

definition ids_ok :: "bld_db \<Rightarrow> bool" where
  "ids_ok b \<longleftrightarrow> inj (bld_ids b) \<and> (\<forall>n\<ge>bld_next b. bld_ids b n \<notin> usedIds b)"

definition keys_ok :: "bld_db \<Rightarrow> bool" where
  "keys_ok b \<longleftrightarrow> distinct (map pe_id (persons b)) \<and> distinct (map pe_phone (persons b)) \<and>
     distinct (map bd_id (buildings b)) \<and> distinct (map bd_postalCode (buildings b)) \<and>
     distinct (map u_id (unitRows b)) \<and> distinct (map (\<lambda>u. (u_buildingId u, u_unitNumber u)) (unitRows b)) \<and>
     distinct (map tn_id (tenancies b)) \<and> distinct (map mb_id (memberships b))"

definition unitOf :: "bld_db \<Rightarrow> id \<Rightarrow> id \<Rightarrow> bool" where
  "unitOf b bid uid \<longleftrightarrow> (\<exists>u\<in>set (unitRows b). u_id u = uid \<and> u_buildingId u = bid)"

definition refs_ok :: "bld_db \<Rightarrow> bool" where
  "refs_ok b \<longleftrightarrow> (\<forall>u\<in>set (unitRows b). u_buildingId u \<in> bd_id ` set (buildings b)) \<and>
     (\<forall>m\<in>set (memberships b). mb_buildingId m \<in> bd_id ` set (buildings b) \<and>
        (\<forall>uid. mb_unitId m = Some uid \<longrightarrow> unitOf b (mb_buildingId m) uid)) \<and>
     (\<forall>w\<in>set (ownerships b). ow_unitId w \<in> u_id ` set (unitRows b)) \<and>
     (\<forall>t\<in>set (tenancies b). tn_unitId t \<in> u_id ` set (unitRows b))"

definition one :: "('r \<Rightarrow> bool) \<Rightarrow> 'r list \<Rightarrow> bool" where
  "one P rows \<longleftrightarrow> length (filter P rows) \<le> 1"

definition managers_ok :: "bld_db \<Rightarrow> bool" where
  "managers_ok b \<longleftrightarrow> (\<forall>bid. one (managesNow bid) (memberships b))"

definition ownsNow :: "id \<Rightarrow> ownership \<Rightarrow> bool" where
  "ownsNow uid w \<longleftrightarrow> ow_unitId w = uid \<and> ow_isCurrent w"

definition rentsNow :: "id \<Rightarrow> tenancy \<Rightarrow> bool" where
  "rentsNow uid t \<longleftrightarrow> tn_unitId t = uid \<and> tn_isCurrent t"

definition units_ok :: "bld_db \<Rightarrow> bool" where
  "units_ok b \<longleftrightarrow> (\<forall>uid. one (ownsNow uid) (ownerships b)) \<and> (\<forall>uid. one (rentsNow uid) (tenancies b)) \<and>
     (\<forall>t\<in>set (tenancies b). tn_isCurrent t \<longleftrightarrow> tn_status t \<noteq> TS_ENDED)"

definition ownersNow :: "bld_db \<Rightarrow> id \<Rightarrow> id set" where
  "ownersNow b uid = ow_personId ` {w \<in> set (ownerships b). ownsNow uid w}"

definition tenantsNow :: "bld_db \<Rightarrow> id \<Rightarrow> id set" where
  "tenantsNow b uid = tn_personId ` {t \<in> set (tenancies b). rentsNow uid t}"

definition membersNow :: "bld_db \<Rightarrow> membershipRole \<Rightarrow> id \<Rightarrow> id set" where
  "membersNow b r uid = mb_personId ` {m \<in> set (memberships b). mb_unitId m = Some uid \<and> mb_role m = r \<and> mb_isCurrent m}"

definition mirrors_ok :: "bld_db \<Rightarrow> bool" where
  "mirrors_ok b \<longleftrightarrow> (\<forall>uid. membersNow b OWNER uid = ownersNow b uid \<and> membersNow b TENANT uid = tenantsNow b uid)"

definition bld_ok :: "bld_db \<Rightarrow> bool" where
  "bld_ok b \<longleftrightarrow> ids_ok b \<and> keys_ok b \<and> refs_ok b \<and> managers_ok b \<and> units_ok b \<and> mirrors_ok b"

section \<open>Lists with at most one match\<close>

lemma one_simps [simp]:
  "one P []" "one P (xs @ [x]) \<longleftrightarrow> (if P x then \<forall>y\<in>set xs. \<not> P y else one P xs)"
  by (auto simp: one_def filter_empty_conv)

lemma one_none: "\<forall>y\<in>set xs. \<not> P y \<Longrightarrow> one P xs"
  by (simp add: one_def)

lemma one_upd: "one P xs \<Longrightarrow> (\<And>x. x \<in> set xs \<Longrightarrow> Q x \<Longrightarrow> P (f x) \<Longrightarrow> P x) \<Longrightarrow> one P (upd_where Q f xs)"
proof (induction xs)
  case (Cons x xs)
  have sub: "\<not> P y" if "y \<in> set (upd_where Q f xs)" "\<forall>y\<in>set xs. \<not> P y" for y
    using that Cons.prems(2) by (auto simp: set_upd_where)
  show ?case
  proof (cases "P x")
    case True
    then have "\<forall>y\<in>set xs. \<not> P y" using Cons.prems(1) by (auto simp: one_def filter_empty_conv)
    then have "filter P (upd_where Q f xs) = []" using sub by (auto simp: filter_empty_conv)
    then show ?thesis by (auto simp: one_def)
  next
    case False
    then have "one P (upd_where Q f xs)" using Cons by (auto simp: one_def)
    moreover have "\<not> P (if Q x then f x else x)" using False Cons.prems(2) [of x] by auto
    ultimately show ?thesis by (auto simp: one_def)
  qed
qed simp

lemma one_same: "one P xs \<Longrightarrow> x \<in> set xs \<Longrightarrow> y \<in> set xs \<Longrightarrow> P x \<Longrightarrow> P y \<Longrightarrow> x = y"
proof (induction xs)
  case (Cons z zs)
  then show ?case by (cases "P z") (auto simp: one_def filter_empty_conv)
qed simp

lemma ended_rows:
  "(\<And>x. Q x \<Longrightarrow> \<not> P (f x)) \<Longrightarrow> {x \<in> set (upd_where Q f xs). P x} = {x \<in> set xs. P x \<and> \<not> Q x}"
  by (auto simp: set_upd_where)

lemma find_one_None: "find P xs = None \<longleftrightarrow> (\<forall>x\<in>set xs. \<not> P x)"
  by (auto simp: find_None_iff)

lemma find_Some_in: "find P xs = Some x \<Longrightarrow> x \<in> set xs \<and> P x"
  by (auto simp: find_Some_iff)

section \<open>Updates that leave the invariant alone\<close>

text \<open>Tables the invariant does not read, and columns it does not read.\<close>

lemma ok_settings: "bld_ok b \<Longrightarrow> bld_ok (b\<lparr>settingsRows := x\<rparr>)" "bld_ok b \<Longrightarrow> bld_ok (b\<lparr>membershipRequests := y\<rparr>)"
  by (simp_all add: bld_ok_def ids_ok_def usedIds_def keys_ok_def refs_ok_def unitOf_def managers_ok_def units_ok_def
      mirrors_ok_def membersNow_def ownersNow_def tenantsNow_def)

lemma ok_take: "bld_ok b \<Longrightarrow> bld_ok (take_bid b)"
  by (simp add: bld_ok_def ids_ok_def usedIds_def keys_ok_def refs_ok_def unitOf_def managers_ok_def units_ok_def
      mirrors_ok_def membersNow_def ownersNow_def tenantsNow_def take_bid_def)

lemma image_upd: "(\<And>r. key (f r) = key r) \<Longrightarrow> key ` set (upd_where P f rows) = key ` set rows"
  by (simp only: set_upd_where image_image if_distrib [of key]) simp

lemma ok_units_upd:
  assumes "bld_ok b" "\<And>u. u_id (f u) = u_id u \<and> u_buildingId (f u) = u_buildingId u \<and> u_unitNumber (f u) = u_unitNumber u"
  shows "bld_ok (b\<lparr>unitRows := upd_where P f (unitRows b)\<rparr>)"
proof -
  let ?b = "b\<lparr>unitRows := upd_where P f (unitRows b)\<rparr>"
  have k: "u_id ` set (upd_where P f (unitRows b)) = u_id ` set (unitRows b)"
    using assms(2) by (intro image_upd) auto
  have "unitOf ?b = unitOf b"
    using assms(2) by (intro ext) (auto simp: unitOf_def set_upd_where)
  then show ?thesis
    using assms k by (simp add: bld_ok_def ids_ok_def usedIds_def keys_ok_def refs_ok_def managers_ok_def units_ok_def
        mirrors_ok_def membersNow_def ownersNow_def tenantsNow_def map_key_upd_where)
      (auto simp: set_upd_where)
qed

lemma ok_persons_upd:
  assumes "bld_ok b" "\<And>q. pe_id (f q) = pe_id q \<and> pe_phone (f q) = pe_phone q"
  shows "bld_ok (b\<lparr>persons := upd_where P f (persons b)\<rparr>)"
  using assms by (simp add: bld_ok_def ids_ok_def usedIds_def keys_ok_def refs_ok_def unitOf_def managers_ok_def units_ok_def
      mirrors_ok_def membersNow_def ownersNow_def tenantsNow_def map_key_upd_where image_upd)

lemma ok_buildings_upd:
  assumes "bld_ok b" "\<And>d. bd_id (f d) = bd_id d \<and> bd_postalCode (f d) = bd_postalCode d"
  shows "bld_ok (b\<lparr>buildings := upd_where P f (buildings b)\<rparr>)"
  using assms by (simp add: bld_ok_def ids_ok_def usedIds_def keys_ok_def refs_ok_def unitOf_def managers_ok_def units_ok_def
      mirrors_ok_def membersNow_def ownersNow_def tenantsNow_def map_key_upd_where image_upd)

text \<open>Memberships that change their state, or their manager's seat.\<close>

lemma ok_memberships_seats:
  assumes "bld_ok b"
    and f: "\<And>m. mb_id (f m) = mb_id m \<and> mb_personId (f m) = mb_personId m \<and> mb_buildingId (f m) = mb_buildingId m \<and>
      mb_unitId (f m) = mb_unitId m \<and> mb_role (f m) = mb_role m"
    and man: "managers_ok b \<Longrightarrow> managers_ok (b\<lparr>memberships := upd_where P f (memberships b)\<rparr>)"
    and mirror: "\<And>m. m \<in> set (memberships b) \<Longrightarrow> P m \<Longrightarrow> mb_role m \<in> {OWNER, TENANT} \<Longrightarrow> mb_isCurrent (f m) = mb_isCurrent m"
  shows "bld_ok (b\<lparr>memberships := upd_where P f (memberships b)\<rparr>)"
proof -
  let ?b = "b\<lparr>memberships := upd_where P f (memberships b)\<rparr>"
  have ids: "mb_id ` set (upd_where P f (memberships b)) = mb_id ` set (memberships b)"
    using f by (intro image_upd) auto
  have refs: "refs_ok ?b" if "refs_ok b"
    using that f by (fastforce simp: refs_ok_def unitOf_def set_upd_where)
  have mem: "membersNow ?b r uid = membersNow b r uid" if "r \<in> {OWNER, TENANT}" for r uid
  proof -
    let ?S = "{m \<in> set (memberships b). mb_unitId m = Some uid \<and> mb_role m = r \<and> mb_isCurrent m}"
    let ?g = "\<lambda>m. if P m then f m else m"
    have eq: "{m \<in> set (upd_where P f (memberships b)). mb_unitId m = Some uid \<and> mb_role m = r \<and> mb_isCurrent m} = ?g ` ?S"
      using that f mirror by (auto simp: set_upd_where)
    have "membersNow ?b r uid = mb_personId ` ?g ` ?S"
      by (simp only: membersNow_def eq bld_db.select_convs bld_db.update_convs) (simp add: eq)
    also have "\<dots> = (\<lambda>m. mb_personId (?g m)) ` ?S" by (rule image_image)
    also have "(\<lambda>m. mb_personId (?g m)) = mb_personId" using f by (intro ext) simp
    finally show ?thesis by (simp add: membersNow_def)
  qed
  show ?thesis
    using assms(1) ids refs man mem f
    by (simp add: bld_ok_def ids_ok_def usedIds_def keys_ok_def units_ok_def mirrors_ok_def ownersNow_def tenantsNow_def
        map_key_upd_where)
qed

text \<open>Memberships that end or change state without starting anything.\<close>

lemma ok_memberships_upd:
  assumes "bld_ok b"
    and f: "\<And>m. mb_id (f m) = mb_id m \<and> mb_personId (f m) = mb_personId m \<and> mb_buildingId (f m) = mb_buildingId m \<and>
      mb_unitId (f m) = mb_unitId m \<and> mb_role (f m) = mb_role m"
    and cur: "\<And>m. m \<in> set (memberships b) \<Longrightarrow> P m \<Longrightarrow> mb_isCurrent (f m) \<Longrightarrow> mb_isCurrent m"
    and mirror: "\<And>m. m \<in> set (memberships b) \<Longrightarrow> P m \<Longrightarrow> mb_role m \<in> {OWNER, TENANT} \<Longrightarrow> mb_isCurrent (f m) = mb_isCurrent m"
  shows "bld_ok (b\<lparr>memberships := upd_where P f (memberships b)\<rparr>)"
  using f cur by (intro ok_memberships_seats [OF assms(1)] mirror) (auto simp: managers_ok_def managesNow_def intro!: one_upd)

section \<open>New rows\<close>

lemma ids_ok_new:
  assumes "ids_ok b" "usedIds b' \<subseteq> insert (fresh_bid b) (usedIds b)" "bld_ids b' = bld_ids b" "bld_next b' = Suc (bld_next b)"
  shows "ids_ok b'"
proof -
  have "bld_ids b n \<notin> insert (fresh_bid b) (usedIds b)" if "Suc (bld_next b) \<le> n" for n
    using assms(1) that by (auto simp: ids_ok_def fresh_bid_def inj_eq)
  then show ?thesis using assms by (auto simp: ids_ok_def)
qed

lemma fresh_new:
  assumes "ids_ok b"
  shows "fresh_bid b \<notin> pe_id ` set (persons b)" "fresh_bid b \<notin> bd_id ` set (buildings b)"
    "fresh_bid b \<notin> u_id ` set (unitRows b)" "fresh_bid b \<notin> tn_id ` set (tenancies b)"
    "fresh_bid b \<notin> mb_id ` set (memberships b)"
  using assms by (auto simp: ids_ok_def fresh_bid_def usedIds_def)

lemma take_bid_simps [simp]:
  "persons (take_bid b) = persons b" "buildings (take_bid b) = buildings b" "blocks (take_bid b) = blocks b"
  "unitRows (take_bid b) = unitRows b" "ownerships (take_bid b) = ownerships b" "tenancies (take_bid b) = tenancies b"
  "memberships (take_bid b) = memberships b" "bld_ids (take_bid b) = bld_ids b"
  "bld_next (take_bid b) = Suc (bld_next b)" "settingsRows (take_bid b) = settingsRows b"
  "membershipRequests (take_bid b) = membershipRequests b"
  by (simp_all add: take_bid_def)

text \<open>Each part of the invariant reads few tables.\<close>

lemma frames:
  "memberships b' = memberships b \<Longrightarrow> managers_ok b' = managers_ok b"
  "ownerships b' = ownerships b \<Longrightarrow> tenancies b' = tenancies b \<Longrightarrow> units_ok b' = units_ok b"
  "ownerships b' = ownerships b \<Longrightarrow> ownersNow b' = ownersNow b"
  "tenancies b' = tenancies b \<Longrightarrow> tenantsNow b' = tenantsNow b"
  "memberships b' = memberships b \<Longrightarrow> membersNow b' = membersNow b"
  by (auto simp: managers_ok_def units_ok_def ownersNow_def tenantsNow_def membersNow_def intro!: ext)

lemma mirrors_frame:
  "memberships b' = memberships b \<Longrightarrow> ownerships b' = ownerships b \<Longrightarrow> tenancies b' = tenancies b \<Longrightarrow>
    mirrors_ok b' = mirrors_ok b"
  using frames(3) [of b' b] frames(4) [of b' b] frames(5) [of b' b] by (simp add: mirrors_ok_def)

text \<open>The invariant without the mirror, which a transaction breaks and restores.\<close>

definition base_ok :: "bld_db \<Rightarrow> bool" where
  "base_ok b \<longleftrightarrow> ids_ok b \<and> keys_ok b \<and> refs_ok b \<and> managers_ok b \<and> units_ok b"

lemma bld_ok_split: "bld_ok b \<longleftrightarrow> base_ok b \<and> mirrors_ok b"
  by (simp add: bld_ok_def base_ok_def)

lemma base_okI: "ids_ok b \<Longrightarrow> keys_ok b \<Longrightarrow> refs_ok b \<Longrightarrow> managers_ok b \<Longrightarrow> units_ok b \<Longrightarrow> base_ok b"
  by (simp add: base_ok_def)

lemma base_okD: "base_ok b \<Longrightarrow> ids_ok b" "base_ok b \<Longrightarrow> keys_ok b" "base_ok b \<Longrightarrow> refs_ok b"
  "base_ok b \<Longrightarrow> managers_ok b" "base_ok b \<Longrightarrow> units_ok b"
  by (simp_all add: base_ok_def)

lemma bld_okI: "ids_ok b \<Longrightarrow> keys_ok b \<Longrightarrow> refs_ok b \<Longrightarrow> managers_ok b \<Longrightarrow> units_ok b \<Longrightarrow> mirrors_ok b \<Longrightarrow> bld_ok b"
  by (simp add: bld_ok_def)

lemma bld_okD: "bld_ok b \<Longrightarrow> ids_ok b" "bld_ok b \<Longrightarrow> keys_ok b" "bld_ok b \<Longrightarrow> refs_ok b"
  "bld_ok b \<Longrightarrow> managers_ok b" "bld_ok b \<Longrightarrow> units_ok b" "bld_ok b \<Longrightarrow> mirrors_ok b"
  by (simp_all add: bld_ok_def)

lemma ok_person_new:
  assumes "bld_ok b" "pe_id p = fresh_bid b" "findPersonByPhone b (pe_phone p) = None"
  shows "bld_ok (take_bid (b\<lparr>persons := persons b @ [p]\<rparr>))"
proof (rule bld_okI)
  let ?b = "take_bid (b\<lparr>persons := persons b @ [p]\<rparr>)"
  note ok = bld_okD [OF assms(1)]
  show "ids_ok ?b" using assms(2) by (intro ids_ok_new [OF ok(1)]) (auto simp: usedIds_def)
  have "pe_phone p \<notin> pe_phone ` set (persons b)"
    using assms(3) by (simp add: findPersonByPhone_def find_row_None_iff)
  then show "keys_ok ?b" using ok(2) fresh_new(1) [OF ok(1)] assms(2) by (simp add: keys_ok_def)
  show "refs_ok ?b" using ok(3) by (simp add: refs_ok_def unitOf_def)
  show "managers_ok ?b" using ok(4) frames(1) [of ?b b] by simp
  show "units_ok ?b" using ok(5) frames(2) [of ?b b] by simp
  show "mirrors_ok ?b" using ok(6) mirrors_frame [of ?b b] by simp
qed

lemma unitOf_more: "unitOf b bid uid \<Longrightarrow> set (unitRows b) \<subseteq> set (unitRows b') \<Longrightarrow> unitOf b' bid uid"
  by (auto simp: unitOf_def)

lemma ok_unit_new:
  assumes "bld_ok b" "u_id u = fresh_bid b" "u_buildingId u \<in> bd_id ` set (buildings b)"
    "\<forall>v\<in>set (unitRows b). \<not> (u_buildingId v = u_buildingId u \<and> u_unitNumber v = u_unitNumber u)"
  shows "bld_ok (take_bid (b\<lparr>unitRows := unitRows b @ [u]\<rparr>))"
proof (rule bld_okI)
  let ?b = "take_bid (b\<lparr>unitRows := unitRows b @ [u]\<rparr>)"
  note ok = bld_okD [OF assms(1)]
  show "ids_ok ?b" using assms(2) by (intro ids_ok_new [OF ok(1)]) (auto simp: usedIds_def)
  have "(u_buildingId u, u_unitNumber u) \<notin> (\<lambda>u. (u_buildingId u, u_unitNumber u)) ` set (unitRows b)"
    using assms(4) by auto
  then show "keys_ok ?b" using ok(2) fresh_new(3) [OF ok(1)] assms(2) by (simp add: keys_ok_def)
  have "unitOf ?b x y" if "unitOf b x y" for x y using that by (rule unitOf_more) auto
  then show "refs_ok ?b" using ok(3) assms(3) by (simp add: refs_ok_def)
  show "managers_ok ?b" using ok(4) frames(1) [of ?b b] by simp
  show "units_ok ?b" using ok(5) frames(2) [of ?b b] by simp
  show "mirrors_ok ?b" using ok(6) mirrors_frame [of ?b b] by simp
qed

lemma membership_new:
  assumes "base_ok b" "mb_id m = fresh_bid b" "mb_buildingId m \<in> bd_id ` set (buildings b)"
    "\<And>uid. mb_unitId m = Some uid \<Longrightarrow> unitOf b (mb_buildingId m) uid"
    "mb_role m = MANAGER \<Longrightarrow> mb_isCurrent m \<Longrightarrow> getCurrentManagerMembership b (mb_buildingId m) = None"
  shows "base_ok (take_bid (b\<lparr>memberships := memberships b @ [m]\<rparr>))"
proof (rule base_okI)
  let ?b = "take_bid (b\<lparr>memberships := memberships b @ [m]\<rparr>)"
  note ok = base_okD [OF assms(1)]
  show "ids_ok ?b" using assms(2) by (intro ids_ok_new [OF ok(1)]) (auto simp: usedIds_def)
  show "keys_ok ?b" using ok(2) fresh_new(5) [OF ok(1)] assms(2) by (simp add: keys_ok_def)
  have "unitOf ?b x y" if "unitOf b x y" for x y using that by (rule unitOf_more) auto
  then show "refs_ok ?b" using ok(3) assms(3,4) by (simp add: refs_ok_def)
  have "one (managesNow bid) (memberships b @ [m])" for bid
  proof (cases "managesNow bid m")
    case True
    then have "\<forall>y\<in>set (memberships b). \<not> managesNow bid y"
      using assms(5) by (simp add: managesNow_def getCurrentManagerMembership_def find_one_None)
    with True show ?thesis by simp
  next
    case False
    then show ?thesis using ok(4) by (simp add: managers_ok_def)
  qed
  then show "managers_ok ?b" by (simp add: managers_ok_def)
  show "units_ok ?b" using ok(5) frames(2) [of ?b b] by simp
qed

lemma membersNow_new:
  "membersNow (take_bid (b\<lparr>memberships := memberships b @ [m]\<rparr>)) r uid =
    (if mb_unitId m = Some uid \<and> mb_role m = r \<and> mb_isCurrent m then insert (mb_personId m) (membersNow b r uid)
     else membersNow b r uid)"
  by (auto simp: membersNow_def)

lemma ok_membership_new:
  assumes "bld_ok b" "mb_id m = fresh_bid b" "mb_buildingId m \<in> bd_id ` set (buildings b)" "mb_unitId m = None"
    "mb_role m = MANAGER \<Longrightarrow> mb_isCurrent m \<Longrightarrow> getCurrentManagerMembership b (mb_buildingId m) = None"
  shows "bld_ok (take_bid (b\<lparr>memberships := memberships b @ [m]\<rparr>))"
proof -
  let ?b = "take_bid (b\<lparr>memberships := memberships b @ [m]\<rparr>)"
  have "ownersNow ?b = ownersNow b" "tenantsNow ?b = tenantsNow b"
    using frames(3) [of ?b b] frames(4) [of ?b b] by simp_all
  then have "mirrors_ok ?b" using bld_okD(6) [OF assms(1)] assms(4) by (simp add: mirrors_ok_def membersNow_new)
  moreover have "base_ok ?b" using assms by (intro membership_new) (simp_all add: bld_ok_split)
  ultimately show ?thesis by (simp add: bld_ok_split)
qed

section \<open>Transactions\<close>

lemma findBuilding_known: "findBuildingById b bid \<noteq> None \<longleftrightarrow> bid \<in> bd_id ` set (buildings b)"
  by (auto simp: findBuildingById_def find_row_None_iff)

lemma findUnit_known: "findUnitById b uid \<noteq> None \<longleftrightarrow> uid \<in> u_id ` set (unitRows b)"
  by (auto simp: findUnitById_def find_row_None_iff)

lemma needs_Inr [effect_simps]: "needs x c = Inr r \<longleftrightarrow> x = Some r"
  by (simp add: needs_def split: option.splits)

lemma insertMembership_Inr [effect_simps]:
  "insertMembership m b = Inr (m', b') \<longleftrightarrow> findPersonById b (mb_personId m) \<noteq> None \<and>
     mb_buildingId m \<in> bd_id ` set (buildings b) \<and> (\<forall>u. mb_unitId m = Some u \<longrightarrow> u \<in> u_id ` set (unitRows b)) \<and>
     (\<forall>p. mb_assignedById m = Some p \<longrightarrow> findPersonById b p \<noteq> None) \<and>
     m' = m\<lparr>mb_id := fresh_bid b\<rparr> \<and> b' = take_bid (b\<lparr>memberships := memberships b @ [m']\<rparr>)"
  unfolding insertMembership_def findBuilding_known [symmetric] findUnit_known [symmetric]
  by (auto simp: dangling_def split: option.splits)

lemma createPerson_ok: "bld_ok b \<Longrightarrow> createPersonWithName now phone f l b = Inr (p, b') \<Longrightarrow> bld_ok b'"
  by (auto simp: createPersonWithName_def Let_def split: if_splits intro!: ok_person_new)

lemma fillMissing_ok: "bld_ok b \<Longrightarrow> bld_ok (fillMissingPersonName p f l b)"
  unfolding fillMissingPersonName_def by (rule ok_persons_upd) simp_all

lemma modifyUnit_ok:
  assumes "bld_ok b" "modifyUnit uid f b = Inr (u, b')"
    "\<And>u. u_id (f u) = u_id u \<and> u_buildingId (f u) = u_buildingId u \<and> u_unitNumber (f u) = u_unitNumber u"
  shows "bld_ok b'"
  using assms by (auto simp: modifyUnit_def effect_simps intro!: ok_units_upd)

lemma updateUnit_ok: "bld_ok b \<Longrightarrow> updateUnit uid q b = Inr (u, b') \<Longrightarrow> bld_ok b'"
  by (auto simp: updateUnit_def patchUnit_def split: if_splits elim!: modifyUnit_ok)

lemma markInvite_ok:
  assumes "bld_ok b" "markOwnerInviteSent now uid b = Inr (u, b')"
  shows "bld_ok b'"
  by (rule modifyUnit_ok [OF assms [unfolded markOwnerInviteSent_def]]) simp

lemma createUnit_ok:
  assumes "bld_ok b" "createUnit floors bid q b = Inr (u, b')"
  shows "bld_ok b'"
proof -
  have "u_id u = fresh_bid b" "u_buildingId u = bid" "u_unitNumber u = nu_unitNumber q" "findBuildingById b bid \<noteq> None"
    "\<not> (\<exists>v\<in>set (unitRows b). u_buildingId v = bid \<and> u_unitNumber v = nu_unitNumber q)"
    "b' = take_bid (b\<lparr>unitRows := unitRows b @ [u]\<rparr>)"
    using assms(2) by (simp_all add: createUnit_def Let_def skeletonUnit_def split: if_splits) auto
  then show ?thesis using ok_unit_new [OF assms(1), of u] by (auto simp: findBuilding_known [symmetric])
qed

lemma requests_ok:
  "bld_ok b \<Longrightarrow> createMembershipRequest now bid p r ms b = Inr (q, b') \<Longrightarrow> bld_ok b'"
  "bld_ok b \<Longrightarrow> updateMembershipRequestStatus i st b = Inr (q, b') \<Longrightarrow> bld_ok b'"
  by (auto simp: createMembershipRequest_def updateMembershipRequestStatus_def Let_def effect_simps split: if_splits
      intro!: ok_take ok_settings)

lemma settings_ok: "bld_ok b \<Longrightarrow> upsertBuildingSettings bid a b = Inr (v, b') \<Longrightarrow> bld_ok b'"
  by (auto simp: upsertBuildingSettings_def Let_def split: option.splits if_splits intro!: ok_settings)

lemma createMembership_ok:
  assumes "bld_ok b" "createMembership now p bid r b = Inr (m, b')"
    "r = MANAGER \<Longrightarrow> getCurrentManagerMembership b bid = None"
  shows "bld_ok b'"
  using assms by (auto simp: createMembership_def effect_simps plainMembership_def intro!: ok_membership_new)

section \<open>Management\<close>

lemma membership_key: "bld_ok b \<Longrightarrow> x \<in> set (memberships b) \<Longrightarrow> y \<in> set (memberships b) \<Longrightarrow> mb_id x = mb_id y \<Longrightarrow> x = y"
  by (drule bld_okD(2)) (auto simp: keys_ok_def distinct_map inj_on_def)

lemma endManager:
  assumes "bld_ok b" "c \<in> set (memberships b)" "managesNow bid c"
    and b1_def: "b1 = b\<lparr>memberships := upd_where (\<lambda>x. mb_id x = mb_id c) (endedManager now) (memberships b)\<rparr>"
  shows "bld_ok b1" "getCurrentManagerMembership b1 bid = None"
proof -
  have only: "x = c" if "x \<in> set (memberships b)" "mb_id x = mb_id c" for x
    using membership_key [OF assms(1) that(1) assms(2) that(2)] .
  have role: "mb_role c = MANAGER" using assms(3) by (simp add: managesNow_def)
  show "bld_ok b1" unfolding b1_def
  proof (rule ok_memberships_upd [OF assms(1)])
    fix m assume "m \<in> set (memberships b)" "mb_id m = mb_id c" "mb_role m \<in> {OWNER, TENANT}"
    then show "mb_isCurrent (endedManager now m) = mb_isCurrent m" using only [of m] role by auto
  qed (simp_all add: endedManager_def)
  have "\<not> managesNow bid y" if "y \<in> set (memberships b1)" for y
  proof -
    from that obtain x where x: "x \<in> set (memberships b)"
      "y = (if mb_id x = mb_id c then endedManager now x else x)"
      by (auto simp: b1_def set_upd_where)
    show ?thesis
    proof (cases "mb_id x = mb_id c")
      case True
      with x show ?thesis by (simp add: managesNow_def endedManager_def)
    next
      case False
      have "one (managesNow bid) (memberships b)" using bld_okD(4) [OF assms(1)] by (simp add: managers_ok_def)
      then have "\<not> managesNow bid x" using one_same [of _ _ x c] x(1) assms(2,3) False by auto
      with x False show ?thesis by simp
    qed
  qed
  then show "getCurrentManagerMembership b1 bid = None"
    by (simp add: getCurrentManagerMembership_def find_one_None)
qed

lemma currentManager: "getCurrentManagerMembership b bid = Some c \<Longrightarrow> c \<in> set (memberships b) \<and> managesNow bid c"
  unfolding getCurrentManagerMembership_def by (rule find_Some_in)

lemma endManagement_ok:
  assumes "bld_ok b" "getCurrentManagerMembership b bid = Some c" "endManagement now (mb_id c) b = Inr (m, b')"
  shows "bld_ok b'" "getCurrentManagerMembership b' bid = None"
  using endManager [OF assms(1)] currentManager [OF assms(2)] assms(3)
  by (auto simp: endManagement_def modifyMembership_def effect_simps)

text \<open>The building after the outgoing manager has been ended.\<close>

definition withoutManager :: "time \<Rightarrow> id \<Rightarrow> bld_db \<Rightarrow> bld_db" where
  "withoutManager now bid b = (case getCurrentManagerMembership b bid of None \<Rightarrow> b
     | Some c \<Rightarrow> b\<lparr>memberships := upd_where (\<lambda>x. mb_id x = mb_id c) (endedManager now) (memberships b)\<rparr>)"

lemma withoutManager_ok:
  assumes "bld_ok b"
  shows "bld_ok (withoutManager now bid b)" "getCurrentManagerMembership (withoutManager now bid b) bid = None"
  using endManager [OF assms] currentManager [of b bid] assms
  by (auto simp: withoutManager_def split: option.split)

lemma withoutManager_simps [simp]:
  "persons (withoutManager now bid b) = persons b" "buildings (withoutManager now bid b) = buildings b"
  "unitRows (withoutManager now bid b) = unitRows b" "ownerships (withoutManager now bid b) = ownerships b"
  "tenancies (withoutManager now bid b) = tenancies b" "bld_ids (withoutManager now bid b) = bld_ids b"
  "bld_next (withoutManager now bid b) = bld_next b"
  by (simp_all add: withoutManager_def split: option.split)

definition stateFor :: "managerAssignmentType \<Rightarrow> managerLifecycleState" where
  "stateFor ty = (if ty = MA_PROVISIONAL then ML_PROVISIONAL else ML_VERIFIED)"

definition newManager :: "time \<Rightarrow> id \<Rightarrow> id \<Rightarrow> managerAssignmentType \<Rightarrow> id option \<Rightarrow> id \<Rightarrow> membership" where
  "newManager now bid p ty assignedBy i = (plainMembership now p bid None MANAGER)
     \<lparr>mb_id := i, mb_managerState := Some (stateFor ty), mb_managerAssignmentType := Some ty, mb_assignedById := assignedBy\<rparr>"

lemma changeManager_Inr:
  assumes "changeManager now bid p ty assignedBy b = Inr (m, b')"
  shows "m = newManager now bid p ty assignedBy (fresh_bid b)" "bid \<in> bd_id ` set (buildings b)"
    "let b2 = take_bid ((withoutManager now bid b)\<lparr>memberships := memberships (withoutManager now bid b) @ [m]\<rparr>)
     in b' = (if stateFor ty = ML_VERIFIED then clearRecovery bid b2 else b2)"
proof -
  have w: "(case getCurrentManagerMembership b bid of None \<Rightarrow> Inr b
             | Some c \<Rightarrow> bind_r (modifyMembership (mb_id c) (endedManager now) b) (\<lambda>(_, b1). Inr b1)) =
      (Inr (withoutManager now bid b) :: bld_db result)"
  proof (cases "getCurrentManagerMembership b bid")
    case (Some c)
    then have "c \<in> set (memberships b)" using currentManager by blast
    then have "find_row mb_id (mb_id c) (memberships b) \<noteq> None" by (auto simp: find_row_None_iff)
    with Some show ?thesis by (auto simp: withoutManager_def modifyMembership_def needs_def)
  qed (simp add: withoutManager_def)
  show "m = newManager now bid p ty assignedBy (fresh_bid b)" "bid \<in> bd_id ` set (buildings b)"
    "let b2 = take_bid ((withoutManager now bid b)\<lparr>memberships := memberships (withoutManager now bid b) @ [m]\<rparr>)
     in b' = (if stateFor ty = ML_VERIFIED then clearRecovery bid b2 else b2)"
    using assms unfolding changeManager_def w
    by (auto simp: effect_simps Let_def newManager_def stateFor_def plainMembership_def fresh_bid_def)
qed

lemma newManager_simps [simp]:
  "mb_id (newManager now bid p ty a i) = i" "mb_personId (newManager now bid p ty a i) = p"
  "mb_buildingId (newManager now bid p ty a i) = bid" "mb_unitId (newManager now bid p ty a i) = None"
  "mb_role (newManager now bid p ty a i) = MANAGER" "mb_isCurrent (newManager now bid p ty a i)"
  "mb_managerState (newManager now bid p ty a i) = Some (stateFor ty)"
  "mb_managerAssignmentType (newManager now bid p ty a i) = Some ty"
  "mb_assignedById (newManager now bid p ty a i) = a"
  by (simp_all add: newManager_def plainMembership_def)

lemma clearRecovery_ok: "bld_ok b \<Longrightarrow> bld_ok (clearRecovery bid b)"
  unfolding clearRecovery_def by (rule ok_buildings_upd) simp_all

lemma changeManager_ok:
  assumes "bld_ok b" "changeManager now bid p ty assignedBy b = Inr (m, b')"
  shows "bld_ok b'"
proof -
  let ?w = "withoutManager now bid b"
  note c = changeManager_Inr [OF assms(2)]
  have "bld_ok (take_bid (?w\<lparr>memberships := memberships ?w @ [m]\<rparr>))"
    using c(1,2) withoutManager_ok [OF assms(1)]
    by (intro ok_membership_new) (simp_all add: fresh_bid_def)
  then show ?thesis using c(3) clearRecovery_ok by (simp add: Let_def split: if_splits)
qed

lemma managerState_ok:
  assumes "bld_ok b" "modifyMembership i (\<lambda>m. m\<lparr>mb_managerState := st\<rparr>) b = Inr (m, b')"
  shows "bld_ok b'"
  using assms by (auto simp: modifyMembership_def effect_simps intro!: ok_memberships_upd)

section \<open>Owners and tenants\<close>

lemma noOwner: "\<not> hasCurrentOwnership b uid \<longleftrightarrow> (\<forall>w\<in>set (ownerships b). \<not> ownsNow uid w)"
  by (simp add: hasCurrentOwnership_def count_where_def filter_empty_conv ownsNow_def)

lemma noTenant: "findCurrentTenancyForUnit b uid = None \<longleftrightarrow> (\<forall>t\<in>set (tenancies b). \<not> rentsNow uid t)"
  by (simp add: findCurrentTenancyForUnit_def find_one_None rentsNow_def)

lemma insertOwnership_Inr [effect_simps]:
  "insertOwnership now uid p b = Inr (w, b') \<longleftrightarrow> uid \<in> u_id ` set (unitRows b) \<and> findPersonById b p \<noteq> None \<and>
     w = \<lparr>ow_id = fresh_bid b, ow_unitId = uid, ow_personId = p, ow_startDate = now, ow_endDate = None, ow_isCurrent = True\<rparr> \<and>
     b' = take_bid (b\<lparr>ownerships := ownerships b @ [w]\<rparr>)"
  unfolding insertOwnership_def Let_def findUnit_known [symmetric] by auto

text \<open>An ownership, or a tenancy, and its membership: each alone keeps all but the mirror.\<close>

lemma ownership_new:
  assumes "base_ok b" "ow_id w = fresh_bid b" "ow_unitId w \<in> u_id ` set (unitRows b)"
    "\<not> hasCurrentOwnership b (ow_unitId w)"
  defines "b1 \<equiv> take_bid (b\<lparr>ownerships := ownerships b @ [w]\<rparr>)"
  shows "base_ok b1"
proof (rule base_okI)
  note ok = base_okD [OF assms(1)]
  show "ids_ok b1" unfolding b1_def using assms(2) by (intro ids_ok_new [OF ok(1)]) (auto simp: usedIds_def)
  show "keys_ok b1" using ok(2) by (simp add: keys_ok_def b1_def)
  show "refs_ok b1" using ok(3) assms(3) by (simp add: refs_ok_def b1_def unitOf_def)
  show "managers_ok b1" using ok(4) frames(1) [of b1 b] by (simp add: b1_def)
  have "one (ownsNow uid) (ownerships b @ [w])" for uid
  proof (cases "ownsNow uid w")
    case True
    then have "\<forall>y\<in>set (ownerships b). \<not> ownsNow uid y" using assms(4) unfolding noOwner by (simp add: ownsNow_def)
    with True show ?thesis by simp
  qed (use ok(5) in \<open>simp add: units_ok_def\<close>)
  then show "units_ok b1" using ok(5) by (simp add: units_ok_def b1_def)
qed

lemma tenancy_new:
  assumes "base_ok b" "tn_id t = fresh_bid b" "tn_unitId t \<in> u_id ` set (unitRows b)" "tn_isCurrent t" "tn_status t = TS_ACTIVE"
    "findCurrentTenancyForUnit b (tn_unitId t) = None"
  defines "b1 \<equiv> take_bid (b\<lparr>tenancies := tenancies b @ [t]\<rparr>)"
  shows "base_ok b1"
proof (rule base_okI)
  note ok = base_okD [OF assms(1)]
  show "ids_ok b1" unfolding b1_def using assms(2) by (intro ids_ok_new [OF ok(1)]) (auto simp: usedIds_def)
  show "keys_ok b1" using ok(2) fresh_new(4) [OF ok(1)] assms(2) by (simp add: keys_ok_def b1_def)
  show "refs_ok b1" using ok(3) assms(3) by (simp add: refs_ok_def b1_def unitOf_def)
  show "managers_ok b1" using ok(4) frames(1) [of b1 b] by (simp add: b1_def)
  have "one (rentsNow uid) (tenancies b @ [t])" for uid
  proof (cases "rentsNow uid t")
    case True
    then have "\<forall>y\<in>set (tenancies b). \<not> rentsNow uid y" using assms(6) unfolding noTenant by (simp add: rentsNow_def)
    with True show ?thesis by simp
  qed (use ok(5) in \<open>simp add: units_ok_def\<close>)
  then show "units_ok b1" using ok(5) assms(4,5) by (simp add: units_ok_def b1_def)
qed

lemma ownersNow_new:
  "ownersNow (take_bid (b\<lparr>ownerships := ownerships b @ [w]\<rparr>)) uid =
    (if ownsNow uid w then insert (ow_personId w) (ownersNow b uid) else ownersNow b uid)"
  by (auto simp: ownersNow_def)

lemma tenantsNow_new:
  "tenantsNow (take_bid (b\<lparr>tenancies := tenancies b @ [t]\<rparr>)) uid =
    (if rentsNow uid t then insert (tn_personId t) (tenantsNow b uid) else tenantsNow b uid)"
  by (auto simp: tenantsNow_def)

lemma plainMembership_simps [simp]:
  "mb_id (plainMembership now p bid uo r) = []" "mb_personId (plainMembership now p bid uo r) = p"
  "mb_buildingId (plainMembership now p bid uo r) = bid" "mb_unitId (plainMembership now p bid uo r) = uo"
  "mb_role (plainMembership now p bid uo r) = r" "mb_isCurrent (plainMembership now p bid uo r)"
  "mb_assignedById (plainMembership now p bid uo r) = None"
  by (simp_all add: plainMembership_def)

text \<open>What linking an owner does, in two insertions and a filled name.\<close>

definition linkedOwner :: "time \<Rightarrow> id \<Rightarrow> id \<Rightarrow> id \<Rightarrow> bld_db \<Rightarrow> bld_db" where
  "linkedOwner now uid bid p b =
     (let b1 = take_bid (b\<lparr>ownerships := ownerships b @ [\<lparr>ow_id = fresh_bid b, ow_unitId = uid, ow_personId = p,
                 ow_startDate = now, ow_endDate = None, ow_isCurrent = True\<rparr>]\<rparr>)
      in take_bid (b1\<lparr>memberships := memberships b1 @ [(plainMembership now p bid (Some uid) OWNER)\<lparr>mb_id := fresh_bid b1\<rparr>]\<rparr>))"

lemma linkOwner_Inr:
  "linkOwnerToUnit now uid bid p f l b = Inr (m, b') \<Longrightarrow>
    uid \<in> u_id ` set (unitRows b) \<and> bid \<in> bd_id ` set (buildings b) \<and> findPersonById b p \<noteq> None \<and>
    mb_personId m = p \<and> mb_unitId m = Some uid \<and> mb_buildingId m = bid \<and> mb_role m = OWNER \<and> mb_isCurrent m \<and>
    b' = fillMissingPersonName p f l (linkedOwner now uid bid p b)"
  by (auto simp: linkOwnerToUnit_def effect_simps linkedOwner_def Let_def)

lemma linkedOwner_ok:
  assumes "bld_ok b" "unitOf b bid uid" "\<not> hasCurrentOwnership b uid"
  shows "bld_ok (linkedOwner now uid bid p b)"
proof -
  let ?w = "\<lparr>ow_id = fresh_bid b, ow_unitId = uid, ow_personId = p, ow_startDate = now, ow_endDate = None, ow_isCurrent = True\<rparr>"
  let ?b1 = "take_bid (b\<lparr>ownerships := ownerships b @ [?w]\<rparr>)"
  let ?m = "(plainMembership now p bid (Some uid) OWNER)\<lparr>mb_id := fresh_bid ?b1\<rparr>"
  have u: "uid \<in> u_id ` set (unitRows b)" using assms(2) by (auto simp: unitOf_def)
  have bd: "bid \<in> bd_id ` set (buildings b)"
    using assms(2) bld_okD(3) [OF assms(1)] by (auto simp: unitOf_def refs_ok_def)
  have 1: "base_ok ?b1" using assms u by (intro ownership_new) (simp_all add: bld_ok_split)
  have "unitOf ?b1 bid uid" using assms(2) by (simp add: unitOf_def)
  then have 2: "base_ok (take_bid (?b1\<lparr>memberships := memberships ?b1 @ [?m]\<rparr>))"
    using bd by (intro membership_new 1) simp_all
  have fr: "membersNow ?b1 = membersNow b" "tenantsNow ?b1 = tenantsNow b"
    using frames(5) [of ?b1 b] frames(4) [of ?b1 b] by simp_all
  let ?b2 = "take_bid (?b1\<lparr>memberships := memberships ?b1 @ [?m]\<rparr>)"
  have fr2: "ownersNow ?b2 = ownersNow ?b1" "tenantsNow ?b2 = tenantsNow ?b1"
    using frames(3) [of ?b2 ?b1] frames(4) [of ?b2 ?b1] by simp_all
  have "mirrors_ok ?b2" unfolding mirrors_ok_def membersNow_new fr fr2 ownersNow_new
    using bld_okD(6) [OF assms(1)] by (auto simp: mirrors_ok_def ownsNow_def)
  with 2 show ?thesis by (simp add: bld_ok_split linkedOwner_def Let_def)
qed

lemma linkOwner_ok:
  assumes "bld_ok b" "unitOf b bid uid" "\<not> hasCurrentOwnership b uid" "linkOwnerToUnit now uid bid p f l b = Inr (m, b')"
  shows "bld_ok b'"
  using linkOwner_Inr [OF assms(4)] fillMissing_ok linkedOwner_ok [OF assms(1-3)] by simp

definition transferred :: "time \<Rightarrow> id \<Rightarrow> bld_db \<Rightarrow> bld_db" where
  "transferred now uid b =
     b\<lparr>ownerships := upd_where (\<lambda>w. ow_unitId w = uid \<and> ow_isCurrent w) (endedOwnership now) (ownerships b),
       memberships := upd_where (\<lambda>m. mb_unitId m = Some uid \<and> mb_role m = OWNER \<and> mb_isCurrent m)
            (endedMembership now) (memberships b)\<rparr>"

lemma memberships_end:
  assumes "base_ok b" "\<And>m. P m \<Longrightarrow> mb_role m \<noteq> MANAGER"
  shows "base_ok (b\<lparr>memberships := upd_where P (endedMembership now) (memberships b)\<rparr>)"
proof (rule base_okI)
  let ?b = "b\<lparr>memberships := upd_where P (endedMembership now) (memberships b)\<rparr>"
  note ok = base_okD [OF assms(1)]
  have "mb_id ` set (upd_where P (endedMembership now) (memberships b)) = mb_id ` set (memberships b)"
    by (intro image_upd) (simp add: endedMembership_def)
  then show "ids_ok ?b" using ok(1) by (simp add: ids_ok_def usedIds_def)
  show "keys_ok ?b" using ok(2) by (simp add: keys_ok_def map_key_upd_where endedMembership_def)
  show "refs_ok ?b" using ok(3) by (fastforce simp: refs_ok_def unitOf_def set_upd_where endedMembership_def)
  show "managers_ok ?b" using ok(4)
    by (auto simp: managers_ok_def managesNow_def endedMembership_def intro!: one_upd)
  show "units_ok ?b" using ok(5) frames(2) [of ?b b] by simp
qed

lemma membersNow_end:
  "membersNow (b\<lparr>memberships := upd_where P (endedMembership now) (memberships b)\<rparr>) r uid =
    mb_personId ` {m \<in> set (memberships b). mb_unitId m = Some uid \<and> mb_role m = r \<and> mb_isCurrent m \<and> \<not> P m}"
proof -
  have "{m \<in> set (upd_where P (endedMembership now) (memberships b)). mb_unitId m = Some uid \<and> mb_role m = r \<and> mb_isCurrent m} =
    {m \<in> set (memberships b). mb_unitId m = Some uid \<and> mb_role m = r \<and> mb_isCurrent m \<and> \<not> P m}"
    by (auto simp: set_upd_where endedMembership_def)
  then show ?thesis by (simp add: membersNow_def)
qed

lemma transferred_ok:
  assumes "bld_ok b"
  shows "bld_ok (transferred now uid b)" "ownersNow (transferred now uid b) v = (if v = uid then {} else ownersNow b v)"
    "tenantsNow (transferred now uid b) = tenantsNow b"
proof -
  let ?ends = "\<lambda>w. ow_unitId w = uid \<and> ow_isCurrent w"
  let ?b1 = "b\<lparr>ownerships := upd_where ?ends (endedOwnership now) (ownerships b)\<rparr>"
  let ?P = "\<lambda>m. mb_unitId m = Some uid \<and> mb_role m = OWNER \<and> mb_isCurrent m"
  let ?b2 = "?b1\<lparr>memberships := upd_where ?P (endedMembership now) (memberships ?b1)\<rparr>"
  have t: "transferred now uid b = ?b2" by (simp add: transferred_def)
  note ok = bld_okD [OF assms]
  have "base_ok ?b1"
  proof (rule base_okI)
    have "ow_id ` set (upd_where ?ends (endedOwnership now) (ownerships b)) = ow_id ` set (ownerships b)"
      by (intro image_upd) (simp add: endedOwnership_def)
    then show "ids_ok ?b1" using ok(1) by (simp add: ids_ok_def usedIds_def)
    show "keys_ok ?b1" using ok(2) by (simp add: keys_ok_def)
    show "refs_ok ?b1" using ok(3) by (auto simp: refs_ok_def unitOf_def set_upd_where endedOwnership_def)
    show "managers_ok ?b1" using ok(4) frames(1) [of ?b1 b] by simp
    show "units_ok ?b1" using ok(5) by (auto simp: units_ok_def ownsNow_def endedOwnership_def intro!: one_upd)
  qed
  then have base: "base_ok ?b2" by (rule memberships_end) simp
  have own: "ownersNow ?b2 v = (if v = uid then {} else ownersNow b v)" for v
  proof -
    have "{w \<in> set (upd_where ?ends (endedOwnership now) (ownerships b)). ownsNow v w} =
        {w \<in> set (ownerships b). ownsNow v w \<and> \<not> ?ends w}"
      by (rule ended_rows) (simp add: ownsNow_def endedOwnership_def)
    also have "\<dots> = (if v = uid then {} else {w \<in> set (ownerships b). ownsNow v w})" by (auto simp: ownsNow_def)
    finally have "{w \<in> set (upd_where ?ends (endedOwnership now) (ownerships b)). ownsNow v w} =
        (if v = uid then {} else {w \<in> set (ownerships b). ownsNow v w})" .
    then show ?thesis by (simp add: ownersNow_def)
  qed
  have ten: "tenantsNow ?b2 = tenantsNow b" using frames(4) [of ?b2 b] by simp
  have "membersNow ?b2 r v = (if v = uid \<and> r = OWNER then {} else membersNow b r v)" for r v
    unfolding membersNow_end by (auto simp: membersNow_def)
  then have "mirrors_ok ?b2" using ok(6) own ten by (simp add: mirrors_ok_def)
  with base show "bld_ok (transferred now uid b)" by (simp add: t bld_ok_split)
  show "ownersNow (transferred now uid b) v = (if v = uid then {} else ownersNow b v)" by (simp only: t own)
  show "tenantsNow (transferred now uid b) = tenantsNow b" by (simp only: t ten)
qed

lemma transfer_ok:
  assumes "bld_ok b" "transferOwnership now uid phone b = Inr (u, b')"
  shows "bld_ok b'"
  using assms(2) unfolding transferOwnership_def transferred_def [symmetric]
  by (rule modifyUnit_ok [OF transferred_ok(1) [OF assms(1)]]) simp

lemma createTenancy_ok:
  assumes "bld_ok b" "unitOf b bid uid" "findCurrentTenancyForUnit b uid = None" "createTenancy now uid bid p b = Inr (t, b')"
  shows "bld_ok b'" "tenantsNow b' uid = {p}" "ownersNow b' = ownersNow b"
proof -
  define t0 where "t0 = \<lparr>tn_id = fresh_bid b, tn_unitId = uid, tn_personId = p, tn_status = TS_ACTIVE, tn_startDate = now,
                tn_endDate = None, tn_noticeGivenAt = None, tn_terminationReason = None, tn_isCurrent = True\<rparr>"
  define b1 where "b1 = take_bid (b\<lparr>tenancies := tenancies b @ [t0]\<rparr>)"
  define m where "m = (plainMembership now p bid (Some uid) TENANT)\<lparr>mb_id := fresh_bid b1\<rparr>"
  define b2 where "b2 = take_bid (b1\<lparr>memberships := memberships b1 @ [m]\<rparr>)"
  obtain u where u: "modifyUnit uid (\<lambda>u. u\<lparr>u_occupancyStatus := TENANT_OCCUPIED\<rparr>) b2 = Inr (u, b')"
    using assms(4) unfolding createTenancy_def Let_def t0_def [symmetric]
    by (auto simp: effect_simps b1_def b2_def m_def split: if_splits)
  have uid: "uid \<in> u_id ` set (unitRows b)" using assms(2) by (auto simp: unitOf_def)
  have bd: "bid \<in> bd_id ` set (buildings b)"
    using assms(2) bld_okD(3) [OF assms(1)] by (auto simp: unitOf_def refs_ok_def)
  have 1: "base_ok b1" unfolding b1_def using assms uid by (intro tenancy_new) (simp_all add: bld_ok_split t0_def)
  have "unitOf b1 bid uid" using assms(2) by (simp add: unitOf_def b1_def)
  then have 2: "base_ok b2" unfolding b2_def
    using bd by (intro membership_new 1) (simp_all add: m_def b1_def)
  have fr: "membersNow b1 = membersNow b" "ownersNow b1 = ownersNow b" "ownersNow b2 = ownersNow b1" "tenantsNow b2 = tenantsNow b1"
    using frames(5) [of b1 b] frames(3) [of b1 b] frames(3) [of b2 b1] frames(4) [of b2 b1] by (simp_all add: b1_def b2_def)
  have t1: "tenantsNow b1 v = (if v = uid then insert p (tenantsNow b v) else tenantsNow b v)" for v
    unfolding b1_def tenantsNow_new by (auto simp: rentsNow_def t0_def)
  have m2: "membersNow b2 r v = (if v = uid \<and> r = TENANT then insert p (membersNow b r v) else membersNow b r v)" for r v
    unfolding b2_def membersNow_new fr by (auto simp: m_def)
  have "mirrors_ok b2" using bld_okD(6) [OF assms(1)] by (simp add: mirrors_ok_def m2 fr t1)
  with 2 have ok2: "bld_ok b2" by (simp add: bld_ok_split)
  show "bld_ok b'" by (rule modifyUnit_ok [OF ok2 u]) simp
  have "tenancies b' = tenancies b2" "ownerships b' = ownerships b2" using u by (auto simp: modifyUnit_def effect_simps)
  then have same: "tenantsNow b' = tenantsNow b2" "ownersNow b' = ownersNow b2"
    using frames(4) [of b' b2] frames(3) [of b' b2] by simp_all
  have "tenantsNow b uid = {}" using assms(3) unfolding noTenant tenantsNow_def by auto
  then show "tenantsNow b' uid = {p}" by (simp add: same fr t1)
  show "ownersNow b' = ownersNow b" by (simp add: same fr)
qed

lemma tenancy_key: "bld_ok b \<Longrightarrow> x \<in> set (tenancies b) \<Longrightarrow> y \<in> set (tenancies b) \<Longrightarrow> tn_id x = tn_id y \<Longrightarrow> x = y"
  by (drule bld_okD(2)) (auto simp: keys_ok_def distinct_map inj_on_def)

lemma findTenancy: "findTenancyById b i = Some t \<Longrightarrow> t \<in> set (tenancies b) \<and> tn_id t = i"
  unfolding findTenancyById_def by auto

lemma tenancies_upd:
  assumes "bld_ok b" "findTenancyById b i = Some t"
    "tn_id (f t) = tn_id t" "tn_unitId (f t) = tn_unitId t" "tn_isCurrent (f t) \<longleftrightarrow> tn_status (f t) \<noteq> TS_ENDED"
    "tn_isCurrent (f t) \<Longrightarrow> tn_isCurrent t"
  shows "base_ok (b\<lparr>tenancies := upd_where (\<lambda>x. tn_id x = i) f (tenancies b)\<rparr>)"
    "set (upd_where (\<lambda>x. tn_id x = i) f (tenancies b)) = insert (f t) (set (tenancies b) - {t})"
proof -
  let ?b = "b\<lparr>tenancies := upd_where (\<lambda>x. tn_id x = i) f (tenancies b)\<rparr>"
  note ok = bld_okD [OF assms(1)]
  have t: "t \<in> set (tenancies b)" "tn_id t = i" using findTenancy [OF assms(2)] by auto
  have only: "x = t" if "x \<in> set (tenancies b)" "tn_id x = i" for x
    using tenancy_key [OF assms(1) that(1) t(1)] that(2) t(2) by simp
  have row: "(if tn_id x = i then f x else x) = (if x = t then f t else x)" if "x \<in> set (tenancies b)" for x
    using only [of x] that t(2) by (cases "x = t") auto
  have keys: "map key (upd_where (\<lambda>x. tn_id x = i) f (tenancies b)) = map key (tenancies b)" if "key (f t) = key t" for key :: "tenancy \<Rightarrow> id"
    using that row by (simp add: upd_where_def)
  show s: "set (upd_where (\<lambda>x. tn_id x = i) f (tenancies b)) = insert (f t) (set (tenancies b) - {t})"
    using row t by (auto simp: set_upd_where image_iff)
  show "base_ok ?b"
  proof (rule base_okI)
    have "tn_id ` set (upd_where (\<lambda>x. tn_id x = i) f (tenancies b)) = tn_id ` set (tenancies b)"
      using keys [of tn_id] assms(3) by (metis list.set_map)
    then show "ids_ok ?b" using ok(1) by (simp add: ids_ok_def usedIds_def)
    show "keys_ok ?b" using ok(2) keys [of tn_id] assms(3) by (simp add: keys_ok_def)
    have "tn_unitId (f t) \<in> u_id ` set (unitRows b)" using ok(3) t(1) assms(4) by (simp add: refs_ok_def)
    then show "refs_ok ?b" using ok(3) by (simp add: refs_ok_def unitOf_def s)
    show "managers_ok ?b" using ok(4) frames(1) [of ?b b] by simp
    have "one (rentsNow v) (upd_where (\<lambda>x. tn_id x = i) f (tenancies b))" for v
    proof (rule one_upd)
      show "one (rentsNow v) (tenancies b)" using ok(5) by (simp add: units_ok_def)
      fix x assume "x \<in> set (tenancies b)" "tn_id x = i" "rentsNow v (f x)"
      then show "rentsNow v x" using only [of x] assms(4,6) by (simp add: rentsNow_def)
    qed
    then show "units_ok ?b" using ok(5) assms(5) by (auto simp: units_ok_def s)
  qed
qed

lemma giveNotice_ok:
  assumes "bld_ok b" "findTenancyById b i = Some t" "tn_status t = TS_ACTIVE" "giveTenancyNotice now i b = Inr (t', b')"
  shows "bld_ok b'"
proof -
  let ?f = "\<lambda>t. t\<lparr>tn_status := TS_NOTICE_GIVEN, tn_noticeGivenAt := Some now\<rparr>"
  let ?b = "b\<lparr>tenancies := upd_where (\<lambda>x. tn_id x = i) ?f (tenancies b)\<rparr>"
  have t: "t \<in> set (tenancies b)" using findTenancy [OF assms(2)] by simp
  then have cur: "tn_isCurrent t" using bld_okD(5) [OF assms(1)] assms(3) by (auto simp: units_ok_def)
  have b': "b' = ?b" using assms(4) by (auto simp: giveTenancyNotice_def modifyTenancy_def effect_simps)
  have base: "base_ok ?b"
    using cur by (intro tenancies_upd(1) [OF assms(1,2)]) simp_all
  have s: "set (tenancies ?b) = insert (?f t) (set (tenancies b) - {t})"
    using cur tenancies_upd(2) [OF assms(1,2), of ?f] by simp
  have "tenantsNow ?b v = tenantsNow b v" for v
  proof -
    have "{x \<in> set (tenancies ?b). rentsNow v x} = (\<lambda>x. if x = t then ?f t else x) ` {x \<in> set (tenancies b). rentsNow v x}"
      unfolding s using t by (auto simp: rentsNow_def)
    moreover have "(\<lambda>x. tn_personId (if x = t then ?f t else x)) = tn_personId" by auto
    ultimately show ?thesis by (simp only: tenantsNow_def image_image)
  qed
  moreover have "ownersNow ?b = ownersNow b" "membersNow ?b = membersNow b"
    using frames(3) [of ?b b] frames(5) [of ?b b] by simp_all
  ultimately have "mirrors_ok ?b" using bld_okD(6) [OF assms(1)] by (simp add: mirrors_ok_def)
  with base show ?thesis by (simp add: b' bld_ok_split)
qed

lemma tenantsNow_only:
  assumes "bld_ok b" "t \<in> set (tenancies b)" "rentsNow uid t"
  shows "{x \<in> set (tenancies b). rentsNow uid x} = {t}"
  using one_same [of "rentsNow uid" "tenancies b"] bld_okD(5) [OF assms(1)] assms(2,3) by (auto simp: units_ok_def)

lemma endTenancy_ok:
  assumes "bld_ok b" "findTenancyById b i = Some t" "tn_status t \<noteq> TS_ENDED"
    "endTenancy now i (tn_unitId t) (tn_personId t) reason b = Inr (t', b')"
  shows "bld_ok b'" "tenantsNow b' v = (if v = tn_unitId t then {} else tenantsNow b v)" "ownersNow b' = ownersNow b"
proof -
  let ?f = "endedTenancy now reason"
  let ?u = "tn_unitId t"
  let ?P = "\<lambda>m. mb_unitId m = Some ?u \<and> mb_personId m = tn_personId t \<and> mb_role m = TENANT \<and> mb_isCurrent m"
  define b1 where "b1 = b\<lparr>tenancies := upd_where (\<lambda>x. tn_id x = i) ?f (tenancies b)\<rparr>"
  define b2 where "b2 = b1\<lparr>memberships := upd_where ?P (endedMembership now) (memberships b1)\<rparr>"
  have f: "tn_id (?f t) = tn_id t" "tn_unitId (?f t) = ?u" "\<not> tn_isCurrent (?f t)" "tn_status (?f t) = TS_ENDED"
    by (simp_all add: endedTenancy_def)
  have t: "t \<in> set (tenancies b)" using findTenancy [OF assms(2)] by simp
  then have cur: "rentsNow ?u t" using bld_okD(5) [OF assms(1)] assms(3) by (auto simp: units_ok_def rentsNow_def)
  obtain u where u: "modifyUnit ?u (\<lambda>u. u\<lparr>u_occupancyStatus := VACANT\<rparr>) b2 = Inr (u, b')"
    using assms(4) unfolding endTenancy_def modifyTenancy_def
    by (auto simp: effect_simps b1_def b2_def)
  have base: "base_ok b1" unfolding b1_def by (rule tenancies_upd(1) [OF assms(1,2)]) (use f in simp_all)
  have rows: "set (tenancies b1) = insert (?f t) (set (tenancies b) - {t})"
    unfolding b1_def using tenancies_upd(2) [OF assms(1,2), of ?f] f by simp
  have ten1: "tenantsNow b1 v = (if v = ?u then {} else tenantsNow b v)" for v
  proof -
    have "{x \<in> set (tenancies b1). rentsNow v x} = {x \<in> set (tenancies b). rentsNow v x} - {t}"
      unfolding rows using f(3) by (auto simp: rentsNow_def)
    also have "\<dots> = (if v = ?u then {} else {x \<in> set (tenancies b). rentsNow v x})"
      using tenantsNow_only [OF assms(1) t cur] by (auto simp: rentsNow_def)
    finally show ?thesis by (simp add: tenantsNow_def)
  qed
  have base2: "base_ok b2" unfolding b2_def by (rule memberships_end [OF base]) simp
  have fr: "tenantsNow b2 = tenantsNow b1" "ownersNow b2 = ownersNow b" "membersNow b1 = membersNow b"
    using frames(4) [of b2 b1] frames(3) [of b2 b] frames(5) [of b1 b] by (simp_all add: b2_def b1_def)
  have mirror: "membersNow b r v = (if r = OWNER then ownersNow b v else tenantsNow b v)" if "r \<in> {OWNER, TENANT}" for r v
    using bld_okD(6) [OF assms(1)] that by (auto simp: mirrors_ok_def)
  have tp: "tenantsNow b ?u = {tn_personId t}" using tenantsNow_only [OF assms(1) t cur] by (simp add: tenantsNow_def)
  have "membersNow b2 TENANT v = tenantsNow b1 v" for v
  proof (cases "v = ?u")
    case True
    have "mb_personId m = tn_personId t"
      if "m \<in> set (memberships b1)" "mb_unitId m = Some ?u" "mb_role m = TENANT" "mb_isCurrent m" for m
      using mirror [of TENANT ?u] tp that by (auto simp: membersNow_def b1_def)
    then have "membersNow b2 TENANT ?u = {}" unfolding b2_def membersNow_end by auto
    then show ?thesis using True ten1 by simp
  next
    case False
    then have "membersNow b2 TENANT v = membersNow b TENANT v" unfolding b2_def membersNow_end fr(3) [symmetric]
      by (auto simp: membersNow_def)
    then show ?thesis using False ten1 mirror [of TENANT v] by simp
  qed
  moreover have "membersNow b2 OWNER v = ownersNow b v" for v
  proof -
    have "{m \<in> set (memberships b1). mb_unitId m = Some v \<and> mb_role m = OWNER \<and> mb_isCurrent m \<and> \<not> ?P m} =
        {m \<in> set (memberships b1). mb_unitId m = Some v \<and> mb_role m = OWNER \<and> mb_isCurrent m}" by auto
    then have "membersNow b2 OWNER v = membersNow b1 OWNER v" unfolding b2_def membersNow_end by (simp add: membersNow_def)
    then show ?thesis using mirror [of OWNER v] by (simp add: fr)
  qed
  ultimately have "mirrors_ok b2" by (simp add: mirrors_ok_def fr)
  with base2 have ok2: "bld_ok b2" by (simp add: bld_ok_split)
  show "bld_ok b'" by (rule modifyUnit_ok [OF ok2 u]) simp
  have "tenancies b' = tenancies b2" "ownerships b' = ownerships b2" using u by (auto simp: modifyUnit_def effect_simps)
  then have "tenantsNow b' = tenantsNow b2" "ownersNow b' = ownersNow b2"
    using frames(4) [of b' b2] frames(3) [of b' b2] by simp_all
  then show "tenantsNow b' v = (if v = ?u then {} else tenantsNow b v)" "ownersNow b' = ownersNow b"
    by (simp_all add: fr ten1)
qed

section \<open>Creating a building, deleting a unit\<close>

lemma decimal_digits: "n < 10 \<Longrightarrow> decimal n = [char_of (48 + n)]" "\<not> n < 10 \<Longrightarrow> decimal n = decimal (n div 10) @ [char_of (48 + n mod 10)]"
  by (subst decimal.simps, simp)+

text \<open>Reading a numeral back: distinct numbers have distinct numerals.\<close>

definition value10 :: "string \<Rightarrow> nat" where
  "value10 s = foldl (\<lambda>v c. 10 * v + (of_char c - 48)) 0 s"

lemma value10_decimal: "value10 (decimal n) = n"
proof (induction n rule: less_induct)
  case (less n)
  have digit: "of_char (char_of (48 + k) :: char) - 48 = k" if "k < 10" for k :: nat
    using that by simp
  show ?case
  proof (cases "n < 10")
    case True
    then show ?thesis by (simp add: decimal_digits value10_def)
  next
    case False
    then have "value10 (decimal (n div 10)) = n div 10" by (intro less) auto
    then have "value10 (decimal n) = 10 * (n div 10) + (of_char (char_of (48 + n mod 10) :: char) - 48)"
      using False by (simp add: decimal_digits value10_def)
    also have "\<dots> = n" using digit [of "n mod 10"] by simp
    finally show ?thesis .
  qed
qed

lemma decimal_inj: "decimal m = decimal n \<longleftrightarrow> m = n"
  by (metis value10_decimal)

lemma addSkeletonUnits_ok:
  assumes "bld_ok b" "bid \<in> bd_id ` set (buildings b)" "distinct ns"
    "\<forall>v\<in>set (unitRows b). u_buildingId v = bid \<longrightarrow> (\<forall>n\<in>set ns. u_unitNumber v \<noteq> decimal n)"
  shows "bld_ok (addSkeletonUnits bid ns b)"
  using assms
proof (induction ns arbitrary: b)
  case (Cons n ns)
  let ?b = "take_bid (b\<lparr>unitRows := unitRows b @ [skeletonUnit (fresh_bid b) bid (decimal n)]\<rparr>)"
  have "bld_ok ?b" using Cons.prems by (intro ok_unit_new) (auto simp: skeletonUnit_def)
  then have "bld_ok (addSkeletonUnits bid ns ?b)"
    using Cons.prems by (intro Cons.IH) (auto simp: skeletonUnit_def decimal_inj)
  then show ?case by simp
qed simp

lemma createBuilding_ok:
  assumes "bld_ok b" "createBuildingWithFoundingMember now q b = Inr (d, b')"
  shows "bld_ok b'"
proof -
  define d0 where "d0 = newBuilding now (fresh_bid b) q"
  define b1 where "b1 = take_bid (b\<lparr>buildings := buildings b @ [d0]\<rparr>)"
  define m where "m = (foundingMembership now (np_createdById q) (bd_id d0) (np_role q))\<lparr>mb_id := fresh_bid b1\<rparr>"
  define b2 where "b2 = take_bid (b1\<lparr>memberships := memberships b1 @ [m]\<rparr>)"
  have free: "findByPostalCode b (np_postalCode q) = None" and b': "b' = addSkeletonUnits (bd_id d0) [1 ..< Suc (nat (np_totalUnits q))] b2"
    using assms(2) unfolding createBuildingWithFoundingMember_def Let_def d0_def [symmetric]
    by (auto simp: effect_simps b1_def b2_def m_def d0_def split: if_splits)
  note ok = bld_okD [OF assms(1)]
  have d0: "bd_id d0 = fresh_bid b" "bd_postalCode d0 = np_postalCode q" by (simp_all add: d0_def newBuilding_def)
  have new: "bd_id d0 \<notin> bd_id ` set (buildings b)" using fresh_new(2) [OF ok(1)] d0 by simp
  have code: "bd_postalCode d0 \<notin> bd_postalCode ` set (buildings b)"
    using free d0 by (simp add: findByPostalCode_def find_row_None_iff)
  have "base_ok b1"
  proof (rule base_okI)
    show "ids_ok b1" unfolding b1_def using d0 by (intro ids_ok_new [OF ok(1)]) (auto simp: usedIds_def)
    show "keys_ok b1" using ok(2) new code by (simp add: keys_ok_def b1_def)
    show "refs_ok b1" using ok(3) by (auto simp: refs_ok_def unitOf_def b1_def)
    show "managers_ok b1" using ok(4) frames(1) [of b1 b] by (simp add: b1_def)
    show "units_ok b1" using ok(5) frames(2) [of b1 b] by (simp add: b1_def)
  qed
  moreover have "mirrors_ok b1" using ok(6) mirrors_frame [of b1 b] by (simp add: b1_def)
  ultimately have ok1: "bld_ok b1" by (simp add: bld_ok_split)
  have "\<not> managesNow (bd_id d0) x" if "x \<in> set (memberships b)" for x
  proof -
    have "mb_buildingId x \<in> bd_id ` set (buildings b)" using ok(3) that by (simp add: refs_ok_def)
    then show ?thesis using new by (auto simp: managesNow_def)
  qed
  then have "getCurrentManagerMembership b1 (bd_id d0) = None"
    by (simp add: getCurrentManagerMembership_def find_one_None b1_def)
  then have "bld_ok b2" unfolding b2_def
    by (intro ok_membership_new ok1) (simp_all add: m_def foundingMembership_def b1_def)
  moreover have "u_buildingId v \<noteq> bd_id d0" if "v \<in> set (unitRows b2)" for v
  proof -
    have "u_buildingId v \<in> bd_id ` set (buildings b)" using ok(3) that by (simp add: refs_ok_def b2_def b1_def)
    then show ?thesis using new by auto
  qed
  ultimately show ?thesis unfolding b' by (intro addSkeletonUnits_ok) (auto simp: b2_def b1_def)
qed

lemma deleteUnit_ok:
  assumes "bld_ok b" "\<forall>w\<in>set (ownerships b). ow_unitId w \<noteq> uid" "\<forall>t\<in>set (tenancies b). tn_unitId t \<noteq> uid"
    "\<forall>m\<in>set (memberships b). mb_unitId m \<noteq> Some uid"
  shows "bld_ok (b\<lparr>unitRows := filter (\<lambda>u. u_id u \<noteq> uid) (unitRows b)\<rparr>)"
proof (rule bld_okI)
  let ?b = "b\<lparr>unitRows := filter (\<lambda>u. u_id u \<noteq> uid) (unitRows b)\<rparr>"
  note ok = bld_okD [OF assms(1)]
  show "ids_ok ?b" using ok(1) by (auto simp: ids_ok_def usedIds_def)
  show "keys_ok ?b" using ok(2) by (simp add: keys_ok_def distinct_map_filter)
  have "unitOf ?b x y" if "unitOf b x y" "y \<noteq> uid" for x y using that by (auto simp: unitOf_def)
  then show "refs_ok ?b" using ok(3) assms(2-4) by (fastforce simp: refs_ok_def)
  show "managers_ok ?b" using ok(4) frames(1) [of ?b b] by simp
  show "units_ok ?b" using ok(5) frames(2) [of ?b b] by simp
  show "mirrors_ok ?b" using ok(6) mirrors_frame [of ?b b] by simp
qed

end
