(* ===== verification/Building_Api.thy ===== *)
theory Building_Api
  imports Building_Service Building_Inv
begin

text \<open>
  The guards of \<^verbatim>\<open>src/src/common/guards\<close> that decide by membership, the routes of
  \<^verbatim>\<open>building.controller.ts\<close> that change state, each with the guard it declares, and the
  histories of requests, with the proof that they keep the invariant of the tables.
\<close>

section \<open>Guards\<close>

definition membershipGuard :: "id \<Rightarrow> id \<Rightarrow> unit action" where
  "membershipGuard p bid = lift_svc (\<lambda>s. assert_r (hasMembership (s_bld s) p bid)
     (AuthorizationError STR ''You do not have access to this building.''))"

definition rolesGuard :: "membershipRole list \<Rightarrow> id \<Rightarrow> id \<Rightarrow> unit action" where
  "rolesGuard required p bid = lift_svc (\<lambda>s.
     assert_r (list_ex (\<lambda>r. List.member required r) (getRoles (s_bld s) p bid))
       (AuthorizationError STR ''This action requires one of the following roles: .''))"

definition verifiedRolesGuard :: "membershipRole list \<Rightarrow> id \<Rightarrow> id \<Rightarrow> unit action" where
  "verifiedRolesGuard required p bid = lift_svc (\<lambda>s.
     assert_r (list_ex (\<lambda>r. List.member required r) (getVerifiedRoles (s_bld s) p bid))
       (AuthorizationError STR ''This action requires one of the following roles (manager must be verified): .''))"

definition unitDetailAccessGuard :: "id \<Rightarrow> id \<Rightarrow> id \<Rightarrow> unit action" where
  "unitDetailAccessGuard p bid uid = lift_svc (\<lambda>s.
     assert_r (hasMembership (s_bld s) p bid \<or> isInvitedOwnerForUnit (s_bld s) bid uid p)
       (AuthorizationError STR ''You do not have access to this unit.''))"

section \<open>Requests\<close>

text \<open>
  \<open>VerifyOtp\<close> is the call \<open>AuthService.verifyOtp\<close> makes with the verified phone;
  \<open>SubmitSetup\<close> is the write at the end of the setup wizard.
\<close>

datatype buildingRequest =
    SubmitSetup buildingParams
  | VerifyOtp string
  | AddUnit id createUnitParams
  | UpdateUnit id id updateUnitParams
  | InviteOwner id id string string
  | InviteOwnerV2 id id string string string
  | DeleteUnit id id
  | ClaimOwnership id id
  | RequestMembership id membershipRole "string option"
  | ResolveMembershipRequest id id bool
  | ChangeManager id id managerAssignmentType
  | EndManagement id
  | TransferOwnership id id string
  | CreateTenancy id id id
  | RegisterTenant id id string string string
  | GiveTenancyNotice id id
  | EndTenancy id id "string option"
  | UpdateSettings id "bool option"

definition void :: "'a action \<Rightarrow> unit action" where
  "void c = bind_svc c (\<lambda>_. return_svc ())"

definition guarded :: "unit action \<Rightarrow> 'a action \<Rightarrow> unit action" where
  "guarded g c = bind_svc g (\<lambda>_. void c)"

primrec handleBuilding :: "(id \<Rightarrow> bool) \<Rightarrow> time \<Rightarrow> id \<Rightarrow> buildingRequest \<Rightarrow> unit action" where
  "handleBuilding floors now p (SubmitSetup q) =
     void (bld_tx (createBuildingWithFoundingMember now (q\<lparr>np_createdById := p\<rparr>)))"
| "handleBuilding floors now p (VerifyOtp phone) = void (linkOwnerAccountByPhone now p phone)"
| "handleBuilding floors now p (AddUnit bid dto) = guarded (rolesGuard [MANAGER] p bid) (addUnit floors bid p dto)"
| "handleBuilding floors now p (UpdateUnit bid uid dto) = guarded (rolesGuard [MANAGER] p bid) (svc_updateUnit bid uid dto p)"
| "handleBuilding floors now p (InviteOwner bid uid n ph) = guarded (rolesGuard [MANAGER] p bid) (inviteOwner now bid uid n ph p)"
| "handleBuilding floors now p (InviteOwnerV2 bid uid f l ph) =
     guarded (rolesGuard [MANAGER] p bid) (inviteOwnerV2 now bid uid f l ph p)"
| "handleBuilding floors now p (DeleteUnit bid uid) = guarded (rolesGuard [MANAGER] p bid) (deleteUnit bid uid p)"
| "handleBuilding floors now p (ClaimOwnership bid uid) = void (claimOwnership now bid uid p)"
| "handleBuilding floors now p (RequestMembership bid r m) = void (requestMembership now bid p r m)"
| "handleBuilding floors now p (ResolveMembershipRequest bid i ok) =
     guarded (rolesGuard [OWNER, MANAGER] p bid) (resolveMembershipRequest now bid i ok p)"
| "handleBuilding floors now p (ChangeManager bid q ty) =
     guarded (rolesGuard [MANAGER] p bid) (svc_changeManager now bid q ty (Some p))"
| "handleBuilding floors now p (EndManagement bid) = guarded (rolesGuard [MANAGER] p bid) (svc_endManagement now bid p)"
| "handleBuilding floors now p (TransferOwnership bid uid ph) =
     guarded (membershipGuard p bid) (svc_transferOwnership now bid uid ph p)"
| "handleBuilding floors now p (CreateTenancy bid uid q) = guarded (membershipGuard p bid) (svc_createTenancy now bid uid q p)"
| "handleBuilding floors now p (RegisterTenant bid uid f l ph) =
     guarded (membershipGuard p bid) (registerTenant now bid uid f l ph p)"
| "handleBuilding floors now p (GiveTenancyNotice bid i) = guarded (membershipGuard p bid) (svc_giveTenancyNotice now bid i p)"
| "handleBuilding floors now p (EndTenancy bid i r) = guarded (membershipGuard p bid) (svc_endTenancy now bid i r p)"
| "handleBuilding floors now p (UpdateSettings bid a) = guarded (rolesGuard [OWNER, MANAGER] p bid) (updateSettings bid a p)"

fun runBuilding :: "(id \<Rightarrow> bool) \<Rightarrow> (time \<times> id \<times> buildingRequest) list \<Rightarrow> site \<Rightarrow> site" where
  "runBuilding floors [] s = s"
| "runBuilding floors ((now, p, r) # rs) s = runBuilding floors rs (snd (handleBuilding floors now p r s))"

section \<open>The invariant over the site\<close>

definition buildingsOk :: "site \<Rightarrow> bool" where
  "buildingsOk s \<longleftrightarrow> bld_ok (s_bld s)"

interpretation bok: site_invariant buildingsOk
  by unfold_locales (simp add: buildingsOk_def)

lemma bok_bld_tx: "(\<And>b x b'. bld_ok b \<Longrightarrow> t b = Inr (x, b') \<Longrightarrow> bld_ok b') \<Longrightarrow> bok.kept_by (bld_tx t)"
  by (rule bok.kept_bld_tx) (auto simp: buildingsOk_def)

lemma bok_getById: "bok.kept_by (getById bid)" "bok.kept_by (ownUnit bid uid)" "bok.kept_by (bld g)"
  "bok.kept_by (membershipGuard p bid)" "bok.kept_by (rolesGuard rs p bid)"
  "bok.kept_by (assertManagesUnit bid uid p k t)"
  unfolding getById_def ownUnit_def bld_def membershipGuard_def rolesGuard_def assertManagesUnit_def
  by (rule bok.kept_reads)+

lemma bok_getOwnUnit: "bok.kept_by (svc_getOwnUnit bid uid)"
  unfolding svc_getOwnUnit_def by (intro bok.kept_rules bok_getById)

lemma bok_getOwnTenancy: "bok.kept_by (getOwnTenancy bid i)"
  unfolding getOwnTenancy_def by (intro bok.kept_rules bok_getOwnUnit)

lemmas bok_rules = bok.kept_rules bok_getById bok_getOwnUnit bok_getOwnTenancy

lemma bok_void: "bok.kept_by c \<Longrightarrow> bok.kept_by (void c)"
  unfolding void_def by (intro bok_rules)

lemma bok_guarded: "bok.kept_by g \<Longrightarrow> bok.kept_by c \<Longrightarrow> bok.kept_by (guarded g c)"
  unfolding guarded_def by (intro bok_rules bok_void)

text \<open>Calls whose transactions keep the invariant whatever was checked before.\<close>

lemma bok_simple_calls:
  "bok.kept_by (addUnit floors bid p dto)" "bok.kept_by (svc_updateUnit bid uid ch p)"
  "bok.kept_by (inviteOwner now bid uid n ph p)" "bok.kept_by (inviteOwnerV2 now bid uid f l ph p)"
  "bok.kept_by (requestMembership now bid p r ms)" "bok.kept_by (svc_changeManager now bid q ty a)"
  "bok.kept_by (svc_transferOwnership now bid uid ph p)" "bok.kept_by (updateSettings bid v p)"
  unfolding addUnit_def svc_updateUnit_def inviteOwner_def inviteOwnerV2_def inviteWith_def requestMembership_def
    svc_changeManager_def svc_transferOwnership_def updateSettings_def
  by (intro bok_rules bok_bld_tx; erule (1) createUnit_ok updateUnit_ok markInvite_ok requests_ok changeManager_ok
      transfer_ok settings_ok)+

section \<open>Calls that rely on the check they make first\<close>

lemma wp_getOwnUnit [wp_simps]:
  "wp (svc_getOwnUnit bid uid) Q E = (\<lambda>s. case findBuildingById (s_bld s) bid of
     None \<Rightarrow> E (NotFoundAppError STR ''Building not found.'') s
   | Some _ \<Rightarrow> (case findUnitById (s_bld s) uid of
       None \<Rightarrow> E (NotFoundAppError STR ''Unit not found.'') s
     | Some u \<Rightarrow> if u_buildingId u = bid then Q u s else E (NotFoundAppError STR ''Unit not found.'') s))"
  by (rule ext) (simp add: svc_getOwnUnit_def getById_def ownUnit_def wp_simps split: option.split)

lemma wp_bld [wp_simps]: "wp (bld g) Q E = (\<lambda>s. Q (g (s_bld s)) s)"
  by (simp add: bld_def wp_simps)

lemma findUnit_unitOf: "findUnitById b uid = Some u \<Longrightarrow> u_buildingId u = bid \<Longrightarrow> unitOf b bid uid"
  by (auto simp: findUnitById_def unitOf_def)

lemma claimOwnership_kept: "bok.kept_by (claimOwnership now bid uid p)"
proof (rule bok.kept_byI)
  fix s assume s: "buildingsOk s"
  show "wp (claimOwnership now bid uid p) (\<lambda>_. buildingsOk) (\<lambda>_. buildingsOk) s"
    using s unfolding claimOwnership_def
    by (auto simp: wp_simps buildingsOk_def assertEligible_def assert_r_def split: option.splits sum.splits
        intro: linkOwner_ok findUnit_unitOf)
qed

lemma linkOwner_frame:
  assumes "linkOwnerToUnit now uid bid p f l b = Inr (m, b')"
  shows "unitRows b' = unitRows b" "hasCurrentOwnership b' v \<longleftrightarrow> v = uid \<or> hasCurrentOwnership b v"
  using linkOwner_Inr [OF assms]
  by (auto simp: linkedOwner_def Let_def fillMissingPersonName_def hasCurrentOwnership_def count_where_pos)

lemma linkOwners_kept:
  assumes "buildingsOk s" "distinct (map u_id us)"
    "\<forall>u\<in>set us. unitOf (s_bld s) (u_buildingId u) (u_id u) \<and> \<not> hasCurrentOwnership (s_bld s) (u_id u)"
  shows "wp (for_each us (\<lambda>u.
       bind_svc (bld_tx (linkOwnerToUnit now (u_id u) (u_buildingId u) p (u_ownerFirstName u) (u_ownerLastName u))) (\<lambda>_.
       bind_svc (record_audit (Some p) (Some (u_buildingId u)) STR ''OwnerAutoLinked'' (u_id u) None) (\<lambda>_.
       return_svc (u_buildingId u))))) (\<lambda>_. buildingsOk) (\<lambda>_. buildingsOk) s"
  using assms
proof (induction us arbitrary: s)
  case Nil
  then show ?case by (simp add: wp_simps)
next
  case (Cons u us)
  let ?t = "linkOwnerToUnit now (u_id u) (u_buildingId u) p (u_ownerFirstName u) (u_ownerLastName u)"
  let ?done = "\<lambda>b. snd (record_audit (Some p) (Some (u_buildingId u)) STR ''OwnerAutoLinked'' (u_id u) None (s\<lparr>s_bld := b\<rparr>))"
  show ?case
  proof (cases "?t (s_bld s)")
    case (Inl e)
    then show ?thesis using Cons.prems by (simp add: wp_simps)
  next
    case (Inr mb)
    then obtain m b where b: "?t (s_bld s) = Inr (m, b)" by (cases mb) auto
    have "bld_ok b" using Cons.prems b by (auto simp: buildingsOk_def intro: linkOwner_ok)
    moreover have "\<forall>v\<in>set us. unitOf b (u_buildingId v) (u_id v) \<and> \<not> hasCurrentOwnership b (u_id v)"
      using Cons.prems linkOwner_frame [OF b] by (auto simp: unitOf_def image_iff)
    ultimately have "wp (for_each us (\<lambda>u.
       bind_svc (bld_tx (linkOwnerToUnit now (u_id u) (u_buildingId u) p (u_ownerFirstName u) (u_ownerLastName u))) (\<lambda>_.
       bind_svc (record_audit (Some p) (Some (u_buildingId u)) STR ''OwnerAutoLinked'' (u_id u) None) (\<lambda>_.
       return_svc (u_buildingId u))))) (\<lambda>_. buildingsOk) (\<lambda>_. buildingsOk) (?done b)"
      using Cons.prems(2) by (intro Cons.IH) (simp_all add: buildingsOk_def)
    then show ?thesis using b by (simp add: wp_bind wp_steps wp_logs del: return_svc_simps)
  qed
qed

lemma unlinked_units:
  assumes "bld_ok b"
  shows "distinct (map u_id (findUnlinkedOwnerUnitsByPhone b phone))"
    "\<forall>u\<in>set (findUnlinkedOwnerUnitsByPhone b phone). unitOf b (u_buildingId u) (u_id u) \<and> \<not> hasCurrentOwnership b (u_id u)"
  using bld_okD(2) [OF assms]
  by (auto simp: findUnlinkedOwnerUnitsByPhone_def keys_ok_def unitOf_def distinct_map_filter)

lemma linkOwnerAccount_kept: "bok.kept_by (linkOwnerAccountByPhone now p phone)"
proof (rule bok.kept_byI)
  fix s assume s: "buildingsOk s"
  then have b: "bld_ok (s_bld s)" by (simp add: buildingsOk_def)
  show "wp (linkOwnerAccountByPhone now p phone) (\<lambda>_. buildingsOk) (\<lambda>_. buildingsOk) s"
    unfolding linkOwnerAccountByPhone_def wp_bind wp_bld
    by (rule linkOwners_kept [OF s unlinked_units [OF b]])
qed

lemma resolveRequest_kept: "bok.kept_by (resolveMembershipRequest now bid i ok p)"
proof (rule bok.kept_byI)
  fix s assume s: "buildingsOk s"
  show "wp (resolveMembershipRequest now bid i ok p) (\<lambda>_. buildingsOk) (\<lambda>_. buildingsOk) s"
    using s unfolding resolveMembershipRequest_def
    by (auto simp: wp_simps buildingsOk_def assertNoActiveManager_def assert_r_def split: option.splits sum.splits
        intro: createMembership_ok requests_ok(2))
qed

lemma endManagement_kept: "bok.kept_by (svc_endManagement now bid p)"
proof (rule bok.kept_byI)
  fix s assume s: "buildingsOk s"
  show "wp (svc_endManagement now bid p) (\<lambda>_. buildingsOk) (\<lambda>_. buildingsOk) s"
    using s unfolding svc_endManagement_def
    by (auto simp: wp_simps buildingsOk_def assertHasActiveManager_def split: option.splits sum.splits
        intro: endManagement_ok(1))
qed

lemma createTenancy_kept: "bok.kept_by (svc_createTenancy now bid uid q p)"
proof (rule bok.kept_byI)
  fix s assume s: "buildingsOk s"
  show "wp (svc_createTenancy now bid uid q p) (\<lambda>_. buildingsOk) (\<lambda>_. buildingsOk) s"
    using s unfolding svc_createTenancy_def assertManagesUnit_def
    by (auto simp: wp_simps buildingsOk_def assertUnitHasOwner_def assertCanCreate_def assertUnitAvailableForTenancy_def
        assert_r_def Let_def split: option.splits sum.splits intro: createTenancy_ok(1) findUnit_unitOf)
qed

lemma registerTenant_kept: "bok.kept_by (registerTenant now bid uid f l ph p)"
  unfolding registerTenant_def
  by (intro bok_rules createTenancy_kept bok_bld_tx; auto intro: createPerson_ok fillMissing_ok)

lemma wp_getOwnTenancy:
  "wp (getOwnTenancy bid i) Q E s \<longleftrightarrow> (case findTenancyById (s_bld s) i of
     None \<Rightarrow> E (NotFoundAppError STR ''Tenancy not found.'') s
   | Some t \<Rightarrow> wp (svc_getOwnUnit bid (tn_unitId t)) (\<lambda>_. Q t) E s)"
  by (simp add: getOwnTenancy_def wp_simps split: option.split)

lemma giveNotice_kept: "bok.kept_by (svc_giveTenancyNotice now bid i p)"
proof (rule bok.kept_byI)
  fix s assume s: "buildingsOk s"
  show "wp (svc_giveTenancyNotice now bid i p) (\<lambda>_. buildingsOk) (\<lambda>_. buildingsOk) s"
    using s unfolding svc_giveTenancyNotice_def assertManagesUnit_def
    by (auto simp: wp_simps wp_getOwnTenancy buildingsOk_def assertCanManage_def assertCanGiveNotice_def assert_r_def Let_def
        split: option.splits sum.splits intro: giveNotice_ok)
qed

lemma endTenancy_kept: "bok.kept_by (svc_endTenancy now bid i r p)"
proof (rule bok.kept_byI)
  fix s assume s: "buildingsOk s"
  show "wp (svc_endTenancy now bid i r p) (\<lambda>_. buildingsOk) (\<lambda>_. buildingsOk) s"
    using s unfolding svc_endTenancy_def assertManagesUnit_def
    by (auto simp: wp_simps wp_getOwnTenancy buildingsOk_def assertCanManage_def assertCanEnd_def assert_r_def Let_def
        split: option.splits sum.splits intro: endTenancy_ok(1))
qed

lemma unblocked:
  assumes "blockedBy s uid = []"
  shows "\<forall>w\<in>set (ownerships (s_bld s)). ow_unitId w \<noteq> uid" "\<forall>t\<in>set (tenancies (s_bld s)). tn_unitId t \<noteq> uid"
    "\<forall>m\<in>set (memberships (s_bld s)). mb_unitId m \<noteq> Some uid"
  using assms by (auto simp: blockedBy_def unitRelations_def count_where_def filter_empty_conv split: if_splits)

lemma deleteUnit_kept: "bok.kept_by (deleteUnit bid uid p)"
proof (rule bok.kept_byI)
  fix s assume s: "buildingsOk s"
  show "wp (deleteUnit bid uid p) (\<lambda>_. buildingsOk) (\<lambda>_. buildingsOk) s"
    using s unfolding deleteUnit_def deleteUnitIfUnused_def
    by (auto simp: wp_simps buildingsOk_def assert_r_def needs_def split: option.splits sum.splits
        intro!: deleteUnit_ok dest: unblocked)
qed

theorem handleBuilding_kept: "bok.kept_by (handleBuilding floors now p r)"
proof (cases r)
  case (SubmitSetup q)
  then show ?thesis by (auto intro!: bok_void bok_bld_tx intro: createBuilding_ok)
qed (simp_all only: handleBuilding.simps, (intro bok_guarded bok_void bok_getById bok_simple_calls claimOwnership_kept
    linkOwnerAccount_kept resolveRequest_kept endManagement_kept createTenancy_kept registerTenant_kept giveNotice_kept
    endTenancy_kept deleteUnit_kept)+)

lemma runBuilding_ok: "buildingsOk s \<Longrightarrow> buildingsOk (runBuilding floors rs s)"
proof (induction rs arbitrary: s)
  case (Cons r rs)
  obtain now p q where r: "r = (now, p, q)" by (cases r)
  have "buildingsOk (snd (handleBuilding floors now p q s))"
    by (rule bok.kept_byD [OF handleBuilding_kept Cons.prems])
  then show ?case by (simp add: r Cons.IH)
qed simp

end
