(* ===== verification/Site_Scenario.thy ===== *)
theory Site_Scenario
  imports Building_Api Finance_Scenario
begin

text \<open>
  A concrete site: three persons, and a history in which one of them registers a building
  of two units and becomes its manager, and another one is invited as the owner of the
  first unit and claims it by verifying a phone.
\<close>

definition empty_gov :: "(nat \<Rightarrow> id) \<Rightarrow> gov_db" where
  "empty_gov i = \<lparr>votes = [], voteOptions = [], snapshots = [], ballots = [], voteResults = [], voteProxies = [],
     meetings = [], attendances = [], gov_ids = i, gov_next = 0\<rparr>"

definition empty_case :: "(nat \<Rightarrow> id) \<Rightarrow> case_db" where
  "empty_case i = \<lparr>caseRows = [], caseMessages = [], caseAssignments = [], case_ids = i, case_next = 0\<rparr>"

definition empty_bo :: "(nat \<Rightarrow> id) \<Rightarrow> bo_db" where
  "empty_bo i = \<lparr>platformStaffs = [], rbacRoles = [], permissionRows = [], rolePermissions = [], staffRoles = [],
     buildingCases = [], managerCases = [], managerApprovals = [], fraudCases = [], fraudEvidence = [], enforcements = [],
     supportCases = [], supportMessages = [], complianceCases = [], legalHolds = [], subscriptions = [], changeLogs = [],
     featureGrants = [], bo_ids = i, bo_next = 0\<rparr>"

definition empty_auth :: "(nat \<Rightarrow> id) \<Rightarrow> auth_db" where
  "empty_auth i = \<lparr>otpRequests = [], devices = [], refreshTokens = [], auth_ids = i, auth_next = 0\<rparr>"

definition empty_game :: "(nat \<Rightarrow> id) \<Rightarrow> game_db" where
  "empty_game i = \<lparr>xpTransactions = [], definitions = [], achievements = [], scores = [], scoreEvents = [],
     game_ids = i, game_next = 0\<rparr>"

definition phone_of :: "string \<Rightarrow> string" where
  "phone_of p = ''+98912000000'' @ p"

definition people_bld :: bld_db where
  "people_bld = \<lparr>persons = [demo_person ''m'' (phone_of ''1''), demo_person ''o'' (phone_of ''2''), demo_person ''t'' (phone_of ''3'')],
     buildings = [], blocks = [], unitRows = [], ownerships = [], tenancies = [], memberships = [],
     membershipRequests = [], settingsRows = [], bld_ids = demo_ids, bld_next = 0, bld_collation = length\<rparr>"

definition site0 :: site where
  "site0 = \<lparr>s_fin = empty_fin demo_ids, s_bld = people_bld, s_gov = empty_gov demo_ids, s_case = empty_case demo_ids,
     s_bo = empty_bo demo_ids, s_auth = empty_auth demo_ids, s_game = empty_game demo_ids,
     s_audit = [], s_events = []\<rparr>"

definition demo_setup :: buildingParams where
  "demo_setup = \<lparr>np_createdById = ''m'', np_role = MANAGER, np_name = Some ''Tower'', np_buildingType = BT_RESIDENTIAL,
     np_description = None, np_country = ''IR'', np_province = Some ''IR-TEHRAN'', np_city = ''IR-TEHRAN-TEHRAN'',
     np_district = ''d'', np_mainStreet = ''s'', np_subStreet = None, np_alley = None, np_plateNumber = ''1'',
     np_addressLine = ''a'', np_postalCode = ''1234567890'', np_totalBlocks = 1, np_totalUnits = 2, np_totalFloors = None\<rparr>"

abbreviation "no_floors \<equiv> (\<lambda>_. False)"

definition theBuilding :: id where "theBuilding = demo_ids 0"
definition firstUnit :: id where "firstUnit = demo_ids 2"
definition secondUnit :: id where "secondUnit = demo_ids 3"

definition demo_history :: "(time \<times> id \<times> buildingRequest) list" where
  "demo_history = [(1, ''m'', SubmitSetup demo_setup), (2, ''m'', InviteOwner theBuilding firstUnit ''Sara'' (phone_of ''2'')),
     (3, ''o'', VerifyOtp (phone_of ''2''))]"

definition settled :: site where
  "settled = runBuilding no_floors demo_history site0"

text \<open>The tenant moves into the first unit.\<close>

definition rented :: site where
  "rented = runBuilding no_floors [(4, ''o'', CreateTenancy theBuilding firstUnit ''t'')] settled"

lemma demo_ids_neq: "demo_ids n \<noteq> ''m''" "demo_ids n \<noteq> ''o''" "demo_ids n \<noteq> ''t''"
  by (simp_all add: demo_ids_def)

lemma site0_ok: "buildingsOk site0"
proof -
  have "phone_of ''1'' \<noteq> phone_of ''2''" "phone_of ''1'' \<noteq> phone_of ''3''" "phone_of ''2'' \<noteq> phone_of ''3''"
    by (simp_all add: phone_of_def)
  then show ?thesis
    by (simp add: buildingsOk_def bld_ok_def site0_def people_bld_def ids_ok_def usedIds_def keys_ok_def refs_ok_def
        managers_ok_def units_ok_def mirrors_ok_def membersNow_def ownersNow_def tenantsNow_def demo_person_def
        demo_ids_inj demo_ids_neq)
qed

lemma settled_ok: "buildingsOk settled" "buildingsOk rented"
  unfolding settled_def rented_def by (intro runBuilding_ok site0_ok)+

end
