(* ===== verification/Site_Runs.thy ===== *)
theory Site_Runs
  imports Site_Scenario
begin

text \<open>
  Calls on the concrete site of \<open>Site_Scenario\<close> and facts about them, evaluated once for the
  witnesses.
\<close>

lemma ran_Inr: "\<not> isl (fst r) \<Longrightarrow> r = (Inr (projr (fst r)), snd r)"
  by (cases r; cases "fst r") auto

text \<open>The founder hands the building over; the owner transfers the first unit to the third person.\<close>

definition handover :: "membership result \<times> site" where
  "handover = svc_changeManager 5 theBuilding ''o'' MA_ELECTED (Some ''m'') settled"

definition transfer :: "unit_row result \<times> site" where
  "transfer = svc_transferOwnership 5 theBuilding firstUnit (phone_of ''3'') ''o'' settled"

definition takeover :: "id list result \<times> site" where
  "takeover = linkOwnerAccountByPhone 6 ''t'' (phone_of ''3'') (snd transfer)"

text \<open>Each state is computed once, and asked everything.\<close>

definition rentedAnswers :: "bld_db \<Rightarrow> bool" where
  "rentedAnswers b \<longleftrightarrow> getRoles b ''t'' theBuilding = [TENANT] \<and> isCurrentTenant b firstUnit ''t'' \<and>
     \<not> isCurrentTenant b secondUnit ''t'' \<and> \<not> isCurrentOwnerOfUnit b secondUnit ''t'' \<and> unitOf b theBuilding firstUnit"

definition settledAnswers :: "bld_db \<Rightarrow> bool" where
  "settledAnswers b \<longleftrightarrow> map u_id (unitRows b) = [firstUnit, secondUnit] \<and> map u_buildingId (unitRows b) = [theBuilding, theBuilding] \<and>
     getCurrentOwnerPersonIds b firstUnit = [''o''] \<and> findBuildingById b theBuilding \<noteq> None \<and>
     getRoles b ''t'' theBuilding = [] \<and> \<not> isInvitedOwnerForUnit b theBuilding firstUnit ''t'' \<and>
     ownersNow b firstUnit = {''o''} \<and> tenantsNow b firstUnit = {}"

definition settledRuns :: "site \<Rightarrow> bool" where
  "settledRuns s \<longleftrightarrow> settledAnswers (s_bld s) \<and>
     rentedAnswers (s_bld (runBuilding no_floors [(4, ''o'', CreateTenancy theBuilding firstUnit ''t'')] s)) \<and>
     \<not> isl (fst (svc_changeManager 5 theBuilding ''o'' MA_ELECTED (Some ''m'') s)) \<and>
     (case svc_transferOwnership 5 theBuilding firstUnit (phone_of ''3'') ''o'' s of (r, t) \<Rightarrow>
        \<not> isl r \<and> \<not> isl (fst (linkOwnerAccountByPhone 6 ''t'' (phone_of ''3'') t)))"

lemma settled_runs: "settledRuns settled"
  by code_simp

lemmas settled_all = settled_runs [unfolded settledRuns_def settledAnswers_def rentedAnswers_def, folded rented_def handover_def transfer_def]

lemma settled_facts:
  "map u_id (unitRows (s_bld settled)) = [firstUnit, secondUnit]"
  "map u_buildingId (unitRows (s_bld settled)) = [theBuilding, theBuilding]"
  "getCurrentOwnerPersonIds (s_bld settled) firstUnit = [''o'']"
  "findBuildingById (s_bld settled) theBuilding \<noteq> None"
  using settled_all by blast+

lemma stranger_facts:
  "getRoles (s_bld settled) ''t'' theBuilding = []"
  "\<not> isInvitedOwnerForUnit (s_bld settled) theBuilding firstUnit ''t''"
  "ownersNow (s_bld settled) firstUnit = {''o''}" "tenantsNow (s_bld settled) firstUnit = {}"
  using settled_all by blast+

lemma rented_facts:
  "getRoles (s_bld rented) ''t'' theBuilding = [TENANT]"
  "isCurrentTenant (s_bld rented) firstUnit ''t''" "\<not> isCurrentTenant (s_bld rented) secondUnit ''t''"
  "\<not> isCurrentOwnerOfUnit (s_bld rented) secondUnit ''t''"
  "unitOf (s_bld rented) theBuilding firstUnit"
  using settled_all by blast+

lemma handover_runs: "\<not> isl (fst handover)"
  using settled_all by blast

lemma transfer_runs: "\<not> isl (fst transfer)"
  using settled_all by (simp add: prod.case_eq_if)

lemma takeover_runs: "\<not> isl (fst takeover)"
  using settled_all by (simp add: takeover_def prod.case_eq_if)

end
