(* ===== verification/Text_Norm.thy ===== *)
theory Text_Norm
  imports Prelude
begin

text \<open>
  The normalisation of phone numbers and postal codes
  (\<^verbatim>\<open>src/src/common/phone/phone.util.ts\<close>, \<^verbatim>\<open>src/src/common/postal-code/postal-code.util.ts\<close>).
  Incoming text is the list of its code points, the stored result is ASCII.
\<close>

type_synonym text_in = "nat list"

section \<open>Characters\<close>

definition codes :: "string \<Rightarrow> text_in" where
  "codes s = map of_char s"

definition ascii :: "text_in \<Rightarrow> string" where
  "ascii v = map char_of v"

definition isDigit :: "nat \<Rightarrow> bool" where
  "isDigit c \<longleftrightarrow> 48 \<le> c \<and> c \<le> 57"

definition isAlnum :: "nat \<Rightarrow> bool" where
  "isAlnum c \<longleftrightarrow> isDigit c \<or> 65 \<le> c \<and> c \<le> 90 \<or> 97 \<le> c \<and> c \<le> 122"

text \<open>The white space of ECMAScript, which \<open>trim\<close> removes and \<open>\s\<close> matches.\<close>

definition isSpace :: "nat \<Rightarrow> bool" where
  "isSpace c \<longleftrightarrow> 9 \<le> c \<and> c \<le> 13 \<or> c = 32 \<or> c = 160 \<or> c = 5760 \<or> 8192 \<le> c \<and> c \<le> 8202 \<or>
     c = 8232 \<or> c = 8233 \<or> c = 8239 \<or> c = 8287 \<or> c = 12288 \<or> c = 65279"

text \<open>Persian digits start at U+06F0, Arabic-Indic digits at U+0660.\<close>

definition asciiDigit :: "nat \<Rightarrow> nat" where
  "asciiDigit c = (if 1776 \<le> c \<and> c \<le> 1785 then c - 1776 + 48
     else if 1632 \<le> c \<and> c \<le> 1641 then c - 1632 + 48 else c)"

definition toAsciiDigits :: "text_in \<Rightarrow> text_in" where
  "toAsciiDigits v = map asciiDigit v"

definition trim :: "text_in \<Rightarrow> text_in" where
  "trim v = rev (dropWhile isSpace (rev (dropWhile isSpace v)))"

text \<open>\<open>replace(/[\s-]/g, '')\<close>.\<close>

definition dropSeparators :: "text_in \<Rightarrow> text_in" where
  "dropSeparators v = filter (\<lambda>c. \<not> isSpace c \<and> c \<noteq> 45) v"

definition cleaned :: "text_in \<Rightarrow> text_in" where
  "cleaned v = dropSeparators (trim (toAsciiDigits v))"

section \<open>Phone numbers\<close>

definition digits_after :: "string \<Rightarrow> nat \<Rightarrow> text_in \<Rightarrow> bool" where
  "digits_after prefix n v \<longleftrightarrow> length v = length prefix + n \<and> take (length prefix) v = codes prefix \<and>
     list_all isDigit (drop (length prefix) v)"

definition normalizeIranianMobilePhone :: "text_in \<Rightarrow> string option" where
  "normalizeIranianMobilePhone input =
     (let v = cleaned input in
      if digits_after ''+989'' 9 v then Some (ascii v)
      else if digits_after ''989'' 9 v then Some (''+'' @ ascii v)
      else if digits_after ''09'' 9 v then Some (''+98'' @ ascii (drop 1 v))
      else if digits_after ''9'' 9 v then Some (''+98'' @ ascii v)
      else None)"

definition isValidIranianMobilePhone :: "text_in \<Rightarrow> bool" where
  "isValidIranianMobilePhone input \<longleftrightarrow> normalizeIranianMobilePhone input \<noteq> None"

section \<open>Postal codes\<close>

definition normalizePostalCode :: "text_in \<Rightarrow> string \<Rightarrow> string option" where
  "normalizePostalCode input country =
     (let v = cleaned input in
      if v = [] then None
      else if country = ''IR'' then (if length v = 10 \<and> list_all isDigit v then Some (ascii v) else None)
      else if 2 \<le> length v \<and> length v \<le> 12 \<and> list_all isAlnum v then Some (ascii v) else None)"

definition isValidPostalCode :: "text_in \<Rightarrow> string \<Rightarrow> bool" where
  "isValidPostalCode input country \<longleftrightarrow> normalizePostalCode input country \<noteq> None"

definition normalizePostalCodeDigitsOnly :: "text_in \<Rightarrow> text_in" where
  "normalizePostalCodeDigitsOnly input = cleaned input"

section \<open>Facts\<close>

lemma isAlnum_plain: "isAlnum c \<Longrightarrow> \<not> isSpace c \<and> c \<noteq> 45 \<and> asciiDigit c = c \<and> c < 256"
  by (auto simp: isAlnum_def isDigit_def isSpace_def asciiDigit_def)

lemma isDigit_isAlnum: "isDigit c \<Longrightarrow> isAlnum c"
  by (simp add: isAlnum_def)

lemma dropWhile_none: "(\<And>c. c \<in> set v \<Longrightarrow> \<not> P c) \<Longrightarrow> dropWhile P v = v"
  by (cases v) auto

text \<open>Text made of letters, digits and plus signs is left alone.\<close>

lemma cleaned_plain:
  assumes "\<And>c. c \<in> set v \<Longrightarrow> isAlnum c \<or> c = 43"
  shows "cleaned v = v"
proof -
  have c: "\<not> isSpace c \<and> c \<noteq> 45 \<and> asciiDigit c = c" if "c \<in> set v" for c
    using assms [OF that] isAlnum_plain [of c] by (auto simp: isSpace_def asciiDigit_def)
  then have "toAsciiDigits v = v" by (simp add: toAsciiDigits_def map_idI)
  moreover have "trim v = v" using c dropWhile_none [of v isSpace] dropWhile_none [of "rev v" isSpace]
    by (simp add: trim_def)
  moreover have "dropSeparators v = v" using c by (simp add: dropSeparators_def)
  ultimately show ?thesis by (simp add: cleaned_def)
qed

lemma codes_ascii: "(\<And>c. c \<in> set v \<Longrightarrow> c < 256) \<Longrightarrow> codes (ascii v) = v"
  by (auto simp: codes_def ascii_def intro!: map_idI)

lemma codes_append [simp]: "codes (a @ b) = codes a @ codes b"
  by (simp add: codes_def)

lemma ascii_codes [simp]: "ascii (codes s) = s"
  by (simp add: codes_def ascii_def comp_def)

lemma codes_digits: "codes ''+989'' = [43, 57, 56, 57]" "codes ''989'' = [57, 56, 57]" "codes ''09'' = [48, 57]"
  "codes ''9'' = [57]" "codes ''+98'' = [43, 57, 56]" "codes ''+'' = [43]"
  by code_simp+

text \<open>A subscriber: the ten digits that follow the country code.\<close>

definition subscriber :: "text_in \<Rightarrow> bool" where
  "subscriber d \<longleftrightarrow> length d = 10 \<and> list_all isDigit d \<and> hd d = 57"

lemma subscriber_Cons: "subscriber d \<longleftrightarrow> (\<exists>r. d = 57 # r \<and> length r = 9 \<and> list_all isDigit r)"
  by (cases d) (auto simp: subscriber_def isDigit_def)

lemma digits_after_split: "digits_after p n v \<longleftrightarrow> (\<exists>r. v = codes p @ r \<and> length r = n \<and> list_all isDigit r)"
proof
  assume a: "digits_after p n v"
  then have "v = codes p @ drop (length p) v" unfolding digits_after_def by (metis append_take_drop_id)
  with a show "\<exists>r. v = codes p @ r \<and> length r = n \<and> list_all isDigit r"
    unfolding digits_after_def by (intro exI [of _ "drop (length p) v"]) auto
qed (auto simp: digits_after_def codes_def)

lemma phone_forms:
  "digits_after ''+989'' 9 v \<longleftrightarrow> (\<exists>d. v = [43, 57, 56] @ d \<and> subscriber d)"
  "digits_after ''989'' 9 v \<longleftrightarrow> (\<exists>d. v = [57, 56] @ d \<and> subscriber d)"
  "digits_after ''09'' 9 v \<longleftrightarrow> (\<exists>d. v = 48 # d \<and> subscriber d)"
  "digits_after ''9'' 9 v \<longleftrightarrow> subscriber v"
  by (auto simp: digits_after_split codes_digits subscriber_Cons)

lemma subscriber_length: "subscriber d \<Longrightarrow> length d = 10"
  by (simp add: subscriber_def)

lemma plus98: "''+98'' = ascii [43, 57, 56]" "''+'' = ascii [43]"
  by code_simp+

lemma ascii_append: "ascii (a @ b) = ascii a @ ascii b"
  by (simp add: ascii_def)

text \<open>Exactly the four documented shapes, each to the same canonical number.\<close>

lemma normalize_phone_iff:
  "normalizeIranianMobilePhone v = Some p \<longleftrightarrow>
    (\<exists>d. subscriber d \<and> p = ''+98'' @ ascii d \<and>
      cleaned v \<in> {[43, 57, 56] @ d, [57, 56] @ d, 48 # d, d})"
proof -
  have len: "\<not> digits_after ''+989'' 9 w" if "length w \<noteq> 13" for w using that by (simp add: digits_after_def)
  have len2: "\<not> digits_after ''989'' 9 w" if "length w \<noteq> 12" for w using that by (simp add: digits_after_def)
  have len3: "\<not> digits_after ''09'' 9 w" if "length w \<noteq> 11" for w using that by (simp add: digits_after_def)
  let ?N = "normalizeIranianMobilePhone v"
  have some: "?N = Some (''+98'' @ ascii d)"
    if d: "subscriber d" and w: "cleaned v \<in> {[43, 57, 56] @ d, [57, 56] @ d, 48 # d, d}" for d
  proof -
    have l: "length d = 10" using d by (rule subscriber_length)
    from w consider "cleaned v = [43, 57, 56] @ d" | "cleaned v = [57, 56] @ d" | "cleaned v = 48 # d" | "cleaned v = d"
      by auto
    then show ?thesis
    proof cases
      case 1
      then have "digits_after ''+989'' 9 (cleaned v)" using d unfolding phone_forms by auto
      then show ?thesis using 1 by (simp add: normalizeIranianMobilePhone_def Let_def ascii_def plus98)
    next
      case 2
      then have "digits_after ''989'' 9 (cleaned v)" using d unfolding phone_forms by auto
      moreover have "\<not> digits_after ''+989'' 9 (cleaned v)" using 2 l by (intro len) simp
      ultimately show ?thesis using 2 by (simp add: normalizeIranianMobilePhone_def Let_def ascii_def plus98)
    next
      case 3
      then have "digits_after ''09'' 9 (cleaned v)" using d unfolding phone_forms by auto
      moreover have "\<not> digits_after ''+989'' 9 (cleaned v)" using 3 l by (intro len) simp
      moreover have "\<not> digits_after ''989'' 9 (cleaned v)" using 3 l by (intro len2) simp
      ultimately show ?thesis using 3 by (simp add: normalizeIranianMobilePhone_def Let_def ascii_def plus98)
    next
      case 4
      then have "digits_after ''9'' 9 (cleaned v)" using d unfolding phone_forms by auto
      moreover have "\<not> digits_after ''+989'' 9 (cleaned v)" using 4 l by (intro len) simp
      moreover have "\<not> digits_after ''989'' 9 (cleaned v)" using 4 l by (intro len2) simp
      moreover have "\<not> digits_after ''09'' 9 (cleaned v)" using 4 l by (intro len3) simp
      ultimately show ?thesis using 4 by (simp add: normalizeIranianMobilePhone_def Let_def ascii_def plus98)
    qed
  qed
  have shape: "\<exists>d. subscriber d \<and> cleaned v \<in> {[43, 57, 56] @ d, [57, 56] @ d, 48 # d, d}" if "?N = Some p"
    using that unfolding normalizeIranianMobilePhone_def Let_def
    by (simp only: phone_forms split: if_splits) blast+
  show ?thesis using some shape by (metis option.inject)
qed

end
