(* ===== verification/Building_Properties.thy ===== *)
theory Building_Properties
  imports Site_Runs Text_Norm
begin

text \<open>
  The properties of the building subsystem, each with a witness on the concrete site of
  \<open>Site_Scenario\<close>.
\<close>

section \<open>Lemmas on single calls\<close>

lemma wp_Inr: "wp c Q E s \<Longrightarrow> c s = (Inr x, t) \<Longrightarrow> Q x t"
  by (simp add: wp_def)

lemma manager_change_writes:
  assumes "svc_changeManager now bid p ty actor s = (Inr m, s')"
  shows "changeManager now bid p ty actor (s_bld s) = Inr (m, s_bld s')" "getRoles (s_bld s) p bid \<noteq> []"
proof -
  have "wp (svc_changeManager now bid p ty actor)
      (\<lambda>m t. changeManager now bid p ty actor (s_bld s) = Inr (m, s_bld t) \<and> getRoles (s_bld s) p bid \<noteq> []) (\<lambda>_ _. True) s"
    unfolding svc_changeManager_def getById_def
    by (auto simp: wp_simps wp_bld assertCandidateIsMember_def assert_r_def split: option.splits sum.splits)
  from wp_Inr [OF this assms]
  show "changeManager now bid p ty actor (s_bld s) = Inr (m, s_bld s')" "getRoles (s_bld s) p bid \<noteq> []" by auto
qed

text \<open>The manager of a building after a handover, and what became of the previous one.\<close>

lemma handed_over:
  assumes "bld_ok b" "changeManager now bid p ty a b = Inr (m, b')"
  shows "{x \<in> set (memberships b'). managesNow bid x} = {m}"
    "mb_personId m = p" "mb_managerState m = Some (stateFor ty)"
    "\<And>c. c \<in> set (memberships b) \<Longrightarrow> managesNow bid c \<Longrightarrow> endedManager now c \<in> set (memberships b')"
    "\<And>c. c \<in> set (memberships b) \<Longrightarrow> \<not> managesNow bid c \<Longrightarrow> c \<in> set (memberships b')"
    "buildings b' = (if ty = MA_PROVISIONAL then buildings b
       else upd_where (\<lambda>d. bd_id d = bid) (\<lambda>d. d\<lparr>bd_recoveryModeEnteredAt := None\<rparr>) (buildings b))"
proof -
  let ?w = "withoutManager now bid b"
  note c = changeManager_Inr [OF assms(2)]
  have none: "\<forall>x\<in>set (memberships ?w). \<not> managesNow bid x"
    using withoutManager_ok(2) [OF assms(1)] by (simp add: getCurrentManagerMembership_def find_one_None)
  have rows: "memberships b' = memberships ?w @ [m]"
    using c(3) by (auto simp: Let_def clearRecovery_def split: if_splits)
  have "managesNow bid m" using c(1) by (simp add: managesNow_def)
  then show "{x \<in> set (memberships b'). managesNow bid x} = {m}" using none by (auto simp: rows)
  show "mb_personId m = p" "mb_managerState m = Some (stateFor ty)" using c(1) by simp_all
  show "buildings b' = (if ty = MA_PROVISIONAL then buildings b
       else upd_where (\<lambda>d. bd_id d = bid) (\<lambda>d. d\<lparr>bd_recoveryModeEnteredAt := None\<rparr>) (buildings b))"
    using c(3) by (auto simp: Let_def clearRecovery_def stateFor_def split: if_splits)
  fix x assume x: "x \<in> set (memberships b)"
  show "endedManager now x \<in> set (memberships b')" if man: "managesNow bid x"
  proof -
    obtain k where k: "getCurrentManagerMembership b bid = Some k"
      using x man by (cases "getCurrentManagerMembership b bid") (auto simp: getCurrentManagerMembership_def find_one_None)
    have "one (managesNow bid) (memberships b)" using bld_okD(4) [OF assms(1)] by (simp add: managers_ok_def)
    then have "k = x" using one_same [of _ _ k x] currentManager [OF k] x man by auto
    then show ?thesis using x k by (auto simp: rows withoutManager_def set_upd_where)
  qed
  show "x \<in> set (memberships b')" if no: "\<not> managesNow bid x"
  proof (cases "getCurrentManagerMembership b bid")
    case None
    then show ?thesis using x by (simp add: rows withoutManager_def)
  next
    case (Some k)
    then have "k \<noteq> x" using currentManager [OF Some] no by auto
    then have "mb_id x \<noteq> mb_id k" using membership_key [OF assms(1) x] currentManager [OF Some] by auto
    then show ?thesis using x Some by (auto simp: rows withoutManager_def set_upd_where)
  qed
qed

lemma one_owner:
  assumes "bld_ok b"
  shows "length (getCurrentOwnerPersonIds b uid) \<le> 1" "length (currentTenantPersonIds b uid) \<le> 1"
    "set (getCurrentOwnerPersonIds b uid) = ownersNow b uid" "set (currentTenantPersonIds b uid) = tenantsNow b uid"
proof -
  have "one (ownsNow uid) (ownerships b)" "one (rentsNow uid) (tenancies b)"
    using bld_okD(5) [OF assms] by (simp_all add: units_ok_def)
  then show "length (getCurrentOwnerPersonIds b uid) \<le> 1" "length (currentTenantPersonIds b uid) \<le> 1"
    by (simp_all add: one_def getCurrentOwnerPersonIds_def currentTenantPersonIds_def ownsNow_def [abs_def] rentsNow_def [abs_def])
qed (auto simp: getCurrentOwnerPersonIds_def currentTenantPersonIds_def ownersNow_def tenantsNow_def ownsNow_def rentsNow_def)

lemma sole_owner:
  assumes "bld_ok b" "p \<in> ownersNow b uid"
  shows "ownersNow b uid = {p}"
proof -
  obtain w where w: "w \<in> set (ownerships b)" "ownsNow uid w" "ow_personId w = p"
    using assms(2) by (auto simp: ownersNow_def)
  have one: "one (ownsNow uid) (ownerships b)" using bld_okD(5) [OF assms(1)] by (simp add: units_ok_def)
  have "x = w" if "x \<in> set (ownerships b)" "ownsNow uid x" for x by (rule one_same [OF one that(1) w(1) that(2) w(2)])
  then have "{x \<in> set (ownerships b). ownsNow uid x} = {w}" using w by blast
  then show ?thesis using w(3) by (simp add: ownersNow_def)
qed

lemma owner_tenant_now:
  assumes "bld_ok b"
  shows "isCurrentOwnerOfUnit b uid p \<longleftrightarrow> p \<in> ownersNow b uid" "isCurrentTenant b uid p \<longleftrightarrow> p \<in> tenantsNow b uid"
proof -
  show "isCurrentOwnerOfUnit b uid p \<longleftrightarrow> p \<in> ownersNow b uid"
    by (auto simp: isCurrentOwnerOfUnit_def count_where_pos ownersNow_def ownsNow_def)
  show "isCurrentTenant b uid p \<longleftrightarrow> p \<in> tenantsNow b uid"
  proof (cases "findCurrentTenancyForUnit b uid")
    case None
    then show ?thesis using noTenant [of b uid] by (auto simp: isCurrentTenant_def tenantsNow_def)
  next
    case (Some t)
    then have t: "t \<in> set (tenancies b)" "rentsNow uid t"
      using find_Some_in [of "\<lambda>t. tn_unitId t = uid \<and> tn_isCurrent t" "tenancies b" t]
      by (auto simp: findCurrentTenancyForUnit_def rentsNow_def)
    then show ?thesis using Some tenantsNow_only [OF assms t] by (auto simp: isCurrentTenant_def tenantsNow_def)
  qed
qed

lemma unit_building: "bld_ok b \<Longrightarrow> unitOf b x uid \<Longrightarrow> unitOf b y uid \<Longrightarrow> x = y"
  by (drule bld_okD(2)) (auto simp: keys_ok_def unitOf_def distinct_map inj_on_def)

lemma finance_readers:
  assumes "bld_ok b"
  shows "canReadUnitFinance b p bid uid \<longleftrightarrow> MANAGER \<in> set (getRoles b p bid) \<or> ACCOUNTANT \<in> set (getRoles b p bid) \<or>
    unitOf b bid uid \<and> (p \<in> ownersNow b uid \<or> p \<in> tenantsNow b uid)"
proof -
  have place: "mb_buildingId m = bid"
    if "m \<in> set (memberships b)" "mb_unitId m = Some uid" "unitOf b bid uid" for m
  proof -
    have "unitOf b (mb_buildingId m) uid" using bld_okD(3) [OF assms] that by (auto simp: refs_ok_def)
    then show ?thesis using unit_building [OF assms] that(3) by blast
  qed
  have mirror: "membersNow b OWNER uid = ownersNow b uid" "membersNow b TENANT uid = tenantsNow b uid"
    using bld_okD(6) [OF assms] by (simp_all add: mirrors_ok_def)
  have roles: "r \<in> set (getRoles b p bid) \<longleftrightarrow> (\<exists>m\<in>set (memberships b). mb_role m = r \<and> mb_personId m = p \<and>
      mb_buildingId m = bid \<and> mb_isCurrent m)" for r
    by (auto simp: getRoles_def image_iff)
  have now: "p \<in> membersNow b r uid \<longleftrightarrow> (\<exists>m\<in>set (memberships b). mb_role m = r \<and> mb_personId m = p \<and>
      mb_unitId m = Some uid \<and> mb_isCurrent m)" for r
    by (auto simp: membersNow_def image_iff)
  show ?thesis unfolding mirror [symmetric] roles now
    by (simp only: canReadUnitFinance_def count_where_pos unitOf_def [symmetric]) (use place in blast)
qed

text \<open>The list and the detail view compute the caller's standing and the summaries alike.\<close>

lemma find_rev_one: "one P xs \<Longrightarrow> find P (rev xs) = find P xs"
proof (cases "find P xs")
  case (Some x)
  assume one: "one P xs"
  from Some have x: "x \<in> set xs" "P x" using find_Some_in by fast+
  then obtain y where y: "find P (rev xs) = Some y" by (cases "find P (rev xs)") (auto simp: find_one_None)
  then have "y \<in> set xs" "P y" using find_Some_in [OF y] by auto
  then show ?thesis using one_same [OF one] x y Some by simp
next
  case None
  then have "find P (rev xs) = None" by (simp add: find_one_None)
  with None show ?thesis by simp
qed

lemma find_filter: "find P (filter Q xs) = find (\<lambda>x. P x \<and> Q x) xs"
  by (induction xs) auto

lemma summaries_agree:
  assumes "bld_ok b" "uid \<in> set uids"
  shows "findCurrentOwnerSummariesForUnits b uids uid = findCurrentOwnerSummaryForUnit b uid"
    "findCurrentTenantSummariesForUnits b uids uid = findCurrentTenantSummaryForUnit b uid"
proof -
  have one: "one (ownsNow uid) (ownerships b)" "one (rentsNow uid) (tenancies b)"
    using bld_okD(5) [OF assms(1)] by (simp_all add: units_ok_def)
  have e: "(\<lambda>w. ow_unitId w = uid \<and> (List.member uids (ow_unitId w) \<and> ow_isCurrent w)) = ownsNow uid"
    "(\<lambda>t. tn_unitId t = uid \<and> (List.member uids (tn_unitId t) \<and> tn_isCurrent t)) = rentsNow uid"
    using assms(2) by (auto simp: ownsNow_def rentsNow_def fun_eq_iff)
  show "findCurrentOwnerSummariesForUnits b uids uid = findCurrentOwnerSummaryForUnit b uid"
    unfolding findCurrentOwnerSummariesForUnits_def findCurrentOwnerSummaryForUnit_def rev_filter
      find_filter e find_rev_one [OF one(1)] by (simp add: ownsNow_def [abs_def])
  show "findCurrentTenantSummariesForUnits b uids uid = findCurrentTenantSummaryForUnit b uid"
    unfolding findCurrentTenantSummariesForUnits_def findCurrentTenantSummaryForUnit_def rev_filter
      find_filter e find_rev_one [OF one(2)] by (simp add: rentsNow_def [abs_def])
qed

lemma unit_found:
  assumes "bld_ok b" "u \<in> set (unitRows b)"
  shows "findUnitById b (u_id u) = Some u"
proof -
  have "distinct (map u_id (unitRows b))" using bld_okD(2) [OF assms(1)] by (simp add: keys_ok_def)
  then show ?thesis using assms(2) unfolding findUnitById_def by (intro find_row_distinct)
qed

lemma caller_context:
  assumes "bld_ok b" "u \<in> set (unitRows b)" "u_buildingId u = bid"
  shows "listContext b bid p (getRoles b p bid) u =
    \<lparr>cx_isManager = List.member (getRoles b p bid) MANAGER, cx_isCurrentOwnerOfUnit = isCurrentOwnerOfUnit b (u_id u) p,
     cx_isCurrentTenantOfUnit = isCurrentTenant b (u_id u) p, cx_isInvitedOwnerCandidate = canClaimOwnership b u (u_id u) p\<rparr>"
proof -
  have here: "unitIn b bid (u_id u)" using unit_found [OF assms(1,2)] assms(3) by (simp add: unitIn_def)
  have own: "u_id u \<in> set (findCurrentOwnedUnitIdsForPerson b bid p) \<longleftrightarrow> isCurrentOwnerOfUnit b (u_id u) p"
    using here by (auto simp: findCurrentOwnedUnitIdsForPerson_def isCurrentOwnerOfUnit_def count_where_pos image_iff)
  have ten: "u_id u \<in> set (findCurrentTenantUnitIdsForPerson b bid p) \<longleftrightarrow> isCurrentTenant b (u_id u) p"
    using here unfolding owner_tenant_now(2) [OF assms(1)]
    by (auto simp: findCurrentTenantUnitIdsForPerson_def tenantsNow_def rentsNow_def image_iff)
  have has: "u_id u \<in> set (findUnitIdsWithCurrentOwnership b bid) \<longleftrightarrow> hasCurrentOwnership b (u_id u)"
    using here by (auto simp: findUnitIdsWithCurrentOwnership_def hasCurrentOwnership_def count_where_pos image_iff)
  show ?thesis by (simp add: listContext_def Let_def own ten has canClaimOwnership_def)
qed

lemma unit_detail:
  assumes "bld_ok (s_bld s)" "u \<in> set (unitRows (s_bld s))" "u_buildingId u = bid" "findBuildingById (s_bld s) bid = Some d"
  shows "\<exists>v. getUnitForPerson bid (u_id u) p s = (Inr v, s) \<and>
    uf_unit v = shapeUnit u (listContext (s_bld s) bid p (getRoles (s_bld s) p bid) u)
      (findCurrentOwnerSummaryForUnit (s_bld s) (u_id u)) (findCurrentTenantSummaryForUnit (s_bld s) (u_id u))"
  using unit_found [OF assms(1,2)] assms(3,4)
  by (simp add: getUnitForPerson_def svc_getOwnUnit_def getById_def ownUnit_def bld_def query_def lift_svc_def
      bind_svc_def Let_def caller_context [OF assms(1-3)])

section \<open>Linking invited owners\<close>

lemma linked_owners:
  assumes "linkOwnerToUnit now uid bid q f l b = Inr (m, b')" "\<not> hasCurrentOwnership b uid"
  shows "ownersNow b' v = (if v = uid then {q} else ownersNow b v)"
proof -
  let ?w = "\<lparr>ow_id = fresh_bid b, ow_unitId = uid, ow_personId = q, ow_startDate = now, ow_endDate = None, ow_isCurrent = True\<rparr>"
  let ?b1 = "take_bid (b\<lparr>ownerships := ownerships b @ [?w]\<rparr>)"
  have "ownerships b' = ownerships ?b1"
    using linkOwner_Inr [OF assms(1)] by (simp add: linkedOwner_def Let_def fillMissingPersonName_def)
  then have "ownersNow b' v = ownersNow ?b1 v" using frames(3) [of b' ?b1] by simp
  moreover have "ownersNow b uid = {}" using assms(2) unfolding noOwner by (auto simp: ownersNow_def)
  ultimately show ?thesis by (simp add: ownersNow_new ownsNow_def)
qed

lemma link_each:
  assumes "distinct (map u_id us)" "\<forall>u\<in>set us. \<not> hasCurrentOwnership (s_bld s) (u_id u)"
  shows "wp (for_each us (\<lambda>u.
       bind_svc (bld_tx (linkOwnerToUnit now (u_id u) (u_buildingId u) q (u_ownerFirstName u) (u_ownerLastName u))) (\<lambda>_.
       bind_svc (record_audit (Some q) (Some (u_buildingId u)) STR ''OwnerAutoLinked'' (u_id u) None) (\<lambda>_.
       return_svc (u_buildingId u)))))
    (\<lambda>_ t. \<forall>v. ownersNow (s_bld t) v = (if v \<in> u_id ` set us then {q} else ownersNow (s_bld s) v)) (\<lambda>_ _. True) s"
  (is "wp (for_each us ?f) (?Q us (s_bld s)) ?E s")
  using assms
proof (induction us arbitrary: s)
  case Nil
  then show ?case by (simp add: wp_simps)
next
  case (Cons u us)
  let ?t = "linkOwnerToUnit now (u_id u) (u_buildingId u) q (u_ownerFirstName u) (u_ownerLastName u)"
  show ?case
  proof (cases "?t (s_bld s)")
    case (Inl e)
    then show ?thesis by (simp add: wp_simps)
  next
    case (Inr mb)
    then obtain m b where b: "?t (s_bld s) = Inr (m, b)" by (cases mb) auto
    let ?s = "snd (record_audit (Some q) (Some (u_buildingId u)) STR ''OwnerAutoLinked'' (u_id u) None (s\<lparr>s_bld := b\<rparr>))"
    have own: "ownersNow b v = (if v = u_id u then {q} else ownersNow (s_bld s) v)" for v
      using linked_owners [OF b] Cons.prems by simp
    have "\<forall>v\<in>set us. \<not> hasCurrentOwnership b (u_id v)"
      using Cons.prems linkOwner_frame [OF b] by (auto simp: image_iff)
    then have "wp (for_each us ?f) (?Q us (s_bld ?s)) ?E ?s"
      by (intro Cons.IH) (use Cons.prems(1) in simp_all)
    then have "wp (for_each us ?f) (?Q (u # us) (s_bld s)) ?E ?s"
      by (rule wp_mono) (use Cons.prems(1) own in auto)
    then show ?thesis using b by (simp add: wp_bind wp_steps wp_logs del: return_svc_simps)
  qed
qed

lemma linked_by_phone:
  assumes "bld_ok (s_bld s)" "linkOwnerAccountByPhone now q phone s = (Inr bs, s')"
  shows "ownersNow (s_bld s') v = (if v \<in> u_id ` {u \<in> set (unitRows (s_bld s)). u_ownerPhone u = Some phone \<and> ownersNow (s_bld s) (u_id u) = {}}
      then {q} else ownersNow (s_bld s) v)"
proof -
  let ?us = "findUnlinkedOwnerUnitsByPhone (s_bld s) phone"
  have empty: "\<not> hasCurrentOwnership (s_bld s) x \<longleftrightarrow> ownersNow (s_bld s) x = {}" for x
    unfolding noOwner by (auto simp: ownersNow_def)
  have "wp (linkOwnerAccountByPhone now q phone)
     (\<lambda>_ t. \<forall>v. ownersNow (s_bld t) v = (if v \<in> u_id ` set ?us then {q} else ownersNow (s_bld s) v)) (\<lambda>_ _. True) s"
    unfolding linkOwnerAccountByPhone_def wp_bind wp_bld
    by (rule link_each) (use unlinked_units [OF assms(1)] in auto)
  from wp_Inr [OF this assms(2)] show ?thesis
    by (simp add: findUnlinkedOwnerUnitsByPhone_def empty)
qed

lemma handed_off:
  assumes "svc_transferOwnership now bid uid phone p s = (Inr u, s')" "bld_ok (s_bld s)"
  shows "p \<in> ownersNow (s_bld s) uid" "ownersNow (s_bld s') v = (if v = uid then {} else ownersNow (s_bld s) v)"
    "u_ownerPhone u = Some phone" "u_id u = uid" "u \<in> set (unitRows (s_bld s'))" "unitOf (s_bld s) bid uid"
proof -
  have "wp (svc_transferOwnership now bid uid phone p)
      (\<lambda>u t. isCurrentOwnerOfUnit (s_bld s) uid p \<and> transferOwnership now uid phone (s_bld s) = Inr (u, s_bld t) \<and>
         unitOf (s_bld s) bid uid) (\<lambda>_ _. True) s"
    unfolding svc_transferOwnership_def
    by (auto simp: wp_simps assertCallerIsCurrentOwner_def assert_r_def findUnit_unitOf split: option.splits sum.splits)
  from wp_Inr [OF this assms(1)]
  have t: "isCurrentOwnerOfUnit (s_bld s) uid p" "transferOwnership now uid phone (s_bld s) = Inr (u, s_bld s')"
    "unitOf (s_bld s) bid uid" by auto
  show "p \<in> ownersNow (s_bld s) uid" using t(1) owner_tenant_now [OF assms(2)] by simp
  show "unitOf (s_bld s) bid uid" by (rule t(3))
  let ?b = "transferred now uid (s_bld s)"
  let ?f = "\<lambda>u. u\<lparr>u_ownerPhone := Some phone, u_ownerFullName := None, u_ownerInviteSentAt := None\<rparr>"
  from t(2) obtain x where x: "findUnitById ?b uid = Some x" "u = ?f x"
      "s_bld s' = ?b\<lparr>unitRows := upd_where (\<lambda>v. u_id v = uid) ?f (unitRows ?b)\<rparr>"
    unfolding transferOwnership_def transferred_def [symmetric] by (auto simp: modifyUnit_def effect_simps)
  then have "x \<in> set (unitRows ?b)" "u_id x = uid" by (auto simp: findUnitById_def)
  with x have m: "ownerships (s_bld s') = ownerships ?b \<and> u_ownerPhone u = Some phone \<and> u_id u = uid \<and>
      u \<in> set (unitRows (s_bld s'))"
    by (auto simp: set_upd_where)
  then show "u_ownerPhone u = Some phone" "u_id u = uid" "u \<in> set (unitRows (s_bld s'))" by auto
  show "ownersNow (s_bld s') v = (if v = uid then {} else ownersNow (s_bld s) v)"
    using m frames(3) [of "s_bld s'" ?b] transferred_ok(2) [OF assms(2)] by simp
qed

section \<open>The properties\<close>

text \<open>
  C26.  After any history of requests, each building has at most one current manager, each
  unit at most one current owner and one current tenant, the OWNER and TENANT memberships of
  a unit are held by exactly those persons, and a tenancy is current until it is ENDED.
\<close>

theorem occupancy_stays_consistent:
  assumes "buildingsOk s" and b: "b = s_bld (runBuilding floors rs s)"
  shows "length (filter (managesNow bid) (memberships b)) \<le> 1 \<and>
    length (getCurrentOwnerPersonIds b uid) \<le> 1 \<and> length (currentTenantPersonIds b uid) \<le> 1 \<and>
    membersNow b OWNER uid = set (getCurrentOwnerPersonIds b uid) \<and>
    membersNow b TENANT uid = set (currentTenantPersonIds b uid) \<and>
    list_all (\<lambda>t. tn_isCurrent t \<longleftrightarrow> tn_status t \<noteq> TS_ENDED) (tenancies b)"
proof -
  have ok: "bld_ok b" using runBuilding_ok [OF assms(1), of floors rs] by (simp add: b buildingsOk_def)
  show ?thesis
    using bld_okD(4-6) [OF ok] one_owner [OF ok, of uid]
    by (simp add: managers_ok_def one_def mirrors_ok_def units_ok_def list_all_iff)
qed

theorem occupancy_stays_consistent_witness:
  "length (filter (managesNow theBuilding) (memberships (s_bld settled))) \<le> 1 \<and>
   membersNow (s_bld settled) OWNER firstUnit = {''o''} \<and> buildingsOk site0"
  using occupancy_stays_consistent [OF site0_ok, of "s_bld settled" no_floors demo_history theBuilding firstUnit]
    settled_facts site0_ok by (simp add: settled_def)

text \<open>
  C27.  When a handover succeeds, the new manager is the only current manager of the
  building, was a member before, and is VERIFIED unless appointed provisionally; the previous
  manager's row stays as FORMER with its end date, every other row stays as it is, and
  recovery mode ends unless the appointment is provisional.
\<close>

theorem handover_installs_the_only_manager:
  assumes "buildingsOk s" "svc_changeManager now bid p ty actor s = (Inr m, s')"
  shows "{x \<in> set (memberships (s_bld s')). managesNow bid x} = {m} \<and> mb_personId m = p \<and>
    mb_managerState m = Some (if ty = MA_PROVISIONAL then ML_PROVISIONAL else ML_VERIFIED) \<and>
    getRoles (s_bld s) p bid \<noteq> [] \<and>
    (\<forall>x\<in>set (memberships (s_bld s)).
       (if managesNow bid x then endedManager now x else x) \<in> set (memberships (s_bld s'))) \<and>
    map (\<lambda>d. (bd_id d, bd_recoveryModeEnteredAt d)) (buildings (s_bld s')) =
      map (\<lambda>d. (bd_id d, if bd_id d = bid \<and> ty \<noteq> MA_PROVISIONAL then None else bd_recoveryModeEnteredAt d))
        (buildings (s_bld s))"
proof -
  have ok: "bld_ok (s_bld s)" using assms(1) by (simp add: buildingsOk_def)
  note w = manager_change_writes [OF assms(2)]
  note h = handed_over [OF ok w(1)]
  have "map (\<lambda>d. (bd_id d, bd_recoveryModeEnteredAt d)) (buildings (s_bld s')) =
      map (\<lambda>d. (bd_id d, if bd_id d = bid \<and> ty \<noteq> MA_PROVISIONAL then None else bd_recoveryModeEnteredAt d))
        (buildings (s_bld s))"
    by (simp add: h(6) upd_where_def)
  then show ?thesis using h(1-5) w(2) by (simp add: stateFor_def)
qed

theorem handover_installs_the_only_manager_witness:
  "{x \<in> set (memberships (s_bld (snd handover))). managesNow theBuilding x} = {projr (fst handover)} \<and>
   mb_personId (projr (fst handover)) = ''o'' \<and> mb_managerState (projr (fst handover)) = Some ML_VERIFIED"
  using handover_installs_the_only_manager [OF settled_ok(1) ran_Inr [OF handover_runs, unfolded handover_def]]
  by (simp add: handover_def)

text \<open>
  C28.  After any history of requests, the persons who may read the finances of a unit are
  the current managers and accountants of the building and, when the unit belongs to it, the
  unit's current owner and tenant.
\<close>

theorem finance_readers_are_staff_and_residents:
  assumes "buildingsOk s" and b: "b = s_bld (runBuilding floors rs s)"
  shows "canReadUnitFinance b p bid uid \<longleftrightarrow>
    MANAGER \<in> set (getRoles b p bid) \<or> ACCOUNTANT \<in> set (getRoles b p bid) \<or>
    unitOf b bid uid \<and> (isCurrentOwnerOfUnit b uid p \<or> isCurrentTenant b uid p)"
proof -
  have ok: "bld_ok b" using runBuilding_ok [OF assms(1), of floors rs] by (simp add: b buildingsOk_def)
  show ?thesis by (simp only: finance_readers [OF ok] owner_tenant_now [OF ok])
qed

theorem finance_readers_are_staff_and_residents_witness:
  "canReadUnitFinance (s_bld rented) ''t'' theBuilding firstUnit \<and>
   \<not> canReadUnitFinance (s_bld rented) ''t'' theBuilding secondUnit"
  using finance_readers_are_staff_and_residents [OF settled_ok(1), of "s_bld rented" no_floors
      "[(4, ''o'', CreateTenancy theBuilding firstUnit ''t'')]" "''t''" theBuilding] rented_facts
  by (simp add: rented_def)

text \<open>
  C29.  The list of units and the detail view show a unit to a caller in the same way.  The
  pending owner's name and phone are shown only to the manager, the current owner and the
  person invited; who owns and who rents is shown only to the manager, the owner and the tenant.
\<close>

theorem unit_views_agree_and_hide:
  assumes "buildingsOk s" "u \<in> set (unitRows (s_bld s))" "bid = u_buildingId u"
    "findBuildingById (s_bld s) bid = Some d"
  shows "\<exists>v us. getUnitForPerson bid (u_id u) p s = (Inr v, s) \<and> svc_listUnits bid p s = (Inr us, s) \<and>
    uf_unit v \<in> set us \<and> su_public (uf_unit v) = publicPart u \<and>
    su_pendingOwner (uf_unit v) =
      (if MANAGER \<in> set (getRoles (s_bld s) p bid) \<or> p \<in> ownersNow (s_bld s) (u_id u) \<or>
          isInvitedOwnerForUnit (s_bld s) bid (u_id u) p
       then Some (pendingPart u) else None) \<and>
    (su_currentOwner (uf_unit v), su_currentTenant (uf_unit v)) =
      (if MANAGER \<in> set (getRoles (s_bld s) p bid) \<or> p \<in> ownersNow (s_bld s) (u_id u) \<or>
          p \<in> tenantsNow (s_bld s) (u_id u)
       then (findCurrentOwnerSummaryForUnit (s_bld s) (u_id u), findCurrentTenantSummaryForUnit (s_bld s) (u_id u))
       else (None, None))"
proof -
  let ?b = "s_bld s"
  have ok: "bld_ok ?b" using assms(1) by (simp add: buildingsOk_def)
  note place = assms(3) [symmetric]
  let ?us = "shapeUnitsForCaller ?b (listUnits ?b bid) bid p (getRoles ?b p bid)"
  obtain v where v: "getUnitForPerson bid (u_id u) p s = (Inr v, s)"
    "uf_unit v = shapeUnit u (listContext ?b bid p (getRoles ?b p bid) u)
      (findCurrentOwnerSummaryForUnit ?b (u_id u)) (findCurrentTenantSummaryForUnit ?b (u_id u))"
    using unit_detail [OF ok assms(2) place assms(4)] by blast
  have list: "svc_listUnits bid p s = (Inr ?us, s)" by (simp add: svc_listUnits_def bld_def query_def)
  have "u \<in> set (listUnits ?b bid)" using assms(2) place by (simp add: listUnits_set)
  then have shown: "uf_unit v \<in> set ?us"
    using summaries_agree [OF ok, of "u_id u" "map u_id (listUnits ?b bid)"]
    unfolding shapeUnitsForCaller_def set_map by (intro image_eqI [of _ _ u]) (simp_all add: v(2))
  have invited: "canClaimOwnership ?b u (u_id u) p \<longleftrightarrow>
      p \<notin> ownersNow ?b (u_id u) \<and> isInvitedOwnerForUnit ?b bid (u_id u) p"
    using unit_found [OF ok assms(2)] place owner_tenant_now [OF ok]
    by (auto simp: canClaimOwnership_def isInvitedOwnerForUnit_def phoneMatches_def split: option.splits)
  show ?thesis
    using v(1) list shown
    by (intro exI [of _ v] exI [of _ ?us])
      (auto simp: v(2) caller_context [OF ok assms(2) place] shapeUnit_def canSeePendingOwnerFields_def
        canSeeCurrentOwnerSummary_def canSeeCurrentTenantSummary_def invited owner_tenant_now [OF ok])
qed

theorem unit_views_agree_and_hide_witness:
  "\<exists>v us. getUnitForPerson theBuilding firstUnit ''t'' settled = (Inr v, settled) \<and>
    svc_listUnits theBuilding ''t'' settled = (Inr us, settled) \<and> uf_unit v \<in> set us \<and>
    su_pendingOwner (uf_unit v) = None \<and> su_currentOwner (uf_unit v) = None"
proof -
  let ?u = "hd (unitRows (s_bld settled))"
  have u: "?u \<in> set (unitRows (s_bld settled))" "theBuilding = u_buildingId ?u" "u_id ?u = firstUnit"
    using settled_facts by (cases "unitRows (s_bld settled)"; simp)+
  obtain d where d: "findBuildingById (s_bld settled) theBuilding = Some d" using settled_facts by auto
  show ?thesis
    using unit_views_agree_and_hide [OF settled_ok(1) u(1,2) d, of "''t''"] u(3) stranger_facts by auto
qed

text \<open>
  C30.  A phone number is accepted exactly in the four documented forms (+989, 989, 09 and 9,
  each followed by nine digits, once Persian digits are read, blanks and hyphens dropped), all
  forms of one subscriber give the same stored number, and a stored number is its own normal form.
\<close>

theorem phone_normal_form:
  "(normalizeIranianMobilePhone v = Some p \<longleftrightarrow>
     (\<exists>d. subscriber d \<and> p = ''+98'' @ ascii d \<and> cleaned v \<in> {[43, 57, 56] @ d, [57, 56] @ d, 48 # d, d})) \<and>
   Option.bind (normalizeIranianMobilePhone v) (\<lambda>q. normalizeIranianMobilePhone (codes q)) = normalizeIranianMobilePhone v"
proof -
  have stable: "normalizeIranianMobilePhone (codes q) = Some q" if q: "normalizeIranianMobilePhone v = Some q" for q
  proof -
    from q obtain d where d: "subscriber d" "q = ''+98'' @ ascii d" unfolding normalize_phone_iff by blast
    have digits: "list_all isDigit d" using d(1) by (simp add: subscriber_def)
    then have "codes (ascii d) = d"
      using isAlnum_plain isDigit_isAlnum by (intro codes_ascii) (auto simp: list_all_iff)
    then have c: "codes q = [43, 57, 56] @ d" by (simp add: d(2) codes_digits del: append_Cons append_Nil)
    have "cleaned (codes q) = codes q"
      using digits isDigit_isAlnum by (intro cleaned_plain) (auto simp: c list_all_iff isAlnum_def isDigit_def)
    then show ?thesis unfolding normalize_phone_iff using d c by auto
  qed
  show ?thesis
    unfolding normalize_phone_iff [of v p] by (cases "normalizeIranianMobilePhone v") (auto simp: stable)
qed

text \<open>
  C31.  A transfer of ownership: only the current owner starts it, it leaves the unit without
  an owner, and the person who then verifies the invited phone number becomes the only owner of
  the unit, while units with an owner keep theirs.
\<close>

theorem transfer_moves_ownership:
  assumes "buildingsOk s" "svc_transferOwnership now bid uid phone p s = (Inr u, s1)"
    "linkOwnerAccountByPhone later q phone s1 = (Inr linked, s2)"
  shows "ownersNow (s_bld s) uid = {p} \<and> ownersNow (s_bld s1) uid = {} \<and> ownersNow (s_bld s2) uid = {q} \<and>
    (v = uid \<or> ownersNow (s_bld s) v = {} \<or> ownersNow (s_bld s2) v = ownersNow (s_bld s) v) \<and>
    buildingsOk s2"
proof -
  have ok: "bld_ok (s_bld s)" using assms(1) by (simp add: buildingsOk_def)
  note h = handed_off [OF assms(2) ok]
  have "buildingsOk s1" using bok.kept_byD [OF bok_simple_calls(7) assms(1), of now bid uid phone p] assms(2) by simp
  then have ok1: "bld_ok (s_bld s1)" and s1: "buildingsOk s1" by (simp_all add: buildingsOk_def)
  have s2: "buildingsOk s2" using bok.kept_byD [OF linkOwnerAccount_kept s1, of later q phone] assms(3) by simp
  have "ownersNow (s_bld s) uid = {p}" by (rule sole_owner [OF ok h(1)])
  then show ?thesis using linked_by_phone [OF ok1 assms(3)] h s2 by auto
qed

theorem transfer_moves_ownership_witness:
  "ownersNow (s_bld settled) firstUnit = {''o''} \<and> ownersNow (s_bld (snd transfer)) firstUnit = {} \<and>
   ownersNow (s_bld (snd takeover)) firstUnit = {''t''}"
  using transfer_moves_ownership [OF settled_ok(1) ran_Inr [OF transfer_runs, unfolded transfer_def]
      ran_Inr [OF takeover_runs, unfolded takeover_def transfer_def]]
  by (simp add: transfer_def takeover_def)

end
