(* ===== verification/Building_Findings.thy ===== *)
theory Building_Findings
  imports Site_Scenario
begin

text \<open>
  Concrete histories of the building subsystem on which the code does something it does not
  mean to.
\<close>

section \<open>A provisional manager verifies himself\<close>

text \<open>
  The founder of a building manages it provisionally until the back office verifies him, and
  votes are reserved to verified managers.  He owns a unit and appoints another member, who is VERIFIED at once, and
  who hands the building back: the founder is VERIFIED, and no one has looked at his papers.
\<close>

definition self_verified :: site where
  "self_verified = runBuilding no_floors
     [(4, ''m'', InviteOwner theBuilding secondUnit ''M'' (phone_of ''1'')), (4, ''m'', ClaimOwnership theBuilding secondUnit),
      (5, ''m'', ChangeManager theBuilding ''o'' MA_APPOINTED), (6, ''o'', ChangeManager theBuilding ''m'' MA_APPOINTED)] settled"

definition provisional :: "bld_db \<Rightarrow> bool" where
  "provisional b \<longleftrightarrow> MANAGER \<in> set (getRoles b ''m'' theBuilding) \<and> MANAGER \<notin> set (getVerifiedRoles b ''m'' theBuilding)"

lemma handover_and_back_verifies:
  "provisional (s_bld settled)" "MANAGER \<in> set (getVerifiedRoles (s_bld self_verified) ''m'' theBuilding)"
  by code_simp+

section \<open>A membership request approved twice\<close>

definition theRequest :: id where
  "theRequest = demo_ids 6"

definition twice_approved :: site where
  "twice_approved = runBuilding no_floors
     [(5, ''t'', RequestMembership theBuilding BOARD_MEMBER None),
      (6, ''m'', ResolveMembershipRequest theBuilding theRequest True),
      (7, ''m'', ResolveMembershipRequest theBuilding theRequest True)] settled"

lemma approval_repeats: "getRoles (s_bld twice_approved) ''t'' theBuilding = [BOARD_MEMBER, BOARD_MEMBER]"
  by code_simp

text \<open>A request to become manager while there is one: refused with an error, yet stored as approved.\<close>

definition refused_but_approved :: site where
  "refused_but_approved = runBuilding no_floors
     [(5, ''t'', RequestMembership theBuilding MANAGER None),
      (6, ''m'', ResolveMembershipRequest theBuilding theRequest True)] settled"

definition onlyApproved :: "bld_db \<Rightarrow> bool" where
  "onlyApproved b \<longleftrightarrow> map mr_status (membershipRequests b) = [MR_APPROVED] \<and> getRoles b ''t'' theBuilding = []"

lemma refused_request_is_approved: "onlyApproved (s_bld refused_but_approved)"
  by code_simp

section \<open>The name of the previous invitation\<close>

text \<open>
  The second unit is offered to Sara, who claims it and transfers it to a third person; the unit
  still carries Sara's first and last name for the next owner.
\<close>

definition renamed :: site where
  "renamed = runBuilding no_floors
     [(5, ''m'', InviteOwnerV2 theBuilding secondUnit ''Sara'' ''A'' (phone_of ''2'')), (6, ''o'', ClaimOwnership theBuilding secondUnit),
      (7, ''o'', TransferOwnership theBuilding secondUnit (phone_of ''3'')), (8, ''t'', VerifyOtp (phone_of ''3''))] settled"

definition stillSara :: "bld_db \<Rightarrow> bool" where
  "stillSara b \<longleftrightarrow> getCurrentOwnerPersonIds b secondUnit = [''t''] \<and>
     map_option u_ownerFirstName (findUnitById b secondUnit) = Some (Some ''Sara'') \<and>
     map_option pe_firstName (findPersonById b ''t'') = Some (Some ''Sara'') \<and>
     map_option u_ownerFullName (findUnitById b secondUnit) = Some None"

lemma transfer_keeps_the_old_name: "stillSara (s_bld renamed)"
  by code_simp

end
