(* ===== verification/Governance_Policy.thy ===== *)
theory Governance_Policy
  imports Governance_Types Prelude
begin

text \<open>
  The policies of \<^verbatim>\<open>src/src/modules/governance/domain/policies\<close>: the checks of votes, proxies
  and meetings, quorum, and the tally of a vote with its meaning.
\<close>

section \<open>Votes\<close>

definition assertValidVoteWindow :: "time \<Rightarrow> time \<Rightarrow> time \<Rightarrow> unit result" where
  "assertValidVoteWindow now startAt endAt =
     bind_r (assert_r (\<not> endAt \<le> startAt)
       (BusinessRuleViolationError STR ''A vote's end date must be after its start date.'')) (\<lambda>_.
     assert_r (\<not> endAt \<le> now)
       (BusinessRuleViolationError STR ''A vote's end date must be in the future.''))"

definition assertPublishable :: "voteStatus \<Rightarrow> nat \<Rightarrow> unit result" where
  "assertPublishable st optionCount =
     bind_r (assert_r (st = VS_DRAFT) (BusinessRuleViolationError STR ''Only a DRAFT vote can be published.'')) (\<lambda>_.
     assert_r (\<not> optionCount < 2)
       (BusinessRuleViolationError STR ''A vote needs at least two options before it can be published.''))"

definition assertValidElectionOptions :: "id list \<Rightarrow> unit result" where
  "assertValidElectionOptions candidates =
     bind_r (assert_r (candidates \<noteq> [])
       (BusinessRuleViolationError STR ''A manager-election vote needs at least one candidate option.'')) (\<lambda>_.
     assert_r (length (remdups candidates) = length candidates)
       (BusinessRuleViolationError STR ''A manager-election vote cannot list the same candidate twice.''))"

definition assertOpenForBallots :: "time \<Rightarrow> voteStatus \<Rightarrow> time \<Rightarrow> unit result" where
  "assertOpenForBallots now st endAt =
     bind_r (assert_r (st = VS_ACTIVE)
       (BusinessRuleViolationError STR ''This vote is not currently open for ballots.'')) (\<lambda>_.
     assert_r (\<not> now > endAt) (BusinessRuleViolationError STR ''This vote's voting window has closed.''))"

definition assertEligibleToCastBallot :: "bool \<Rightarrow> bool \<Rightarrow> unit result" where
  "assertEligibleToCastBallot isDirectMatch isProxyMatch = assert_r (isDirectMatch \<or> isProxyMatch)
     (AuthorizationError STR ''You are not the eligible voter for this unit on this vote.'')"

definition assertNotVotingOnOwnCandidacy :: "bool \<Rightarrow> id \<Rightarrow> id list \<Rightarrow> unit result" where
  "assertNotVotingOnOwnCandidacy isManagerElection voter candidates =
     assert_r (\<not> (isManagerElection \<and> List.member candidates voter))
       (BusinessRuleViolationError STR ''A candidate cannot vote in their own election.'')"

definition assertClosable :: "voteStatus \<Rightarrow> unit result" where
  "assertClosable st = assert_r (st = VS_ACTIVE) (BusinessRuleViolationError STR ''Only an ACTIVE vote can be closed.'')"

definition assertVoteCancellable :: "voteStatus \<Rightarrow> unit result" where
  "assertVoteCancellable st = assert_r (\<not> (st = VS_CLOSED \<or> st = VS_CANCELLED))
     (BusinessRuleViolationError STR ''A vote cannot be cancelled.'')"

text \<open>A string or an array that is missing or empty is falsy alike.\<close>

definition blankId :: "id option \<Rightarrow> bool" where
  "blankId x \<longleftrightarrow> x = None \<or> x = Some []"

definition noneOf :: "'a list option \<Rightarrow> bool" where
  "noneOf x \<longleftrightarrow> (case x of None \<Rightarrow> True | Some xs \<Rightarrow> xs = [])"

definition assertValidScope :: "voteScopeType \<Rightarrow> id option \<Rightarrow> unitType option \<Rightarrow> id list option \<Rightarrow> unit result" where
  "assertValidScope sc block ut units =
     bind_r (assert_r (\<not> (sc = SC_BLOCK \<and> blankId block))
       (BusinessRuleViolationError STR ''A BLOCK-scoped vote requires scopeBlockId.'')) (\<lambda>_.
     bind_r (assert_r (\<not> (sc = SC_PROPERTY_TYPE \<and> ut = None))
       (BusinessRuleViolationError STR ''A PROPERTY_TYPE-scoped vote requires scopeUnitType.'')) (\<lambda>_.
     bind_r (assert_r (\<not> (sc = SC_SELECTED_UNITS \<and> noneOf units))
       (BusinessRuleViolationError STR ''A SELECTED_UNITS-scoped vote requires at least one scopeUnitIds entry.'')) (\<lambda>_.
     bind_r (assert_r (\<not> (sc \<noteq> SC_BLOCK \<and> \<not> blankId block))
       (BusinessRuleViolationError STR ''scopeBlockId is only valid when scopeType is BLOCK.'')) (\<lambda>_.
     bind_r (assert_r (\<not> (sc \<noteq> SC_PROPERTY_TYPE \<and> ut \<noteq> None))
       (BusinessRuleViolationError STR ''scopeUnitType is only valid when scopeType is PROPERTY_TYPE.'')) (\<lambda>_.
     assert_r (\<not> (sc \<noteq> SC_SELECTED_UNITS \<and> \<not> noneOf units))
       (BusinessRuleViolationError STR ''scopeUnitIds is only valid when scopeType is SELECTED_UNITS.''))))))"

definition isQuorumMet :: "int option \<Rightarrow> nat \<Rightarrow> nat \<Rightarrow> bool" where
  "isQuorumMet quorumPercent totalEligible totalBallots =
     (case quorumPercent of None \<Rightarrow> True
      | Some q \<Rightarrow> if totalEligible = 0 then False else int totalBallots * 100 \<ge> q * int totalEligible)"

section \<open>The tally\<close>

text \<open>
  A ballot as the tally sees it: the selected option and the value of that option.  The map
  of counts keeps its keys in the order of their first insertion.
\<close>

type_synonym cast = "id \<times> string"

fun bump :: "id \<Rightarrow> (id \<times> nat) list \<Rightarrow> (id \<times> nat) list" where
  "bump i [] = [(i, 1)]"
| "bump i ((j, n) # rest) = (if j = i then (j, n + 1) # rest else (j, n) # bump i rest)"

definition abstain :: string where
  "abstain = ''ABSTAIN''"

definition tallyOf :: "cast list \<Rightarrow> (id \<times> nat) list" where
  "tallyOf bs = fold (\<lambda>(i, v) t. if v = abstain then t else bump i t) bs []"

text \<open>The winner so far, its count, and whether another option has as many.\<close>

fun leader :: "(id \<times> nat) list \<Rightarrow> id option \<times> nat \<times> bool \<Rightarrow> id option \<times> nat \<times> bool" where
  "leader [] acc = acc"
| "leader ((i, n) # rest) (w, best, tie) =
     leader rest (if n > best then (Some i, n, False)
       else if n = best \<and> n > 0 then (w, best, True) else (w, best, tie))"

definition winnerOf :: "cast list \<Rightarrow> id option" where
  "winnerOf bs = (case leader (tallyOf bs) (None, 0, False) of (w, _, tie) \<Rightarrow> if tie then None else w)"

record computedResult =
  cv_totalEligibleCount :: nat
  cv_totalBallotCount :: nat
  cv_quorumMet :: bool
  cv_winningOptionId :: "id option"
  cv_resultStatus :: voteResultStatus

definition calculateResult :: "int option \<Rightarrow> nat \<Rightarrow> cast list \<Rightarrow> computedResult" where
  "calculateResult quorumPercent totalEligible bs =
     (let met = isQuorumMet quorumPercent totalEligible (length bs); w = winnerOf bs
      in \<lparr>cv_totalEligibleCount = totalEligible, cv_totalBallotCount = length bs, cv_quorumMet = met,
          cv_winningOptionId = w,
          cv_resultStatus = (if \<not> met then VR_QUORUM_NOT_MET else if blankId w then VR_NOT_PASSED else VR_PASSED)\<rparr>)"

section \<open>Proxies and meetings\<close>

definition assertCallerIsEligibleVoter :: "bool \<Rightarrow> unit result" where
  "assertCallerIsEligibleVoter ok = assert_r ok
     (AuthorizationError STR ''Only this unit's current eligible voter may appoint a proxy.'')"

definition assertNotSelfProxy :: "id \<Rightarrow> id \<Rightarrow> unit result" where
  "assertNotSelfProxy granter proxy = assert_r (granter \<noteq> proxy)
     (BusinessRuleViolationError STR ''You cannot appoint yourself as your own proxy.'')"

definition assertProxyIsMember :: "bool \<Rightarrow> unit result" where
  "assertProxyIsMember ok = assert_r ok
     (BusinessRuleViolationError STR ''A proxy must be a current member of this building.'')"

definition assertCallerIsGranter :: "bool \<Rightarrow> unit result" where
  "assertCallerIsGranter ok = assert_r ok (AuthorizationError STR ''Only the person who granted a proxy may revoke it.'')"

definition assertHasCurrentProxy :: "voteProxy option \<Rightarrow> voteProxy result" where
  "assertHasCurrentProxy existing = (case existing of Some p \<Rightarrow> Inr p
     | None \<Rightarrow> Inl (BusinessRuleViolationError STR ''This unit has no current proxy to revoke.''))"

definition assertNotArchived :: "time option \<Rightarrow> unit result" where
  "assertNotArchived archivedAt = assert_r (archivedAt = None)
     (BusinessRuleViolationError STR ''An archived meeting cannot be modified.'')"

definition assertArchivable :: "time option \<Rightarrow> unit result" where
  "assertArchivable archivedAt = assert_r (archivedAt = None)
     (BusinessRuleViolationError STR ''This meeting is already archived.'')"

section \<open>What the tally computes\<close>

text \<open>The number of ballots for an option, abstentions aside.\<close>

definition votesFor :: "cast list \<Rightarrow> id \<Rightarrow> nat" where
  "votesFor bs i = length (filter (\<lambda>(j, v). j = i \<and> v \<noteq> abstain) bs)"

lemma bump_map: "map_of (bump i t) j = (if j = i then Some (case map_of t i of None \<Rightarrow> 1 | Some n \<Rightarrow> n + 1) else map_of t j)"
  by (induction i t rule: bump.induct) (auto split: option.splits)

lemma bump_keys: "set (map fst (bump i t)) = insert i (set (map fst t))" "distinct (map fst t) \<Longrightarrow> distinct (map fst (bump i t))"
proof -
  show "set (map fst (bump i t)) = insert i (set (map fst t))" for t by (induction i t rule: bump.induct) auto
  then show "distinct (map fst t) \<Longrightarrow> distinct (map fst (bump i t))"
    by (induction i t rule: bump.induct) auto
qed

definition countIn :: "(id \<times> nat) list \<Rightarrow> id \<Rightarrow> nat" where
  "countIn t i = (case map_of t i of None \<Rightarrow> 0 | Some n \<Rightarrow> n)"

lemma tally_counts:
  "distinct (map fst t) \<Longrightarrow> list_all (\<lambda>(_, n). 0 < n) t \<Longrightarrow>
   let t' = fold (\<lambda>(i, v) t. if v = abstain then t else bump i t) bs t
   in distinct (map fst t') \<and> list_all (\<lambda>(_, n). 0 < n) t' \<and> (\<forall>i. countIn t' i = countIn t i + votesFor bs i)"
proof (induction bs arbitrary: t)
  case (Cons b bs)
  obtain i v where b: "b = (i, v)" by (cases b)
  have pos: "list_all (\<lambda>(_, n). 0 < n) (bump i t)" using Cons.prems(2) by (induction i t rule: bump.induct) auto
  have count: "countIn (bump i t) j = countIn t j + (if j = i then 1 else 0)" for j
    by (simp add: countIn_def bump_map split: option.split)
  show ?case
  proof (cases "v = abstain")
    case True
    then show ?thesis using Cons.IH [OF Cons.prems] by (simp add: b votesFor_def Let_def)
  next
    case False
    then show ?thesis
      using Cons.IH [OF bump_keys(2) [OF Cons.prems(1)] pos] by (simp add: b votesFor_def Let_def count)
  qed
qed (simp add: votesFor_def)

lemma tallyOf_counts:
  "distinct (map fst (tallyOf bs))" "(i, n) \<in> set (tallyOf bs) \<longleftrightarrow> votesFor bs i = n \<and> 0 < n"
proof -
  have t: "distinct (map fst (tallyOf bs)) \<and> list_all (\<lambda>(_, n). 0 < n) (tallyOf bs) \<and> (\<forall>i. countIn (tallyOf bs) i = votesFor bs i)"
    using tally_counts [of "[]" bs] by (simp add: tallyOf_def Let_def countIn_def)
  then show d: "distinct (map fst (tallyOf bs))" by simp
  show "(i, n) \<in> set (tallyOf bs) \<longleftrightarrow> votesFor bs i = n \<and> 0 < n"
  proof
    assume m: "(i, n) \<in> set (tallyOf bs)"
    then have "map_of (tallyOf bs) i = Some n" using d by simp
    then have "countIn (tallyOf bs) i = n" by (simp add: countIn_def)
    moreover have "0 < n" using t m by (auto simp: list_all_iff)
    ultimately show "votesFor bs i = n \<and> 0 < n" using t by simp
  next
    assume "votesFor bs i = n \<and> 0 < n"
    then have "countIn (tallyOf bs) i = n" "0 < n" using t by auto
    then show "(i, n) \<in> set (tallyOf bs)" by (auto simp: countIn_def map_of_SomeD split: option.splits)
  qed
qed

text \<open>
  The loop over the counts: it holds an option with the greatest count so far, and whether a
  different one has the same count.
\<close>

definition leads :: "(id \<times> nat) list \<Rightarrow> id option \<times> nat \<times> bool \<Rightarrow> bool" where
  "leads t acc \<longleftrightarrow> (case acc of (w, best, tie) \<Rightarrow>
     (\<forall>(i, n)\<in>set t. n \<le> best) \<and>
     (case w of None \<Rightarrow> t = [] \<and> best = 0 \<and> \<not> tie
      | Some x \<Rightarrow> (x, best) \<in> set t \<and> 0 < best \<and> (tie \<longleftrightarrow> (\<exists>i. i \<noteq> x \<and> (i, best) \<in> set t))))"

lemma leads_step:
  assumes "leads t (w, best, tie)" "i \<notin> fst ` set t" "0 < n"
  shows "leads (t @ [(i, n)]) (if n > best then (Some i, n, False)
       else if n = best \<and> n > 0 then (w, best, True) else (w, best, tie))"
proof (cases w)
  case None
  then show ?thesis using assms by (auto simp: leads_def)
next
  case (Some x)
  have "i \<noteq> x" using assms(1,2) Some by (force simp: leads_def)
  then show ?thesis using assms Some by (force simp: leads_def)
qed

lemma leads_all: "leads t acc \<Longrightarrow> distinct (map fst (t @ u)) \<Longrightarrow> \<forall>(i, n)\<in>set u. 0 < n \<Longrightarrow> leads (t @ u) (leader u acc)"
proof (induction u acc arbitrary: t rule: leader.induct)
  case (2 i n rest w best tie)
  have "leads ((t @ [(i, n)]) @ rest) (leader rest (if n > best then (Some i, n, False)
       else if n = best \<and> n > 0 then (w, best, True) else (w, best, tie)))"
    using 2 by (intro "2.IH" leads_step) auto
  then show ?case by simp
qed simp

lemma winner_iff: "winnerOf bs = Some x \<longleftrightarrow> 0 < votesFor bs x \<and> (\<forall>y. y \<noteq> x \<longrightarrow> votesFor bs y < votesFor bs x)"
proof -
  let ?t = "tallyOf bs"
  obtain w best tie where l: "leader ?t (None, 0, False) = (w, best, tie)" by (cases "leader ?t (None, 0, False)") auto
  have "leads ([] @ ?t) (leader ?t (None, 0, False))"
    using tallyOf_counts by (intro leads_all) (auto simp: leads_def)
  then have leads: "leads ?t (w, best, tie)" by (simp add: l)
  have W: "winnerOf bs = (if tie then None else w)" by (simp add: winnerOf_def l)
  have best: "votesFor bs i \<le> best" for i
    using leads tallyOf_counts(2) [of i "votesFor bs i" bs] by (cases "votesFor bs i = 0") (auto simp: leads_def)
  show ?thesis
  proof (cases w)
    case None
    then have "?t = []" using leads by (simp add: leads_def)
    then have "votesFor bs x = 0" using tallyOf_counts(2) [of x "votesFor bs x" bs] by simp
    then show ?thesis using None W by simp
  next
    case (Some y)
    then have y: "votesFor bs y = best" "0 < best" and tie: "tie \<longleftrightarrow> (\<exists>i. i \<noteq> y \<and> votesFor bs i = best)"
      using leads tallyOf_counts(2) by (auto simp: leads_def)
    show ?thesis
    proof
      assume "winnerOf bs = Some x"
      then have "\<not> tie" "x = y" using W Some by (auto split: if_splits)
      then show "0 < votesFor bs x \<and> (\<forall>y. y \<noteq> x \<longrightarrow> votesFor bs y < votesFor bs x)"
        using y tie best by (metis order_le_imp_less_or_eq)
    next
      assume a: "0 < votesFor bs x \<and> (\<forall>y. y \<noteq> x \<longrightarrow> votesFor bs y < votesFor bs x)"
      then have "x = y" using y(1) best by (metis leD)
      moreover have "\<not> tie" using a tie y(1) \<open>x = y\<close> by auto
      ultimately show "winnerOf bs = Some x" using W Some by simp
    qed
  qed
qed

end
