(* ===== verification/Governance_Repo.thy ===== *)
theory Governance_Repo
  imports Governance_Policy Building_Repo Pagination
begin

text \<open>
  The repositories of \<^verbatim>\<open>src/src/modules/governance/infrastructure/repositories\<close>: votes with
  their options, eligibility snapshots, ballots and results, standing proxies, and meetings.
  Writes are transactions over the governance tables; where they read units, owners or
  tenants, or point at rows of the building tables, these are an argument.
\<close>

section \<open>Votes\<close>

record createVoteParams =
  nv_buildingId :: id
  nv_title :: string
  nv_description :: "string option"
  nv_category :: voteCategory
  nv_isManagerElection :: bool
  nv_quorumPercent :: "int option"
  nv_startAt :: time
  nv_endAt :: time
  nv_createdById :: id
  nv_meetingId :: "id option"
  nv_scopeType :: voteScopeType
  nv_scopeBlockId :: "id option"
  nv_scopeUnitType :: "unitType option"
  nv_scopeUnitIds :: "id list option"
  nv_options :: "(string \<times> string) list"

definition newVote :: "time \<Rightarrow> id \<Rightarrow> createVoteParams \<Rightarrow> vote" where
  "newVote now i q = \<lparr>vt_id = i, vt_buildingId = nv_buildingId q, vt_title = nv_title q,
     vt_description = nv_description q, vt_category = nv_category q, vt_status = VS_DRAFT,
     vt_isManagerElection = nv_isManagerElection q, vt_quorumPercent = nv_quorumPercent q,
     vt_startAt = nv_startAt q, vt_endAt = nv_endAt q, vt_createdById = nv_createdById q,
     vt_publishedAt = None, vt_closedAt = None, vt_cancelledAt = None, vt_cancelReason = None,
     vt_createdAt = now, vt_meetingId = nv_meetingId q, vt_scopeType = nv_scopeType q,
     vt_scopeBlockId = nv_scopeBlockId q, vt_scopeUnitType = nv_scopeUnitType q,
     vt_scopeUnitIds = (case nv_scopeUnitIds q of None \<Rightarrow> [] | Some us \<Rightarrow> us)\<rparr>"

fun addOptions :: "id \<Rightarrow> nat \<Rightarrow> (string \<times> string) list \<Rightarrow> gov_db \<Rightarrow> gov_db" where
  "addOptions v k [] g = g"
| "addOptions v k ((label, val) # os) g =
     addOptions v (Suc k) os (take_gid (g\<lparr>voteOptions := voteOptions g @
       [\<lparr>vo_id = fresh_gid g, vo_voteId = v, vo_label = label, vo_value = val, vo_sortOrder = k\<rparr>]\<rparr>))"

definition findMeetingById :: "gov_db \<Rightarrow> id \<Rightarrow> meeting option" where
  "findMeetingById g i = find_row mt_id i (meetings g)"

definition createVote :: "bld_db \<Rightarrow> time \<Rightarrow> createVoteParams \<Rightarrow> (gov_db, vote) tx" where
  "createVote b now q g =
     (let v = newVote now (fresh_gid g) q
      in if findBuildingById b (nv_buildingId q) = None \<or> findPersonById b (nv_createdById q) = None \<or>
            dangling (findMeetingById g) (nv_meetingId q) \<or> dangling (findBlockById b) (nv_scopeBlockId q)
         then Inl (PrismaError STR ''P2003'')
         else Inr (v, addOptions (vt_id v) 0 (nv_options q) (take_gid (g\<lparr>votes := votes g @ [v]\<rparr>))))"

text \<open>A vote with its options in their order and its result.\<close>

record voteInfo =
  vi_vote :: vote
  vi_options :: "voteOption list"
  vi_result :: "voteResult option"

definition optionsOf :: "gov_db \<Rightarrow> id \<Rightarrow> voteOption list" where
  "optionsOf g i = sort_key vo_sortOrder (filter (\<lambda>o'. vo_voteId o' = i) (voteOptions g))"

definition getVoteResult :: "gov_db \<Rightarrow> id \<Rightarrow> voteResult option" where
  "getVoteResult g i = find_row vr_voteId i (voteResults g)"

definition findVoteById :: "gov_db \<Rightarrow> id \<Rightarrow> voteInfo option" where
  "findVoteById g i = map_option (\<lambda>v. \<lparr>vi_vote = v, vi_options = optionsOf g i, vi_result = getVoteResult g i\<rparr>)
     (find_row vt_id i (votes g))"

definition listVotes ::
  "gov_db \<Rightarrow> id \<Rightarrow> voteCategory option \<Rightarrow> voteStatus option \<Rightarrow> int \<times> int \<Rightarrow> vote list \<times> nat" where
  "listVotes g bid category st pg =
     (let rows = filter (\<lambda>v. vt_buildingId v = bid \<and> (case category of None \<Rightarrow> True | Some c \<Rightarrow> vt_category v = c) \<and>
            (case st of None \<Rightarrow> True | Some x \<Rightarrow> vt_status v = x)) (votes g)
      in (window pg (newest vt_createdAt rows), length rows))"

definition countOptions :: "gov_db \<Rightarrow> id \<Rightarrow> nat" where
  "countOptions g i = count_where (\<lambda>o'. vo_voteId o' = i) (voteOptions g)"

text \<open>\<open>updateMany({ where: { id, status } })\<close> and the test that one row was hit.\<close>

definition claimVote :: "id \<Rightarrow> voteStatus \<Rightarrow> (vote \<Rightarrow> vote) \<Rightarrow> msg \<Rightarrow> (gov_db, unit) tx" where
  "claimVote i st f m g =
     (if count_where (\<lambda>v. vt_id v = i \<and> vt_status v = st) (votes g) \<noteq> 1 then Inl (ConflictError m)
      else Inr ((), g\<lparr>votes := upd_where (\<lambda>v. vt_id v = i \<and> vt_status v = st) f (votes g)\<rparr>))"

definition voteRow :: "gov_db \<Rightarrow> id \<Rightarrow> vote result" where
  "voteRow g i = needs (find_row vt_id i (votes g)) STR ''P2025''"

definition inScope :: "vote \<Rightarrow> unit_row \<Rightarrow> bool" where
  "inScope v u \<longleftrightarrow>
     (if vt_scopeType v = SC_BLOCK \<and> \<not> blankId (vt_scopeBlockId v) then u_blockId u = vt_scopeBlockId v
      else if vt_scopeType v = SC_PROPERTY_TYPE \<and> vt_scopeUnitType v \<noteq> None then Some (u_type u) = vt_scopeUnitType v
      else if vt_scopeType v = SC_SELECTED_UNITS \<and> vt_scopeUnitIds v \<noteq> [] then List.member (vt_scopeUnitIds v) (u_id u)
      else True)"

definition eligibleVoter :: "bld_db \<Rightarrow> bool \<Rightarrow> unit_row \<Rightarrow> (id \<times> voteEligibilityType) option" where
  "eligibleVoter b allowTenantVoting u =
     (let ts = currentTenantPersonIds b (u_id u); ws = getCurrentOwnerPersonIds b (u_id u)
      in if allowTenantVoting \<and> length ts = 1 then Some (hd ts, VE_TENANT)
         else if length ws = 1 then Some (hd ws, VE_OWNER) else None)"

definition snapshotsFor :: "bld_db \<Rightarrow> time \<Rightarrow> id \<Rightarrow> bool \<Rightarrow> unit_row list \<Rightarrow> voteSnapshot list" where
  "snapshotsFor b now v allowTenantVoting us =
     List.map_filter (\<lambda>u. map_option (\<lambda>(p, ty). \<lparr>vs_voteId = v, vs_unitId = u_id u, vs_eligiblePersonId = p,
        vs_eligibilityType = ty, vs_capturedAt = now\<rparr>) (eligibleVoter b allowTenantVoting u)) us"

definition publishVote :: "bld_db \<Rightarrow> time \<Rightarrow> id \<Rightarrow> id \<Rightarrow> bool \<Rightarrow> (gov_db, vote) tx" where
  "publishVote b now i bid allowTenantVoting g =
     bind_r (claimVote i VS_DRAFT (\<lambda>v. v\<lparr>vt_status := VS_ACTIVE, vt_publishedAt := Some now\<rparr>)
       STR ''This vote is no longer DRAFT (it may have just been published or cancelled). Reload and retry.'' g) (\<lambda>(_, g1).
     bind_r (voteRow g1 i) (\<lambda>v.
     let us = filter (\<lambda>u. u_buildingId u = bid \<and> inScope v u) (unitRows b);
         new = snapshotsFor b now i allowTenantVoting us
     in if \<exists>s\<in>set new. \<exists>s'\<in>set (snapshots g1). vs_voteId s' = i \<and> vs_unitId s' = vs_unitId s
        then Inl (PrismaError STR ''P2002'')
        else Inr (v, g1\<lparr>snapshots := snapshots g1 @ new\<rparr>)))"

definition listEligibilitySnapshots :: "gov_db \<Rightarrow> id \<Rightarrow> voteSnapshot list" where
  "listEligibilitySnapshots g i = filter (\<lambda>s. vs_voteId s = i) (snapshots g)"

definition findEligibilitySnapshotForUnit :: "gov_db \<Rightarrow> id \<Rightarrow> id \<Rightarrow> voteSnapshot option" where
  "findEligibilitySnapshotForUnit g i uid = find (\<lambda>s. vs_voteId s = i \<and> vs_unitId s = uid) (snapshots g)"

definition findBallotForUnit :: "gov_db \<Rightarrow> id \<Rightarrow> id \<Rightarrow> ballot option" where
  "findBallotForUnit g i uid = find (\<lambda>x. bl_voteId x = i \<and> bl_unitId x = uid) (ballots g)"

definition createBallot :: "bld_db \<Rightarrow> time \<Rightarrow> id \<Rightarrow> id \<Rightarrow> id \<Rightarrow> id \<Rightarrow> (gov_db, ballot) tx" where
  "createBallot b now i uid voter opt g =
     bind_r (assert_r (case find_row vt_id i (votes g) of None \<Rightarrow> False
         | Some v \<Rightarrow> vt_status v = VS_ACTIVE \<and> \<not> now > vt_endAt v)
       (BusinessRuleViolationError STR ''This vote is not currently open for ballots.'')) (\<lambda>_.
     if findBallotForUnit g i uid \<noteq> None then Inl (PrismaError STR ''P2002'')
     else if findUnitById b uid = None \<or> findPersonById b voter = None \<or> find_row vo_id opt (voteOptions g) = None
       then Inl (PrismaError STR ''P2003'')
     else let x = \<lparr>bl_id = fresh_gid g, bl_voteId = i, bl_unitId = uid, bl_voterPersonId = voter,
                   bl_selectedOptionId = opt, bl_submittedAt = now\<rparr>
       in Inr (x, take_gid (g\<lparr>ballots := ballots g @ [x]\<rparr>)))"

definition listBallots :: "gov_db \<Rightarrow> id \<Rightarrow> ballot list" where
  "listBallots g i = filter (\<lambda>x. bl_voteId x = i) (ballots g)"

text \<open>A ballot with the value of the option it selects.\<close>

definition castOf :: "gov_db \<Rightarrow> ballot \<Rightarrow> cast" where
  "castOf g x = (bl_selectedOptionId x,
     case find_row vo_id (bl_selectedOptionId x) (voteOptions g) of None \<Rightarrow> [] | Some o' \<Rightarrow> vo_value o')"

definition resultFor :: "gov_db \<Rightarrow> id \<Rightarrow> int option \<Rightarrow> computedResult" where
  "resultFor g i quorumPercent =
     calculateResult quorumPercent (length (listEligibilitySnapshots g i)) (map (castOf g) (listBallots g i))"

definition closeVote :: "time \<Rightarrow> id \<Rightarrow> int option \<Rightarrow> (gov_db, vote \<times> voteResult) tx" where
  "closeVote now i quorumPercent g =
     bind_r (claimVote i VS_ACTIVE (\<lambda>v. v\<lparr>vt_status := VS_CLOSED, vt_closedAt := Some now\<rparr>)
       STR ''This vote is no longer ACTIVE (it may have just been closed or cancelled). Reload and retry.'' g) (\<lambda>(_, g1).
     let c = resultFor g1 i quorumPercent in
     bind_r (voteRow g1 i) (\<lambda>v.
     let r = \<lparr>vr_voteId = i, vr_totalEligibleCount = cv_totalEligibleCount c, vr_totalBallotCount = cv_totalBallotCount c,
              vr_quorumMet = cv_quorumMet c, vr_winningOptionId = cv_winningOptionId c,
              vr_resultStatus = cv_resultStatus c, vr_publishedAt = Some now\<rparr>
     in if getVoteResult g1 i \<noteq> None then Inl (PrismaError STR ''P2002'')
        else Inr ((v, r), g1\<lparr>voteResults := voteResults g1 @ [r]\<rparr>)))"

definition findVotesDueForAutoPublish :: "time \<Rightarrow> gov_db \<Rightarrow> (id \<times> id) list" where
  "findVotesDueForAutoPublish now g =
     map (\<lambda>v. (vt_id v, vt_buildingId v)) (filter (\<lambda>v. vt_status v = VS_DRAFT \<and> vt_startAt v \<le> now) (votes g))"

definition findVotesDueForAutoClose :: "time \<Rightarrow> gov_db \<Rightarrow> (id \<times> id) list" where
  "findVotesDueForAutoClose now g =
     map (\<lambda>v. (vt_id v, vt_buildingId v)) (filter (\<lambda>v. vt_status v = VS_ACTIVE \<and> vt_endAt v \<le> now) (votes g))"

definition cancelVote :: "time \<Rightarrow> id \<Rightarrow> voteStatus \<Rightarrow> string option \<Rightarrow> (gov_db, vote) tx" where
  "cancelVote now i expected reason g =
     bind_r (claimVote i expected
       (\<lambda>v. v\<lparr>vt_status := VS_CANCELLED, vt_cancelledAt := Some now,
          vt_cancelReason := (case reason of None \<Rightarrow> vt_cancelReason v | Some r \<Rightarrow> Some r)\<rparr>)
       STR ''This vote is no longer in the expected state (it may have just been closed or cancelled). Reload and retry.'' g) (\<lambda>(_, g1).
     bind_r (voteRow g1 i) (\<lambda>v. Inr (v, g1)))"

section \<open>Proxies\<close>

definition findCurrentProxyForUnit :: "gov_db \<Rightarrow> id \<Rightarrow> voteProxy option" where
  "findCurrentProxyForUnit g uid = find (\<lambda>p. vp_unitId p = uid \<and> vp_isCurrent p) (voteProxies g)"

definition isCurrentProxyFor :: "gov_db \<Rightarrow> id \<Rightarrow> id \<Rightarrow> bool" where
  "isCurrentProxyFor g granter proxy \<longleftrightarrow>
     0 < count_where (\<lambda>p. vp_granterPersonId p = granter \<and> vp_proxyPersonId p = proxy \<and> vp_isCurrent p) (voteProxies g)"

definition endedProxy :: "time \<Rightarrow> voteProxy \<Rightarrow> voteProxy" where
  "endedProxy now p = p\<lparr>vp_isCurrent := False, vp_revokedAt := Some now\<rparr>"

text \<open>
  The transaction is serializable and retried once after a conflict, so it runs as one step.
\<close>

definition grantProxy :: "bld_db \<Rightarrow> time \<Rightarrow> id \<Rightarrow> id \<Rightarrow> id \<Rightarrow> id \<Rightarrow> (gov_db, voteProxy) tx" where
  "grantProxy b now uid bid granter proxy g =
     (let p = \<lparr>vp_id = fresh_gid g, vp_unitId = uid, vp_buildingId = bid, vp_granterPersonId = granter,
               vp_proxyPersonId = proxy, vp_isCurrent = True, vp_grantedAt = now, vp_revokedAt = None\<rparr>
      in if findUnitById b uid = None \<or> findBuildingById b bid = None \<or> findPersonById b granter = None \<or>
            findPersonById b proxy = None then Inl (PrismaError STR ''P2003'')
         else Inr (p, take_gid (g\<lparr>voteProxies :=
           upd_where (\<lambda>x. vp_unitId x = uid \<and> vp_isCurrent x) (endedProxy now) (voteProxies g) @ [p]\<rparr>)))"

definition revokeProxy :: "time \<Rightarrow> id \<Rightarrow> (gov_db, voteProxy) tx" where
  "revokeProxy now i g = bind_r (needs (find_row vp_id i (voteProxies g)) STR ''P2025'') (\<lambda>p.
     Inr (endedProxy now p, g\<lparr>voteProxies := upd_where (\<lambda>x. vp_id x = i) (endedProxy now) (voteProxies g)\<rparr>))"

section \<open>Meetings\<close>

definition createMeeting :: "bld_db \<Rightarrow> id \<Rightarrow> string \<Rightarrow> time \<Rightarrow> string option \<Rightarrow> id \<Rightarrow> (gov_db, meeting) tx" where
  "createMeeting b bid title scheduledAt location createdBy g =
     (let m = \<lparr>mt_id = fresh_gid g, mt_buildingId = bid, mt_title = title, mt_scheduledAt = scheduledAt,
               mt_location = location, mt_minutes = None, mt_createdById = createdBy, mt_archivedAt = None\<rparr>
      in if findBuildingById b bid = None \<or> findPersonById b createdBy = None then Inl (PrismaError STR ''P2003'')
         else Inr (m, take_gid (g\<lparr>meetings := meetings g @ [m]\<rparr>)))"

definition listMeetingsByBuilding :: "gov_db \<Rightarrow> id \<Rightarrow> int \<times> int \<Rightarrow> meeting list \<times> nat" where
  "listMeetingsByBuilding g bid pg =
     (let rows = filter (\<lambda>m. mt_buildingId m = bid) (meetings g)
      in (window pg (newest mt_scheduledAt rows), length rows))"

definition modifyMeeting :: "id \<Rightarrow> (meeting \<Rightarrow> meeting) \<Rightarrow> (gov_db, meeting) tx" where
  "modifyMeeting i f g = bind_r (needs (findMeetingById g i) STR ''P2025'') (\<lambda>m.
     Inr (f m, g\<lparr>meetings := upd_where (\<lambda>x. mt_id x = i) f (meetings g)\<rparr>))"

text \<open>A null title is refused by the client; a null date is dropped by the service.\<close>

record updateMeetingParams =
  um_title :: "string option field"
  um_scheduledAt :: "time option"
  um_location :: "string option field"
  um_minutes :: "string option field"

definition updateMeeting :: "id \<Rightarrow> updateMeetingParams \<Rightarrow> (gov_db, meeting) tx" where
  "updateMeeting i q g =
     (if um_title q = Given None then Inl (PrismaError STR ''PrismaClientValidationError'')
      else modifyMeeting i (\<lambda>m. m\<lparr>mt_title := (case um_title q of Given (Some x) \<Rightarrow> x | _ \<Rightarrow> mt_title m),
        mt_scheduledAt := (case um_scheduledAt q of None \<Rightarrow> mt_scheduledAt m | Some x \<Rightarrow> x),
        mt_location := patch (um_location q) (mt_location m),
        mt_minutes := patch (um_minutes q) (mt_minutes m)\<rparr>) g)"

definition archiveMeeting :: "time \<Rightarrow> id \<Rightarrow> (gov_db, meeting) tx" where
  "archiveMeeting now i = modifyMeeting i (\<lambda>m. m\<lparr>mt_archivedAt := Some now\<rparr>)"

text \<open>\<open>createMany({ skipDuplicates: true })\<close>, then all rows of the meeting.\<close>

fun addAttendances :: "time \<Rightarrow> id \<Rightarrow> id list \<Rightarrow> attendance list \<Rightarrow> attendance list" where
  "addAttendances now m [] rows = rows"
| "addAttendances now m (p # ps) rows =
     addAttendances now m ps
       (if \<exists>r\<in>set rows. at_meetingId r = m \<and> at_personId r = p then rows
        else rows @ [\<lparr>at_meetingId = m, at_personId = p, at_recordedAt = now\<rparr>])"

definition recordAttendance :: "bld_db \<Rightarrow> time \<Rightarrow> id \<Rightarrow> id list \<Rightarrow> (gov_db, attendance list) tx" where
  "recordAttendance b now m ps g =
     (if findMeetingById g m = None \<or> list_ex (\<lambda>p. findPersonById b p = None) ps then Inl (PrismaError STR ''P2003'')
      else let rows = addAttendances now m ps (attendances g)
        in Inr (filter (\<lambda>r. at_meetingId r = m) rows, g\<lparr>attendances := rows\<rparr>))"

definition listAttendanceRows :: "gov_db \<Rightarrow> id \<Rightarrow> int \<times> int \<Rightarrow> attendance list \<times> nat" where
  "listAttendanceRows g m pg =
     (let rows = filter (\<lambda>r. at_meetingId r = m) (attendances g)
      in (window pg (newest at_recordedAt rows), length rows))"

end
