(* ===== verification/Governance_Service.thy ===== *)
theory Governance_Service
  imports Governance_Repo Building_Service
begin

text \<open>
  The services of \<^verbatim>\<open>src/src/modules/governance/application\<close>: \<open>VotingService\<close>,
  \<open>VoteProxyService\<close> and \<open>MeetingService\<close>.  The texts of the default options are the UTF-8
  bytes of the Persian words for yes, no and abstention.
\<close>

section \<open>Voting\<close>

definition defaultReferendumOptions :: "(string \<times> string) list" where
  "defaultReferendumOptions =
     [(map char_of [217, 133, 217, 136, 216, 167, 217, 129, 217, 130 :: nat], ''YES''),
      (map char_of [217, 133, 216, 174, 216, 167, 217, 132, 217, 129 :: nat], ''NO''),
      (map char_of [217, 133, 217, 133, 216, 170, 217, 134, 216, 185 :: nat], ''ABSTAIN'')]"

record createVoteDto =
  dv_title :: string
  dv_description :: "string option"
  dv_category :: voteCategory
  dv_isManagerElection :: "bool option"
  dv_quorumPercent :: "int option"
  dv_options :: "(string \<times> string) list option"
  dv_startAt :: time
  dv_endAt :: time
  dv_meetingId :: "id option"
  dv_scopeType :: "voteScopeType option"
  dv_scopeBlockId :: "id option"
  dv_scopeUnitType :: "unitType option"
  dv_scopeUnitIds :: "id list option"

definition gov :: "(gov_db \<Rightarrow> 'a) \<Rightarrow> 'a action" where
  "gov f = query (\<lambda>s. f (s_gov s))"

definition with_bld :: "(bld_db \<Rightarrow> (gov_db, 'a) tx) \<Rightarrow> 'a action" where
  "with_bld t = site_gov_tx (\<lambda>s. t (s_bld s))"

definition check :: "bool \<Rightarrow> app_error \<Rightarrow> unit action" where
  "check ok e = guard (assert_r ok e)"

definition isElection :: "createVoteDto \<Rightarrow> bool" where
  "isElection dto \<longleftrightarrow> dv_isManagerElection dto = Some True"

definition rawOptions :: "createVoteDto \<Rightarrow> (string \<times> string) list" where
  "rawOptions dto = (if noneOf (dv_options dto) then defaultReferendumOptions else
     case dv_options dto of Some os \<Rightarrow> os | None \<Rightarrow> [])"

definition scopeOf :: "createVoteDto \<Rightarrow> voteScopeType" where
  "scopeOf dto = (case dv_scopeType dto of None \<Rightarrow> SC_ENTIRE_BUILDING | Some t \<Rightarrow> t)"

definition electionChecks :: "id \<Rightarrow> createVoteDto \<Rightarrow> unit action" where
  "electionChecks bid dto =
     (if \<not> isElection dto then return_svc ()
      else bind_svc (guard (assertValidElectionOptions (map snd (rawOptions dto)))) (\<lambda>_.
           bind_svc (bld (\<lambda>b. list_all (\<lambda>p. getRoles b p bid \<noteq> []) (map snd (rawOptions dto)))) (\<lambda>ok.
           check ok (BusinessRuleViolationError
             STR ''Every candidate in a manager-election vote must be a current member of this building.''))))"

definition meetingCheck :: "id \<Rightarrow> createVoteDto \<Rightarrow> unit action" where
  "meetingCheck bid dto =
     (case dv_meetingId dto of None \<Rightarrow> return_svc ()
      | Some i \<Rightarrow> if i = [] then return_svc ()
          else bind_svc (gov (\<lambda>g. map_option mt_buildingId (findMeetingById g i) = Some bid)) (\<lambda>ok.
               check ok (BusinessRuleViolationError STR ''The referenced meeting does not exist in this building.'')))"

definition scopeChecks :: "id \<Rightarrow> createVoteDto \<Rightarrow> unit action" where
  "scopeChecks bid dto =
     bind_svc (guard (assertValidScope (scopeOf dto) (dv_scopeBlockId dto) (dv_scopeUnitType dto) (dv_scopeUnitIds dto))) (\<lambda>_.
     bind_svc (case dv_scopeBlockId dto of
         Some k \<Rightarrow> if scopeOf dto = SC_BLOCK \<and> k \<noteq> []
           then bind_svc (bld (\<lambda>b. map_option bk_buildingId (findBlockById b k) = Some bid)) (\<lambda>ok.
                check ok (BusinessRuleViolationError STR ''scopeBlockId does not refer to a Block in this building.''))
           else return_svc ()
       | None \<Rightarrow> return_svc ()) (\<lambda>_.
     case dv_scopeUnitIds dto of
         Some us \<Rightarrow> if scopeOf dto = SC_SELECTED_UNITS \<and> us \<noteq> []
           then bind_svc (bld (\<lambda>b. countUnitsByIdsInBuilding b bid us = length us)) (\<lambda>ok.
                check ok (BusinessRuleViolationError STR ''scopeUnitIds must all refer to Units in this building.''))
           else return_svc ()
       | None \<Rightarrow> return_svc ()))"

definition voteParams :: "id \<Rightarrow> createVoteDto \<Rightarrow> id \<Rightarrow> createVoteParams" where
  "voteParams bid dto p = \<lparr>nv_buildingId = bid, nv_title = dv_title dto, nv_description = dv_description dto,
     nv_category = dv_category dto, nv_isManagerElection = isElection dto, nv_quorumPercent = dv_quorumPercent dto,
     nv_startAt = dv_startAt dto, nv_endAt = dv_endAt dto, nv_createdById = p, nv_meetingId = dv_meetingId dto,
     nv_scopeType = scopeOf dto, nv_scopeBlockId = dv_scopeBlockId dto, nv_scopeUnitType = dv_scopeUnitType dto,
     nv_scopeUnitIds = dv_scopeUnitIds dto, nv_options = rawOptions dto\<rparr>"

definition svc_createVote :: "time \<Rightarrow> id \<Rightarrow> createVoteDto \<Rightarrow> id \<Rightarrow> voteInfo option action" where
  "svc_createVote now bid dto p =
     bind_svc (getById bid) (\<lambda>_.
     bind_svc (guard (assertValidVoteWindow now (dv_startAt dto) (dv_endAt dto))) (\<lambda>_.
     bind_svc (check (\<not> (isElection dto \<and> noneOf (dv_options dto)))
       (BusinessRuleViolationError STR ''A manager-election vote requires explicit candidate options.'')) (\<lambda>_.
     bind_svc (electionChecks bid dto) (\<lambda>_.
     bind_svc (meetingCheck bid dto) (\<lambda>_.
     bind_svc (scopeChecks bid dto) (\<lambda>_.
     bind_svc (with_bld (\<lambda>b. createVote b now (voteParams bid dto p))) (\<lambda>v.
     bind_svc (record_audit (Some p) (Some bid) STR ''VoteCreated'' (vt_id v) None) (\<lambda>_.
     gov (\<lambda>g. findVoteById g (vt_id v))))))))))"

definition svc_listVotes ::
  "id \<Rightarrow> voteCategory option \<Rightarrow> voteStatus option \<Rightarrow> paginationParams \<Rightarrow> (vote list \<times> paginationMeta) action" where
  "svc_listVotes bid category st pg =
     gov (\<lambda>g. case listVotes g bid category st (toSkipTake pg) of
       (rows, n) \<Rightarrow> (rows, buildPaginationMeta pg (int n)))"

definition getVote :: "id \<Rightarrow> id \<Rightarrow> voteInfo action" where
  "getVote bid i = lift_svc (\<lambda>s. case findVoteById (s_gov s) i of
       Some w \<Rightarrow> if vt_buildingId (vi_vote w) = bid then Inr w else Inl (NotFoundAppError STR ''Vote not found.'')
     | None \<Rightarrow> Inl (NotFoundAppError STR ''Vote not found.''))"

definition svc_publishVote :: "time \<Rightarrow> id \<Rightarrow> id \<Rightarrow> id option \<Rightarrow> vote action" where
  "svc_publishVote now bid i actor =
     bind_svc (getVote bid i) (\<lambda>w.
     bind_svc (guard (assertPublishable (vt_status (vi_vote w)) (length (vi_options w)))) (\<lambda>_.
     bind_svc (bld (\<lambda>b. getBuildingSettings b bid)) (\<lambda>allow.
     bind_svc (with_bld (\<lambda>b. publishVote b now i bid allow)) (\<lambda>v.
     bind_svc (record_audit actor (Some bid) STR ''VotePublished'' i None) (\<lambda>_.
     bind_svc (publish (VotePublishedEvent i bid actor)) (\<lambda>_.
     return_svc v))))))"

text \<open>The caller's right to vote for a unit: its snapshotted voter, or a current proxy of that person.\<close>

definition mayCast :: "gov_db \<Rightarrow> voteSnapshot \<Rightarrow> id \<Rightarrow> unit result" where
  "mayCast g sn p =
     (let direct = (vs_eligiblePersonId sn = p)
      in assertEligibleToCastBallot direct (\<not> direct \<and> isCurrentProxyFor g (vs_eligiblePersonId sn) p))"

definition refused :: "'a option \<Rightarrow> app_error \<Rightarrow> 'a result" where
  "refused x e = (case x of None \<Rightarrow> Inl e | Some y \<Rightarrow> Inr y)"

definition castBallot :: "time \<Rightarrow> id \<Rightarrow> id \<Rightarrow> id \<Rightarrow> id \<Rightarrow> id \<Rightarrow> ballot action" where
  "castBallot now bid i uid opt p =
     bind_svc (getVote bid i) (\<lambda>w.
     bind_svc (guard (assertOpenForBallots now (vt_status (vi_vote w)) (vt_endAt (vi_vote w)))) (\<lambda>_.
     bind_svc (ownUnit bid uid) (\<lambda>_.
     bind_svc (lift_svc (\<lambda>s. refused (findEligibilitySnapshotForUnit (s_gov s) i uid)
       (BusinessRuleViolationError STR ''This unit is not eligible to vote on this vote.''))) (\<lambda>sn.
     bind_svc (lift_svc (\<lambda>s. mayCast (s_gov s) sn p)) (\<lambda>_.
     bind_svc (lift_svc (\<lambda>s. assert_r (findBallotForUnit (s_gov s) i uid = None)
       (DuplicateError STR ''This unit has already voted on this vote.''))) (\<lambda>_.
     bind_svc (check (find (\<lambda>o'. vo_id o' = opt) (vi_options w) \<noteq> None)
       (NotFoundAppError STR ''Vote option not found.'')) (\<lambda>_.
     bind_svc (if vt_isManagerElection (vi_vote w)
        then guard (assertNotVotingOnOwnCandidacy True (vs_eligiblePersonId sn) (map vo_value (vi_options w)))
        else return_svc ()) (\<lambda>_.
     bind_svc (try_catch (with_bld (\<lambda>b. createBallot b now i uid p opt))
        (\<lambda>e. throw_svc (if e = PrismaError STR ''P2002''
           then DuplicateError STR ''This unit has already voted on this vote.'' else e))) (\<lambda>x.
     bind_svc (record_audit (Some p) (Some bid) STR ''BallotSubmitted'' (bl_id x) None) (\<lambda>_.
     bind_svc (publish (BallotCastEvent i bid uid p)) (\<lambda>_.
     return_svc x)))))))))))"

text \<open>The handover to the winner of an election; a failure is audited and goes no further.\<close>

definition electManager :: "time \<Rightarrow> id \<Rightarrow> id \<Rightarrow> id \<Rightarrow> id option \<Rightarrow> unit action" where
  "electManager now bid i winner actor =
     try_catch
       (bind_svc (svc_changeManager now bid winner MA_ELECTED actor) (\<lambda>_.
        record_audit actor (Some bid) STR ''ManagerElectedViaVote'' i None))
       (\<lambda>e. record_audit actor (Some bid) STR ''ManagerElectionFailed'' i (Some (errorMessage e)))"

definition electedOption :: "voteInfo \<Rightarrow> voteResult \<Rightarrow> voteOption option" where
  "electedOption w r =
     (if vt_isManagerElection (vi_vote w) \<and> vr_resultStatus r = VR_PASSED \<and> \<not> blankId (vr_winningOptionId r)
      then find (\<lambda>o'. Some (vo_id o') = vr_winningOptionId r) (vi_options w) else None)"

text \<open>What follows the transaction that closes a vote: the log, the event, and the handover.\<close>

definition voteClosed :: "time \<Rightarrow> id \<Rightarrow> id \<Rightarrow> id option \<Rightarrow> voteInfo \<Rightarrow> vote \<times> voteResult \<Rightarrow> (vote \<times> voteResult) action" where
  "voteClosed now bid i actor w vr =
     bind_svc (record_audit actor (Some bid) STR ''VoteClosed'' i None) (\<lambda>_.
     bind_svc (publish (VoteClosedEvent i bid (vr_resultStatus (snd vr)) actor)) (\<lambda>_.
     bind_svc (case electedOption w (snd vr) of None \<Rightarrow> return_svc ()
               | Some o' \<Rightarrow> electManager now bid i (vo_value o') actor) (\<lambda>_.
     return_svc vr)))"

definition svc_closeVote :: "time \<Rightarrow> id \<Rightarrow> id \<Rightarrow> id option \<Rightarrow> (vote \<times> voteResult) action" where
  "svc_closeVote now bid i actor =
     bind_svc (getVote bid i) (\<lambda>w.
     bind_svc (guard (assertClosable (vt_status (vi_vote w)))) (\<lambda>_.
     bind_svc (gov_tx (closeVote now i (vt_quorumPercent (vi_vote w)))) (\<lambda>vr.
     voteClosed now bid i actor w vr)))"

definition svc_cancelVote :: "time \<Rightarrow> id \<Rightarrow> id \<Rightarrow> string option \<Rightarrow> id \<Rightarrow> vote action" where
  "svc_cancelVote now bid i reason p =
     bind_svc (getVote bid i) (\<lambda>w.
     bind_svc (guard (assertVoteCancellable (vt_status (vi_vote w)))) (\<lambda>_.
     bind_svc (gov_tx (cancelVote now i (vt_status (vi_vote w)) reason)) (\<lambda>v.
     bind_svc (record_audit (Some p) (Some bid) STR ''VoteCancelled'' i reason) (\<lambda>_.
     bind_svc (publish (VoteCancelledEvent i bid p)) (\<lambda>_.
     return_svc v)))))"

definition getResult :: "id \<Rightarrow> id \<Rightarrow> voteResult action" where
  "getResult bid i =
     bind_svc (getVote bid i) (\<lambda>_.
     lift_svc (\<lambda>s. refused (getVoteResult (s_gov s) i) (NotFoundAppError STR ''This vote has not been closed yet.'')))"

text \<open>The sweeps of the scheduler: one vote that fails does not stop the others.\<close>

type_synonym swept = "id \<times> string option"

definition sweepVote :: "msg \<Rightarrow> (id \<Rightarrow> id \<Rightarrow> 'a action) \<Rightarrow> id \<times> id \<Rightarrow> swept action" where
  "sweepVote failed act = (\<lambda>(i, bid).
     try_catch (bind_svc (act bid i) (\<lambda>_. return_svc (i, None)))
       (\<lambda>e. bind_svc (record_audit None (Some bid) failed i (Some (errorMessage e))) (\<lambda>_.
            return_svc (i, Some (errorMessage e)))))"

definition runAutoPublish :: "time \<Rightarrow> swept list action" where
  "runAutoPublish now =
     bind_svc (gov (findVotesDueForAutoPublish now)) (\<lambda>due.
     for_each due (sweepVote STR ''VoteAutoPublishFailed'' (\<lambda>bid i. svc_publishVote now bid i None)))"

definition runAutoClose :: "time \<Rightarrow> swept list action" where
  "runAutoClose now =
     bind_svc (gov (findVotesDueForAutoClose now)) (\<lambda>due.
     for_each due (sweepVote STR ''VoteAutoCloseFailed'' (\<lambda>bid i. svc_closeVote now bid i None)))"

section \<open>Proxies\<close>

definition getCurrentProxy :: "id \<Rightarrow> id \<Rightarrow> voteProxy option action" where
  "getCurrentProxy bid uid = bind_svc (ownUnit bid uid) (\<lambda>_. gov (\<lambda>g. findCurrentProxyForUnit g uid))"

definition callerVotesFor :: "id \<Rightarrow> id \<Rightarrow> id \<Rightarrow> unit action" where
  "callerVotesFor bid uid p = lift_svc (\<lambda>s. assertCallerIsEligibleVoter
     (map_option fst (findLiveEligibleVoterForUnit (s_bld s) uid (getBuildingSettings (s_bld s) bid)) = Some p))"

text \<open>\<open>trim\<close> on UTF-8 bytes: the longest blank prefix and the blank rest go.\<close>

definition trimStart :: "nat list \<Rightarrow> nat list" where
  "trimStart v = drop (last (filter (\<lambda>k. blank (take k v)) [0..<Suc (length v)])) v"

fun trimEnd :: "nat list \<Rightarrow> nat list" where
  "trimEnd [] = []"
| "trimEnd (a # v) = (if blank (a # v) then [] else a # trimEnd v)"

definition trimmed :: "string \<Rightarrow> string" where
  "trimmed x = map char_of (trimEnd (trimStart (map of_char x)))"

definition joinNames :: "string list \<Rightarrow> string" where
  "joinNames ps = concat (case ps of [] \<Rightarrow> [] | p # qs \<Rightarrow> p # map (\<lambda>q. '' '' @ q) qs)"

definition buildDisplayName :: "person \<Rightarrow> string option" where
  "buildDisplayName q =
     (let structured = joinNames (filter (\<lambda>x. x \<noteq> []) (List.map_filter (map_option trimmed) [pe_firstName q, pe_lastName q]))
      in if structured \<noteq> [] then Some structured
         else case pe_fullName q of None \<Rightarrow> None | Some n \<Rightarrow> if trimmed n = [] then None else Some (trimmed n))"

definition lookupCandidateByPhone :: "id \<Rightarrow> id \<Rightarrow> string \<Rightarrow> id \<Rightarrow> (id \<times> string option) option action" where
  "lookupCandidateByPhone bid uid phone p =
     bind_svc (ownUnit bid uid) (\<lambda>_.
     bind_svc (callerVotesFor bid uid p) (\<lambda>_.
     bind_svc (bld (\<lambda>b. findMemberByPhone b bid phone)) (\<lambda>found.
     case found of None \<Rightarrow> return_svc None
     | Some q \<Rightarrow> bind_svc (guard (assertNotSelfProxy p (pe_id q))) (\<lambda>_.
         return_svc (Some (pe_id q, buildDisplayName q))))))"

definition grant :: "time \<Rightarrow> id \<Rightarrow> id \<Rightarrow> id \<Rightarrow> id \<Rightarrow> voteProxy action" where
  "grant now bid uid proxy p =
     bind_svc (ownUnit bid uid) (\<lambda>_.
     bind_svc (callerVotesFor bid uid p) (\<lambda>_.
     bind_svc (guard (assertNotSelfProxy p proxy)) (\<lambda>_.
     bind_svc (lift_svc (\<lambda>s. assertProxyIsMember (getRoles (s_bld s) proxy bid \<noteq> []))) (\<lambda>_.
     bind_svc (with_bld (\<lambda>b. grantProxy b now uid bid p proxy)) (\<lambda>x.
     bind_svc (record_audit (Some p) (Some bid) STR ''VoteProxyGranted'' (vp_id x) None) (\<lambda>_.
     return_svc x))))))"

definition revoke :: "time \<Rightarrow> id \<Rightarrow> id \<Rightarrow> id \<Rightarrow> voteProxy action" where
  "revoke now bid uid p =
     bind_svc (ownUnit bid uid) (\<lambda>_.
     bind_svc (lift_svc (\<lambda>s. assertHasCurrentProxy (findCurrentProxyForUnit (s_gov s) uid))) (\<lambda>c.
     bind_svc (guard (assertCallerIsGranter (vp_granterPersonId c = p))) (\<lambda>_.
     bind_svc (gov_tx (revokeProxy now (vp_id c))) (\<lambda>x.
     bind_svc (record_audit (Some p) (Some bid) STR ''VoteProxyRevoked'' (vp_id c) None) (\<lambda>_.
     return_svc x)))))"

section \<open>Meetings\<close>

definition getMeetingOrThrow :: "id \<Rightarrow> id \<Rightarrow> meeting action" where
  "getMeetingOrThrow bid i = lift_svc (\<lambda>s. case findMeetingById (s_gov s) i of
       Some m \<Rightarrow> if mt_buildingId m = bid then Inr m else Inl (NotFoundAppError STR ''Meeting not found.'')
     | None \<Rightarrow> Inl (NotFoundAppError STR ''Meeting not found.''))"

definition getMeeting :: "id \<Rightarrow> id \<Rightarrow> meeting action" where
  "getMeeting bid i = getMeetingOrThrow bid i"

definition svc_createMeeting :: "id \<Rightarrow> string \<Rightarrow> time \<Rightarrow> string option \<Rightarrow> id \<Rightarrow> meeting action" where
  "svc_createMeeting bid title scheduledAt location p =
     bind_svc (getById bid) (\<lambda>_.
     bind_svc (with_bld (\<lambda>b. createMeeting b bid title scheduledAt location p)) (\<lambda>m.
     bind_svc (record_audit (Some p) (Some bid) STR ''MeetingCreated'' (mt_id m) None) (\<lambda>_.
     bind_svc (publish (MeetingCreatedEvent (mt_id m) bid p)) (\<lambda>_.
     return_svc m))))"

definition listMeetings :: "id \<Rightarrow> paginationParams \<Rightarrow> (meeting list \<times> paginationMeta) action" where
  "listMeetings bid pg = gov (\<lambda>g. case listMeetingsByBuilding g bid (toSkipTake pg) of
     (rows, n) \<Rightarrow> (rows, buildPaginationMeta pg (int n)))"

definition svc_updateMeeting :: "id \<Rightarrow> id \<Rightarrow> updateMeetingParams \<Rightarrow> id \<Rightarrow> meeting action" where
  "svc_updateMeeting bid i q p =
     bind_svc (getMeetingOrThrow bid i) (\<lambda>m.
     bind_svc (guard (assertNotArchived (mt_archivedAt m))) (\<lambda>_.
     bind_svc (gov_tx (updateMeeting i q)) (\<lambda>x.
     bind_svc (record_audit (Some p) (Some bid) STR ''MeetingUpdated'' i None) (\<lambda>_.
     return_svc x))))"

definition svc_archiveMeeting :: "time \<Rightarrow> id \<Rightarrow> id \<Rightarrow> id \<Rightarrow> meeting action" where
  "svc_archiveMeeting now bid i p =
     bind_svc (getMeetingOrThrow bid i) (\<lambda>m.
     bind_svc (guard (assertArchivable (mt_archivedAt m))) (\<lambda>_.
     bind_svc (gov_tx (archiveMeeting now i)) (\<lambda>x.
     bind_svc (record_audit (Some p) (Some bid) STR ''MeetingArchived'' i None) (\<lambda>_.
     bind_svc (publish (MeetingArchivedEvent i bid p)) (\<lambda>_.
     return_svc x)))))"

definition svc_recordAttendance :: "time \<Rightarrow> id \<Rightarrow> id \<Rightarrow> id list \<Rightarrow> id \<Rightarrow> attendance list action" where
  "svc_recordAttendance now bid i ps p =
     bind_svc (getMeetingOrThrow bid i) (\<lambda>m.
     bind_svc (guard (assertNotArchived (mt_archivedAt m))) (\<lambda>_.
     bind_svc (with_bld (\<lambda>b. recordAttendance b now i ps)) (\<lambda>rows.
     bind_svc (record_audit (Some p) (Some bid) STR ''MeetingAttendanceRecorded'' i None) (\<lambda>_.
     return_svc rows))))"

definition listAttendance :: "id \<Rightarrow> id \<Rightarrow> paginationParams \<Rightarrow> (attendance list \<times> paginationMeta) action" where
  "listAttendance bid i pg =
     bind_svc (getMeetingOrThrow bid i) (\<lambda>_.
     gov (\<lambda>g. case listAttendanceRows g i (toSkipTake pg) of (rows, n) \<Rightarrow> (rows, buildPaginationMeta pg (int n))))"

end
