(* ===== verification/Governance_Inv.thy ===== *)
theory Governance_Inv
  imports Governance_Repo Building_Inv
begin

text \<open>
  What holds of the governance tables between calls: keys are unique, every ballot is cast for
  a unit of the vote's eligibility snapshot and selects an option of that vote, a draft has
  no snapshot, exactly the closed votes have a result, each result is what the tally of the
  stored ballots gives, and a unit has at most one current proxy.
\<close>

section \<open>The invariant\<close>

definition govUsed :: "gov_db \<Rightarrow> id set" where
  "govUsed g = vt_id ` set (votes g) \<union> vo_id ` set (voteOptions g) \<union> vp_id ` set (voteProxies g) \<union>
     vo_voteId ` set (voteOptions g)"

definition gids_ok :: "gov_db \<Rightarrow> bool" where
  "gids_ok g \<longleftrightarrow> inj (gov_ids g) \<and> (\<forall>n\<ge>gov_next g. gov_ids g n \<notin> govUsed g)"

definition ballotKey :: "ballot \<Rightarrow> id \<times> id" where
  "ballotKey x = (bl_voteId x, bl_unitId x)"

definition snapshotKey :: "voteSnapshot \<Rightarrow> id \<times> id" where
  "snapshotKey s = (vs_voteId s, vs_unitId s)"

definition gkeys_ok :: "gov_db \<Rightarrow> bool" where
  "gkeys_ok g \<longleftrightarrow> distinct (map vt_id (votes g)) \<and> distinct (map vo_id (voteOptions g)) \<and>
     distinct (map vp_id (voteProxies g)) \<and> distinct (map vr_voteId (voteResults g)) \<and>
     distinct (map snapshotKey (snapshots g)) \<and> distinct (map ballotKey (ballots g))"

definition theVote :: "gov_db \<Rightarrow> id \<Rightarrow> vote option" where
  "theVote g i = find_row vt_id i (votes g)"

text \<open>A published vote: it exists and is no draft.\<close>

definition published :: "gov_db \<Rightarrow> id \<Rightarrow> bool" where
  "published g i \<longleftrightarrow> (case theVote g i of None \<Rightarrow> False | Some v \<Rightarrow> vt_status v \<noteq> VS_DRAFT)"

definition grefs_ok :: "gov_db \<Rightarrow> bool" where
  "grefs_ok g \<longleftrightarrow> (\<forall>s\<in>set (snapshots g). published g (vs_voteId s)) \<and>
     (\<forall>x\<in>set (ballots g). ballotKey x \<in> snapshotKey ` set (snapshots g) \<and>
        (bl_selectedOptionId x, bl_voteId x) \<in> (\<lambda>o'. (vo_id o', vo_voteId o')) ` set (voteOptions g))"

definition recorded :: "gov_db \<Rightarrow> voteResult \<Rightarrow> vote \<Rightarrow> bool" where
  "recorded g r v \<longleftrightarrow> vt_status v = VS_CLOSED \<and>
     (let c = resultFor g (vt_id v) (vt_quorumPercent v)
      in vr_totalEligibleCount r = cv_totalEligibleCount c \<and> vr_totalBallotCount r = cv_totalBallotCount c \<and>
         vr_quorumMet r = cv_quorumMet c \<and> vr_winningOptionId r = cv_winningOptionId c \<and>
         vr_resultStatus r = cv_resultStatus c)"

definition gresults_ok :: "gov_db \<Rightarrow> bool" where
  "gresults_ok g \<longleftrightarrow>
     (\<forall>v\<in>set (votes g). vt_status v = VS_CLOSED \<longleftrightarrow> vt_id v \<in> vr_voteId ` set (voteResults g)) \<and>
     (\<forall>r\<in>set (voteResults g). \<exists>v\<in>set (votes g). vt_id v = vr_voteId r \<and> recorded g r v)"

definition proxyNow :: "id \<Rightarrow> voteProxy \<Rightarrow> bool" where
  "proxyNow uid p \<longleftrightarrow> vp_unitId p = uid \<and> vp_isCurrent p"

definition gproxies_ok :: "gov_db \<Rightarrow> bool" where
  "gproxies_ok g \<longleftrightarrow> (\<forall>uid. one (proxyNow uid) (voteProxies g))"

definition gov_ok :: "gov_db \<Rightarrow> bool" where
  "gov_ok g \<longleftrightarrow> gids_ok g \<and> gkeys_ok g \<and> grefs_ok g \<and> gresults_ok g \<and> gproxies_ok g"

lemma gov_okI: "gids_ok g \<Longrightarrow> gkeys_ok g \<Longrightarrow> grefs_ok g \<Longrightarrow> gresults_ok g \<Longrightarrow> gproxies_ok g \<Longrightarrow> gov_ok g"
  by (simp add: gov_ok_def)

lemma gov_okD: "gov_ok g \<Longrightarrow> gids_ok g" "gov_ok g \<Longrightarrow> gkeys_ok g" "gov_ok g \<Longrightarrow> grefs_ok g"
  "gov_ok g \<Longrightarrow> gresults_ok g" "gov_ok g \<Longrightarrow> gproxies_ok g"
  by (simp_all add: gov_ok_def)

section \<open>Frames\<close>

lemma take_gid_simps [simp]:
  "votes (take_gid g) = votes g" "voteOptions (take_gid g) = voteOptions g" "snapshots (take_gid g) = snapshots g"
  "ballots (take_gid g) = ballots g" "voteResults (take_gid g) = voteResults g" "voteProxies (take_gid g) = voteProxies g"
  "meetings (take_gid g) = meetings g" "attendances (take_gid g) = attendances g" "gov_ids (take_gid g) = gov_ids g"
  "gov_next (take_gid g) = Suc (gov_next g)"
  by (simp_all add: take_gid_def)

text \<open>The result of a vote reads its snapshots, its ballots and the options they select.\<close>

lemma resultFor_frame:
  assumes "listEligibilitySnapshots g' i = listEligibilitySnapshots g i" "listBallots g' i = listBallots g i"
    "\<And>x. x \<in> set (listBallots g i) \<Longrightarrow> find_row vo_id (bl_selectedOptionId x) (voteOptions g') = find_row vo_id (bl_selectedOptionId x) (voteOptions g)"
  shows "resultFor g' i = resultFor g i"
proof -
  have "map (castOf g') (listBallots g' i) = map (castOf g) (listBallots g i)"
    using assms by (auto simp: castOf_def)
  then show ?thesis using assms(1) by (intro ext) (simp add: resultFor_def)
qed

lemma recorded_frame: "resultFor g' (vt_id v) = resultFor g (vt_id v) \<Longrightarrow> recorded g' r v = recorded g r v"
  by (simp add: recorded_def)

lemma gids_new:
  assumes "gids_ok g" "govUsed g' \<subseteq> insert (fresh_gid g) (govUsed g)" "gov_ids g' = gov_ids g" "gov_next g' = Suc (gov_next g)"
  shows "gids_ok g'"
proof -
  have "gov_ids g n \<notin> insert (fresh_gid g) (govUsed g)" if "Suc (gov_next g) \<le> n" for n
    using assms(1) that by (auto simp: gids_ok_def fresh_gid_def inj_eq)
  then show ?thesis using assms by (auto simp: gids_ok_def)
qed

lemma gfresh: "gids_ok g \<Longrightarrow> fresh_gid g \<notin> govUsed g"
  by (simp add: gids_ok_def fresh_gid_def)

text \<open>Meetings, attendance and the counter are not read.\<close>

lemma gov_ok_frame:
  assumes "gov_ok g" "votes g' = votes g" "voteOptions g' = voteOptions g" "snapshots g' = snapshots g"
    "ballots g' = ballots g" "voteResults g' = voteResults g" "voteProxies g' = voteProxies g"
    "gov_ids g' = gov_ids g" "gov_next g \<le> gov_next g'"
  shows "gov_ok g'"
proof -
  have used: "govUsed g' = govUsed g" using assms by (simp add: govUsed_def)
  have res: "resultFor g' i = resultFor g i" for i
    using assms by (intro resultFor_frame) (simp_all add: listEligibilitySnapshots_def listBallots_def)
  note ok = gov_okD [OF assms(1)]
  show ?thesis
  proof (rule gov_okI)
    show "gids_ok g'" using ok(1) assms used by (simp add: gids_ok_def)
    show "gkeys_ok g'" using ok(2) assms by (simp add: gkeys_ok_def)
    show "grefs_ok g'" using ok(3) assms by (simp add: grefs_ok_def published_def theVote_def)
    have "recorded g' = recorded g" by (intro ext) (simp add: recorded_def res)
    then show "gresults_ok g'" using ok(4) assms by (simp add: gresults_ok_def getVoteResult_def)
    show "gproxies_ok g'" using ok(5) assms by (simp add: gproxies_ok_def)
  qed
qed

section \<open>A new vote\<close>

lemma result_known: "gov_ok g \<Longrightarrow> r \<in> set (voteResults g) \<Longrightarrow> vr_voteId r \<in> vt_id ` set (votes g)"
  using gov_okD(4) [of g] by (force simp: gresults_ok_def)

lemma newVote_ok:
  assumes "gov_ok g" "vt_id v = fresh_gid g" "vt_status v = VS_DRAFT"
  shows "gov_ok (take_gid (g\<lparr>votes := votes g @ [v]\<rparr>))"
proof (rule gov_okI)
  let ?g = "take_gid (g\<lparr>votes := votes g @ [v]\<rparr>)"
  note ok = gov_okD [OF assms(1)]
  have new: "vt_id v \<notin> vt_id ` set (votes g)" using gfresh [OF ok(1)] assms(2) by (simp add: govUsed_def)
  show "gids_ok ?g" using assms(2) by (intro gids_new [OF ok(1)]) (auto simp: govUsed_def)
  show "gkeys_ok ?g" using ok(2) new by (simp add: gkeys_ok_def)
  have "published ?g i" if "published g i" for i
    using that by (simp add: published_def theVote_def find_row_append split: option.splits)
  then show "grefs_ok ?g" using ok(3) by (simp add: grefs_ok_def)
  have res: "resultFor ?g i = resultFor g i" for i
    by (intro resultFor_frame) (simp_all add: listEligibilitySnapshots_def listBallots_def)
  have "recorded ?g = recorded g" by (intro ext) (simp add: recorded_def res)
  moreover have "vt_id v \<notin> vr_voteId ` set (voteResults g)" using result_known [OF assms(1)] new by force
  ultimately show "gresults_ok ?g" using ok(4) assms(3) by (simp add: gresults_ok_def)
  show "gproxies_ok ?g" using ok(5) by (simp add: gproxies_ok_def)
qed

lemma option_kept:
  assumes "gov_ok g" "x \<in> set (ballots g)" "vo_id o' \<notin> vo_id ` set (voteOptions g)"
  shows "find_row vo_id (bl_selectedOptionId x) (voteOptions g @ [o']) = find_row vo_id (bl_selectedOptionId x) (voteOptions g)"
proof -
  have "bl_selectedOptionId x \<in> vo_id ` set (voteOptions g)"
    using gov_okD(3) [OF assms(1)] assms(2) by (force simp: grefs_ok_def)
  then have "find_row vo_id (bl_selectedOptionId x) (voteOptions g) \<noteq> None" by (simp add: find_row_None_iff)
  then show ?thesis by (auto simp: find_row_append)
qed

lemma newOption_ok:
  assumes "gov_ok g" "vo_id o' = fresh_gid g" "vo_voteId o' \<in> vt_id ` set (votes g)"
  shows "gov_ok (take_gid (g\<lparr>voteOptions := voteOptions g @ [o']\<rparr>))"
proof (rule gov_okI)
  let ?g = "take_gid (g\<lparr>voteOptions := voteOptions g @ [o']\<rparr>)"
  note ok = gov_okD [OF assms(1)]
  have new: "vo_id o' \<notin> vo_id ` set (voteOptions g)" using gfresh [OF ok(1)] assms(2) by (simp add: govUsed_def)
  show "gids_ok ?g" using assms(2,3) by (intro gids_new [OF ok(1)]) (auto simp: govUsed_def)
  show "gkeys_ok ?g" using ok(2) new by (simp add: gkeys_ok_def)
  show "grefs_ok ?g" using ok(3) by (auto simp: grefs_ok_def published_def theVote_def)
  have res: "resultFor ?g i = resultFor g i" for i
    using option_kept [OF assms(1) _ new]
    by (intro resultFor_frame) (auto simp: listEligibilitySnapshots_def listBallots_def)
  have "recorded ?g = recorded g" by (intro ext) (simp add: recorded_def res)
  then show "gresults_ok ?g" using ok(4) by (simp add: gresults_ok_def getVoteResult_def)
  show "gproxies_ok ?g" using ok(5) by (simp add: gproxies_ok_def)
qed

lemma addOptions_ok:
  "gov_ok g \<Longrightarrow> v \<in> vt_id ` set (votes g) \<Longrightarrow> gov_ok (addOptions v k os g)"
proof (induction os arbitrary: k g)
  case (Cons o' os)
  obtain l x where o': "o' = (l, x)" by (cases o')
  show ?case unfolding o' addOptions.simps
    by (intro Cons.IH newOption_ok) (use Cons.prems in simp_all)
qed simp

lemma createVote_ok:
  assumes "gov_ok g" "createVote b now q g = Inr (v, g')"
  shows "gov_ok g'"
  using assms by (auto simp: createVote_def Let_def newVote_def split: if_splits intro!: addOptions_ok newVote_ok)

section \<open>The life of a vote\<close>

lemma theVote_D: "theVote g i = Some v \<Longrightarrow> v \<in> set (votes g) \<and> vt_id v = i"
  unfolding theVote_def by (rule find_row_Some)

lemma vote_key: "gov_ok g \<Longrightarrow> v \<in> set (votes g) \<Longrightarrow> w \<in> set (votes g) \<Longrightarrow> vt_id v = vt_id w \<Longrightarrow> v = w"
  by (drule gov_okD(2)) (auto simp: gkeys_ok_def distinct_map inj_on_def)

lemma theVote_I: "gov_ok g \<Longrightarrow> v \<in> set (votes g) \<Longrightarrow> theVote g (vt_id v) = Some v"
  unfolding theVote_def by (drule gov_okD(2)) (simp add: gkeys_ok_def find_row_distinct)

text \<open>The compare-and-swap hits the vote exactly when it has the expected status.\<close>

definition setVote :: "id \<Rightarrow> (vote \<Rightarrow> vote) \<Rightarrow> gov_db \<Rightarrow> gov_db" where
  "setVote i f g = g\<lparr>votes := upd_where (\<lambda>v. vt_id v = i) f (votes g)\<rparr>"

lemma claim_Inr:
  assumes "gov_ok g"
  shows "claimVote i st f m g = Inr (u, g') \<longleftrightarrow>
    (\<exists>v. theVote g i = Some v \<and> vt_status v = st) \<and> g' = setVote i f g"
proof -
  have d: "distinct (map vt_id (votes g))" using gov_okD(2) [OF assms] by (simp add: gkeys_ok_def)
  show ?thesis
  proof (cases "\<exists>v. theVote g i = Some v \<and> vt_status v = st")
    case True
    then obtain v where "find_row vt_id i (votes g) = Some v" "vt_status v = st" by (auto simp: theVote_def)
    then show ?thesis using upd_where_hit [OF d, of i v "\<lambda>v. vt_status v = st" f]
      by (auto simp: claimVote_def setVote_def theVote_def count_hit [OF d])
  next
    case False
    then show ?thesis by (auto simp: claimVote_def theVote_def count_hit [OF d] split: option.splits)
  qed
qed

lemma setVote_simps [simp]:
  "voteOptions (setVote i f g) = voteOptions g" "snapshots (setVote i f g) = snapshots g" "ballots (setVote i f g) = ballots g"
  "voteResults (setVote i f g) = voteResults g" "voteProxies (setVote i f g) = voteProxies g"
  "gov_ids (setVote i f g) = gov_ids g" "gov_next (setVote i f g) = gov_next g"
  "meetings (setVote i f g) = meetings g" "attendances (setVote i f g) = attendances g"
  by (simp_all add: setVote_def)

lemma theVote_set:
  "(\<And>v. vt_id (f v) = vt_id v) \<Longrightarrow> theVote (setVote i f g) j = (if j = i then map_option f (theVote g j) else theVote g j)"
  by (cases "theVote g j") (auto simp: theVote_def setVote_def find_row_upd_same)

lemma votes_set:
  assumes "gov_ok g" "theVote g i = Some v"
  shows "set (votes (setVote i f g)) = insert (f v) (set (votes g) - {v})"
proof -
  have v: "v \<in> set (votes g)" "vt_id v = i" using theVote_D [OF assms(2)] by auto
  have only: "w = v" if "w \<in> set (votes g)" "vt_id w = i" for w
    using vote_key [OF assms(1) that(1) v(1)] that(2) v(2) by simp
  have "(if vt_id w = i then f w else w) = (if w = v then f v else w)" if "w \<in> set (votes g)" for w
    using only [OF that] v(2) by (cases "w = v") auto
  then have "set (votes (setVote i f g)) = (\<lambda>w. if w = v then f v else w) ` set (votes g)"
    by (simp add: setVote_def set_upd_where)
  then show ?thesis using v(1) by auto
qed

lemma resultFor_set [simp]: "resultFor (setVote i f g) = resultFor g"
  by (rule ext, rule resultFor_frame) (simp_all add: listEligibilitySnapshots_def listBallots_def)

text \<open>A step of the life cycle that leaves every other part of the row alone.\<close>

lemma setVote_parts:
  assumes "gov_ok g" "theVote g i = Some v" "vt_status (f v) \<noteq> VS_DRAFT" and f: "\<And>v. vt_id (f v) = vt_id v"
  shows "gids_ok (setVote i f g)" "gkeys_ok (setVote i f g)" "grefs_ok (setVote i f g)" "gproxies_ok (setVote i f g)"
proof -
  note ok = gov_okD [OF assms(1)]
  have ids: "vt_id ` set (votes (setVote i f g)) = vt_id ` set (votes g)"
    using f by (simp only: setVote_def gov_db.select_convs gov_db.update_convs) (simp add: image_upd)
  have map: "map vt_id (votes (setVote i f g)) = map vt_id (votes g)"
    using f by (simp add: setVote_def map_key_upd_where)
  have pub: "published (setVote i f g) j" if "published g j" for j
    using that assms(2,3) f by (auto simp: published_def theVote_set split: option.splits)
  show "gids_ok (setVote i f g)" using ok(1) ids by (simp add: gids_ok_def govUsed_def)
  show "gkeys_ok (setVote i f g)" using ok(2) map by (simp add: gkeys_ok_def)
  show "grefs_ok (setVote i f g)" using ok(3) pub by (simp add: grefs_ok_def)
  show "gproxies_ok (setVote i f g)" using ok(5) by (simp add: gproxies_ok_def)
qed

lemma closed_results:
  assumes "gov_ok g" "theVote g i = Some v"
  shows "vt_status v = VS_CLOSED \<longleftrightarrow> i \<in> vr_voteId ` set (voteResults g)"
  using gov_okD(4) [OF assms(1)] theVote_D [OF assms(2)] by (auto simp: gresults_ok_def)

lemma setVote_results:
  assumes "gov_ok g" "theVote g i = Some v" "vt_status v \<noteq> VS_CLOSED" "vt_status (f v) \<noteq> VS_CLOSED"
    and f: "\<And>v. vt_id (f v) = vt_id v"
  shows "gresults_ok (setVote i f g)"
proof -
  note ok = gov_okD(4) [OF assms(1)]
  have v: "vt_id v = i" using theVote_D [OF assms(2)] by auto
  have sets: "set (votes (setVote i f g)) = insert (f v) (set (votes g) - {v})" by (rule votes_set [OF assms(1,2)])
  have rec: "recorded (setVote i f g) = recorded g" by (intro ext) (simp add: recorded_def)
  have none: "i \<notin> vr_voteId ` set (voteResults g)" using closed_results [OF assms(1,2)] assms(3) by simp
  have "\<exists>w\<in>insert (f v) (set (votes g) - {v}). vt_id w = vr_voteId r \<and> recorded g r w" if r: "r \<in> set (voteResults g)" for r
  proof -
    obtain w where "w \<in> set (votes g)" "vt_id w = vr_voteId r" "recorded g r w" using ok r by (auto simp: gresults_ok_def)
    moreover have "w \<noteq> v" using none r v calculation(2) by force
    ultimately show ?thesis by blast
  qed
  moreover have "vt_status w = VS_CLOSED \<longleftrightarrow> vt_id w \<in> vr_voteId ` set (voteResults g)"
    if "w \<in> insert (f v) (set (votes g) - {v})" for w
  proof (cases "w = f v")
    case True
    then show ?thesis using none v f [of v] assms(4) by simp
  next
    case False
    then show ?thesis using that ok by (simp add: gresults_ok_def)
  qed
  ultimately show ?thesis unfolding gresults_ok_def sets rec setVote_simps by blast
qed

lemma setVote_ok:
  assumes "gov_ok g" "theVote g i = Some v" "vt_status v \<noteq> VS_CLOSED" "vt_status (f v) \<notin> {VS_DRAFT, VS_CLOSED}"
    "\<And>v. vt_id (f v) = vt_id v"
  shows "gov_ok (setVote i f g)"
  using setVote_parts [OF assms(1,2), of f] setVote_results [OF assms(1,2), of f] assms(3-5) by (simp add: gov_ok_def)

lemma cancelVote_ok:
  assumes "gov_ok g" "cancelVote now i st reason g = Inr (v, g')" "st \<noteq> VS_CLOSED" "st \<noteq> VS_CANCELLED"
  shows "gov_ok g'"
proof -
  let ?f = "\<lambda>v. v\<lparr>vt_status := VS_CANCELLED, vt_cancelledAt := Some now,
          vt_cancelReason := (case reason of None \<Rightarrow> vt_cancelReason v | Some r \<Rightarrow> Some r)\<rparr>"
  obtain w where w: "theVote g i = Some w" "vt_status w = st" "g' = setVote i ?f g"
    using assms(2) by (auto simp: cancelVote_def effect_simps claim_Inr [OF assms(1)])
  show ?thesis unfolding w(3) using w(2) assms(3) by (intro setVote_ok [OF assms(1) w(1)]) simp_all
qed

section \<open>Publishing\<close>

lemma distinct_filter_key: "distinct (map key xs) \<Longrightarrow> distinct (map key (filter P xs))"
  by (rule distinct_map_filter)

lemma snapshotsFor_keys:
  "set (map snapshotKey (snapshotsFor b now i allow us)) \<subseteq> (\<lambda>u. (i, u_id u)) ` set us"
  "distinct (map u_id us) \<Longrightarrow> distinct (map snapshotKey (snapshotsFor b now i allow us))"
proof -
  show k: "set (map snapshotKey (snapshotsFor b now i allow us)) \<subseteq> (\<lambda>u. (i, u_id u)) ` set us" for us
    by (auto simp: snapshotsFor_def List.map_filter_def snapshotKey_def)
  show "distinct (map snapshotKey (snapshotsFor b now i allow us))" if "distinct (map u_id us)"
    using that
  proof (induction us)
    case (Cons u us)
    have step: "snapshotsFor b now i allow (u # us) = (case eligibleVoter b allow u of None \<Rightarrow> snapshotsFor b now i allow us
      | Some (p, ty) \<Rightarrow> \<lparr>vs_voteId = i, vs_unitId = u_id u, vs_eligiblePersonId = p, vs_eligibilityType = ty,
          vs_capturedAt = now\<rparr> # snapshotsFor b now i allow us)"
      by (auto simp: snapshotsFor_def map_filter_simps split: option.splits)
    have "(i, u_id u) \<notin> set (map snapshotKey (snapshotsFor b now i allow us))"
      using k [of us] Cons.prems by auto
    then show ?case using Cons by (auto simp: step snapshotKey_def split: option.splits)
  qed (simp add: snapshotsFor_def map_filter_simps)
qed

lemma snapshots_new:
  assumes "gov_ok g" "published g i" "distinct (map snapshotKey new)" "snapshotKey ` set new \<inter> snapshotKey ` set (snapshots g) = {}"
    "\<forall>s\<in>set new. vs_voteId s = i" "getVoteResult g i = None"
  shows "gov_ok (g\<lparr>snapshots := snapshots g @ new\<rparr>)"
proof (rule gov_okI)
  let ?g = "g\<lparr>snapshots := snapshots g @ new\<rparr>"
  note ok = gov_okD [OF assms(1)]
  show "gids_ok ?g" using ok(1) by (simp add: gids_ok_def govUsed_def)
  show "gkeys_ok ?g" using ok(2) assms(3,4) by (auto simp: gkeys_ok_def)
  have "published ?g = published g" by (intro ext) (simp add: published_def theVote_def)
  then show "grefs_ok ?g" using ok(3) assms(2,5) by (auto simp: grefs_ok_def)
  have res: "resultFor ?g j = resultFor g j" if "j \<noteq> i" for j
    using that assms(5) by (intro resultFor_frame) (auto simp: listEligibilitySnapshots_def listBallots_def filter_empty_conv)
  have "recorded ?g r v = recorded g r v" if "vt_id v \<noteq> i" for r v
    using res [OF that] by (rule recorded_frame)
  moreover have "vr_voteId r \<noteq> i" if "r \<in> set (voteResults g)" for r
    using assms(6) that by (auto simp: getVoteResult_def find_row_None_iff)
  ultimately show "gresults_ok ?g" using ok(4) unfolding gresults_ok_def
    by (metis (no_types, lifting) gov_db.select_convs(1,5) gov_db.update_convs(3) gov_db.surjective)
  show "gproxies_ok ?g" using ok(5) by (simp add: gproxies_ok_def)
qed

lemma result_closed: "gov_ok g \<Longrightarrow> theVote g i = Some v \<Longrightarrow> vt_status v \<noteq> VS_CLOSED \<Longrightarrow> getVoteResult g i = None"
  using closed_results [of g i v] by (auto simp: getVoteResult_def find_row_None_iff)

lemma draft_has_none: "gov_ok g \<Longrightarrow> theVote g i = Some v \<Longrightarrow> vt_status v = VS_DRAFT \<Longrightarrow> s \<in> set (snapshots g) \<Longrightarrow> vs_voteId s \<noteq> i"
  by (drule gov_okD(3)) (auto simp: grefs_ok_def published_def)

text \<open>Publishing succeeds for every draft and snapshots the units in scope.\<close>

lemma publishVote_Inr:
  assumes "gov_ok g"
  shows "publishVote b now i bid allow g = Inr (v', g') \<longleftrightarrow>
    (\<exists>v. theVote g i = Some v \<and> vt_status v = VS_DRAFT \<and> v' = v\<lparr>vt_status := VS_ACTIVE, vt_publishedAt := Some now\<rparr> \<and>
      g' = (let g1 = setVote i (\<lambda>v. v\<lparr>vt_status := VS_ACTIVE, vt_publishedAt := Some now\<rparr>) g
        in g1\<lparr>snapshots := snapshots g1 @ snapshotsFor b now i allow (filter (\<lambda>u. u_buildingId u = bid \<and> inScope v' u) (unitRows b))\<rparr>))"
proof -
  let ?f = "\<lambda>v. v\<lparr>vt_status := VS_ACTIVE, vt_publishedAt := Some now\<rparr>"
  have row: "voteRow (setVote i ?f g) i = Inr (?f v)" if "theVote g i = Some v" for v
    using theVote_set [of ?f i g i] that by (simp add: voteRow_def needs_def theVote_def [symmetric])
  show ?thesis
  proof (cases "\<exists>v. theVote g i = Some v \<and> vt_status v = VS_DRAFT")
    case True
    then obtain v where v: "theVote g i = Some v" "vt_status v = VS_DRAFT" by blast
    have claim: "claimVote i VS_DRAFT ?f m g = Inr ((), setVote i ?f g)" for m
      using v by (simp add: claim_Inr [OF assms])
    have "(\<exists>s\<in>set new. \<exists>s'\<in>set (snapshots (setVote i ?f g)). vs_voteId s' = i \<and> vs_unitId s' = vs_unitId s) = False"
      for new :: "voteSnapshot list"
      using draft_has_none [OF assms v] by auto
    then show ?thesis using v by (auto simp: publishVote_def claim row [OF v(1)] Let_def)
  next
    case False
    then show ?thesis by (auto simp: publishVote_def effect_simps claim_Inr [OF assms])
  qed
qed

lemma publishVote_ok:
  assumes "gov_ok g" "bld_ok b" "publishVote b now i bid allow g = Inr (v', g')"
  shows "gov_ok g'"
proof -
  let ?f = "\<lambda>v. v\<lparr>vt_status := VS_ACTIVE, vt_publishedAt := Some now\<rparr>"
  let ?new = "snapshotsFor b now i allow (filter (\<lambda>u. u_buildingId u = bid \<and> inScope v' u) (unitRows b))"
  obtain v where v: "theVote g i = Some v" "vt_status v = VS_DRAFT"
    "g' = (setVote i ?f g)\<lparr>snapshots := snapshots (setVote i ?f g) @ ?new\<rparr>"
    using assms(3) by (auto simp: publishVote_Inr [OF assms(1)] Let_def)
  have ok1: "gov_ok (setVote i ?f g)"
    using v(2) by (intro setVote_ok [OF assms(1) v(1)]) simp_all
  have keys: "distinct (map snapshotKey ?new)" "set (map snapshotKey ?new) \<subseteq> Pair i ` UNIV"
    using snapshotsFor_keys [where b = b and now = now and i = i and allow = allow] bld_okD(2) [OF assms(2)]
    by (force simp: keys_ok_def distinct_map_filter)+
  show ?thesis unfolding v(3)
  proof (rule snapshots_new [OF ok1, of i])
    show "published (setVote i ?f g) i" using v(1) by (simp add: published_def theVote_set)
    show "distinct (map snapshotKey ?new)" by (rule keys)
    have mine: "\<forall>s\<in>set ?new. vs_voteId s = i" using keys(2) by (auto simp: snapshotKey_def)
    then show "\<forall>s\<in>set ?new. vs_voteId s = i" .
    show "snapshotKey ` set ?new \<inter> snapshotKey ` set (snapshots (setVote i ?f g)) = {}"
      using mine draft_has_none [OF assms(1) v(1,2)] by (auto simp: snapshotKey_def)
    show "getVoteResult (setVote i ?f g) i = None"
      using result_closed [OF assms(1) v(1)] v(2) by (simp add: getVoteResult_def)
  qed
qed

section \<open>Ballots\<close>

lemma createBallot_Inr:
  "createBallot b now i uid voter opt g = Inr (x, g') \<Longrightarrow>
    x = \<lparr>bl_id = fresh_gid g, bl_voteId = i, bl_unitId = uid, bl_voterPersonId = voter, bl_selectedOptionId = opt,
         bl_submittedAt = now\<rparr> \<and> g' = take_gid (g\<lparr>ballots := ballots g @ [x]\<rparr>) \<and> findBallotForUnit g i uid = None \<and>
    (\<exists>v. theVote g i = Some v \<and> vt_status v = VS_ACTIVE \<and> now \<le> vt_endAt v)"
  by (auto simp: createBallot_def theVote_def effect_simps Let_def split: if_splits option.splits)

lemma createBallot_ok:
  assumes "gov_ok g" "createBallot b now i uid voter opt g = Inr (x, g')"
    "findEligibilitySnapshotForUnit g i uid \<noteq> None" "\<exists>o'\<in>set (voteOptions g). vo_id o' = opt \<and> vo_voteId o' = i"
  shows "gov_ok g'"
proof -
  note ok = gov_okD [OF assms(1)]
  let ?g = "take_gid (g\<lparr>ballots := ballots g @ [x]\<rparr>)"
  have x: "ballotKey x = (i, uid)" "bl_voteId x = i" "bl_selectedOptionId x = opt" and g': "g' = ?g"
    and free: "findBallotForUnit g i uid = None" and v: "\<exists>v. theVote g i = Some v \<and> vt_status v = VS_ACTIVE"
    using createBallot_Inr [OF assms(2)] by (auto simp: ballotKey_def)
  have new: "(i, uid) \<notin> ballotKey ` set (ballots g)"
    using free by (auto simp: findBallotForUnit_def find_one_None ballotKey_def)
  obtain sn where sn: "find (\<lambda>s. vs_voteId s = i \<and> vs_unitId s = uid) (snapshots g) = Some sn"
    using assms(3) by (auto simp: findEligibilitySnapshotForUnit_def)
  have snap: "(i, uid) \<in> snapshotKey ` set (snapshots g)"
    using find_Some_in [OF sn] by (force simp: snapshotKey_def)
  show ?thesis unfolding g'
  proof (rule gov_okI)
    show "gids_ok ?g" using ok(1) by (simp add: gids_ok_def govUsed_def)
    show "gkeys_ok ?g" using ok(2) new x(1) by (simp add: gkeys_ok_def)
    have "published ?g = published g" by (intro ext) (simp add: published_def theVote_def)
    moreover have "(opt, i) \<in> (\<lambda>o'. (vo_id o', vo_voteId o')) ` set (voteOptions g)" using assms(4) by force
    ultimately show "grefs_ok ?g" using ok(3) snap x by (simp add: grefs_ok_def)
    have res: "resultFor ?g j = resultFor g j" if "j \<noteq> i" for j
      using that x(2) by (intro resultFor_frame) (auto simp: listEligibilitySnapshots_def listBallots_def)
    obtain w where "theVote g i = Some w" "vt_status w \<noteq> VS_CLOSED" using v by auto
    then have "i \<notin> vr_voteId ` set (voteResults g)" using closed_results [OF assms(1)] by simp
    then show "gresults_ok ?g" using ok(4) recorded_frame [OF res] unfolding gresults_ok_def by fastforce
    show "gproxies_ok ?g" using ok(5) by (simp add: gproxies_ok_def)
  qed
qed

section \<open>Closing\<close>

lemma closeVote_Inr:
  assumes "gov_ok g"
  shows "closeVote now i q g = Inr ((v', r), g') \<longleftrightarrow>
    (\<exists>v. theVote g i = Some v \<and> vt_status v = VS_ACTIVE \<and> v' = v\<lparr>vt_status := VS_CLOSED, vt_closedAt := Some now\<rparr> \<and>
      r = (let c = resultFor g i q in \<lparr>vr_voteId = i, vr_totalEligibleCount = cv_totalEligibleCount c,
             vr_totalBallotCount = cv_totalBallotCount c, vr_quorumMet = cv_quorumMet c,
             vr_winningOptionId = cv_winningOptionId c, vr_resultStatus = cv_resultStatus c, vr_publishedAt = Some now\<rparr>) \<and>
      g' = (setVote i (\<lambda>v. v\<lparr>vt_status := VS_CLOSED, vt_closedAt := Some now\<rparr>) g)\<lparr>voteResults := voteResults g @ [r]\<rparr>)"
proof (cases "\<exists>v. theVote g i = Some v \<and> vt_status v = VS_ACTIVE")
  case True
  let ?f = "\<lambda>v. v\<lparr>vt_status := VS_CLOSED, vt_closedAt := Some now\<rparr>"
  from True obtain v where v: "theVote g i = Some v" "vt_status v = VS_ACTIVE" by blast
  have claim: "claimVote i VS_ACTIVE ?f m g = Inr ((), setVote i ?f g)" for m
    using v by (simp add: claim_Inr [OF assms])
  have row: "voteRow (setVote i ?f g) i = Inr (?f v)"
    using theVote_set [of ?f i g i] v(1) by (simp add: voteRow_def needs_def theVote_def [symmetric])
  have "getVoteResult (setVote i ?f g) i = None"
    using result_closed [OF assms v(1)] v(2) by (simp add: getVoteResult_def)
  then show ?thesis using v by (auto simp: closeVote_def claim row Let_def)
next
  case False
  then show ?thesis by (auto simp: closeVote_def effect_simps claim_Inr [OF assms] Let_def)
qed

lemma closeVote_ok:
  assumes "gov_ok g" "theVote g i = Some v" "closeVote now i (vt_quorumPercent v) g = Inr ((v', r), g')"
  shows "gov_ok g'"
proof -
  let ?f = "\<lambda>v. v\<lparr>vt_status := VS_CLOSED, vt_closedAt := Some now\<rparr>"
  let ?g1 = "setVote i ?f g" and ?g = "(setVote i ?f g)\<lparr>voteResults := voteResults g @ [r]\<rparr>"
  have st: "vt_status v = VS_ACTIVE" and g': "g' = ?g" and r: "vr_voteId r = i"
    and rec: "recorded g r (?f v)"
    using assms(2,3) theVote_D [OF assms(2)] by (auto simp: closeVote_Inr [OF assms(1)] Let_def recorded_def)
  have id: "vt_id v = i" "v \<in> set (votes g)" using theVote_D [OF assms(2)] by auto
  have none: "i \<notin> vr_voteId ` set (voteResults g)" using closed_results [OF assms(1,2)] st by simp
  note parts = setVote_parts [OF assms(1,2), of ?f]
  note ok = gov_okD(4) [OF assms(1)]
  have sets: "set (votes ?g) = insert (?f v) (set (votes g) - {v})" using votes_set [OF assms(1,2), of ?f] by simp
  have res: "resultFor ?g = resultFor g"
    by (rule ext, rule resultFor_frame) (simp_all add: listEligibilitySnapshots_def listBallots_def)
  have recs: "recorded ?g = recorded g" by (intro ext) (simp add: recorded_def res)
  have same: "theVote ?g = theVote ?g1" "govUsed ?g = govUsed ?g1" "published ?g = published ?g1"
    by (auto simp: theVote_def govUsed_def published_def)
  show ?thesis unfolding g'
  proof (rule gov_okI)
    show "gids_ok ?g" using parts(1) by (simp add: gids_ok_def same)
    show "gkeys_ok ?g" using parts(2) none r by (simp add: gkeys_ok_def)
    show "grefs_ok ?g" using parts(3) by (simp add: grefs_ok_def same)
    show "gproxies_ok ?g" using parts(4) by (simp add: gproxies_ok_def)
    have "vt_status w = VS_CLOSED \<longleftrightarrow> vt_id w \<in> vr_voteId ` set (voteResults ?g)" if w: "w \<in> set (votes ?g)" for w
    proof (cases "w = ?f v")
      case False
      then have "w \<in> set (votes g)" "w \<noteq> v" using w unfolding sets by auto
      moreover have "vt_id w \<noteq> i" using vote_key [OF assms(1) calculation(1) id(2)] calculation(2) id(1) by auto
      ultimately show ?thesis using ok r by (simp add: gresults_ok_def)
    qed (simp add: id r)
    moreover have "\<exists>w\<in>set (votes ?g). vt_id w = vr_voteId x \<and> recorded ?g x w" if x: "x \<in> set (voteResults ?g)" for x
    proof (cases "x = r")
      case True
      then show ?thesis unfolding sets recs using rec id(1) r by auto
    next
      case False
      then have x: "x \<in> set (voteResults g)" using x by simp
      then obtain w where w: "w \<in> set (votes g)" "vt_id w = vr_voteId x" "recorded g x w"
        using ok by (auto simp: gresults_ok_def)
      have "w \<noteq> v" using w(2) id(1) none x by force
      then show ?thesis unfolding sets recs using w by auto
    qed
    ultimately show "gresults_ok ?g" unfolding gresults_ok_def by blast
  qed
qed

section \<open>Proxies and meetings\<close>

text \<open>A change of the proxies leaves votes and ballots alone.\<close>

lemma proxies_ok:
  assumes "gov_ok g" "distinct (map vp_id ps)" "\<forall>uid. one (proxyNow uid) ps"
    "vp_id ` set ps \<subseteq> insert (fresh_gid g) (vp_id ` set (voteProxies g))"
  shows "gov_ok (take_gid (g\<lparr>voteProxies := ps\<rparr>))"
proof (rule gov_okI)
  let ?g = "take_gid (g\<lparr>voteProxies := ps\<rparr>)"
  note ok = gov_okD [OF assms(1)]
  show "gids_ok ?g" using assms(4) by (intro gids_new [OF ok(1)]) (auto simp: govUsed_def)
  show "gkeys_ok ?g" using ok(2) assms(2) by (simp add: gkeys_ok_def)
  show "grefs_ok ?g" using ok(3) by (simp add: grefs_ok_def published_def theVote_def)
  have "resultFor ?g = resultFor g"
    by (rule ext, rule resultFor_frame) (simp_all add: listEligibilitySnapshots_def listBallots_def)
  then have "recorded ?g = recorded g" by (intro ext) (simp add: recorded_def)
  then show "gresults_ok ?g" using ok(4) by (simp add: gresults_ok_def)
  show "gproxies_ok ?g" using assms(3) by (simp add: gproxies_ok_def)
qed

lemma untake_ok:
  assumes "gov_ok (take_gid (g\<lparr>voteProxies := ps\<rparr>))" "gov_ok g" "vp_id ` set ps \<subseteq> vp_id ` set (voteProxies g)"
  shows "gov_ok (g\<lparr>voteProxies := ps\<rparr>)"
proof -
  let ?g = "g\<lparr>voteProxies := ps\<rparr>" and ?t = "take_gid (g\<lparr>voteProxies := ps\<rparr>)"
  note ok = gov_okD [OF assms(1)]
  have "resultFor ?g = resultFor ?t"
    by (rule ext, rule resultFor_frame) (simp_all add: listEligibilitySnapshots_def listBallots_def)
  then have rec: "recorded ?g = recorded ?t" by (intro ext) (simp add: recorded_def)
  show ?thesis
  proof (rule gov_okI)
    show "gids_ok ?g" using gov_okD(1) [OF assms(2)] assms(3) by (auto simp: gids_ok_def govUsed_def)
    show "gkeys_ok ?g" using ok(2) by (simp add: gkeys_ok_def)
    show "grefs_ok ?g" using ok(3) by (simp add: grefs_ok_def published_def theVote_def)
    show "gresults_ok ?g" using ok(4) by (simp add: gresults_ok_def rec)
    show "gproxies_ok ?g" using ok(5) by (simp add: gproxies_ok_def)
  qed
qed

lemma none_left: "(\<And>x. P x \<Longrightarrow> \<not> P (f x)) \<Longrightarrow> y \<in> set (upd_where P f xs) \<Longrightarrow> \<not> P y"
  by (auto simp: set_upd_where split: if_splits)

lemma grantProxy_ok:
  assumes "gov_ok g" "grantProxy b now uid bid granter proxy g = Inr (p, g')"
  shows "gov_ok g'"
proof -
  let ?ends = "\<lambda>x. vp_unitId x = uid \<and> vp_isCurrent x"
  let ?ps = "upd_where ?ends (endedProxy now) (voteProxies g)"
  have p: "vp_id p = fresh_gid g" "vp_unitId p = uid" and g': "g' = take_gid (g\<lparr>voteProxies := ?ps @ [p]\<rparr>)"
    using assms(2) by (auto simp: grantProxy_def Let_def split: if_splits)
  have keys: "map vp_id ?ps = map vp_id (voteProxies g)" by (rule map_key_upd_where) (simp add: endedProxy_def)
  have new: "fresh_gid g \<notin> vp_id ` set (voteProxies g)"
    using gfresh [OF gov_okD(1) [OF assms(1)]] by (simp add: govUsed_def)
  have ids: "vp_id ` set ?ps = vp_id ` set (voteProxies g)" using keys by (metis list.set_map)
  have one: "one (proxyNow v) (?ps @ [p])" for v
  proof (cases "proxyNow v p")
    case True
    then have "v = uid" using p by (simp add: proxyNow_def)
    moreover have "\<not> ?ends y" if "y \<in> set ?ps" for y using that by (rule none_left [rotated]) (simp add: endedProxy_def)
    ultimately have "\<forall>y\<in>set ?ps. \<not> proxyNow v y" by (simp add: proxyNow_def)
    then show ?thesis using True by simp
  next
    case False
    have "one (proxyNow v) ?ps"
      using gov_okD(5) [OF assms(1)] by (intro one_upd) (auto simp: gproxies_ok_def proxyNow_def endedProxy_def)
    then show ?thesis using False by simp
  qed
  show ?thesis unfolding g'
    using keys new ids p gov_okD(2) [OF assms(1)] one
    by (intro proxies_ok [OF assms(1)]) (auto simp: gkeys_ok_def)
qed

lemma revokeProxy_ok:
  assumes "gov_ok g" "revokeProxy now i g = Inr (p, g')"
  shows "gov_ok g'"
proof -
  let ?ps = "upd_where (\<lambda>x. vp_id x = i) (endedProxy now) (voteProxies g)"
  have g': "g' = g\<lparr>voteProxies := ?ps\<rparr>" using assms(2) by (auto simp: revokeProxy_def effect_simps)
  have keys: "map vp_id ?ps = map vp_id (voteProxies g)" by (rule map_key_upd_where) (simp add: endedProxy_def)
  have ids: "vp_id ` set ?ps = vp_id ` set (voteProxies g)" using keys by (metis list.set_map)
  have one: "\<forall>v. one (proxyNow v) ?ps"
    using gov_okD(5) [OF assms(1)] by (auto simp: gproxies_ok_def proxyNow_def endedProxy_def intro!: one_upd)
  have "gov_ok (take_gid (g\<lparr>voteProxies := ?ps\<rparr>))"
    using keys ids gov_okD(2) [OF assms(1)] one by (intro proxies_ok [OF assms(1)]) (auto simp: gkeys_ok_def)
  then show ?thesis unfolding g' by (rule untake_ok [OF _ assms(1)]) (simp add: ids)
qed

lemma ok_meetings: "gov_ok g \<Longrightarrow> gov_ok (g\<lparr>meetings := ms\<rparr>)" "gov_ok g \<Longrightarrow> gov_ok (g\<lparr>attendances := as\<rparr>)"
  "gov_ok g \<Longrightarrow> gov_ok (take_gid g)"
  by (erule gov_ok_frame; simp)+

lemma meetings_ok:
  "gov_ok g \<Longrightarrow> createMeeting b bid t at' loc p g = Inr (m, g') \<Longrightarrow> gov_ok g'"
  "gov_ok g \<Longrightarrow> updateMeeting i q g = Inr (m, g') \<Longrightarrow> gov_ok g'"
  "gov_ok g \<Longrightarrow> archiveMeeting now i g = Inr (m, g') \<Longrightarrow> gov_ok g'"
  "gov_ok g \<Longrightarrow> recordAttendance b now i ps g = Inr (rows, g') \<Longrightarrow> gov_ok g'"
  by (auto simp: createMeeting_def updateMeeting_def archiveMeeting_def modifyMeeting_def recordAttendance_def
      effect_simps Let_def split: if_splits intro!: ok_meetings)

text \<open>The person who may appoint a proxy is the one a snapshot taken now would name.\<close>

lemma eligibleVoter_live: "findLiveEligibleVoterForUnit b (u_id u) allow = eligibleVoter b allow u"
  by (simp add: findLiveEligibleVoterForUnit_def eligibleVoter_def Let_def)

end
