(* ===== verification/Governance_History.thy ===== *)
theory Governance_History
  imports Governance_Inv "HOL-Library.Sublist"
begin

text \<open>
  What no operation on the governance tables undoes: a closed or cancelled vote stays as it
  is, with its options, snapshot, ballots and result; a published vote keeps its terms and
  its snapshot, and only gains ballots.
\<close>

definition final :: "voteStatus \<Rightarrow> bool" where
  "final st \<longleftrightarrow> st = VS_CLOSED \<or> st = VS_CANCELLED"

definition voteKept :: "gov_db \<Rightarrow> gov_db \<Rightarrow> id \<Rightarrow> bool" where
  "voteKept g g' i \<longleftrightarrow> theVote g' i = theVote g i \<and> optionsOf g' i = optionsOf g i \<and>
     listEligibilitySnapshots g' i = listEligibilitySnapshots g i \<and> listBallots g' i = listBallots g i \<and>
     getVoteResult g' i = getVoteResult g i"

text \<open>The same vote up to its status and the times that go with it.\<close>

definition sameTerms :: "vote \<Rightarrow> vote \<Rightarrow> bool" where
  "sameTerms v v' \<longleftrightarrow> v'\<lparr>vt_status := vt_status v, vt_publishedAt := vt_publishedAt v, vt_closedAt := vt_closedAt v,
     vt_cancelledAt := vt_cancelledAt v, vt_cancelReason := vt_cancelReason v\<rparr> = v"

definition voteMoves :: "gov_db \<Rightarrow> gov_db \<Rightarrow> id \<Rightarrow> vote \<Rightarrow> bool" where
  "voteMoves g g' i v \<longleftrightarrow> (\<exists>v'. theVote g' i = Some v' \<and> sameTerms v v' \<and>
     (vt_status v = VS_DRAFT \<or> vt_status v' \<noteq> VS_DRAFT \<and> listEligibilitySnapshots g' i = listEligibilitySnapshots g i)) \<and>
     optionsOf g' i = optionsOf g i \<and> prefix (listBallots g i) (listBallots g' i)"

definition advances :: "gov_db \<Rightarrow> gov_db \<Rightarrow> bool" where
  "advances g g' \<longleftrightarrow> (\<forall>i v. theVote g i = Some v \<longrightarrow>
     (if final (vt_status v) then voteKept g g' i else voteMoves g g' i v))"

lemma kept_moves: "voteKept g g' i \<Longrightarrow> theVote g i = Some v \<Longrightarrow> voteMoves g g' i v"
  by (auto simp: voteKept_def voteMoves_def sameTerms_def)

lemma advancesI:
  assumes "\<And>j. j \<noteq> i \<Longrightarrow> theVote g j \<noteq> None \<Longrightarrow> voteKept g g' j"
    "\<And>v. theVote g i = Some v \<Longrightarrow> if final (vt_status v) then voteKept g g' i else voteMoves g g' i v"
  shows "advances g g'"
  unfolding advances_def
proof (intro allI impI)
  fix j v assume v: "theVote g j = Some v"
  show "if final (vt_status v) then voteKept g g' j else voteMoves g g' j v"
  proof (cases "j = i")
    case False
    then have "voteKept g g' j" using assms(1) v by simp
    then show ?thesis using kept_moves [OF _ v] by simp
  qed (use assms(2) v in simp)
qed

lemma advances_same:
  "votes g' = votes g \<Longrightarrow> voteOptions g' = voteOptions g \<Longrightarrow> snapshots g' = snapshots g \<Longrightarrow> ballots g' = ballots g \<Longrightarrow>
    voteResults g' = voteResults g \<Longrightarrow> advances g g'"
  by (rule advancesI [of undefined])
    (auto simp: voteKept_def voteMoves_def sameTerms_def theVote_def optionsOf_def listEligibilitySnapshots_def
      listBallots_def getVoteResult_def)

lemma advances_refl [simp]: "advances g g"
  by (rule advances_same) simp_all

lemma sameTerms_trans: "sameTerms v w \<Longrightarrow> sameTerms w x \<Longrightarrow> sameTerms v x"
  by (cases v; cases w; cases x) (simp add: sameTerms_def)

lemma advances_trans: "advances g h \<Longrightarrow> advances h k \<Longrightarrow> advances g k"
  unfolding advances_def
proof (intro allI impI)
  fix i v
  assume gh: "\<forall>i v. theVote g i = Some v \<longrightarrow> (if final (vt_status v) then voteKept g h i else voteMoves g h i v)"
    and hk: "\<forall>i v. theVote h i = Some v \<longrightarrow> (if final (vt_status v) then voteKept h k i else voteMoves h k i v)"
    and v: "theVote g i = Some v"
  show "if final (vt_status v) then voteKept g k i else voteMoves g k i v"
  proof (cases "final (vt_status v)")
    case True
    then have "voteKept g h i" using gh v by simp
    moreover have "theVote h i = Some v" using calculation v by (simp add: voteKept_def)
    then have "voteKept h k i" using hk True by (metis (full_types))
    ultimately show ?thesis using True by (simp add: voteKept_def)
  next
    case False
    then have m: "voteMoves g h i v" using gh v by simp
    then obtain w where w: "theVote h i = Some w" by (auto simp: voteMoves_def)
    have "voteMoves h k i w" using hk w kept_moves [of h k i w] by (auto split: if_splits)
    then have "voteMoves g k i v"
      using m w by (auto simp: voteMoves_def intro: sameTerms_trans prefix_order.trans)
    then show ?thesis using False by simp
  qed
qed

section \<open>Every transaction advances the tables\<close>

lemma addOptions_frame:
  "votes (addOptions v k os g) = votes g" "snapshots (addOptions v k os g) = snapshots g"
  "ballots (addOptions v k os g) = ballots g" "voteResults (addOptions v k os g) = voteResults g"
  by (induction v k os g rule: addOptions.induct) simp_all

lemma addOptions_other: "j \<noteq> v \<Longrightarrow> optionsOf (addOptions v k os g) j = optionsOf g j"
  by (induction v k os g rule: addOptions.induct) (simp_all add: optionsOf_def)

lemma createVote_advances:
  assumes "gov_ok g" "createVote b now q g = Inr (v, g')"
  shows "advances g g'"
proof -
  have g': "g' = addOptions (vt_id v) 0 (nv_options q) (take_gid (g\<lparr>votes := votes g @ [v]\<rparr>))"
    and id: "vt_id v = fresh_gid g"
    using assms(2) by (auto simp: createVote_def Let_def newVote_def split: if_splits)
  have new: "theVote g (vt_id v) = None"
    using gfresh [OF gov_okD(1) [OF assms(1)]] by (auto simp: theVote_def find_row_None_iff id govUsed_def)
  have "voteKept g g' j" if "theVote g j \<noteq> None" for j
  proof -
    have "j \<noteq> vt_id v" using that new by auto
    moreover have "theVote g' j = theVote g j"
      using that by (auto simp: theVote_def g' addOptions_frame find_row_append)
    ultimately show ?thesis
      by (simp add: voteKept_def g' addOptions_other)
        (simp add: optionsOf_def listEligibilitySnapshots_def listBallots_def getVoteResult_def addOptions_frame)
  qed
  then show ?thesis by (intro advancesI [of "vt_id v"]) (use new in auto)
qed

text \<open>A step on one vote that is not final.\<close>

lemma set_advances:
  assumes "theVote g i = Some v" "\<not> final (vt_status v)" "\<And>x. vt_id (f x) = vt_id x" "sameTerms v (f v)"
    "votes g' = votes (setVote i f g)" "voteOptions g' = voteOptions g"
    "\<And>j. j \<noteq> i \<Longrightarrow> listEligibilitySnapshots g' j = listEligibilitySnapshots g j \<and> getVoteResult g' j = getVoteResult g j"
    "vt_status v = VS_DRAFT \<or> vt_status (f v) \<noteq> VS_DRAFT \<and> listEligibilitySnapshots g' i = listEligibilitySnapshots g i"
    "ballots g' = ballots g"
  shows "advances g g'"
proof (rule advancesI)
  have the: "theVote g' j = theVote (setVote i f g) j" for j using assms(5) by (simp add: theVote_def)
  show "voteKept g g' j" if "j \<noteq> i" for j
    using that assms by (simp add: voteKept_def the theVote_set optionsOf_def listBallots_def)
  show "if final (vt_status w) then voteKept g g' i else voteMoves g g' i w" if "theVote g i = Some w" for w
    using that assms by (auto simp: voteMoves_def the theVote_set optionsOf_def listBallots_def)
qed

lemma cancelVote_advances:
  assumes "gov_ok g" "cancelVote now i st reason g = Inr (v, g')" "st \<noteq> VS_CLOSED" "st \<noteq> VS_CANCELLED"
  shows "advances g g'"
proof -
  let ?f = "\<lambda>v. v\<lparr>vt_status := VS_CANCELLED, vt_cancelledAt := Some now,
          vt_cancelReason := (case reason of None \<Rightarrow> vt_cancelReason v | Some r \<Rightarrow> Some r)\<rparr>"
  obtain w where w: "theVote g i = Some w" "vt_status w = st" "g' = setVote i ?f g"
    using assms(2) by (auto simp: cancelVote_def effect_simps claim_Inr [OF assms(1)])
  show ?thesis
    by (rule set_advances [OF w(1), where f = ?f])
      (use w assms(3,4) in \<open>auto simp: final_def sameTerms_def listEligibilitySnapshots_def getVoteResult_def\<close>)
qed

lemma publishVote_advances:
  assumes "gov_ok g" "publishVote b now i bid allow g = Inr (v', g')"
  shows "advances g g'"
proof -
  let ?f = "\<lambda>v. v\<lparr>vt_status := VS_ACTIVE, vt_publishedAt := Some now\<rparr>"
  obtain v where v: "theVote g i = Some v" "vt_status v = VS_DRAFT"
    and g': "g' = (let g1 = setVote i ?f g in g1\<lparr>snapshots := snapshots g1 @
       snapshotsFor b now i allow (filter (\<lambda>u. u_buildingId u = bid \<and> inScope v' u) (unitRows b))\<rparr>)"
    using assms(2) unfolding publishVote_Inr [OF assms(1)] by blast
  have "filter (\<lambda>s. vs_voteId s = j) (snapshotsFor b now i allow us) = []" if "j \<noteq> i" for j us
    using that by (auto simp: filter_empty_conv snapshotsFor_def List.map_filter_def)
  then show ?thesis
    by (intro set_advances [OF v(1), where f = ?f])
      (use v(2) in \<open>auto simp: g' Let_def final_def sameTerms_def listEligibilitySnapshots_def getVoteResult_def\<close>)
qed

lemma createBallot_advances:
  assumes "createBallot b now i uid voter opt g = Inr (x, g')"
  shows "advances g g'"
proof -
  obtain v where v: "theVote g i = Some v" "vt_status v = VS_ACTIVE"
    and x: "bl_voteId x = i" and g': "g' = take_gid (g\<lparr>ballots := ballots g @ [x]\<rparr>)"
    using createBallot_Inr [OF assms] by auto
  have the: "theVote g' = theVote g" by (rule ext) (simp add: theVote_def g')
  show ?thesis
  proof (rule advancesI)
    show "voteKept g g' j" if "j \<noteq> i" for j
      using that x by (simp add: voteKept_def the)
        (simp add: g' optionsOf_def listEligibilitySnapshots_def listBallots_def getVoteResult_def)
    show "if final (vt_status w) then voteKept g g' i else voteMoves g g' i w" if "theVote g i = Some w" for w
      using that v x by (simp add: final_def voteMoves_def the sameTerms_def)
        (simp add: g' optionsOf_def listEligibilitySnapshots_def listBallots_def)
  qed
qed

lemma closeVote_advances:
  assumes "gov_ok g" "closeVote now i q g = Inr (x, g')"
  shows "advances g g'"
proof -
  let ?f = "\<lambda>v. v\<lparr>vt_status := VS_CLOSED, vt_closedAt := Some now\<rparr>"
  obtain v' r where x: "x = (v', r)" by (cases x)
  obtain v where v: "theVote g i = Some v" "vt_status v = VS_ACTIVE" and r: "vr_voteId r = i"
    and g': "g' = (setVote i ?f g)\<lparr>voteResults := voteResults g @ [r]\<rparr>"
    using assms(2) unfolding x closeVote_Inr [OF assms(1)] by (auto simp: Let_def)
  show ?thesis
    by (rule set_advances [OF v(1), where f = ?f])
      (use v r in \<open>auto simp: g' final_def sameTerms_def listEligibilitySnapshots_def getVoteResult_def find_row_append split: option.split\<close>)
qed

lemma proxies_advance:
  "grantProxy b now uid bid p q g = Inr (x, g') \<Longrightarrow> advances g g'"
  "revokeProxy now i g = Inr (x, g') \<Longrightarrow> advances g g'"
  by (auto simp: grantProxy_def revokeProxy_def effect_simps Let_def split: if_splits intro!: advances_same)

lemma meetings_advance:
  "createMeeting b bid t at' loc p g = Inr (m, g') \<Longrightarrow> advances g g'"
  "updateMeeting i u g = Inr (m, g') \<Longrightarrow> advances g g'"
  "archiveMeeting now i g = Inr (m, g') \<Longrightarrow> advances g g'"
  "recordAttendance b now i ps g = Inr (rows, g') \<Longrightarrow> advances g g'"
  by (auto simp: createMeeting_def updateMeeting_def archiveMeeting_def modifyMeeting_def recordAttendance_def
      effect_simps Let_def split: if_splits intro!: advances_same)

text \<open>The two facts about a transaction that every history of them rests on.\<close>

definition goesOn :: "gov_db \<Rightarrow> gov_db \<Rightarrow> bool" where
  "goesOn g0 g \<longleftrightarrow> gov_ok g \<and> advances g0 g"

lemma goesOn_refl: "gov_ok g \<Longrightarrow> goesOn g g"
  by (simp add: goesOn_def)

lemma goesOn_step: "goesOn g0 g \<Longrightarrow> (gov_ok g \<Longrightarrow> gov_ok g' \<and> advances g g') \<Longrightarrow> goesOn g0 g'"
  by (auto simp: goesOn_def intro: advances_trans)

lemma goesOn_create: "goesOn g0 g \<Longrightarrow> createVote b now q g = Inr (v, g') \<Longrightarrow> goesOn g0 g'"
  by (erule goesOn_step) (blast intro: createVote_ok createVote_advances)

lemma goesOn_cancel:
  "goesOn g0 g \<Longrightarrow> cancelVote now i st reason g = Inr (v, g') \<Longrightarrow> st \<noteq> VS_CLOSED \<Longrightarrow> st \<noteq> VS_CANCELLED \<Longrightarrow> goesOn g0 g'"
  by (erule goesOn_step) (blast intro: cancelVote_ok cancelVote_advances)

lemma goesOn_publish: "goesOn g0 g \<Longrightarrow> bld_ok b \<Longrightarrow> publishVote b now i bid allow g = Inr (v, g') \<Longrightarrow> goesOn g0 g'"
  by (erule goesOn_step) (blast intro: publishVote_ok publishVote_advances)

lemma goesOn_ballot:
  "goesOn g0 g \<Longrightarrow> createBallot b now i uid voter opt g = Inr (x, g') \<Longrightarrow> findEligibilitySnapshotForUnit g i uid \<noteq> None \<Longrightarrow>
     \<exists>o'\<in>set (voteOptions g). vo_id o' = opt \<and> vo_voteId o' = i \<Longrightarrow> goesOn g0 g'"
  by (erule goesOn_step) (blast intro: createBallot_ok createBallot_advances)

lemma goesOn_close:
  "goesOn g0 g \<Longrightarrow> theVote g i = Some w \<Longrightarrow> closeVote now i (vt_quorumPercent w) g = Inr (x, g') \<Longrightarrow> goesOn g0 g'"
  by (erule goesOn_step, cases x) (blast intro: closeVote_ok closeVote_advances)

lemma goesOn_proxies:
  "goesOn g0 g \<Longrightarrow> grantProxy b now uid bid p r g = Inr (z, g') \<Longrightarrow> goesOn g0 g'"
  "goesOn g0 g \<Longrightarrow> revokeProxy now i g = Inr (z, g') \<Longrightarrow> goesOn g0 g'"
  by (erule goesOn_step, blast intro: grantProxy_ok revokeProxy_ok proxies_advance)+

lemma goesOn_meetings:
  "goesOn g0 g \<Longrightarrow> createMeeting b bid t at' loc p g = Inr (m, g') \<Longrightarrow> goesOn g0 g'"
  "goesOn g0 g \<Longrightarrow> updateMeeting i u g = Inr (m, g') \<Longrightarrow> goesOn g0 g'"
  "goesOn g0 g \<Longrightarrow> archiveMeeting now i g = Inr (m, g') \<Longrightarrow> goesOn g0 g'"
  "goesOn g0 g \<Longrightarrow> recordAttendance b now i ps g = Inr (rows, g') \<Longrightarrow> goesOn g0 g'"
  by (erule goesOn_step, blast intro: meetings_ok meetings_advance)+

end
