(* ===== verification/Case_Policy.thy ===== *)
theory Case_Policy
  imports Case_Types
begin

text \<open>
  The policy of \<^verbatim>\<open>src/src/modules/cases/domain/policies/case.policy.ts\<close>: who sees, edits and
  annotates a case, and from which status each transition may start.
\<close>

definition ACTIVE_STATUSES :: "caseStatus list" where
  "ACTIVE_STATUSES = [CS_OPEN, CS_IN_PROGRESS, CS_WAITING_USER]"

record caseAccessInput =
  ai_visibility :: caseVisibility
  ai_createdById :: id
  ai_assigneeId :: "id option"

definition accessOf :: "case_row \<Rightarrow> caseAccessInput" where
  "accessOf c = \<lparr>ai_visibility = ca_visibility c, ai_createdById = ca_createdById c, ai_assigneeId = ca_assigneeId c\<rparr>"

definition assertVisible :: "caseAccessInput \<Rightarrow> id \<Rightarrow> bool \<Rightarrow> unit result" where
  "assertVisible i requester isPrivileged =
     (if ai_visibility i = CV_PUBLIC then Inr ()
      else if ai_createdById i = requester then Inr ()
      else if ai_assigneeId i = Some requester then Inr ()
      else if isPrivileged then Inr ()
      else Inl (AuthorizationError STR ''You do not have access to this case.''))"

definition assertEditable :: "id \<Rightarrow> id \<Rightarrow> bool \<Rightarrow> caseStatus \<Rightarrow> unit result" where
  "assertEditable createdBy requester isPrivileged st =
     bind_r (assert_r (\<not> (createdBy \<noteq> requester \<and> \<not> isPrivileged))
       (AuthorizationError STR ''Only the case creator or a privileged role may edit this case.'')) (\<lambda>_.
     assert_r (st \<noteq> CS_CLOSED) (BusinessRuleViolationError STR ''A closed case must be reopened before it can be edited.''))"

definition assertCanPostInternalMessage :: "bool \<Rightarrow> bool \<Rightarrow> unit result" where
  "assertCanPostInternalMessage isInternal isPrivileged = assert_r (\<not> (isInternal \<and> \<not> isPrivileged))
     (AuthorizationError STR ''Only a privileged role may post an internal note.'')"

definition assertNotClosed :: "caseStatus \<Rightarrow> unit result" where
  "assertNotClosed st = assert_r (st \<noteq> CS_CLOSED) (BusinessRuleViolationError STR ''This case is closed.'')"

definition assertAssignableStatus :: "caseStatus \<Rightarrow> unit result" where
  "assertAssignableStatus st = assert_r (List.member ACTIVE_STATUSES st)
     (BusinessRuleViolationError STR ''Only an active case may be assigned.'')"

definition assertMessageable :: "caseStatus \<Rightarrow> unit result" where
  "assertMessageable st = assert_r (List.member ACTIVE_STATUSES st)
     (BusinessRuleViolationError STR ''A resolved or closed case must be reopened before adding messages.'')"

definition assertAssignable :: "bool \<Rightarrow> bool \<Rightarrow> unit result" where
  "assertAssignable isAgainstManager assigneeHoldsManagerRole =
     assert_r (\<not> (isAgainstManager \<and> assigneeHoldsManagerRole)) (BusinessRuleViolationError
       STR ''A complaint against the manager cannot be assigned to the manager - route it to a board member instead.'')"

definition assertResolvable :: "caseStatus \<Rightarrow> unit result" where
  "assertResolvable st = assert_r (\<not> (st = CS_RESOLVED \<or> st = CS_CLOSED))
     (BusinessRuleViolationError STR ''This case is already .'')"

definition assertCloseable :: "caseStatus \<Rightarrow> unit result" where
  "assertCloseable st = assert_r (st = CS_RESOLVED)
     (BusinessRuleViolationError STR ''Only a resolved case may be closed.'')"

definition assertReopenable :: "caseStatus \<Rightarrow> unit result" where
  "assertReopenable st = assert_r (\<not> (st \<noteq> CS_RESOLVED \<and> st \<noteq> CS_CLOSED))
     (BusinessRuleViolationError STR ''Only a resolved or closed case can be reopened.'')"

lemma assertVisible_iff: "assertVisible (accessOf c) p v = Inr u \<longleftrightarrow>
    ca_visibility c = CV_PUBLIC \<or> ca_createdById c = p \<or> ca_assigneeId c = Some p \<or> v"
  by (auto simp: assertVisible_def accessOf_def)

lemma active_iff: "st \<in> set ACTIVE_STATUSES \<longleftrightarrow> st \<noteq> CS_RESOLVED \<and> st \<noteq> CS_CLOSED"
  by (cases st) (simp_all add: ACTIVE_STATUSES_def)

end
