(* ===== verification/Case_Repo.thy ===== *)
theory Case_Repo
  imports Case_Policy Building_Repo Pagination
begin

text \<open>
  The repository of \<^verbatim>\<open>src/src/modules/cases/infrastructure/repositories/case.repository.ts\<close>.
  Every transition is a compare-and-swap on the status the caller has read.  Rows that
  point into the building tables are checked against them, which are an argument.
\<close>

section \<open>Cases\<close>

record createCaseParams =
  nc_buildingId :: id
  nc_unitId :: "id option"
  nc_type :: caseType
  nc_title :: string
  nc_description :: string
  nc_priority :: casePriority
  nc_visibility :: caseVisibility
  nc_isAgainstManager :: bool
  nc_createdById :: id

definition newCase :: "time \<Rightarrow> id \<Rightarrow> createCaseParams \<Rightarrow> case_row" where
  "newCase now i q = \<lparr>ca_id = i, ca_buildingId = nc_buildingId q, ca_unitId = nc_unitId q, ca_type = nc_type q,
     ca_title = nc_title q, ca_description = nc_description q, ca_status = CS_OPEN, ca_priority = nc_priority q,
     ca_visibility = nc_visibility q, ca_isAgainstManager = nc_isAgainstManager q, ca_resolutionCode = None,
     ca_createdById = nc_createdById q, ca_assigneeId = None, ca_createdAt = now, ca_closedAt = None,
     ca_mergedIntoId = None\<rparr>"

definition createCase :: "bld_db \<Rightarrow> time \<Rightarrow> createCaseParams \<Rightarrow> (case_db, case_row) tx" where
  "createCase b now q c =
     (let r = newCase now (fresh_cid c) q
      in if findBuildingById b (nc_buildingId q) = None \<or> dangling (findUnitById b) (nc_unitId q) \<or>
            findPersonById b (nc_createdById q) = None
         then Inl (PrismaError STR ''P2003'')
         else Inr (r, take_cid (c\<lparr>caseRows := caseRows c @ [r]\<rparr>)))"

definition findCaseById :: "case_db \<Rightarrow> id \<Rightarrow> case_row option" where
  "findCaseById c i = find_row ca_id i (caseRows c)"

text \<open>The empty strings a query may carry are falsy: they filter nothing.\<close>

record caseFilter =
  cf_type :: "caseType option"
  cf_status :: "caseStatus option"
  cf_priority :: "casePriority option"
  cf_assigneeId :: "id option"

definition matches :: "'a option \<Rightarrow> 'a \<Rightarrow> bool" where
  "matches want x \<longleftrightarrow> (case want of None \<Rightarrow> True | Some y \<Rightarrow> x = y)"

definition caseMatches :: "caseFilter \<Rightarrow> case_row \<Rightarrow> bool" where
  "caseMatches f r \<longleftrightarrow> matches (cf_type f) (ca_type r) \<and> matches (cf_status f) (ca_status r) \<and>
     matches (cf_priority f) (ca_priority r) \<and>
     (case cf_assigneeId f of None \<Rightarrow> True | Some a \<Rightarrow> a = [] \<or> ca_assigneeId r = Some a)"

definition caseListed :: "id \<Rightarrow> bool \<Rightarrow> case_row \<Rightarrow> bool" where
  "caseListed actor privileged r \<longleftrightarrow> privileged \<or> ca_visibility r = CV_PUBLIC \<or> ca_createdById r = actor \<or>
     ca_assigneeId r = Some actor"

text \<open>Newest and oldest first, with ties broken by the rank of the identifiers.\<close>

definition newestBy :: "(id \<Rightarrow> nat) \<Rightarrow> ('r \<Rightarrow> time) \<Rightarrow> ('r \<Rightarrow> id) \<Rightarrow> 'r list \<Rightarrow> 'r list" where
  "newestBy rank since key rows = sort_key (\<lambda>r. (- since r, - int (rank (key r)))) rows"

definition oldestBy :: "(id \<Rightarrow> nat) \<Rightarrow> ('r \<Rightarrow> time) \<Rightarrow> ('r \<Rightarrow> id) \<Rightarrow> 'r list \<Rightarrow> 'r list" where
  "oldestBy rank since key rows = sort_key (\<lambda>r. (since r, int (rank (key r)))) rows"

definition listCases ::
  "(id \<Rightarrow> nat) \<Rightarrow> case_db \<Rightarrow> id \<Rightarrow> caseFilter \<Rightarrow> id \<Rightarrow> bool \<Rightarrow> int \<times> int \<Rightarrow> case_row list \<times> nat" where
  "listCases rank c bid f actor privileged pg =
     (let rows = filter (\<lambda>r. ca_buildingId r = bid \<and> caseMatches f r \<and> caseListed actor privileged r) (caseRows c)
      in (window pg (newestBy rank ca_createdAt ca_id rows), length rows))"

text \<open>A null in a column that holds none is refused by the client.\<close>

record updateCaseParams =
  uc_title :: "string option field"
  uc_description :: "string option field"
  uc_priority :: "casePriority option field"
  uc_visibility :: "caseVisibility option field"

definition keepOr :: "'a option field \<Rightarrow> 'a \<Rightarrow> 'a" where
  "keepOr f old = (case f of Given (Some x) \<Rightarrow> x | _ \<Rightarrow> old)"

definition caseRow :: "case_db \<Rightarrow> id \<Rightarrow> case_row result" where
  "caseRow c i = needs (findCaseById c i) STR ''P2025''"

definition updateCaseFields :: "id \<Rightarrow> updateCaseParams \<Rightarrow> (case_db, case_row) tx" where
  "updateCaseFields i q c =
     (if uc_title q = Given None \<or> uc_description q = Given None \<or> uc_priority q = Given None \<or>
         uc_visibility q = Given None then Inl (PrismaError STR ''PrismaClientValidationError'')
      else let f = (\<lambda>r. r\<lparr>ca_title := keepOr (uc_title q) (ca_title r),
             ca_description := keepOr (uc_description q) (ca_description r),
             ca_priority := keepOr (uc_priority q) (ca_priority r),
             ca_visibility := keepOr (uc_visibility q) (ca_visibility r)\<rparr>)
        in bind_r (caseRow c i) (\<lambda>r. Inr (f r, c\<lparr>caseRows := upd_where (\<lambda>x. ca_id x = i) f (caseRows c)\<rparr>)))"

section \<open>Transitions\<close>

text \<open>\<open>updateMany({ where: { id, status } })\<close>, the test that one row was hit, and the row.\<close>

definition swapCase :: "id \<Rightarrow> (case_row \<Rightarrow> bool) \<Rightarrow> (case_row \<Rightarrow> case_row) \<Rightarrow> msg \<Rightarrow> (case_db, case_row) tx" where
  "swapCase i P f m c =
     (if count_where (\<lambda>r. ca_id r = i \<and> P r) (caseRows c) \<noteq> 1 then Inl (ConflictError m)
      else let c1 = c\<lparr>caseRows := upd_where (\<lambda>r. ca_id r = i \<and> P r) f (caseRows c)\<rparr>
        in bind_r (caseRow c1 i) (\<lambda>r. Inr (r, c1)))"

definition assignCase ::
  "bld_db \<Rightarrow> time \<Rightarrow> id \<Rightarrow> id \<Rightarrow> id \<Rightarrow> string option \<Rightarrow> caseStatus \<Rightarrow> (case_db, case_row \<times> caseAssignment) tx" where
  "assignCase b now i assignedTo assignedBy note expected c =
     bind_r (swapCase i (\<lambda>r. ca_status r = expected)
       (\<lambda>r. r\<lparr>ca_assigneeId := Some assignedTo, ca_status := CS_IN_PROGRESS\<rparr>)
       STR ''Case status changed; reload and retry.'' c) (\<lambda>(r, c1).
     let a = \<lparr>cg_id = fresh_cid c1, cg_caseId = i, cg_assignedToId = assignedTo, cg_assignedById = assignedBy,
              cg_note = note, cg_assignedAt = now\<rparr>
     in if findPersonById b assignedTo = None \<or> findPersonById b assignedBy = None then Inl (PrismaError STR ''P2003'')
        else Inr ((r, a), take_cid (c1\<lparr>caseAssignments := caseAssignments c1 @ [a]\<rparr>)))"

definition listAssignments :: "(id \<Rightarrow> nat) \<Rightarrow> case_db \<Rightarrow> id \<Rightarrow> int \<times> int \<Rightarrow> caseAssignment list \<times> nat" where
  "listAssignments rank c i pg =
     (let rows = filter (\<lambda>a. cg_caseId a = i) (caseAssignments c)
      in (window pg (newestBy rank cg_assignedAt cg_id rows), length rows))"

definition resolveCase :: "id \<Rightarrow> caseStatus \<Rightarrow> caseResolutionCode \<Rightarrow> (case_db, case_row) tx" where
  "resolveCase i expected code = swapCase i (\<lambda>r. ca_status r = expected)
     (\<lambda>r. r\<lparr>ca_status := CS_RESOLVED, ca_resolutionCode := Some code\<rparr>) STR ''Case status changed; reload and retry.''"

definition closeCase :: "time \<Rightarrow> id \<Rightarrow> (case_db, case_row) tx" where
  "closeCase now i = swapCase i (\<lambda>r. ca_status r = CS_RESOLVED)
     (\<lambda>r. r\<lparr>ca_status := CS_CLOSED, ca_closedAt := Some now\<rparr>) STR ''Case is no longer resolved.''"

definition reopenCase :: "id \<Rightarrow> caseStatus \<Rightarrow> (case_db, case_row) tx" where
  "reopenCase i expected = swapCase i (\<lambda>r. ca_status r = expected)
     (\<lambda>r. r\<lparr>ca_status := CS_OPEN, ca_closedAt := None, ca_resolutionCode := None\<rparr>)
     STR ''Case status changed; reload and retry.''"

definition mergeCase :: "time \<Rightarrow> id \<Rightarrow> id \<Rightarrow> caseStatus \<Rightarrow> (case_db, case_row) tx" where
  "mergeCase now i into expected c =
     (if findCaseById c into = None \<and> count_where (\<lambda>r. ca_id r = i \<and> ca_status r = expected \<and> ca_mergedIntoId r = None) (caseRows c) = 1
      then Inl (PrismaError STR ''P2003'')
      else swapCase i (\<lambda>r. ca_status r = expected \<and> ca_mergedIntoId r = None)
        (\<lambda>r. r\<lparr>ca_mergedIntoId := Some into, ca_status := CS_CLOSED, ca_closedAt := Some now\<rparr>)
        STR ''Case status changed or was already merged.'' c)"

section \<open>Messages\<close>

definition createMessage :: "bld_db \<Rightarrow> time \<Rightarrow> id \<Rightarrow> id \<Rightarrow> string \<Rightarrow> bool \<Rightarrow> (case_db, caseMessage) tx" where
  "createMessage b now i sender txt isInternal c =
     (let m = \<lparr>cm_id = fresh_cid c, cm_caseId = i, cm_senderId = sender, cm_message = txt,
               cm_isInternal = isInternal, cm_createdAt = now\<rparr>
      in if findCaseById c i = None \<or> findPersonById b sender = None then Inl (PrismaError STR ''P2003'')
         else Inr (m, take_cid (c\<lparr>caseMessages := caseMessages c @ [m]\<rparr>)))"

definition listMessages :: "(id \<Rightarrow> nat) \<Rightarrow> case_db \<Rightarrow> id \<Rightarrow> bool \<Rightarrow> int \<times> int \<Rightarrow> caseMessage list \<times> nat" where
  "listMessages rank c i includeInternal pg =
     (let rows = filter (\<lambda>m. cm_caseId m = i \<and> (includeInternal \<or> \<not> cm_isInternal m)) (caseMessages c)
      in (window pg (oldestBy rank cm_createdAt cm_id rows), length rows))"

text \<open>What a person was in a building, with the unit each relation is about.\<close>

record authorMembership =
  am_role :: membershipRole
  am_unitId :: "id option"
  am_startedAt :: time
  am_endedAt :: "time option"
  am_unitNumber :: "string option"

record unitPeriod =
  up_unitId :: id
  up_startDate :: time
  up_endDate :: "time option"
  up_unitNumber :: string

record authorContext =
  ac_id :: id
  ac_memberships :: "authorMembership list"
  ac_ownerships :: "unitPeriod list"
  ac_tenancies :: "unitPeriod list"

definition unitNumberOf :: "bld_db \<Rightarrow> id option \<Rightarrow> string option" where
  "unitNumberOf b uid = (case uid of None \<Rightarrow> None | Some u \<Rightarrow> map_option u_unitNumber (findUnitById b u))"

definition unitPeriods :: "bld_db \<Rightarrow> id \<Rightarrow> (id \<times> time \<times> time option) list \<Rightarrow> unitPeriod list" where
  "unitPeriods b bid rows = List.map_filter (\<lambda>(uid, st, en). case findUnitById b uid of
       None \<Rightarrow> None
     | Some u \<Rightarrow> if u_buildingId u = bid
         then Some \<lparr>up_unitId = uid, up_startDate = st, up_endDate = en, up_unitNumber = u_unitNumber u\<rparr> else None) rows"

definition contextOf :: "bld_db \<Rightarrow> id \<Rightarrow> id \<Rightarrow> authorContext" where
  "contextOf b bid p = \<lparr>ac_id = p,
     ac_memberships = map (\<lambda>m. \<lparr>am_role = mb_role m, am_unitId = mb_unitId m, am_startedAt = mb_startedAt m,
         am_endedAt = mb_endedAt m, am_unitNumber = unitNumberOf b (mb_unitId m)\<rparr>)
       (filter (\<lambda>m. mb_personId m = p \<and> mb_buildingId m = bid) (memberships b)),
     ac_ownerships = unitPeriods b bid (map (\<lambda>w. (ow_unitId w, ow_startDate w, ow_endDate w))
       (filter (\<lambda>w. ow_personId w = p) (ownerships b))),
     ac_tenancies = unitPeriods b bid (map (\<lambda>t. (tn_unitId t, tn_startDate t, tn_endDate t))
       (filter (\<lambda>t. tn_personId t = p) (tenancies b)))\<rparr>"

definition findMessageAuthorContexts :: "bld_db \<Rightarrow> id list \<Rightarrow> id \<Rightarrow> authorContext list" where
  "findMessageAuthorContexts b ps bid =
     map (\<lambda>q. contextOf b bid (pe_id q)) (filter (\<lambda>q. List.member ps (pe_id q)) (persons b))"

end
