(* ===== verification/Case_Service.thy ===== *)
theory Case_Service
  imports Case_Repo Building_Service "HOL-Library.AList"
begin

text \<open>
  The service of \<^verbatim>\<open>src/src/modules/cases/application/cases.service.ts\<close>: one action per
  method, in the order of its checks, writes, audit entries and events.
\<close>

definition PRIVILEGED_ROLES :: "membershipRole list" where
  "PRIVILEGED_ROLES = [MANAGER, BOARD_MEMBER, ACCOUNTANT]"

definition cas :: "(case_db \<Rightarrow> 'a) \<Rightarrow> 'a action" where
  "cas f = query (\<lambda>s. f (s_case s))"

text \<open>A transaction on the case tables that reads the building tables.\<close>

definition site_case_tx :: "(bld_db \<Rightarrow> (case_db, 'a) tx) \<Rightarrow> 'a action" where
  "site_case_tx t s = case_tx (t (s_bld s)) s"

definition privilegedIn :: "bld_db \<Rightarrow> id \<Rightarrow> id \<Rightarrow> bool" where
  "privilegedIn b p bid \<longleftrightarrow> list_ex (List.member PRIVILEGED_ROLES) (getRoles b p bid)"

definition isPrivileged :: "id \<Rightarrow> id \<Rightarrow> bool action" where
  "isPrivileged p bid = bld (\<lambda>b. privilegedIn b p bid)"

definition getCaseOrThrow :: "id \<Rightarrow> id \<Rightarrow> case_row action" where
  "getCaseOrThrow bid i = lift_svc (\<lambda>s. case findCaseById (s_case s) i of
       Some r \<Rightarrow> if ca_buildingId r = bid then Inr r else Inl (NotFoundAppError STR ''Case not found.'')
     | None \<Rightarrow> Inl (NotFoundAppError STR ''Case not found.''))"

section \<open>The author of a message\<close>

definition activeAtMessage :: "time \<Rightarrow> time \<Rightarrow> time option \<Rightarrow> bool" where
  "activeAtMessage t startAt endAt \<longleftrightarrow> startAt \<le> t \<and> (case endAt of None \<Rightarrow> True | Some e \<Rightarrow> e \<ge> t)"

definition authorRoles :: "membershipRole list" where
  "authorRoles = PRIVILEGED_ROLES @ [OWNER, TENANT]"

text \<open>A JavaScript map: a key that is set again keeps its place.\<close>

definition truthy :: "string option \<Rightarrow> string option" where
  "truthy x = (case x of Some (c # cs) \<Rightarrow> Some (c # cs) | _ \<Rightarrow> None)"

definition putMembership :: "authorMembership \<Rightarrow> (id \<times> string) list \<Rightarrow> (id \<times> string) list" where
  "putMembership m units = (case (truthy (am_unitId m), truthy (am_unitNumber m)) of
     (Some u, Some n) \<Rightarrow> AList.update u n units | _ \<Rightarrow> units)"

definition putPeriod :: "time \<Rightarrow> unitPeriod \<Rightarrow> (id \<times> string) list \<Rightarrow> (id \<times> string) list" where
  "putPeriod t p units = (if activeAtMessage t (up_startDate p) (up_endDate p)
     then AList.update (up_unitId p) (up_unitNumber p) units else units)"

definition authorUnits :: "time \<Rightarrow> authorContext \<Rightarrow> (id \<times> string) list" where
  "authorUnits t c =
     fold (putPeriod t) (ac_tenancies c) (fold (putPeriod t) (ac_ownerships c)
       (fold putMembership (filter (\<lambda>m. activeAtMessage t (am_startedAt m) (am_endedAt m)) (ac_memberships c)) []))"

definition roleAt :: "time \<Rightarrow> authorContext \<Rightarrow> membershipRole option" where
  "roleAt t c = (let roles = map am_role (filter (\<lambda>m. activeAtMessage t (am_startedAt m) (am_endedAt m)) (ac_memberships c))
     in find (List.member roles) authorRoles)"

definition authorUnitNumber :: "(id \<times> string) list \<Rightarrow> id option \<Rightarrow> string option" where
  "authorUnitNumber units caseUnit =
     (case (case truthy caseUnit of None \<Rightarrow> None | Some u \<Rightarrow> map_of units u) of
        Some n \<Rightarrow> Some n
      | None \<Rightarrow> (case units of [(_, n)] \<Rightarrow> Some n | _ \<Rightarrow> None))"

record shownMessage =
  sm_message :: caseMessage
  sm_authorUnitNumber :: "string option"
  sm_authorRole :: "membershipRole option"

definition presentMessage :: "authorContext list \<Rightarrow> id option \<Rightarrow> caseMessage \<Rightarrow> shownMessage" where
  "presentMessage contexts caseUnit m =
     (case find (\<lambda>c. ac_id c = cm_senderId m) contexts of
        None \<Rightarrow> \<lparr>sm_message = m, sm_authorUnitNumber = None, sm_authorRole = None\<rparr>
      | Some c \<Rightarrow> let r = roleAt (cm_createdAt m) c
          in \<lparr>sm_message = m, sm_authorUnitNumber = (if r = Some OWNER \<or> r = Some TENANT
                then authorUnitNumber (authorUnits (cm_createdAt m) c) caseUnit else None), sm_authorRole = r\<rparr>)"

definition presentMessageAuthors :: "bld_db \<Rightarrow> caseMessage list \<Rightarrow> id \<Rightarrow> id option \<Rightarrow> shownMessage list" where
  "presentMessageAuthors b ms bid caseUnit =
     map (presentMessage (findMessageAuthorContexts b (remdups (map cm_senderId ms)) bid) caseUnit) ms"

section \<open>Cases\<close>

record createCaseDto =
  dc_unitId :: "id option"
  dc_type :: caseType
  dc_title :: string
  dc_description :: string
  dc_priority :: "casePriority option"
  dc_visibility :: "caseVisibility option"
  dc_isAgainstManager :: "bool option"

definition orElse :: "'a option \<Rightarrow> 'a \<Rightarrow> 'a" where
  "orElse x d = (case x of None \<Rightarrow> d | Some y \<Rightarrow> y)"

definition caseParams :: "id \<Rightarrow> createCaseDto \<Rightarrow> id \<Rightarrow> createCaseParams" where
  "caseParams bid dto p = \<lparr>nc_buildingId = bid, nc_unitId = dc_unitId dto, nc_type = dc_type dto,
     nc_title = dc_title dto, nc_description = dc_description dto, nc_priority = orElse (dc_priority dto) CP_NORMAL,
     nc_visibility = orElse (dc_visibility dto) CV_PRIVATE, nc_isAgainstManager = orElse (dc_isAgainstManager dto) False,
     nc_createdById = p\<rparr>"

definition svc_createCase :: "time \<Rightarrow> id \<Rightarrow> createCaseDto \<Rightarrow> id \<Rightarrow> case_row action" where
  "svc_createCase now bid dto p =
     bind_svc (getById bid) (\<lambda>_.
     bind_svc (case truthy (dc_unitId dto) of None \<Rightarrow> return_svc ()
       | Some uid \<Rightarrow> bind_svc (ownUnit bid uid) (\<lambda>_. return_svc ())) (\<lambda>_.
     bind_svc (site_case_tx (\<lambda>b. createCase b now (caseParams bid dto p))) (\<lambda>r.
     bind_svc (record_audit (Some p) (Some bid) STR ''CaseCreated'' (ca_id r) None) (\<lambda>_.
     bind_svc (publish (CaseCreatedEvent (ca_id r) bid p)) (\<lambda>_.
     return_svc r)))))"

definition svc_listCases :: "id \<Rightarrow> id \<Rightarrow> caseFilter \<Rightarrow> paginationParams \<Rightarrow> (case_row list \<times> paginationMeta) action" where
  "svc_listCases bid p f pg =
     bind_svc (isPrivileged p bid) (\<lambda>privileged.
     query (\<lambda>s. case listCases (bld_collation (s_bld s)) (s_case s) bid f p privileged (toSkipTake pg) of
       (rows, n) \<Rightarrow> (rows, buildPaginationMeta pg (int n))))"

definition getCase :: "id \<Rightarrow> id \<Rightarrow> id \<Rightarrow> case_row action" where
  "getCase bid i p =
     bind_svc (getCaseOrThrow bid i) (\<lambda>r.
     bind_svc (isPrivileged p bid) (\<lambda>privileged.
     bind_svc (guard (assertVisible (accessOf r) p privileged)) (\<lambda>_.
     return_svc r)))"

definition updateCase :: "id \<Rightarrow> id \<Rightarrow> updateCaseParams \<Rightarrow> id \<Rightarrow> case_row action" where
  "updateCase bid i dto p =
     bind_svc (getCaseOrThrow bid i) (\<lambda>r.
     bind_svc (isPrivileged p bid) (\<lambda>privileged.
     bind_svc (guard (assertEditable (ca_createdById r) p privileged (ca_status r))) (\<lambda>_.
     bind_svc (case_tx (updateCaseFields i dto)) (\<lambda>x.
     bind_svc (record_audit (Some p) (Some bid) STR ''CaseUpdated'' i None) (\<lambda>_.
     return_svc x)))))"

definition svc_assignCase :: "time \<Rightarrow> id \<Rightarrow> id \<Rightarrow> id \<Rightarrow> string option \<Rightarrow> id \<Rightarrow> (case_row \<times> caseAssignment) action" where
  "svc_assignCase now bid i assignee note p =
     bind_svc (getCaseOrThrow bid i) (\<lambda>r.
     bind_svc (guard (assertAssignableStatus (ca_status r))) (\<lambda>_.
     bind_svc (bld (\<lambda>b. getRoles b assignee bid)) (\<lambda>roles.
     bind_svc (guard (assert_r (list_ex (List.member PRIVILEGED_ROLES) roles) (BusinessRuleViolationError
       STR ''The assignee must be a current Manager, Board Member, or Accountant of this building.''))) (\<lambda>_.
     bind_svc (guard (assertAssignable (ca_isAgainstManager r) (List.member roles MANAGER))) (\<lambda>_.
     bind_svc (site_case_tx (\<lambda>b. assignCase b now i assignee p note (ca_status r))) (\<lambda>x.
     bind_svc (record_audit (Some p) (Some bid) STR ''CaseAssigned'' i None) (\<lambda>_.
     bind_svc (publish (CaseAssignedEvent i bid assignee)) (\<lambda>_.
     return_svc x))))))))"

definition svc_listAssignments ::
  "id \<Rightarrow> id \<Rightarrow> id \<Rightarrow> paginationParams \<Rightarrow> (caseAssignment list \<times> paginationMeta) action" where
  "svc_listAssignments bid i p pg =
     bind_svc (getCase bid i p) (\<lambda>_.
     query (\<lambda>s. case listAssignments (bld_collation (s_bld s)) (s_case s) i (toSkipTake pg) of
       (rows, n) \<Rightarrow> (rows, buildPaginationMeta pg (int n))))"

definition addMessage :: "time \<Rightarrow> id \<Rightarrow> id \<Rightarrow> string \<Rightarrow> bool option \<Rightarrow> id \<Rightarrow> shownMessage action" where
  "addMessage now bid i txt isInternal p =
     bind_svc (getCaseOrThrow bid i) (\<lambda>r.
     bind_svc (isPrivileged p bid) (\<lambda>privileged.
     bind_svc (guard (assertVisible (accessOf r) p privileged)) (\<lambda>_.
     bind_svc (guard (assertCanPostInternalMessage (orElse isInternal False) privileged)) (\<lambda>_.
     bind_svc (guard (assertMessageable (ca_status r))) (\<lambda>_.
     bind_svc (site_case_tx (\<lambda>b. createMessage b now i p txt (orElse isInternal False))) (\<lambda>m.
     bind_svc (record_audit (Some p) (Some bid) STR ''CaseMessageAdded'' i None) (\<lambda>_.
     bld (\<lambda>b. hd (presentMessageAuthors b [m] bid (ca_unitId r))))))))))"

definition svc_listMessages ::
  "id \<Rightarrow> id \<Rightarrow> id \<Rightarrow> paginationParams \<Rightarrow> (shownMessage list \<times> paginationMeta) action" where
  "svc_listMessages bid i p pg =
     bind_svc (getCaseOrThrow bid i) (\<lambda>r.
     bind_svc (isPrivileged p bid) (\<lambda>privileged.
     bind_svc (guard (assertVisible (accessOf r) p privileged)) (\<lambda>_.
     query (\<lambda>s. case listMessages (bld_collation (s_bld s)) (s_case s) i privileged (toSkipTake pg) of
       (rows, n) \<Rightarrow> (presentMessageAuthors (s_bld s) rows bid (ca_unitId r), buildPaginationMeta pg (int n))))))"

text \<open>The audit entry and the event that follow a transition.\<close>

definition changed :: "msg \<Rightarrow> id \<Rightarrow> case_row \<Rightarrow> caseStatus \<Rightarrow> id \<Rightarrow> string option \<Rightarrow> 'a \<Rightarrow> 'a action" where
  "changed what bid r st p reason x =
     bind_svc (record_audit (Some p) (Some bid) what (ca_id r) reason) (\<lambda>_.
     bind_svc (publish (CaseStatusChangedEvent (ca_id r) bid (ca_status r) st p)) (\<lambda>_.
     return_svc x))"

definition svc_resolveCase :: "id \<Rightarrow> id \<Rightarrow> caseResolutionCode \<Rightarrow> id \<Rightarrow> case_row action" where
  "svc_resolveCase bid i code p =
     bind_svc (getCaseOrThrow bid i) (\<lambda>r.
     bind_svc (guard (assertResolvable (ca_status r))) (\<lambda>_.
     bind_svc (case_tx (resolveCase i (ca_status r) code)) (\<lambda>x.
     changed STR ''CaseResolved'' bid r CS_RESOLVED p None x)))"

definition svc_closeCase :: "time \<Rightarrow> id \<Rightarrow> id \<Rightarrow> id \<Rightarrow> case_row action" where
  "svc_closeCase now bid i p =
     bind_svc (getCaseOrThrow bid i) (\<lambda>r.
     bind_svc (guard (assertCloseable (ca_status r))) (\<lambda>_.
     bind_svc (case_tx (closeCase now i)) (\<lambda>x.
     changed STR ''CaseClosed'' bid r CS_CLOSED p None x)))"

definition merged :: "case_row \<Rightarrow> bool" where
  "merged r \<longleftrightarrow> truthy (ca_mergedIntoId r) \<noteq> None"

definition svc_reopenCase :: "id \<Rightarrow> id \<Rightarrow> string option \<Rightarrow> id \<Rightarrow> case_row action" where
  "svc_reopenCase bid i reason p =
     bind_svc (getCaseOrThrow bid i) (\<lambda>r.
     bind_svc (isPrivileged p bid) (\<lambda>privileged.
     bind_svc (guard (assert_r (\<not> (ca_createdById r \<noteq> p \<and> \<not> privileged))
       (AuthorizationError STR ''Only the case creator or a privileged role may reopen this case.''))) (\<lambda>_.
     bind_svc (guard (assertReopenable (ca_status r))) (\<lambda>_.
     bind_svc (guard (assert_r (\<not> merged r) (BusinessRuleViolationError STR ''A merged case cannot be reopened.''))) (\<lambda>_.
     bind_svc (case_tx (reopenCase i (ca_status r))) (\<lambda>x.
     changed STR ''CaseReopened'' bid r CS_OPEN p reason x))))))"

text \<open>The checks on the target of a merge.\<close>

definition mergeTarget :: "id \<Rightarrow> case_row \<Rightarrow> unit result" where
  "mergeTarget i t =
     bind_r (assert_r (ca_mergedIntoId t \<noteq> Some i) (ValidationError STR ''This merge would create a cycle.'')) (\<lambda>_.
     bind_r (assert_r (\<not> merged t) (ValidationError STR ''Cannot merge into a case that is already merged.'')) (\<lambda>_.
     assert_r (\<not> (ca_status t = CS_RESOLVED \<or> ca_status t = CS_CLOSED))
       (ValidationError STR ''Cannot merge into a terminal case.'')))"

definition svc_mergeCase :: "time \<Rightarrow> id \<Rightarrow> id \<Rightarrow> id \<Rightarrow> id \<Rightarrow> case_row action" where
  "svc_mergeCase now bid i into p =
     bind_svc (guard (assert_r (i \<noteq> into) (ValidationError STR ''A case cannot be merged into itself.''))) (\<lambda>_.
     bind_svc (getCaseOrThrow bid i) (\<lambda>r.
     bind_svc (guard (assert_r (\<not> merged r) (ValidationError STR ''Cannot merge a case that is already merged.''))) (\<lambda>_.
     bind_svc (guard (assertNotClosed (ca_status r))) (\<lambda>_.
     bind_svc (getCaseOrThrow bid into) (\<lambda>t.
     bind_svc (guard (mergeTarget i t)) (\<lambda>_.
     bind_svc (case_tx (mergeCase now i into (ca_status r))) (\<lambda>x.
     changed STR ''CaseMerged'' bid r CS_CLOSED p None x)))))))"

end
