(* ===== verification/Case_Inv.thy ===== *)
theory Case_Inv
  imports Case_Service
begin

text \<open>
  What holds of the case tables between calls: the columns of a case agree with its status,
  its assignee is the one of its last assignment, messages and assignments belong to a
  case, and the merge pointers stay in one building and run into no cycle.
\<close>

section \<open>The invariant\<close>

definition caseUsed :: "case_db \<Rightarrow> id set" where
  "caseUsed c = ca_id ` set (caseRows c) \<union> cm_id ` set (caseMessages c) \<union> cg_id ` set (caseAssignments c)"

definition cids_ok :: "case_db \<Rightarrow> bool" where
  "cids_ok c \<longleftrightarrow> inj (case_ids c) \<and> (\<forall>n. case_ids c n \<noteq> []) \<and> (\<forall>n\<ge>case_next c. case_ids c n \<notin> caseUsed c)"

definition ckeys_ok :: "case_db \<Rightarrow> bool" where
  "ckeys_ok c \<longleftrightarrow> distinct (map ca_id (caseRows c)) \<and> distinct (map cm_id (caseMessages c)) \<and>
     distinct (map cg_id (caseAssignments c))"

definition crefs_ok :: "case_db \<Rightarrow> bool" where
  "crefs_ok c \<longleftrightarrow> (\<forall>m\<in>set (caseMessages c). cm_caseId m \<in> ca_id ` set (caseRows c)) \<and>
     (\<forall>a\<in>set (caseAssignments c). cg_caseId a \<in> ca_id ` set (caseRows c))"

text \<open>The columns that go with a status.\<close>

definition caseFields :: "case_row \<Rightarrow> bool" where
  "caseFields r \<longleftrightarrow> ca_id r \<noteq> [] \<and>
     (case ca_status r of
        CS_OPEN \<Rightarrow> ca_closedAt r = None \<and> ca_resolutionCode r = None \<and> ca_mergedIntoId r = None
      | CS_IN_PROGRESS \<Rightarrow> ca_closedAt r = None \<and> ca_resolutionCode r = None \<and> ca_mergedIntoId r = None \<and> ca_assigneeId r \<noteq> None
      | CS_WAITING_USER \<Rightarrow> False
      | CS_RESOLVED \<Rightarrow> ca_closedAt r = None \<and> ca_resolutionCode r \<noteq> None \<and> ca_mergedIntoId r = None
      | CS_CLOSED \<Rightarrow> ca_closedAt r \<noteq> None \<and> (ca_resolutionCode r \<noteq> None \<or> ca_mergedIntoId r \<noteq> None))"

definition lastAssignee :: "case_db \<Rightarrow> id \<Rightarrow> id option" where
  "lastAssignee c i = (case filter (\<lambda>a. cg_caseId a = i) (caseAssignments c) of
     [] \<Rightarrow> None | as \<Rightarrow> Some (cg_assignedToId (last as)))"

lemma lastAssignee_if: "lastAssignee c i = (let as = filter (\<lambda>a. cg_caseId a = i) (caseAssignments c)
    in if as = [] then None else Some (cg_assignedToId (last as)))"
  by (simp add: lastAssignee_def Let_def split: list.split)

definition crows_ok :: "case_db \<Rightarrow> bool" where
  "crows_ok c \<longleftrightarrow> (\<forall>r\<in>set (caseRows c). caseFields r \<and> ca_assigneeId r = lastAssignee c (ca_id r))"

definition mergeEdges :: "case_db \<Rightarrow> (id \<times> id) set" where
  "mergeEdges c = {(ca_id r, j) | r j. r \<in> set (caseRows c) \<and> ca_mergedIntoId r = Some j}"

definition merges_ok :: "case_db \<Rightarrow> bool" where
  "merges_ok c \<longleftrightarrow> acyclic (mergeEdges c) \<and>
     (\<forall>r\<in>set (caseRows c). \<forall>j. ca_mergedIntoId r = Some j \<longrightarrow>
        (\<exists>t\<in>set (caseRows c). ca_id t = j \<and> ca_buildingId t = ca_buildingId r))"

definition cases_ok :: "case_db \<Rightarrow> bool" where
  "cases_ok c \<longleftrightarrow> cids_ok c \<and> ckeys_ok c \<and> crefs_ok c \<and> crows_ok c \<and> merges_ok c"

lemma cases_okI: "cids_ok c \<Longrightarrow> ckeys_ok c \<Longrightarrow> crefs_ok c \<Longrightarrow> crows_ok c \<Longrightarrow> merges_ok c \<Longrightarrow> cases_ok c"
  by (simp add: cases_ok_def)

lemma cases_okD: "cases_ok c \<Longrightarrow> cids_ok c" "cases_ok c \<Longrightarrow> ckeys_ok c" "cases_ok c \<Longrightarrow> crefs_ok c"
  "cases_ok c \<Longrightarrow> crows_ok c" "cases_ok c \<Longrightarrow> merges_ok c"
  by (simp_all add: cases_ok_def)

lemma take_cid_simps [simp]:
  "caseRows (take_cid c) = caseRows c" "caseMessages (take_cid c) = caseMessages c"
  "caseAssignments (take_cid c) = caseAssignments c" "case_ids (take_cid c) = case_ids c"
  "case_next (take_cid c) = Suc (case_next c)"
  by (simp_all add: take_cid_def)

lemma cids_new:
  assumes "cids_ok c" "caseUsed c' \<subseteq> insert (fresh_cid c) (caseUsed c)" "case_ids c' = case_ids c" "case_next c' = Suc (case_next c)"
  shows "cids_ok c'"
proof -
  have "case_ids c n \<notin> insert (fresh_cid c) (caseUsed c)" if "Suc (case_next c) \<le> n" for n
    using assms(1) that by (auto simp: cids_ok_def fresh_cid_def inj_eq)
  then show ?thesis using assms by (auto simp: cids_ok_def)
qed

lemma cfresh: "cids_ok c \<Longrightarrow> fresh_cid c \<notin> caseUsed c" "cids_ok c \<Longrightarrow> fresh_cid c \<noteq> []"
  by (simp_all add: cids_ok_def fresh_cid_def)

section \<open>New rows\<close>

lemma newCase_ok:
  assumes "cases_ok c" "r = newCase now (fresh_cid c) q"
  shows "cases_ok (take_cid (c\<lparr>caseRows := caseRows c @ [r]\<rparr>))" (is "cases_ok ?c")
proof (rule cases_okI)
  note ok = cases_okD [OF assms(1)]
  have id: "ca_id r = fresh_cid c" "ca_mergedIntoId r = None" by (simp_all add: assms(2) newCase_def)
  have new: "fresh_cid c \<notin> ca_id ` set (caseRows c)" using cfresh [OF ok(1)] by (simp add: caseUsed_def)
  show "cids_ok ?c" using id by (intro cids_new [OF ok(1)]) (auto simp: caseUsed_def)
  show "ckeys_ok ?c" using ok(2) new id by (simp add: ckeys_ok_def)
  show "crefs_ok ?c" using ok(3) by (auto simp: crefs_ok_def)
  have none: "filter (\<lambda>a. cg_caseId a = fresh_cid c) (caseAssignments c) = []"
    using ok(3) new unfolding crefs_ok_def filter_empty_conv by metis
  have "lastAssignee ?c i = lastAssignee c i" for i by (simp add: lastAssignee_def)
  moreover have "lastAssignee c (fresh_cid c) = None" by (simp add: lastAssignee_def none)
  ultimately show "crows_ok ?c" using ok(4) cfresh(2) [OF ok(1)] by (auto simp: crows_ok_def assms(2) newCase_def caseFields_def)
  have "mergeEdges ?c = mergeEdges c" using id(2) by (auto simp: mergeEdges_def)
  then show "merges_ok ?c" using ok(5) id(2) by (auto simp: merges_ok_def)
qed

lemma createCase_ok: "cases_ok c \<Longrightarrow> createCase b now q c = Inr (r, c') \<Longrightarrow> cases_ok c'"
  by (auto simp: createCase_def Let_def split: if_splits intro!: newCase_ok)

lemma createMessage_ok:
  assumes "cases_ok c" "createMessage b now i p txt v c = Inr (m, c')"
  shows "cases_ok c'"
proof -
  note ok = cases_okD [OF assms(1)]
  have m: "cm_id m = fresh_cid c" "cm_caseId m = i" "c' = take_cid (c\<lparr>caseMessages := caseMessages c @ [m]\<rparr>)"
    and i: "findCaseById c i \<noteq> None"
    using assms(2) by (auto simp: createMessage_def Let_def split: if_splits)
  have "i \<in> ca_id ` set (caseRows c)" using i by (simp add: findCaseById_def find_row_None_iff)
  moreover have "fresh_cid c \<notin> cm_id ` set (caseMessages c)" using cfresh [OF ok(1)] by (simp add: caseUsed_def)
  ultimately show ?thesis
    using ok m cids_new [OF ok(1), of c']
    by (simp add: cases_ok_def ckeys_ok_def crefs_ok_def crows_ok_def lastAssignee_def merges_ok_def mergeEdges_def caseUsed_def)
qed

section \<open>Transitions\<close>

definition setCase :: "id \<Rightarrow> (case_row \<Rightarrow> case_row) \<Rightarrow> case_db \<Rightarrow> case_db" where
  "setCase i f c = c\<lparr>caseRows := upd_where (\<lambda>r. ca_id r = i) f (caseRows c)\<rparr>"

lemma setCase_simps [simp]:
  "caseMessages (setCase i f c) = caseMessages c" "caseAssignments (setCase i f c) = caseAssignments c"
  "case_ids (setCase i f c) = case_ids c" "case_next (setCase i f c) = case_next c"
  by (simp_all add: setCase_def)

lemma findCase_set:
  "(\<And>r. ca_id (f r) = ca_id r) \<Longrightarrow> findCaseById (setCase i f c) j = (if j = i then map_option f (findCaseById c j) else findCaseById c j)"
  by (cases "findCaseById c j") (auto simp: findCaseById_def setCase_def find_row_upd_same)

lemma swapCase_Inr:
  assumes "cases_ok c" "\<And>r. ca_id (f r) = ca_id r"
  shows "swapCase i P f m c = Inr (r', c') \<longleftrightarrow>
    (\<exists>r. findCaseById c i = Some r \<and> P r \<and> r' = f r) \<and> c' = setCase i f c"
proof -
  have d: "distinct (map ca_id (caseRows c))" using cases_okD(2) [OF assms(1)] by (simp add: ckeys_ok_def)
  show ?thesis
  proof (cases "\<exists>r. findCaseById c i = Some r \<and> P r")
    case True
    then obtain r where r: "findCaseById c i = Some r" "P r" by blast
    have "c\<lparr>caseRows := upd_where (\<lambda>r. ca_id r = i \<and> P r) f (caseRows c)\<rparr> = setCase i f c"
      using upd_where_hit [OF d, of i r P f] r by (simp add: setCase_def findCaseById_def)
    moreover have "count_where (\<lambda>r. ca_id r = i \<and> P r) (caseRows c) = 1"
      using r by (simp add: count_hit [OF d] findCaseById_def)
    moreover have "caseRow (setCase i f c) i = Inr (f r)"
      using r(1) by (simp add: caseRow_def findCase_set [OF assms(2)] needs_def)
    ultimately show ?thesis using r by (auto simp: swapCase_def Let_def)
  next
    case False
    then show ?thesis by (auto simp: swapCase_def findCaseById_def count_hit [OF d] split: option.splits)
  qed
qed

lemma setCase_rows:
  assumes "cases_ok c" "findCaseById c i = Some r"
  shows "set (caseRows (setCase i f c)) = insert (f r) (set (caseRows c) - {r})" "r \<in> set (caseRows c)" "ca_id r = i"
    "ca_id ` (set (caseRows c) - {r}) = ca_id ` set (caseRows c) - {i}"
    "\<And>x. x \<in> set (caseRows c) \<Longrightarrow> ca_id x = i \<longleftrightarrow> x = r"
proof -
  have inj: "inj_on ca_id (set (caseRows c))" using cases_okD(2) [OF assms(1)] by (simp add: ckeys_ok_def distinct_map)
  show r: "r \<in> set (caseRows c)" "ca_id r = i" using assms(2) by (auto simp: findCaseById_def)
  have "(if ca_id x = i then f x else x) = (if x = r then f r else x)" if "x \<in> set (caseRows c)" for x
    using inj_onD [OF inj _ that r(1)] r(2) by (cases "x = r") auto
  then show "set (caseRows (setCase i f c)) = insert (f r) (set (caseRows c) - {r})"
    using r(1) by (auto simp: setCase_def set_upd_where)
  show "ca_id ` (set (caseRows c) - {r}) = ca_id ` set (caseRows c) - {i}"
    using inj_on_image_set_diff [OF inj, of "set (caseRows c)" "{r}"] r by simp
  show "ca_id x = i \<longleftrightarrow> x = r" if "x \<in> set (caseRows c)" for x
    using inj_onD [OF inj _ that r(1)] r(2) by auto
qed

lemma case_keys_set: "(\<And>r. ca_id (f r) = ca_id r) \<Longrightarrow> map ca_id (caseRows (setCase i f c)) = map ca_id (caseRows c)"
  by (simp add: setCase_def map_key_upd_where)

text \<open>
  The step all transitions share: one case gets new columns of its status, and its last
  assignee is the new one.
\<close>

lemma transition_ok:
  assumes "cases_ok c" "findCaseById c i = Some r" "\<And>x. ca_id (f x) = ca_id x" "ca_buildingId (f r) = ca_buildingId r"
    "caseFields (f r)"
    and as: "caseAssignments c' = caseAssignments c @ as" "\<forall>a\<in>set as. cg_caseId a = i" "distinct (map cg_id (caseAssignments c'))"
      "ca_assigneeId (f r) = (if as = [] then ca_assigneeId r else Some (cg_assignedToId (last as)))"
    and rows: "caseRows c' = caseRows (setCase i f c)" "caseMessages c' = caseMessages c" "cids_ok c'"
    and merge: "merges_ok c'"
  shows "cases_ok c'"
proof (rule cases_okI)
  note ok = cases_okD [OF assms(1)] and set = setCase_rows [OF assms(1,2)]
  have ids: "ca_id ` set (caseRows c') = ca_id ` set (caseRows c)"
    using arg_cong [OF case_keys_set [OF assms(3), of i c], of set] rows(1) by simp
  show "cids_ok c'" "merges_ok c'" by fact+
  show "ckeys_ok c'" using ok(2) as(3) rows case_keys_set [OF assms(3), of i c] by (simp add: ckeys_ok_def)
  have "i \<in> ca_id ` set (caseRows c)" using set(2,3) by auto
  then show "crefs_ok c'" using ok(3) as(1,2) rows(2) by (auto simp: crefs_ok_def ids)
  have other: "lastAssignee c' j = lastAssignee c j" if "j \<noteq> i" for j
  proof -
    have "filter (\<lambda>a. cg_caseId a = j) as = []" using as(2) that by (auto simp: filter_empty_conv)
    then show ?thesis by (simp add: lastAssignee_def as(1))
  qed
  have "filter (\<lambda>a. cg_caseId a = i) as = as" using as(2) by simp
  then have mine: "lastAssignee c' i = ca_assigneeId (f r)"
    using ok(4) set(2,3) by (auto simp: lastAssignee_if as(1,4) crows_ok_def Let_def)
  show "crows_ok c'"
    unfolding crows_ok_def rows(1) set(1)
  proof
    fix x assume x: "x \<in> insert (f r) (set (caseRows c) - {r})"
    show "caseFields x \<and> ca_assigneeId x = lastAssignee c' (ca_id x)"
    proof (cases "x = f r")
      case True
      then show ?thesis using assms(3,5) mine set(3) by simp
    next
      case False
      then have "x \<in> set (caseRows c)" "ca_id x \<noteq> i" using x set(4) by auto
      then show ?thesis using ok(4) other by (simp add: crows_ok_def)
    qed
  qed
qed

lemma mergeEdges_set:
  assumes "cases_ok c" "findCaseById c i = Some r" "\<And>x. ca_id (f x) = ca_id x"
  shows "mergeEdges (setCase i f c) = (case ca_mergedIntoId (f r) of None \<Rightarrow> {} | Some j \<Rightarrow> {(i, j)}) \<union> {e \<in> mergeEdges c. fst e \<noteq> i}"
proof -
  note set = setCase_rows [OF assms(1,2)]
  have "(a, b) \<in> mergeEdges (setCase i f c) \<longleftrightarrow> a = i \<and> ca_mergedIntoId (f r) = Some b \<or> (a, b) \<in> mergeEdges c \<and> a \<noteq> i" for a b
  proof -
    have "(a, b) \<in> mergeEdges (setCase i f c) \<longleftrightarrow>
        (\<exists>x. (x = f r \<or> x \<in> set (caseRows c) \<and> ca_id x \<noteq> i) \<and> ca_id x = a \<and> ca_mergedIntoId x = Some b)"
      unfolding mergeEdges_def set(1) using set(5) by auto
    then show ?thesis using assms(3) set(3) unfolding mergeEdges_def by auto
  qed
  then show ?thesis by (cases "ca_mergedIntoId (f r)") auto
qed

text \<open>A transition that leaves the pointer alone.\<close>

lemma merges_kept:
  assumes "cases_ok c" "findCaseById c i = Some r" "\<And>x. ca_id (f x) = ca_id x" "ca_buildingId (f r) = ca_buildingId r"
    "ca_mergedIntoId (f r) = ca_mergedIntoId r" "caseRows c' = caseRows (setCase i f c)"
  shows "merges_ok c'"
proof -
  note set = setCase_rows [OF assms(1,2)] and ok = cases_okD(5) [OF assms(1)]
  have mine: "(i, j) \<in> mergeEdges c \<longleftrightarrow> ca_mergedIntoId r = Some j" for j
    using set(2,3,5) by (auto simp: mergeEdges_def)
  have edges: "mergeEdges c' = mergeEdges c"
  proof -
    have "mergeEdges c' = mergeEdges (setCase i f c)" by (simp add: mergeEdges_def assms(6))
    also have "\<dots> = mergeEdges c"
      unfolding mergeEdges_set [OF assms(1-3)] assms(5) using mine by (auto split: option.splits)
    finally show ?thesis .
  qed
  have place: "\<exists>t\<in>set (caseRows c'). ca_id t = ca_id x \<and> ca_buildingId t = ca_buildingId x" if "x \<in> set (caseRows c)" for x
    using that set assms(3,4,6) by (cases "x = r") auto
  have "\<exists>t\<in>set (caseRows c'). ca_id t = j \<and> ca_buildingId t = ca_buildingId x"
    if x: "x \<in> set (caseRows c')" "ca_mergedIntoId x = Some j" for x j
  proof -
    obtain y where y: "y \<in> set (caseRows c)" "ca_mergedIntoId y = Some j" "ca_buildingId y = ca_buildingId x"
      using x set(1,2) assms(4-6) by (cases "x = f r") auto
    then obtain t where "t \<in> set (caseRows c)" "ca_id t = j" "ca_buildingId t = ca_buildingId x"
      using ok unfolding merges_ok_def by metis
    then show ?thesis using place [of t] by metis
  qed
  then show ?thesis using ok edges by (auto simp: merges_ok_def)
qed

lemma plain_ok:
  assumes "cases_ok c" "findCaseById c i = Some r" "\<And>x. ca_id (f x) = ca_id x" "ca_buildingId (f r) = ca_buildingId r"
    "caseFields (f r)" "ca_mergedIntoId (f r) = ca_mergedIntoId r" "ca_assigneeId (f r) = ca_assigneeId r"
  shows "cases_ok (setCase i f c)"
proof (rule transition_ok [where as = "[]", OF assms(1-5)])
  have "ca_id ` set (caseRows (setCase i f c)) = ca_id ` set (caseRows c)"
    using arg_cong [OF case_keys_set [OF assms(3), of i c], of set] by simp
  then show "cids_ok (setCase i f c)" using cases_okD(1) [OF assms(1)] by (simp add: cids_ok_def caseUsed_def)
  show "merges_ok (setCase i f c)" by (rule merges_kept [OF assms(1-4,6)]) simp
qed (use assms cases_okD(2) [OF assms(1)] in \<open>simp_all add: ckeys_ok_def\<close>)

lemma found_fields: "cases_ok c \<Longrightarrow> findCaseById c i = Some r \<Longrightarrow> caseFields r"
  using setCase_rows(2) cases_okD(4) by (fastforce simp: crows_ok_def)

lemma updateFields_ok:
  assumes "cases_ok c" "updateCaseFields i q c = Inr (x, c')"
  shows "cases_ok c'"
proof -
  let ?f = "\<lambda>r. r\<lparr>ca_title := keepOr (uc_title q) (ca_title r), ca_description := keepOr (uc_description q) (ca_description r),
     ca_priority := keepOr (uc_priority q) (ca_priority r), ca_visibility := keepOr (uc_visibility q) (ca_visibility r)\<rparr>"
  obtain r where r: "findCaseById c i = Some r" and c': "c' = setCase i ?f c"
    using assms(2) by (auto simp: updateCaseFields_def caseRow_def needs_def setCase_def Let_def effect_simps split: if_splits option.splits)
  have "cases_ok (setCase i ?f c)"
    using found_fields [OF assms(1) r] by (intro plain_ok [OF assms(1) r]) (auto simp: caseFields_def split: caseStatus.splits)
  then show ?thesis by (simp add: c')
qed

lemma resolve_Inr: "cases_ok c \<Longrightarrow> resolveCase i st code c = Inr (x, c') \<longleftrightarrow>
    (\<exists>r. findCaseById c i = Some r \<and> ca_status r = st \<and> x = r\<lparr>ca_status := CS_RESOLVED, ca_resolutionCode := Some code\<rparr>) \<and>
    c' = setCase i (\<lambda>r. r\<lparr>ca_status := CS_RESOLVED, ca_resolutionCode := Some code\<rparr>) c"
  unfolding resolveCase_def by (rule swapCase_Inr) simp_all

lemma close_Inr: "cases_ok c \<Longrightarrow> closeCase now i c = Inr (x, c') \<longleftrightarrow>
    (\<exists>r. findCaseById c i = Some r \<and> ca_status r = CS_RESOLVED \<and> x = r\<lparr>ca_status := CS_CLOSED, ca_closedAt := Some now\<rparr>) \<and>
    c' = setCase i (\<lambda>r. r\<lparr>ca_status := CS_CLOSED, ca_closedAt := Some now\<rparr>) c"
  unfolding closeCase_def by (rule swapCase_Inr) simp_all

lemma reopen_Inr: "cases_ok c \<Longrightarrow> reopenCase i st c = Inr (x, c') \<longleftrightarrow>
    (\<exists>r. findCaseById c i = Some r \<and> ca_status r = st \<and>
      x = r\<lparr>ca_status := CS_OPEN, ca_closedAt := None, ca_resolutionCode := None\<rparr>) \<and>
    c' = setCase i (\<lambda>r. r\<lparr>ca_status := CS_OPEN, ca_closedAt := None, ca_resolutionCode := None\<rparr>) c"
  unfolding reopenCase_def by (rule swapCase_Inr) simp_all

lemma merge_Inr: "cases_ok c \<Longrightarrow> mergeCase now i t st c = Inr (x, c') \<longleftrightarrow>
    (\<exists>r. findCaseById c i = Some r \<and> ca_status r = st \<and> ca_mergedIntoId r = None \<and>
      x = r\<lparr>ca_mergedIntoId := Some t, ca_status := CS_CLOSED, ca_closedAt := Some now\<rparr>) \<and> findCaseById c t \<noteq> None \<and>
    c' = setCase i (\<lambda>r. r\<lparr>ca_mergedIntoId := Some t, ca_status := CS_CLOSED, ca_closedAt := Some now\<rparr>) c"
proof -
  assume c: "cases_ok c"
  then have d: "distinct (map ca_id (caseRows c))" by (drule_tac cases_okD(2)) (simp add: ckeys_ok_def)
  have count: "count_where (\<lambda>r. ca_id r = i \<and> ca_status r = st \<and> ca_mergedIntoId r = None) (caseRows c) =
      (case findCaseById c i of None \<Rightarrow> 0 | Some r \<Rightarrow> if ca_status r = st \<and> ca_mergedIntoId r = None then 1 else 0)"
    unfolding findCaseById_def by (rule count_hit [OF d])
  show ?thesis
    unfolding mergeCase_def count using swapCase_Inr [OF c] by (auto split: option.splits)
qed

lemma resolveCase_ok:
  assumes "cases_ok c" "findCaseById c i = Some r" "ca_status r \<noteq> CS_RESOLVED" "ca_status r \<noteq> CS_CLOSED"
    "resolveCase i (ca_status r) code c = Inr (x, c')"
  shows "cases_ok c'"
proof -
  have c': "c' = setCase i (\<lambda>r. r\<lparr>ca_status := CS_RESOLVED, ca_resolutionCode := Some code\<rparr>) c"
    using assms(5) by (simp add: resolve_Inr [OF assms(1)])
  show ?thesis unfolding c'
    using found_fields [OF assms(1,2)] assms(3,4)
    by (intro plain_ok [OF assms(1,2)]) (auto simp: caseFields_def split: caseStatus.splits)
qed

lemma closeCase_ok:
  assumes "cases_ok c" "closeCase now i c = Inr (x, c')"
  shows "cases_ok c'"
proof -
  obtain r where r: "findCaseById c i = Some r" "ca_status r = CS_RESOLVED"
    and c': "c' = setCase i (\<lambda>r. r\<lparr>ca_status := CS_CLOSED, ca_closedAt := Some now\<rparr>) c"
    using assms(2) by (auto simp: close_Inr [OF assms(1)])
  show ?thesis unfolding c'
    using found_fields [OF assms(1) r(1)] r(2)
    by (intro plain_ok [OF assms(1) r(1)]) (auto simp: caseFields_def)
qed

lemma reopenCase_ok:
  assumes "cases_ok c" "findCaseById c i = Some r" "ca_mergedIntoId r = None" "reopenCase i (ca_status r) c = Inr (x, c')"
  shows "cases_ok c'"
proof -
  have c': "c' = setCase i (\<lambda>r. r\<lparr>ca_status := CS_OPEN, ca_closedAt := None, ca_resolutionCode := None\<rparr>) c"
    using assms(4) by (simp add: reopen_Inr [OF assms(1)])
  show ?thesis unfolding c'
    using found_fields [OF assms(1,2)] assms(3)
    by (intro plain_ok [OF assms(1,2)]) (auto simp: caseFields_def)
qed

lemma assignCase_ok:
  assumes "cases_ok c" "findCaseById c i = Some r" "ca_status r \<noteq> CS_RESOLVED" "ca_status r \<noteq> CS_CLOSED"
    "assignCase b now i q p note (ca_status r) c = Inr (x, c')"
  shows "cases_ok c'"
proof -
  let ?f = "\<lambda>r. r\<lparr>ca_assigneeId := Some q, ca_status := CS_IN_PROGRESS\<rparr>"
  let ?a = "\<lparr>cg_id = fresh_cid (setCase i ?f c), cg_caseId = i, cg_assignedToId = q, cg_assignedById = p, cg_note = note, cg_assignedAt = now\<rparr>"
  let ?s = "swapCase i (\<lambda>x. ca_status x = ca_status r) ?f STR ''Case status changed; reload and retry.''"
  note ok = cases_okD [OF assms(1)]
  have keep: "\<And>x. ca_id (?f x) = ca_id x" by simp
  have "c' = take_cid (setCase i ?f c\<lparr>caseAssignments := caseAssignments c @ [?a]\<rparr>)"
  proof -
    have "?s c = Inr (?f r, setCase i ?f c)" using assms(2) by (subst swapCase_Inr [OF assms(1)]) auto
    then show ?thesis using assms(5) by (auto simp: assignCase_def Let_def split: if_splits)
  qed
  then have c': "caseRows c' = caseRows (setCase i ?f c)" "caseMessages c' = caseMessages c"
    "caseAssignments c' = caseAssignments c @ [?a]" "case_ids c' = case_ids c" "case_next c' = Suc (case_next c)"
    by simp_all
  have a: "cg_id ?a = fresh_cid c" by (simp add: fresh_cid_def)
  have ids: "ca_id ` set (caseRows (setCase i ?f c)) = ca_id ` set (caseRows c)"
    using arg_cong [OF case_keys_set [OF keep, of i c], of set] by simp
  have "cids_ok c'"
    using a by (intro cids_new [OF ok(1) _ c'(4,5)]) (auto simp: caseUsed_def c' ids)
  moreover have "merges_ok c'" by (rule merges_kept [OF assms(1,2) keep]) (simp_all add: c')
  moreover have "distinct (map cg_id (caseAssignments c'))"
    using ok(2) cfresh(1) [OF ok(1)] a by (auto simp: c'(3) ckeys_ok_def caseUsed_def)
  moreover have "caseFields (?f r)"
    using found_fields [OF assms(1,2)] assms(3,4) by (auto simp: caseFields_def split: caseStatus.splits)
  ultimately show ?thesis
    by (intro transition_ok [where as = "[?a]", OF assms(1,2) keep _ _ c'(3)]) (simp_all add: c')
qed

text \<open>A merge adds an edge to a case without one, so it closes no cycle.\<close>

lemma mergeCase_ok:
  assumes "cases_ok c" "findCaseById c i = Some r" "findCaseById c j = Some t" "ca_buildingId t = ca_buildingId r"
    "i \<noteq> j" "ca_mergedIntoId t = None" "mergeCase now i j st c = Inr (x, c')"
  shows "cases_ok c'"
proof -
  let ?f = "\<lambda>r. r\<lparr>ca_mergedIntoId := Some j, ca_status := CS_CLOSED, ca_closedAt := Some now\<rparr>"
  have keep: "\<And>x. ca_id (?f x) = ca_id x" by simp
  have c': "c' = setCase i ?f c" using assms(7) by (simp add: merge_Inr [OF assms(1)])
  note ok = cases_okD [OF assms(1)] and i = setCase_rows [OF assms(1,2)] and j = setCase_rows [OF assms(1,3)]
  have cf: "caseFields (?f r)" using found_fields [OF assms(1,2)] by (auto simp: caseFields_def)
  have edges: "mergeEdges (setCase i ?f c) = insert (i, j) {e \<in> mergeEdges c. fst e \<noteq> i}"
    by (subst mergeEdges_set [OF assms(1,2) keep]) auto
  have acyclic: "acyclic {e \<in> mergeEdges c. fst e \<noteq> i}"
    by (rule acyclic_subset [of "mergeEdges c"]) (use ok(5) in \<open>auto simp: merges_ok_def\<close>)
  have "(j, y) \<notin> mergeEdges c" for y
    using assms(6) j(5) by (force simp: mergeEdges_def)
  then have "(j, i) \<notin> {e \<in> mergeEdges c. fst e \<noteq> i}\<^sup>*"
    using assms(5) by (auto elim: converse_rtranclE)
  then have "acyclic (mergeEdges c')" unfolding c' edges using acyclic by (simp add: acyclic_insert)
  moreover have "\<exists>t'\<in>set (caseRows c'). ca_id t' = k \<and> ca_buildingId t' = ca_buildingId y"
    if y: "y \<in> set (caseRows c')" "ca_mergedIntoId y = Some k" for y k
  proof -
    have "\<exists>t'\<in>set (caseRows c). ca_id t' = k \<and> ca_buildingId t' = ca_buildingId y"
    proof (cases "y = ?f r")
      case True
      then show ?thesis using y(2) j(2,3) assms(4) by auto
    next
      case False
      then have "y \<in> set (caseRows c)" using y(1) i(1) c' by auto
      then show ?thesis using ok(5) y(2) by (simp add: merges_ok_def)
    qed
    then obtain t' where t': "t' \<in> set (caseRows c)" "ca_id t' = k" "ca_buildingId t' = ca_buildingId y" by blast
    then show ?thesis using i(1) c' by (cases "t' = r") auto
  qed
  ultimately have "merges_ok c'" by (simp add: merges_ok_def)
  moreover have "cids_ok c'"
  proof -
    have "ca_id ` set (caseRows c') = ca_id ` set (caseRows c)"
      using arg_cong [OF case_keys_set [OF keep, of i c], of set] c' by simp
    then show ?thesis using ok(1) by (simp add: cids_ok_def caseUsed_def c')
  qed
  ultimately show ?thesis
    using cf ok(2) by (intro transition_ok [where as = "[]", OF assms(1,2) keep]) (simp_all add: c' ckeys_ok_def)
qed

end
