(* ===== verification/Case_History.thy ===== *)
theory Case_History
  imports Case_Inv "HOL-Library.Sublist"
begin

text \<open>
  What no operation on the case tables undoes: a merged case stays as it is, with its
  messages and assignments; every other case keeps its origin (building, unit, kind, author,
  time), and the histories of messages and assignments only grow.
\<close>

definition sameCase :: "case_row \<Rightarrow> case_row \<Rightarrow> bool" where
  "sameCase r r' \<longleftrightarrow> r'\<lparr>ca_title := ca_title r, ca_description := ca_description r, ca_status := ca_status r,
     ca_priority := ca_priority r, ca_visibility := ca_visibility r, ca_resolutionCode := ca_resolutionCode r,
     ca_assigneeId := ca_assigneeId r, ca_closedAt := ca_closedAt r, ca_mergedIntoId := ca_mergedIntoId r\<rparr> = r"

definition messagesOf :: "case_db \<Rightarrow> id \<Rightarrow> caseMessage list" where
  "messagesOf c i = filter (\<lambda>m. cm_caseId m = i) (caseMessages c)"

definition assignmentsOf :: "case_db \<Rightarrow> id \<Rightarrow> caseAssignment list" where
  "assignmentsOf c i = filter (\<lambda>a. cg_caseId a = i) (caseAssignments c)"

definition caseKept :: "case_db \<Rightarrow> case_db \<Rightarrow> id \<Rightarrow> bool" where
  "caseKept c c' i \<longleftrightarrow> findCaseById c' i = findCaseById c i \<and> messagesOf c' i = messagesOf c i \<and>
     assignmentsOf c' i = assignmentsOf c i"

definition caseMoves :: "case_db \<Rightarrow> case_db \<Rightarrow> id \<Rightarrow> case_row \<Rightarrow> bool" where
  "caseMoves c c' i r \<longleftrightarrow> (\<exists>r'. findCaseById c' i = Some r' \<and> sameCase r r') \<and>
     prefix (messagesOf c i) (messagesOf c' i) \<and> prefix (assignmentsOf c i) (assignmentsOf c' i)"

definition caseAdvances :: "case_db \<Rightarrow> case_db \<Rightarrow> bool" where
  "caseAdvances c c' \<longleftrightarrow> (\<forall>i r. findCaseById c i = Some r \<longrightarrow>
     (if ca_mergedIntoId r \<noteq> None then caseKept c c' i else caseMoves c c' i r))"

lemma caseKept_moves: "caseKept c c' i \<Longrightarrow> findCaseById c i = Some r \<Longrightarrow> caseMoves c c' i r"
  by (auto simp: caseKept_def caseMoves_def sameCase_def)

lemma caseAdvancesI:
  assumes "\<And>j. j \<noteq> i \<Longrightarrow> findCaseById c j \<noteq> None \<Longrightarrow> caseKept c c' j"
    "\<And>r. findCaseById c i = Some r \<Longrightarrow> ca_mergedIntoId r = None \<and> caseMoves c c' i r"
  shows "caseAdvances c c'"
  unfolding caseAdvances_def
proof (intro allI impI)
  fix j r assume r: "findCaseById c j = Some r"
  show "if ca_mergedIntoId r \<noteq> None then caseKept c c' j else caseMoves c c' j r"
  proof (cases "j = i")
    case False
    then have "caseKept c c' j" using assms(1) r by simp
    then show ?thesis using caseKept_moves [OF _ r] by simp
  qed (use assms(2) r in simp)
qed

lemma caseAdvances_refl [simp]: "caseAdvances c c"
  by (auto simp: caseAdvances_def caseKept_def caseMoves_def sameCase_def)

lemma sameCase_trans: "sameCase r x \<Longrightarrow> sameCase x y \<Longrightarrow> sameCase r y"
  by (cases r; cases x; cases y) (simp add: sameCase_def)

lemma caseAdvances_trans: "caseAdvances c d \<Longrightarrow> caseAdvances d e \<Longrightarrow> caseAdvances c e"
  unfolding caseAdvances_def
proof (intro allI impI)
  fix i r
  assume cd: "\<forall>i r. findCaseById c i = Some r \<longrightarrow> (if ca_mergedIntoId r \<noteq> None then caseKept c d i else caseMoves c d i r)"
    and de: "\<forall>i r. findCaseById d i = Some r \<longrightarrow> (if ca_mergedIntoId r \<noteq> None then caseKept d e i else caseMoves d e i r)"
    and r: "findCaseById c i = Some r"
  show "if ca_mergedIntoId r \<noteq> None then caseKept c e i else caseMoves c e i r"
  proof (cases "ca_mergedIntoId r = None")
    case False
    then have "caseKept c d i" using cd r by simp
    moreover have "findCaseById d i = Some r" using calculation r by (simp add: caseKept_def)
    then have "caseKept d e i" using de False by (metis (full_types))
    ultimately show ?thesis using False by (simp add: caseKept_def)
  next
    case True
    then have m: "caseMoves c d i r" using cd r by simp
    then obtain x where x: "findCaseById d i = Some x" by (auto simp: caseMoves_def)
    have "caseMoves d e i x"
      using de [rule_format, OF x] caseKept_moves [OF _ x, of e] by (cases "ca_mergedIntoId x") simp_all
    then have "caseMoves c e i r"
      using m x by (auto simp: caseMoves_def intro: sameCase_trans prefix_order.trans)
    then show ?thesis using True by simp
  qed
qed

section \<open>Every write advances the tables\<close>

definition caseGoesOn :: "case_db \<Rightarrow> case_db \<Rightarrow> bool" where
  "caseGoesOn c0 c \<longleftrightarrow> cases_ok c \<and> caseAdvances c0 c"

lemma caseGoesOn_refl: "cases_ok c \<Longrightarrow> caseGoesOn c c"
  by (simp add: caseGoesOn_def)

lemma caseGoesOn_step:
  "caseGoesOn c0 c \<Longrightarrow> (cases_ok c \<Longrightarrow> cases_ok c' \<and> caseAdvances c c') \<Longrightarrow> caseGoesOn c0 c'"
  by (auto simp: caseGoesOn_def intro: caseAdvances_trans)

lemma goesOn_createCase:
  assumes "caseGoesOn c0 c" "createCase b now q c = Inr (r, c')"
  shows "caseGoesOn c0 c'"
proof (rule caseGoesOn_step [OF assms(1)])
  assume ok: "cases_ok c"
  have c': "c' = take_cid (c\<lparr>caseRows := caseRows c @ [r]\<rparr>)" and id: "ca_id r = fresh_cid c"
    using assms(2) by (auto simp: createCase_def Let_def newCase_def split: if_splits)
  have "findCaseById c (fresh_cid c) = None"
    using cfresh(1) [OF cases_okD(1) [OF ok]] by (simp add: findCaseById_def find_row_None_iff caseUsed_def)
  then have "caseAdvances c c'"
    by (intro caseAdvancesI [of "fresh_cid c"])
      (auto simp: caseKept_def c' findCaseById_def find_row_append messagesOf_def assignmentsOf_def split: option.split)
  then show "cases_ok c' \<and> caseAdvances c c'" using createCase_ok [OF ok assms(2)] by simp
qed

text \<open>A step on one case that is not merged.\<close>

lemma setCase_advances:
  assumes "findCaseById c i = Some r" "ca_mergedIntoId r = None" "\<And>x. ca_id (f x) = ca_id x" "sameCase r (f r)"
    "caseRows c' = caseRows (setCase i f c)" "caseMessages c' = caseMessages c"
    "caseAssignments c' = caseAssignments c @ as" "\<forall>a\<in>set as. cg_caseId a = i"
  shows "caseAdvances c c'"
proof (rule caseAdvancesI)
  have found: "findCaseById c' j = findCaseById (setCase i f c) j" for j using assms(5) by (simp add: findCaseById_def)
  show "caseKept c c' j" if "j \<noteq> i" for j
  proof -
    have "filter (\<lambda>a. cg_caseId a = j) as = []" using assms(8) that by (auto simp: filter_empty_conv)
    then show ?thesis using that assms(3,6,7)
      by (simp add: caseKept_def found findCase_set messagesOf_def assignmentsOf_def)
  qed
  show "ca_mergedIntoId x = None \<and> caseMoves c c' i x" if "findCaseById c i = Some x" for x
    using that assms by (simp add: caseMoves_def found findCase_set messagesOf_def assignmentsOf_def)
qed

lemma open_unmerged: "cases_ok c \<Longrightarrow> findCaseById c i = Some r \<Longrightarrow> ca_status r \<noteq> CS_CLOSED \<Longrightarrow> ca_mergedIntoId r = None"
  using found_fields [of c i r] by (auto simp: caseFields_def split: caseStatus.splits)

lemma goesOn_updateCase:
  assumes "caseGoesOn c0 c" "findCaseById c i = Some r" "ca_status r \<noteq> CS_CLOSED" "updateCaseFields i q c = Inr (x, c')"
  shows "caseGoesOn c0 c'"
proof (rule caseGoesOn_step [OF assms(1)])
  assume ok: "cases_ok c"
  let ?f = "\<lambda>r. r\<lparr>ca_title := keepOr (uc_title q) (ca_title r), ca_description := keepOr (uc_description q) (ca_description r),
     ca_priority := keepOr (uc_priority q) (ca_priority r), ca_visibility := keepOr (uc_visibility q) (ca_visibility r)\<rparr>"
  have "c' = setCase i ?f c"
    using assms(4) by (auto simp: updateCaseFields_def setCase_def Let_def effect_simps split: if_splits)
  then have "caseAdvances c c'"
    by (intro setCase_advances [OF assms(2) open_unmerged [OF ok assms(2,3)], where f = ?f and as = "[]"])
      (simp_all add: sameCase_def)
  then show "cases_ok c' \<and> caseAdvances c c'" using updateFields_ok [OF ok assms(4)] by simp
qed

lemma goesOn_message:
  assumes "caseGoesOn c0 c" "findCaseById c i = Some r" "ca_status r \<noteq> CS_CLOSED" "createMessage b now i p txt v c = Inr (m, c')"
  shows "caseGoesOn c0 c'"
proof (rule caseGoesOn_step [OF assms(1)])
  assume ok: "cases_ok c"
  have m: "cm_caseId m = i" "c' = take_cid (c\<lparr>caseMessages := caseMessages c @ [m]\<rparr>)"
    using assms(4) by (auto simp: createMessage_def Let_def split: if_splits)
  then have "caseAdvances c c'"
    using assms(2) open_unmerged [OF ok assms(2,3)]
    by (intro caseAdvancesI [of i]) (auto simp: caseKept_def caseMoves_def sameCase_def findCaseById_def messagesOf_def assignmentsOf_def)
  then show "cases_ok c' \<and> caseAdvances c c'" using createMessage_ok [OF ok assms(4)] by simp
qed

lemma goesOn_resolve:
  assumes "caseGoesOn c0 c" "findCaseById c i = Some r" "ca_status r \<noteq> CS_RESOLVED" "ca_status r \<noteq> CS_CLOSED"
    "resolveCase i (ca_status r) code c = Inr (x, c')"
  shows "caseGoesOn c0 c'"
proof (rule caseGoesOn_step [OF assms(1)])
  assume ok: "cases_ok c"
  have "caseAdvances c c'"
    using assms(5) unfolding resolve_Inr [OF ok]
    by (intro setCase_advances [OF assms(2) open_unmerged [OF ok assms(2,4)],
        where f = "\<lambda>r. r\<lparr>ca_status := CS_RESOLVED, ca_resolutionCode := Some code\<rparr>" and as = "[]"]) (simp_all add: sameCase_def)
  then show "cases_ok c' \<and> caseAdvances c c'" using resolveCase_ok [OF ok assms(2-5)] by simp
qed

lemma goesOn_closeCase:
  assumes "caseGoesOn c0 c" "closeCase now i c = Inr (x, c')"
  shows "caseGoesOn c0 c'"
proof (rule caseGoesOn_step [OF assms(1)])
  assume ok: "cases_ok c"
  obtain r where r: "findCaseById c i = Some r" "ca_status r = CS_RESOLVED"
    and c': "c' = setCase i (\<lambda>r. r\<lparr>ca_status := CS_CLOSED, ca_closedAt := Some now\<rparr>) c"
    using assms(2) by (auto simp: close_Inr [OF ok])
  have "caseAdvances c c'"
    using r(2) by (intro setCase_advances [OF r(1) open_unmerged [OF ok r(1)],
        where f = "\<lambda>r. r\<lparr>ca_status := CS_CLOSED, ca_closedAt := Some now\<rparr>" and as = "[]"]) (simp_all add: sameCase_def c')
  then show "cases_ok c' \<and> caseAdvances c c'" using closeCase_ok [OF ok assms(2)] by simp
qed

lemma goesOn_reopen:
  assumes "caseGoesOn c0 c" "findCaseById c i = Some r" "ca_mergedIntoId r = None" "reopenCase i (ca_status r) c = Inr (x, c')"
  shows "caseGoesOn c0 c'"
proof (rule caseGoesOn_step [OF assms(1)])
  assume ok: "cases_ok c"
  have "caseAdvances c c'"
    using assms(4) unfolding reopen_Inr [OF ok]
    by (intro setCase_advances [OF assms(2,3),
        where f = "\<lambda>r. r\<lparr>ca_status := CS_OPEN, ca_closedAt := None, ca_resolutionCode := None\<rparr>" and as = "[]"]) (simp_all add: sameCase_def)
  then show "cases_ok c' \<and> caseAdvances c c'" using reopenCase_ok [OF ok assms(2-4)] by simp
qed

lemma goesOn_assign:
  assumes "caseGoesOn c0 c" "findCaseById c i = Some r" "ca_status r \<noteq> CS_RESOLVED" "ca_status r \<noteq> CS_CLOSED"
    "assignCase b now i q p note (ca_status r) c = Inr (x, c')"
  shows "caseGoesOn c0 c'"
proof (rule caseGoesOn_step [OF assms(1)])
  assume ok: "cases_ok c"
  let ?f = "\<lambda>r. r\<lparr>ca_assigneeId := Some q, ca_status := CS_IN_PROGRESS\<rparr>"
  have "swapCase i (\<lambda>x. ca_status x = ca_status r) ?f STR ''Case status changed; reload and retry.'' c = Inr (?f r, setCase i ?f c)"
    using assms(2) by (subst swapCase_Inr [OF ok]) auto
  then have "\<exists>a. cg_caseId a = i \<and> c' = take_cid (setCase i ?f c\<lparr>caseAssignments := caseAssignments c @ [a]\<rparr>)"
    using assms(5) by (auto simp: assignCase_def Let_def split: if_splits) (metis caseAssignment.select_convs(2))
  then obtain a where a: "cg_caseId a = i" "c' = take_cid (setCase i ?f c\<lparr>caseAssignments := caseAssignments c @ [a]\<rparr>)"
    by blast
  then have "caseAdvances c c'"
    by (intro setCase_advances [OF assms(2) open_unmerged [OF ok assms(2,4)], where f = ?f and as = "[a]"]) (simp_all add: sameCase_def)
  then show "cases_ok c' \<and> caseAdvances c c'" using assignCase_ok [OF ok assms(2-5)] by simp
qed

lemma goesOn_merge:
  assumes "caseGoesOn c0 c" "findCaseById c i = Some r" "findCaseById c j = Some t" "ca_buildingId t = ca_buildingId r"
    "i \<noteq> j" "ca_mergedIntoId t = None" "mergeCase now i j st c = Inr (x, c')"
  shows "caseGoesOn c0 c'"
proof (rule caseGoesOn_step [OF assms(1)])
  assume ok: "cases_ok c"
  have m: "ca_mergedIntoId r = None"
    "c' = setCase i (\<lambda>r. r\<lparr>ca_mergedIntoId := Some j, ca_status := CS_CLOSED, ca_closedAt := Some now\<rparr>) c"
    using assms(2,7) by (auto simp: merge_Inr [OF ok])
  then have "caseAdvances c c'"
    by (intro setCase_advances [OF assms(2) m(1),
        where f = "\<lambda>r. r\<lparr>ca_mergedIntoId := Some j, ca_status := CS_CLOSED, ca_closedAt := Some now\<rparr>" and as = "[]"]) (simp_all add: sameCase_def)
  then show "cases_ok c' \<and> caseAdvances c c'" using mergeCase_ok [OF ok assms(2-7)] by simp
qed

end
