(* ===== verification/Site_Api.thy ===== *)
theory Site_Api
  imports Building_Api Governance_Service Governance_History Case_History
begin

text \<open>
  The requests of the building, governance and cases controllers that change state, each
  behind the guard its route declares, the two voting jobs of the scheduler, and the proof
  that every history of them keeps the invariants of all three groups of tables.
\<close>

section \<open>Requests\<close>

datatype voteRequest =
    CreateVote id createVoteDto
  | ListVotes id "voteCategory option" "voteStatus option" paginationParams
  | GetVote id id
  | PublishVote id id
  | CastBallot id id id id
  | CloseVote id id
  | CancelVote id id "string option"
  | GetResults id id
  | GetVoteProxy id id
  | LookupVoteProxyCandidate id id string
  | GrantProxy id id id
  | RevokeProxy id id

datatype meetingRequest =
    CreateMeeting id string time "string option"
  | ListMeetings id paginationParams
  | GetMeeting id id
  | UpdateMeeting id id updateMeetingParams
  | ArchiveMeeting id id
  | RecordAttendance id id "id list"
  | ListAttendance id id paginationParams

datatype caseRequest =
    CreateCase id createCaseDto
  | ListCases id caseFilter paginationParams
  | GetCase id id
  | UpdateCase id id updateCaseParams
  | AssignCase id id id "string option"
  | ListAssignments id id paginationParams
  | AddMessage id id string "bool option"
  | ListMessages id id paginationParams
  | ResolveCase id id caseResolutionCode
  | CloseCase id id
  | ReopenCase id id "string option"
  | MergeCase id id id

datatype siteRequest =
    Building buildingRequest
  | Voting voteRequest
  | Meetings meetingRequest
  | Cases caseRequest
  | AutoPublish
  | AutoClose

definition board :: "membershipRole list" where
  "board = [MANAGER, BOARD_MEMBER]"

primrec handleVoting :: "time \<Rightarrow> id \<Rightarrow> voteRequest \<Rightarrow> unit action" where
  "handleVoting now p (CreateVote bid dto) = guarded (verifiedRolesGuard board p bid) (svc_createVote now bid dto p)"
| "handleVoting now p (ListVotes bid category st pg) = guarded (membershipGuard p bid) (svc_listVotes bid category st pg)"
| "handleVoting now p (GetVote bid i) = guarded (membershipGuard p bid) (getVote bid i)"
| "handleVoting now p (PublishVote bid i) = guarded (verifiedRolesGuard board p bid) (svc_publishVote now bid i (Some p))"
| "handleVoting now p (CastBallot bid i uid opt) = guarded (membershipGuard p bid) (castBallot now bid i uid opt p)"
| "handleVoting now p (CloseVote bid i) = guarded (verifiedRolesGuard board p bid) (svc_closeVote now bid i (Some p))"
| "handleVoting now p (CancelVote bid i reason) = guarded (verifiedRolesGuard board p bid) (svc_cancelVote now bid i reason p)"
| "handleVoting now p (GetResults bid i) = guarded (membershipGuard p bid) (getResult bid i)"
| "handleVoting now p (GetVoteProxy bid uid) = guarded (membershipGuard p bid) (getCurrentProxy bid uid)"
| "handleVoting now p (LookupVoteProxyCandidate bid uid phone) =
     guarded (membershipGuard p bid) (lookupCandidateByPhone bid uid phone p)"
| "handleVoting now p (GrantProxy bid uid q) = guarded (membershipGuard p bid) (grant now bid uid q p)"
| "handleVoting now p (RevokeProxy bid uid) = guarded (membershipGuard p bid) (revoke now bid uid p)"

primrec handleMeetings :: "time \<Rightarrow> id \<Rightarrow> meetingRequest \<Rightarrow> unit action" where
  "handleMeetings now p (CreateMeeting bid title t loc) =
     guarded (verifiedRolesGuard board p bid) (svc_createMeeting bid title t loc p)"
| "handleMeetings now p (ListMeetings bid pg) = guarded (membershipGuard p bid) (listMeetings bid pg)"
| "handleMeetings now p (GetMeeting bid i) = guarded (membershipGuard p bid) (getMeeting bid i)"
| "handleMeetings now p (UpdateMeeting bid i q) = guarded (verifiedRolesGuard board p bid) (svc_updateMeeting bid i q p)"
| "handleMeetings now p (ArchiveMeeting bid i) = guarded (verifiedRolesGuard board p bid) (svc_archiveMeeting now bid i p)"
| "handleMeetings now p (RecordAttendance bid i ps) =
     guarded (verifiedRolesGuard board p bid) (svc_recordAttendance now bid i ps p)"
| "handleMeetings now p (ListAttendance bid i pg) = guarded (membershipGuard p bid) (listAttendance bid i pg)"

primrec handleCase :: "time \<Rightarrow> id \<Rightarrow> caseRequest \<Rightarrow> unit action" where
  "handleCase now p (CreateCase bid dto) = guarded (membershipGuard p bid) (svc_createCase now bid dto p)"
| "handleCase now p (ListCases bid f pg) = guarded (membershipGuard p bid) (svc_listCases bid p f pg)"
| "handleCase now p (GetCase bid i) = guarded (membershipGuard p bid) (getCase bid i p)"
| "handleCase now p (UpdateCase bid i dto) = guarded (membershipGuard p bid) (updateCase bid i dto p)"
| "handleCase now p (AssignCase bid i q note) =
     guarded (rolesGuard PRIVILEGED_ROLES p bid) (svc_assignCase now bid i q note p)"
| "handleCase now p (ListAssignments bid i pg) = guarded (membershipGuard p bid) (svc_listAssignments bid i p pg)"
| "handleCase now p (AddMessage bid i txt v) = guarded (membershipGuard p bid) (addMessage now bid i txt v p)"
| "handleCase now p (ListMessages bid i pg) = guarded (membershipGuard p bid) (svc_listMessages bid i p pg)"
| "handleCase now p (ResolveCase bid i code) = guarded (rolesGuard PRIVILEGED_ROLES p bid) (svc_resolveCase bid i code p)"
| "handleCase now p (CloseCase bid i) = guarded (rolesGuard PRIVILEGED_ROLES p bid) (svc_closeCase now bid i p)"
| "handleCase now p (ReopenCase bid i reason) = guarded (membershipGuard p bid) (svc_reopenCase bid i reason p)"
| "handleCase now p (MergeCase bid i j) = guarded (rolesGuard PRIVILEGED_ROLES p bid) (svc_mergeCase now bid i j p)"

text \<open>The actor of a job is of no account.\<close>

primrec handleSite :: "(id \<Rightarrow> bool) \<Rightarrow> time \<Rightarrow> id \<Rightarrow> siteRequest \<Rightarrow> unit action" where
  "handleSite floors now p (Building r) = handleBuilding floors now p r"
| "handleSite floors now p (Voting r) = handleVoting now p r"
| "handleSite floors now p (Meetings r) = handleMeetings now p r"
| "handleSite floors now p (Cases r) = handleCase now p r"
| "handleSite floors now p AutoPublish = void (runAutoPublish now)"
| "handleSite floors now p AutoClose = void (runAutoClose now)"

fun runSite :: "(id \<Rightarrow> bool) \<Rightarrow> (time \<times> id \<times> siteRequest) list \<Rightarrow> site \<Rightarrow> site" where
  "runSite floors [] s = s"
| "runSite floors ((now, p, r) # rs) s = runSite floors rs (snd (handleSite floors now p r s))"

lemma runSite_append: "runSite floors (xs @ ys) s = runSite floors ys (runSite floors xs s)"
  by (induction floors xs s rule: runSite.induct) simp_all

section \<open>What building actions leave alone\<close>

definition beside :: "gov_db \<Rightarrow> case_db \<Rightarrow> site \<Rightarrow> bool" where
  "beside g c s \<longleftrightarrow> s_gov s = g \<and> s_case s = c"

interpretation beside: site_invariant "beside g c" for g c
  by unfold_locales (simp add: beside_def)

lemma beside_bld: "beside.kept_by g c (bld_tx t)" "beside.kept_by g c (site_bld_tx u)"
  by (auto simp: beside.kept_by_def wp_simps beside_def split: sum.split)

lemma beside_reads: "beside.kept_by g c (getById bid)" "beside.kept_by g c (ownUnit bid uid)" "beside.kept_by g c (bld h)"
  "beside.kept_by g c (membershipGuard p bid)" "beside.kept_by g c (rolesGuard rs p bid)"
  "beside.kept_by g c (assertManagesUnit bid uid p k t)"
  unfolding getById_def ownUnit_def bld_def membershipGuard_def rolesGuard_def assertManagesUnit_def
  by (rule beside.kept_reads)+

lemmas beside_rules = beside.kept_rules beside_bld beside_reads

lemma beside_handle: "beside.kept_by g c (handleBuilding floors now p r)"
  by (cases r; simp only: handleBuilding.simps guarded_def void_def linkOwnerAccountByPhone_def addUnit_def svc_updateUnit_def
      inviteOwner_def inviteOwnerV2_def inviteWith_def deleteUnit_def claimOwnership_def requestMembership_def
      resolveMembershipRequest_def svc_changeManager_def svc_endManagement_def svc_transferOwnership_def
      svc_createTenancy_def registerTenant_def svc_giveTenancyNotice_def svc_endTenancy_def updateSettings_def
      svc_getOwnUnit_def getOwnTenancy_def Let_def; intro beside_rules)

lemma beside_changeManager: "beside.kept_by g c (svc_changeManager now bid q ty a)"
  unfolding svc_changeManager_def by (intro beside_rules)

section \<open>The invariant of the site\<close>

definition siteOk :: "site \<Rightarrow> bool" where
  "siteOk s \<longleftrightarrow> bld_ok (s_bld s) \<and> gov_ok (s_gov s) \<and> cases_ok (s_case s)"

text \<open>A state that some history has reached from governance tables \<open>g\<close> and case tables \<open>c\<close>.\<close>

definition siteOn :: "gov_db \<Rightarrow> case_db \<Rightarrow> site \<Rightarrow> bool" where
  "siteOn g c s \<longleftrightarrow> bld_ok (s_bld s) \<and> goesOn g (s_gov s) \<and> caseGoesOn c (s_case s)"

lemma siteOn_start: "siteOk s \<Longrightarrow> siteOn (s_gov s) (s_case s) s"
  by (simp add: siteOn_def siteOk_def goesOn_refl caseGoesOn_refl)

lemma siteOn_ok: "siteOn g c s \<Longrightarrow> siteOk s"
  by (simp add: siteOn_def siteOk_def goesOn_def caseGoesOn_def)

interpretation sok: site_invariant "siteOn g0 c0" for g0 c0
  by unfold_locales (simp add: siteOn_def)

lemma sok_building:
  assumes "bok.kept_by m" "\<And>g c. beside.kept_by g c m"
  shows "sok.kept_by g0 c0 m"
proof (rule sok.kept_byI)
  fix s assume s: "siteOn g0 c0 s"
  have "buildingsOk s" using s by (simp add: siteOn_def buildingsOk_def)
  then have "wp m (\<lambda>_. buildingsOk) (\<lambda>_. buildingsOk) s" using assms(1) by (simp add: bok.kept_by_def)
  moreover have "wp m (\<lambda>_. beside (s_gov s) (s_case s)) (\<lambda>_. beside (s_gov s) (s_case s)) s"
    using assms(2) by (simp add: beside.kept_by_def beside_def)
  ultimately show "wp m (\<lambda>_. siteOn g0 c0) (\<lambda>_. siteOn g0 c0) s"
    using s by (auto simp: wp_def siteOn_def buildingsOk_def beside_def split: prod.splits sum.splits)
qed

lemma sok_gov_tx: "(\<And>g x g'. goesOn g0 g \<Longrightarrow> t g = Inr (x, g') \<Longrightarrow> goesOn g0 g') \<Longrightarrow> sok.kept_by g0 c0 (gov_tx t)"
  by (rule sok.kept_gov_tx) (auto simp: siteOn_def)

lemma sok_with_bld:
  "(\<And>b g x g'. bld_ok b \<Longrightarrow> goesOn g0 g \<Longrightarrow> t b g = Inr (x, g') \<Longrightarrow> goesOn g0 g') \<Longrightarrow> sok.kept_by g0 c0 (with_bld t)"
  unfolding with_bld_def by (rule sok.kept_byI) (auto simp: wp_simps siteOn_def split: sum.split)

lemma sok_case_tx: "(\<And>c x c'. caseGoesOn c0 c \<Longrightarrow> t c = Inr (x, c') \<Longrightarrow> caseGoesOn c0 c') \<Longrightarrow> sok.kept_by g0 c0 (case_tx t)"
  by (rule sok.kept_case_tx) (auto simp: siteOn_def)

lemma wp_site_case_tx [wp_simps]: "wp (site_case_tx t) Q E = (\<lambda>s. wp (case_tx (t (s_bld s))) Q E s)"
  by (rule ext) (simp add: wp_def site_case_tx_def)

lemma wp_gov [wp_simps]: "wp (gov h) Q E = (\<lambda>s. Q (h (s_gov s)) s)"
  by (simp add: gov_def wp_simps)

lemma wp_with_bld [wp_simps]: "wp (with_bld u) Q E = (\<lambda>s. wp (gov_tx (u (s_bld s))) Q E s)"
  by (simp add: with_bld_def wp_simps)

lemma wp_check [wp_simps]: "wp (check ok e) Q E = (\<lambda>s. if ok then Q () s else E e s)"
  by (rule ext) (simp add: check_def assert_r_def wp_simps)

lemma sok_site_case_tx:
  "(\<And>b c x c'. caseGoesOn c0 c \<Longrightarrow> t b c = Inr (x, c') \<Longrightarrow> caseGoesOn c0 c') \<Longrightarrow> sok.kept_by g0 c0 (site_case_tx t)"
  by (rule sok.kept_byI) (auto simp: wp_simps siteOn_def split: sum.split)

lemma sok_reads: "sok.kept_by g0 c0 (getById bid)" "sok.kept_by g0 c0 (ownUnit bid uid)" "sok.kept_by g0 c0 (bld h)" "sok.kept_by g0 c0 (gov k)"
  "sok.kept_by g0 c0 (check ok e)" "sok.kept_by g0 c0 (membershipGuard p bid)" "sok.kept_by g0 c0 (rolesGuard rs p bid)"
  "sok.kept_by g0 c0 (verifiedRolesGuard rs p bid)" "sok.kept_by g0 c0 (getVote bid i)" "sok.kept_by g0 c0 (callerVotesFor bid uid p)"
  "sok.kept_by g0 c0 (getMeetingOrThrow bid i)" "sok.kept_by g0 c0 (getCaseOrThrow bid i)" "sok.kept_by g0 c0 (isPrivileged p bid)"
  unfolding getById_def ownUnit_def bld_def gov_def check_def membershipGuard_def rolesGuard_def verifiedRolesGuard_def
    getVote_def callerVotesFor_def getMeetingOrThrow_def getCaseOrThrow_def isPrivileged_def
  by (rule sok.kept_reads)+

lemmas sok_rules = sok.kept_rules sok_reads

lemma sok_void: "sok.kept_by g0 c0 c \<Longrightarrow> sok.kept_by g0 c0 (void c)"
  unfolding void_def by (intro sok_rules)

lemma sok_guarded: "sok.kept_by g0 c0 g \<Longrightarrow> sok.kept_by g0 c0 c \<Longrightarrow> sok.kept_by g0 c0 (guarded g c)"
  unfolding guarded_def by (intro sok_rules sok_void)

section \<open>Voting\<close>

lemma sok_createVote: "sok.kept_by g0 c0 (svc_createVote now bid dto p)"
  unfolding svc_createVote_def electionChecks_def meetingCheck_def scopeChecks_def
  by (intro sok_rules sok_with_bld; erule (1) goesOn_create)

lemma sok_publishVote: "sok.kept_by g0 c0 (svc_publishVote now bid i a)"
  unfolding svc_publishVote_def by (intro sok_rules sok_with_bld; erule (2) goesOn_publish [rotated])

lemma sok_changeManager: "sok.kept_by g0 c0 (svc_changeManager now bid q ty a)"
  by (rule sok_building [OF bok_simple_calls(6) beside_changeManager])

lemma sok_electManager: "sok.kept_by g0 c0 (electManager now bid i w a)"
  unfolding electManager_def by (intro sok_rules sok_changeManager)

lemma wp_kept: "sok.kept_by g0 c0 m \<Longrightarrow> siteOn g0 c0 s \<Longrightarrow> wp m (\<lambda>_. siteOn g0 c0) (\<lambda>_. siteOn g0 c0) s"
  by (simp add: sok.kept_by_def)

lemma wp_getVote [wp_simps]: "wp (getVote bid i) Q E = (\<lambda>s. case theVote (s_gov s) i of
     None \<Rightarrow> E (NotFoundAppError STR ''Vote not found.'') s
   | Some v \<Rightarrow> if vt_buildingId v = bid
       then Q \<lparr>vi_vote = v, vi_options = optionsOf (s_gov s) i, vi_result = getVoteResult (s_gov s) i\<rparr> s
       else E (NotFoundAppError STR ''Vote not found.'') s)"
  by (rule ext) (simp add: getVote_def wp_simps findVoteById_def theVote_def split: option.split)

lemma sok_cancelVote: "sok.kept_by g0 c0 (svc_cancelVote now bid i reason p)"
proof (rule sok.kept_byI)
  fix s assume s: "siteOn g0 c0 s"
  show "wp (svc_cancelVote now bid i reason p) (\<lambda>_. siteOn g0 c0) (\<lambda>_. siteOn g0 c0) s"
    using s unfolding svc_cancelVote_def
    by (auto simp: wp_simps siteOn_def assertVoteCancellable_def assert_r_def split: option.splits sum.splits
        intro: goesOn_cancel)
qed

lemma sok_voteClosed: "sok.kept_by g0 c0 (voteClosed now bid i a w vr)"
  unfolding voteClosed_def by (intro sok_rules sok_electManager)

lemma sok_closeVote: "sok.kept_by g0 c0 (svc_closeVote now bid i a)"
proof (rule sok.kept_byI)
  fix s assume s: "siteOn g0 c0 s"
  have ok: "siteOn g0 c0 (s\<lparr>s_gov := g\<rparr>)" if "theVote (s_gov s) i = Some v" "closeVote now i (vt_quorumPercent v) (s_gov s) = Inr ((x, r), g)" for v x r g
    using s goesOn_close [OF _ that] by (simp add: siteOn_def)
  show "wp (svc_closeVote now bid i a) (\<lambda>_. siteOn g0 c0) (\<lambda>_. siteOn g0 c0) s"
    using s unfolding svc_closeVote_def by (auto simp: wp_simps split: option.splits sum.splits intro: wp_kept [OF sok_voteClosed ok])
qed

lemma option_of: "o' \<in> set (optionsOf g i) \<longleftrightarrow> o' \<in> set (voteOptions g) \<and> vo_voteId o' = i"
  by (auto simp: optionsOf_def)

lemma sok_castBallot: "sok.kept_by g0 c0 (castBallot now bid i uid opt p)"
proof (rule sok.kept_byI)
  fix s assume s: "siteOn g0 c0 s"
  have "siteOn g0 c0 (s\<lparr>s_gov := g\<rparr>)"
    if "findEligibilitySnapshotForUnit (s_gov s) i uid \<noteq> None" "find (\<lambda>o'. vo_id o' = opt) (optionsOf (s_gov s) i) \<noteq> None"
      "createBallot (s_bld s) now i uid p opt (s_gov s) = Inr (x, g)" for x g
  proof -
    have "\<exists>o'\<in>set (voteOptions (s_gov s)). vo_id o' = opt \<and> vo_voteId o' = i"
      using that(2) by (auto simp: find_None_iff option_of)
    then show ?thesis using s goesOn_ballot [OF _ that(3,1)] by (simp add: siteOn_def)
  qed
  note ok = this
  have log: "siteOn g0 c0 (snd (record_audit a q w e r t)) = siteOn g0 c0 t" "siteOn g0 c0 (snd (publish ev t)) = siteOn g0 c0 t" for a q w e r t ev
    by (simp_all add: siteOn_def)
  show "wp (castBallot now bid i uid opt p) (\<lambda>_. siteOn g0 c0) (\<lambda>_. siteOn g0 c0) s"
    using s unfolding castBallot_def ownUnit_def
    by (auto simp: wp_simps log refused_def split: option.splits sum.splits intro: ok)
qed

lemma sok_sweeps: "sok.kept_by g0 c0 (runAutoPublish now)" "sok.kept_by g0 c0 (runAutoClose now)"
  unfolding runAutoPublish_def runAutoClose_def sweepVote_def
  by (intro sok_rules sok_publishVote sok_closeVote)+

lemma sok_grant: "sok.kept_by g0 c0 (grant now bid uid q p)"
  unfolding grant_def by (intro sok_rules sok_with_bld; erule (1) goesOn_proxies)

lemma sok_revoke: "sok.kept_by g0 c0 (revoke now bid uid p)"
  unfolding revoke_def by (intro sok_rules sok_gov_tx; erule (1) goesOn_proxies)

lemma sok_meetings: "sok.kept_by g0 c0 (svc_createMeeting bid t at' loc p)" "sok.kept_by g0 c0 (svc_updateMeeting bid i q p)"
  "sok.kept_by g0 c0 (svc_archiveMeeting now bid i p)" "sok.kept_by g0 c0 (svc_recordAttendance now bid i ps p)"
  unfolding svc_createMeeting_def svc_updateMeeting_def svc_archiveMeeting_def svc_recordAttendance_def
  by (intro sok_rules sok_with_bld sok_gov_tx; erule (1) goesOn_meetings)+

section \<open>Cases\<close>

lemma sok_changed: "sok.kept_by g0 c0 (changed what bid r st p reason x)"
  unfolding changed_def by (intro sok_rules)

lemma wp_getCase [wp_simps]: "wp (getCaseOrThrow bid i) Q E = (\<lambda>s. case findCaseById (s_case s) i of
     None \<Rightarrow> E (NotFoundAppError STR ''Case not found.'') s
   | Some r \<Rightarrow> if ca_buildingId r = bid then Q r s else E (NotFoundAppError STR ''Case not found.'') s)"
  by (rule ext) (simp add: getCaseOrThrow_def wp_simps split: option.split)

lemma wp_isPrivileged [wp_simps]: "wp (isPrivileged p bid) Q E = (\<lambda>s. Q (privilegedIn (s_bld s) p bid) s)"
  by (simp add: isPrivileged_def bld_def wp_simps)

lemma wp_changed [wp_simps]: "wp (changed what bid r st p reason x) Q E = (\<lambda>s.
    Q x (snd (publish (CaseStatusChangedEvent (ca_id r) bid (ca_status r) st p) (snd (record_audit (Some p) (Some bid) what (ca_id r) reason s)))))"
  by (simp add: changed_def wp_simps del: return_svc_simps)

lemma sok_createCase: "sok.kept_by g0 c0 (svc_createCase now bid dto p)"
  unfolding svc_createCase_def by (intro sok_rules sok_site_case_tx; erule (1) goesOn_createCase)

lemma sok_updateCase: "sok.kept_by g0 c0 (updateCase bid i dto p)"
proof (rule sok.kept_byI)
  fix s assume s: "siteOn g0 c0 s"
  show "wp (updateCase bid i dto p) (\<lambda>_. siteOn g0 c0) (\<lambda>_. siteOn g0 c0) s"
    using s unfolding updateCase_def
    by (auto simp: wp_simps siteOn_def assertEditable_def effect_simps split: option.splits sum.splits
        intro: goesOn_updateCase)
qed

lemma sok_addMessage: "sok.kept_by g0 c0 (addMessage now bid i txt v p)"
proof (rule sok.kept_byI)
  fix s assume s: "siteOn g0 c0 s"
  show "wp (addMessage now bid i txt v p) (\<lambda>_. siteOn g0 c0) (\<lambda>_. siteOn g0 c0) s"
    using s unfolding addMessage_def bld_def
    by (auto simp: wp_simps siteOn_def assertMessageable_def active_iff effect_simps split: option.splits sum.splits
        intro: goesOn_message)
qed

lemma sok_closeCase: "sok.kept_by g0 c0 (svc_closeCase now bid i p)"
  unfolding svc_closeCase_def by (intro sok_rules sok_changed sok_case_tx; erule (1) goesOn_closeCase)

lemma sok_assignCase: "sok.kept_by g0 c0 (svc_assignCase now bid i q note p)"
proof (rule sok.kept_byI)
  fix s assume s: "siteOn g0 c0 s"
  show "wp (svc_assignCase now bid i q note p) (\<lambda>_. siteOn g0 c0) (\<lambda>_. siteOn g0 c0) s"
    using s unfolding svc_assignCase_def bld_def
    by (auto simp: wp_simps siteOn_def assertAssignableStatus_def active_iff assert_r_def split: option.splits sum.splits
        intro: goesOn_assign)
qed

lemma sok_resolveCase: "sok.kept_by g0 c0 (svc_resolveCase bid i code p)"
proof (rule sok.kept_byI)
  fix s assume s: "siteOn g0 c0 s"
  show "wp (svc_resolveCase bid i code p) (\<lambda>_. siteOn g0 c0) (\<lambda>_. siteOn g0 c0) s"
    using s unfolding svc_resolveCase_def
    by (auto simp: wp_simps siteOn_def assertResolvable_def assert_r_def split: option.splits sum.splits
        intro: goesOn_resolve)
qed

lemma unmerged:
  assumes "cases_ok c" "findCaseById c i = Some r" "\<not> merged r"
  shows "ca_mergedIntoId r = None"
proof (rule ccontr)
  assume "ca_mergedIntoId r \<noteq> None"
  then obtain j where j: "ca_mergedIntoId r = Some j" by blast
  then obtain t where "t \<in> set (caseRows c)" "ca_id t = j"
    using cases_okD(5) [OF assms(1)] setCase_rows(2) [OF assms(1,2)] unfolding merges_ok_def by metis
  then have "j \<noteq> []" using cases_okD(4) [OF assms(1)] by (auto simp: crows_ok_def caseFields_def)
  then show False using assms(3) j by (cases j) (auto simp: merged_def truthy_def)
qed

lemma unmerged_on: "caseGoesOn c0 c \<Longrightarrow> findCaseById c i = Some r \<Longrightarrow> \<not> merged r \<Longrightarrow> ca_mergedIntoId r = None"
  by (rule unmerged) (simp_all add: caseGoesOn_def)

lemma sok_reopenCase: "sok.kept_by g0 c0 (svc_reopenCase bid i reason p)"
proof (rule sok.kept_byI)
  fix s assume s: "siteOn g0 c0 s"
  show "wp (svc_reopenCase bid i reason p) (\<lambda>_. siteOn g0 c0) (\<lambda>_. siteOn g0 c0) s"
    using s unfolding svc_reopenCase_def
    by (auto simp: wp_simps siteOn_def assert_r_def split: option.splits sum.splits intro: goesOn_reopen unmerged_on)
qed

lemma sok_mergeCase: "sok.kept_by g0 c0 (svc_mergeCase now bid i j p)"
proof (rule sok.kept_byI)
  fix s assume s: "siteOn g0 c0 s"
  show "wp (svc_mergeCase now bid i j p) (\<lambda>_. siteOn g0 c0) (\<lambda>_. siteOn g0 c0) s"
    using s unfolding svc_mergeCase_def
    by (auto simp: wp_simps siteOn_def assert_r_def mergeTarget_def effect_simps split: option.splits sum.splits
        intro: goesOn_merge unmerged_on)
qed

section \<open>Histories\<close>

lemma sok_gov_reads: "sok.kept_by g0 c0 (svc_listVotes bid k st pg)" "sok.kept_by g0 c0 (getResult bid i)"
  "sok.kept_by g0 c0 (getCurrentProxy bid uid)" "sok.kept_by g0 c0 (lookupCandidateByPhone bid uid ph p)"
  "sok.kept_by g0 c0 (listMeetings bid pg)" "sok.kept_by g0 c0 (getMeeting bid i)" "sok.kept_by g0 c0 (listAttendance bid i pg)"
  unfolding svc_listVotes_def getResult_def getCurrentProxy_def lookupCandidateByPhone_def listMeetings_def getMeeting_def
    listAttendance_def
  by (intro sok_rules)+

lemma sok_case_reads: "sok.kept_by g0 c0 (svc_listCases bid p f pg)" "sok.kept_by g0 c0 (getCase bid i p)"
  "sok.kept_by g0 c0 (svc_listAssignments bid i p pg)" "sok.kept_by g0 c0 (svc_listMessages bid i p pg)"
  unfolding svc_listCases_def svc_listAssignments_def svc_listMessages_def getCase_def by (intro sok_rules)+

lemma sok_handleVoting: "sok.kept_by g0 c0 (handleVoting now p r)"
  by (cases r; simp only: handleVoting.simps; intro sok_guarded sok_reads sok_gov_reads sok_createVote sok_publishVote
      sok_castBallot sok_closeVote sok_cancelVote sok_grant sok_revoke)

lemma sok_handleMeetings: "sok.kept_by g0 c0 (handleMeetings now p r)"
  by (cases r; simp only: handleMeetings.simps; intro sok_guarded sok_reads sok_gov_reads sok_meetings)

lemma sok_handleCase: "sok.kept_by g0 c0 (handleCase now p r)"
  by (cases r; simp only: handleCase.simps; intro sok_guarded sok_reads sok_case_reads sok_createCase sok_updateCase
      sok_assignCase sok_addMessage sok_resolveCase sok_closeCase sok_reopenCase sok_mergeCase)

lemma sok_handleSite: "sok.kept_by g0 c0 (handleSite floors now p r)"
  by (cases r; simp only: handleSite.simps)
    (intro sok_building handleBuilding_kept beside_handle sok_handleVoting sok_handleMeetings sok_handleCase sok_void sok_sweeps)+

lemma runSite_on: "siteOn g0 c0 s \<Longrightarrow> siteOn g0 c0 (runSite floors rs s)"
proof (induction rs arbitrary: s)
  case (Cons r rs)
  obtain now p q where r: "r = (now, p, q)" by (cases r)
  have "siteOn g0 c0 (snd (handleSite floors now p q s))"
    by (rule sok.kept_byD [OF sok_handleSite Cons.prems])
  then show ?case by (simp add: r Cons.IH)
qed simp

lemma runSite_ok: "siteOk s \<Longrightarrow> siteOk (runSite floors rs s)"
  using runSite_on [OF siteOn_start] siteOn_ok by blast

end
