(* ===== verification/Vote_Runs.thy ===== *)
theory Vote_Runs
  imports Site_Api Site_Runs
begin

text \<open>
  A history of the concrete site with an election and a merge of cases, and facts about the
  states on the way, evaluated once for the witnesses.
\<close>

definition election :: createVoteDto where
  "election = \<lparr>dv_title = ''Manager'', dv_description = None, dv_category = VC_MANAGEMENT,
     dv_isManagerElection = Some True, dv_quorumPercent = Some 50, dv_options = Some [(''T'', ''t''), (''M'', ''m'')],
     dv_startAt = 10, dv_endAt = 20, dv_meetingId = None, dv_scopeType = None, dv_scopeBlockId = None,
     dv_scopeUnitType = None, dv_scopeUnitIds = None\<rparr>"

definition theElection :: id where "theElection = demo_ids 0"
definition optionT :: id where "optionT = demo_ids 1"
definition joining :: id where "joining = demo_ids 9"

text \<open>
  The founder hands the building over to the owner and joins the board; the owner opens an
  election between the tenant and the founder, and votes for the tenant.
\<close>

definition toElection :: "(time \<times> id \<times> siteRequest) list" where
  "toElection = [(5, ''m'', Building (ChangeManager theBuilding ''o'' MA_ELECTED)),
     (6, ''m'', Building (RequestMembership theBuilding BOARD_MEMBER None)),
     (7, ''o'', Building (ResolveMembershipRequest theBuilding joining True)),
     (8, ''o'', Voting (CreateVote theBuilding election)),
     (10, ''o'', Voting (PublishVote theBuilding theElection))]"

definition opened :: site where
  "opened = runSite no_floors toElection rented"

definition casting :: "ballot result \<times> site" where
  "casting = castBallot 12 theBuilding theElection firstUnit optionT ''o'' opened"

definition polled :: site where
  "polled = runSite no_floors [(12, ''o'', Voting (CastBallot theBuilding theElection firstUnit optionT))] opened"

definition closing :: "(vote \<times> voteResult) result \<times> site" where
  "closing = svc_closeVote 20 theBuilding theElection (Some ''o'') polled"

definition tallied :: site where
  "tallied = runSite no_floors [(20, ''o'', Voting (CloseVote theBuilding theElection))] polled"

text \<open>Each state is computed once, and asked everything.\<close>

definition talliedAnswers :: "site \<Rightarrow> bool" where
  "talliedAnswers s \<longleftrightarrow> map vt_status (votes (s_gov s)) = [VS_CLOSED] \<and> map vt_id (votes (s_gov s)) = [theElection] \<and>
     getRoles (s_bld s) ''t'' theBuilding = [TENANT, MANAGER]"

definition closingAnswers :: "(vote \<times> voteResult) result \<Rightarrow> bool" where
  "closingAnswers r \<longleftrightarrow> \<not> isl r \<and> vt_isManagerElection (fst (projr r)) \<and> vr_resultStatus (snd (projr r)) = VR_PASSED \<and>
     vr_winningOptionId (snd (projr r)) = Some optionT"

definition polledRuns :: "site \<Rightarrow> bool" where
  "polledRuns s \<longleftrightarrow> list_all (\<lambda>o'. vo_id o' = optionT \<longrightarrow> vo_value o' = ''t'') (optionsOf (s_gov s) theElection) \<and>
     getRoles (s_bld s) ''t'' theBuilding = [TENANT] \<and>
     map_option mb_personId (getCurrentManagerMembership (s_bld s) theBuilding) = Some ''o'' \<and>
     findPersonById (s_bld s) ''t'' \<noteq> None \<and> findPersonById (s_bld s) ''o'' \<noteq> None \<and>
     closingAnswers (fst (svc_closeVote 20 theBuilding theElection (Some ''o'') s)) \<and>
     talliedAnswers (runSite no_floors [(20, ''o'', Voting (CloseVote theBuilding theElection))] s)"

definition openedRuns :: "site \<Rightarrow> bool" where
  "openedRuns s \<longleftrightarrow> map_option vt_status (theVote (s_gov s) theElection) = Some VS_ACTIVE \<and>
     map vs_eligiblePersonId (snapshots (s_gov s)) = [''o''] \<and>
     \<not> isl (fst (castBallot 12 theBuilding theElection firstUnit optionT ''o'' s)) \<and>
     polledRuns (runSite no_floors [(12, ''o'', Voting (CastBallot theBuilding theElection firstUnit optionT))] s)"

lemma opened_runs: "openedRuns opened"
  by code_simp

lemmas opened_all = opened_runs [unfolded openedRuns_def, folded casting_def polled_def, unfolded polledRuns_def closingAnswers_def
  talliedAnswers_def, folded closing_def tallied_def]

lemma tallied_facts: "map vt_status (votes (s_gov tallied)) = [VS_CLOSED]" "map vt_id (votes (s_gov tallied)) = [theElection]"
  "getRoles (s_bld tallied) ''t'' theBuilding = [TENANT, MANAGER]"
  using opened_all by blast+

lemma opened_facts:
  "map_option vt_status (theVote (s_gov opened) theElection) = Some VS_ACTIVE"
  "map vs_eligiblePersonId (snapshots (s_gov opened)) = [''o'']"
  using opened_all by blast+

lemma casting_runs: "\<not> isl (fst casting)"
  using opened_all by blast

lemma closing_runs: "\<not> isl (fst closing)"
  using opened_all by blast

lemma closing_facts:
  "vt_isManagerElection (fst (projr (fst closing)))" "vr_resultStatus (snd (projr (fst closing))) = VR_PASSED"
  "vr_winningOptionId (snd (projr (fst closing))) = Some optionT"
  "list_all (\<lambda>o'. vo_id o' = optionT \<longrightarrow> vo_value o' = ''t'') (optionsOf (s_gov polled) theElection)"
  "getRoles (s_bld polled) ''t'' theBuilding = [TENANT]"
  "map_option mb_personId (getCurrentManagerMembership (s_bld polled) theBuilding) = Some ''o''"
  "findPersonById (s_bld polled) ''t'' \<noteq> None" "findPersonById (s_bld polled) ''o'' \<noteq> None"
  using opened_all by blast+

section \<open>The invariant along the history\<close>

lemma empty_tables_ok: "inj i \<Longrightarrow> gov_ok (empty_gov i)" "inj i \<Longrightarrow> \<forall>n. i n \<noteq> [] \<Longrightarrow> cases_ok (empty_case i)"
proof -
  assume i: "inj i"
  show "gov_ok (empty_gov i)"
    using i by (simp add: gov_ok_def gids_ok_def govUsed_def gkeys_ok_def grefs_ok_def gresults_ok_def gproxies_ok_def
        one_def empty_gov_def)
  assume "\<forall>n. i n \<noteq> []"
  then show "cases_ok (empty_case i)"
    using i by (simp add: cases_ok_def cids_ok_def caseUsed_def ckeys_ok_def crefs_ok_def crows_ok_def merges_ok_def
        mergeEdges_def empty_case_def acyclic_def)
qed

lemma site_ok: "siteOk site0" "siteOk settled" "siteOk rented"
proof -
  have ids: "\<forall>n. demo_ids n \<noteq> []" by (simp add: demo_ids_def)
  show ok0: "siteOk site0"
    using site0_ok empty_tables_ok [OF demo_ids_inj] ids by (simp add: siteOk_def buildingsOk_def site0_def)
  have run: "runBuilding floors rs s = runSite floors (map (\<lambda>(now, p, r). (now, p, Building r)) rs) s" for floors rs s
    by (induction floors rs s rule: runBuilding.induct) simp_all
  show ok1: "siteOk settled" unfolding settled_def run by (rule runSite_ok [OF ok0])
  show "siteOk rented" unfolding rented_def run by (rule runSite_ok [OF ok1])
qed

lemma vote_runs_ok: "siteOk opened" "siteOk polled" "siteOk tallied"
  unfolding tallied_def polled_def opened_def by (intro runSite_ok site_ok)+

end
