(* ===== verification/Governance_Properties.thy ===== *)
theory Governance_Properties
  imports Vote_Runs Building_Properties
begin

text \<open>
  The properties of the governance subsystem, each with a witness on the history of
  \<open>Vote_Runs\<close>.
\<close>

section \<open>The tally\<close>

text \<open>
  C32.  The result of a vote: an option wins exactly when it has strictly more ballots than
  every other one, abstentions left out, whatever order the ballots come in; the vote has
  passed exactly when the quorum is met and some option wins.
\<close>

theorem result_is_strict_plurality:
  "(cv_winningOptionId (calculateResult q n bs) = Some x \<longleftrightarrow>
      0 < votesFor bs x \<and> (\<forall>y. y \<noteq> x \<longrightarrow> votesFor bs y < votesFor bs x)) \<and>
   (cv_resultStatus (calculateResult q n bs) = VR_PASSED \<longleftrightarrow> isQuorumMet q n (length bs) \<and>
      (\<exists>w. w \<noteq> [] \<and> 0 < votesFor bs w \<and> (\<forall>y. y \<noteq> w \<longrightarrow> votesFor bs y < votesFor bs w))) \<and>
   (cv_resultStatus (calculateResult q n bs) = VR_QUORUM_NOT_MET \<longleftrightarrow> \<not> isQuorumMet q n (length bs))"
proof -
  have "blankId (winnerOf bs) \<longleftrightarrow> \<not> (\<exists>w. w \<noteq> [] \<and> winnerOf bs = Some w)"
    by (cases "winnerOf bs") (auto simp: blankId_def)
  then show ?thesis unfolding winner_iff [symmetric] by (auto simp: calculateResult_def Let_def)
qed

theorem result_is_strict_plurality_witness:
  "cv_winningOptionId (calculateResult (Some 50) 4 [(''a'', ''YES''), (''b'', ''ABSTAIN''), (''a'', ''YES'')]) = Some ''a''"
proof -
  have "votesFor [(''a'', ''YES''), (''b'', ''ABSTAIN''), (''a'', ''YES'')] ''a'' = 2"
    "\<And>y. y \<noteq> ''a'' \<Longrightarrow> votesFor [(''a'', ''YES''), (''b'', ''ABSTAIN''), (''a'', ''YES'')] y = 0"
    by (simp_all add: votesFor_def abstain_def)
  then show ?thesis using result_is_strict_plurality by simp
qed

section \<open>Histories\<close>

lemma run_gov: "siteOk s \<Longrightarrow> gov_ok (s_gov (runSite floors rs s))" "siteOk s \<Longrightarrow> advances (s_gov s) (s_gov (runSite floors rs s))"
  using runSite_on [OF siteOn_start, of s floors rs] by (simp_all add: siteOn_def goesOn_def)

lemma ballots_within_snapshot:
  assumes "gov_ok g"
  shows "length (listBallots g i) \<le> length (listEligibilitySnapshots g i)"
proof -
  let ?b = "map ballotKey (listBallots g i)" and ?s = "map snapshotKey (listEligibilitySnapshots g i)"
  have "distinct ?b" using gov_okD(2) [OF assms] by (simp add: gkeys_ok_def listBallots_def distinct_map_filter)
  moreover have "set ?b \<subseteq> set ?s"
    using gov_okD(3) [OF assms]
    by (fastforce simp: grefs_ok_def listBallots_def listEligibilitySnapshots_def ballotKey_def snapshotKey_def)
  ultimately have "length ?b \<le> length ?s" by (metis card_mono distinct_card card_length le_trans List.finite_set)
  then show ?thesis by simp
qed

text \<open>
  C33.  After any history of requests and scheduled jobs, a closed vote has a result, and
  that result is what counting the stored ballots against the stored eligibility snapshot
  again gives; there are never more ballots than eligible units.
\<close>

theorem results_survive_a_recount:
  assumes "siteOk s" "g = s_gov (runSite floors rs s)" "v \<in> set (votes g)" "vt_status v = VS_CLOSED"
  shows "\<exists>r. getVoteResult g (vt_id v) = Some r \<and>
    \<lparr>cv_totalEligibleCount = vr_totalEligibleCount r, cv_totalBallotCount = vr_totalBallotCount r,
     cv_quorumMet = vr_quorumMet r, cv_winningOptionId = vr_winningOptionId r, cv_resultStatus = vr_resultStatus r\<rparr> =
    calculateResult (vt_quorumPercent v) (length (listEligibilitySnapshots g (vt_id v))) (map (castOf g) (listBallots g (vt_id v))) \<and>
    vr_totalBallotCount r \<le> vr_totalEligibleCount r"
proof -
  have ok: "gov_ok g" using run_gov(1) assms(1,2) by simp
  have "vt_id v \<in> vr_voteId ` set (voteResults g)" using gov_okD(4) [OF ok] assms(3,4) by (simp add: gresults_ok_def)
  then obtain r where r: "getVoteResult g (vt_id v) = Some r"
    by (cases "getVoteResult g (vt_id v)") (auto simp: getVoteResult_def find_row_None_iff)
  then have "r \<in> set (voteResults g)" "vr_voteId r = vt_id v" by (auto simp: getVoteResult_def)
  then obtain w where "w \<in> set (votes g)" "vt_id w = vt_id v" "recorded g r w"
    using gov_okD(4) [OF ok] unfolding gresults_ok_def by metis
  then have "recorded g r v" using vote_key [OF ok _ assms(3)] by auto
  then show ?thesis
    using r ballots_within_snapshot [OF ok, of "vt_id v"]
    by (auto simp: recorded_def resultFor_def Let_def calculateResult_def)
qed

theorem results_survive_a_recount_witness:
  "\<exists>v r. v \<in> set (votes (s_gov tallied)) \<and> vt_status v = VS_CLOSED \<and> getVoteResult (s_gov tallied) (vt_id v) = Some r \<and>
    vr_totalBallotCount r \<le> vr_totalEligibleCount r"
proof -
  obtain v where v: "votes (s_gov tallied) = [v]" "vt_status v = VS_CLOSED"
    using tallied_facts(1) by (cases "votes (s_gov tallied)") auto
  have m: "v \<in> set (votes (s_gov tallied))" using v by simp
  from results_survive_a_recount [OF vote_runs_ok(2) arg_cong [OF tallied_def, of s_gov] m v(2)]
  show ?thesis using m v(2) by blast
qed

text \<open>
  C34.  What a history never undoes: a closed or cancelled vote keeps its row, options,
  snapshot, ballots and result; an open one keeps its terms and its snapshot, never goes
  back to a draft, and keeps every ballot that was cast.
\<close>

theorem votes_only_move_forward:
  assumes "siteOk s" "theVote (s_gov s) i = Some v" "g = s_gov s" "g' = s_gov (runSite floors rs s)"
  shows "if vt_status v = VS_CLOSED \<or> vt_status v = VS_CANCELLED
    then theVote g' i = Some v \<and> optionsOf g' i = optionsOf g i \<and> listEligibilitySnapshots g' i = listEligibilitySnapshots g i \<and>
      listBallots g' i = listBallots g i \<and> getVoteResult g' i = getVoteResult g i
    else (\<exists>v'. theVote g' i = Some v' \<and> sameTerms v v' \<and> (vt_status v = VS_DRAFT \<or> vt_status v' \<noteq> VS_DRAFT \<and>
        listEligibilitySnapshots g' i = listEligibilitySnapshots g i)) \<and>
      optionsOf g' i = optionsOf g i \<and> prefix (listBallots g i) (listBallots g' i)"
proof -
  have "advances g g'" using run_gov(2) assms by simp
  then show ?thesis
    using assms(2,3) unfolding advances_def by (auto simp: final_def voteKept_def voteMoves_def split: if_splits)
qed

theorem votes_only_move_forward_witness:
  "\<exists>v. vt_status v = VS_CLOSED \<and> theVote (s_gov tallied) theElection = Some v \<and>
    theVote (s_gov (runSite no_floors [(30, ''t'', Voting (CancelVote theBuilding theElection None))] tallied)) theElection = Some v"
proof -
  obtain v where v: "votes (s_gov tallied) = [v]" "vt_status v = VS_CLOSED" "vt_id v = theElection"
    using tallied_facts(1,2) by (cases "votes (s_gov tallied)") auto
  then have "theVote (s_gov tallied) theElection = Some v" by (simp add: theVote_def find_row_def)
  with votes_only_move_forward [OF vote_runs_ok(3) this refl refl] v(2) show ?thesis by (auto simp del: runSite.simps)
qed

section \<open>Elections\<close>

lemma winner_is_an_option:
  assumes "gov_ok g" "winnerOf (map (castOf g) (listBallots g i)) = Some x"
  shows "\<exists>o'\<in>set (optionsOf g i). vo_id o' = x"
proof -
  have "0 < votesFor (map (castOf g) (listBallots g i)) x" using assms(2) by (simp add: winner_iff)
  then obtain y where y: "y \<in> set (listBallots g i)" "bl_selectedOptionId y = x"
    by (auto simp: votesFor_def castOf_def filter_empty_conv)
  then have "(x, i) \<in> (\<lambda>o'. (vo_id o', vo_voteId o')) ` set (voteOptions g)"
    using gov_okD(3) [OF assms(1)] by (auto simp: grefs_ok_def listBallots_def)
  then show ?thesis by (auto simp: option_of)
qed

text \<open>Who may take over, and what the handover leaves.\<close>

definition electable :: "bld_db \<Rightarrow> id \<Rightarrow> id \<Rightarrow> id option \<Rightarrow> bool" where
  "electable b bid p actor \<longleftrightarrow> getRoles b p bid \<noteq> [] \<and>
     \<not> (map_option mb_personId (getCurrentManagerMembership b bid) = Some p \<and> p \<noteq> []) \<and>
     findPersonById b p \<noteq> None \<and> \<not> dangling (findPersonById b) actor"

definition soleManager :: "bld_db \<Rightarrow> id \<Rightarrow> id \<Rightarrow> bool" where
  "soleManager b bid p \<longleftrightarrow> (\<exists>m. {x \<in> set (memberships b). managesNow bid x} = {m} \<and> mb_personId m = p \<and>
     mb_managerState m = Some ML_VERIFIED \<and> mb_managerAssignmentType m = Some MA_ELECTED)"

lemma changeManager_succeeds:
  assumes "findBuildingById b bid \<noteq> None" "findPersonById b p \<noteq> None" "\<not> dangling (findPersonById b) actor"
  shows "\<exists>m b'. changeManager now bid p ty actor b = Inr (m, b')"
proof (cases "getCurrentManagerMembership b bid")
  case None
  then show ?thesis using assms
    by (simp add: changeManager_def insertMembership_def plainMembership_def dangling_def Let_def)
next
  case (Some c)
  then have "c \<in> set (memberships b)" using currentManager by blast
  then have "find_row mb_id (mb_id c) (memberships b) \<noteq> None" by (auto simp: find_row_None_iff)
  then show ?thesis using assms Some
    by (cases actor) (auto simp: changeManager_def insertMembership_def plainMembership_def dangling_def Let_def
        modifyMembership_def needs_def findPersonById_def findBuildingById_def)
qed

lemma changeManager_known:
  assumes "changeManager now bid p ty actor b = Inr (m, b')"
  shows "findPersonById b p \<noteq> None \<and> \<not> dangling (findPersonById b) actor"
  using assms
  by (auto simp: changeManager_def insertMembership_def plainMembership_def Let_def modifyMembership_def needs_def findPersonById_def
      dangling_def effect_simps split: option.splits if_splits)

lemma elected_manager:
  assumes "bld_ok b" "changeManager now bid p MA_ELECTED a b = Inr (m, b')"
  shows "soleManager b' bid p"
proof -
  have "mb_managerAssignmentType m = Some MA_ELECTED"
    using changeManager_Inr(1) [OF assms(2)] by (simp add: newManager_def)
  then show ?thesis
    using handed_over(1-3) [OF assms] by (auto simp: soleManager_def stateFor_def)
qed

lemma member_building:
  assumes "bld_ok b" "getRoles b p bid \<noteq> []"
  shows "findBuildingById b bid \<noteq> None"
proof -
  obtain m where "m \<in> set (memberships b)" "mb_buildingId m = bid"
    using assms(2) by (auto simp: getRoles_def filter_empty_conv)
  then have "bid \<in> bd_id ` set (buildings b)" using bld_okD(3) [OF assms(1)] by (auto simp: refs_ok_def)
  then show ?thesis by (simp add: findBuildingById_def find_row_None_iff)
qed

lemma electManager_writes:
  assumes "bld_ok (s_bld s)"
  shows "wp (electManager now bid i p actor) (\<lambda>_ t. s_gov t = s_gov s \<and>
    (if electable (s_bld s) bid p actor then soleManager (s_bld t) bid p else s_bld t = s_bld s)) (\<lambda>_ _. False) s"
proof -
  have "findBuildingById (s_bld s) bid \<noteq> None \<and> (\<exists>m b'. changeManager now bid p MA_ELECTED actor (s_bld s) = Inr (m, b'))"
    if "electable (s_bld s) bid p actor"
    using that member_building [OF assms] changeManager_succeeds unfolding electable_def by metis
  then show ?thesis
    using elected_manager [OF assms] unfolding electManager_def svc_changeManager_def getById_def
    by (auto simp: wp_simps wp_bld electable_def assertNotSelfHandoff_def assertCandidateIsMember_def assert_r_def
        split: option.splits sum.splits prod.splits dest: changeManager_known)
qed

lemma passed_election:
  assumes "gov_ok g" "theVote g i = Some v0" "r = (let c = resultFor g i q in \<lparr>vr_voteId = i,
      vr_totalEligibleCount = cv_totalEligibleCount c, vr_totalBallotCount = cv_totalBallotCount c,
      vr_quorumMet = cv_quorumMet c, vr_winningOptionId = cv_winningOptionId c, vr_resultStatus = cv_resultStatus c, vr_publishedAt = Some now\<rparr>)"
    "w = \<lparr>vi_vote = v0, vi_options = optionsOf g i, vi_result = res\<rparr>"
  shows "if vt_isManagerElection v0 \<and> vr_resultStatus r = VR_PASSED
    then \<exists>o'\<in>set (optionsOf g i). electedOption w r = Some o' \<and> vr_winningOptionId r = Some (vo_id o')
    else electedOption w r = None"
proof (cases "vt_isManagerElection v0 \<and> vr_resultStatus r = VR_PASSED")
  case True
  then have blank: "\<not> blankId (vr_winningOptionId r)"
    using assms(3) by (auto simp: resultFor_def calculateResult_def Let_def split: if_splits)
  then obtain x where x: "vr_winningOptionId r = Some x" by (cases "vr_winningOptionId r") (auto simp: blankId_def)
  then have "winnerOf (map (castOf g) (listBallots g i)) = Some x"
    using assms(3) by (simp add: resultFor_def calculateResult_def Let_def)
  then obtain o' where "o' \<in> set (optionsOf g i)" "vo_id o' = x" using winner_is_an_option [OF assms(1)] by blast
  then obtain o1 where o1: "find (\<lambda>o'. vo_id o' = x) (optionsOf g i) = Some o1"
    by (cases "find (\<lambda>o'. vo_id o' = x) (optionsOf g i)") (auto simp: find_None_iff)
  then have "o1 \<in> set (optionsOf g i)" "vo_id o1 = x" by (auto simp: find_Some_iff)
  then show ?thesis using True blank x o1 by (auto simp: electedOption_def assms(4))
next
  case False
  then show ?thesis by (auto simp: electedOption_def assms(4))
qed

lemma voteClosed_writes:
  assumes "bld_ok (s_bld s)"
  shows "wp (voteClosed now bid i actor w vr) (\<lambda>x t. x = vr \<and> s_gov t = s_gov s \<and>
    (case electedOption w (snd vr) of None \<Rightarrow> s_bld t = s_bld s
     | Some o' \<Rightarrow> if electable (s_bld s) bid (vo_value o') actor then soleManager (s_bld t) bid (vo_value o') else s_bld t = s_bld s)) (\<lambda>_ _. False) s"
proof -
  let ?s = "snd (publish (VoteClosedEvent i bid (vr_resultStatus (snd vr)) actor) (snd (record_audit actor (Some bid) STR ''VoteClosed'' i None s)))"
  have same: "s_bld ?s = s_bld s" "s_gov ?s = s_gov s" by simp_all
  have ok: "bld_ok (s_bld ?s)" using assms by simp
  show ?thesis
  proof (cases "electedOption w (snd vr)")
    case None
    then show ?thesis by (simp add: voteClosed_def wp_simps del: return_svc_simps)
  next
    case (Some o')
    then show ?thesis
      using wp_mono [OF electManager_writes [OF ok, of now bid i "vo_value o'" actor]]
      by (simp add: voteClosed_def wp_simps del: return_svc_simps)
  qed
qed

lemma closing_writes:
  assumes "bld_ok (s_bld s)"
  shows "wp (svc_closeVote now bid i actor) (\<lambda>x t. \<exists>v0. theVote (s_gov s) i = Some v0 \<and>
    closeVote now i (vt_quorumPercent v0) (s_gov s) = Inr (x, s_gov t) \<and>
    (case electedOption \<lparr>vi_vote = v0, vi_options = optionsOf (s_gov s) i, vi_result = getVoteResult (s_gov s) i\<rparr> (snd x) of
       None \<Rightarrow> s_bld t = s_bld s
     | Some o' \<Rightarrow> if electable (s_bld s) bid (vo_value o') actor then soleManager (s_bld t) bid (vo_value o') else s_bld t = s_bld s)) (\<lambda>_ _. True) s"
proof -
  note close = voteClosed_writes [of "s\<lparr>s_gov := g\<rparr>" for g, simplified, OF assms]
  show ?thesis
    unfolding svc_closeVote_def wp_bind wp_getVote wp_steps
    by (auto simp del: return_svc_simps split: option.split sum.split intro!: wp_mono [OF close])
qed

text \<open>
  C35.  Closing a vote closes it whatever happens to the election: when the vote is a
  manager election that passed, the candidate of the winning option becomes the only
  current manager, verified and elected, if that person is a member, known, and not the
  manager already.  If not, and when no election passed, the building tables stay as they were.
\<close>

theorem closing_hands_over_to_the_winner:
  assumes "siteOk s" "svc_closeVote now bid i actor s = (Inr (v, r), s')"
  shows "theVote (s_gov s') i = Some v \<and> vt_status v = VS_CLOSED \<and> getVoteResult (s_gov s') i = Some r \<and>
    (if vt_isManagerElection v \<and> vr_resultStatus r = VR_PASSED
     then \<exists>o'\<in>set (optionsOf (s_gov s) i). vr_winningOptionId r = Some (vo_id o') \<and>
       (if electable (s_bld s) bid (vo_value o') actor then soleManager (s_bld s') bid (vo_value o') else s_bld s' = s_bld s)
     else s_bld s' = s_bld s)"
proof -
  have g: "gov_ok (s_gov s)" and b: "bld_ok (s_bld s)" using assms(1) by (simp_all add: siteOk_def)
  let ?w = "\<lambda>v0. \<lparr>vi_vote = v0, vi_options = optionsOf (s_gov s) i, vi_result = getVoteResult (s_gov s) i\<rparr>"
  obtain v0 where v0: "theVote (s_gov s) i = Some v0"
    and close: "closeVote now i (vt_quorumPercent v0) (s_gov s) = Inr ((v, r), s_gov s')"
    and after: "case electedOption (?w v0) r of None \<Rightarrow> s_bld s' = s_bld s
     | Some o' \<Rightarrow> if electable (s_bld s) bid (vo_value o') actor then soleManager (s_bld s') bid (vo_value o') else s_bld s' = s_bld s"
    using wp_result(1) [OF closing_writes [OF b] assms(2)] by auto
  have st: "vt_status v0 = VS_ACTIVE" "v = v0\<lparr>vt_status := VS_CLOSED, vt_closedAt := Some now\<rparr>"
    and r: "r = (let c = resultFor (s_gov s) i (vt_quorumPercent v0) in \<lparr>vr_voteId = i,
      vr_totalEligibleCount = cv_totalEligibleCount c, vr_totalBallotCount = cv_totalBallotCount c,
      vr_quorumMet = cv_quorumMet c, vr_winningOptionId = cv_winningOptionId c, vr_resultStatus = cv_resultStatus c, vr_publishedAt = Some now\<rparr>)"
    and g'_is: "s_gov s' = (setVote i (\<lambda>v. v\<lparr>vt_status := VS_CLOSED, vt_closedAt := Some now\<rparr>) (s_gov s))\<lparr>voteResults := voteResults (s_gov s) @ [r]\<rparr>"
    using close v0 unfolding closeVote_Inr [OF g] by auto
  have "getVoteResult (s_gov s) i = None" by (rule result_closed [OF g v0]) (simp add: st)
  then have "getVoteResult (s_gov s') i = Some r" using r by (simp add: getVoteResult_def g'_is find_row_append Let_def)
  moreover have "theVote (s_gov s') i = Some v" using v0 st(2) by (simp add: theVote_def g'_is setVote_def find_row_upd_same)
      (auto simp: theVote_def)
  moreover have "vt_status v = VS_CLOSED" "vt_isManagerElection v = vt_isManagerElection v0" by (simp_all add: st(2))
  ultimately show ?thesis
    using passed_election [OF g v0 r refl, of "getVoteResult (s_gov s) i"] after
    by (auto split: if_splits)
qed

theorem closing_hands_over_to_the_winner_witness:
  "soleManager (s_bld (snd closing)) theBuilding ''t''"
proof -
  obtain v r where vr: "projr (fst closing) = (v, r)" by (cases "projr (fst closing)")
  have run: "svc_closeVote 20 theBuilding theElection (Some ''o'') polled = (Inr (v, r), snd closing)"
    using ran_Inr [OF closing_runs] by (simp add: vr closing_def [symmetric])
  have "electable (s_bld polled) theBuilding ''t'' (Some ''o'')"
    using closing_facts by (auto simp: electable_def dangling_def)
  then show ?thesis
    using closing_hands_over_to_the_winner [OF vote_runs_ok(2) run] closing_facts
    by (auto simp: vr list_all_iff split: if_splits)
qed

section \<open>Ballots\<close>

text \<open>The runs that answer, as a chain of conditions.\<close>

lemma wp_answers:
  "wp (guard r) Q (\<lambda>_ _. False) s \<longleftrightarrow> (\<exists>x. r = Inr x \<and> Q x s)"
  "wp (lift_svc h) Q (\<lambda>_ _. False) s \<longleftrightarrow> (\<exists>x. h s = Inr x \<and> Q x s)"
  "wp (gov_tx t) Q (\<lambda>_ _. False) s \<longleftrightarrow> (\<exists>x g. t (s_gov s) = Inr (x, g) \<and> Q x (s\<lparr>s_gov := g\<rparr>))"
  by (auto simp: wp_simps split: sum.split)

lemma wp_check_False: "wp (check ok e) Q (\<lambda>_ _. False) s \<longleftrightarrow> ok \<and> Q () s"
  by (simp add: wp_check)

text \<open>
  C36.  A ballot is accepted exactly when the vote of this building is active and not past
  its end, the unit belongs to the building, is in the snapshot and has not voted, the
  option is one of the vote, the caller is the snapshotted voter or a current proxy of
  that person, and, in an election, the snapshotted voter is not a candidate.
\<close>

theorem ballot_accepted_iff:
  "(\<exists>x s'. castBallot now bid i uid opt p s = (Inr x, s')) \<longleftrightarrow>
    (\<exists>v u sn. theVote (s_gov s) i = Some v \<and> vt_buildingId v = bid \<and> vt_status v = VS_ACTIVE \<and> now \<le> vt_endAt v \<and>
       findUnitById (s_bld s) uid = Some u \<and> u_buildingId u = bid \<and>
       findEligibilitySnapshotForUnit (s_gov s) i uid = Some sn \<and> findBallotForUnit (s_gov s) i uid = None \<and>
       opt \<in> vo_id ` set (optionsOf (s_gov s) i) \<and>
       (vs_eligiblePersonId sn = p \<or> isCurrentProxyFor (s_gov s) (vs_eligiblePersonId sn) p) \<and>
       \<not> (vt_isManagerElection v \<and> vs_eligiblePersonId sn \<in> vo_value ` set (optionsOf (s_gov s) i)) \<and>
       findPersonById (s_bld s) p \<noteq> None)" (is "?L \<longleftrightarrow> ?R")
proof -
  have opt: "find (\<lambda>o'. vo_id o' = opt) (optionsOf (s_gov s) i) \<noteq> None \<longleftrightarrow> opt \<in> vo_id ` set (optionsOf (s_gov s) i)"
    by (auto simp: find_None_iff)
  have row: "find_row vo_id opt (voteOptions (s_gov s)) \<noteq> None" if "opt \<in> vo_id ` set (optionsOf (s_gov s) i)"
    using that by (auto simp: find_row_None_iff option_of)
  have L: "?L \<longleftrightarrow> wp (castBallot now bid i uid opt p) (\<lambda>_ _. True) (\<lambda>_ _. False) s"
    by (auto simp: wp_def split: prod.split sum.split)
  have own: "(case findUnitById (s_bld s) uid of None \<Rightarrow> Inl e | Some u \<Rightarrow> if u_buildingId u = bid then Inr u else Inl e') = Inr y \<longleftrightarrow>
      findUnitById (s_bld s) uid = Some y \<and> u_buildingId y = bid" for e e' y
    by (auto split: option.split)
  have refused: "refused x e = Inr y \<longleftrightarrow> x = Some y" for x :: "voteSnapshot option" and e y
    by (simp add: refused_def split: option.split)
  have may: "mayCast g sn p = Inr u \<longleftrightarrow> vs_eligiblePersonId sn = p \<or> isCurrentProxyFor g (vs_eligiblePersonId sn) p" for g sn u
    by (auto simp: mayCast_def assertEligibleToCastBallot_def Let_def effect_simps)
  have stored: "(\<exists>x g. createBallot (s_bld s) now i uid p opt (s_gov s) = Inr (x, g)) \<longleftrightarrow> findPersonById (s_bld s) p \<noteq> None"
    if "theVote (s_gov s) i = Some v" "vt_status v = VS_ACTIVE" "now \<le> vt_endAt v" "findBallotForUnit (s_gov s) i uid = None"
      "findUnitById (s_bld s) uid = Some u" "opt \<in> vo_id ` set (optionsOf (s_gov s) i)" for v u
    using that row by (auto simp: createBallot_def theVote_def effect_simps Let_def)
  show ?thesis
  proof (cases "theVote (s_gov s) i")
    case None
    then show ?thesis unfolding L unfolding castBallot_def by (simp add: wp_bind wp_getVote)
  next
    case (Some v)
    have "?L \<longleftrightarrow> vt_buildingId v = bid \<and> (vt_status v = VS_ACTIVE \<and> now \<le> vt_endAt v) \<and>
       (\<exists>u. (findUnitById (s_bld s) uid = Some u \<and> u_buildingId u = bid) \<and>
       (\<exists>sn. findEligibilitySnapshotForUnit (s_gov s) i uid = Some sn \<and>
       (vs_eligiblePersonId sn = p \<or> isCurrentProxyFor (s_gov s) (vs_eligiblePersonId sn) p) \<and> findBallotForUnit (s_gov s) i uid = None \<and>
       opt \<in> vo_id ` set (optionsOf (s_gov s) i) \<and>
       \<not> (vt_isManagerElection v \<and> vs_eligiblePersonId sn \<in> vo_value ` set (optionsOf (s_gov s) i)) \<and>
       (\<exists>x g. createBallot (s_bld s) now i uid p opt (s_gov s) = Inr (x, g))))"
    proof -
      have elect: "wp (if vt_isManagerElection v then guard (assertNotVotingOnOwnCandidacy True (vs_eligiblePersonId sn) (map vo_value (optionsOf (s_gov s) i)))
          else return_svc ()) Q (\<lambda>_ _. False) s \<longleftrightarrow>
        \<not> (vt_isManagerElection v \<and> vs_eligiblePersonId sn \<in> vo_value ` set (optionsOf (s_gov s) i)) \<and> Q () s" for sn Q
        by (simp add: wp_steps assertNotVotingOnOwnCandidacy_def assert_r_def del: return_svc_simps)
      have ballot: "wp (try_catch (with_bld (\<lambda>b. createBallot b now i uid p opt)) (\<lambda>e. throw_svc (h e))) (\<lambda>_. Q) (\<lambda>_ _. False) s \<longleftrightarrow>
        (\<exists>x g. createBallot (s_bld s) now i uid p opt (s_gov s) = Inr (x, g) \<and> Q (s\<lparr>s_gov := g\<rparr>))" for h Q
        by (auto simp: wp_simps simp del: return_svc_simps split: sum.split)
      show ?thesis
        unfolding L unfolding castBallot_def ownUnit_def wp_bind wp_getVote Some option.case voteInfo.select_convs
        by (simp only: wp_answers own refused may wp_check_False elect ballot opt wp_logs wp_steps(1))
          (auto simp: assertOpenForBallots_def effect_simps)
    qed
    then show ?thesis unfolding Some option.inject using stored [OF Some] by (safe; (blast | metis))
  qed
qed

section \<open>The closing job\<close>

abbreviation "closedAt now \<equiv> (\<lambda>v. v\<lparr>vt_status := VS_CLOSED, vt_closedAt := Some now\<rparr>)"

lemma active_vote_closes:
  assumes "siteOk s" "theVote (s_gov s) i = Some v" "vt_status v = VS_ACTIVE" "vt_buildingId v = bid"
  shows "wp (svc_closeVote now bid i actor)
    (\<lambda>_ t. siteOk t \<and> (\<forall>j. theVote (s_gov t) j = (if j = i then Some (closedAt now v) else theVote (s_gov s) j))) (\<lambda>_ _. False) s"
proof -
  have g: "gov_ok (s_gov s)" and b: "bld_ok (s_bld s)" using assms(1) by (simp_all add: siteOk_def)
  obtain r g' where close: "closeVote now i (vt_quorumPercent v) (s_gov s) = Inr ((closedAt now v, r), g')"
    using assms(2,3) unfolding closeVote_Inr [OF g] by auto
  have rows: "theVote g' j = (if j = i then Some (closedAt now v) else theVote (s_gov s) j)" for j
  proof -
    have "votes g' = votes (setVote i (closedAt now) (s_gov s))" using close unfolding closeVote_Inr [OF g] by auto
    then have "theVote g' j = theVote (setVote i (closedAt now) (s_gov s)) j" by (simp add: theVote_def)
    then show ?thesis using assms(2) by (simp add: theVote_set)
  qed
  have ok: "siteOk (s\<lparr>s_gov := g'\<rparr>)" using assms(1) closeVote_ok [OF g assms(2) close] by (simp add: siteOk_def)
  have on: "sok.kept_by (s_gov s) (s_case s) (svc_closeVote now bid i actor)" by (rule sok_closeVote)
  have "wp (svc_closeVote now bid i actor) (\<lambda>_. siteOk) (\<lambda>_. siteOk) s"
    by (rule wp_mono [OF on [unfolded sok.kept_by_def, rule_format, OF siteOn_start [OF assms(1)]]]) (auto dest: siteOn_ok)
  moreover have "wp (voteClosed now bid i actor w vr) (\<lambda>_ t. s_gov t = g') (\<lambda>_ _. False) (s\<lparr>s_gov := g'\<rparr>)" for w vr
    by (rule wp_mono [OF voteClosed_writes]) (use b in simp_all)
  then have "wp (svc_closeVote now bid i actor) (\<lambda>_ t. s_gov t = g') (\<lambda>_ _. False) s"
    using assms(2-4) close by (simp add: svc_closeVote_def wp_simps assertClosable_def)
  ultimately show ?thesis by (auto simp: wp_def rows split: prod.splits sum.splits)
qed

lemma sweep_closes:
  assumes "siteOk s" "distinct (map fst due)"
    "\<forall>d\<in>set due. \<exists>v. theVote (s_gov s) (fst d) = Some v \<and> vt_status v = VS_ACTIVE \<and> vt_buildingId v = snd d"
  shows "wp (for_each due (sweepVote m (\<lambda>bid i. svc_closeVote now bid i None)))
    (\<lambda>xs t. list_all (\<lambda>x. snd x = None) xs \<and> siteOk t \<and>
       (\<forall>j. theVote (s_gov t) j = (if j \<in> fst ` set due then map_option (closedAt now) (theVote (s_gov s) j) else theVote (s_gov s) j)))
    (\<lambda>_ _. False) s"
  using assms
proof (induction due arbitrary: s)
  case Nil
  then show ?case by (simp add: wp_simps)
next
  case (Cons d due)
  obtain i bid where d: "d = (i, bid)" by (cases d)
  obtain v where v: "theVote (s_gov s) i = Some v" "vt_status v = VS_ACTIVE" "vt_buildingId v = bid"
    using Cons.prems(3) d by auto
  let ?Q = "\<lambda>xs t. list_all (\<lambda>x. snd x = None) xs \<and> siteOk t \<and>
       (\<forall>j. theVote (s_gov t) j = (if j \<in> fst ` set (d # due) then map_option (closedAt now) (theVote (s_gov s) j) else theVote (s_gov s) j))"
  have "wp (for_each due (sweepVote m (\<lambda>bid i. svc_closeVote now bid i None))) (\<lambda>xs. ?Q ((i, None) # xs)) (\<lambda>_ _. False) t"
    if t: "siteOk t" "\<forall>j. theVote (s_gov t) j = (if j = i then Some (closedAt now v) else theVote (s_gov s) j)" for t
  proof -
    have "i \<notin> fst ` set due" "distinct (map fst due)" using Cons.prems(2) d by simp_all
    moreover have "\<forall>d\<in>set due. \<exists>v. theVote (s_gov t) (fst d) = Some v \<and> vt_status v = VS_ACTIVE \<and> vt_buildingId v = snd d"
      using Cons.prems(3) calculation(1) t(2) by (auto simp: image_iff)
    ultimately show ?thesis
      using t v(1) by (intro wp_mono [OF Cons.IH [OF t(1)]]) (auto simp: d)
  qed
  then show ?case
    using wp_mono [OF active_vote_closes [OF Cons.prems(1) v, of now None]]
    by (simp add: d sweepVote_def wp_bind wp_try wp_steps(1) del: return_svc_simps)
qed

text \<open>
  C37.  The closing job of the scheduler always ends with an answer in which no vote has
  failed, and leaves no active vote whose end has come.
\<close>

theorem auto_close_leaves_nothing_due:
  assumes "siteOk s"
  shows "\<exists>xs s'. runAutoClose now s = (Inr xs, s') \<and> list_all (\<lambda>x. snd x = None) xs \<and>
    (\<forall>v\<in>set (votes (s_gov s')). \<not> (vt_status v = VS_ACTIVE \<and> vt_endAt v \<le> now)) \<and>
    (\<forall>i v. theVote (s_gov s) i = Some v \<longrightarrow> \<not> (vt_status v = VS_ACTIVE \<and> vt_endAt v \<le> now) \<longrightarrow> theVote (s_gov s') i = Some v)"
proof -
  let ?due = "findVotesDueForAutoClose now (s_gov s)"
  have g: "gov_ok (s_gov s)" using assms by (simp add: siteOk_def)
  have "distinct (map fst ?due)"
    using gov_okD(2) [OF g] by (simp add: findVotesDueForAutoClose_def gkeys_ok_def comp_def distinct_map_filter)
  moreover have "\<forall>d\<in>set ?due. \<exists>v. theVote (s_gov s) (fst d) = Some v \<and> vt_status v = VS_ACTIVE \<and> vt_buildingId v = snd d"
    using theVote_I [OF g] by (auto simp: findVotesDueForAutoClose_def)
  ultimately have "wp (runAutoClose now) (\<lambda>xs t. list_all (\<lambda>x. snd x = None) xs \<and> siteOk t \<and>
       (\<forall>j. theVote (s_gov t) j = (if j \<in> fst ` set ?due then map_option (closedAt now) (theVote (s_gov s) j) else theVote (s_gov s) j)))
      (\<lambda>_ _. False) s"
    using sweep_closes [OF assms] by (simp add: runAutoClose_def wp_bind wp_gov)
  then obtain xs t where t: "runAutoClose now s = (Inr xs, t)" "list_all (\<lambda>x. snd x = None) xs" "siteOk t"
    and rows: "\<And>j. theVote (s_gov t) j = (if j \<in> fst ` set ?due then map_option (closedAt now) (theVote (s_gov s) j) else theVote (s_gov s) j)"
    by (auto simp: wp_def split: prod.splits sum.splits)
  have due: "vt_id v \<in> fst ` set ?due \<longleftrightarrow> vt_status v = VS_ACTIVE \<and> vt_endAt v \<le> now" if "v \<in> set (votes (s_gov s))" for v
  proof -
    have "vt_id v \<in> fst ` set ?due \<longleftrightarrow> (\<exists>w\<in>set (votes (s_gov s)). vt_id v = vt_id w \<and> vt_status w = VS_ACTIVE \<and> vt_endAt w \<le> now)"
      by (auto simp: findVotesDueForAutoClose_def image_iff)
    then show ?thesis using that vote_key [OF g that] by blast
  qed
  have "\<not> (vt_status v = VS_ACTIVE \<and> vt_endAt v \<le> now)" if v: "v \<in> set (votes (s_gov t))" for v
  proof
    assume active: "vt_status v = VS_ACTIVE \<and> vt_endAt v \<le> now"
    have "theVote (s_gov t) (vt_id v) = Some v" using theVote_I v t(3) by (simp add: siteOk_def)
    then have same: "theVote (s_gov s) (vt_id v) = Some v" "vt_id v \<notin> fst ` set ?due"
      using rows [of "vt_id v"] active by (auto split: if_splits)
    then show False using due [of v] theVote_D [OF same(1)] active by simp
  qed
  moreover have "theVote (s_gov t) i = Some v"
    if "theVote (s_gov s) i = Some v" "\<not> (vt_status v = VS_ACTIVE \<and> vt_endAt v \<le> now)" for i v
    using that rows [of i] due [of v] theVote_D [OF that(1)] by auto
  ultimately show ?thesis using t by blast
qed

theorem auto_close_leaves_nothing_due_witness:
  "\<exists>xs s'. runAutoClose 25 polled = (Inr xs, s') \<and> (\<forall>v\<in>set (votes (s_gov s')). \<not> (vt_status v = VS_ACTIVE \<and> vt_endAt v \<le> 25))"
  using auto_close_leaves_nothing_due [OF vote_runs_ok(2), of 25] by blast

end
