(* ===== verification/Case_Properties.thy ===== *)
theory Case_Properties
  imports Vote_Runs
begin

text \<open>
  The properties of the cases subsystem, each with a witness on a short history: the tenant
  of the first unit opens two cases, the manager annotates the first one and merges it into
  the second.
\<close>

section \<open>A history\<close>

definition leak :: createCaseDto where
  "leak = \<lparr>dc_unitId = Some firstUnit, dc_type = CT_MAINTENANCE, dc_title = ''Leak'', dc_description = ''d'',
     dc_priority = None, dc_visibility = None, dc_isAgainstManager = None\<rparr>"

definition caseA :: id where "caseA = demo_ids 0"
definition caseB :: id where "caseB = demo_ids 1"

definition reported :: site where
  "reported = runSite no_floors [(5, ''t'', Cases (CreateCase theBuilding leak)), (6, ''t'', Cases (CreateCase theBuilding leak)),
     (7, ''m'', Cases (AddMessage theBuilding caseA ''note'' (Some True))),
     (8, ''t'', Cases (AddMessage theBuilding caseA ''hello'' None))] rented"

definition joined :: site where
  "joined = runSite no_floors [(9, ''m'', Cases (MergeCase theBuilding caseA caseB))] reported"

definition askMessages :: "id \<Rightarrow> (shownMessage list \<times> paginationMeta) result \<times> site" where
  "askMessages p = svc_listMessages theBuilding caseA p \<lparr>pg_page = 1, pg_limit = 10\<rparr> reported"

definition noFilter :: caseFilter where
  "noFilter = \<lparr>cf_type = None, cf_status = None, cf_priority = None, cf_assigneeId = None\<rparr>"

definition askCases :: "id \<Rightarrow> (case_row list \<times> paginationMeta) result \<times> site" where
  "askCases p = svc_listCases theBuilding p noFilter \<lparr>pg_page = 1, pg_limit = 10\<rparr> reported"

text \<open>Each state is computed once, and asked everything.\<close>

definition joinedAnswers :: "case_row list \<Rightarrow> bool" where
  "joinedAnswers cs \<longleftrightarrow> map ca_mergedIntoId cs = [Some caseB, None] \<and> map ca_id cs = [caseA, caseB]"

definition messageAnswers :: "(shownMessage list \<times> paginationMeta) result \<Rightarrow> bool" where
  "messageAnswers r \<longleftrightarrow> \<not> isl r \<and> map (cm_isInternal \<circ> sm_message) (fst (projr r)) = [False]"

definition caseAnswers :: "(case_row list \<times> paginationMeta) result \<Rightarrow> bool" where
  "caseAnswers r \<longleftrightarrow> \<not> isl r \<and> map ca_id (fst (projr r)) = [caseB, caseA]"

definition reportedRuns :: "site \<Rightarrow> bool" where
  "reportedRuns s \<longleftrightarrow> map ca_id (caseRows (s_case s)) = [caseA, caseB] \<and> map cm_isInternal (caseMessages (s_case s)) = [True, False] \<and>
     \<not> privilegedIn (s_bld s) ''t'' theBuilding \<and>
     messageAnswers (fst (svc_listMessages theBuilding caseA ''t'' \<lparr>pg_page = 1, pg_limit = 10\<rparr> s)) \<and>
     caseAnswers (fst (svc_listCases theBuilding ''t'' noFilter \<lparr>pg_page = 1, pg_limit = 10\<rparr> s)) \<and>
     joinedAnswers (caseRows (s_case (runSite no_floors [(9, ''m'', Cases (MergeCase theBuilding caseA caseB))] s)))"

lemma reported_runs: "reportedRuns reported"
  by code_simp

lemmas reported_all = reported_runs [unfolded reportedRuns_def messageAnswers_def caseAnswers_def joinedAnswers_def,
  folded askMessages_def askCases_def joined_def]

lemma reported_facts:
  "map ca_id (caseRows (s_case reported)) = [caseA, caseB]" "map cm_isInternal (caseMessages (s_case reported)) = [True, False]"
  "map ca_mergedIntoId (caseRows (s_case joined)) = [Some caseB, None]" "map ca_id (caseRows (s_case joined)) = [caseA, caseB]"
  using reported_all by blast+

lemma asked_runs: "\<not> isl (fst (askMessages ''t''))" "\<not> isl (fst (askCases ''t''))"
  using reported_all by blast+

lemma asked_facts: "\<not> privilegedIn (s_bld reported) ''t'' theBuilding"
  "map (cm_isInternal \<circ> sm_message) (fst (projr (fst (askMessages ''t'')))) = [False]"
  "map ca_id (fst (projr (fst (askCases ''t'')))) = [caseB, caseA]"
  using reported_all by blast+

lemma case_runs_ok: "siteOk reported" "siteOk joined"
  unfolding joined_def reported_def by (intro runSite_ok site_ok)+

section \<open>Histories\<close>

lemma run_cases: "siteOk s \<Longrightarrow> cases_ok (s_case (runSite floors rs s))"
  "siteOk s \<Longrightarrow> caseAdvances (s_case s) (s_case (runSite floors rs s))"
  using runSite_on [OF siteOn_start, of s floors rs] by (simp_all add: siteOn_def caseGoesOn_def)

text \<open>
  C38.  What a history never undoes: a merged case keeps its row, messages and assignments;
  any other case keeps its origin, gains messages and assignments only at their end, is
  assigned to whom its last assignment names, and is closed exactly when it has a time of
  closing; a case that gets merged is closed.
\<close>

theorem case_history_only_grows:
  assumes "siteOk s" "findCaseById (s_case s) i = Some r" "c = s_case s" "c' = s_case (runSite floors rs s)"
  shows "if ca_mergedIntoId r \<noteq> None
    then findCaseById c' i = Some r \<and> messagesOf c' i = messagesOf c i \<and> assignmentsOf c' i = assignmentsOf c i
    else prefix (messagesOf c i) (messagesOf c' i) \<and> prefix (assignmentsOf c i) (assignmentsOf c' i) \<and>
      (\<exists>r'. findCaseById c' i = Some r' \<and> sameCase r r' \<and> ca_assigneeId r' = lastAssignee c' i \<and>
        (ca_status r' = CS_CLOSED \<longleftrightarrow> ca_closedAt r' \<noteq> None) \<and> (ca_mergedIntoId r' = None \<or> ca_status r' = CS_CLOSED))"
proof -
  have ok: "cases_ok c'" and adv: "caseAdvances c c'" using run_cases [OF assms(1)] assms(3,4) by simp_all
  have "caseFields r' \<and> ca_assigneeId r' = lastAssignee c' i" if "findCaseById c' i = Some r'" for r'
    using cases_okD(4) [OF ok] setCase_rows(2,3) [OF ok that] by (auto simp: crows_ok_def)
  then have "(ca_status r' = CS_CLOSED \<longleftrightarrow> ca_closedAt r' \<noteq> None) \<and> (ca_mergedIntoId r' = None \<or> ca_status r' = CS_CLOSED) \<and>
      ca_assigneeId r' = lastAssignee c' i" if "findCaseById c' i = Some r'" for r'
    using that by (fastforce simp: caseFields_def split: caseStatus.splits)
  moreover have "if ca_mergedIntoId r \<noteq> None then caseKept c c' i else caseMoves c c' i r"
    using adv assms(2,3) unfolding caseAdvances_def by blast
  ultimately show ?thesis
    using assms(2,3) by (cases "ca_mergedIntoId r") (auto simp: caseKept_def caseMoves_def)
qed

theorem case_history_only_grows_witness:
  "\<exists>r. ca_mergedIntoId r = Some caseB \<and> findCaseById (s_case joined) caseA = Some r \<and>
    findCaseById (s_case (runSite no_floors [(10, ''t'', Cases (ReopenCase theBuilding caseA None))] joined)) caseA = Some r"
proof -
  obtain r r' where r: "caseRows (s_case joined) = [r, r']" "ca_mergedIntoId r = Some caseB" "ca_id r = caseA"
    using reported_facts(3,4) by (auto simp: map_eq_Cons_conv)
  then have "findCaseById (s_case joined) caseA = Some r" by (simp add: findCaseById_def find_row_def)
  with case_history_only_grows [OF case_runs_ok(2) this refl refl] r(2) show ?thesis by (auto simp del: runSite.simps)
qed

section \<open>Merges\<close>

text \<open>
  C39.  After any history the merge pointers can be followed to their end: the relation is
  well-founded, and from every case it leads to a case of the same building that is not
  merged itself.
\<close>

theorem merge_chains_end:
  assumes "siteOk s" "c = s_case (runSite floors rs s)"
  shows "wf ((mergeEdges c)\<inverse>) \<and> (\<forall>r\<in>set (caseRows c). \<exists>t\<in>set (caseRows c).
    (ca_id r, ca_id t) \<in> (mergeEdges c)\<^sup>* \<and> ca_mergedIntoId t = None \<and> ca_buildingId t = ca_buildingId r)"
proof -
  have ok: "merges_ok c" using run_cases(1) [OF assms(1)] assms(2) cases_okD(5) by simp
  have "finite (mergeEdges c)"
  proof (rule finite_subset)
    show "mergeEdges c \<subseteq> (\<lambda>r. (ca_id r, the (ca_mergedIntoId r))) ` set (caseRows c)" by (force simp: mergeEdges_def)
  qed simp
  then have wf: "wf ((mergeEdges c)\<inverse>)" using ok by (simp add: finite_acyclic_wf_converse merges_ok_def)
  have "\<forall>r\<in>set (caseRows c). ca_id r = i \<longrightarrow> (\<exists>t\<in>set (caseRows c).
      (i, ca_id t) \<in> (mergeEdges c)\<^sup>* \<and> ca_mergedIntoId t = None \<and> ca_buildingId t = ca_buildingId r)" for i
    using wf
  proof (induction i rule: wf_induct_rule)
    case (less i)
    show ?case
    proof (intro ballI impI)
      fix r assume r: "r \<in> set (caseRows c)" "ca_id r = i"
      show "\<exists>t\<in>set (caseRows c). (i, ca_id t) \<in> (mergeEdges c)\<^sup>* \<and> ca_mergedIntoId t = None \<and> ca_buildingId t = ca_buildingId r"
      proof (cases "ca_mergedIntoId r")
        case None
        then show ?thesis using r by blast
      next
        case (Some j)
        then have edge: "(i, j) \<in> mergeEdges c" using r by (auto simp: mergeEdges_def)
        obtain u where u: "u \<in> set (caseRows c)" "ca_id u = j" "ca_buildingId u = ca_buildingId r"
          using ok r(1) Some unfolding merges_ok_def by metis
        then obtain t where "t \<in> set (caseRows c)" "(j, ca_id t) \<in> (mergeEdges c)\<^sup>*" "ca_mergedIntoId t = None"
          "ca_buildingId t = ca_buildingId r"
          using less.IH [of j] edge by auto
        then show ?thesis using edge by (blast intro: converse_rtrancl_into_rtrancl)
      qed
    qed
  qed
  then show ?thesis using wf by blast
qed

theorem merge_chains_end_witness:
  "wf ((mergeEdges (s_case joined))\<inverse>)"
  using merge_chains_end [OF case_runs_ok(1) arg_cong [OF joined_def, of s_case]] by blast

section \<open>Visibility\<close>

text \<open>
  C40.  Lists show what single reads allow: every case on a page can be read by the caller,
  the total counts exactly the readable cases of the building that match the filter, and a
  list of messages is only given for a readable case and holds internal notes only for
  managers, board members and accountants.
\<close>

theorem lists_respect_visibility:
  assumes "siteOk s"
  shows "(svc_listCases bid p f pg s = (Inr (rows, meta), s') \<longrightarrow>
      (\<forall>r\<in>set rows. getCase bid (ca_id r) p s = (Inr r, s)) \<and>
      pgm_total meta = int (card {r \<in> set (caseRows (s_case s)). caseMatches f r \<and> getCase bid (ca_id r) p s = (Inr r, s)})) \<and>
    (svc_listMessages bid i p pg s = (Inr (ms, meta'), s'') \<longrightarrow>
      (\<exists>r. getCase bid i p s = (Inr r, s)) \<and>
      (\<forall>m\<in>set ms. cm_caseId (sm_message m) = i \<and> (cm_isInternal (sm_message m) \<longrightarrow> privilegedIn (s_bld s) p bid)))"
proof -
  let ?c = "s_case s"
  have ok: "cases_ok ?c" using assms by (simp add: siteOk_def)
  have found: "findCaseById ?c (ca_id r) = Some r" if "r \<in> set (caseRows ?c)" for r
    using cases_okD(2) [OF ok] that by (simp add: ckeys_ok_def findCaseById_def find_row_distinct)
  have read: "getCase bid j p s = (Inr r, s) \<longleftrightarrow> findCaseById ?c j = Some r \<and> ca_buildingId r = bid \<and>
      caseListed p (privilegedIn (s_bld s) p bid) r" for j r
    by (auto simp: getCase_def getCaseOrThrow_def isPrivileged_def bld_def query_def guard_def effect_simps caseListed_def
        assertVisible_iff return_svc_def split: option.splits if_splits)
  let ?want = "\<lambda>r. ca_buildingId r = bid \<and> caseMatches f r \<and> caseListed p (privilegedIn (s_bld s) p bid) r"
  have cases: "(\<forall>r\<in>set rows. getCase bid (ca_id r) p s = (Inr r, s)) \<and>
      pgm_total meta = int (card {r \<in> set (caseRows ?c). caseMatches f r \<and> getCase bid (ca_id r) p s = (Inr r, s)})"
    if "svc_listCases bid p f pg s = (Inr (rows, meta), s')"
  proof -
    have rows: "rows = window (toSkipTake pg) (newestBy (bld_collation (s_bld s)) ca_createdAt ca_id (filter ?want (caseRows ?c)))"
      and meta: "meta = buildPaginationMeta pg (int (length (filter ?want (caseRows ?c))))"
      using that by (auto simp: svc_listCases_def isPrivileged_def bld_def query_def listCases_def Let_def bind_svc_def)
    have "set rows \<subseteq> set (filter ?want (caseRows ?c))"
      unfolding rows window_def newestBy_def by (auto dest!: in_set_takeD in_set_dropD)
    then have "\<forall>r\<in>set rows. getCase bid (ca_id r) p s = (Inr r, s)" using found by (auto simp: read)
    moreover have "distinct (caseRows ?c)" using cases_okD(2) [OF ok] by (auto simp: ckeys_ok_def distinct_map)
    then have "length (filter ?want (caseRows ?c)) = card (set (filter ?want (caseRows ?c)))"
      by (intro distinct_card [symmetric] distinct_filter)
    moreover have "set (filter ?want (caseRows ?c)) =
        {r \<in> set (caseRows ?c). caseMatches f r \<and> getCase bid (ca_id r) p s = (Inr r, s)}"
      using found by (auto simp: read)
    ultimately show ?thesis by (simp add: meta buildPaginationMeta_def)
  qed
  have messages: "(\<exists>r. getCase bid i p s = (Inr r, s)) \<and>
      (\<forall>m\<in>set ms. cm_caseId (sm_message m) = i \<and> (cm_isInternal (sm_message m) \<longrightarrow> privilegedIn (s_bld s) p bid))"
    if run: "svc_listMessages bid i p pg s = (Inr (ms, meta'), s'')"
  proof -
    obtain r where r: "findCaseById ?c i = Some r" "ca_buildingId r = bid" "caseListed p (privilegedIn (s_bld s) p bid) r"
      and ms: "ms = presentMessageAuthors (s_bld s) (fst (listMessages (bld_collation (s_bld s)) ?c i (privilegedIn (s_bld s) p bid) (toSkipTake pg))) bid (ca_unitId r)"
      using run by (auto simp: svc_listMessages_def getCaseOrThrow_def isPrivileged_def bld_def query_def guard_def effect_simps
          caseListed_def assertVisible_iff split: option.splits if_splits prod.splits)
    have "sm_message (presentMessage ctx u m) = m" for ctx u m by (simp add: presentMessage_def Let_def split: option.split)
    moreover have "cm_caseId m = i \<and> (cm_isInternal m \<longrightarrow> privilegedIn (s_bld s) p bid)"
      if "m \<in> set (fst (listMessages (bld_collation (s_bld s)) ?c i (privilegedIn (s_bld s) p bid) (toSkipTake pg)))" for m
      using that by (auto simp: listMessages_def Let_def window_def oldestBy_def dest!: in_set_takeD in_set_dropD)
    ultimately show ?thesis using r read by (auto simp: ms presentMessageAuthors_def)
  qed
  show ?thesis using cases messages by blast
qed

theorem lists_respect_visibility_witness:
  "\<exists>r. getCase theBuilding caseA ''t'' reported = (Inr r, reported)"
proof -
  obtain ms meta where m: "projr (fst (askMessages ''t'')) = (ms, meta)" by (cases "projr (fst (askMessages ''t''))")
  have "svc_listMessages theBuilding caseA ''t'' \<lparr>pg_page = 1, pg_limit = 10\<rparr> reported = (Inr (ms, meta), snd (askMessages ''t''))"
    using ran_Inr [OF asked_runs(1)] by (simp add: m askMessages_def [symmetric])
  then show ?thesis using lists_respect_visibility [OF case_runs_ok(1)] by blast
qed

end
