(* ===== verification/Governance_Findings.thy ===== *)
theory Governance_Findings
  imports Governance_Properties Case_Properties
begin

text \<open>
  Concrete states of the governance and cases subsystems on which the code does something
  it does not mean to, or something else than its comments say.
\<close>

section \<open>A ballot before the window opens\<close>

text \<open>The vote starts at 10; it is published at 9 and takes a ballot at 9.\<close>

definition published_early :: site where
  "published_early = runSite no_floors (butlast toElection @ [(9, ''o'', Voting (PublishVote theBuilding theElection))]) rented"

lemma ballot_before_start:
  "dv_startAt election = 10 \<and> \<not> isl (fst (castBallot 9 theBuilding theElection firstUnit optionT ''o'' published_early))"
  by code_simp

section \<open>A proxy for one unit serves for all\<close>

text \<open>
  The owner of two units has named a proxy for the first one only; the proxy passes the check
  for the second one too.
\<close>

lemma proxy_is_not_bound_to_its_unit:
  assumes "x \<in> set (voteProxies g)" "vp_isCurrent x" "vp_unitId x = firstUnit" "vp_granterPersonId x = q" "vp_proxyPersonId x = p"
    "vs_unitId sn = secondUnit" "vs_eligiblePersonId sn = q" "\<forall>y\<in>set (voteProxies g). vp_unitId y \<noteq> secondUnit"
  shows "findCurrentProxyForUnit g secondUnit = None" "mayCast g sn p = Inr ()"
proof -
  show "findCurrentProxyForUnit g secondUnit = None" using assms(8) by (auto simp: findCurrentProxyForUnit_def find_None_iff)
  have "isCurrentProxyFor g q p" using assms(1-5) by (auto simp: isCurrentProxyFor_def count_where_pos)
  then show "mayCast g sn p = Inr ()" using assms(7) by (simp add: mayCast_def assertEligibleToCastBallot_def)
qed

section \<open>A re-elected manager\<close>

text \<open>The incumbent wins the election: nothing is to be done, and the audit log says it failed.\<close>

lemma re_election_is_logged_as_failure:
  assumes "findBuildingById (s_bld s) bid \<noteq> None" "getCurrentManagerMembership (s_bld s) bid = Some m" "mb_personId m = p" "p \<noteq> []"
  shows "sa_action (last (s_audit (snd (electManager now bid i p actor s)))) = STR ''ManagerElectionFailed''"
  using assms
  by (auto simp: electManager_def svc_changeManager_def try_catch_def bind_svc_def getById_def lift_svc_def bld_def query_def
      guard_def assertNotSelfHandoff_def assert_r_def record_audit_def split: option.splits)

section \<open>Two merges that cross\<close>

text \<open>
  The checks of a merge and its write are separate steps.  Two requests merge two open cases into
  each other: both pass their checks on the same tables, both writes hit their row, and the
  two cases point at each other and are closed for good.
\<close>

definition crossed :: "case_db \<Rightarrow> (case_row \<times> case_db) result" where
  "crossed c = bind_r (mergeCase 9 caseA caseB CS_OPEN c) (\<lambda>(_, c'). mergeCase 9 caseB caseA CS_OPEN c')"

definition mayCross :: "case_db \<Rightarrow> bool" where
  "mayCross c \<longleftrightarrow> map_option (mergeTarget caseA) (findCaseById c caseB) = Some (Inr ()) \<and>
     map_option (mergeTarget caseB) (findCaseById c caseA) = Some (Inr ()) \<and>
     map_option ca_status (findCaseById c caseA) = Some CS_OPEN \<and> map_option ca_status (findCaseById c caseB) = Some CS_OPEN \<and>
     (case crossed c of Inl _ \<Rightarrow> False | Inr (_, c') \<Rightarrow>
        map ca_mergedIntoId (caseRows c') = [Some caseB, Some caseA] \<and> map ca_status (caseRows c') = [CS_CLOSED, CS_CLOSED])"

lemma merges_may_cross: "mayCross (s_case reported)"
  by code_simp

section \<open>A status no one sets\<close>

text \<open>The policy counts \<open>WAITING_USER\<close> among the active statuses, but no operation moves a case there.\<close>

lemma no_case_waits: "siteOk s \<Longrightarrow> r \<in> set (caseRows (s_case (runSite floors rs s))) \<Longrightarrow> ca_status r \<noteq> CS_WAITING_USER"
  using run_cases(1) [of s floors rs] cases_okD(4) by (fastforce simp: crows_ok_def caseFields_def)

end
