(* ===== verification/Backoffice_Policy.thy ===== *)
theory Backoffice_Policy
  imports Backoffice_Types
begin

text \<open>
  The policies under \<^verbatim>\<open>src/src/modules/backoffice/domain/policies\<close>: building and manager
  verification, fraud, support and compliance cases, legal holds and subscriptions.
\<close>

section \<open>Building verification\<close>

definition DECIDABLE_STATUSES :: "buildingStatus list" where
  "DECIDABLE_STATUSES = [BS_PENDING, BS_UNDER_REVIEW, BS_PENDING_INFORMATION]"

definition evaluateRisk :: "bool \<Rightarrow> int \<times> msg list" where
  "evaluateRisk hasSimilarAddressBuilding =
     (if \<not> hasSimilarAddressBuilding then (0, []) else (50, [STR ''SIMILAR_ADDRESS_DIFFERENT_POSTAL_CODE'']))"

definition isAutoApproved :: "int \<Rightarrow> bool" where
  "isAutoApproved riskScore \<longleftrightarrow> riskScore = 0"

definition assertDecidable :: "buildingStatus \<Rightarrow> unit result" where
  "assertDecidable st = assert_r (List.member DECIDABLE_STATUSES st)
     (BusinessRuleViolationError STR ''Case is already decided (status: ).'')"

definition assertCanAppealBuilding :: "buildingStatus \<Rightarrow> id \<Rightarrow> id \<Rightarrow> unit result" where
  "assertCanAppealBuilding st caller creator =
     bind_r (assert_r (st = BS_REJECTED) (BusinessRuleViolationError STR ''Only a rejected building may be appealed.'')) (\<lambda>_.
     assert_r (caller = creator) (AuthorizationError STR ''Only the building's creator may submit an appeal.''))"

section \<open>Manager verification\<close>

definition meetsApprovalThreshold :: "int \<Rightarrow> int \<Rightarrow> int \<Rightarrow> bool" where
  "meetsApprovalThreshold approverCount totalOwners requiredPercent \<longleftrightarrow>
     \<not> totalOwners \<le> 0 \<and> approverCount * 100 \<ge> totalOwners * requiredPercent"

definition computeApprovalPercent :: "int \<Rightarrow> int \<Rightarrow> int" where
  "computeApprovalPercent approverCount totalOwners =
     (if totalOwners \<le> 0 then 0 else (approverCount * 100) div totalOwners)"

definition assertCaseOpen :: "managerVerificationStatus \<Rightarrow> unit result" where
  "assertCaseOpen st = assert_r (st = MV_PENDING) (BusinessRuleViolationError STR ''Case is already decided (status: ).'')"

definition assertNotSelfApproving :: "id \<Rightarrow> id \<Rightarrow> unit result" where
  "assertNotSelfApproving candidate caller = assert_r (candidate \<noteq> caller)
     (AuthorizationError STR ''A candidate manager cannot approve their own verification.'')"

definition assertCanAppealManager :: "managerVerificationStatus \<Rightarrow> id \<Rightarrow> id \<Rightarrow> unit result" where
  "assertCanAppealManager st caller candidate =
     bind_r (assert_r (st = MV_REJECTED)
       (BusinessRuleViolationError STR ''Only a rejected manager verification may be appealed.'')) (\<lambda>_.
     assert_r (caller = candidate) (AuthorizationError STR ''Only the rejected candidate may submit an appeal.''))"

definition assertCanRestore :: "managerVerificationStatus \<Rightarrow> unit result" where
  "assertCanRestore st = assert_r (st = MV_SUSPENDED)
     (BusinessRuleViolationError STR ''Only a suspended manager verification can be restored (status: ).'')"

section \<open>Fraud and compliance\<close>

definition OPEN_STATUSES :: "fraudCaseStatus list" where
  "OPEN_STATUSES = [FS_OPEN, FS_UNDER_INVESTIGATION]"

definition TERMINAL_STATUSES :: "fraudCaseStatus list" where
  "TERMINAL_STATUSES = [FS_CONFIRMED, FS_DISMISSED]"

definition ADMIN_ONLY_ACTION_TYPES :: "enforcementActionType list" where
  "ADMIN_ONLY_ACTION_TYPES = [EA_ACCOUNT_SUSPENSION]"

definition assertInvestigable :: "fraudCaseStatus \<Rightarrow> unit result" where
  "assertInvestigable st = assert_r (List.member OPEN_STATUSES st)
     (BusinessRuleViolationError STR ''Case is already decided (status: ).'')"

definition assertComplianceInvestigable :: "fraudCaseStatus \<Rightarrow> unit result" where
  "assertComplianceInvestigable st = assert_r (List.member OPEN_STATUSES st)
     (BusinessRuleViolationError STR ''Compliance case is already decided (status: ).'')"

definition assertFraudCanReopen :: "fraudCaseStatus \<Rightarrow> unit result" where
  "assertFraudCanReopen st = assert_r (List.member TERMINAL_STATUSES st)
     (BusinessRuleViolationError STR ''Only a decided case (CONFIRMED or DISMISSED) may be reopened.'')"

definition assertCanAppealEnforcement :: "enforcementAppealStatus \<Rightarrow> id option \<Rightarrow> id \<Rightarrow> unit result" where
  "assertCanAppealEnforcement st entitled caller =
     bind_r (assert_r (entitled = Some caller \<and> entitled \<noteq> Some [])
       (AuthorizationError STR ''Only the person an enforcement action was issued against may appeal it.'')) (\<lambda>_.
     assert_r (st = AP_NONE)
       (BusinessRuleViolationError STR ''This enforcement action already has an appeal (status: ).''))"

definition assertAppealDecidable :: "enforcementAppealStatus \<Rightarrow> unit result" where
  "assertAppealDecidable st = assert_r (st = AP_PENDING)
     (BusinessRuleViolationError STR ''Appeal is not pending (status: ).'')"

definition assertCanIssueEnforcement :: "enforcementActionType \<Rightarrow> platformStaffRole \<Rightarrow> unit result" where
  "assertCanIssueEnforcement ty role = assert_r (\<not> (List.member ADMIN_ONLY_ACTION_TYPES ty \<and> role \<noteq> PLATFORM_ADMIN))
     (AuthorizationError STR ''Issuing a(n)  enforcement action requires PLATFORM_ADMIN.'')"

section \<open>Support and legal holds\<close>

definition CLOSED_STATUSES :: "caseStatus list" where
  "CLOSED_STATUSES = [CS_RESOLVED, CS_CLOSED]"

definition assertActionable :: "caseStatus \<Rightarrow> unit result" where
  "assertActionable st = assert_r (\<not> List.member CLOSED_STATUSES st)
     (BusinessRuleViolationError STR ''This support case is resolved or closed. Reopen it first.'')"

definition assertResolvedForClose :: "caseStatus \<Rightarrow> unit result" where
  "assertResolvedForClose st = assert_r (st = CS_RESOLVED)
     (BusinessRuleViolationError STR ''Only a resolved support case may be closed.'')"

definition assertSupportCanReopen :: "caseStatus \<Rightarrow> unit result" where
  "assertSupportCanReopen st = assert_r (List.member CLOSED_STATUSES st)
     (BusinessRuleViolationError STR ''Only a resolved or closed support case may be reopened.'')"

text \<open>The next entry of \<open>PRIORITY_ORDER\<close>.\<close>

fun nextEscalatedPriority :: "verificationPriority \<Rightarrow> verificationPriority result" where
  "nextEscalatedPriority PR_LOW = Inr PR_NORMAL"
| "nextEscalatedPriority PR_NORMAL = Inr PR_HIGH"
| "nextEscalatedPriority PR_HIGH = Inr PR_CRITICAL"
| "nextEscalatedPriority PR_CRITICAL =
     Inl (BusinessRuleViolationError STR ''This support case is already at CRITICAL priority.'')"

definition assertVisibleToNonStaff :: "id \<Rightarrow> id \<Rightarrow> unit result" where
  "assertVisibleToNonStaff createdBy caller = assert_r (createdBy = caller)
     (AuthorizationError STR ''You do not have access to this support case.'')"

definition assertCanPlace :: "'h option \<Rightarrow> unit result" where
  "assertCanPlace existing = assert_r (existing = None)
     (BusinessRuleViolationError STR ''This entity already has an active legal hold.'')"

definition assertCanRelease :: "auditLegalHold option \<Rightarrow> unit result" where
  "assertCanRelease hold = (case hold of
     None \<Rightarrow> Inl (NotFoundAppError STR ''Legal hold not found.'')
   | Some h \<Rightarrow> assert_r (lh_isActive h) (BusinessRuleViolationError STR ''This legal hold has already been released.''))"

section \<open>Subscriptions\<close>

definition FREE_ACTIVE_FEATURES :: "subscriptionFeatureKey list" where
  "FREE_ACTIVE_FEATURES = [FK_BUILDING_REGISTRATION, FK_PROPERTIES, FK_OWNERS, FK_TENANTS, FK_BASIC_CHARGES,
     FK_BASIC_PAYMENTS, FK_DEBT_VIEW, FK_IN_APP_NOTIFICATIONS, FK_ONLINE_PAYMENT, FK_DOCUMENTS, FK_VOTING,
     FK_MEETINGS, FK_REQUESTS, FK_FUNDS, FK_REPORTS]"

definition PRO_ONLY_FEATURES :: "subscriptionFeatureKey list" where
  "PRO_ONLY_FEATURES = [FK_ADVANCED_ACCOUNTING, FK_SMS, FK_EMAIL, FK_PUSH_NOTIFICATIONS, FK_AUTOMATION]"

datatype featureAccessResult = ALLOWED | DENIED

datatype featureSource = BY_PLAN | BY_GRANT

type_synonym effectiveFeatureEntry = "subscriptionFeatureKey \<times> featureAccessResult \<times> featureSource"

definition planIncludesFeature :: "subscriptionPlan \<Rightarrow> subscriptionFeatureKey \<Rightarrow> bool" where
  "planIncludesFeature plan k =
     (if List.member FREE_ACTIVE_FEATURES k then True
      else if plan = FREE then False
      else List.member PRO_ONLY_FEATURES k)"

definition effectiveFeatures :: "subscriptionPlan \<Rightarrow> subscriptionFeatureKey list \<Rightarrow> effectiveFeatureEntry list" where
  "effectiveFeatures plan granted = map (\<lambda>k.
     if List.member granted k then (k, ALLOWED, BY_GRANT)
     else (k, if planIncludesFeature plan k then ALLOWED else DENIED, BY_PLAN)) (FREE_ACTIVE_FEATURES @ PRO_ONLY_FEATURES)"

definition isGrantActive :: "featureGrant \<Rightarrow> time \<Rightarrow> bool" where
  "isGrantActive g now =
     (if fg_revokedAt g \<noteq> None then False
      else (case fg_expiresAt g of Some e \<Rightarrow> \<not> e \<le> now | None \<Rightarrow> True))"

definition assertTrialAvailable :: "bool \<Rightarrow> unit result" where
  "assertTrialAvailable used = assert_r (\<not> used)
     (BusinessRuleViolationError STR ''This building has already used its one-time trial.'')"

definition assertGrantRevocable :: "time option \<Rightarrow> unit result" where
  "assertGrantRevocable revokedAt = assert_r (revokedAt = None)
     (BusinessRuleViolationError STR ''This feature grant has already been revoked.'')"

definition defaultTrialDurationDays :: int where
  "defaultTrialDurationDays = 14"

lemma feature_listed: "k \<in> set (FREE_ACTIVE_FEATURES @ PRO_ONLY_FEATURES)"
  by (cases k) (simp_all add: FREE_ACTIVE_FEATURES_def PRO_ONLY_FEATURES_def)

lemma effective_iff:
  "(k, ALLOWED, w) \<in> set (effectiveFeatures plan granted) \<longleftrightarrow>
     (if w = BY_GRANT then k \<in> set granted else k \<notin> set granted \<and> planIncludesFeature plan k)"
  using feature_listed [of k] by (cases w) (auto simp: effectiveFeatures_def split: if_splits)

end
