(* ===== verification/Backoffice_Repo.thy ===== *)
theory Backoffice_Repo
  imports Backoffice_Policy Case_Service
begin

text \<open>
  The repository of
  \<^verbatim>\<open>src/src/modules/backoffice/infrastructure/repositories/backoffice.repository.ts\<close>.
  Methods named \<open>Atomically\<close> are transactions over the back office, building and audit
  tables; their advisory locks make them serial.
\<close>

section \<open>Statements\<close>

text \<open>\<open>updateMany\<close> on a key and a condition, the test that one row was hit, and the row.\<close>

definition swap_row :: "('r \<Rightarrow> id) \<Rightarrow> id \<Rightarrow> ('r \<Rightarrow> bool) \<Rightarrow> ('r \<Rightarrow> 'r) \<Rightarrow> msg \<Rightarrow> 'r list \<Rightarrow> ('r \<times> 'r list) result" where
  "swap_row key i P f m rows =
     (if count_where (\<lambda>r. key r = i \<and> P r) rows \<noteq> 1 then Inl (ConflictError m)
      else let rows' = upd_where (\<lambda>r. key r = i \<and> P r) f rows
        in bind_r (needs (find_row key i rows') STR ''P2025'') (\<lambda>r. Inr (r, rows')))"

text \<open>\<open>update\<close> by key.\<close>

definition modify_row :: "('r \<Rightarrow> id) \<Rightarrow> id \<Rightarrow> ('r \<Rightarrow> 'r) \<Rightarrow> 'r list \<Rightarrow> ('r \<times> 'r list) result" where
  "modify_row key i f rows = bind_r (needs (find_row key i rows) STR ''P2025'')
     (\<lambda>r. Inr (f r, upd_where (\<lambda>x. key x = i) f rows))"

text \<open>The foreign keys to persons and buildings.\<close>

definition fk :: "bld_db \<Rightarrow> id option list \<Rightarrow> id option list \<Rightarrow> unit result" where
  "fk b ps bs = assert_r (list_all (\<lambda>p. \<not> dangling (findPersonById b) p) ps \<and> list_all (\<lambda>d. \<not> dangling (findBuildingById b) d) bs)
     (PrismaError STR ''P2003'')"

text \<open>An undefined value leaves its column.\<close>

definition orKeep :: "'a option \<Rightarrow> 'a option \<Rightarrow> 'a option" where
  "orKeep new old = (case new of None \<Rightarrow> old | Some x \<Rightarrow> Some x)"

definition first :: "'r list \<Rightarrow> 'r option" where
  "first rows = (case rows of [] \<Rightarrow> None | r # _ \<Rightarrow> Some r)"

fun priorityRank :: "verificationPriority \<Rightarrow> int" where
  "priorityRank PR_LOW = 0"
| "priorityRank PR_NORMAL = 1"
| "priorityRank PR_HIGH = 2"
| "priorityRank PR_CRITICAL = 3"

text \<open>The order of every queue: priority first, then age.\<close>

definition queued :: "('r \<Rightarrow> verificationPriority) \<Rightarrow> ('r \<Rightarrow> time) \<Rightarrow> 'r list \<Rightarrow> 'r list" where
  "queued pr since rows = sort_key (\<lambda>r. (- priorityRank (pr r), since r)) rows"

section \<open>Platform staff\<close>

fun PLATFORM_STAFF_RANK :: "platformStaffRole \<Rightarrow> nat" where
  "PLATFORM_STAFF_RANK REVIEWER = 1"
| "PLATFORM_STAFF_RANK SENIOR_REVIEWER = 2"
| "PLATFORM_STAFF_RANK PLATFORM_ADMIN = 3"

definition getActivePlatformStaff :: "bo_db \<Rightarrow> id \<Rightarrow> platformStaff option" where
  "getActivePlatformStaff d p = find (\<lambda>f. sf_personId f = p \<and> sf_isActive f) (platformStaffs d)"

definition staffOf :: "bo_db \<Rightarrow> id \<Rightarrow> platformStaff option" where
  "staffOf d p = find_row sf_personId p (platformStaffs d)"

section \<open>Building verification\<close>

record buildingCaseParams =
  nb_buildingId :: id
  nb_status :: buildingStatus
  nb_priority :: verificationPriority
  nb_riskScore :: int
  nb_riskFlags :: "msg list"
  nb_isAppeal :: bool
  nb_previousCaseId :: "id option"
  nb_decision :: "buildingVerificationDecision option"
  nb_reason :: "string option"
  nb_decidedAt :: "time option"

definition createBuildingVerificationCase ::
  "bld_db \<Rightarrow> time \<Rightarrow> buildingCaseParams \<Rightarrow> (bo_db, buildingVerificationCase) tx" where
  "createBuildingVerificationCase b now q d =
     (let r = \<lparr>bv_id = fresh_oid d, bv_buildingId = nb_buildingId q, bv_status = nb_status q, bv_priority = nb_priority q,
        bv_riskScore = nb_riskScore q, bv_riskFlags = nb_riskFlags q, bv_isAppeal = nb_isAppeal q,
        bv_previousCaseId = nb_previousCaseId q, bv_assignedToId = None, bv_reviewedById = None,
        bv_decision = nb_decision q, bv_reason = nb_reason q, bv_decidedAt = nb_decidedAt q, bv_createdAt = now\<rparr>
      in bind_r (fk b [] [Some (nb_buildingId q)]) (\<lambda>_.
         Inr (r, take_oid (d\<lparr>buildingCases := buildingCases d @ [r]\<rparr>))))"

definition findBuildingVerificationCaseById :: "bo_db \<Rightarrow> id \<Rightarrow> buildingVerificationCase option" where
  "findBuildingVerificationCaseById d i = find_row bv_id i (buildingCases d)"

definition getLatestBuildingVerificationCase :: "bo_db \<Rightarrow> id \<Rightarrow> buildingVerificationCase option" where
  "getLatestBuildingVerificationCase d bid =
     first (newest bv_createdAt (filter (\<lambda>r. bv_buildingId r = bid) (buildingCases d)))"

definition listBuildingVerificationCases :: "bo_db \<Rightarrow> buildingStatus option \<Rightarrow> verificationPriority option \<Rightarrow> id option \<Rightarrow>
    int \<times> int \<Rightarrow> buildingVerificationCase list \<times> nat" where
  "listBuildingVerificationCases d st pr asg pg =
     (let rows = filter (\<lambda>r. matches st (bv_status r) \<and> matches pr (bv_priority r) \<and>
            (asg = None \<or> bv_assignedToId r = asg)) (buildingCases d)
      in (window pg (queued bv_priority bv_createdAt rows), length rows))"

definition assignBuildingVerificationCase :: "bld_db \<Rightarrow> id \<Rightarrow> id \<Rightarrow> (bo_db, buildingVerificationCase) tx" where
  "assignBuildingVerificationCase b i assignee d =
     bind_r (fk b [Some assignee] []) (\<lambda>_.
     bind_r (swap_row bv_id i (\<lambda>r. List.member DECIDABLE_STATUSES (bv_status r)) (\<lambda>r. r\<lparr>bv_assignedToId := Some assignee\<rparr>)
       STR ''Building verification case status changed; reload and retry.'' (buildingCases d)) (\<lambda>(r, rows).
     Inr (r, d\<lparr>buildingCases := rows\<rparr>)))"

definition staffPersonIds :: "(id \<Rightarrow> nat) \<Rightarrow> bo_db \<Rightarrow> id list" where
  "staffPersonIds rank d = sort_key rank (map sf_personId (platformStaffs d))"

record assigneeCandidate =
  sx_staff :: platformStaff
  sx_fullName :: "string option"
  sx_isSuspended :: bool

definition findAssigneeCandidate :: "bld_db \<Rightarrow> bo_db \<Rightarrow> id \<Rightarrow> assigneeCandidate option" where
  "findAssigneeCandidate b d p = (case (staffOf d p, findPersonById b p) of
     (Some f, Some pe) \<Rightarrow> Some \<lparr>sx_staff = f, sx_fullName = pe_fullName pe, sx_isSuspended = pe_isSuspended pe\<rparr>
   | _ \<Rightarrow> None)"

definition decideBuildingVerificationCase :: "time \<Rightarrow> id \<Rightarrow> buildingStatus \<Rightarrow> buildingVerificationDecision \<Rightarrow>
    id option \<Rightarrow> string option \<Rightarrow> (bo_db, buildingVerificationCase) tx" where
  "decideBuildingVerificationCase now i st dec reviewer reason d =
     bind_r (modify_row bv_id i (\<lambda>r. r\<lparr>bv_status := st, bv_decision := Some dec, bv_reviewedById := orKeep reviewer (bv_reviewedById r),
       bv_reason := orKeep reason (bv_reason r), bv_decidedAt := Some now\<rparr>) (buildingCases d)) (\<lambda>(r, rows).
     Inr (r, d\<lparr>buildingCases := rows\<rparr>))"

section \<open>Manager verification\<close>

definition newManagerCase :: "time \<Rightarrow> id \<Rightarrow> id \<Rightarrow> id \<Rightarrow> id \<Rightarrow> verificationPriority \<Rightarrow> bool \<Rightarrow> managerVerificationCase" where
  "newManagerCase now i bid mid cand pr again = \<lparr>mv_id = i, mv_buildingId = bid, mv_membershipId = mid, mv_candidateId = cand,
     mv_status = MV_PENDING, mv_verificationSource = None, mv_decision = None, mv_priority = pr,
     mv_requiredApprovalPercent = 30, mv_isReverification = again, mv_reviewedById = None, mv_reason = None,
     mv_decidedAt = None, mv_createdAt = now\<rparr>"

definition insertManagerCase :: "bld_db \<Rightarrow> managerVerificationCase \<Rightarrow> (bo_db, managerVerificationCase) tx" where
  "insertManagerCase b r d =
     bind_r (fk b [Some (mv_candidateId r)] [Some (mv_buildingId r)]) (\<lambda>_.
     bind_r (assert_r (find_row mb_id (mv_membershipId r) (memberships b) \<noteq> None) (PrismaError STR ''P2003'')) (\<lambda>_.
     Inr (r, take_oid (d\<lparr>managerCases := managerCases d @ [r]\<rparr>))))"

definition createManagerVerificationCase :: "bld_db \<Rightarrow> time \<Rightarrow> id \<Rightarrow> id \<Rightarrow> id \<Rightarrow> verificationPriority \<Rightarrow> bool option \<Rightarrow>
    (bo_db, managerVerificationCase) tx" where
  "createManagerVerificationCase b now bid mid cand pr again d =
     insertManagerCase b (newManagerCase now (fresh_oid d) bid mid cand pr (orElse again False)) d"

definition findManagerVerificationCaseById :: "bo_db \<Rightarrow> id \<Rightarrow> managerVerificationCase option" where
  "findManagerVerificationCaseById d i = find_row mv_id i (managerCases d)"

definition getOpenManagerVerificationCaseForBuilding :: "bo_db \<Rightarrow> id \<Rightarrow> managerVerificationCase option" where
  "getOpenManagerVerificationCaseForBuilding d bid =
     find (\<lambda>r. mv_buildingId r = bid \<and> mv_status r = MV_PENDING) (managerCases d)"

definition findLatestManagerVerificationCaseForBuilding :: "bo_db \<Rightarrow> id \<Rightarrow> managerVerificationCase option" where
  "findLatestManagerVerificationCaseForBuilding d bid =
     first (newest mv_createdAt (filter (\<lambda>r. mv_buildingId r = bid) (managerCases d)))"

definition listManagerVerificationCases ::
  "bo_db \<Rightarrow> managerVerificationStatus option \<Rightarrow> verificationPriority option \<Rightarrow> managerVerificationCase list" where
  "listManagerVerificationCases d st pr =
     queued mv_priority mv_createdAt (filter (\<lambda>r. matches st (mv_status r) \<and> matches pr (mv_priority r)) (managerCases d))"

definition listManagerVerificationCasesPaged :: "bo_db \<Rightarrow> managerVerificationStatus option \<Rightarrow> verificationPriority option \<Rightarrow>
    int \<times> int \<Rightarrow> managerVerificationCase list \<times> nat" where
  "listManagerVerificationCasesPaged d st pr pg =
     (let rows = listManagerVerificationCases d st pr in (window pg rows, length rows))"

definition competingManager :: "bld_db \<Rightarrow> id \<Rightarrow> id \<Rightarrow> bool" where
  "competingManager b bid mid \<longleftrightarrow>
     list_ex (\<lambda>m. mb_buildingId m = bid \<and> mb_role m = MANAGER \<and> mb_isCurrent m \<and> mb_id m \<noteq> mid) (memberships b)"

definition verifiedManager :: "membership \<Rightarrow> membership" where
  "verifiedManager m = m\<lparr>mb_managerState := Some ML_VERIFIED, mb_isCurrent := True, mb_endedAt := None\<rparr>"

definition membershipData :: "time \<Rightarrow> managerVerificationDecision \<Rightarrow> membership \<Rightarrow> membership" where
  "membershipData now dec m =
     (if dec = MD_APPROVE then verifiedManager m
      else if dec = MD_REJECT then m\<lparr>mb_managerState := Some ML_FORMER, mb_isCurrent := False, mb_endedAt := Some now\<rparr>
      else m\<lparr>mb_managerState := Some ML_SUSPENDED, mb_isCurrent := True, mb_endedAt := None\<rparr>)"

text \<open>\<open>membership.updateMany\<close> and \<open>building.updateMany\<close>, each of which must hit one row.\<close>

definition setMembership :: "(membership \<Rightarrow> bool) \<Rightarrow> (membership \<Rightarrow> membership) \<Rightarrow> msg \<Rightarrow> bld_db \<Rightarrow> bld_db result" where
  "setMembership P f m b = (if count_where P (memberships b) \<noteq> 1 then Inl (ConflictError m)
     else Inr (b\<lparr>memberships := upd_where P f (memberships b)\<rparr>))"

definition setRecovery :: "id \<Rightarrow> time option \<Rightarrow> bld_db \<Rightarrow> bld_db result" where
  "setRecovery bid since b = (if count_where (\<lambda>d. bd_id d = bid) (buildings b) \<noteq> 1
     then Inl (ConflictError STR ''Building changed; reload and retry.'')
     else Inr (b\<lparr>buildings := upd_where (\<lambda>d. bd_id d = bid) (\<lambda>d. d\<lparr>bd_recoveryModeEnteredAt := since\<rparr>) (buildings b)\<rparr>))"

text \<open>The claim of a case, and what the three ways to decide one do to the manager's membership.\<close>

definition claimed :: "managerVerificationCase \<Rightarrow> membership \<Rightarrow> bool" where
  "claimed k m \<longleftrightarrow> mb_id m = mv_membershipId k \<and> mb_buildingId m = mv_buildingId k \<and> mb_personId m = mv_candidateId k"

definition seatManager :: "bool \<Rightarrow> managerVerificationCase \<Rightarrow> (membership \<Rightarrow> bool) \<Rightarrow> (membership \<Rightarrow> membership) \<Rightarrow> msg \<Rightarrow>
    time option \<Rightarrow> bld_db \<Rightarrow> bld_db result" where
  "seatManager alone k P f m since b =
     bind_r (assert_r (\<not> (alone \<and> competingManager b (mv_buildingId k) (mv_membershipId k)))
       (ConflictError STR ''Another current manager exists for this building.'')) (\<lambda>_.
     bind_r (setMembership (\<lambda>x. claimed k x \<and> P x) f m b) (\<lambda>b1.
     setRecovery (mv_buildingId k) since b1))"

definition decideManagerVerificationCaseAtomically :: "time \<Rightarrow> managerVerificationCase \<Rightarrow> managerVerificationStatus \<Rightarrow>
    managerVerificationDecision \<Rightarrow> managerVerificationSource option \<Rightarrow> id \<Rightarrow> string option \<Rightarrow> (site, managerVerificationCase) tx" where
  "decideManagerVerificationCaseAtomically now k st dec src reviewer reason s =
     bind_r (swap_row mv_id (mv_id k) (\<lambda>r. mv_status r = MV_PENDING)
       (\<lambda>r. r\<lparr>mv_status := st, mv_decision := Some dec, mv_verificationSource := orKeep src (mv_verificationSource r),
          mv_reviewedById := Some reviewer, mv_reason := orKeep reason (mv_reason r), mv_decidedAt := Some now\<rparr>)
       STR ''Manager verification case status changed; reload and retry.'' (managerCases (s_bo s))) (\<lambda>(r, rows).
     bind_r (seatManager (dec \<noteq> MD_REJECT) k (\<lambda>_. True) (membershipData now dec)
       STR ''Manager membership changed; reload and retry.'' (if dec = MD_APPROVE then None else Some now) (s_bld s)) (\<lambda>b.
     Inr (r, snd (record_audit (Some reviewer) (Some (mv_buildingId k)) STR ''ManagerVerificationDecided'' (mv_id k) reason
       (s\<lparr>s_bld := b, s_bo := (s_bo s)\<lparr>managerCases := rows\<rparr>\<rparr>)))))"

definition restoredCase :: "time \<Rightarrow> id \<Rightarrow> id \<Rightarrow> string option \<Rightarrow> managerVerificationCase \<Rightarrow> managerVerificationCase" where
  "restoredCase now i reviewer reason k = (newManagerCase now i (mv_buildingId k) (mv_membershipId k) (mv_candidateId k) PR_NORMAL True)
     \<lparr>mv_status := MV_VERIFIED, mv_decision := Some MD_RESTORE, mv_verificationSource := Some ADMIN_REVIEW,
      mv_reviewedById := Some reviewer, mv_reason := reason, mv_decidedAt := Some now\<rparr>"

definition sameClaim :: "managerVerificationCase \<Rightarrow> managerVerificationCase \<Rightarrow> bool" where
  "sameClaim k r \<longleftrightarrow> mv_buildingId r = mv_buildingId k \<and> mv_membershipId r = mv_membershipId k \<and>
     mv_candidateId r = mv_candidateId k \<and> mv_isReverification r"

definition restoreManagerVerificationCaseAtomically ::
  "time \<Rightarrow> id \<Rightarrow> id \<Rightarrow> string option \<Rightarrow> (site, managerVerificationCase) tx" where
  "restoreManagerVerificationCaseAtomically now i reviewer reason s =
     (case findManagerVerificationCaseById (s_bo s) i of
        None \<Rightarrow> Inl (ConflictError STR ''Manager verification case changed; reload and retry.'')
      | Some k \<Rightarrow>
     bind_r (assert_r (mv_status k = MV_SUSPENDED)
       (ConflictError STR ''Manager verification case is no longer restorable.'')) (\<lambda>_.
     bind_r (assert_r (\<not> list_ex (\<lambda>r. sameClaim k r \<and> mv_decision r = Some MD_RESTORE) (managerCases (s_bo s)))
       (ConflictError STR ''Manager verification case was already restored.'')) (\<lambda>_.
     bind_r (insertManagerCase (s_bld s) (restoredCase now (fresh_oid (s_bo s)) reviewer reason k) (s_bo s)) (\<lambda>(r, d).
     bind_r (seatManager True k (\<lambda>m. mb_managerState m = Some ML_SUSPENDED) verifiedManager
       STR ''Suspended manager membership changed; reload and retry.'' None (s_bld s)) (\<lambda>b.
     Inr (r, snd (record_audit (Some reviewer) (Some (mv_buildingId k)) STR ''ManagerVerificationRestored'' (mv_id r) reason
       (s\<lparr>s_bld := b, s_bo := d\<rparr>))))))))"

definition approvalsOf :: "bo_db \<Rightarrow> id \<Rightarrow> nat" where
  "approvalsOf d i = count_where (\<lambda>a. ma_caseId a = i) (managerApprovals d)"

definition findManagerVerificationApproval :: "bo_db \<Rightarrow> id \<Rightarrow> id \<Rightarrow> managerVerificationApproval option" where
  "findManagerVerificationApproval d i p = find (\<lambda>a. ma_caseId a = i \<and> ma_ownerPersonId a = p) (managerApprovals d)"

record approvalOutcome =
  ao_case :: managerVerificationCase
  ao_resolved :: bool
  ao_approverCount :: nat
  ao_totalOwners :: nat

text \<open>The reason keeps its fixed text.\<close>

definition ownerApprovedReason :: string where
  "ownerApprovedReason = ''Approved by  current owners (>= % required).''"

definition castManagerVerificationApprovalAtomically :: "time \<Rightarrow> id \<Rightarrow> id \<Rightarrow> (site, approvalOutcome) tx" where
  "castManagerVerificationApprovalAtomically now i owner s =
     (case findManagerVerificationCaseById (s_bo s) i of
        None \<Rightarrow> Inl (ConflictError STR ''Manager verification case status changed; reload and retry.'')
      | Some k \<Rightarrow>
     bind_r (assert_r (mv_status k = MV_PENDING)
       (ConflictError STR ''Manager verification case status changed; reload and retry.'')) (\<lambda>_.
     bind_r (assert_r (findManagerVerificationApproval (s_bo s) i owner = None)
       (DuplicateError STR ''Owner approval was already recorded.'')) (\<lambda>_.
     bind_r (fk (s_bld s) [Some owner] []) (\<lambda>_.
     let a = \<lparr>ma_id = fresh_oid (s_bo s), ma_caseId = i, ma_ownerPersonId = owner, ma_approvedAt = now\<rparr>;
         d = take_oid ((s_bo s)\<lparr>managerApprovals := managerApprovals (s_bo s) @ [a]\<rparr>);
         n = approvalsOf d i; total = countCurrentOwners (s_bld s) (mv_buildingId k);
         s1 = snd (record_audit (Some owner) (Some (mv_buildingId k)) STR ''ManagerVerificationApprovalCast'' (mv_id k) None (s\<lparr>s_bo := d\<rparr>))
     in if \<not> (total > 0 \<and> int n * 100 \<ge> int total * mv_requiredApprovalPercent k)
        then Inr (\<lparr>ao_case = k, ao_resolved = False, ao_approverCount = n, ao_totalOwners = total\<rparr>, s1)
        else
     bind_r (swap_row mv_id i (\<lambda>r. mv_status r = MV_PENDING) (\<lambda>r. r\<lparr>mv_status := MV_VERIFIED, mv_decision := Some MD_APPROVE,
         mv_verificationSource := Some OWNER_APPROVAL, mv_reason := Some ownerApprovedReason, mv_decidedAt := Some now\<rparr>)
       STR ''Manager verification case status changed; reload and retry.'' (managerCases d)) (\<lambda>(r, rows).
     bind_r (seatManager True k (\<lambda>_. True) verifiedManager STR ''Manager membership changed.'' None (s_bld s1)) (\<lambda>b.
     Inr (\<lparr>ao_case = r, ao_resolved = True, ao_approverCount = n, ao_totalOwners = total\<rparr>,
       snd (record_audit None (Some (mv_buildingId k)) STR ''ManagerVerificationDecided'' (mv_id k) None
         (s1\<lparr>s_bld := b, s_bo := d\<lparr>managerCases := rows\<rparr>\<rparr>)))))))))"

definition findActiveManagerVerificationReverification :: "bo_db \<Rightarrow> id \<Rightarrow> id \<Rightarrow> managerVerificationCase option" where
  "findActiveManagerVerificationReverification d bid cand = find (\<lambda>r. mv_buildingId r = bid \<and> mv_candidateId r = cand \<and>
     mv_isReverification r \<and> mv_status r = MV_PENDING) (managerCases d)"

definition createManagerVerificationAppealAtomically :: "time \<Rightarrow> id \<Rightarrow> id \<Rightarrow> (site, managerVerificationCase) tx" where
  "createManagerVerificationAppealAtomically now i caller s =
     (case findManagerVerificationCaseById (s_bo s) i of
        None \<Rightarrow> Inl (ConflictError STR ''Manager verification appeal source changed; reload and retry.'')
      | Some k \<Rightarrow>
     bind_r (assert_r (mv_status k = MV_REJECTED \<and> mv_candidateId k = caller)
       (ConflictError STR ''Manager verification appeal source changed; reload and retry.'')) (\<lambda>_.
     bind_r (assert_r (\<not> list_ex (\<lambda>r. sameClaim k r \<and> mv_status r = MV_PENDING) (managerCases (s_bo s)))
       (ConflictError STR ''A manager verification appeal is already pending.'')) (\<lambda>_.
     bind_r (insertManagerCase (s_bld s)
       (newManagerCase now (fresh_oid (s_bo s)) (mv_buildingId k) (mv_membershipId k) (mv_candidateId k) PR_HIGH True) (s_bo s)) (\<lambda>(r, d).
     Inr (r, snd (record_audit (Some caller) (Some (mv_buildingId k)) STR ''ManagerVerificationAppealed'' (mv_id r) None
       (s\<lparr>s_bo := d\<rparr>)))))))"

end
