(* ===== verification/Backoffice_Rbac.thy ===== *)
theory Backoffice_Rbac
  imports Backoffice_Repo
begin

text \<open>
  Who may act for the platform: \<^verbatim>\<open>modules/backoffice-rbac\<close> (roles, permissions and their
  grants, resolved live on every request), the two guards of \<^verbatim>\<open>common/guards\<close> on staff
  routes, and the bootstrap of the first administrator in \<^verbatim>\<open>modules/backoffice-bootstrap\<close>.
\<close>

section \<open>Live resolution\<close>

definition permissionKeyOf :: "bo_db \<Rightarrow> id \<Rightarrow> permissionKey option" where
  "permissionKeyOf d i = map_option pk_key (find_row pk_id i (permissionRows d))"

definition getEffectivePermissionKeysForStaff :: "bo_db \<Rightarrow> id \<Rightarrow> permissionKey list" where
  "getEffectivePermissionKeysForStaff d staffId = remdups (concat (map (\<lambda>sr.
       List.map_filter (\<lambda>rp. permissionKeyOf d (rp_permissionId rp))
         (filter (\<lambda>rp. rp_roleId rp = sr_roleId sr \<and> rp_revokedAt rp = None) (rolePermissions d)))
     (filter (\<lambda>sr. sr_staffId sr = staffId \<and> sr_revokedAt sr = None) (staffRoles d))))"

definition resolve :: "bo_db \<Rightarrow> id \<Rightarrow> permissionKey list" where
  "resolve d p = (case getActivePlatformStaff d p of None \<Rightarrow> [] | Some f \<Rightarrow> getEffectivePermissionKeysForStaff d (sf_id f))"

section \<open>Guards\<close>

definition bo :: "(bo_db \<Rightarrow> 'a) \<Rightarrow> 'a action" where
  "bo f = query (\<lambda>s. f (s_bo s))"

definition bo_with_bld :: "(bld_db \<Rightarrow> (bo_db, 'a) tx) \<Rightarrow> 'a action" where
  "bo_with_bld t s = bo_tx (t (s_bld s)) s"

text \<open>Every staff route names one role, the least that will do, and one permission.\<close>

definition platformRolesGuard :: "platformStaffRole \<Rightarrow> id \<Rightarrow> unit action" where
  "platformRolesGuard required p = lift_svc (\<lambda>s. case getActivePlatformStaff (s_bo s) p of
       None \<Rightarrow> Inl (AuthorizationError STR ''This action requires platform staff access.'')
     | Some f \<Rightarrow> assert_r (\<not> PLATFORM_STAFF_RANK (sf_role f) < PLATFORM_STAFF_RANK required)
         (AuthorizationError STR ''This action requires one of the following platform roles (or higher): .''))"

definition permissionsGuard :: "permissionKey \<Rightarrow> id \<Rightarrow> unit action" where
  "permissionsGuard required p = lift_svc (\<lambda>s. assert_r (List.member (resolve (s_bo s) p) required)
     (AuthorizationError STR ''This action requires one of the following permissions: .''))"

definition staffOnly :: "platformStaffRole \<Rightarrow> permissionKey \<Rightarrow> id \<Rightarrow> 'a action \<Rightarrow> 'a action" where
  "staffOnly role k p c = bind_svc (platformRolesGuard role p) (\<lambda>_. bind_svc (permissionsGuard k p) (\<lambda>_. c))"

section \<open>Management of grants\<close>

definition getRoleById :: "bo_db \<Rightarrow> id \<Rightarrow> rbacRole option" where
  "getRoleById d i = find_row rr_id i (rbacRoles d)"

definition getRoleByName :: "bo_db \<Rightarrow> string \<Rightarrow> rbacRole option" where
  "getRoleByName d n = find_row rr_name n (rbacRoles d)"

definition getPermissionByKey :: "bo_db \<Rightarrow> permissionKey \<Rightarrow> permissionRow option" where
  "getPermissionByKey d k = find_row pk_key k (permissionRows d)"

definition getActiveStaffRole :: "bo_db \<Rightarrow> id \<Rightarrow> id \<Rightarrow> staffRole option" where
  "getActiveStaffRole d f r = find (\<lambda>x. sr_staffId x = f \<and> sr_roleId x = r \<and> sr_revokedAt x = None) (staffRoles d)"

definition getStaffRoleById :: "bo_db \<Rightarrow> id \<Rightarrow> staffRole option" where
  "getStaffRoleById d i = find_row sr_id i (staffRoles d)"

definition listActiveStaffRolesForStaff :: "bo_db \<Rightarrow> id \<Rightarrow> (staffRole \<times> rbacRole option) list" where
  "listActiveStaffRolesForStaff d f = map (\<lambda>x. (x, getRoleById d (sr_roleId x)))
     (filter (\<lambda>x. sr_staffId x = f \<and> sr_revokedAt x = None) (staffRoles d))"

definition createStaffRole :: "id \<Rightarrow> id \<Rightarrow> id option \<Rightarrow> (bo_db, staffRole) tx" where
  "createStaffRole f r actor d =
     (let x = \<lparr>sr_id = fresh_oid d, sr_staffId = f, sr_roleId = r, sr_assignedById = actor, sr_revokedById = None, sr_revokedAt = None\<rparr>
      in if find_row sf_id f (platformStaffs d) = None \<or> getRoleById d r = None then Inl (PrismaError STR ''P2003'')
         else Inr (x, take_oid (d\<lparr>staffRoles := staffRoles d @ [x]\<rparr>)))"

definition revokeStaffRole :: "time \<Rightarrow> id \<Rightarrow> id option \<Rightarrow> (bo_db, staffRole) tx" where
  "revokeStaffRole now i actor d =
     bind_r (modify_row sr_id i (\<lambda>x. x\<lparr>sr_revokedAt := Some now, sr_revokedById := actor\<rparr>) (staffRoles d)) (\<lambda>(x, rows).
     Inr (x, d\<lparr>staffRoles := rows\<rparr>))"

definition getActiveRolePermission :: "bo_db \<Rightarrow> id \<Rightarrow> id \<Rightarrow> rolePermission option" where
  "getActiveRolePermission d r k =
     find (\<lambda>x. rp_roleId x = r \<and> rp_permissionId x = k \<and> rp_revokedAt x = None) (rolePermissions d)"

definition getRolePermissionById :: "bo_db \<Rightarrow> id \<Rightarrow> rolePermission option" where
  "getRolePermissionById d i = find_row rp_id i (rolePermissions d)"

definition createRolePermission :: "id \<Rightarrow> id \<Rightarrow> id option \<Rightarrow> (bo_db, rolePermission) tx" where
  "createRolePermission r k actor d =
     (let x = \<lparr>rp_id = fresh_oid d, rp_roleId = r, rp_permissionId = k, rp_addedById = actor, rp_revokedById = None, rp_revokedAt = None\<rparr>
      in Inr (x, take_oid (d\<lparr>rolePermissions := rolePermissions d @ [x]\<rparr>)))"

definition revokeRolePermission :: "time \<Rightarrow> id \<Rightarrow> id option \<Rightarrow> (bo_db, rolePermission) tx" where
  "revokeRolePermission now i actor d =
     bind_r (modify_row rp_id i (\<lambda>x. x\<lparr>rp_revokedAt := Some now, rp_revokedById := actor\<rparr>) (rolePermissions d)) (\<lambda>(x, rows).
     Inr (x, d\<lparr>rolePermissions := rows\<rparr>))"

definition assignRole :: "id \<Rightarrow> id \<Rightarrow> id \<Rightarrow> staffRole action" where
  "assignRole f r actor =
     bind_svc (lift_svc (\<lambda>s. assert_r (getRoleById (s_bo s) r \<noteq> None) (NotFoundAppError STR ''Role not found.''))) (\<lambda>_.
     bind_svc (lift_svc (\<lambda>s. assert_r (getActiveStaffRole (s_bo s) f r = None)
       (ConflictError STR ''This staff member already holds this role.''))) (\<lambda>_.
     bind_svc (bo_tx (createStaffRole f r (Some actor))) (\<lambda>x.
     bind_svc (record_audit (Some actor) None STR ''StaffRoleAssigned'' (sr_id x) None) (\<lambda>_.
     return_svc x))))"

definition revokeRole :: "time \<Rightarrow> id \<Rightarrow> id \<Rightarrow> staffRole action" where
  "revokeRole now i actor =
     bind_svc (lift_svc (\<lambda>s. assert_r (case getStaffRoleById (s_bo s) i of None \<Rightarrow> False | Some x \<Rightarrow> sr_revokedAt x = None)
       (NotFoundAppError STR ''Active role grant not found.''))) (\<lambda>_.
     bind_svc (bo_tx (revokeStaffRole now i (Some actor))) (\<lambda>x.
     bind_svc (record_audit (Some actor) None STR ''StaffRoleRevoked'' i None) (\<lambda>_.
     return_svc x)))"

definition grantPermission :: "id \<Rightarrow> permissionKey \<Rightarrow> id \<Rightarrow> rolePermission action" where
  "grantPermission r k actor =
     bind_svc (lift_svc (\<lambda>s. assert_r (getRoleById (s_bo s) r \<noteq> None) (NotFoundAppError STR ''Role not found.''))) (\<lambda>_.
     bind_svc (lift_svc (\<lambda>s. case getPermissionByKey (s_bo s) k of
         None \<Rightarrow> Inl (NotFoundAppError STR ''Permission not found.'') | Some x \<Rightarrow> Inr x)) (\<lambda>perm.
     bind_svc (lift_svc (\<lambda>s. assert_r (getActiveRolePermission (s_bo s) r (pk_id perm) = None)
       (ConflictError STR ''This role already has this permission.''))) (\<lambda>_.
     bind_svc (bo_tx (createRolePermission r (pk_id perm) (Some actor))) (\<lambda>x.
     bind_svc (record_audit (Some actor) None STR ''RolePermissionGranted'' (rp_id x) None) (\<lambda>_.
     return_svc x)))))"

definition revokePermission :: "time \<Rightarrow> id \<Rightarrow> id \<Rightarrow> rolePermission action" where
  "revokePermission now i actor =
     bind_svc (lift_svc (\<lambda>s. assert_r (case getRolePermissionById (s_bo s) i of None \<Rightarrow> False | Some x \<Rightarrow> rp_revokedAt x = None)
       (NotFoundAppError STR ''Active role-permission grant not found.''))) (\<lambda>_.
     bind_svc (bo_tx (revokeRolePermission now i (Some actor))) (\<lambda>x.
     bind_svc (record_audit (Some actor) None STR ''RolePermissionRevoked'' i None) (\<lambda>_.
     return_svc x)))"

section \<open>The first administrator\<close>

definition findActiveGrantsForRole :: "bo_db \<Rightarrow> id \<Rightarrow> staffRole list" where
  "findActiveGrantsForRole d r = filter (\<lambda>x. sr_roleId x = r \<and> sr_revokedAt x = None) (staffRoles d)"

text \<open>\<open>platformStaff.upsert\<close> to an active administrator.\<close>

definition upsertAdmin :: "id \<Rightarrow> bo_db \<Rightarrow> platformStaff \<times> bo_db" where
  "upsertAdmin p d = (case staffOf d p of
     Some f \<Rightarrow> (f\<lparr>sf_role := PLATFORM_ADMIN, sf_isActive := True\<rparr>,
       d\<lparr>platformStaffs := upd_where (\<lambda>x. sf_personId x = p) (\<lambda>x. x\<lparr>sf_role := PLATFORM_ADMIN, sf_isActive := True\<rparr>) (platformStaffs d)\<rparr>)
   | None \<Rightarrow> let f = \<lparr>sf_id = fresh_oid d, sf_personId = p, sf_role = PLATFORM_ADMIN, sf_isActive = True\<rparr>
       in (f, take_oid (d\<lparr>platformStaffs := platformStaffs d @ [f]\<rparr>)))"

definition namedPerson :: "time \<Rightarrow> id \<Rightarrow> string \<Rightarrow> string \<Rightarrow> person" where
  "namedPerson now i phone name = \<lparr>pe_id = i, pe_phone = phone, pe_fullName = Some name, pe_firstName = None, pe_lastName = None,
     pe_createdAt = now, pe_isSuspended = False, pe_isBackofficeApproved = False, pe_xpBalance = 0, pe_email = None\<rparr>"

definition createBootstrapAdmin :: "time \<Rightarrow> id \<Rightarrow> string \<Rightarrow> string \<Rightarrow> bool \<Rightarrow> (site, person \<times> platformStaff \<times> staffRole \<times> bool) tx" where
  "createBootstrapAdmin now roleId phone name allowExisting s =
     bind_r (assert_r (findActiveGrantsForRole (s_bo s) roleId = []) (ConflictError STR ''\"\" already has an active holder.'')) (\<lambda>_.
     bind_r (case findPersonByPhone (s_bld s) phone of
         None \<Rightarrow> let p = namedPerson now (fresh_bid (s_bld s)) phone name
           in Inr (p, True, take_bid ((s_bld s)\<lparr>persons := persons (s_bld s) @ [p]\<rparr>))
       | Some p \<Rightarrow>
           if pe_isSuspended p then Inl (ConflictError STR ''Cannot bootstrap the supplied account as  because it is suspended.'')
           else if staffOf (s_bo s) (pe_id p) = None \<and> \<not> allowExisting then Inl (ConflictError
             STR ''The supplied phone belongs to an existing Person. Pass --allow-existing-person to confirm promotion explicitly.'')
           else Inr (p, False, s_bld s)) (\<lambda>(p, wasNew, b).
     let (f, d) = upsertAdmin (pe_id p) (s_bo s);
         s1 = snd (record_audit None None STR ''PlatformStaffBootstrapped'' (sf_id f) None (s\<lparr>s_bld := b, s_bo := d\<rparr>))
     in bind_r (createStaffRole (sf_id f) roleId None d) (\<lambda>(x, d1).
        Inr ((p, f, x, wasNew), snd (record_audit None None STR ''StaffRoleAssigned'' (sr_id x) None (s1\<lparr>s_bo := d1\<rparr>))))))"

definition DEFAULT_BOOTSTRAP_ROLE_NAME :: string where
  "DEFAULT_BOOTSTRAP_ROLE_NAME = ''Technical Admin''"

definition DEFAULT_BOOTSTRAP_ADMIN_NAME :: string where
  "DEFAULT_BOOTSTRAP_ADMIN_NAME = ''Backoffice Administrator''"

record bootstrapOptions =
  bx_phone :: "string option"
  bx_fullName :: "string option"
  bx_roleName :: "string option"
  bx_allowExistingPerson :: bool

text \<open>\<open>ALREADY_EXISTS\<close> with the holder's grant, or \<open>CREATED\<close>.\<close>

datatype bootstrapResult = ALREADY_EXISTS staffRole | CREATED staffRole

definition bootstrapRun :: "(string \<Rightarrow> string option) \<Rightarrow> (string \<Rightarrow> string) \<Rightarrow> time \<Rightarrow> bootstrapOptions \<Rightarrow> bootstrapResult action" where
  "bootstrapRun normPhone trim now q =
     bind_svc (lift_svc (\<lambda>s. case getRoleByName (s_bo s) (orElse (bx_roleName q) DEFAULT_BOOTSTRAP_ROLE_NAME) of
         None \<Rightarrow> Inl (NotFoundAppError STR ''Role \"\" not found in the permission catalog - run `npm run db:seed:rbac` first.'')
       | Some r \<Rightarrow> Inr r)) (\<lambda>r.
     bind_svc (bo (\<lambda>d. findActiveGrantsForRole d (rr_id r))) (\<lambda>gs.
     case gs of g # _ \<Rightarrow> return_svc (ALREADY_EXISTS g)
     | [] \<Rightarrow>
     bind_svc (guard (case truthy (bx_phone q) of
         None \<Rightarrow> Inl (ValidationError STR ''A phone number is required to bootstrap the first  - set BOOTSTRAP_ADMIN_PHONE (or pass --phone).'')
       | Some ph \<Rightarrow> (case normPhone ph of
           None \<Rightarrow> Inl (ValidationError STR ''The supplied bootstrap phone number is not valid.'')
         | Some n \<Rightarrow> Inr n))) (\<lambda>phone.
     bind_svc (site_tx (createBootstrapAdmin now (rr_id r) phone
       (orElse (truthy (map_option trim (bx_fullName q))) DEFAULT_BOOTSTRAP_ADMIN_NAME) (bx_allowExistingPerson q))) (\<lambda>(_, _, x, _).
     return_svc (CREATED x)))))"

end
