(* ===== verification/Enforcement_Repo.thy ===== *)
theory Enforcement_Repo
  imports Backoffice_Repo
begin

text \<open>
  The part of
  \<^verbatim>\<open>src/src/modules/backoffice/infrastructure/repositories/backoffice.repository.ts\<close> on fraud
  cases, enforcement actions with their effects and appeals, suspensions and approvals of
  persons, and the searches of the administration screens.
\<close>

section \<open>Fraud cases\<close>

record fraudCaseParams =
  nf_source :: fraudCaseSource
  nf_signalType :: "fraudSignalType option"
  nf_priority :: verificationPriority
  nf_reportedById :: "id option"
  nf_targetPersonId :: "id option"
  nf_targetBuildingId :: "id option"
  nf_description :: "string option"
  nf_isReopen :: bool
  nf_previousCaseId :: "id option"

definition newFraudCase :: "time \<Rightarrow> id \<Rightarrow> fraudCaseParams \<Rightarrow> fraudCase" where
  "newFraudCase now i q = \<lparr>fc_id = i, fc_status = FS_OPEN, fc_priority = nf_priority q, fc_source = nf_source q,
     fc_signalType = nf_signalType q, fc_reportedById = nf_reportedById q, fc_targetPersonId = nf_targetPersonId q,
     fc_targetBuildingId = nf_targetBuildingId q, fc_description = nf_description q, fc_evidenceNotes = None,
     fc_assignedToId = None, fc_reviewedById = None, fc_reason = None, fc_isReopen = nf_isReopen q,
     fc_previousCaseId = nf_previousCaseId q, fc_decidedAt = None, fc_createdAt = now\<rparr>"

definition createFraudCase :: "bld_db \<Rightarrow> time \<Rightarrow> fraudCaseParams \<Rightarrow> (bo_db, fraudCase) tx" where
  "createFraudCase b now q d =
     bind_r (fk b [nf_reportedById q, nf_targetPersonId q] [nf_targetBuildingId q]) (\<lambda>_.
     let r = newFraudCase now (fresh_oid d) q in Inr (r, take_oid (d\<lparr>fraudCases := fraudCases d @ [r]\<rparr>)))"

definition findFraudCaseById :: "bo_db \<Rightarrow> id \<Rightarrow> fraudCase option" where
  "findFraudCaseById d i = find_row fc_id i (fraudCases d)"

definition listFraudCases :: "bo_db \<Rightarrow> fraudCaseStatus option \<Rightarrow> verificationPriority option \<Rightarrow> id option \<Rightarrow> int \<times> int \<Rightarrow>
    fraudCase list \<times> nat" where
  "listFraudCases d st pr asg pg =
     (let rows = filter (\<lambda>r. matches st (fc_status r) \<and> matches pr (fc_priority r) \<and>
            (asg = None \<or> fc_assignedToId r = asg)) (fraudCases d)
      in (window pg (queued fc_priority fc_createdAt rows), length rows))"

definition assignFraudCase :: "bld_db \<Rightarrow> id \<Rightarrow> id \<Rightarrow> fraudCaseStatus \<Rightarrow> (bo_db, fraudCase) tx" where
  "assignFraudCase b i assignee expected d =
     bind_r (fk b [Some assignee] []) (\<lambda>_.
     bind_r (swap_row fc_id i (\<lambda>r. fc_status r = expected)
       (\<lambda>r. r\<lparr>fc_assignedToId := Some assignee, fc_status := FS_UNDER_INVESTIGATION\<rparr>)
       STR ''Fraud case status changed; reload and retry.'' (fraudCases d)) (\<lambda>(r, rows).
     Inr (r, d\<lparr>fraudCases := rows\<rparr>)))"

text \<open>The case is answered with its evidence, oldest first.\<close>

definition evidenceOf :: "(id \<Rightarrow> nat) \<Rightarrow> bo_db \<Rightarrow> id \<Rightarrow> fraudCaseEvidence list" where
  "evidenceOf rank d i = oldestBy rank fe_createdAt fe_id (filter (\<lambda>e. fe_fraudCaseId e = i) (fraudEvidence d))"

definition addFraudCaseEvidence :: "bld_db \<Rightarrow> time \<Rightarrow> id \<Rightarrow> string \<Rightarrow> id \<Rightarrow> (bo_db, fraudCase \<times> fraudCaseEvidence list) tx" where
  "addFraudCaseEvidence b now i notes author d =
     bind_r (fk b [Some author] []) (\<lambda>_.
     let e = \<lparr>fe_id = fresh_oid d, fe_fraudCaseId = i, fe_notes = notes, fe_authorId = Some author, fe_createdAt = now\<rparr>
     in bind_r (modify_row fc_id i (\<lambda>r. r\<lparr>fc_evidenceNotes := Some notes\<rparr>) (fraudCases d)) (\<lambda>(r, rows).
        let d1 = take_oid (d\<lparr>fraudEvidence := fraudEvidence d @ [e], fraudCases := rows\<rparr>)
        in Inr ((r, evidenceOf (bld_collation b) d1 i), d1)))"

definition decideFraudCase :: "time \<Rightarrow> id \<Rightarrow> fraudCaseStatus \<Rightarrow> id \<Rightarrow> string option \<Rightarrow> fraudCaseStatus \<Rightarrow> (bo_db, fraudCase) tx" where
  "decideFraudCase now i st reviewer reason expected d =
     bind_r (swap_row fc_id i (\<lambda>r. fc_status r = expected)
       (\<lambda>r. r\<lparr>fc_status := st, fc_reviewedById := Some reviewer, fc_reason := orKeep reason (fc_reason r), fc_decidedAt := Some now\<rparr>)
       STR ''Fraud case status changed; reload and retry.'' (fraudCases d)) (\<lambda>(r, rows).
     Inr (r, d\<lparr>fraudCases := rows\<rparr>))"

section \<open>Enforcement\<close>

record enforcementParams =
  ne_fraudCaseId :: id
  ne_type :: enforcementActionType
  ne_targetType :: enforcementTargetType
  ne_targetPersonId :: "id option"
  ne_targetBuildingId :: "id option"
  ne_targetMembershipId :: "id option"
  ne_reason :: "string option"
  ne_issuedById :: id
  ne_idempotencyKey :: string

definition modifyPerson :: "id \<Rightarrow> (person \<Rightarrow> person) \<Rightarrow> (bld_db, person) tx" where
  "modifyPerson p f b = bind_r (modify_row pe_id p f (persons b)) (\<lambda>(r, rows). Inr (r, b\<lparr>persons := rows\<rparr>))"

text \<open>The effect of an action: the state of its target before it, and the target changed.\<close>

definition applyEffect :: "time \<Rightarrow> enforcementParams \<Rightarrow> (bld_db, previousTargetState option) tx" where
  "applyEffect now q b =
     (case (ne_type q, ne_targetType q, truthy (ne_targetPersonId q), truthy (ne_targetBuildingId q), truthy (ne_targetMembershipId q)) of
        (EA_ACCOUNT_SUSPENSION, _, Some p, _, _) \<Rightarrow>
          bind_r (needs (findPersonById b p) STR ''P2025'') (\<lambda>t.
          bind_r (modifyPerson p (\<lambda>x. x\<lparr>pe_isSuspended := True\<rparr>) b) (\<lambda>(_, b1).
          Inr (Some (WasSuspended (pe_isSuspended t)), b1)))
      | (EA_VERIFICATION_REVOCATION, TT_BUILDING, _, Some bid, _) \<Rightarrow>
          bind_r (needs (findBuildingById b bid) STR ''P2025'') (\<lambda>t.
          bind_r (updateBuildingStatus bid BS_REJECTED b) (\<lambda>(_, b1).
          Inr (Some (WasStatus (bd_status t)), b1)))
      | (EA_VERIFICATION_REVOCATION, TT_MANAGER_CLAIM, _, Some bid, Some mid) \<Rightarrow>
          bind_r (needs (find_row mb_id mid (memberships b)) STR ''P2025'') (\<lambda>m.
          bind_r (needs (findBuildingById b bid) STR ''P2025'') (\<lambda>t.
          bind_r (assert_r (mb_buildingId m = bd_id t)
            (ValidationError STR ''The manager claim does not belong to the target building.'')) (\<lambda>_.
          bind_r (suspendManagement mid b) (\<lambda>(_, b1).
          bind_r (setRecoveryMode now bid True b1) (\<lambda>(_, b2).
          Inr (Some (WasManager (mb_managerState m) (bd_recoveryModeEnteredAt t)), b2))))))
      | _ \<Rightarrow> Inr (None, b))"

definition newEnforcement :: "time \<Rightarrow> id \<Rightarrow> enforcementParams \<Rightarrow> previousTargetState option \<Rightarrow> enforcementAction" where
  "newEnforcement now i q prev = \<lparr>ea_id = i, ea_fraudCaseId = ne_fraudCaseId q, ea_type = ne_type q,
     ea_targetType = ne_targetType q, ea_targetPersonId = ne_targetPersonId q, ea_targetBuildingId = ne_targetBuildingId q,
     ea_targetMembershipId = ne_targetMembershipId q, ea_reason = ne_reason q, ea_issuedById = ne_issuedById q,
     ea_issuedAt = now, ea_appealStatus = AP_NONE, ea_appealReason = None, ea_appealedAt = None,
     ea_appealDecidedById = None, ea_appealDecidedAt = None, ea_idempotencyKey = Some (ne_idempotencyKey q),
     ea_effectApplied = (prev \<noteq> None), ea_previousTargetState = prev, ea_effectReversedAt = None\<rparr>"

text \<open>A key in use answers the action it belongs to.\<close>

definition createEnforcementActionWithEffect :: "time \<Rightarrow> enforcementParams \<Rightarrow> (site, enforcementAction \<times> bool) tx" where
  "createEnforcementActionWithEffect now q s =
     (case find (\<lambda>a. ea_idempotencyKey a = Some (ne_idempotencyKey q)) (enforcements (s_bo s)) of
        Some a \<Rightarrow> Inr ((a, False), s)
      | None \<Rightarrow>
     bind_r (applyEffect now q (s_bld s)) (\<lambda>(prev, b).
     bind_r (fk b [ne_targetPersonId q, Some (ne_issuedById q)] [ne_targetBuildingId q]) (\<lambda>_.
     bind_r (assert_r (\<not> dangling (\<lambda>i. find_row mb_id i (memberships b)) (ne_targetMembershipId q)) (PrismaError STR ''P2003'')) (\<lambda>_.
     let a = newEnforcement now (fresh_oid (s_bo s)) q prev
     in Inr ((a, True), s\<lparr>s_bld := b, s_bo := take_oid ((s_bo s)\<lparr>enforcements := enforcements (s_bo s) @ [a]\<rparr>)\<rparr>)))))"

definition findEnforcementActionById :: "bo_db \<Rightarrow> id \<Rightarrow> enforcementAction option" where
  "findEnforcementActionById d i = find_row ea_id i (enforcements d)"

definition listEnforcementActionsForCase :: "bo_db \<Rightarrow> id \<Rightarrow> enforcementAction list" where
  "listEnforcementActionsForCase d i = sort_key ea_issuedAt (filter (\<lambda>a. ea_fraudCaseId a = i) (enforcements d))"

definition requestEnforcementAppeal :: "time \<Rightarrow> id \<Rightarrow> string option \<Rightarrow> (bo_db, enforcementAction) tx" where
  "requestEnforcementAppeal now i reason d =
     bind_r (swap_row ea_id i (\<lambda>a. ea_appealStatus a = AP_NONE)
       (\<lambda>a. a\<lparr>ea_appealStatus := AP_PENDING, ea_appealReason := orKeep reason (ea_appealReason a), ea_appealedAt := Some now\<rparr>)
       STR ''Enforcement appeal status changed; reload and retry.'' (enforcements d)) (\<lambda>(a, rows).
     Inr (a, d\<lparr>enforcements := rows\<rparr>))"

definition targetChanged :: app_error where
  "targetChanged = ConflictError STR ''The enforcement target changed after this action.''"

text \<open>Undoing an effect; each \<open>updateMany\<close> must find the state the action left.\<close>

definition undoEffect :: "enforcementAction \<Rightarrow> bld_db \<Rightarrow> bld_db result" where
  "undoEffect a b =
     (case (ea_type a, ea_targetType a, truthy (ea_targetPersonId a), truthy (ea_targetBuildingId a), truthy (ea_targetMembershipId a)) of
        (EA_ACCOUNT_SUSPENSION, _, Some p, _, _) \<Rightarrow>
          bind_r (assert_r (count_where (\<lambda>x. pe_id x = p \<and> pe_isSuspended x) (persons b) = 1) targetChanged) (\<lambda>_.
          Inr (b\<lparr>persons := upd_where (\<lambda>x. pe_id x = p \<and> pe_isSuspended x) (\<lambda>x. case ea_previousTargetState a of
            Some (WasSuspended w) \<Rightarrow> x\<lparr>pe_isSuspended := w\<rparr> | _ \<Rightarrow> x) (persons b)\<rparr>))
      | (EA_VERIFICATION_REVOCATION, TT_BUILDING, _, Some bid, _) \<Rightarrow>
          bind_r (assert_r (count_where (\<lambda>x. bd_id x = bid \<and> bd_status x = BS_REJECTED) (buildings b) = 1) targetChanged) (\<lambda>_.
          Inr (b\<lparr>buildings := upd_where (\<lambda>x. bd_id x = bid \<and> bd_status x = BS_REJECTED) (\<lambda>x. case ea_previousTargetState a of
            Some (WasStatus w) \<Rightarrow> x\<lparr>bd_status := w\<rparr> | _ \<Rightarrow> x) (buildings b)\<rparr>))
      | (EA_VERIFICATION_REVOCATION, TT_MANAGER_CLAIM, _, Some bid, Some mid) \<Rightarrow>
          bind_r (assert_r (count_where (\<lambda>x. mb_id x = mid \<and> mb_managerState x = Some ML_SUSPENDED) (memberships b) = 1 \<and>
            count_where (\<lambda>x. bd_id x = bid \<and> bd_recoveryModeEnteredAt x \<noteq> None) (buildings b) = 1) targetChanged) (\<lambda>_.
          Inr (b\<lparr>memberships := upd_where (\<lambda>x. mb_id x = mid \<and> mb_managerState x = Some ML_SUSPENDED)
                  (\<lambda>x. case ea_previousTargetState a of Some (WasManager w _) \<Rightarrow> x\<lparr>mb_managerState := w\<rparr> | _ \<Rightarrow> x) (memberships b),
                 buildings := upd_where (\<lambda>x. bd_id x = bid \<and> bd_recoveryModeEnteredAt x \<noteq> None)
                  (\<lambda>x. case ea_previousTargetState a of Some (WasManager _ w) \<Rightarrow> x\<lparr>bd_recoveryModeEnteredAt := w\<rparr> | _ \<Rightarrow> x) (buildings b)\<rparr>))
      | _ \<Rightarrow> Inr b)"

definition appealDecided :: "time \<Rightarrow> enforcementAppealStatus \<Rightarrow> id \<Rightarrow> enforcementAction \<Rightarrow> enforcementAction" where
  "appealDecided now st decider a =
     a\<lparr>ea_appealStatus := st, ea_appealDecidedById := Some decider, ea_appealDecidedAt := Some now\<rparr>"

definition repo_decideEnforcementAppeal :: "time \<Rightarrow> id \<Rightarrow> enforcementAppealStatus \<Rightarrow> id \<Rightarrow> (site, enforcementAction) tx" where
  "repo_decideEnforcementAppeal now i st decider s =
     bind_r (needs (findEnforcementActionById (s_bo s) i) STR ''P2025'') (\<lambda>a.
     bind_r (swap_row ea_id i (\<lambda>x. ea_appealStatus x = AP_PENDING) (appealDecided now st decider)
       STR ''Enforcement appeal status changed; reload and retry.'' (enforcements (s_bo s))) (\<lambda>(x, rows).
     let s1 = s\<lparr>s_bo := (s_bo s)\<lparr>enforcements := rows\<rparr>\<rparr>
     in if \<not> (st = AP_OVERTURNED \<and> ea_effectApplied a \<and> ea_effectReversedAt a = None) then Inr (x, s1)
        else bind_r (undoEffect a (s_bld s)) (\<lambda>b.
          bind_r (modify_row ea_id i (\<lambda>y. y\<lparr>ea_effectReversedAt := Some now\<rparr>) rows) (\<lambda>(y, rows').
          Inr (y, s1\<lparr>s_bld := b, s_bo := (s_bo s1)\<lparr>enforcements := rows'\<rparr>\<rparr>)))))"

definition resolveEnforcementAppellant :: "bld_db \<Rightarrow> enforcementAction \<Rightarrow> id option" where
  "resolveEnforcementAppellant b a =
     (if ea_targetType a = TT_PERSON then ea_targetPersonId a
      else case (ea_targetType a, truthy (ea_targetMembershipId a), truthy (ea_targetBuildingId a)) of
        (TT_MANAGER_CLAIM, Some mid, _) \<Rightarrow> map_option mb_personId (find_row mb_id mid (memberships b))
      | (TT_BUILDING, _, Some bid) \<Rightarrow> map_option bd_createdById (findBuildingById b bid)
      | _ \<Rightarrow> None)"

end
