(* ===== verification/Desk_Repo.thy ===== *)
theory Desk_Repo
  imports Enforcement_Repo
begin

text \<open>
  The part of
  \<^verbatim>\<open>src/src/modules/backoffice/infrastructure/repositories/backoffice.repository.ts\<close> on support
  and compliance cases, legal holds, subscriptions, and the administration of persons.
\<close>

section \<open>Support cases\<close>

record supportCaseParams =
  ns_category :: supportCaseCategory
  ns_priority :: verificationPriority
  ns_subject :: string
  ns_description :: string
  ns_createdById :: id
  ns_linkedEntityType :: "string option"
  ns_linkedEntityId :: "string option"

definition newSupportCase :: "time \<Rightarrow> id \<Rightarrow> supportCaseParams \<Rightarrow> supportCase" where
  "newSupportCase now i q = \<lparr>su_id = i, su_category = ns_category q, su_status = CS_OPEN, su_priority = ns_priority q,
     su_subject = ns_subject q, su_description = ns_description q, su_createdById = ns_createdById q, su_assignedToId = None,
     su_linkedEntityType = ns_linkedEntityType q, su_linkedEntityId = ns_linkedEntityId q, su_resolutionCode = None,
     su_resolution = None, su_mergedIntoId = None, su_resolvedAt = None, su_closedAt = None, su_createdAt = now\<rparr>"

definition createSupportCase :: "bld_db \<Rightarrow> time \<Rightarrow> supportCaseParams \<Rightarrow> (bo_db, supportCase) tx" where
  "createSupportCase b now q d =
     bind_r (fk b [Some (ns_createdById q)] []) (\<lambda>_.
     let r = newSupportCase now (fresh_oid d) q in Inr (r, take_oid (d\<lparr>supportCases := supportCases d @ [r]\<rparr>)))"

definition findSupportCaseById :: "bo_db \<Rightarrow> id \<Rightarrow> supportCase option" where
  "findSupportCaseById d i = find_row su_id i (supportCases d)"

definition supportThread :: "bool \<Rightarrow> bo_db \<Rightarrow> id \<Rightarrow> supportCaseMessage list" where
  "supportThread includeInternal d i =
     sort_key sg_createdAt (filter (\<lambda>m. sg_caseId m = i \<and> (includeInternal \<or> \<not> sg_isInternal m)) (supportMessages d))"

definition findSupportCaseForOwner :: "bo_db \<Rightarrow> id \<Rightarrow> id \<Rightarrow> (supportCase \<times> supportCaseMessage list) option" where
  "findSupportCaseForOwner d i owner =
     map_option (\<lambda>r. (r, supportThread False d i)) (find (\<lambda>r. su_id r = i \<and> su_createdById r = owner) (supportCases d))"

definition listSupportCases :: "bo_db \<Rightarrow> caseStatus option \<Rightarrow> verificationPriority option \<Rightarrow> supportCaseCategory option \<Rightarrow>
    id option \<Rightarrow> int \<times> int \<Rightarrow> supportCase list \<times> nat" where
  "listSupportCases d st pr cat asg pg =
     (let rows = filter (\<lambda>r. matches st (su_status r) \<and> matches pr (su_priority r) \<and> matches cat (su_category r) \<and>
            (asg = None \<or> su_assignedToId r = asg)) (supportCases d)
      in (window pg (queued su_priority su_createdAt rows), length rows))"

definition listSupportCasesForCreator :: "(id \<Rightarrow> nat) \<Rightarrow> bo_db \<Rightarrow> id \<Rightarrow> int \<times> int \<Rightarrow> supportCase list \<times> nat" where
  "listSupportCasesForCreator rank d p pg =
     (let rows = filter (\<lambda>r. su_createdById r = p) (supportCases d)
      in (window pg (newestBy rank su_createdAt su_id rows), length rows))"

definition swapSupport :: "id \<Rightarrow> (supportCase \<Rightarrow> bool) \<Rightarrow> (supportCase \<Rightarrow> supportCase) \<Rightarrow> msg \<Rightarrow> (bo_db, supportCase) tx" where
  "swapSupport i P f m d = bind_r (swap_row su_id i P f m (supportCases d)) (\<lambda>(r, rows). Inr (r, d\<lparr>supportCases := rows\<rparr>))"

definition supportChanged :: msg where
  "supportChanged = STR ''Support case status changed; reload and retry.''"

definition assignSupportCase :: "bld_db \<Rightarrow> id \<Rightarrow> id \<Rightarrow> caseStatus \<Rightarrow> (bo_db, supportCase) tx" where
  "assignSupportCase b i assignee expected d =
     bind_r (fk b [Some assignee] []) (\<lambda>_.
     swapSupport i (\<lambda>r. su_status r = expected) (\<lambda>r. r\<lparr>su_assignedToId := Some assignee, su_status := CS_IN_PROGRESS\<rparr>) supportChanged d)"

definition updateSupportCaseStatus :: "time \<Rightarrow> id \<Rightarrow> caseStatus \<Rightarrow> (bo_db, supportCase) tx" where
  "updateSupportCaseStatus now i st d =
     bind_r (modify_row su_id i (\<lambda>r. r\<lparr>su_status := st, su_resolvedAt := (if st = CS_RESOLVED then Some now else su_resolvedAt r),
       su_closedAt := (if st = CS_CLOSED then Some now else su_closedAt r)\<rparr>) (supportCases d)) (\<lambda>(r, rows).
     Inr (r, d\<lparr>supportCases := rows\<rparr>))"

definition resolveSupportCase :: "time \<Rightarrow> id \<Rightarrow> supportCaseResolutionCode \<Rightarrow> string option \<Rightarrow> caseStatus \<Rightarrow> (bo_db, supportCase) tx" where
  "resolveSupportCase now i code note expected =
     swapSupport i (\<lambda>r. su_status r = expected) (\<lambda>r. r\<lparr>su_status := CS_RESOLVED, su_resolutionCode := Some code,
       su_resolution := orKeep note (su_resolution r), su_resolvedAt := Some now\<rparr>) supportChanged"

definition reopenSupportCase :: "id \<Rightarrow> caseStatus \<Rightarrow> (bo_db, supportCase) tx" where
  "reopenSupportCase i expected =
     swapSupport i (\<lambda>r. su_status r = expected) (\<lambda>r. r\<lparr>su_status := CS_OPEN, su_resolvedAt := None, su_closedAt := None\<rparr>) supportChanged"

definition escalateSupportCasePriority :: "id \<Rightarrow> verificationPriority \<Rightarrow> (bo_db, supportCase) tx" where
  "escalateSupportCasePriority i pr d =
     bind_r (modify_row su_id i (\<lambda>r. r\<lparr>su_priority := pr\<rparr>) (supportCases d)) (\<lambda>(r, rows). Inr (r, d\<lparr>supportCases := rows\<rparr>))"

definition mergeSupportCase :: "time \<Rightarrow> id \<Rightarrow> id \<Rightarrow> caseStatus \<Rightarrow> (bo_db, supportCase) tx" where
  "mergeSupportCase now i j expected =
     swapSupport i (\<lambda>r. su_status r = expected \<and> su_mergedIntoId r = None)
       (\<lambda>r. r\<lparr>su_mergedIntoId := Some j, su_status := CS_CLOSED, su_closedAt := Some now\<rparr>)
       STR ''Support case changed or was already merged.''"

definition addSupportCaseMessage :: "bld_db \<Rightarrow> time \<Rightarrow> id \<Rightarrow> id \<Rightarrow> string \<Rightarrow> bool \<Rightarrow> (bo_db, supportCaseMessage) tx" where
  "addSupportCaseMessage b now i sender body internal d =
     bind_r (fk b [Some sender] []) (\<lambda>_.
     bind_r (assert_r (findSupportCaseById d i \<noteq> None) (PrismaError STR ''P2003'')) (\<lambda>_.
     let m = \<lparr>sg_id = fresh_oid d, sg_caseId = i, sg_senderId = sender, sg_body = body, sg_isInternal = internal, sg_createdAt = now\<rparr>
     in Inr (m, take_oid (d\<lparr>supportMessages := supportMessages d @ [m]\<rparr>))))"

section \<open>Subscriptions\<close>

definition createSubscription :: "bld_db \<Rightarrow> time \<Rightarrow> id \<Rightarrow> time \<Rightarrow> (bo_db, subscription) tx" where
  "createSubscription b now bid trialEndsAt d =
     bind_r (fk b [] [Some bid]) (\<lambda>_.
     bind_r (assert_r (find_row ss_buildingId bid (subscriptions d) = None) (PrismaError STR ''P2002'')) (\<lambda>_.
     let r = \<lparr>ss_id = fresh_oid d, ss_buildingId = bid, ss_plan = FREE, ss_status = SS_TRIAL, ss_trialEndsAt = Some trialEndsAt,
        ss_trialUsed = True, ss_gracePeriodDays = 7, ss_currentPeriodEndsAt = None, ss_gracePeriodEndsAt = None,
        ss_cancelledAt = None, ss_createdAt = now\<rparr>
     in Inr (r, take_oid (d\<lparr>subscriptions := subscriptions d @ [r]\<rparr>))))"

definition grantsOf :: "bo_db \<Rightarrow> id \<Rightarrow> featureGrant list" where
  "grantsOf d i = newest fg_grantedAt (filter (\<lambda>g. fg_subscriptionId g = i) (featureGrants d))"

definition findSubscriptionByBuildingId :: "bo_db \<Rightarrow> id \<Rightarrow> subscription option" where
  "findSubscriptionByBuildingId d bid = find_row ss_buildingId bid (subscriptions d)"

definition findSubscriptionById :: "bo_db \<Rightarrow> id \<Rightarrow> subscription option" where
  "findSubscriptionById d i = find_row ss_id i (subscriptions d)"

definition dueBy :: "time \<Rightarrow> time option \<Rightarrow> bool" where
  "dueBy now t \<longleftrightarrow> (case t of None \<Rightarrow> False | Some e \<Rightarrow> e \<le> now)"

definition expiryDue :: "time \<Rightarrow> subscription \<Rightarrow> bool" where
  "expiryDue now s \<longleftrightarrow> ss_status s = SS_TRIAL \<and> dueBy now (ss_trialEndsAt s) \<or>
     ss_status s = SS_ACTIVE \<and> dueBy now (ss_currentPeriodEndsAt s) \<or>
     ss_status s = SS_EXPIRED \<and> dueBy now (ss_gracePeriodEndsAt s)"

definition findSubscriptionsDueForEvaluation :: "bo_db \<Rightarrow> time \<Rightarrow> id list" where
  "findSubscriptionsDueForEvaluation d now = map ss_buildingId (filter (expiryDue now) (subscriptions d))"

definition modifySubscription :: "id \<Rightarrow> (subscription \<Rightarrow> subscription) \<Rightarrow> (bo_db, subscription) tx" where
  "modifySubscription i f d =
     bind_r (modify_row ss_id i f (subscriptions d)) (\<lambda>(r, rows). Inr (r, d\<lparr>subscriptions := rows\<rparr>))"

definition updateSubscriptionPlan :: "id \<Rightarrow> subscriptionPlan \<Rightarrow> (bo_db, subscription) tx" where
  "updateSubscriptionPlan i plan = modifySubscription i (\<lambda>s. s\<lparr>ss_plan := plan\<rparr>)"

definition updateSubscriptionStatus :: "id \<Rightarrow> subscriptionStatus \<Rightarrow> time option \<Rightarrow> time option \<Rightarrow> (bo_db, subscription) tx" where
  "updateSubscriptionStatus i st cancelledAt graceEnds = modifySubscription i (\<lambda>s. s\<lparr>ss_status := st,
     ss_cancelledAt := orKeep cancelledAt (ss_cancelledAt s), ss_gracePeriodEndsAt := graceEnds\<rparr>)"

record changeLogParams =
  cl_fromPlan :: "subscriptionPlan option"
  cl_toPlan :: "subscriptionPlan option"
  cl_fromStatus :: "subscriptionStatus option"
  cl_toStatus :: "subscriptionStatus option"
  cl_changedById :: "id option"
  cl_reason :: "string option"

definition createSubscriptionChangeLog :: "time \<Rightarrow> id \<Rightarrow> changeLogParams \<Rightarrow> (bo_db, subscriptionChangeLog) tx" where
  "createSubscriptionChangeLog now i q d =
     (let l = \<lparr>sl_id = fresh_oid d, sl_subscriptionId = i, sl_fromPlan = cl_fromPlan q, sl_toPlan = cl_toPlan q,
        sl_fromStatus = cl_fromStatus q, sl_toStatus = cl_toStatus q, sl_changedById = cl_changedById q,
        sl_reason = cl_reason q, sl_createdAt = now\<rparr>
      in Inr (l, take_oid (d\<lparr>changeLogs := changeLogs d @ [l]\<rparr>)))"

definition listSubscriptionHistory :: "bo_db \<Rightarrow> id \<Rightarrow> subscriptionChangeLog list" where
  "listSubscriptionHistory d i = newest sl_createdAt (filter (\<lambda>l. sl_subscriptionId l = i) (changeLogs d))"

definition createFeatureGrant :: "bld_db \<Rightarrow> time \<Rightarrow> id \<Rightarrow> subscriptionFeatureKey \<Rightarrow> featureGrantType \<Rightarrow> string option \<Rightarrow> id \<Rightarrow>
    time option \<Rightarrow> (bo_db, featureGrant) tx" where
  "createFeatureGrant b now i k ty reason p expires d =
     bind_r (fk b [Some p] []) (\<lambda>_.
     let g = \<lparr>fg_id = fresh_oid d, fg_subscriptionId = i, fg_featureKey = k, fg_grantType = ty, fg_reason = reason,
        fg_grantedById = p, fg_grantedAt = now, fg_expiresAt = expires, fg_revokedById = None, fg_revokedAt = None\<rparr>
     in Inr (g, take_oid (d\<lparr>featureGrants := featureGrants d @ [g]\<rparr>)))"

definition findFeatureGrantById :: "bo_db \<Rightarrow> id \<Rightarrow> featureGrant option" where
  "findFeatureGrantById d i = find_row fg_id i (featureGrants d)"

definition revokeFeatureGrant :: "time \<Rightarrow> id \<Rightarrow> id \<Rightarrow> (bo_db, featureGrant) tx" where
  "revokeFeatureGrant now i p d =
     bind_r (modify_row fg_id i (\<lambda>g. g\<lparr>fg_revokedById := Some p, fg_revokedAt := Some now\<rparr>) (featureGrants d)) (\<lambda>(g, rows).
     Inr (g, d\<lparr>featureGrants := rows\<rparr>))"

section \<open>Compliance cases\<close>

record complianceCaseParams =
  nx_category :: complianceCaseCategory
  nx_priority :: "verificationPriority option"
  nx_subjectActorId :: "id option"
  nx_linkedEntityType :: "string option"
  nx_linkedEntityId :: "string option"
  nx_sourceAuditLogIds :: "id list option"
  nx_description :: string
  nx_isAutoDetected :: bool
  nx_openedById :: "id option"
  nx_activeDetectionKey :: "(complianceCaseCategory \<times> id) option"

text \<open>The detection key is unique among the cases that hold one.\<close>

definition createComplianceCase :: "bld_db \<Rightarrow> time \<Rightarrow> complianceCaseParams \<Rightarrow> (bo_db, complianceCase) tx" where
  "createComplianceCase b now q d =
     bind_r (assert_r (nx_activeDetectionKey q = None \<or>
       \<not> list_ex (\<lambda>r. cc_activeDetectionKey r = nx_activeDetectionKey q) (complianceCases d)) (PrismaError STR ''P2002'')) (\<lambda>_.
     bind_r (fk b [nx_subjectActorId q, nx_openedById q] []) (\<lambda>_.
     let r = \<lparr>cc_id = fresh_oid d, cc_category = nx_category q, cc_status = FS_OPEN, cc_priority = orElse (nx_priority q) PR_NORMAL,
        cc_subjectActorId = nx_subjectActorId q, cc_linkedEntityType = nx_linkedEntityType q,
        cc_linkedEntityId = nx_linkedEntityId q, cc_sourceAuditLogIds = orElse (nx_sourceAuditLogIds q) [],
        cc_description = nx_description q, cc_isAutoDetected = nx_isAutoDetected q,
        cc_activeDetectionKey = nx_activeDetectionKey q, cc_openedById = nx_openedById q, cc_assignedToId = None,
        cc_decidedById = None, cc_decisionReason = None, cc_decidedAt = None, cc_createdAt = now\<rparr>
     in Inr (r, take_oid (d\<lparr>complianceCases := complianceCases d @ [r]\<rparr>))))"

definition createAutoDetectedComplianceCase :: "bld_db \<Rightarrow> time \<Rightarrow> complianceCaseCategory \<Rightarrow> id \<Rightarrow> string \<Rightarrow>
    (bo_db, complianceCase option) tx" where
  "createAutoDetectedComplianceCase b now cat subject description d =
     (case createComplianceCase b now \<lparr>nx_category = cat, nx_priority = None, nx_subjectActorId = Some subject,
        nx_linkedEntityType = None, nx_linkedEntityId = None, nx_sourceAuditLogIds = None, nx_description = description,
        nx_isAutoDetected = True, nx_openedById = None, nx_activeDetectionKey = Some (cat, subject)\<rparr> d of
        Inr (r, d1) \<Rightarrow> Inr (Some r, d1)
      | Inl e \<Rightarrow> if e = PrismaError STR ''P2002'' then Inr (None, d) else Inl e)"

definition findComplianceCaseById :: "bo_db \<Rightarrow> id \<Rightarrow> complianceCase option" where
  "findComplianceCaseById d i = find_row cc_id i (complianceCases d)"

definition listComplianceCases :: "bo_db \<Rightarrow> fraudCaseStatus option \<Rightarrow> complianceCaseCategory option \<Rightarrow>
    verificationPriority option \<Rightarrow> id option \<Rightarrow> id option \<Rightarrow> int \<times> int \<Rightarrow> complianceCase list \<times> nat" where
  "listComplianceCases d st cat pr asg subject pg =
     (let rows = filter (\<lambda>r. matches st (cc_status r) \<and> matches cat (cc_category r) \<and> matches pr (cc_priority r) \<and>
            (asg = None \<or> cc_assignedToId r = asg) \<and> (subject = None \<or> cc_subjectActorId r = subject)) (complianceCases d)
      in (window pg (newest cc_createdAt rows), length rows))"

definition assignComplianceCase :: "bld_db \<Rightarrow> id \<Rightarrow> id \<Rightarrow> fraudCaseStatus \<Rightarrow> id option \<Rightarrow> (bo_db, complianceCase) tx" where
  "assignComplianceCase b i assignee expected was d =
     bind_r (fk b [Some assignee] []) (\<lambda>_.
     bind_r (swap_row cc_id i (\<lambda>r. cc_status r = expected \<and> cc_assignedToId r = was)
       (\<lambda>r. r\<lparr>cc_assignedToId := Some assignee, cc_status := FS_UNDER_INVESTIGATION\<rparr>)
       STR ''Compliance case status changed; reload and retry.'' (complianceCases d)) (\<lambda>(r, rows).
     Inr (r, d\<lparr>complianceCases := rows\<rparr>)))"

definition decideComplianceCase :: "time \<Rightarrow> id \<Rightarrow> fraudCaseStatus \<Rightarrow> id \<Rightarrow> string option \<Rightarrow> fraudCaseStatus \<Rightarrow> id option \<Rightarrow>
    (bo_db, complianceCase) tx" where
  "decideComplianceCase now i st decider reason expected was d =
     bind_r (swap_row cc_id i (\<lambda>r. cc_status r = expected \<and> cc_assignedToId r = was)
       (\<lambda>r. r\<lparr>cc_status := st, cc_decidedById := Some decider, cc_decisionReason := orKeep reason (cc_decisionReason r),
          cc_decidedAt := Some now, cc_activeDetectionKey := None\<rparr>)
       STR ''Compliance case status changed; reload and retry.'' (complianceCases d)) (\<lambda>(r, rows).
     Inr (r, d\<lparr>complianceCases := rows\<rparr>))"

text \<open>\<open>groupBy\<close> with a lower bound on the count; the groups come in the order of their first row.\<close>

definition groupsOf :: "nat \<Rightarrow> id option list \<Rightarrow> (id \<times> nat) list" where
  "groupsOf minCount ks = (let ids = List.map_filter (\<lambda>k. k) ks
     in filter (\<lambda>(_, n). n \<ge> minCount) (map (\<lambda>k. (k, count_list ids k)) (remdups ids)))"

definition findPersonsWithRepeatedConfirmedFraud :: "bo_db \<Rightarrow> nat \<Rightarrow> (id \<times> nat) list" where
  "findPersonsWithRepeatedConfirmedFraud d n =
     groupsOf n (map fc_targetPersonId (filter (\<lambda>r. fc_status r = FS_CONFIRMED) (fraudCases d)))"

definition findPersonsWithRepeatedSuspensions :: "bo_db \<Rightarrow> nat \<Rightarrow> (id \<times> nat) list" where
  "findPersonsWithRepeatedSuspensions d n =
     groupsOf n (map ea_targetPersonId (filter (\<lambda>a. ea_type a = EA_ACCOUNT_SUSPENSION) (enforcements d)))"

definition findActorsWithRepeatedRejectedPayments :: "siteAudit list \<Rightarrow> nat \<Rightarrow> (id \<times> nat) list" where
  "findActorsWithRepeatedRejectedPayments logs n =
     groupsOf n (map sa_actorId (filter (\<lambda>l. sa_action l = STR ''PaymentRejected'') logs))"

section \<open>Legal holds\<close>

definition createLegalHold :: "bld_db \<Rightarrow> time \<Rightarrow> string \<Rightarrow> string \<Rightarrow> string \<Rightarrow> id \<Rightarrow> (bo_db, auditLegalHold) tx" where
  "createLegalHold b now ty i reason p d =
     bind_r (fk b [Some p] []) (\<lambda>_.
     let h = \<lparr>lh_id = fresh_oid d, lh_entityType = ty, lh_entityId = i, lh_reason = reason, lh_placedById = p,
        lh_placedAt = now, lh_releasedById = None, lh_releasedAt = None, lh_isActive = True\<rparr>
     in Inr (h, take_oid (d\<lparr>legalHolds := legalHolds d @ [h]\<rparr>)))"

definition findLegalHoldById :: "bo_db \<Rightarrow> id \<Rightarrow> auditLegalHold option" where
  "findLegalHoldById d i = find_row lh_id i (legalHolds d)"

definition findActiveLegalHold :: "bo_db \<Rightarrow> string \<Rightarrow> string \<Rightarrow> auditLegalHold option" where
  "findActiveLegalHold d ty i = find (\<lambda>h. lh_entityType h = ty \<and> lh_entityId h = i \<and> lh_isActive h) (legalHolds d)"

definition listLegalHolds :: "bo_db \<Rightarrow> string option \<Rightarrow> string option \<Rightarrow> bool option \<Rightarrow> int \<times> int \<Rightarrow> auditLegalHold list \<times> nat" where
  "listLegalHolds d ty i act pg =
     (let rows = filter (\<lambda>h. matches ty (lh_entityType h) \<and> matches i (lh_entityId h) \<and> matches act (lh_isActive h)) (legalHolds d)
      in (window pg (newest lh_placedAt rows), length rows))"

definition releaseLegalHold :: "time \<Rightarrow> id \<Rightarrow> id \<Rightarrow> (bo_db, auditLegalHold) tx" where
  "releaseLegalHold now i p d =
     bind_r (modify_row lh_id i (\<lambda>h. h\<lparr>lh_isActive := False, lh_releasedById := Some p, lh_releasedAt := Some now\<rparr>) (legalHolds d)) (\<lambda>(h, rows).
     Inr (h, d\<lparr>legalHolds := rows\<rparr>))"

section \<open>Persons and buildings\<close>

text \<open>A target who is staff may only be touched by staff of a higher rank, or by an administrator.\<close>

definition outranked :: "platformStaff \<Rightarrow> platformStaff option \<Rightarrow> bool" where
  "outranked actor target \<longleftrightarrow> (case target of None \<Rightarrow> False | Some t \<Rightarrow> sf_isActive t \<and> sf_role actor \<noteq> PLATFORM_ADMIN \<and>
     PLATFORM_STAFF_RANK (sf_role actor) \<le> PLATFORM_STAFF_RANK (sf_role t))"

definition otherUsableAdmins :: "bld_db \<Rightarrow> bo_db \<Rightarrow> platformStaff \<Rightarrow> nat" where
  "otherUsableAdmins b d t = count_where (\<lambda>f. sf_id f \<noteq> sf_id t \<and> sf_role f = PLATFORM_ADMIN \<and> sf_isActive f \<and>
     (case findPersonById b (sf_personId f) of Some pe \<Rightarrow> \<not> pe_isSuspended pe | None \<Rightarrow> False)) (platformStaffs d)"

definition activeSuspension :: "bo_db \<Rightarrow> id \<Rightarrow> bool" where
  "activeSuspension d p \<longleftrightarrow> list_ex (\<lambda>a. ea_type a = EA_ACCOUNT_SUSPENSION \<and> ea_targetPersonId a = Some p \<and>
     ea_effectApplied a \<and> ea_effectReversedAt a = None) (enforcements d)"

definition revokeTokens :: "time \<Rightarrow> id \<Rightarrow> auth_db \<Rightarrow> auth_db" where
  "revokeTokens now p a = a\<lparr>refreshTokens := upd_where (\<lambda>t. rt_personId t = p \<and> rt_revokedAt t = None)
     (\<lambda>t. t\<lparr>rt_revokedAt := Some now\<rparr>) (refreshTokens a)\<rparr>"

text \<open>The checks both administrative switches of a person begin with: target, actor, rank.\<close>

definition staffTarget :: "id \<Rightarrow> id \<Rightarrow> msg \<Rightarrow> site \<Rightarrow> platformStaff option result" where
  "staffTarget target actor self s =
     bind_r (assert_r (target \<noteq> actor) (ConflictError self)) (\<lambda>_.
     bind_r (assert_r (findPersonById (s_bld s) target \<noteq> None) (NotFoundAppError STR ''Person not found.'')) (\<lambda>_.
     case getActivePlatformStaff (s_bo s) actor of
       None \<Rightarrow> Inl (ConflictError STR ''Active staff identity is required.'')
     | Some f \<Rightarrow> let t = staffOf (s_bo s) target
         in bind_r (assert_r (\<not> outranked f t) (ConflictError STR ''Staff cannot target equal or higher-ranked staff.'')) (\<lambda>_. Inr t)))"

definition setPerson :: "(person \<Rightarrow> bool) \<Rightarrow> (person \<Rightarrow> person) \<Rightarrow> msg \<Rightarrow> bld_db \<Rightarrow> bld_db result" where
  "setPerson P f m b = (if count_where P (persons b) \<noteq> 1 then Inl (ConflictError m)
     else Inr (b\<lparr>persons := upd_where P f (persons b)\<rparr>))"

definition changePersonSuspensionAtomically :: "time \<Rightarrow> id \<Rightarrow> id \<Rightarrow> bool \<Rightarrow> string \<Rightarrow> (site, id \<times> bool) tx" where
  "changePersonSuspensionAtomically now target actor suspend reason s =
     bind_r (staffTarget target actor STR ''Staff cannot change their own suspension state.'' s) (\<lambda>t.
     bind_r (assert_r (\<not> (suspend \<and> (case t of None \<Rightarrow> False | Some f \<Rightarrow> sf_isActive f \<and> sf_role f = PLATFORM_ADMIN \<and>
         otherUsableAdmins (s_bld s) (s_bo s) f = 0)))
       (ConflictError STR ''The last active usable platform admin cannot be suspended.'')) (\<lambda>_.
     bind_r (assert_r (\<not> (\<not> suspend \<and> activeSuspension (s_bo s) target))
       (ConflictError STR ''Active account-suspension enforcement blocks reinstatement.'')) (\<lambda>_.
     bind_r (setPerson (\<lambda>x. pe_id x = target \<and> pe_isSuspended x = (\<not> suspend)) (\<lambda>x. x\<lparr>pe_isSuspended := suspend\<rparr>)
       STR ''Person suspension state changed.'' (s_bld s)) (\<lambda>b.
     Inr ((target, suspend), snd (record_audit (Some actor) None
       (if suspend then STR ''PersonSuspendedByAdmin'' else STR ''PersonReinstatedByAdmin'') target (Some reason)
       (s\<lparr>s_bld := b, s_auth := (if suspend then revokeTokens now target (s_auth s) else s_auth s)\<rparr>)))))))"

definition changePersonBackofficeApprovalAtomically :: "id \<Rightarrow> id \<Rightarrow> bool \<Rightarrow> string option \<Rightarrow> (site, id \<times> bool) tx" where
  "changePersonBackofficeApprovalAtomically target actor approved reason s =
     bind_r (staffTarget target actor STR ''Staff cannot change their own backoffice approval.'' s) (\<lambda>_.
     bind_r (setPerson (\<lambda>x. pe_id x = target \<and> pe_isBackofficeApproved x = (\<not> approved))
       (\<lambda>x. x\<lparr>pe_isBackofficeApproved := approved\<rparr>) STR ''Person backoffice approval state changed.'' (s_bld s)) (\<lambda>b.
     Inr ((target, approved), snd (record_audit (Some actor) None STR ''PersonBackofficeApprovalChanged'' target reason
       (s\<lparr>s_bld := b\<rparr>)))))"

definition isPersonBackofficeApproved :: "bld_db \<Rightarrow> id \<Rightarrow> bool" where
  "isPersonBackofficeApproved b p = (case findPersonById b p of Some pe \<Rightarrow> pe_isBackofficeApproved pe | None \<Rightarrow> False)"

text \<open>
  Searches of the administration screens.  \<open>ilike x q\<close> stands for the database's
  case-insensitive \<open>contains\<close>; a null column contains nothing.
\<close>

definition holds :: "(string \<Rightarrow> string \<Rightarrow> bool) \<Rightarrow> string \<Rightarrow> string option \<Rightarrow> bool" where
  "holds ilike q x = (case x of None \<Rightarrow> False | Some t \<Rightarrow> ilike t q)"

definition searched :: "(string \<Rightarrow> string \<Rightarrow> bool) \<Rightarrow> string option \<Rightarrow> string option list \<Rightarrow> bool" where
  "searched ilike q xs = (case truthy q of None \<Rightarrow> True | Some t \<Rightarrow> list_ex (holds ilike t) xs)"

definition searchPersons :: "(string \<Rightarrow> string \<Rightarrow> bool) \<Rightarrow> bld_db \<Rightarrow> string option \<Rightarrow> bool option \<Rightarrow> bool option \<Rightarrow> int \<times> int \<Rightarrow>
    person list \<times> nat" where
  "searchPersons ilike b q suspended approved pg =
     (let rows = filter (\<lambda>p. matches suspended (pe_isSuspended p) \<and> matches approved (pe_isBackofficeApproved p) \<and>
            searched ilike q [Some (pe_phone p), pe_email p, pe_firstName p, pe_lastName p, pe_fullName p]) (persons b)
      in (window pg (newest pe_createdAt rows), length rows))"

definition getPersonAdminDetail :: "bld_db \<Rightarrow> bo_db \<Rightarrow> id \<Rightarrow> (person \<times> membership list \<times> platformStaff option) option" where
  "getPersonAdminDetail b d p = map_option (\<lambda>pe. (pe, filter (\<lambda>m. mb_personId m = p \<and> mb_isCurrent m) (memberships b), staffOf d p))
     (findPersonById b p)"

definition searchBuildings :: "(string \<Rightarrow> string \<Rightarrow> bool) \<Rightarrow> bld_db \<Rightarrow> string option \<Rightarrow> buildingStatus option \<Rightarrow> bool option \<Rightarrow>
    int \<times> int \<Rightarrow> building list \<times> nat" where
  "searchBuildings ilike b q st recovery pg =
     (let rows = filter (\<lambda>d. matches st (bd_status d) \<and> matches recovery (bd_recoveryModeEnteredAt d \<noteq> None) \<and>
            searched ilike q [Some (bd_name d), Some (bd_addressLine d), Some (bd_postalCode d), Some (bd_city d)]) (buildings b)
      in (window pg (newest bd_createdAt rows), length rows))"

definition getBuildingAdminDetail :: "bld_db \<Rightarrow> id \<Rightarrow> (building \<times> (membership \<times> person option) list) option" where
  "getBuildingAdminDetail b bid = map_option (\<lambda>d. (d, map (\<lambda>m. (m, findPersonById b (mb_personId m)))
     (filter (\<lambda>m. mb_buildingId m = bid \<and> mb_isCurrent m) (memberships b)))) (findBuildingById b bid)"

definition searchPayments :: "(string \<Rightarrow> string \<Rightarrow> bool) \<Rightarrow> bld_db \<Rightarrow> fin_db \<Rightarrow> string option \<Rightarrow> paymentStatus option \<Rightarrow> id option \<Rightarrow>
    int \<times> int \<Rightarrow> (payment \<times> person option) list \<times> nat" where
  "searchPayments ilike b f q st bid pg =
     (let payer = (\<lambda>p. findPersonById b (pm_payerId p));
          rows = filter (\<lambda>p. matches st (pm_status p) \<and> matches bid (pm_buildingId p) \<and>
            searched ilike q [pm_reference p, pm_note p, map_option pe_phone (payer p),
              case payer p of None \<Rightarrow> None | Some x \<Rightarrow> pe_fullName x]) (payments f)
      in (map (\<lambda>p. (p, payer p)) (window pg (newest pm_createdAt rows)), length rows))"

definition getPaymentAdminDetail :: "(id \<Rightarrow> nat) \<Rightarrow> bld_db \<Rightarrow> fin_db \<Rightarrow> id \<Rightarrow> (payment \<times> building option \<times> person option \<times> refund list) option" where
  "getPaymentAdminDetail rank b f i = map_option (\<lambda>p. (p, findBuildingById b (pm_buildingId p), findPersonById b (pm_payerId p),
     newestBy rank rf_createdAt rf_id (filter (\<lambda>r. rf_paymentId r = i) (refunds f)))) (find_row pm_id i (payments f))"

end
