(* ===== verification/Verification_Service.thy ===== *)
theory Verification_Service
  imports Backoffice_Rbac Desk_Repo Governance_Service
begin

text \<open>
  The queues of building and manager verification:
  \<^verbatim>\<open>building-verification.service.ts\<close>, \<^verbatim>\<open>manager-verification.service.ts\<close> and
  \<^verbatim>\<open>backoffice-event-listener.service.ts\<close> under \<^verbatim>\<open>src/src/modules/backoffice/application\<close>,
  with \<^verbatim>\<open>subscription.service.ts\<close>, whose first step the listener runs.
\<close>

section \<open>Building verification\<close>

fun DECISION_TO_STATUS :: "buildingVerificationDecision \<Rightarrow> buildingStatus" where
  "DECISION_TO_STATUS BD_APPROVE = BS_VERIFIED"
| "DECISION_TO_STATUS BD_REJECT = BS_REJECTED"
| "DECISION_TO_STATUS BD_REQUEST_INFORMATION = BS_PENDING_INFORMATION"

definition ELIGIBLE_ASSIGNEE_ROLES :: "platformStaffRole list" where
  "ELIGIBLE_ASSIGNEE_ROLES = [REVIEWER, SENIOR_REVIEWER, PLATFORM_ADMIN]"

definition autoApprovedReason :: string where
  "autoApprovedReason = ''Auto-approved: no risk flags.''"

definition riskCase :: "time \<Rightarrow> id \<Rightarrow> int \<times> msg list \<Rightarrow> buildingCaseParams" where
  "riskCase now bid risk = (let auto = isAutoApproved (fst risk) in
     \<lparr>nb_buildingId = bid, nb_status = (if auto then BS_VERIFIED else BS_UNDER_REVIEW),
      nb_priority = (if fst risk \<ge> 50 then PR_HIGH else PR_NORMAL), nb_riskScore = fst risk, nb_riskFlags = snd risk,
      nb_isAppeal = False, nb_previousCaseId = None, nb_decision = (if auto then Some BD_APPROVE else None),
      nb_reason = (if auto then Some autoApprovedReason else None), nb_decidedAt = (if auto then Some now else None)\<rparr>)"

definition evaluateNewBuilding :: "time \<Rightarrow> id \<Rightarrow> string \<Rightarrow> string \<Rightarrow> string \<Rightarrow> id \<Rightarrow> unit action" where
  "evaluateNewBuilding now bid city district mainStreet creator =
     bind_svc (bld (\<lambda>b. findSimilarAddressBuildings b city district mainStreet bid creator)) (\<lambda>similar.
     let q = riskCase now bid (evaluateRisk (length similar > 0)); auto = isAutoApproved (nb_riskScore q)
     in bind_svc (bo_with_bld (\<lambda>b. createBuildingVerificationCase b now q)) (\<lambda>k.
        bind_svc (bld_tx (updateBuildingStatus bid (nb_status q))) (\<lambda>_.
        bind_svc (record_audit None (Some bid)
          (if auto then STR ''BuildingVerificationAutoApproved'' else STR ''BuildingVerificationQueued'') (bv_id k) None) (\<lambda>_.
        if auto then publish (BuildingVerificationDecidedEvent bid (bv_id k) (nb_status q) creator) else return_svc ()))))"

definition bv_getCase :: "id \<Rightarrow> buildingVerificationCase action" where
  "bv_getCase i = lift_svc (\<lambda>s. case findBuildingVerificationCaseById (s_bo s) i of
       None \<Rightarrow> Inl (NotFoundAppError STR ''Building verification case not found.'') | Some k \<Rightarrow> Inr k)"

definition bv_listCases :: "buildingStatus option \<Rightarrow> verificationPriority option \<Rightarrow> id option \<Rightarrow> paginationParams \<Rightarrow>
    (buildingVerificationCase list \<times> paginationMeta) action" where
  "bv_listCases st pr asg pg = bo (\<lambda>d. case listBuildingVerificationCases d st pr asg (toSkipTake pg) of
     (rows, n) \<Rightarrow> (rows, buildPaginationMeta pg (int n)))"

text \<open>An assignee must be active, unsuspended staff who holds the permission.\<close>

definition displayName :: "assigneeCandidate \<Rightarrow> string option" where
  "displayName c = truthy (map_option trimmed (sx_fullName c))"

definition resolveEligibleAssignee :: "bld_db \<Rightarrow> bo_db \<Rightarrow> id \<Rightarrow> (id \<times> string option) option" where
  "resolveEligibleAssignee b d p = (case findAssigneeCandidate b d p of
       None \<Rightarrow> None
     | Some c \<Rightarrow> if \<not> sf_isActive (sx_staff c) \<or> sx_isSuspended c \<or> \<not> List.member ELIGIBLE_ASSIGNEE_ROLES (sf_role (sx_staff c)) then None
         else if \<not> List.member (resolve d p) PK_BUILDING_VERIFICATION_MANAGE then None
         else Some (p, displayName c))"

definition requireEligibleAssignee :: "bld_db \<Rightarrow> bo_db \<Rightarrow> id \<Rightarrow> (id \<times> string option) result" where
  "requireEligibleAssignee b d p = (case findAssigneeCandidate b d p of
       None \<Rightarrow> Inl (NotFoundAppError STR ''Building verification assignee not found.'')
     | Some _ \<Rightarrow> (case resolveEligibleAssignee b d p of
         None \<Rightarrow> Inl (BusinessRuleViolationError STR ''Assignee is not eligible for Building Verification assignment.'')
       | Some x \<Rightarrow> Inr x))"

text \<open>Sorted by name, or by identifier where there is none; \<open>rank\<close> stands for \<open>localeCompare\<close>.\<close>

definition byName :: "(string \<Rightarrow> nat) \<Rightarrow> (id \<times> string option) list \<Rightarrow> (id \<times> string option) list" where
  "byName rank = sort_key (\<lambda>(i, n). rank (orElse n i))"

definition listEligibleAssignees :: "(string \<Rightarrow> nat) \<Rightarrow> bld_db \<Rightarrow> bo_db \<Rightarrow> (id \<times> string option) list" where
  "listEligibleAssignees rank b d =
     byName rank (List.map_filter (resolveEligibleAssignee b d) (staffPersonIds (bld_collation b) d))"

definition bv_assignCase :: "id \<Rightarrow> id \<Rightarrow> id \<Rightarrow> buildingVerificationCase action" where
  "bv_assignCase i assignee actor =
     bind_svc (bv_getCase i) (\<lambda>k.
     bind_svc (guard (assertDecidable (bv_status k))) (\<lambda>_.
     bind_svc (lift_svc (\<lambda>s. requireEligibleAssignee (s_bld s) (s_bo s) assignee)) (\<lambda>_.
     bind_svc (bo_with_bld (\<lambda>b. assignBuildingVerificationCase b i assignee)) (\<lambda>x.
     bind_svc (record_audit (Some actor) (Some (bv_buildingId k)) STR ''BuildingVerificationAssigned'' i None) (\<lambda>_.
     return_svc x)))))"

definition bv_decideCase :: "time \<Rightarrow> id \<Rightarrow> buildingVerificationDecision \<Rightarrow> id \<Rightarrow> string option \<Rightarrow> buildingVerificationCase action" where
  "bv_decideCase now i dec reviewer reason =
     bind_svc (bv_getCase i) (\<lambda>k.
     bind_svc (guard (assertDecidable (bv_status k))) (\<lambda>_.
     let st = DECISION_TO_STATUS dec in
     bind_svc (bo_tx (decideBuildingVerificationCase now i st dec (Some reviewer) reason)) (\<lambda>x.
     bind_svc (bld_tx (updateBuildingStatus (bv_buildingId k) st)) (\<lambda>d.
     bind_svc (record_audit (Some reviewer) (Some (bv_buildingId k)) STR ''BuildingVerificationDecided'' i reason) (\<lambda>_.
     bind_svc (if st = BS_VERIFIED \<or> st = BS_REJECTED
       then publish (BuildingVerificationDecidedEvent (bv_buildingId k) i st (bd_createdById d)) else return_svc ()) (\<lambda>_.
     return_svc x))))))"

definition bv_appealCase :: "time \<Rightarrow> id \<Rightarrow> id \<Rightarrow> string option \<Rightarrow> buildingVerificationCase action" where
  "bv_appealCase now bid caller reason =
     bind_svc (getById bid) (\<lambda>d.
     bind_svc (lift_svc (\<lambda>s. case getLatestBuildingVerificationCase (s_bo s) bid of
         None \<Rightarrow> Inl (NotFoundAppError STR ''No verification case found for this building.'') | Some k \<Rightarrow> Inr k)) (\<lambda>latest.
     bind_svc (guard (assertCanAppealBuilding (bv_status latest) caller (bd_createdById d))) (\<lambda>_.
     bind_svc (bo_with_bld (\<lambda>b. createBuildingVerificationCase b now \<lparr>nb_buildingId = bid, nb_status = BS_UNDER_REVIEW,
        nb_priority = PR_NORMAL, nb_riskScore = bv_riskScore latest, nb_riskFlags = bv_riskFlags latest, nb_isAppeal = True,
        nb_previousCaseId = Some (bv_id latest), nb_decision = None, nb_reason = None, nb_decidedAt = None\<rparr>)) (\<lambda>appeal.
     bind_svc (bld_tx (updateBuildingStatus bid BS_UNDER_REVIEW)) (\<lambda>_.
     bind_svc (record_audit (Some caller) (Some bid) STR ''BuildingVerificationAppealed'' (bv_id appeal) reason) (\<lambda>_.
     return_svc appeal))))))"

section \<open>Manager verification\<close>

definition initiateForProvisionalManager :: "time \<Rightarrow> id \<Rightarrow> id \<Rightarrow> id \<Rightarrow> bool option \<Rightarrow> managerVerificationCase action" where
  "initiateForProvisionalManager now bid mid cand again =
     bind_svc (bo_with_bld (\<lambda>b. createManagerVerificationCase b now bid mid cand
       (if again = Some True then PR_HIGH else PR_NORMAL) again)) (\<lambda>k.
     bind_svc (record_audit None (Some bid) STR ''ManagerVerificationQueued'' (mv_id k) None) (\<lambda>_.
     return_svc k))"

definition mv_getCase :: "id \<Rightarrow> managerVerificationCase action" where
  "mv_getCase i = lift_svc (\<lambda>s. case findManagerVerificationCaseById (s_bo s) i of
       None \<Rightarrow> Inl (NotFoundAppError STR ''Manager verification case not found.'') | Some k \<Rightarrow> Inr k)"

definition mv_listCases :: "managerVerificationStatus option \<Rightarrow> verificationPriority option \<Rightarrow> paginationParams \<Rightarrow>
    (managerVerificationCase list \<times> paginationMeta) action" where
  "mv_listCases st pr pg = bo (\<lambda>d. case listManagerVerificationCasesPaged d st pr (toSkipTake pg) of
     (rows, n) \<Rightarrow> (rows, buildPaginationMeta pg (int n)))"

definition approveByOwner :: "time \<Rightarrow> id \<Rightarrow> id \<Rightarrow> approvalOutcome action" where
  "approveByOwner now bid caller =
     bind_svc (lift_svc (\<lambda>s. case getOpenManagerVerificationCaseForBuilding (s_bo s) bid of
         Some k \<Rightarrow> Inr k
       | None \<Rightarrow> if findLatestManagerVerificationCaseForBuilding (s_bo s) bid \<noteq> None
           then Inl (ConflictError STR ''Manager verification case is no longer pending.'')
           else Inl (NotFoundAppError STR ''No manager verification case for this building.''))) (\<lambda>k.
     bind_svc (guard (assertCaseOpen (mv_status k))) (\<lambda>_.
     bind_svc (guard (assertNotSelfApproving (mv_candidateId k) caller)) (\<lambda>_.
     bind_svc (lift_svc (\<lambda>s. assert_r (findManagerVerificationApproval (s_bo s) (mv_id k) caller = None)
       (DuplicateError STR ''You have already approved this manager verification.''))) (\<lambda>_.
     bind_svc (site_tx (castManagerVerificationApprovalAtomically now (mv_id k) caller)) (\<lambda>r.
     bind_svc (if ao_resolved r then publish (ManagerVerificationDecidedEvent bid (mv_id k) MV_VERIFIED (mv_candidateId k))
       else return_svc ()) (\<lambda>_.
     return_svc r))))))"

fun decidedStatus :: "managerVerificationDecision \<Rightarrow> managerVerificationStatus" where
  "decidedStatus MD_APPROVE = MV_VERIFIED"
| "decidedStatus MD_REJECT = MV_REJECTED"
| "decidedStatus _ = MV_SUSPENDED"

definition normalizedReason :: "string option \<Rightarrow> string option" where
  "normalizedReason r = truthy (map_option trimmed r)"

definition mv_decideCase :: "time \<Rightarrow> id \<Rightarrow> managerVerificationDecision \<Rightarrow> id \<Rightarrow> string option \<Rightarrow> managerVerificationCase action" where
  "mv_decideCase now i dec reviewer reason =
     bind_svc (mv_getCase i) (\<lambda>k.
     bind_svc (guard (assert_r (mv_status k = MV_PENDING) (ConflictError STR ''Manager verification case is no longer pending.''))) (\<lambda>_.
     bind_svc (site_tx (decideManagerVerificationCaseAtomically now k (decidedStatus dec) dec
       (if dec = MD_APPROVE then Some ADMIN_REVIEW else None) reviewer (normalizedReason reason))) (\<lambda>x.
     bind_svc (publish (ManagerVerificationDecidedEvent (mv_buildingId k) i (decidedStatus dec) (mv_candidateId k))) (\<lambda>_.
     return_svc x))))"

definition restoreManagement :: "time \<Rightarrow> id \<Rightarrow> id \<Rightarrow> string option \<Rightarrow> managerVerificationCase action" where
  "restoreManagement now i reviewer reason =
     bind_svc (mv_getCase i) (\<lambda>k.
     bind_svc (guard (assertCanRestore (mv_status k))) (\<lambda>_.
     bind_svc (site_tx (restoreManagerVerificationCaseAtomically now (mv_id k) reviewer (normalizedReason reason))) (\<lambda>x.
     bind_svc (publish (ManagerVerificationDecidedEvent (mv_buildingId k) (mv_id x) MV_VERIFIED (mv_candidateId k))) (\<lambda>_.
     return_svc x))))"

definition mv_appealCase :: "time \<Rightarrow> id \<Rightarrow> id \<Rightarrow> managerVerificationCase action" where
  "mv_appealCase now bid caller =
     bind_svc (lift_svc (\<lambda>s. case newest mv_createdAt (filter (\<lambda>k. mv_buildingId k = bid \<and> mv_candidateId k = caller)
           (listManagerVerificationCases (s_bo s) None None)) of
         [] \<Rightarrow> Inl (NotFoundAppError STR ''No verification case found for this candidate.'') | k # _ \<Rightarrow> Inr k)) (\<lambda>latest.
     bind_svc (lift_svc (\<lambda>s. assert_r (findActiveManagerVerificationReverification (s_bo s) bid caller = None)
       (ConflictError STR ''A manager verification appeal is already pending.''))) (\<lambda>_.
     bind_svc (guard (assertCanAppealManager (mv_status latest) caller (mv_candidateId latest))) (\<lambda>_.
     site_tx (createManagerVerificationAppealAtomically now (mv_id latest) caller))))"

section \<open>Subscriptions\<close>

definition day :: int where
  "day = 24 * 60 * 60 * 1000"

definition noChange :: changeLogParams where
  "noChange = \<lparr>cl_fromPlan = None, cl_toPlan = None, cl_fromStatus = None, cl_toStatus = None, cl_changedById = None, cl_reason = None\<rparr>"

definition initiateForNewBuilding :: "time \<Rightarrow> id \<Rightarrow> subscription action" where
  "initiateForNewBuilding now bid =
     bind_svc (bo_with_bld (\<lambda>b. createSubscription b now bid (now + defaultTrialDurationDays * day))) (\<lambda>u.
     bind_svc (bo_tx (createSubscriptionChangeLog now (ss_id u) (noChange\<lparr>cl_toPlan := Some FREE, cl_toStatus := Some SS_TRIAL,
       cl_reason := Some ''Trial started automatically on building creation.''\<rparr>))) (\<lambda>_.
     return_svc u))"

definition getForBuilding :: "id \<Rightarrow> subscription action" where
  "getForBuilding bid = lift_svc (\<lambda>s. case findSubscriptionByBuildingId (s_bo s) bid of
       None \<Rightarrow> Inl (NotFoundAppError STR ''This building has no subscription record.'') | Some u \<Rightarrow> Inr u)"

definition getReadDetail :: "id \<Rightarrow> (subscription \<times> featureGrant list) action" where
  "getReadDetail bid = bind_svc (getForBuilding bid) (\<lambda>u. bo (\<lambda>d. (u, grantsOf d (ss_id u))))"

definition changePlan :: "time \<Rightarrow> id \<Rightarrow> subscriptionPlan \<Rightarrow> id \<Rightarrow> string option \<Rightarrow> subscription action" where
  "changePlan now bid plan actor reason =
     bind_svc (getForBuilding bid) (\<lambda>u.
     bind_svc (bo_tx (updateSubscriptionPlan (ss_id u) plan)) (\<lambda>x.
     bind_svc (bo_tx (createSubscriptionChangeLog now (ss_id u) (noChange\<lparr>cl_fromPlan := Some (ss_plan u), cl_toPlan := Some plan,
       cl_changedById := Some actor, cl_reason := reason\<rparr>))) (\<lambda>_.
     bind_svc (record_audit (Some actor) (Some bid) STR ''SubscriptionPlanChanged'' (ss_id u) reason) (\<lambda>_.
     return_svc x))))"

definition changeStatus :: "time \<Rightarrow> id \<Rightarrow> subscriptionStatus \<Rightarrow> id option \<Rightarrow> string option \<Rightarrow> subscription action" where
  "changeStatus now bid st actor reason =
     bind_svc (getForBuilding bid) (\<lambda>u.
     bind_svc (bo_tx (updateSubscriptionStatus (ss_id u) st (if st = SS_CANCELLED then Some now else None)
       (if st = SS_EXPIRED then Some (now + ss_gracePeriodDays u * day) else None))) (\<lambda>x.
     bind_svc (bo_tx (createSubscriptionChangeLog now (ss_id u) (noChange\<lparr>cl_fromStatus := Some (ss_status u), cl_toStatus := Some st,
       cl_changedById := actor, cl_reason := reason\<rparr>))) (\<lambda>_.
     bind_svc (record_audit actor (Some bid) STR ''SubscriptionStatusChanged'' (ss_id u) reason) (\<lambda>_.
     return_svc x))))"

text \<open>Both ways down to the free plan.\<close>

definition downgraded :: "time \<Rightarrow> id \<Rightarrow> id option \<Rightarrow> subscription \<Rightarrow> string \<Rightarrow> msg \<Rightarrow> subscription action" where
  "downgraded now bid actor u why what =
     bind_svc (bo_tx (updateSubscriptionPlan (ss_id u) FREE)) (\<lambda>_.
     bind_svc (bo_tx (updateSubscriptionStatus (ss_id u) SS_ACTIVE None None)) (\<lambda>x.
     bind_svc (bo_tx (createSubscriptionChangeLog now (ss_id u) \<lparr>cl_fromPlan = Some (ss_plan u), cl_toPlan = Some FREE,
       cl_fromStatus = Some (ss_status u), cl_toStatus = Some SS_ACTIVE, cl_changedById = actor, cl_reason = Some why\<rparr>)) (\<lambda>_.
     bind_svc (record_audit actor (Some bid) what (ss_id u) None) (\<lambda>_.
     return_svc x))))"

definition evaluateExpiry :: "time \<Rightarrow> id \<Rightarrow> id option \<Rightarrow> subscription action" where
  "evaluateExpiry now bid actor =
     bind_svc (getForBuilding bid) (\<lambda>u.
     if ss_status u = SS_TRIAL \<and> dueBy now (ss_trialEndsAt u)
       then downgraded now bid actor u ''Trial expired - downgraded to Free (07.04 Exception Case).'' STR ''SubscriptionTrialExpired''
     else if ss_status u = SS_ACTIVE \<and> dueBy now (ss_currentPeriodEndsAt u)
       then changeStatus now bid SS_EXPIRED actor (Some ''Paid period ended - Grace Period started.'')
     else if ss_status u = SS_EXPIRED \<and> dueBy now (ss_gracePeriodEndsAt u)
       then downgraded now bid actor u ''Grace Period ended - downgraded to Free (04.04 Rule 12).'' STR ''SubscriptionGracePeriodEnded''
     else return_svc u)"

definition evaluateAllDueExpiries :: "time \<Rightarrow> (id \<times> string option) list action" where
  "evaluateAllDueExpiries now =
     bind_svc (bo (\<lambda>d. findSubscriptionsDueForEvaluation d now)) (\<lambda>due.
     for_each due (\<lambda>bid. try_catch (bind_svc (evaluateExpiry now bid None) (\<lambda>_. return_svc (bid, None)))
       (\<lambda>e. return_svc (bid, Some (errorMessage e)))))"

definition createGrant :: "time \<Rightarrow> id \<Rightarrow> subscriptionFeatureKey \<Rightarrow> featureGrantType \<Rightarrow> string option \<Rightarrow> time option \<Rightarrow> id \<Rightarrow>
    featureGrant action" where
  "createGrant now bid k ty reason expires actor =
     bind_svc (getForBuilding bid) (\<lambda>u.
     bind_svc (bo_with_bld (\<lambda>b. createFeatureGrant b now (ss_id u) k ty reason actor expires)) (\<lambda>g.
     bind_svc (record_audit (Some actor) (Some bid) STR ''FeatureGrantCreated'' (fg_id g) reason) (\<lambda>_.
     return_svc g)))"

definition revokeGrant :: "time \<Rightarrow> id \<Rightarrow> id \<Rightarrow> featureGrant action" where
  "revokeGrant now i actor =
     bind_svc (lift_svc (\<lambda>s. case findFeatureGrantById (s_bo s) i of
         None \<Rightarrow> Inl (NotFoundAppError STR ''Feature grant not found.'') | Some g \<Rightarrow> Inr g)) (\<lambda>g.
     bind_svc (guard (assertGrantRevocable (fg_revokedAt g))) (\<lambda>_.
     bind_svc (bo_tx (revokeFeatureGrant now i actor)) (\<lambda>x.
     bind_svc (record_audit (Some actor) None STR ''FeatureGrantRevoked'' i None) (\<lambda>_.
     return_svc x))))"

definition activeGrantKeys :: "bo_db \<Rightarrow> time \<Rightarrow> id \<Rightarrow> subscriptionFeatureKey list" where
  "activeGrantKeys d now i = map fg_featureKey (filter (\<lambda>g. isGrantActive g now) (grantsOf d i))"

definition resolveEffectiveFeatures :: "time \<Rightarrow> id \<Rightarrow> (subscriptionPlan \<times> subscriptionStatus \<times> effectiveFeatureEntry list) action" where
  "resolveEffectiveFeatures now bid =
     bind_svc (getForBuilding bid) (\<lambda>u.
     bo (\<lambda>d. (ss_plan u, ss_status u, effectiveFeatures (ss_plan u) (activeGrantKeys d now (ss_id u)))))"

definition getHistory :: "id \<Rightarrow> subscriptionChangeLog list action" where
  "getHistory bid = bind_svc (getForBuilding bid) (\<lambda>u. bo (\<lambda>d. listSubscriptionHistory d (ss_id u)))"

section \<open>New buildings\<close>

definition onBuildingCreated :: "time \<Rightarrow> id \<Rightarrow> id \<Rightarrow> membershipRole \<Rightarrow> unit action" where
  "onBuildingCreated now bid creator role =
     bind_svc (bld (\<lambda>b. findBuildingById b bid)) (\<lambda>d.
     case d of None \<Rightarrow> return_svc ()
     | Some x \<Rightarrow>
     bind_svc (evaluateNewBuilding now bid (bd_city x) (bd_district x) (bd_mainStreet x) creator) (\<lambda>_.
     bind_svc (initiateForNewBuilding now bid) (\<lambda>_.
     if role = MANAGER then
       bind_svc (bld (\<lambda>b. getCurrentManagerMembership b bid)) (\<lambda>m.
       case m of None \<Rightarrow> return_svc ()
       | Some mb \<Rightarrow> bind_svc (initiateForProvisionalManager now bid (mb_id mb) creator None) (\<lambda>_. return_svc ()))
     else return_svc ())))"

end
