(* ===== verification/Desk_Service.thy ===== *)
theory Desk_Service
  imports Verification_Service
begin

text \<open>
  The desks of the back office under \<^verbatim>\<open>src/src/modules/backoffice/application\<close>: fraud cases
  and enforcement, support cases, compliance cases, legal holds, and the administration of
  persons, buildings and votes.
\<close>

section \<open>Fraud\<close>

definition fraudTarget :: "id option \<Rightarrow> id option \<Rightarrow> msg \<Rightarrow> unit result" where
  "fraudTarget p bid m = assert_r (\<not> (truthy p = None \<and> truthy bid = None)) (ValidationError m)"

definition fraud_report :: "time \<Rightarrow> id option \<Rightarrow> id option \<Rightarrow> string \<Rightarrow> id \<Rightarrow> fraudCase action" where
  "fraud_report now p bid description reporter =
     bind_svc (guard (fraudTarget p bid STR ''A fraud report must target either a person or a building.'')) (\<lambda>_.
     bind_svc (bo_with_bld (\<lambda>b. createFraudCase b now \<lparr>nf_source = USER_REPORT, nf_signalType = None, nf_priority = PR_NORMAL,
       nf_reportedById = Some reporter, nf_targetPersonId = p, nf_targetBuildingId = bid, nf_description = Some description,
       nf_isReopen = False, nf_previousCaseId = None\<rparr>)) (\<lambda>k.
     bind_svc (record_audit (Some reporter) None STR ''FraudCaseReported'' (fc_id k) None) (\<lambda>_.
     return_svc k)))"

definition fraud_openCase :: "time \<Rightarrow> fraudSignalType \<Rightarrow> id option \<Rightarrow> id option \<Rightarrow> verificationPriority option \<Rightarrow> string option \<Rightarrow> id \<Rightarrow>
    fraudCase action" where
  "fraud_openCase now sig p bid pr description staff =
     bind_svc (guard (fraudTarget p bid STR ''A fraud case must target either a person or a building.'')) (\<lambda>_.
     bind_svc (bo_with_bld (\<lambda>b. createFraudCase b now \<lparr>nf_source = SYSTEM_SIGNAL, nf_signalType = Some sig,
       nf_priority = orElse pr PR_NORMAL, nf_reportedById = None, nf_targetPersonId = p, nf_targetBuildingId = bid,
       nf_description = description, nf_isReopen = False, nf_previousCaseId = None\<rparr>)) (\<lambda>k.
     bind_svc (record_audit (Some staff) None STR ''FraudCaseOpened'' (fc_id k) None) (\<lambda>_.
     return_svc k)))"

definition fraud_getCase :: "id \<Rightarrow> fraudCase action" where
  "fraud_getCase i = lift_svc (\<lambda>s. case findFraudCaseById (s_bo s) i of
       None \<Rightarrow> Inl (NotFoundAppError STR ''Fraud case not found.'') | Some k \<Rightarrow> Inr k)"

definition fraud_listCases :: "fraudCaseStatus option \<Rightarrow> verificationPriority option \<Rightarrow> id option \<Rightarrow> paginationParams \<Rightarrow>
    (fraudCase list \<times> paginationMeta) action" where
  "fraud_listCases st pr asg pg = bo (\<lambda>d. case listFraudCases d st pr asg (toSkipTake pg) of
     (rows, n) \<Rightarrow> (rows, buildPaginationMeta pg (int n)))"

definition fraud_assignCase :: "id \<Rightarrow> id \<Rightarrow> id \<Rightarrow> fraudCase action" where
  "fraud_assignCase i assignee actor =
     bind_svc (fraud_getCase i) (\<lambda>k.
     bind_svc (guard (assertInvestigable (fc_status k))) (\<lambda>_.
     bind_svc (lift_svc (\<lambda>s. assert_r (List.member (resolve (s_bo s) assignee) PK_FRAUD_MANAGE)
       (ValidationError STR ''The assignee must be active platform staff with FRAUD_MANAGE.''))) (\<lambda>_.
     bind_svc (bo_with_bld (\<lambda>b. assignFraudCase b i assignee (fc_status k))) (\<lambda>x.
     bind_svc (record_audit (Some actor) None STR ''FraudCaseAssigned'' i None) (\<lambda>_.
     return_svc x)))))"

definition addEvidence :: "time \<Rightarrow> id \<Rightarrow> string \<Rightarrow> id \<Rightarrow> (fraudCase \<times> fraudCaseEvidence list) action" where
  "addEvidence now i notes actor =
     bind_svc (fraud_getCase i) (\<lambda>k.
     bind_svc (guard (assertInvestigable (fc_status k))) (\<lambda>_.
     bind_svc (bo_with_bld (\<lambda>b. addFraudCaseEvidence b now i notes actor)) (\<lambda>x.
     bind_svc (record_audit (Some actor) None STR ''FraudCaseEvidenceAdded'' i None) (\<lambda>_.
     return_svc x))))"

text \<open>\<open>True\<close> is CONFIRM, \<open>False\<close> is DISMISS.\<close>

definition verdict :: "bool \<Rightarrow> fraudCaseStatus" where
  "verdict confirm = (if confirm then FS_CONFIRMED else FS_DISMISSED)"

definition fraud_decideCase :: "time \<Rightarrow> id \<Rightarrow> bool \<Rightarrow> id \<Rightarrow> string option \<Rightarrow> fraudCase action" where
  "fraud_decideCase now i confirm reviewer reason =
     bind_svc (fraud_getCase i) (\<lambda>k.
     bind_svc (guard (assertInvestigable (fc_status k))) (\<lambda>_.
     bind_svc (bo_tx (decideFraudCase now i (verdict confirm) reviewer reason (fc_status k))) (\<lambda>x.
     bind_svc (record_audit (Some reviewer) None STR ''FraudCaseDecided'' i reason) (\<lambda>_.
     bind_svc (publish (FraudCaseDecidedEvent i (verdict confirm) (fc_reportedById k))) (\<lambda>_.
     return_svc x)))))"

definition fraud_reopenCase :: "time \<Rightarrow> id \<Rightarrow> string \<Rightarrow> id \<Rightarrow> fraudCase action" where
  "fraud_reopenCase now i newEvidence actor =
     bind_svc (fraud_getCase i) (\<lambda>k.
     bind_svc (guard (assertFraudCanReopen (fc_status k))) (\<lambda>_.
     bind_svc (bo_with_bld (\<lambda>b. createFraudCase b now \<lparr>nf_source = fc_source k, nf_signalType = fc_signalType k,
       nf_priority = fc_priority k, nf_reportedById = fc_reportedById k, nf_targetPersonId = fc_targetPersonId k,
       nf_targetBuildingId = fc_targetBuildingId k, nf_description = Some newEvidence, nf_isReopen = True,
       nf_previousCaseId = Some (fc_id k)\<rparr>)) (\<lambda>x.
     bind_svc (record_audit (Some actor) None STR ''FraudCaseReopened'' (fc_id x) None) (\<lambda>_.
     return_svc x))))"

definition assertTargetMatchesType :: "enforcementParams \<Rightarrow> fraudCase \<Rightarrow> unit result" where
  "assertTargetMatchesType q k =
     (let p = truthy (ne_targetPersonId q); d = truthy (ne_targetBuildingId q); m = truthy (ne_targetMembershipId q);
          off = ValidationError STR ''The enforcement target must match the confirmed fraud case.'' in
     bind_r (assert_r (\<not> (ne_type q = EA_ACCOUNT_SUSPENSION \<and> ne_targetType q \<noteq> TT_PERSON))
       (ValidationError STR ''ACCOUNT_SUSPENSION may only target a PERSON.'')) (\<lambda>_.
     bind_r (assert_r (\<not> (ne_type q = EA_VERIFICATION_REVOCATION \<and> ne_targetType q \<noteq> TT_BUILDING \<and> ne_targetType q \<noteq> TT_MANAGER_CLAIM))
       (ValidationError STR ''VERIFICATION_REVOCATION may only target a BUILDING or MANAGER_CLAIM.'')) (\<lambda>_.
     case ne_targetType q of
       TT_PERSON \<Rightarrow>
         bind_r (assert_r (p \<noteq> None \<and> d = None \<and> m = None) (ValidationError STR ''PERSON requires only targetPersonId.'')) (\<lambda>_.
         assert_r (fc_targetPersonId k = ne_targetPersonId q) off)
     | TT_BUILDING \<Rightarrow>
         bind_r (assert_r (d \<noteq> None \<and> p = None \<and> m = None) (ValidationError STR ''BUILDING requires only targetBuildingId.'')) (\<lambda>_.
         assert_r (fc_targetBuildingId k = ne_targetBuildingId q) off)
     | TT_MANAGER_CLAIM \<Rightarrow>
         bind_r (assert_r (m \<noteq> None \<and> d \<noteq> None \<and> p = None)
           (ValidationError STR ''MANAGER_CLAIM requires targetMembershipId and targetBuildingId only.'')) (\<lambda>_.
         assert_r (fc_targetBuildingId k = ne_targetBuildingId q) off))))"

text \<open>The key of a request is the case and the request's own identifier.\<close>

definition enforcementKey :: "id \<Rightarrow> string \<Rightarrow> string" where
  "enforcementKey i requestId = i @ '':'' @ requestId"

definition enforce :: "time \<Rightarrow> id \<Rightarrow> enforcementParams \<Rightarrow> id \<Rightarrow> string \<Rightarrow> enforcementAction action" where
  "enforce now i q issuer requestId =
     bind_svc (fraud_getCase i) (\<lambda>k.
     bind_svc (guard (assert_r (fc_status k = FS_CONFIRMED) (BusinessRuleViolationError
       STR ''Enforcement actions may only be issued against a CONFIRMED fraud case.''))) (\<lambda>_.
     bind_svc (guard (assertTargetMatchesType q k)) (\<lambda>_.
     bind_svc (lift_svc (\<lambda>s. case getActivePlatformStaff (s_bo s) issuer of
         None \<Rightarrow> Inl (AuthorizationError STR ''This action requires platform staff access.'') | Some f \<Rightarrow> Inr f)) (\<lambda>f.
     bind_svc (guard (assertCanIssueEnforcement (ne_type q) (sf_role f))) (\<lambda>_.
     bind_svc (site_tx (createEnforcementActionWithEffect now
       (q\<lparr>ne_fraudCaseId := i, ne_issuedById := issuer, ne_idempotencyKey := enforcementKey i requestId\<rparr>))) (\<lambda>(a, created).
     if \<not> created then return_svc a else
     bind_svc (record_audit (Some issuer) None STR ''EnforcementActionIssued'' (ea_id a) (ne_reason q)) (\<lambda>_.
     bind_svc (case truthy (ne_targetPersonId q) of None \<Rightarrow> return_svc ()
       | Some p \<Rightarrow> publish (EnforcementActionIssuedEvent (ea_id a) i (ne_type q) p)) (\<lambda>_.
     return_svc a))))))))"

definition theEnforcement :: "id \<Rightarrow> enforcementAction action" where
  "theEnforcement i = lift_svc (\<lambda>s. case findEnforcementActionById (s_bo s) i of
       None \<Rightarrow> Inl (NotFoundAppError STR ''Enforcement action not found.'') | Some a \<Rightarrow> Inr a)"

definition appealEnforcement :: "time \<Rightarrow> id \<Rightarrow> id \<Rightarrow> string option \<Rightarrow> enforcementAction action" where
  "appealEnforcement now i caller reason =
     bind_svc (theEnforcement i) (\<lambda>a.
     bind_svc (bld (\<lambda>b. resolveEnforcementAppellant b a)) (\<lambda>entitled.
     bind_svc (guard (assertCanAppealEnforcement (ea_appealStatus a) entitled caller)) (\<lambda>_.
     bind_svc (bo_tx (requestEnforcementAppeal now i reason)) (\<lambda>x.
     bind_svc (record_audit (Some caller) None STR ''EnforcementActionAppealed'' i reason) (\<lambda>_.
     return_svc x)))))"

definition decideEnforcementAppeal :: "time \<Rightarrow> id \<Rightarrow> bool \<Rightarrow> id \<Rightarrow> string option \<Rightarrow> enforcementAction action" where
  "decideEnforcementAppeal now i uphold decider reason =
     bind_svc (theEnforcement i) (\<lambda>a.
     bind_svc (guard (assertAppealDecidable (ea_appealStatus a))) (\<lambda>_.
     bind_svc (site_tx (repo_decideEnforcementAppeal now i (if uphold then AP_UPHELD else AP_OVERTURNED) decider)) (\<lambda>x.
     bind_svc (record_audit (Some decider) None STR ''EnforcementActionAppealDecided'' i reason) (\<lambda>_.
     return_svc x))))"

section \<open>Support\<close>

definition support_open :: "time \<Rightarrow> supportCaseCategory \<Rightarrow> string \<Rightarrow> string \<Rightarrow> verificationPriority option \<Rightarrow> string option \<Rightarrow> string option \<Rightarrow>
    id \<Rightarrow> supportCase action" where
  "support_open now cat subject description pr ty i p =
     bind_svc (bo_with_bld (\<lambda>b. createSupportCase b now \<lparr>ns_category = cat, ns_priority = orElse pr PR_NORMAL, ns_subject = subject,
       ns_description = description, ns_createdById = p, ns_linkedEntityType = ty, ns_linkedEntityId = i\<rparr>)) (\<lambda>k.
     bind_svc (record_audit (Some p) None STR ''SupportCaseOpened'' (su_id k) None) (\<lambda>_.
     return_svc k))"

definition support_getCase :: "id \<Rightarrow> supportCase action" where
  "support_getCase i = lift_svc (\<lambda>s. case findSupportCaseById (s_bo s) i of
       None \<Rightarrow> Inl (NotFoundAppError STR ''Support case not found.'') | Some k \<Rightarrow> Inr k)"

definition getCaseForOwner :: "id \<Rightarrow> id \<Rightarrow> (supportCase \<times> supportCaseMessage list) action" where
  "getCaseForOwner i caller =
     bind_svc (bo (\<lambda>d. findSupportCaseForOwner d i caller)) (\<lambda>r.
     case r of Some x \<Rightarrow> return_svc x
     | None \<Rightarrow>
     bind_svc (support_getCase i) (\<lambda>k.
     bind_svc (guard (assertVisibleToNonStaff (su_createdById k) caller)) (\<lambda>_.
     throw_svc (NotFoundAppError STR ''Support case not found.''))))"

definition support_listCases :: "caseStatus option \<Rightarrow> verificationPriority option \<Rightarrow> supportCaseCategory option \<Rightarrow> id option \<Rightarrow>
    paginationParams \<Rightarrow> (supportCase list \<times> paginationMeta) action" where
  "support_listCases st pr cat asg pg = bo (\<lambda>d. case listSupportCases d st pr cat asg (toSkipTake pg) of
     (rows, n) \<Rightarrow> (rows, buildPaginationMeta pg (int n)))"

definition listMine :: "id \<Rightarrow> paginationParams \<Rightarrow> (supportCase list \<times> paginationMeta) action" where
  "listMine p pg = query (\<lambda>s. case listSupportCasesForCreator (bld_collation (s_bld s)) (s_bo s) p (toSkipTake pg) of
     (rows, n) \<Rightarrow> (rows, buildPaginationMeta pg (int n)))"

definition support_assign :: "id \<Rightarrow> id \<Rightarrow> id \<Rightarrow> supportCase action" where
  "support_assign i assignee actor =
     bind_svc (support_getCase i) (\<lambda>k.
     bind_svc (guard (assertActionable (su_status k))) (\<lambda>_.
     bind_svc (lift_svc (\<lambda>s. assert_r (List.member (resolve (s_bo s) assignee) PK_SUPPORT_MANAGE)
       (ValidationError STR ''The assignee must be active platform staff with SUPPORT_MANAGE.''))) (\<lambda>_.
     bind_svc (bo_with_bld (\<lambda>b. assignSupportCase b i assignee (su_status k))) (\<lambda>x.
     bind_svc (record_audit (Some actor) None STR ''SupportCaseAssigned'' i None) (\<lambda>_.
     return_svc x)))))"

definition addStaffMessage :: "time \<Rightarrow> id \<Rightarrow> string \<Rightarrow> bool \<Rightarrow> id \<Rightarrow> supportCaseMessage action" where
  "addStaffMessage now i body internal sender =
     bind_svc (support_getCase i) (\<lambda>k.
     bind_svc (guard (assertActionable (su_status k))) (\<lambda>_.
     bind_svc (bo_with_bld (\<lambda>b. addSupportCaseMessage b now i sender body internal)) (\<lambda>m.
     bind_svc (if su_status k = CS_OPEN \<and> \<not> internal
       then bind_svc (bo_tx (updateSupportCaseStatus now i CS_WAITING_USER)) (\<lambda>_. return_svc ()) else return_svc ()) (\<lambda>_.
     bind_svc (record_audit (Some sender) None STR ''SupportCaseMessageAdded'' i None) (\<lambda>_.
     return_svc m)))))"

definition replyAsCreator :: "time \<Rightarrow> id \<Rightarrow> string \<Rightarrow> id \<Rightarrow> supportCaseMessage action" where
  "replyAsCreator now i body caller =
     bind_svc (getCaseForOwner i caller) (\<lambda>(k, _).
     bind_svc (guard (assertActionable (su_status k))) (\<lambda>_.
     bind_svc (bo_with_bld (\<lambda>b. addSupportCaseMessage b now i caller body False)) (\<lambda>m.
     bind_svc (if su_status k = CS_WAITING_USER
       then bind_svc (bo_tx (updateSupportCaseStatus now i CS_IN_PROGRESS)) (\<lambda>_. return_svc ()) else return_svc ()) (\<lambda>_.
     bind_svc (record_audit (Some caller) None STR ''SupportCaseMessageAdded'' i None) (\<lambda>_.
     return_svc m)))))"

definition support_resolve :: "time \<Rightarrow> id \<Rightarrow> supportCaseResolutionCode \<Rightarrow> string option \<Rightarrow> id \<Rightarrow> supportCase action" where
  "support_resolve now i code note actor =
     bind_svc (support_getCase i) (\<lambda>k.
     bind_svc (guard (assertActionable (su_status k))) (\<lambda>_.
     bind_svc (bo_tx (resolveSupportCase now i code note (su_status k))) (\<lambda>x.
     bind_svc (record_audit (Some actor) None STR ''SupportCaseResolved'' i None) (\<lambda>_.
     bind_svc (publish (SupportCaseResolvedEvent i (su_createdById k))) (\<lambda>_.
     return_svc x)))))"

definition support_close :: "time \<Rightarrow> id \<Rightarrow> id \<Rightarrow> supportCase action" where
  "support_close now i actor =
     bind_svc (support_getCase i) (\<lambda>k.
     bind_svc (guard (assertResolvedForClose (su_status k))) (\<lambda>_.
     bind_svc (bo_tx (updateSupportCaseStatus now i CS_CLOSED)) (\<lambda>x.
     bind_svc (record_audit (Some actor) None STR ''SupportCaseClosed'' i None) (\<lambda>_.
     return_svc x))))"

definition support_reopen :: "time \<Rightarrow> id \<Rightarrow> string \<Rightarrow> id \<Rightarrow> supportCase action" where
  "support_reopen now i reason actor =
     bind_svc (getCaseForOwner i actor) (\<lambda>(k, _).
     bind_svc (guard (assert_r (su_mergedIntoId k = None) (ValidationError STR ''A merged support case cannot be reopened.''))) (\<lambda>_.
     bind_svc (guard (assertSupportCanReopen (su_status k))) (\<lambda>_.
     bind_svc (bo_tx (reopenSupportCase i (su_status k))) (\<lambda>x.
     bind_svc (bo_with_bld (\<lambda>b. addSupportCaseMessage b now i actor (''Reopened: '' @ reason) False)) (\<lambda>_.
     bind_svc (record_audit (Some actor) None STR ''SupportCaseReopened'' i (Some reason)) (\<lambda>_.
     return_svc x))))))"

definition support_escalate :: "id \<Rightarrow> id \<Rightarrow> supportCase action" where
  "support_escalate i actor =
     bind_svc (support_getCase i) (\<lambda>k.
     bind_svc (guard (assertActionable (su_status k))) (\<lambda>_.
     bind_svc (guard (nextEscalatedPriority (su_priority k))) (\<lambda>pr.
     bind_svc (bo_tx (escalateSupportCasePriority i pr)) (\<lambda>x.
     bind_svc (record_audit (Some actor) None STR ''SupportCaseEscalated'' i None) (\<lambda>_.
     return_svc x)))))"

definition supportMergeTarget :: "id \<Rightarrow> supportCase \<Rightarrow> unit result" where
  "supportMergeTarget i t =
     bind_r (assert_r (su_mergedIntoId t \<noteq> Some i) (ValidationError STR ''This support-case merge would create a cycle.'')) (\<lambda>_.
     bind_r (assert_r (su_mergedIntoId t = None) (ValidationError STR ''Cannot merge into an already merged case.'')) (\<lambda>_.
     assert_r (\<not> (su_status t = CS_RESOLVED \<or> su_status t = CS_CLOSED)) (ValidationError STR ''Cannot merge into a terminal case.'')))"

definition support_merge :: "time \<Rightarrow> id \<Rightarrow> id \<Rightarrow> id \<Rightarrow> supportCase action" where
  "support_merge now i j actor =
     bind_svc (guard (assert_r (i \<noteq> j) (ValidationError STR ''A support case cannot be merged into itself.''))) (\<lambda>_.
     bind_svc (support_getCase i) (\<lambda>k.
     bind_svc (guard (assertActionable (su_status k))) (\<lambda>_.
     bind_svc (guard (assert_r (su_mergedIntoId k = None) (ValidationError STR ''Cannot merge an already merged case.''))) (\<lambda>_.
     bind_svc (support_getCase j) (\<lambda>t.
     bind_svc (guard (supportMergeTarget i t)) (\<lambda>_.
     bind_svc (bo_tx (mergeSupportCase now i j (su_status k))) (\<lambda>x.
     bind_svc (record_audit (Some actor) None STR ''SupportCaseMerged'' i None) (\<lambda>_.
     return_svc x))))))))"

section \<open>Compliance\<close>

definition REPEATED_FRAUD_THRESHOLD :: nat where "REPEATED_FRAUD_THRESHOLD = 3"

definition REPEATED_SUSPENSION_THRESHOLD :: nat where "REPEATED_SUSPENSION_THRESHOLD = 2"

definition FINANCIAL_ANOMALY_THRESHOLD :: nat where "FINANCIAL_ANOMALY_THRESHOLD = 3"

definition compliance_open :: "time \<Rightarrow> complianceCaseParams \<Rightarrow> id \<Rightarrow> complianceCase action" where
  "compliance_open now q staff =
     bind_svc (bo_with_bld (\<lambda>b. createComplianceCase b now
       (q\<lparr>nx_isAutoDetected := False, nx_openedById := Some staff, nx_activeDetectionKey := None\<rparr>))) (\<lambda>k.
     bind_svc (record_audit (Some staff) None STR ''ComplianceCaseOpened'' (cc_id k) None) (\<lambda>_.
     return_svc k))"

definition compliance_getCase :: "id \<Rightarrow> complianceCase action" where
  "compliance_getCase i = lift_svc (\<lambda>s. case findComplianceCaseById (s_bo s) i of
       None \<Rightarrow> Inl (NotFoundAppError STR ''Compliance case not found.'') | Some k \<Rightarrow> Inr k)"

definition compliance_listCases :: "fraudCaseStatus option \<Rightarrow> complianceCaseCategory option \<Rightarrow> verificationPriority option \<Rightarrow>
    id option \<Rightarrow> id option \<Rightarrow> paginationParams \<Rightarrow> (complianceCase list \<times> paginationMeta) action" where
  "compliance_listCases st cat pr asg subject pg = bo (\<lambda>d. case listComplianceCases d st cat pr asg subject (toSkipTake pg) of
     (rows, n) \<Rightarrow> (rows, buildPaginationMeta pg (int n)))"

definition eligibleForCompliance :: "bld_db \<Rightarrow> bo_db \<Rightarrow> id \<Rightarrow> (id \<times> string option) option" where
  "eligibleForCompliance b d p = (case findAssigneeCandidate b d p of
       None \<Rightarrow> None
     | Some c \<Rightarrow> if \<not> sf_isActive (sx_staff c) \<or> sx_isSuspended c then None
         else if \<not> List.member (resolve d p) PK_COMPLIANCE_MANAGE then None
         else Some (p, displayName c))"

definition requireComplianceAssignee :: "bld_db \<Rightarrow> bo_db \<Rightarrow> id \<Rightarrow> (id \<times> string option) result" where
  "requireComplianceAssignee b d p = (case findAssigneeCandidate b d p of
       None \<Rightarrow> Inl (NotFoundAppError STR ''Compliance assignee not found.'')
     | Some _ \<Rightarrow> (case eligibleForCompliance b d p of
         None \<Rightarrow> Inl (BusinessRuleViolationError STR ''Assignee is not eligible for Compliance assignment.'')
       | Some x \<Rightarrow> Inr x))"

definition listComplianceAssignees :: "(string \<Rightarrow> nat) \<Rightarrow> bld_db \<Rightarrow> bo_db \<Rightarrow> (id \<times> string option) list" where
  "listComplianceAssignees rank b d =
     byName rank (List.map_filter (eligibleForCompliance b d) (staffPersonIds (bld_collation b) d))"

definition compliance_assign :: "id \<Rightarrow> id \<Rightarrow> id \<Rightarrow> complianceCase action" where
  "compliance_assign i assignee actor =
     bind_svc (compliance_getCase i) (\<lambda>k.
     bind_svc (guard (assertComplianceInvestigable (cc_status k))) (\<lambda>_.
     bind_svc (guard (assert_r (\<not> (cc_status k = FS_UNDER_INVESTIGATION \<and> cc_assignedToId k = Some assignee))
       (ConflictError STR ''Compliance case is already assigned to this staff member.''))) (\<lambda>_.
     bind_svc (lift_svc (\<lambda>s. requireComplianceAssignee (s_bld s) (s_bo s) assignee)) (\<lambda>_.
     bind_svc (bo_with_bld (\<lambda>b. assignComplianceCase b i assignee (cc_status k) (cc_assignedToId k))) (\<lambda>x.
     bind_svc (record_audit (Some actor) None STR ''ComplianceCaseAssigned'' i None) (\<lambda>_.
     return_svc x))))))"

definition compliance_decide :: "time \<Rightarrow> id \<Rightarrow> bool \<Rightarrow> id \<Rightarrow> string option \<Rightarrow> complianceCase action" where
  "compliance_decide now i confirm decider reason =
     bind_svc (compliance_getCase i) (\<lambda>k.
     bind_svc (guard (assertComplianceInvestigable (cc_status k))) (\<lambda>_.
     bind_svc (bo_tx (decideComplianceCase now i (verdict confirm) decider reason (cc_status k) (cc_assignedToId k))) (\<lambda>x.
     bind_svc (record_audit (Some decider) None STR ''ComplianceCaseDecided'' i reason) (\<lambda>_.
     return_svc x))))"

text \<open>The description keeps its fixed text.\<close>

definition autoOpen :: "time \<Rightarrow> id option \<Rightarrow> complianceCaseCategory \<Rightarrow> string \<Rightarrow> id \<times> nat \<Rightarrow> complianceCase option action" where
  "autoOpen now staff cat describedAs g =
     bind_svc (bo_with_bld (\<lambda>b. createAutoDetectedComplianceCase b now cat (fst g)
       (''Auto-detected: '' @ describedAs @ '' for this actor.''))) (\<lambda>k.
     case k of None \<Rightarrow> return_svc None
     | Some x \<Rightarrow> bind_svc (record_audit staff None STR ''ComplianceCaseAutoOpened'' (cc_id x) None) (\<lambda>_. return_svc (Some x)))"

definition sweepGroups :: "time \<Rightarrow> id option \<Rightarrow> complianceCaseCategory \<Rightarrow> string \<Rightarrow> (id \<times> nat) list \<Rightarrow> complianceCase list action" where
  "sweepGroups now staff cat describedAs gs =
     bind_svc (for_each (filter (\<lambda>(p, _). p \<noteq> []) gs) (autoOpen now staff cat describedAs)) (\<lambda>ks.
     return_svc (List.map_filter (\<lambda>k. k) ks))"

definition detectAnomalies :: "time \<Rightarrow> id option \<Rightarrow> complianceCase list action" where
  "detectAnomalies now staff =
     bind_svc (bo (\<lambda>d. findPersonsWithRepeatedConfirmedFraud d REPEATED_FRAUD_THRESHOLD)) (\<lambda>fg.
     bind_svc (sweepGroups now staff CC_REPEATED_FRAUD ''CONFIRMED fraud cases'' fg) (\<lambda>c1.
     bind_svc (bo (\<lambda>d. findPersonsWithRepeatedSuspensions d REPEATED_SUSPENSION_THRESHOLD)) (\<lambda>sg.
     bind_svc (sweepGroups now staff CC_REPEATED_SUSPENSION ''ACCOUNT_SUSPENSION enforcement actions'' sg) (\<lambda>c2.
     bind_svc (query (\<lambda>s. findActorsWithRepeatedRejectedPayments (s_audit s) FINANCIAL_ANOMALY_THRESHOLD)) (\<lambda>rg.
     bind_svc (sweepGroups now staff CC_FINANCIAL_ANOMALY ''rejected-payment audit events'' rg) (\<lambda>c3.
     return_svc (c1 @ c2 @ c3)))))))"

section \<open>Legal holds\<close>

definition hold_place :: "time \<Rightarrow> string \<Rightarrow> string \<Rightarrow> string \<Rightarrow> id \<Rightarrow> auditLegalHold action" where
  "hold_place now ty i reason staff =
     bind_svc (lift_svc (\<lambda>s. assertCanPlace (findActiveLegalHold (s_bo s) ty i))) (\<lambda>_.
     bind_svc (bo_with_bld (\<lambda>b. createLegalHold b now ty i reason staff)) (\<lambda>h.
     bind_svc (record_audit (Some staff) None STR ''LegalHoldPlaced'' (lh_id h) (Some reason)) (\<lambda>_.
     return_svc h)))"

definition hold_list :: "string option \<Rightarrow> string option \<Rightarrow> bool option \<Rightarrow> paginationParams \<Rightarrow> (auditLegalHold list \<times> paginationMeta) action" where
  "hold_list ty i act pg = bo (\<lambda>d. case listLegalHolds d ty i act (toSkipTake pg) of
     (rows, n) \<Rightarrow> (rows, buildPaginationMeta pg (int n)))"

definition hold_release :: "time \<Rightarrow> id \<Rightarrow> id \<Rightarrow> auditLegalHold action" where
  "hold_release now i staff =
     bind_svc (lift_svc (\<lambda>s. assertCanRelease (findLegalHoldById (s_bo s) i))) (\<lambda>_.
     bind_svc (bo_tx (releaseLegalHold now i staff)) (\<lambda>h.
     bind_svc (record_audit (Some staff) None STR ''LegalHoldReleased'' i None) (\<lambda>_.
     return_svc h)))"

section \<open>Administration\<close>

definition suspendOrReinstate :: "time \<Rightarrow> bool \<Rightarrow> id \<Rightarrow> id \<Rightarrow> string \<Rightarrow> (id \<times> bool) action" where
  "suspendOrReinstate now suspend target actor reason =
     bind_svc (guard (assert_r (trimmed reason \<noteq> []) (ValidationError STR ''A non-empty reason is required.''))) (\<lambda>_.
     site_tx (changePersonSuspensionAtomically now target actor suspend (trimmed reason)))"

definition setBackofficeApproval :: "id \<Rightarrow> bool \<Rightarrow> id \<Rightarrow> string option \<Rightarrow> (id \<times> bool) action" where
  "setBackofficeApproval target approved actor reason =
     site_tx (changePersonBackofficeApprovalAtomically target actor approved (normalizedReason reason))"

text \<open>Locking rejects a building, reinstating verifies it.\<close>

definition setStatusByAdmin :: "buildingStatus \<Rightarrow> msg \<Rightarrow> id \<Rightarrow> id \<Rightarrow> string \<Rightarrow> (id \<times> buildingStatus) action" where
  "setStatusByAdmin st what bid actor reason =
     bind_svc (getById bid) (\<lambda>_.
     bind_svc (bld_tx (updateBuildingStatus bid st)) (\<lambda>d.
     bind_svc (record_audit (Some actor) (Some bid) what bid (Some reason)) (\<lambda>_.
     return_svc (bd_id d, bd_status d))))"

definition lockBuilding :: "id \<Rightarrow> id \<Rightarrow> string \<Rightarrow> (id \<times> buildingStatus) action" where
  "lockBuilding = setStatusByAdmin BS_REJECTED STR ''BuildingLockedByAdmin''"

definition reinstateBuilding :: "id \<Rightarrow> id \<Rightarrow> string \<Rightarrow> (id \<times> buildingStatus) action" where
  "reinstateBuilding = setStatusByAdmin BS_VERIFIED STR ''BuildingReinstatedByAdmin''"

text \<open>Votes are administered by the voting service itself, once the building is known to exist.\<close>

definition staffVote :: "id \<Rightarrow> 'a action \<Rightarrow> 'a action" where
  "staffVote bid c = bind_svc (getById bid) (\<lambda>_. c)"

end
