(* ===== verification/Auth_Service.thy ===== *)
theory Auth_Service
  imports Building_Service
begin

text \<open>
  Sign-in: \<^verbatim>\<open>src/src/modules/foundation/auth\<close> (one-time codes, devices, refresh tokens and the
  live check of every request) and \<^verbatim>\<open>modules/foundation/profile\<close>.  Hashing, token signing,
  random values and the SMS gateway are not part of the repository and are parameters.
\<close>

section \<open>The world outside\<close>

text \<open>
  \<open>sha256\<close> stands for the hex digest of \<open>crypto\<close>; \<open>signs\<close> for the JWT library;
  \<open>smsConfigured\<close> and \<open>smsSends\<close> for the gateway; the rest is configuration.
\<close>

record authEnv =
  ax_sha256 :: "string \<Rightarrow> string"
  ax_signs :: "id \<Rightarrow> id \<Rightarrow> string"
  ax_smsConfigured :: bool
  ax_smsSends :: bool
  ax_isProduction :: bool
  ax_stagingLog :: "string \<Rightarrow> bool"
  ax_ttlSeconds :: int
  ax_maxAttempts :: int
  ax_accessExpiresIn :: string
  ax_refreshExpiresIn :: string

section \<open>Codes\<close>

definition hashCode :: "authEnv \<Rightarrow> string \<Rightarrow> string" where
  "hashCode x code = ax_sha256 x code"

definition verifyCode :: "authEnv \<Rightarrow> string \<Rightarrow> string \<Rightarrow> bool" where
  "verifyCode x code codeHash \<longleftrightarrow> hashCode x code = codeHash"

definition assertNotExpired :: "time \<Rightarrow> otpRequest \<Rightarrow> unit result" where
  "assertNotExpired now r =
     bind_r (assert_r (op_consumedAt r = None) (BusinessRuleViolationError STR ''This code has already been used.'')) (\<lambda>_.
     assert_r (\<not> op_expiresAt r < now) (BusinessRuleViolationError STR ''This code has expired. Request a new one.''))"

definition assertAttemptsRemaining :: "otpRequest \<Rightarrow> unit result" where
  "assertAttemptsRemaining r = assert_r (\<not> op_attempts r \<ge> op_maxAttempts r)
     (RateLimitError STR ''Too many incorrect attempts. Request a new code.'')"

section \<open>Repository\<close>

definition auth_createPerson :: "time \<Rightarrow> string \<Rightarrow> (bld_db, person) tx" where
  "auth_createPerson now phone b =
     (let p = \<lparr>pe_id = fresh_bid b, pe_phone = phone, pe_fullName = None, pe_firstName = None, pe_lastName = None,
        pe_createdAt = now, pe_isSuspended = False, pe_isBackofficeApproved = False, pe_xpBalance = 0, pe_email = None\<rparr>
      in if findPersonByPhone b phone \<noteq> None then Inl (PrismaError STR ''P2002'')
         else Inr (p, take_bid (b\<lparr>persons := persons b @ [p]\<rparr>)))"

definition createOtpRequest :: "time \<Rightarrow> string \<Rightarrow> otpPurpose \<Rightarrow> string \<Rightarrow> time \<Rightarrow> int \<Rightarrow> (auth_db, otpRequest) tx" where
  "createOtpRequest now phone purpose codeHash expires maxAttempts a =
     (let r = \<lparr>op_id = fresh_aid a, op_phone = phone, op_purpose = purpose, op_codeHash = codeHash, op_attempts = 0,
        op_maxAttempts = maxAttempts, op_expiresAt = expires, op_consumedAt = None, op_createdAt = now\<rparr>
      in Inr (r, take_aid (a\<lparr>otpRequests := otpRequests a @ [r]\<rparr>)))"

definition findLatestActiveOtp :: "auth_db \<Rightarrow> string \<Rightarrow> otpPurpose \<Rightarrow> otpRequest option" where
  "findLatestActiveOtp a phone purpose =
     (case newest op_createdAt (filter (\<lambda>r. op_phone r = phone \<and> op_purpose r = purpose \<and> op_consumedAt r = None) (otpRequests a)) of
        [] \<Rightarrow> None | r # _ \<Rightarrow> Some r)"

definition incrementOtpAttempts :: "id \<Rightarrow> (auth_db, unit) tx" where
  "incrementOtpAttempts i a = (case find_row op_id i (otpRequests a) of
       None \<Rightarrow> Inl (PrismaError STR ''P2025'')
     | Some _ \<Rightarrow> Inr ((), a\<lparr>otpRequests := upd_where (\<lambda>r. op_id r = i) (\<lambda>r. r\<lparr>op_attempts := op_attempts r + 1\<rparr>) (otpRequests a)\<rparr>))"

text \<open>The claim of a code is a compare-and-swap on everything that was read of it.\<close>

definition claimable :: "time \<Rightarrow> otpRequest \<Rightarrow> otpRequest \<Rightarrow> bool" where
  "claimable now was r \<longleftrightarrow> op_id r = op_id was \<and> op_phone r = op_phone was \<and> op_purpose r = op_purpose was \<and>
     op_codeHash r = op_codeHash was \<and> op_attempts r = op_attempts was \<and> op_consumedAt r = None \<and> op_expiresAt r > now"

definition claimOtp :: "time \<Rightarrow> otpRequest \<Rightarrow> (auth_db, bool) tx" where
  "claimOtp now was a = Inr (count_where (claimable now was) (otpRequests a) = 1,
     a\<lparr>otpRequests := upd_where (claimable now was) (\<lambda>r. r\<lparr>op_consumedAt := Some now\<rparr>) (otpRequests a)\<rparr>)"

definition upsertDevice :: "time \<Rightarrow> id \<Rightarrow> string \<Rightarrow> string \<Rightarrow> (auth_db, device) tx" where
  "upsertDevice now p token platform a = (case find_row dv_deviceToken token (devices a) of
       Some d \<Rightarrow> let f = (\<lambda>d. d\<lparr>dv_personId := p, dv_lastSeenAt := now, dv_revokedAt := None\<rparr>)
         in Inr (f d, a\<lparr>devices := upd_where (\<lambda>x. dv_deviceToken x = token) f (devices a)\<rparr>)
     | None \<Rightarrow> let d = \<lparr>dv_id = fresh_aid a, dv_personId = p, dv_deviceToken = token, dv_platform = platform, dv_lastSeenAt = now,
          dv_createdAt = now, dv_revokedAt = None, dv_pushToken = None\<rparr>
         in Inr (d, take_aid (a\<lparr>devices := devices a @ [d]\<rparr>)))"

definition createRefreshToken :: "time \<Rightarrow> id \<Rightarrow> id \<Rightarrow> string \<Rightarrow> time \<Rightarrow> (auth_db, refreshToken) tx" where
  "createRefreshToken now p dev h expires a =
     (let t = \<lparr>rt_id = fresh_aid a, rt_personId = p, rt_deviceId = dev, rt_tokenHash = h, rt_expiresAt = expires,
        rt_revokedAt = None, rt_replacedBy = None, rt_createdAt = now\<rparr>
      in if find_row rt_tokenHash h (refreshTokens a) \<noteq> None then Inl (PrismaError STR ''P2002'')
         else Inr (t, take_aid (a\<lparr>refreshTokens := refreshTokens a @ [t]\<rparr>)))"

definition usable :: "time \<Rightarrow> refreshToken \<Rightarrow> refreshToken \<Rightarrow> bool" where
  "usable now was t \<longleftrightarrow> rt_id t = rt_id was \<and> rt_personId t = rt_personId was \<and> rt_deviceId t = rt_deviceId was \<and>
     rt_revokedAt t = None \<and> rt_expiresAt t > now"

definition rotateRefreshToken :: "time \<Rightarrow> refreshToken \<Rightarrow> string \<Rightarrow> time \<Rightarrow> (auth_db, bool) tx" where
  "rotateRefreshToken now was h expires a =
     (if count_where (usable now was) (refreshTokens a) \<noteq> 1 then Inr (False, a)
      else let a1 = a\<lparr>refreshTokens := upd_where (usable now was) (\<lambda>t. t\<lparr>rt_revokedAt := Some now\<rparr>) (refreshTokens a)\<rparr>
        in bind_r (createRefreshToken now (rt_personId was) (rt_deviceId was) h expires a1) (\<lambda>(t', a2).
           Inr (True, a2\<lparr>refreshTokens := upd_where (\<lambda>t. rt_id t = rt_id was) (\<lambda>t. t\<lparr>rt_replacedBy := Some (rt_id t')\<rparr>) (refreshTokens a2)\<rparr>)))"

definition findRefreshTokenByHash :: "auth_db \<Rightarrow> string \<Rightarrow> refreshToken option" where
  "findRefreshTokenByHash a h = find_row rt_tokenHash h (refreshTokens a)"

section \<open>Service\<close>

definition auth :: "(auth_db \<Rightarrow> 'a) \<Rightarrow> 'a action" where
  "auth f = query (\<lambda>s. f (s_auth s))"

definition deliverOtpCode :: "authEnv \<Rightarrow> string \<Rightarrow> unit result" where
  "deliverOtpCode x phone =
     (let unavailable = ServiceUnavailableError STR ''Verification code delivery is temporarily unavailable. Please try again.'' in
      if ax_smsConfigured x \<and> ax_smsSends x then Inr ()
      else if ax_smsConfigured x \<and> ax_isProduction x then Inl unavailable
      else if ax_stagingLog x phone then Inr ()
      else if ax_isProduction x then Inl unavailable
      else Inr ())"

text \<open>\<open>code\<close> is the random code of the request.\<close>

definition requestOtp :: "authEnv \<Rightarrow> time \<Rightarrow> string \<Rightarrow> otpPurpose \<Rightarrow> string \<Rightarrow> int action" where
  "requestOtp x now phone purpose code =
     bind_svc (auth_tx (createOtpRequest now phone purpose (hashCode x code) (now + ax_ttlSeconds x * 1000) (ax_maxAttempts x))) (\<lambda>_.
     bind_svc (guard (deliverOtpCode x phone)) (\<lambda>_.
     bind_svc (record_audit None None STR ''OtpRequested'' phone None) (\<lambda>_.
     return_svc (ax_ttlSeconds x))))"

text \<open>A whole number of seconds, minutes, hours or days; anything else is thirty days.\<close>

definition isAsciiDigit :: "char \<Rightarrow> bool" where
  "isAsciiDigit c \<longleftrightarrow> (48 :: int) \<le> of_char c \<and> of_char c \<le> (57 :: int)"

definition digitsValue :: "string \<Rightarrow> int" where
  "digitsValue ds = foldl (\<lambda>n c. n * 10 + (of_char c - 48)) 0 ds"

definition unitMs :: "string \<Rightarrow> int option" where
  "unitMs u = (if u = ''s'' then Some 1000 else if u = ''m'' then Some 60000 else if u = ''h'' then Some 3600000
     else if u = ''d'' then Some 86400000 else None)"

definition parseDurationMs :: "string \<Rightarrow> int" where
  "parseDurationMs d = (let ds = takeWhile isAsciiDigit d in
     case (ds, unitMs (dropWhile isAsciiDigit d)) of
       (_ # _, Some ms) \<Rightarrow> digitsValue ds * ms
     | _ \<Rightarrow> 30 * 24 * 60 * 60 * 1000)"

record tokenPair =
  tp_accessToken :: string
  tp_refreshToken :: string
  tp_expiresIn :: string

record preparedTokens =
  pt_tokens :: tokenPair
  pt_tokenHash :: string
  pt_refreshExpiresAt :: time

text \<open>\<open>raw\<close> is the random refresh token.\<close>

definition prepareTokenPair :: "authEnv \<Rightarrow> time \<Rightarrow> string \<Rightarrow> id \<Rightarrow> id \<Rightarrow> preparedTokens" where
  "prepareTokenPair x now raw p dev =
     \<lparr>pt_tokens = \<lparr>tp_accessToken = ax_signs x p dev, tp_refreshToken = raw, tp_expiresIn = ax_accessExpiresIn x\<rparr>,
      pt_tokenHash = ax_sha256 x raw, pt_refreshExpiresAt = now + parseDurationMs (ax_refreshExpiresIn x)\<rparr>"

definition auth_with_bld :: "(bld_db \<Rightarrow> (auth_db, 'a) tx) \<Rightarrow> 'a action" where
  "auth_with_bld t s = auth_tx (t (s_bld s)) s"

definition issueTokenPair :: "authEnv \<Rightarrow> time \<Rightarrow> string \<Rightarrow> id \<Rightarrow> id \<Rightarrow> tokenPair action" where
  "issueTokenPair x now raw p dev =
     (let q = prepareTokenPair x now raw p dev
      in bind_svc (auth_tx (createRefreshToken now p dev (pt_tokenHash q) (pt_refreshExpiresAt q))) (\<lambda>_.
         return_svc (pt_tokens q)))"

record verifyOtpDto =
  vo_phone :: string
  vo_code :: string
  vo_purpose :: otpPurpose
  vo_deviceToken :: string
  vo_platform :: string

record signedIn =
  si_tokens :: tokenPair
  si_personId :: id
  si_isNewPerson :: bool
  si_hasBuildings :: bool

definition suspendedError :: app_error where
  "suspendedError = AuthorizationError STR ''Your account has been suspended. Contact support for assistance.''"

text \<open>The checks of a code; a wrong one is counted before it is refused.\<close>

definition redeemOtp :: "authEnv \<Rightarrow> time \<Rightarrow> verifyOtpDto \<Rightarrow> unit action" where
  "redeemOtp x now dto =
     bind_svc (lift_svc (\<lambda>s. case findLatestActiveOtp (s_auth s) (vo_phone dto) (vo_purpose dto) of
         None \<Rightarrow> Inl (BusinessRuleViolationError STR ''No active code found for this number. Request a new one.'')
       | Some r \<Rightarrow> Inr r)) (\<lambda>r.
     bind_svc (guard (assertNotExpired now r)) (\<lambda>_.
     bind_svc (guard (assertAttemptsRemaining r)) (\<lambda>_.
     bind_svc (if verifyCode x (vo_code dto) (op_codeHash r) then return_svc ()
       else bind_svc (auth_tx (incrementOtpAttempts (op_id r))) (\<lambda>_. throw_svc (AuthorizationError STR ''Incorrect code.''))) (\<lambda>_.
     bind_svc (auth_tx (claimOtp now r)) (\<lambda>claimed.
     guard (assert_r claimed (AuthorizationError STR ''This code has already been used or is no longer valid.'')))))))"

definition verifyOtp :: "authEnv \<Rightarrow> time \<Rightarrow> string \<Rightarrow> verifyOtpDto \<Rightarrow> signedIn action" where
  "verifyOtp x now raw dto =
     bind_svc (redeemOtp x now dto) (\<lambda>_.
     bind_svc (bld (\<lambda>b. findPersonByPhone b (vo_phone dto))) (\<lambda>known.
     bind_svc (case known of Some p \<Rightarrow> return_svc p | None \<Rightarrow> bld_tx (auth_createPerson now (vo_phone dto))) (\<lambda>p.
     bind_svc (guard (assert_r (\<not> pe_isSuspended p) suspendedError)) (\<lambda>_.
     bind_svc (linkOwnerAccountByPhone now (pe_id p) (pe_phone p)) (\<lambda>_.
     bind_svc (bld (\<lambda>b. listForPerson b (pe_id p))) (\<lambda>mine.
     bind_svc (auth_tx (upsertDevice now (pe_id p) (vo_deviceToken dto) (vo_platform dto))) (\<lambda>dev.
     bind_svc (issueTokenPair x now raw (pe_id p) (dv_id dev)) (\<lambda>tokens.
     bind_svc (record_audit (Some (pe_id p)) None
       (if known = None then STR ''PersonRegistered'' else STR ''PersonAuthenticated'') (pe_id p) None) (\<lambda>_.
     bind_svc (publish (PersonAuthenticatedEvent (pe_id p) (dv_id dev) (known = None))) (\<lambda>_.
     return_svc \<lparr>si_tokens = tokens, si_personId = pe_id p, si_isNewPerson = (known = None), si_hasBuildings = (mine \<noteq> [])\<rparr>))))))))))"

definition refresh :: "authEnv \<Rightarrow> time \<Rightarrow> string \<Rightarrow> string \<Rightarrow> tokenPair action" where
  "refresh x now raw token =
     bind_svc (lift_svc (\<lambda>s. case findRefreshTokenByHash (s_auth s) (ax_sha256 x token) of
         None \<Rightarrow> Inl (NotFoundAppError STR ''Refresh token not recognized.'') | Some t \<Rightarrow> Inr t)) (\<lambda>t.
     bind_svc (guard (assert_r (rt_revokedAt t = None) (AuthorizationError STR ''Refresh token has been revoked.''))) (\<lambda>_.
     bind_svc (guard (assert_r (\<not> rt_expiresAt t < now) (AuthorizationError STR ''Refresh token expired. Please sign in again.''))) (\<lambda>_.
     bind_svc (bld (\<lambda>b. findPersonById b (rt_personId t))) (\<lambda>p.
     bind_svc (guard (assert_r (case p of None \<Rightarrow> False | Some q \<Rightarrow> \<not> pe_isSuspended q) suspendedError)) (\<lambda>_.
     let q = prepareTokenPair x now raw (rt_personId t) (rt_deviceId t) in
     bind_svc (auth_tx (rotateRefreshToken now t (pt_tokenHash q) (pt_refreshExpiresAt q))) (\<lambda>rotated.
     bind_svc (guard (assert_r rotated (AuthorizationError STR ''Refresh token has already been used or is no longer valid.''))) (\<lambda>_.
     bind_svc (record_audit (Some (rt_personId t)) None STR ''TokenRefreshed'' (rt_id t) None) (\<lambda>_.
     return_svc (pt_tokens q)))))))))"

text \<open>The live check every request with an access token passes.\<close>

definition jwtValidate :: "id \<Rightarrow> unit action" where
  "jwtValidate p = lift_svc (\<lambda>s. assert_r (case findPersonById (s_bld s) p of None \<Rightarrow> False | Some q \<Rightarrow> \<not> pe_isSuspended q) suspendedError)"

section \<open>Profile\<close>

definition getMyProfile :: "id \<Rightarrow> person action" where
  "getMyProfile p = lift_svc (\<lambda>s. case findPersonById (s_bld s) p of
       None \<Rightarrow> Inl (NotFoundAppError STR ''Person not found.'') | Some q \<Rightarrow> Inr q)"

definition updateName :: "id \<Rightarrow> string \<Rightarrow> string \<Rightarrow> (bld_db, person) tx" where
  "updateName p firstName lastName b =
     (let f = (\<lambda>q. q\<lparr>pe_firstName := Some firstName, pe_lastName := Some lastName\<rparr>)
      in bind_r (needs (findPersonById b p) STR ''P2025'') (\<lambda>q.
         Inr (f q, b\<lparr>persons := upd_where (\<lambda>r. pe_id r = p) f (persons b)\<rparr>)))"

definition updateMyProfile :: "id \<Rightarrow> string \<Rightarrow> string \<Rightarrow> person action" where
  "updateMyProfile p firstName lastName = bld_tx (updateName p firstName lastName)"

end
