(* ===== verification/Gamification.thy ===== *)
theory Gamification
  imports Backoffice_Rbac
begin

text \<open>
  Experience points, achievements and building scores: \<^verbatim>\<open>src/src/modules/gamification\<close>, its
  policy and catalog, repository, service, event listener and the corrections of staff.
\<close>

section \<open>Policy and catalog\<close>

definition LEAGUE_THRESHOLDS :: "(leagueTier \<times> int) list" where
  "LEAGUE_THRESHOLDS = [(DIAMOND, 1500), (PLATINUM, 700), (GOLD, 300), (SILVER, 100), (BRONZE, 0)]"

definition TIER_ORDER :: "leagueTier list" where
  "TIER_ORDER = [BRONZE, SILVER, GOLD, PLATINUM, DIAMOND]"

definition computeLeagueTier :: "int \<Rightarrow> leagueTier" where
  "computeLeagueTier score = (case find (\<lambda>(_, low). score \<ge> low) LEAGUE_THRESHOLDS of
     Some (t, _) \<Rightarrow> t | None \<Rightarrow> BRONZE)"

fun indexOf :: "'a \<Rightarrow> 'a list \<Rightarrow> int" where
  "indexOf x [] = -1"
| "indexOf x (y # ys) = (if x = y then 0 else let i = indexOf x ys in if i < 0 then i else i + 1)"

definition isPromotion :: "leagueTier \<Rightarrow> leagueTier \<Rightarrow> bool" where
  "isPromotion previousTier newTier \<longleftrightarrow> indexOf newTier TIER_ORDER > indexOf previousTier TIER_ORDER"

record xpCatalogEntry =
  xc_amount :: int
  xc_buildingScoreDelta :: int
  xc_achievementCode :: "achievementCode option"

definition CHARGE_PAID_AMOUNT :: int where
  "CHARGE_PAID_AMOUNT = 20"

definition CHARGE_PAID_BUILDING_SCORE_DELTA :: int where
  "CHARGE_PAID_BUILDING_SCORE_DELTA = 3"

fun XP_CATALOG :: "xpReason \<Rightarrow> xpCatalogEntry" where
  "XP_CATALOG PROFILE_CREATED = \<lparr>xc_amount = 10, xc_buildingScoreDelta = 0, xc_achievementCode = Some FIRST_STEPS\<rparr>"
| "XP_CATALOG BUILDING_SETUP_COMPLETED = \<lparr>xc_amount = 50, xc_buildingScoreDelta = 10, xc_achievementCode = Some BUILDING_FOUNDER\<rparr>"
| "XP_CATALOG CHARGE_PAID = \<lparr>xc_amount = CHARGE_PAID_AMOUNT, xc_buildingScoreDelta = CHARGE_PAID_BUILDING_SCORE_DELTA,
     xc_achievementCode = Some FIRST_PAYMENT\<rparr>"
| "XP_CATALOG VOTE_PARTICIPATED = \<lparr>xc_amount = 15, xc_buildingScoreDelta = 2, xc_achievementCode = Some FIRST_VOTE\<rparr>"
| "XP_CATALOG CASE_RESOLVED = \<lparr>xc_amount = 25, xc_buildingScoreDelta = 4, xc_achievementCode = Some COMMUNITY_HELPER\<rparr>"
| "XP_CATALOG CHARGE_PAID_REVERSED = \<lparr>xc_amount = - CHARGE_PAID_AMOUNT, xc_buildingScoreDelta = - CHARGE_PAID_BUILDING_SCORE_DELTA,
     xc_achievementCode = None\<rparr>"
| "XP_CATALOG ADMIN_CORRECTION = \<lparr>xc_amount = 0, xc_buildingScoreDelta = 0, xc_achievementCode = None\<rparr>"

section \<open>Repository\<close>

record awardXpInput =
  ai_personId :: id
  ai_buildingId :: "id option"
  ai_reason :: xpReason
  ai_sourceEvent :: "msg option"
  ai_referenceType :: "msg option"
  ai_referenceId :: "id option"

text \<open>The unique index of awards; rows without a reference never collide.\<close>

definition sameReference :: "msg option \<Rightarrow> id option \<Rightarrow> xpReason \<Rightarrow> xpTransaction \<Rightarrow> bool" where
  "sameReference ty ref r x \<longleftrightarrow> ty \<noteq> None \<and> ref \<noteq> None \<and> xt_referenceType x = ty \<and> xt_referenceId x = ref \<and> xt_reason x = r"

definition addXp :: "id \<Rightarrow> int \<Rightarrow> (bld_db, person) tx" where
  "addXp p amount b = bind_r (modify_row pe_id p (\<lambda>q. q\<lparr>pe_xpBalance := pe_xpBalance q + amount\<rparr>) (persons b)) (\<lambda>(q, rows).
     Inr (q, b\<lparr>persons := rows\<rparr>))"

text \<open>The new balance and whether the person had no award of the reason; nothing for a duplicate.\<close>

definition awardRow :: "time \<Rightarrow> id \<Rightarrow> awardXpInput \<Rightarrow> int \<Rightarrow> xpTransaction" where
  "awardRow now i a amount = \<lparr>xt_id = i, xt_personId = ai_personId a, xt_buildingId = ai_buildingId a, xt_reason = ai_reason a,
     xt_amount = amount, xt_sourceEvent = ai_sourceEvent a, xt_referenceType = ai_referenceType a,
     xt_referenceId = ai_referenceId a, xt_createdAt = now\<rparr>"

definition repo_awardXp :: "time \<Rightarrow> awardXpInput \<Rightarrow> int \<Rightarrow> (site, (int \<times> bool) option) tx" where
  "repo_awardXp now a amount s =
     (let g = s_game s;
          priorCount = count_where (\<lambda>x. xt_personId x = ai_personId a \<and> xt_reason x = ai_reason a) (xpTransactions g) in
      if list_ex (sameReference (ai_referenceType a) (ai_referenceId a) (ai_reason a)) (xpTransactions g) then Inr (None, s)
      else bind_r (fk (s_bld s) [Some (ai_personId a)] [ai_buildingId a]) (\<lambda>_.
        bind_r (addXp (ai_personId a) amount (s_bld s)) (\<lambda>(q, b).
        Inr (Some (pe_xpBalance q, priorCount = 0),
          s\<lparr>s_bld := b, s_game := take_xid (g\<lparr>xpTransactions := xpTransactions g @ [awardRow now (fresh_xid g) a amount]\<rparr>)\<rparr>))))"

definition definitionOf :: "game_db \<Rightarrow> achievementCode \<Rightarrow> achievementDefinition option" where
  "definitionOf g c = find (\<lambda>x. ad_code x = c) (definitions g)"

definition activeAchievement :: "game_db \<Rightarrow> id \<Rightarrow> id \<Rightarrow> personAchievement option" where
  "activeAchievement g p i = find (\<lambda>x. pa_personId x = p \<and> pa_definitionId x = i \<and> pa_revokedAt x = None) (achievements g)"

definition unlockAchievement :: "time \<Rightarrow> id \<Rightarrow> achievementCode \<Rightarrow> id option \<Rightarrow> (site, string option) tx" where
  "unlockAchievement now p c bid s =
     (let g = s_game s in case definitionOf g c of
        None \<Rightarrow> Inr (None, s)
      | Some d \<Rightarrow>
          if activeAchievement g p (ad_id d) \<noteq> None then Inr (None, s)
          else bind_r (fk (s_bld s) [Some p] [bid]) (\<lambda>_.
            let row = \<lparr>pa_id = fresh_xid g, pa_personId = p, pa_definitionId = ad_id d, pa_buildingId = bid, pa_unlockedAt = now,
                  pa_revokedById = None, pa_revokedAt = None\<rparr>;
                s' = s\<lparr>s_game := take_xid (g\<lparr>achievements := achievements g @ [row]\<rparr>)\<rparr>
            in if ad_xpBonus d > 0
               then bind_r (addXp p (ad_xpBonus d) (s_bld s)) (\<lambda>(_, b). Inr (Some (ad_title d), s'\<lparr>s_bld := b\<rparr>))
               else Inr (Some (ad_title d), s')))"

definition repo_revokeAchievement :: "time \<Rightarrow> id \<Rightarrow> achievementCode \<Rightarrow> id \<Rightarrow> (game_db, string option) tx" where
  "repo_revokeAchievement now p c actor g = (case definitionOf g c of
     None \<Rightarrow> Inr (None, g)
   | Some d \<Rightarrow> (case activeAchievement g p (ad_id d) of
       None \<Rightarrow> Inr (None, g)
     | Some row \<Rightarrow> bind_r (modify_row pa_id (pa_id row) (\<lambda>x. x\<lparr>pa_revokedById := Some actor, pa_revokedAt := Some now\<rparr>) (achievements g))
         (\<lambda>(_, rows). Inr (Some (ad_title d), g\<lparr>achievements := rows\<rparr>))))"

definition findMissingAchievementCodes :: "game_db \<Rightarrow> achievementCode list" where
  "findMissingAchievementCodes g = filter (\<lambda>c. definitionOf g c = None)
     [FIRST_STEPS, BUILDING_FOUNDER, FIRST_PAYMENT, FIRST_VOTE, COMMUNITY_HELPER]"

record scoreChange =
  sd_score :: int
  sd_previousTier :: leagueTier
  sd_newTier :: leagueTier

text \<open>The row of the building, made on first use.\<close>

definition scoreRow :: "game_db \<Rightarrow> id \<Rightarrow> buildingScore \<times> game_db" where
  "scoreRow g bid = (case find_row sc_buildingId bid (scores g) of
     Some r \<Rightarrow> (r, g)
   | None \<Rightarrow> let r = \<lparr>sc_id = fresh_xid g, sc_buildingId = bid, sc_score = 0, sc_leagueTier = BRONZE\<rparr>
       in (r, take_xid (g\<lparr>scores := scores g @ [r]\<rparr>)))"

text \<open>The row just read is there to be updated: the lost row of the source's \<open>catch\<close> needs a second transaction.\<close>

definition repo_applyBuildingScoreDelta :: "bld_db \<Rightarrow> time \<Rightarrow> id \<Rightarrow> int \<Rightarrow> xpReason \<Rightarrow> msg option \<Rightarrow> (game_db, scoreChange) tx" where
  "repo_applyBuildingScoreDelta b now bid delta reason src g =
     bind_r (fk b [] [Some bid]) (\<lambda>_.
     let (before, g1) = scoreRow g bid;
         newScore = sc_score before + delta;
         newTier = computeLeagueTier newScore;
         e = \<lparr>se_id = fresh_xid g1, se_buildingScoreId = sc_id before, se_delta = delta, se_reason = reason, se_sourceEvent = src,
              se_previousTier = sc_leagueTier before, se_newTier = newTier, se_createdAt = now\<rparr>
     in Inr (\<lparr>sd_score = newScore, sd_previousTier = sc_leagueTier before, sd_newTier = newTier\<rparr>,
          take_xid (g1\<lparr>scores := upd_where (\<lambda>r. sc_buildingId r = bid) (\<lambda>r. r\<lparr>sc_score := newScore, sc_leagueTier := newTier\<rparr>) (scores g1),
                       scoreEvents := scoreEvents g1 @ [e]\<rparr>)))"

definition findXpTransactionByReference :: "game_db \<Rightarrow> msg \<Rightarrow> id \<Rightarrow> xpReason option \<Rightarrow> xpTransaction option" where
  "findXpTransactionByReference g ty ref r = find (\<lambda>x. xt_referenceType x = Some ty \<and> xt_referenceId x = Some ref \<and>
     (r = None \<or> r = Some (xt_reason x))) (xpTransactions g)"

section \<open>Service\<close>

definition game :: "(game_db \<Rightarrow> 'a) \<Rightarrow> 'a action" where
  "game f = query (\<lambda>s. f (s_game s))"

definition game_with_bld :: "(bld_db \<Rightarrow> (game_db, 'a) tx) \<Rightarrow> 'a action" where
  "game_with_bld t s = game_tx (t (s_bld s)) s"

definition applyBuildingScoreDelta :: "time \<Rightarrow> id \<Rightarrow> int \<Rightarrow> xpReason \<Rightarrow> msg option \<Rightarrow> unit action" where
  "applyBuildingScoreDelta now bid delta reason src =
     bind_svc (game_with_bld (\<lambda>b. repo_applyBuildingScoreDelta b now bid delta reason src)) (\<lambda>r.
     bind_svc (publish (BuildingScoreChangedEvent bid (sd_score r) delta (sd_previousTier r) (sd_newTier r))) (\<lambda>_.
     if sd_newTier r \<noteq> sd_previousTier r then
       bind_svc (record_audit None (Some bid) STR ''LeagueTierChanged'' bid None) (\<lambda>_.
       publish (LeagueTierChangedEvent bid (sd_previousTier r) (sd_newTier r) (isPromotion (sd_previousTier r) (sd_newTier r))))
     else return_svc ()))"

definition awardXp :: "time \<Rightarrow> awardXpInput \<Rightarrow> unit action" where
  "awardXp now a = (let entry = XP_CATALOG (ai_reason a); p = ai_personId a; bid = ai_buildingId a in
     bind_svc (site_tx (repo_awardXp now a (xc_amount entry))) (\<lambda>result.
     case result of None \<Rightarrow> return_svc ()
     | Some (newBalance, isFirstOccurrence) \<Rightarrow>
     bind_svc (record_audit (Some p) bid STR ''XpAwarded'' p None) (\<lambda>_.
     bind_svc (publish (XpAwardedEvent p bid (ai_reason a) (xc_amount entry) newBalance)) (\<lambda>_.
     bind_svc (case xc_achievementCode entry of
         Some c \<Rightarrow> if isFirstOccurrence then
           bind_svc (site_tx (unlockAchievement now p c bid)) (\<lambda>unlocked.
           case unlocked of None \<Rightarrow> return_svc ()
           | Some title \<Rightarrow> bind_svc (record_audit (Some p) bid STR ''AchievementUnlocked'' p None) (\<lambda>_.
               publish (AchievementUnlockedEvent p c title bid)))
           else return_svc ()
       | None \<Rightarrow> return_svc ()) (\<lambda>_.
     case bid of
       Some d \<Rightarrow> if xc_buildingScoreDelta entry \<noteq> 0
         then applyBuildingScoreDelta now d (xc_buildingScoreDelta entry) (ai_reason a) (ai_sourceEvent a) else return_svc ()
     | None \<Rightarrow> return_svc ())))))"

definition clawbackChargePaidXp :: "time \<Rightarrow> id \<Rightarrow> msg option \<Rightarrow> unit action" where
  "clawbackChargePaidXp now payment src =
     bind_svc (game (\<lambda>g. findXpTransactionByReference g STR ''PAYMENT'' payment (Some CHARGE_PAID))) (\<lambda>original.
     case original of None \<Rightarrow> return_svc ()
     | Some x \<Rightarrow>
     bind_svc (game (\<lambda>g. findXpTransactionByReference g STR ''PAYMENT'' payment (Some CHARGE_PAID_REVERSED))) (\<lambda>done.
     if done \<noteq> None then return_svc ()
     else awardXp now \<lparr>ai_personId = xt_personId x, ai_buildingId = xt_buildingId x, ai_reason = CHARGE_PAID_REVERSED,
       ai_sourceEvent = src, ai_referenceType = Some STR ''PAYMENT'', ai_referenceId = Some payment\<rparr>))"

section \<open>Corrections of staff\<close>

definition svc_adjustXp :: "time \<Rightarrow> id \<Rightarrow> id option \<Rightarrow> int \<Rightarrow> string \<Rightarrow> id \<Rightarrow> int action" where
  "svc_adjustXp now p bid amount reason actor =
     bind_svc (site_tx (repo_awardXp now \<lparr>ai_personId = p, ai_buildingId = bid, ai_reason = ADMIN_CORRECTION,
       ai_sourceEvent = Some STR ''GamificationAdministrationService.adjustXp'', ai_referenceType = None, ai_referenceId = None\<rparr> amount)) (\<lambda>r.
     case r of None \<Rightarrow> throw_svc (UnexpectedAppError STR ''ADMIN_CORRECTION award unexpectedly suppressed as a duplicate - this should be structurally impossible (ADMIN_CORRECTION never sets referenceType/referenceId).'')
     | Some (newBalance, _) \<Rightarrow>
     bind_svc (record_audit (Some actor) bid STR ''XpAdjustedByAdmin'' p (Some reason)) (\<lambda>_.
     return_svc newBalance))"

definition svc_adjustBuildingScore :: "time \<Rightarrow> id \<Rightarrow> int \<Rightarrow> string \<Rightarrow> id \<Rightarrow> unit action" where
  "svc_adjustBuildingScore now bid delta reason actor =
     bind_svc (record_audit (Some actor) (Some bid) STR ''BuildingScoreAdjustedByAdmin'' bid (Some reason)) (\<lambda>_.
     applyBuildingScoreDelta now bid delta ADMIN_CORRECTION (Some STR ''GamificationAdministrationService.adjustBuildingScore''))"

definition svc_grantAchievement :: "time \<Rightarrow> id \<Rightarrow> achievementCode \<Rightarrow> id option \<Rightarrow> string \<Rightarrow> id \<Rightarrow> string action" where
  "svc_grantAchievement now p c bid reason actor =
     bind_svc (site_tx (unlockAchievement now p c bid)) (\<lambda>unlocked.
     case unlocked of None \<Rightarrow> throw_svc (DuplicateError STR ''This person already holds this achievement.'')
     | Some title \<Rightarrow>
     bind_svc (record_audit (Some actor) bid STR ''AchievementGrantedByAdmin'' p (Some reason)) (\<lambda>_.
     return_svc title))"

definition svc_revokeAchievement :: "time \<Rightarrow> id \<Rightarrow> achievementCode \<Rightarrow> string \<Rightarrow> id \<Rightarrow> string action" where
  "svc_revokeAchievement now p c reason actor =
     bind_svc (game_tx (repo_revokeAchievement now p c actor)) (\<lambda>revoked.
     case revoked of None \<Rightarrow> throw_svc (NotFoundAppError STR ''This person does not currently hold this achievement.'')
     | Some title \<Rightarrow>
     bind_svc (record_audit (Some actor) None STR ''AchievementRevokedByAdmin'' p (Some reason)) (\<lambda>_.
     return_svc title))"

definition assertPersonExists :: "id \<Rightarrow> unit action" where
  "assertPersonExists p = lift_svc (\<lambda>s. assert_r (findPersonById (s_bld s) p \<noteq> None) (NotFoundAppError STR ''Person not found.''))"

definition assertBuildingExists :: "id \<Rightarrow> unit action" where
  "assertBuildingExists bid = lift_svc (\<lambda>s. assert_r (findBuildingById (s_bld s) bid \<noteq> None) (NotFoundAppError STR ''Building not found.''))"

definition assertBuildingGiven :: "id option \<Rightarrow> unit action" where
  "assertBuildingGiven bid = (case truthy bid of None \<Rightarrow> return_svc () | Some d \<Rightarrow> assertBuildingExists d)"

definition adjustXp :: "time \<Rightarrow> id \<Rightarrow> id option \<Rightarrow> int \<Rightarrow> string \<Rightarrow> id \<Rightarrow> int action" where
  "adjustXp now p bid amount reason actor = bind_svc (assertPersonExists p) (\<lambda>_. bind_svc (assertBuildingGiven bid) (\<lambda>_.
     svc_adjustXp now p bid amount reason actor))"

definition adjustBuildingScore :: "time \<Rightarrow> id \<Rightarrow> int \<Rightarrow> string \<Rightarrow> id \<Rightarrow> unit action" where
  "adjustBuildingScore now bid delta reason actor = bind_svc (assertBuildingExists bid) (\<lambda>_.
     svc_adjustBuildingScore now bid delta reason actor)"

definition grantAchievement :: "time \<Rightarrow> id \<Rightarrow> achievementCode \<Rightarrow> id option \<Rightarrow> string \<Rightarrow> id \<Rightarrow> string action" where
  "grantAchievement now p c bid reason actor = bind_svc (assertPersonExists p) (\<lambda>_. bind_svc (assertBuildingGiven bid) (\<lambda>_.
     svc_grantAchievement now p c bid reason actor))"

definition revokeAchievement :: "time \<Rightarrow> id \<Rightarrow> achievementCode \<Rightarrow> string \<Rightarrow> id \<Rightarrow> string action" where
  "revokeAchievement now p c reason actor = bind_svc (assertPersonExists p) (\<lambda>_.
     svc_revokeAchievement now p c reason actor)"

section \<open>Listeners\<close>

definition awardFor :: "id \<Rightarrow> id option \<Rightarrow> xpReason \<Rightarrow> msg \<Rightarrow> (msg \<times> id) option \<Rightarrow> awardXpInput" where
  "awardFor p bid reason src ref = \<lparr>ai_personId = p, ai_buildingId = bid, ai_reason = reason, ai_sourceEvent = Some src,
     ai_referenceType = map_option fst ref, ai_referenceId = map_option snd ref\<rparr>"

text \<open>The handlers of events of the site; every other event has none.\<close>

fun onSiteEvent :: "time \<Rightarrow> siteEvent \<Rightarrow> unit action" where
  "onSiteEvent now (BuildingCreatedEvent bid p _) =
     awardXp now (awardFor p (Some bid) BUILDING_SETUP_COMPLETED STR ''BuildingCreated'' None)"
| "onSiteEvent now (PersonAuthenticatedEvent p _ isNewPerson) =
     (if \<not> isNewPerson then return_svc () else awardXp now (awardFor p None PROFILE_CREATED STR ''PersonAuthenticated'' None))"
| "onSiteEvent now (BallotCastEvent _ bid _ voter) =
     awardXp now (awardFor voter (Some bid) VOTE_PARTICIPATED STR ''BallotCast'' None)"
| "onSiteEvent now (CaseStatusChangedEvent i bid _ newStatus actor) =
     (if newStatus \<noteq> CS_RESOLVED then return_svc ()
      else awardXp now (awardFor actor (Some bid) CASE_RESOLVED STR ''CaseStatusChanged'' (Some (STR ''CASE'', i))))"
| "onSiteEvent now _ = return_svc ()"

text \<open>The handlers of events of the finance module.\<close>

fun onFinanceEvent :: "time \<Rightarrow> domainEvent \<Rightarrow> unit action" where
  "onFinanceEvent now (PaymentApprovedEvent i bid _ _ _ payer) =
     awardXp now (awardFor payer (Some bid) CHARGE_PAID STR ''PaymentApproved'' (Some (STR ''PAYMENT'', i)))"
| "onFinanceEvent now (PaymentReversedEvent i _ _ _ _) = clawbackChargePaidXp now i (Some STR ''PaymentReversed'')"
| "onFinanceEvent now (PaymentRefundedEvent i _ _ _ _ isFullRefund) =
     (if \<not> isFullRefund then return_svc () else clawbackChargePaidXp now i (Some STR ''PaymentRefunded''))"
| "onFinanceEvent now _ = return_svc ()"

section \<open>Reads\<close>

record personProgress =
  gp_xpBalance :: int
  gp_achievements :: "(personAchievement \<times> achievementDefinition option) list"

definition getMyProgress :: "id \<Rightarrow> personProgress option action" where
  "getMyProgress p = query (\<lambda>s. map_option (\<lambda>q. \<lparr>gp_xpBalance = pe_xpBalance q,
       gp_achievements = map (\<lambda>x. (x, find_row ad_id (pa_definitionId x) (definitions (s_game s))))
         (newest pa_unlockedAt (filter (\<lambda>x. pa_personId x = p \<and> pa_revokedAt x = None) (achievements (s_game s))))\<rparr>)
     (findPersonById (s_bld s) p))"

text \<open>What \<open>new Date(text)\<close> makes of a query parameter.\<close>

datatype jsDate = InvalidDate | Date time

definition assertRange :: "jsDate option \<Rightarrow> jsDate option \<Rightarrow> unit result" where
  "assertRange lo hi =
     bind_r (assert_r (lo \<noteq> Some InvalidDate) (ValidationError STR ''Invalid fromDate.'')) (\<lambda>_.
     bind_r (assert_r (hi \<noteq> Some InvalidDate) (ValidationError STR ''Invalid toDate.'')) (\<lambda>_.
     assert_r (case (lo, hi) of (Some (Date f), Some (Date t)) \<Rightarrow> \<not> f > t | _ \<Rightarrow> True)
       (ValidationError STR ''fromDate must not be after toDate.'')))"

definition inRange :: "jsDate option \<Rightarrow> jsDate option \<Rightarrow> time \<Rightarrow> bool" where
  "inRange lo hi t \<longleftrightarrow> (case lo of Some (Date f) \<Rightarrow> f \<le> t | _ \<Rightarrow> True) \<and> (case hi of Some (Date u) \<Rightarrow> t \<le> u | _ \<Rightarrow> True)"

text \<open>\<open>rank\<close> orders identifiers; it breaks ties.\<close>

definition listXpHistory :: "(id \<Rightarrow> nat) \<Rightarrow> game_db \<Rightarrow> id \<Rightarrow> xpReason option \<Rightarrow> jsDate option \<Rightarrow> jsDate option \<Rightarrow>
    int \<times> int \<Rightarrow> xpTransaction list \<times> nat" where
  "listXpHistory rank g p reason lo hi pg =
     (let rows = filter (\<lambda>x. xt_personId x = p \<and> (reason = None \<or> reason = Some (xt_reason x)) \<and> inRange lo hi (xt_createdAt x))
            (xpTransactions g)
      in (window pg (sort_key (\<lambda>x. (- xt_createdAt x, - int (rank (xt_id x)))) rows), length rows))"

definition getMyXpHistory :: "(id \<Rightarrow> nat) \<Rightarrow> id \<Rightarrow> xpReason option \<Rightarrow> jsDate option \<Rightarrow> jsDate option \<Rightarrow> paginationParams \<Rightarrow>
    (xpTransaction list \<times> paginationMeta) action" where
  "getMyXpHistory rank p reason lo hi pg =
     bind_svc (guard (assertRange lo hi)) (\<lambda>_.
     game (\<lambda>g. case listXpHistory rank g p reason lo hi (toSkipTake pg) of (rows, tot) \<Rightarrow>
       (rows, buildPaginationMeta pg (int tot))))"

definition getBuildingScore :: "id \<Rightarrow> (int \<times> leagueTier) action" where
  "getBuildingScore bid = game (\<lambda>g. case find_row sc_buildingId bid (scores g) of
     Some r \<Rightarrow> (sc_score r, sc_leagueTier r) | None \<Rightarrow> (0, BRONZE))"

text \<open>The names of the tiers, and the one a query names.\<close>

definition tierNames :: "(string \<times> leagueTier) list" where
  "tierNames = [(''BRONZE'', BRONZE), (''SILVER'', SILVER), (''GOLD'', GOLD), (''PLATINUM'', PLATINUM), (''DIAMOND'', DIAMOND)]"

definition listLeaderboard :: "(id \<Rightarrow> nat) \<Rightarrow> game_db \<Rightarrow> leagueTier option \<Rightarrow> int \<times> int \<Rightarrow> buildingScore list \<times> nat" where
  "listLeaderboard rank g tier pg =
     (let rows = filter (\<lambda>r. tier = None \<or> tier = Some (sc_leagueTier r)) (scores g)
      in (window pg (sort_key (\<lambda>r. (- sc_score r, int (rank (sc_id r)))) rows), length rows))"

definition getLeaderboard :: "(id \<Rightarrow> nat) \<Rightarrow> string option \<Rightarrow> paginationParams \<Rightarrow> (buildingScore list \<times> paginationMeta) action" where
  "getLeaderboard rank tier pg =
     bind_svc (guard (case tier of
         None \<Rightarrow> Inr None
       | Some t \<Rightarrow> (case map_of tierNames t of
           None \<Rightarrow> Inl (ValidationError STR ''Invalid tier: \"\". Must be one of: BRONZE, SILVER, GOLD, PLATINUM, DIAMOND.'')
         | Some x \<Rightarrow> Inr (Some x)))) (\<lambda>t.
     game (\<lambda>g. case listLeaderboard rank g t (toSkipTake pg) of (rows, tot) \<Rightarrow> (rows, buildPaginationMeta pg (int tot))))"

record xpShare =
  xs_reason :: xpReason
  xs_totalAmount :: int
  xs_transactionCount :: nat

definition getXpDistribution :: "game_db \<Rightarrow> jsDate option \<Rightarrow> jsDate option \<Rightarrow> xpShare list" where
  "getXpDistribution g lo hi =
     (let rows = filter (\<lambda>x. inRange lo hi (xt_createdAt x)) (xpTransactions g)
      in sort_key (\<lambda>x. - int (xs_transactionCount x)) (map (\<lambda>r. \<lparr>xs_reason = r,
           xs_totalAmount = sum_list (map xt_amount (filter (\<lambda>x. xt_reason x = r) rows)),
           xs_transactionCount = count_where (\<lambda>x. xt_reason x = r) rows\<rparr>) (remdups (map xt_reason rows))))"

definition getLeagueDistribution :: "game_db \<Rightarrow> (leagueTier \<times> nat) list" where
  "getLeagueDistribution g = map (\<lambda>t. (t, count_where (\<lambda>r. sc_leagueTier r = t) (scores g))) (remdups (map sc_leagueTier (scores g)))"

definition countActiveParticipantsSince :: "game_db \<Rightarrow> time \<Rightarrow> nat" where
  "countActiveParticipantsSince g since =
     length (remdups (map xt_personId (filter (\<lambda>x. since \<le> xt_createdAt x) (xpTransactions g))))"

text \<open>\<open>weekAgo\<close> is the moment seven calendar days before now, in the zone of the server.\<close>

definition getAnalytics :: "time \<Rightarrow> jsDate option \<Rightarrow> jsDate option \<Rightarrow> (xpShare list \<times> (leagueTier \<times> nat) list \<times> nat) action" where
  "getAnalytics weekAgo lo hi =
     bind_svc (guard (assertRange lo hi)) (\<lambda>_.
     game (\<lambda>g. (getXpDistribution g lo hi, getLeagueDistribution g, countActiveParticipantsSince g weekAgo)))"

end
