(* ===== verification/Platform_Api.thy ===== *)
theory Platform_Api
  imports Site_Api Verification_Service Desk_Service Auth_Service Gamification
begin

text \<open>
  The requests of the staff, member and sign-in controllers, each behind the guards its route
  declares, the jobs of the scheduler and the delivery of events to their listeners.  Together
  with the requests of \<open>Site_Api\<close> they are the histories of the whole platform.
\<close>

section \<open>Requests\<close>

datatype buildingReviewRequest =
    ListBuildingCases "buildingStatus option" "verificationPriority option" "id option" paginationParams
  | ListBuildingAssignees
  | GetBuildingCase id
  | AssignBuildingCase id id
  | DecideBuildingCase id buildingVerificationDecision "string option"

datatype managerReviewRequest =
    ListManagerCases "managerVerificationStatus option" "verificationPriority option" paginationParams
  | GetManagerCase id
  | DecideManagerCase id managerVerificationDecision "string option"
  | RestoreManager id "string option"

datatype fraudRequest =
    OpenFraudCase fraudSignalType "id option" "id option" "verificationPriority option" "string option"
  | ListFraudCases "fraudCaseStatus option" "verificationPriority option" "id option" paginationParams
  | GetFraudCase id
  | AssignFraudCase id id
  | AddEvidence id string
  | DecideFraudCase id bool "string option"
  | ReopenFraudCase id string
  | Enforce id enforcementParams string
  | DecideAppeal id bool "string option"

datatype supportRequest =
    OpenSupportCase supportCaseCategory string string "verificationPriority option" "string option" "string option"
  | ListSupportCases "caseStatus option" "verificationPriority option" "supportCaseCategory option" "id option" paginationParams
  | GetSupportCase id
  | AssignSupportCase id id
  | AddStaffMessage id string bool
  | ResolveSupportCase id supportCaseResolutionCode "string option"
  | CloseSupportCase id
  | EscalateSupportCase id
  | MergeSupportCase id id

datatype complianceRequest =
    OpenComplianceCase complianceCaseParams
  | ListComplianceCases "fraudCaseStatus option" "complianceCaseCategory option" "verificationPriority option" "id option" "id option" paginationParams
  | ListComplianceAssignees
  | GetComplianceCase id
  | AssignComplianceCase id id
  | DecideComplianceCase id bool "string option"
  | DetectAnomalies

datatype holdRequest =
    PlaceHold string string string
  | ListHolds "string option" "string option" "bool option" paginationParams
  | ReleaseHold id

datatype subscriptionRequest =
    GetSubscription id
  | GetFeatures id
  | GetHistory id
  | ChangePlan id subscriptionPlan "string option"
  | ChangeStatus id subscriptionStatus "string option"
  | EvaluateExpiry id
  | CreateGrant id subscriptionFeatureKey featureGrantType "string option" "time option"
  | RevokeGrant id

datatype userRequest =
    SuspendPerson id string
  | ReinstatePerson id string

datatype accessRequest =
    SetApproval id bool "string option"

datatype buildingAdminRequest =
    LockBuilding id string
  | ReinstateBuilding id string

datatype governanceAdminRequest =
    StaffListVotes id "voteCategory option" "voteStatus option" paginationParams
  | StaffGetVote id id
  | StaffGetResult id id
  | StaffCreateVote id createVoteDto
  | StaffPublishVote id id
  | StaffCloseVote id id
  | StaffCancelVote id id "string option"

datatype gameAdminRequest =
    AdjustXp id "id option" int string
  | AdjustScore id int string
  | GrantAchievement id achievementCode "id option" string
  | RevokeAchievement id achievementCode string

datatype rbacRequest =
    ListStaffRoles id
  | AssignRole id id
  | RevokeRole id
  | GrantPermission id permissionKey
  | RevokePermission id

text \<open>Requests of everyone who is signed in.\<close>

datatype managerApprovalRequest =
    ApproveManager id
  | AppealManager id

datatype buildingAppealRequest =
    AppealBuilding id "string option"

datatype fraudReportRequest =
    ReportFraud "id option" "id option" string

datatype supportReportRequest =
    OpenSupport supportCaseCategory string string "verificationPriority option" "string option" "string option"
  | ListMySupport paginationParams
  | GetMySupport id
  | ReplySupport id string
  | ReopenSupport id string

datatype subscriptionReportRequest =
    BuildingSubscription id
  | BuildingFeatures id

datatype profileRequest =
    MyProfile
  | UpdateProfile string string

datatype gameRequest =
    MyProgress
  | MyXpHistory "xpReason option" "jsDate option" "jsDate option" paginationParams
  | Leaderboard "string option" paginationParams
  | GameAnalytics time "jsDate option" "jsDate option"

datatype buildingGameRequest =
    BuildingScore id

text \<open>The requests that need no access token; the last component of each is the random value the server draws.\<close>

datatype signInRequest =
    RequestOtp string otpPurpose string
  | VerifyOtp verifyOtpDto string
  | Refresh string string

datatype platformRequest =
    SiteRoute siteRequest
  | BuildingReviewRoute buildingReviewRequest
  | ManagerReviewRoute managerReviewRequest
  | FraudRoute fraudRequest
  | SupportRoute supportRequest
  | ComplianceRoute complianceRequest
  | HoldRoute holdRequest
  | SubscriptionRoute subscriptionRequest
  | UserRoute userRequest
  | AccessRoute accessRequest
  | BuildingAdminRoute buildingAdminRequest
  | GovernanceAdminRoute governanceAdminRequest
  | GameAdminRoute gameAdminRequest
  | RbacRoute rbacRequest
  | ManagerApprovalRoute managerApprovalRequest
  | BuildingAppealRoute buildingAppealRequest
  | FraudReportRoute fraudReportRequest
  | SupportReportRoute supportReportRequest
  | SubscriptionReportRoute subscriptionReportRequest
  | ProfileRoute profileRequest
  | GameRoute gameRequest
  | BuildingGameRoute buildingGameRequest
  | AppealSanction id "string option"
  | SignInRoute signInRequest
  | SweepSubscriptions
  | SweepAnomalies
  | DeliverEvent siteEvent
  | DeliverFinanceEvent domainEvent

section \<open>Guards\<close>

definition staffed :: "platformStaffRole \<Rightarrow> permissionKey \<Rightarrow> id \<Rightarrow> 'a action \<Rightarrow> unit action" where
  "staffed role k p c = staffOnly role k p (void c)"

text \<open>The guard of the one route a suspended person may use: the account need only exist.\<close>

definition fraudAppealGuard :: "id \<Rightarrow> unit action" where
  "fraudAppealGuard p = lift_svc (\<lambda>s. assert_r (findPersonById (s_bld s) p \<noteq> None)
     (AuthorizationError STR ''Authentication is no longer valid.''))"

section \<open>Handlers\<close>

text \<open>\<open>coll\<close> stands for the order of \<open>localeCompare\<close>.\<close>

primrec handleBuildingReview :: "(string \<Rightarrow> nat) \<Rightarrow> time \<Rightarrow> id \<Rightarrow> buildingReviewRequest \<Rightarrow> unit action" where
  "handleBuildingReview coll now p (ListBuildingCases st pr asg pg) = staffed REVIEWER PK_BUILDING_VERIFICATION_VIEW p (bv_listCases st pr asg pg)"
| "handleBuildingReview coll now p ListBuildingAssignees = staffed SENIOR_REVIEWER PK_BUILDING_VERIFICATION_MANAGE p
     (query (\<lambda>s. listEligibleAssignees coll (s_bld s) (s_bo s)))"
| "handleBuildingReview coll now p (GetBuildingCase i) = staffed REVIEWER PK_BUILDING_VERIFICATION_VIEW p (bv_getCase i)"
| "handleBuildingReview coll now p (AssignBuildingCase i q) = staffed SENIOR_REVIEWER PK_BUILDING_VERIFICATION_MANAGE p (bv_assignCase i q p)"
| "handleBuildingReview coll now p (DecideBuildingCase i dec reason) =
     staffed REVIEWER PK_BUILDING_VERIFICATION_MANAGE p (bv_decideCase now i dec p reason)"

primrec handleManagerReview :: "time \<Rightarrow> id \<Rightarrow> managerReviewRequest \<Rightarrow> unit action" where
  "handleManagerReview now p (ListManagerCases st pr pg) = staffed REVIEWER PK_MANAGER_VERIFICATION_VIEW p (mv_listCases st pr pg)"
| "handleManagerReview now p (GetManagerCase i) = staffed REVIEWER PK_MANAGER_VERIFICATION_VIEW p (mv_getCase i)"
| "handleManagerReview now p (DecideManagerCase i dec reason) =
     staffed SENIOR_REVIEWER PK_MANAGER_VERIFICATION_MANAGE p (mv_decideCase now i dec p reason)"
| "handleManagerReview now p (RestoreManager i reason) =
     staffed SENIOR_REVIEWER PK_MANAGER_VERIFICATION_MANAGE p (restoreManagement now i p reason)"

primrec handleFraud :: "time \<Rightarrow> id \<Rightarrow> fraudRequest \<Rightarrow> unit action" where
  "handleFraud now p (OpenFraudCase sig q bid pr txt) = staffed REVIEWER PK_FRAUD_MANAGE p (fraud_openCase now sig q bid pr txt p)"
| "handleFraud now p (ListFraudCases st pr asg pg) = staffed REVIEWER PK_FRAUD_VIEW p (fraud_listCases st pr asg pg)"
| "handleFraud now p (GetFraudCase i) = staffed REVIEWER PK_FRAUD_VIEW p (fraud_getCase i)"
| "handleFraud now p (AssignFraudCase i q) = staffed SENIOR_REVIEWER PK_FRAUD_MANAGE p (fraud_assignCase i q p)"
| "handleFraud now p (AddEvidence i notes) = staffed REVIEWER PK_FRAUD_MANAGE p (addEvidence now i notes p)"
| "handleFraud now p (DecideFraudCase i confirm reason) = staffed REVIEWER PK_FRAUD_MANAGE p (fraud_decideCase now i confirm p reason)"
| "handleFraud now p (ReopenFraudCase i txt) = staffed SENIOR_REVIEWER PK_FRAUD_MANAGE p (fraud_reopenCase now i txt p)"
| "handleFraud now p (Enforce i q rid) = staffed SENIOR_REVIEWER PK_FRAUD_MANAGE p (enforce now i q p rid)"
| "handleFraud now p (DecideAppeal i uphold reason) =
     staffed SENIOR_REVIEWER PK_FRAUD_MANAGE p (decideEnforcementAppeal now i uphold p reason)"

primrec handleSupport :: "time \<Rightarrow> id \<Rightarrow> supportRequest \<Rightarrow> unit action" where
  "handleSupport now p (OpenSupportCase cat subject txt pr ty i) =
     staffed REVIEWER PK_SUPPORT_MANAGE p (support_open now cat subject txt pr ty i p)"
| "handleSupport now p (ListSupportCases st pr cat asg pg) = staffed REVIEWER PK_SUPPORT_VIEW p (support_listCases st pr cat asg pg)"
| "handleSupport now p (GetSupportCase i) = staffed REVIEWER PK_SUPPORT_VIEW p (support_getCase i)"
| "handleSupport now p (AssignSupportCase i q) = staffed SENIOR_REVIEWER PK_SUPPORT_MANAGE p (support_assign i q p)"
| "handleSupport now p (AddStaffMessage i body internal) = staffed REVIEWER PK_SUPPORT_MANAGE p (addStaffMessage now i body internal p)"
| "handleSupport now p (ResolveSupportCase i code note) = staffed REVIEWER PK_SUPPORT_MANAGE p (support_resolve now i code note p)"
| "handleSupport now p (CloseSupportCase i) = staffed REVIEWER PK_SUPPORT_MANAGE p (support_close now i p)"
| "handleSupport now p (EscalateSupportCase i) = staffed SENIOR_REVIEWER PK_SUPPORT_MANAGE p (support_escalate i p)"
| "handleSupport now p (MergeSupportCase i j) = staffed SENIOR_REVIEWER PK_SUPPORT_MANAGE p (support_merge now i j p)"

primrec handleCompliance :: "(string \<Rightarrow> nat) \<Rightarrow> time \<Rightarrow> id \<Rightarrow> complianceRequest \<Rightarrow> unit action" where
  "handleCompliance coll now p (OpenComplianceCase q) = staffed SENIOR_REVIEWER PK_COMPLIANCE_MANAGE p (compliance_open now q p)"
| "handleCompliance coll now p (ListComplianceCases st cat pr asg subject pg) =
     staffed SENIOR_REVIEWER PK_COMPLIANCE_VIEW p (compliance_listCases st cat pr asg subject pg)"
| "handleCompliance coll now p ListComplianceAssignees = staffed SENIOR_REVIEWER PK_COMPLIANCE_MANAGE p
     (query (\<lambda>s. listComplianceAssignees coll (s_bld s) (s_bo s)))"
| "handleCompliance coll now p (GetComplianceCase i) = staffed SENIOR_REVIEWER PK_COMPLIANCE_VIEW p (compliance_getCase i)"
| "handleCompliance coll now p (AssignComplianceCase i q) = staffed SENIOR_REVIEWER PK_COMPLIANCE_MANAGE p (compliance_assign i q p)"
| "handleCompliance coll now p (DecideComplianceCase i confirm reason) =
     staffed SENIOR_REVIEWER PK_COMPLIANCE_MANAGE p (compliance_decide now i confirm p reason)"
| "handleCompliance coll now p DetectAnomalies = staffed SENIOR_REVIEWER PK_COMPLIANCE_MANAGE p (detectAnomalies now (Some p))"

primrec handleHold :: "time \<Rightarrow> id \<Rightarrow> holdRequest \<Rightarrow> unit action" where
  "handleHold now p (PlaceHold ty i reason) = staffed PLATFORM_ADMIN PK_LEGAL_HOLD_MANAGE p (hold_place now ty i reason p)"
| "handleHold now p (ListHolds ty i act pg) = staffed PLATFORM_ADMIN PK_LEGAL_HOLD_MANAGE p (hold_list ty i act pg)"
| "handleHold now p (ReleaseHold i) = staffed PLATFORM_ADMIN PK_LEGAL_HOLD_MANAGE p (hold_release now i p)"

primrec handleSubscription :: "time \<Rightarrow> id \<Rightarrow> subscriptionRequest \<Rightarrow> unit action" where
  "handleSubscription now p (GetSubscription bid) = staffed REVIEWER PK_SUBSCRIPTION_VIEW p (getReadDetail bid)"
| "handleSubscription now p (GetFeatures bid) = staffed REVIEWER PK_SUBSCRIPTION_VIEW p (resolveEffectiveFeatures now bid)"
| "handleSubscription now p (GetHistory bid) = staffed REVIEWER PK_SUBSCRIPTION_VIEW p (getHistory bid)"
| "handleSubscription now p (ChangePlan bid plan reason) = staffed REVIEWER PK_SUBSCRIPTION_MANAGE p (changePlan now bid plan p reason)"
| "handleSubscription now p (ChangeStatus bid st reason) =
     staffed REVIEWER PK_SUBSCRIPTION_MANAGE p (changeStatus now bid st (Some p) reason)"
| "handleSubscription now p (EvaluateExpiry bid) = staffed REVIEWER PK_SUBSCRIPTION_MANAGE p (evaluateExpiry now bid (Some p))"
| "handleSubscription now p (CreateGrant bid k ty reason expires) =
     staffed REVIEWER PK_SUBSCRIPTION_MANAGE p (createGrant now bid k ty reason expires p)"
| "handleSubscription now p (RevokeGrant i) = staffed REVIEWER PK_SUBSCRIPTION_MANAGE p (revokeGrant now i p)"

primrec handleUser :: "time \<Rightarrow> id \<Rightarrow> userRequest \<Rightarrow> unit action" where
  "handleUser now p (SuspendPerson q reason) = staffed SENIOR_REVIEWER PK_USER_EDIT p (suspendOrReinstate now True q p reason)"
| "handleUser now p (ReinstatePerson q reason) = staffed SENIOR_REVIEWER PK_USER_EDIT p (suspendOrReinstate now False q p reason)"

primrec handleAccess :: "time \<Rightarrow> id \<Rightarrow> accessRequest \<Rightarrow> unit action" where
  "handleAccess now p (SetApproval q a reason) = staffed SENIOR_REVIEWER PK_PERSON_ACCESS_MANAGE p (setBackofficeApproval q a p reason)"

primrec handleBuildingAdmin :: "time \<Rightarrow> id \<Rightarrow> buildingAdminRequest \<Rightarrow> unit action" where
  "handleBuildingAdmin now p (LockBuilding bid reason) = staffed SENIOR_REVIEWER PK_BUILDING_EDIT p (lockBuilding bid p reason)"
| "handleBuildingAdmin now p (ReinstateBuilding bid reason) = staffed SENIOR_REVIEWER PK_BUILDING_EDIT p (reinstateBuilding bid p reason)"

primrec handleGovernanceAdmin :: "time \<Rightarrow> id \<Rightarrow> governanceAdminRequest \<Rightarrow> unit action" where
  "handleGovernanceAdmin now p (StaffListVotes bid k st pg) = staffed REVIEWER PK_GOVERNANCE_VIEW p (staffVote bid (svc_listVotes bid k st pg))"
| "handleGovernanceAdmin now p (StaffGetVote bid i) = staffed REVIEWER PK_GOVERNANCE_VIEW p (staffVote bid (getVote bid i))"
| "handleGovernanceAdmin now p (StaffGetResult bid i) = staffed REVIEWER PK_GOVERNANCE_VIEW p (staffVote bid (getResult bid i))"
| "handleGovernanceAdmin now p (StaffCreateVote bid dto) =
     staffed SENIOR_REVIEWER PK_GOVERNANCE_MANAGE p (staffVote bid (svc_createVote now bid dto p))"
| "handleGovernanceAdmin now p (StaffPublishVote bid i) =
     staffed SENIOR_REVIEWER PK_GOVERNANCE_MANAGE p (staffVote bid (svc_publishVote now bid i (Some p)))"
| "handleGovernanceAdmin now p (StaffCloseVote bid i) =
     staffed SENIOR_REVIEWER PK_GOVERNANCE_MANAGE p (staffVote bid (svc_closeVote now bid i (Some p)))"
| "handleGovernanceAdmin now p (StaffCancelVote bid i reason) =
     staffed SENIOR_REVIEWER PK_GOVERNANCE_MANAGE p (staffVote bid (svc_cancelVote now bid i reason p))"

primrec handleGameAdmin :: "time \<Rightarrow> id \<Rightarrow> gameAdminRequest \<Rightarrow> unit action" where
  "handleGameAdmin now p (AdjustXp q bid n reason) =
     staffed SENIOR_REVIEWER PK_GAMIFICATION_CORRECTION_MANAGE p (adjustXp now q bid n reason p)"
| "handleGameAdmin now p (AdjustScore bid n reason) =
     staffed SENIOR_REVIEWER PK_GAMIFICATION_CORRECTION_MANAGE p (adjustBuildingScore now bid n reason p)"
| "handleGameAdmin now p (GrantAchievement q c bid reason) =
     staffed SENIOR_REVIEWER PK_GAMIFICATION_CORRECTION_MANAGE p (grantAchievement now q c bid reason p)"
| "handleGameAdmin now p (RevokeAchievement q c reason) =
     staffed SENIOR_REVIEWER PK_GAMIFICATION_CORRECTION_MANAGE p (revokeAchievement now q c reason p)"

text \<open>The management of grants itself asks for the highest role and no permission.\<close>

definition adminOnly :: "id \<Rightarrow> 'a action \<Rightarrow> unit action" where
  "adminOnly p c = bind_svc (platformRolesGuard PLATFORM_ADMIN p) (\<lambda>_. void c)"

primrec handleRbac :: "time \<Rightarrow> id \<Rightarrow> rbacRequest \<Rightarrow> unit action" where
  "handleRbac now p (ListStaffRoles f) = adminOnly p (bo (\<lambda>d. listActiveStaffRolesForStaff d f))"
| "handleRbac now p (AssignRole f r) = adminOnly p (assignRole f r p)"
| "handleRbac now p (RevokeRole i) = adminOnly p (revokeRole now i p)"
| "handleRbac now p (GrantPermission r k) = adminOnly p (grantPermission r k p)"
| "handleRbac now p (RevokePermission i) = adminOnly p (revokePermission now i p)"

primrec handleManagerApproval :: "time \<Rightarrow> id \<Rightarrow> managerApprovalRequest \<Rightarrow> unit action" where
  "handleManagerApproval now p (ApproveManager bid) = guarded (rolesGuard [OWNER] p bid) (approveByOwner now bid p)"
| "handleManagerApproval now p (AppealManager bid) = void (mv_appealCase now bid p)"

primrec handleBuildingAppeal :: "time \<Rightarrow> id \<Rightarrow> buildingAppealRequest \<Rightarrow> unit action" where
  "handleBuildingAppeal now p (AppealBuilding bid reason) = void (bv_appealCase now bid p reason)"

primrec handleFraudReport :: "time \<Rightarrow> id \<Rightarrow> fraudReportRequest \<Rightarrow> unit action" where
  "handleFraudReport now p (ReportFraud q bid txt) = void (fraud_report now q bid txt p)"

primrec handleSupportReport :: "time \<Rightarrow> id \<Rightarrow> supportReportRequest \<Rightarrow> unit action" where
  "handleSupportReport now p (OpenSupport cat subject txt pr ty i) = void (support_open now cat subject txt pr ty i p)"
| "handleSupportReport now p (ListMySupport pg) = void (listMine p pg)"
| "handleSupportReport now p (GetMySupport i) = void (getCaseForOwner i p)"
| "handleSupportReport now p (ReplySupport i body) = void (replyAsCreator now i body p)"
| "handleSupportReport now p (ReopenSupport i reason) = void (support_reopen now i reason p)"

primrec handleSubscriptionReport :: "time \<Rightarrow> id \<Rightarrow> subscriptionReportRequest \<Rightarrow> unit action" where
  "handleSubscriptionReport now p (BuildingSubscription bid) = guarded (membershipGuard p bid) (getReadDetail bid)"
| "handleSubscriptionReport now p (BuildingFeatures bid) = guarded (membershipGuard p bid) (resolveEffectiveFeatures now bid)"

primrec handleProfile :: "id \<Rightarrow> profileRequest \<Rightarrow> unit action" where
  "handleProfile p MyProfile = void (getMyProfile p)"
| "handleProfile p (UpdateProfile f l) = void (updateMyProfile p f l)"

text \<open>\<open>rank\<close> orders identifiers where a listing needs a tie broken.\<close>

primrec handleGame :: "(id \<Rightarrow> nat) \<Rightarrow> time \<Rightarrow> id \<Rightarrow> gameRequest \<Rightarrow> unit action" where
  "handleGame rank now p MyProgress = void (getMyProgress p)"
| "handleGame rank now p (MyXpHistory r lo hi pg) = void (getMyXpHistory rank p r lo hi pg)"
| "handleGame rank now p (Leaderboard tier pg) = void (getLeaderboard rank tier pg)"
| "handleGame rank now p (GameAnalytics week lo hi) = staffed SENIOR_REVIEWER PK_GAMIFICATION_ANALYTICS_VIEW p (getAnalytics week lo hi)"

primrec handleBuildingGame :: "id \<Rightarrow> buildingGameRequest \<Rightarrow> unit action" where
  "handleBuildingGame p (BuildingScore bid) = guarded (membershipGuard p bid) (getBuildingScore bid)"

primrec handleSignIn :: "authEnv \<Rightarrow> time \<Rightarrow> signInRequest \<Rightarrow> unit action" where
  "handleSignIn x now (RequestOtp phone purpose code) = void (requestOtp x now phone purpose code)"
| "handleSignIn x now (VerifyOtp dto raw) = void (verifyOtp x now raw dto)"
| "handleSignIn x now (Refresh token raw) = void (refresh x now raw token)"

text \<open>
  What listens to an event: first the queues of the back office, then gamification.  A listener
  that throws is logged and nothing else.
\<close>

definition swallowed :: "unit action \<Rightarrow> unit action" where
  "swallowed c = try_catch c (\<lambda>_. return_svc ())"

definition deliver :: "time \<Rightarrow> siteEvent \<Rightarrow> unit action" where
  "deliver now e = bind_svc (case e of
       BuildingCreatedEvent bid p r \<Rightarrow> swallowed (onBuildingCreated now bid p r)
     | _ \<Rightarrow> return_svc ()) (\<lambda>_. swallowed (onSiteEvent now e))"

text \<open>The jobs of the scheduler and the listeners carry no access token.\<close>

record world =
  wo_floors :: "id \<Rightarrow> bool"
  wo_auth :: authEnv
  wo_rank :: "id \<Rightarrow> nat"
  wo_collation :: "string \<Rightarrow> nat"

definition signedInOnly :: "id \<Rightarrow> unit action \<Rightarrow> unit action" where
  "signedInOnly p c = bind_svc (jwtValidate p) (\<lambda>_. c)"

primrec handlePlatform :: "world \<Rightarrow> time \<Rightarrow> id \<Rightarrow> platformRequest \<Rightarrow> unit action" where
  "handlePlatform w now p (SiteRoute r) = (if r \<in> {AutoPublish, AutoClose} then handleSite (wo_floors w) now p r
     else signedInOnly p (handleSite (wo_floors w) now p r))"
| "handlePlatform w now p (BuildingReviewRoute r) = signedInOnly p (handleBuildingReview (wo_collation w) now p r)"
| "handlePlatform w now p (ManagerReviewRoute r) = signedInOnly p (handleManagerReview now p r)"
| "handlePlatform w now p (FraudRoute r) = signedInOnly p (handleFraud now p r)"
| "handlePlatform w now p (SupportRoute r) = signedInOnly p (handleSupport now p r)"
| "handlePlatform w now p (ComplianceRoute r) = signedInOnly p (handleCompliance (wo_collation w) now p r)"
| "handlePlatform w now p (HoldRoute r) = signedInOnly p (handleHold now p r)"
| "handlePlatform w now p (SubscriptionRoute r) = signedInOnly p (handleSubscription now p r)"
| "handlePlatform w now p (UserRoute r) = signedInOnly p (handleUser now p r)"
| "handlePlatform w now p (AccessRoute r) = signedInOnly p (handleAccess now p r)"
| "handlePlatform w now p (BuildingAdminRoute r) = signedInOnly p (handleBuildingAdmin now p r)"
| "handlePlatform w now p (GovernanceAdminRoute r) = signedInOnly p (handleGovernanceAdmin now p r)"
| "handlePlatform w now p (GameAdminRoute r) = signedInOnly p (handleGameAdmin now p r)"
| "handlePlatform w now p (RbacRoute r) = signedInOnly p (handleRbac now p r)"
| "handlePlatform w now p (ManagerApprovalRoute r) = signedInOnly p (handleManagerApproval now p r)"
| "handlePlatform w now p (BuildingAppealRoute r) = signedInOnly p (handleBuildingAppeal now p r)"
| "handlePlatform w now p (FraudReportRoute r) = signedInOnly p (handleFraudReport now p r)"
| "handlePlatform w now p (SupportReportRoute r) = signedInOnly p (handleSupportReport now p r)"
| "handlePlatform w now p (SubscriptionReportRoute r) = signedInOnly p (handleSubscriptionReport now p r)"
| "handlePlatform w now p (ProfileRoute r) = signedInOnly p (handleProfile p r)"
| "handlePlatform w now p (GameRoute r) = signedInOnly p (handleGame (wo_rank w) now p r)"
| "handlePlatform w now p (BuildingGameRoute r) = signedInOnly p (handleBuildingGame p r)"
| "handlePlatform w now p (AppealSanction i reason) = guarded (fraudAppealGuard p) (appealEnforcement now i p reason)"
| "handlePlatform w now p (SignInRoute r) = handleSignIn (wo_auth w) now r"
| "handlePlatform w now p SweepSubscriptions = void (evaluateAllDueExpiries now)"
| "handlePlatform w now p SweepAnomalies = void (detectAnomalies now None)"
| "handlePlatform w now p (DeliverEvent e) = deliver now e"
| "handlePlatform w now p (DeliverFinanceEvent e) = swallowed (onFinanceEvent now e)"

fun runPlatform :: "world \<Rightarrow> (time \<times> id \<times> platformRequest) list \<Rightarrow> site \<Rightarrow> site" where
  "runPlatform w [] s = s"
| "runPlatform w ((now, p, r) # rs) s = runPlatform w rs (snd (handlePlatform w now p r s))"

lemma runPlatform_append: "runPlatform w (xs @ ys) s = runPlatform w ys (runPlatform w xs s)"
  by (induction w xs s rule: runPlatform.induct) simp_all

text \<open>An invariant every request keeps is one of all histories.\<close>

context site_invariant
begin

lemma history:
  assumes "\<And>now p r. kept_by (handlePlatform w now p r)" "I s"
  shows "I (runPlatform w rs s)"
  using assms(2)
proof (induction rs arbitrary: s)
  case (Cons q rs)
  obtain now p r where q: "q = (now, p, r)" by (cases q)
  show ?case using Cons.IH [OF kept_byD [OF assms(1) Cons.prems]] by (simp add: q)
qed simp

end

end
