(* ===== verification/Platform_Frame.thy ===== *)
theory Platform_Frame
  imports Platform_Api
begin

text \<open>
  What the requests of the site leave alone in the tables the platform builds on: no membership
  is lost or changes its role, no balance of experience points moves, and the tables of the back
  office, of sign-in and of gamification stay as they are.
\<close>

section \<open>The frame of building tables\<close>

definition idRoles :: "bld_db \<Rightarrow> (id \<times> membershipRole) set" where
  "idRoles b = (\<lambda>m. (mb_id m, mb_role m)) ` set (memberships b)"

definition xpOf :: "bld_db \<Rightarrow> id \<Rightarrow> int option" where
  "xpOf b p = map_option pe_xpBalance (findPersonById b p)"

definition bldFrame :: "bld_db \<Rightarrow> bld_db \<Rightarrow> bool" where
  "bldFrame b b' \<longleftrightarrow> idRoles b \<subseteq> idRoles b' \<and>
     (\<forall>p. xpOf b' p = xpOf b p \<or> xpOf b p = None \<and> xpOf b' p = Some 0)"

lemma bf_refl: "bldFrame b b"
  by (simp add: bldFrame_def)

lemma bf_trans: "bldFrame a b \<Longrightarrow> bldFrame b c \<Longrightarrow> bldFrame a c"
  unfolding bldFrame_def by (metis option.distinct(1) order_trans)

lemma bf_same: "memberships b' = memberships b \<Longrightarrow> persons b' = persons b \<Longrightarrow> bldFrame b b'"
  by (simp add: bldFrame_def idRoles_def xpOf_def findPersonById_def)

lemma bf_after: "bldFrame y z \<Longrightarrow> bldFrame z w \<Longrightarrow> memberships y = memberships b \<Longrightarrow> persons y = persons b \<Longrightarrow> bldFrame b w"
  using bf_trans [OF bf_trans [OF bf_same]] by blast

lemma idRoles_upd: "(\<And>m. mb_id (f m) = mb_id m \<and> mb_role (f m) = mb_role m) \<Longrightarrow>
  (\<lambda>m. (mb_id m, mb_role m)) ` set (upd_where P f ms) = (\<lambda>m. (mb_id m, mb_role m)) ` set ms"
  by (rule image_upd) simp

lemma bf_memberships:
  assumes "\<And>m. mb_id (f m) = mb_id m \<and> mb_role (f m) = mb_role m"
  shows "bldFrame b (b\<lparr>memberships := upd_where P f (memberships b)\<rparr>)"
    "bldFrame b (b\<lparr>ownerships := ws, memberships := upd_where P f (memberships b)\<rparr>)"
  using assms by (simp_all add: bldFrame_def idRoles_def idRoles_upd xpOf_def findPersonById_def)

lemma bf_membership_new: "persons b' = persons b \<Longrightarrow> memberships b' = memberships b @ [m] \<Longrightarrow> bldFrame b b'"
  by (auto simp: bldFrame_def idRoles_def xpOf_def findPersonById_def)

lemma xpOf_upd:
  assumes "\<And>q. pe_id (f q) = pe_id q" "persons b' = upd_where P f (persons b)" "\<And>q. P q \<Longrightarrow> pe_xpBalance (f q) = pe_xpBalance q"
  shows "xpOf b' p = xpOf b p"
  using assms by (cases "findPersonById b p") (auto simp: xpOf_def findPersonById_def find_row_upd_same)

lemma bf_persons:
  assumes "\<And>q. pe_id (f q) = pe_id q \<and> pe_xpBalance (f q) = pe_xpBalance q"
  shows "bldFrame b (b\<lparr>persons := upd_where P f (persons b)\<rparr>)"
proof -
  have "xpOf (b\<lparr>persons := upd_where P f (persons b)\<rparr>) p = xpOf b p" for p
    by (rule xpOf_upd [of f _ P]) (simp_all add: assms)
  then show ?thesis by (simp add: bldFrame_def idRoles_def)
qed

lemma bf_person_new:
  assumes "pe_xpBalance q = 0"
  shows "bldFrame b (take_bid (b\<lparr>persons := persons b @ [q]\<rparr>))"
  using assms by (auto simp: bldFrame_def idRoles_def xpOf_def findPersonById_def find_row_append split: option.split)

named_theorems bf_txs "transactions within the frame"

lemma bf_modifyUnit [bf_txs]: "modifyUnit uid f b = Inr (u, b') \<Longrightarrow> bldFrame b b'"
  by (auto simp: modifyUnit_def effect_simps intro: bf_same)

lemma bf_modifyBuilding [bf_txs]: "modifyBuilding bid f b = Inr (d, b') \<Longrightarrow> bldFrame b b'"
  by (auto simp: modifyBuilding_def effect_simps intro: bf_same)

lemma bf_insertMembership: "insertMembership m b = Inr (x, b') \<Longrightarrow> bldFrame b b'"
  by (auto simp: insertMembership_def split: if_splits intro: bf_membership_new)

lemma bf_insertOwnership: "insertOwnership now uid p b = Inr (x, b') \<Longrightarrow> bldFrame b b'"
  by (auto simp: insertOwnership_def Let_def split: if_splits intro: bf_same)

lemma bf_fill: "bldFrame b (fillMissingPersonName p f l b)"
  unfolding fillMissingPersonName_def by (rule bf_persons) auto

lemma bf_modifyMembership:
  "modifyMembership i f b = Inr (x, b') \<Longrightarrow> (\<And>m. mb_id (f m) = mb_id m \<and> mb_role (f m) = mb_role m) \<Longrightarrow> bldFrame b b'"
  by (auto simp: modifyMembership_def effect_simps intro!: bf_memberships(1))

lemma bf_linkOwner [bf_txs]: "linkOwnerToUnit now uid bid p f l b = Inr (m, b') \<Longrightarrow> bldFrame b b'"
  by (auto simp: linkOwnerToUnit_def bind_r_Inr_iff dest!: bf_insertOwnership bf_insertMembership
      intro: bf_trans [OF bf_trans bf_fill])

lemma bf_createUnit [bf_txs]: "createUnit floors bid dto b = Inr (u, b') \<Longrightarrow> bldFrame b b'"
  by (auto simp: createUnit_def Let_def split: if_splits intro: bf_same)

lemma bf_unit_updates [bf_txs]: "updateUnit uid q b = Inr (u, b') \<Longrightarrow> bldFrame b b'"
  "markOwnerInviteSent now uid b = Inr (u, b') \<Longrightarrow> bldFrame b b'"
  by (auto simp: updateUnit_def markOwnerInviteSent_def split: if_splits intro: bf_modifyUnit)

lemma bf_transfer [bf_txs]: "transferOwnership now uid ph b = Inr (u, b') \<Longrightarrow> bldFrame b b'"
  unfolding transferOwnership_def
  by (drule bf_modifyUnit, erule bf_trans [rotated], rule bf_memberships(2)) (simp add: endedMembership_def)

lemma bf_deleteUnit [bf_txs]: "deleteUnitIfUnused uid s b = Inr (x, b') \<Longrightarrow> bldFrame b b'"
  by (auto simp: deleteUnitIfUnused_def effect_simps split: if_splits intro: bf_same bf_refl)

lemma bf_requests [bf_txs]: "createMembershipRequest now bid p r ms b = Inr (x, b') \<Longrightarrow> bldFrame b b'"
  "updateMembershipRequestStatus i st b = Inr (x, b') \<Longrightarrow> bldFrame b b'"
  by (auto simp: createMembershipRequest_def updateMembershipRequestStatus_def Let_def effect_simps split: if_splits intro: bf_same)

lemma bf_createMembership [bf_txs]: "createMembership now p bid r b = Inr (m, b') \<Longrightarrow> bldFrame b b'"
  unfolding createMembership_def by (rule bf_insertMembership)

lemma bf_endManagement [bf_txs]: "endManagement now i b = Inr (m, b') \<Longrightarrow> bldFrame b b'"
  unfolding endManagement_def by (erule bf_modifyMembership) (simp add: endedManager_def)

lemma bf_changeManager [bf_txs]:
  assumes "changeManager now bid q ty a b = Inr (m, b')"
  shows "bldFrame b b'"
proof -
  let ?w = "withoutManager now bid b"
  let ?b2 = "take_bid (?w\<lparr>memberships := memberships ?w @ [m]\<rparr>)"
  have "bldFrame b ?w"
    by (auto simp: withoutManager_def split: option.split intro: bf_refl intro!: bf_memberships(1)) (simp_all add: endedManager_def)
  moreover have "bldFrame ?w ?b2" by (rule bf_membership_new) simp_all
  moreover have "bldFrame ?b2 b'"
    using changeManager_Inr(3) [OF assms] by (auto simp: Let_def clearRecovery_def split: if_splits intro: bf_refl bf_same)
  ultimately show ?thesis by (blast intro: bf_trans)
qed

lemma bf_createTenancy [bf_txs]: "createTenancy now uid bid p b = Inr (t, b') \<Longrightarrow> bldFrame b b'"
  by (auto simp: createTenancy_def Let_def bind_r_Inr_iff split: if_splits dest!: bf_insertMembership bf_modifyUnit
      intro: bf_after)

lemma bf_person_changes [bf_txs]: "createPersonWithName now phone f l b = Inr (p, b') \<Longrightarrow> bldFrame b b'"
  "auth_createPerson now phone b = Inr (p, b') \<Longrightarrow> bldFrame b b'" "updateName i f l b = Inr (p, b') \<Longrightarrow> bldFrame b b'"
  "Inr (q, fillMissingPersonName i f' l' b) = (Inr (p, b') :: (person \<times> bld_db) result) \<Longrightarrow> bldFrame b b'"
  by (auto simp: createPersonWithName_def auth_createPerson_def updateName_def Let_def effect_simps bf_fill split: if_splits
      intro!: bf_person_new bf_persons)

lemma bf_modifyTenancy: "modifyTenancy i f b = Inr (t, b') \<Longrightarrow> bldFrame b b'"
  by (auto simp: modifyTenancy_def effect_simps intro: bf_same)

lemma bf_giveNotice [bf_txs]: "giveTenancyNotice now i b = Inr (t, b') \<Longrightarrow> bldFrame b b'"
  unfolding giveTenancyNotice_def by (rule bf_modifyTenancy)

lemma bf_endTenancy [bf_txs]: "endTenancy now i uid p reason b = Inr (t, b') \<Longrightarrow> bldFrame b b'"
proof -
  have ended: "bldFrame x (x\<lparr>memberships := upd_where P (endedMembership now) (memberships x)\<rparr>)" for x P
    by (rule bf_memberships(1)) (simp add: endedMembership_def)
  show "endTenancy now i uid p reason b = Inr (t, b') \<Longrightarrow> bldFrame b b'"
    by (auto simp: endTenancy_def effect_simps dest!: bf_modifyTenancy bf_modifyUnit intro: bf_trans [OF bf_trans [OF _ ended]])
qed

lemma bf_settings [bf_txs]: "upsertBuildingSettings bid a b = Inr (v, b') \<Longrightarrow> bldFrame b b'"
  by (auto simp: upsertBuildingSettings_def Let_def split: option.splits if_splits intro: bf_same)

lemma bf_skeleton: "bldFrame b (addSkeletonUnits bid ns b)"
proof (induction ns arbitrary: b)
  case (Cons n ns)
  show ?case unfolding addSkeletonUnits.simps by (rule bf_trans [OF bf_same Cons]) simp_all
qed (simp add: bf_refl)

lemma bf_createBuilding [bf_txs]: "createBuildingWithFoundingMember now q b = Inr (d, b') \<Longrightarrow> bldFrame b b'"
  by (auto simp: createBuildingWithFoundingMember_def Let_def bind_r_Inr_iff simp del: upt_Suc split: if_splits
      dest!: bf_insertMembership intro: bf_after [OF _ bf_skeleton])

section \<open>The frame of the site\<close>

text \<open>\<open>framed b d a g\<close>: from building tables \<open>b\<close>, and with the other tables as they were.\<close>

definition framed :: "bld_db \<Rightarrow> bo_db \<Rightarrow> auth_db \<Rightarrow> game_db \<Rightarrow> site \<Rightarrow> bool" where
  "framed b d a g s \<longleftrightarrow> bldFrame b (s_bld s) \<and> s_bo s = d \<and> s_auth s = a \<and> s_game s = g"

interpretation framed: site_invariant "framed b d a g" for b d a g
  by unfold_locales (simp add: framed_def)

lemma framed_bld_tx: "(\<And>b0 x b'. t b0 = Inr (x, b') \<Longrightarrow> bldFrame b0 b') \<Longrightarrow> framed.kept_by b d a g (bld_tx t)"
  by (rule framed.kept_bld_tx) (auto simp: framed_def intro: bf_trans)

lemma framed_site_bld_tx: "(\<And>s b0 x b'. t s b0 = Inr (x, b') \<Longrightarrow> bldFrame b0 b') \<Longrightarrow> framed.kept_by b d a g (site_bld_tx t)"
  by (rule framed.kept_byI) (auto simp: wp_simps framed_def split: sum.split intro: bf_trans)

lemma framed_others: "framed.kept_by b d a g (gov_tx t)" "framed.kept_by b d a g (with_bld u)" "framed.kept_by b d a g (case_tx c)"
  "framed.kept_by b d a g (site_case_tx v)"
  by (auto simp: framed.kept_by_def wp_simps framed_def split: sum.split)

lemma framed_reads: "framed.kept_by b d a g (bld h)" "framed.kept_by b d a g (gov k)" "framed.kept_by b d a g (cas l)"
  "framed.kept_by b d a g (check ok e)"
  unfolding bld_def gov_def check_def cas_def by (rule framed.kept_reads)+

lemmas framed_rules = framed.kept_rules framed_reads framed_others framed_bld_tx framed_site_bld_tx

lemmas bf_all = bf_linkOwner bf_createUnit bf_unit_updates bf_transfer bf_deleteUnit bf_requests bf_createMembership
  bf_endManagement bf_changeManager bf_createTenancy bf_person_changes bf_giveNotice bf_endTenancy bf_settings bf_createBuilding

lemma framed_handleBuilding: "framed.kept_by b d a g (handleBuilding floors now p r)"
  by (cases r; simp only: handleBuilding.simps guarded_def void_def linkOwnerAccountByPhone_def addUnit_def svc_updateUnit_def
      inviteOwner_def inviteOwnerV2_def inviteWith_def deleteUnit_def claimOwnership_def requestMembership_def
      resolveMembershipRequest_def svc_changeManager_def svc_endManagement_def svc_transferOwnership_def
      svc_createTenancy_def registerTenant_def svc_giveTenancyNotice_def svc_endTenancy_def updateSettings_def
      svc_getOwnUnit_def getOwnTenancy_def Let_def getById_def ownUnit_def membershipGuard_def rolesGuard_def
      assertManagesUnit_def; intro framed_rules; erule bf_all)

lemma framed_changeManager: "framed.kept_by b d a g (svc_changeManager now bid q ty x)"
  unfolding svc_changeManager_def getById_def by (intro framed_rules; erule bf_all)

lemma framed_closeVote: "framed.kept_by b d a g (svc_closeVote now bid i x)"
  unfolding svc_closeVote_def voteClosed_def electManager_def getVote_def
  by (intro framed_rules framed_changeManager)

lemma framed_handleVoting: "framed.kept_by b d a g (handleVoting now p r)"
  by (cases r; simp only: handleVoting.simps guarded_def void_def; intro framed_rules framed_closeVote;
      simp only: svc_createVote_def electionChecks_def meetingCheck_def scopeChecks_def svc_listVotes_def getVote_def
        svc_publishVote_def castBallot_def svc_cancelVote_def getResult_def getCurrentProxy_def callerVotesFor_def
        lookupCandidateByPhone_def grant_def revoke_def getById_def ownUnit_def membershipGuard_def rolesGuard_def
        verifiedRolesGuard_def; intro framed_rules)

lemma framed_handleMeetings: "framed.kept_by b d a g (handleMeetings now p r)"
  by (cases r; simp only: handleMeetings.simps guarded_def void_def svc_createMeeting_def svc_updateMeeting_def svc_archiveMeeting_def
      svc_recordAttendance_def listMeetings_def getMeeting_def listAttendance_def getMeetingOrThrow_def getById_def
      membershipGuard_def verifiedRolesGuard_def; intro framed_rules)

lemma framed_handleCase: "framed.kept_by b d a g (handleCase now p r)"
  by (cases r; simp only: handleCase.simps guarded_def void_def svc_createCase_def svc_listCases_def getCase_def updateCase_def
      svc_assignCase_def svc_listAssignments_def addMessage_def svc_listMessages_def svc_resolveCase_def svc_closeCase_def
      svc_reopenCase_def svc_mergeCase_def changed_def getCaseOrThrow_def isPrivileged_def getById_def ownUnit_def
      membershipGuard_def rolesGuard_def Let_def; intro framed_rules)

lemma framed_sweeps: "framed.kept_by b d a g (runAutoPublish now)" "framed.kept_by b d a g (runAutoClose now)"
  unfolding runAutoPublish_def runAutoClose_def sweepVote_def svc_publishVote_def getVote_def
  by (intro framed_rules framed_closeVote)+

lemma framed_handleSite: "framed.kept_by b d a g (handleSite floors now p r)"
  by (cases r; simp only: handleSite.simps void_def)
    (intro framed_rules framed_handleBuilding framed_handleVoting framed_handleMeetings framed_handleCase framed_sweeps)+

end
