(* ===== verification/Platform_Inv.thy ===== *)
theory Platform_Inv
  imports Platform_Frame
begin

text \<open>
  The contract between the requests of the platform and an invariant of its tables.  An
  invariant that survives the few kinds of writes the platform makes survives every history of
  requests, jobs and deliveries of events.
\<close>

section \<open>Writes of the back office\<close>

text \<open>
  Every case of a manager points to a membership of a manager; a write may add cases for a
  membership that has one, or for a manager.
\<close>

definition mcases :: "bld_db \<Rightarrow> bo_db \<Rightarrow> bool" where
  "mcases b d \<longleftrightarrow> (\<forall>k\<in>set (managerCases d). (mv_membershipId k, MANAGER) \<in> idRoles b)"

definition boStep :: "bld_db \<Rightarrow> bo_db \<Rightarrow> bo_db \<Rightarrow> bool" where
  "boStep b d d' \<longleftrightarrow> (\<forall>k\<in>set (managerCases d').
     mv_membershipId k \<in> mv_membershipId ` set (managerCases d) \<or> (mv_membershipId k, MANAGER) \<in> idRoles b)"

lemma boStep_same: "managerCases d' = managerCases d \<Longrightarrow> boStep b d d'"
  by (simp add: boStep_def)

lemma boStep_frame: "boStep b d d' \<Longrightarrow> bldFrame b b' \<Longrightarrow> boStep b' d d'"
  unfolding boStep_def bldFrame_def by blast

lemma mcases_boStep: "mcases b d \<Longrightarrow> boStep b d d' \<Longrightarrow> mcases b d'"
  unfolding mcases_def boStep_def by fastforce

lemma mcases_frame: "mcases b d \<Longrightarrow> bldFrame b b' \<Longrightarrow> mcases b' d"
  unfolding mcases_def bldFrame_def by blast

lemma swap_row_Inr [effect_simps]: "swap_row key i P f m rows = Inr (r, rows') \<longleftrightarrow>
  count_where (\<lambda>r. key r = i \<and> P r) rows = 1 \<and> rows' = upd_where (\<lambda>r. key r = i \<and> P r) f rows \<and> find_row key i rows' = Some r"
  by (auto simp: swap_row_def Let_def needs_def split: option.splits)

lemma modify_row_Inr [effect_simps]: "modify_row key i f rows = Inr (r, rows') \<longleftrightarrow>
  (\<exists>x. find_row key i rows = Some x \<and> r = f x \<and> rows' = upd_where (\<lambda>x. key x = i) f rows)"
  by (auto simp: modify_row_def needs_def split: option.splits)

lemma cases_review:
  "createBuildingVerificationCase b now q d = Inr (bc, d') \<Longrightarrow> managerCases d' = managerCases d"
  "assignBuildingVerificationCase b i p d = Inr (bc, d') \<Longrightarrow> managerCases d' = managerCases d"
  "decideBuildingVerificationCase now i st dec rv reason d = Inr (bc, d') \<Longrightarrow> managerCases d' = managerCases d"
  by (auto simp: createBuildingVerificationCase_def assignBuildingVerificationCase_def decideBuildingVerificationCase_def
      Let_def effect_simps take_oid_def split: if_splits)

lemma cases_fraud:
  "createFraudCase b now fq d = Inr (fc, d') \<Longrightarrow> managerCases d' = managerCases d"
  "assignFraudCase b i p fs0 d = Inr (fc, d') \<Longrightarrow> managerCases d' = managerCases d"
  "addFraudCaseEvidence b now i notes p d = Inr (fe, d') \<Longrightarrow> managerCases d' = managerCases d"
  "decideFraudCase now i fs p reason fs' d = Inr (fc, d') \<Longrightarrow> managerCases d' = managerCases d"
  "requestEnforcementAppeal now i reason d = Inr (ea, d') \<Longrightarrow> managerCases d' = managerCases d"
  by (auto simp: createFraudCase_def assignFraudCase_def addFraudCaseEvidence_def decideFraudCase_def
      requestEnforcementAppeal_def Let_def effect_simps take_oid_def split: if_splits option.splits)

lemma cases_support:
  "createSupportCase b now sq d = Inr (sc, d') \<Longrightarrow> managerCases d' = managerCases d"
  "assignSupportCase b i p st d = Inr (sc, d') \<Longrightarrow> managerCases d' = managerCases d"
  "addSupportCaseMessage b now i p body internal d = Inr (sm, d') \<Longrightarrow> managerCases d' = managerCases d"
  "updateSupportCaseStatus now i st d = Inr (sc, d') \<Longrightarrow> managerCases d' = managerCases d"
  "resolveSupportCase now i code note st d = Inr (sc, d') \<Longrightarrow> managerCases d' = managerCases d"
  "reopenSupportCase i st d = Inr (sc, d') \<Longrightarrow> managerCases d' = managerCases d"
  "escalateSupportCasePriority i pr d = Inr (sc, d') \<Longrightarrow> managerCases d' = managerCases d"
  "mergeSupportCase now i j st d = Inr (sc, d') \<Longrightarrow> managerCases d' = managerCases d"
  by (auto simp: createSupportCase_def assignSupportCase_def addSupportCaseMessage_def updateSupportCaseStatus_def
      resolveSupportCase_def reopenSupportCase_def escalateSupportCasePriority_def mergeSupportCase_def swapSupport_def
      Let_def effect_simps take_oid_def split: if_splits option.splits)

lemma cases_subscription:
  "createSubscription b now bid e d = Inr (su, d') \<Longrightarrow> managerCases d' = managerCases d"
  "createSubscriptionChangeLog now i cl d = Inr (lg, d') \<Longrightarrow> managerCases d' = managerCases d"
  "updateSubscriptionPlan i pl d = Inr (su, d') \<Longrightarrow> managerCases d' = managerCases d"
  "updateSubscriptionStatus i ss c gr d = Inr (su, d') \<Longrightarrow> managerCases d' = managerCases d"
  "createFeatureGrant b now i k ty reason p ex d = Inr (fg, d') \<Longrightarrow> managerCases d' = managerCases d"
  "revokeFeatureGrant now i p d = Inr (fg, d') \<Longrightarrow> managerCases d' = managerCases d"
  by (auto simp: createSubscription_def createSubscriptionChangeLog_def updateSubscriptionPlan_def updateSubscriptionStatus_def
      modifySubscription_def createFeatureGrant_def revokeFeatureGrant_def Let_def effect_simps take_oid_def
      split: if_splits option.splits)

lemma cases_compliance:
  "createComplianceCase b now nx d = Inr (co, d') \<Longrightarrow> managerCases d' = managerCases d"
  "createAutoDetectedComplianceCase b now cat p txt d = Inr (co', d') \<Longrightarrow> managerCases d' = managerCases d"
  "assignComplianceCase b i p fs asg d = Inr (co, d') \<Longrightarrow> managerCases d' = managerCases d"
  "decideComplianceCase now i fs p reason fs' asg d = Inr (co, d') \<Longrightarrow> managerCases d' = managerCases d"
  "createLegalHold b now ty i reason' p d = Inr (lh, d') \<Longrightarrow> managerCases d' = managerCases d"
  "releaseLegalHold now i p d = Inr (lh, d') \<Longrightarrow> managerCases d' = managerCases d"
  by (auto simp: createComplianceCase_def createAutoDetectedComplianceCase_def assignComplianceCase_def decideComplianceCase_def
      createLegalHold_def releaseLegalHold_def Let_def effect_simps take_oid_def split: if_splits option.splits sum.splits)

lemma cases_rbac:
  "createStaffRole f r p d = Inr (sr, d') \<Longrightarrow> managerCases d' = managerCases d"
  "revokeStaffRole now i p d = Inr (sr, d') \<Longrightarrow> managerCases d' = managerCases d"
  "createRolePermission r i p d = Inr (rp, d') \<Longrightarrow> managerCases d' = managerCases d"
  "revokeRolePermission now i p d = Inr (rp, d') \<Longrightarrow> managerCases d' = managerCases d"
  by (auto simp: createStaffRole_def revokeStaffRole_def createRolePermission_def revokeRolePermission_def
      Let_def effect_simps take_oid_def split: if_splits)

lemmas cases_kept = cases_review cases_fraud cases_support cases_subscription cases_compliance cases_rbac

section \<open>Writes of building tables\<close>

definition bldStep :: "bo_db \<Rightarrow> bld_db \<Rightarrow> bld_db \<Rightarrow> bool" where
  "bldStep d b b' \<longleftrightarrow> bldFrame b b' \<and> (mcases b d \<longrightarrow> bld_ok b \<longrightarrow> bld_ok b')"

lemma bldStep_plain: "bldFrame b b' \<Longrightarrow> (bld_ok b \<Longrightarrow> bld_ok b') \<Longrightarrow> bldStep d b b'"
  by (simp add: bldStep_def)

lemma bldStep_frame: "bldStep d b b' \<Longrightarrow> bldFrame b b'"
  by (simp add: bldStep_def)

lemma bldStep_refl: "bldStep d b b"
  by (simp add: bldStep_def bf_refl)

lemma bldStep_trans: "bldStep d a b \<Longrightarrow> bldStep d b c \<Longrightarrow> bldStep d a c"
  unfolding bldStep_def using bf_trans mcases_frame by blast

lemma bs_persons:
  assumes "\<And>q. pe_id (f q) = pe_id q \<and> pe_phone (f q) = pe_phone q \<and> pe_xpBalance (f q) = pe_xpBalance q"
  shows "bldStep d b (b\<lparr>persons := upd_where P f (persons b)\<rparr>)"
  using assms by (intro bldStep_plain bf_persons ok_persons_upd) simp_all

lemma bs_buildings:
  assumes "\<And>q. bd_id (f q) = bd_id q \<and> bd_postalCode (f q) = bd_postalCode q"
  shows "bldStep d b (b\<lparr>buildings := upd_where P f (buildings b)\<rparr>)"
  using assms by (intro bldStep_plain bf_same ok_buildings_upd) simp_all

lemma bs_states:
  assumes "\<And>m. mb_id (f m) = mb_id m \<and> mb_personId (f m) = mb_personId m \<and> mb_buildingId (f m) = mb_buildingId m \<and>
      mb_unitId (f m) = mb_unitId m \<and> mb_role (f m) = mb_role m \<and> mb_isCurrent (f m) = mb_isCurrent m"
  shows "bldStep d b (b\<lparr>memberships := upd_where P f (memberships b)\<rparr>)"
  using assms by (intro bldStep_plain bf_memberships(1) ok_memberships_upd) simp_all

lemma bs_modifyBuilding: "modifyBuilding bid f b = Inr (x, b') \<Longrightarrow>
  (\<And>q. bd_id (f q) = bd_id q \<and> bd_postalCode (f q) = bd_postalCode q) \<Longrightarrow> bldStep d b b'"
  by (auto simp: modifyBuilding_def effect_simps intro: bs_buildings)

lemma bs_status: "updateBuildingStatus bid st b = Inr (x, b') \<Longrightarrow> bldStep d b b'"
  unfolding updateBuildingStatus_def by (erule bs_modifyBuilding) simp

lemma bs_recovery: "setRecoveryMode now bid e b = Inr (x, b') \<Longrightarrow> bldStep d b b'"
  unfolding setRecoveryMode_def by (erule bs_modifyBuilding) simp

lemma bs_suspendManagement: "suspendManagement i b = Inr (x, b') \<Longrightarrow> bldStep d b b'"
  unfolding suspendManagement_def modifyMembership_def by (auto simp: effect_simps intro!: bs_states)

lemma bs_setPerson: "setPerson P f e b = Inr b' \<Longrightarrow>
  (\<And>q. pe_id (f q) = pe_id q \<and> pe_phone (f q) = pe_phone q \<and> pe_xpBalance (f q) = pe_xpBalance q) \<Longrightarrow> bldStep d b b'"
  by (auto simp: setPerson_def split: if_splits intro: bs_persons)

lemma bs_modifyPerson: "modifyPerson i f b = Inr (x, b') \<Longrightarrow>
  (\<And>q. pe_id (f q) = pe_id q \<and> pe_phone (f q) = pe_phone q \<and> pe_xpBalance (f q) = pe_xpBalance q) \<Longrightarrow> bldStep d b b'"
  by (auto simp: modifyPerson_def effect_simps intro: bs_persons)

lemma bs_updateName: "updateName i f l b = Inr (x, b') \<Longrightarrow> bldStep d b b'"
  by (auto simp: updateName_def Let_def effect_simps intro: bs_persons)

lemma bs_newPerson: "auth_createPerson now phone b = Inr (x, b') \<Longrightarrow> bldStep d b b'"
  by (auto simp: auth_createPerson_def Let_def split: if_splits intro!: bldStep_plain bf_person_new ok_person_new)

lemma bs_effect: "applyEffect now q b = Inr (prev, b') \<Longrightarrow> bldStep d b b'"
  by (auto simp: applyEffect_def bind_r_Inr_iff intro: bldStep_refl bs_status bldStep_trans [OF bs_suspendManagement bs_recovery]
      split: enforcementActionType.splits enforcementTargetType.splits option.splits elim!: bs_modifyPerson)

lemma bs_undo: "undoEffect a b = Inr b' \<Longrightarrow> bldStep d b b'"
proof -
  have both: "bldStep d b (b\<lparr>memberships := upd_where P f (memberships b), buildings := upd_where Q g (buildings b)\<rparr>)"
    if "\<And>m. mb_id (f m) = mb_id m \<and> mb_personId (f m) = mb_personId m \<and> mb_buildingId (f m) = mb_buildingId m \<and>
        mb_unitId (f m) = mb_unitId m \<and> mb_role (f m) = mb_role m \<and> mb_isCurrent (f m) = mb_isCurrent m"
      "\<And>q. bd_id (g q) = bd_id q \<and> bd_postalCode (g q) = bd_postalCode q" for P f Q g
    using bldStep_trans [OF bs_states [of f d b P, OF that(1)] bs_buildings [of g d _ Q, OF that(2)]] by simp
  show "undoEffect a b = Inr b' \<Longrightarrow> bldStep d b b'"
    by (auto simp: undoEffect_def bind_r_Inr_iff intro: bldStep_refl intro!: bs_persons bs_buildings both
        split: enforcementActionType.splits enforcementTargetType.splits option.splits previousTargetState.splits)
qed

text \<open>A seat is taken only when nobody else has it.\<close>

lemma one_key: "distinct (map key xs) \<Longrightarrow> \<forall>x\<in>set xs. P x \<longrightarrow> key x = i \<Longrightarrow> one P xs"
proof (induction xs)
  case (Cons x xs)
  show ?case
  proof (cases "P x")
    case True
    then have "key x = i" using Cons.prems(2) by simp
    then have "\<forall>y\<in>set xs. \<not> P y" using Cons.prems by (metis distinct.simps(2) image_eqI list.set_intros(2) list.set_map list.simps(9))
    then show ?thesis by (simp add: one_def filter_empty_conv True)
  qed (use Cons in \<open>simp add: one_def\<close>)
qed simp

lemma bs_seat:
  assumes "seatManager alone k P f e since b = Inr b'" "k \<in> set (managerCases d)"
    and f: "\<And>m. mb_id (f m) = mb_id m \<and> mb_personId (f m) = mb_personId m \<and> mb_buildingId (f m) = mb_buildingId m \<and>
      mb_unitId (f m) = mb_unitId m \<and> mb_role (f m) = mb_role m"
    and leaves: "\<And>m. \<not> alone \<Longrightarrow> \<not> mb_isCurrent (f m)"
  shows "bldStep d b b'"
proof -
  let ?Q = "\<lambda>x. claimed k x \<and> P x"
  define b1 where "b1 = b\<lparr>memberships := upd_where ?Q f (memberships b)\<rparr>"
  have alone: "alone \<Longrightarrow> \<not> competingManager b (mv_buildingId k) (mv_membershipId k)" and "setRecovery (mv_buildingId k) since b1 = Inr b'"
    using assms(1) by (auto simp: seatManager_def setMembership_def b1_def effect_simps split: if_splits)
  then have rec: "bldStep d b1 b'"
    by (auto simp: setRecovery_def split: if_splits intro: bs_buildings)
  have "bldStep d b b1"
    unfolding bldStep_def
  proof (intro conjI impI)
    show "bldFrame b b1" unfolding b1_def by (rule bf_memberships(1)) (simp add: f)
    assume "mcases b d" and ok: "bld_ok b"
    then have "(mv_membershipId k, MANAGER) \<in> idRoles b" using assms(2) by (simp add: mcases_def)
    then have role: "mb_role m = MANAGER" if "m \<in> set (memberships b)" "mb_id m = mv_membershipId k" for m
      using membership_key [OF ok that(1)] that(2) by (auto simp: idRoles_def)
    have ids: "distinct (map mb_id (upd_where ?Q f (memberships b)))"
      using bld_okD(2) [OF ok] f by (simp add: keys_ok_def map_key_upd_where)
    show "bld_ok b1"
      unfolding b1_def
    proof (rule ok_memberships_seats [OF ok f])
      assume man: "managers_ok b"
      have "one (managesNow bid) (upd_where ?Q f (memberships b))" for bid
      proof (cases "alone \<and> bid = mv_buildingId k")
        case True
        then have "\<forall>m\<in>set (memberships b). managesNow bid m \<longrightarrow> mb_id m = mv_membershipId k"
          using alone by (auto simp: competingManager_def list_ex_iff managesNow_def)
        then have "\<forall>m\<in>set (upd_where ?Q f (memberships b)). managesNow bid m \<longrightarrow> mb_id m = mv_membershipId k"
          using f by (auto simp: set_upd_where claimed_def)
        with ids show ?thesis by (rule one_key)
      next
        case False
        show ?thesis
        proof (rule one_upd)
          show "one (managesNow bid) (memberships b)" using man by (simp add: managers_ok_def)
          fix m assume "?Q m" "managesNow bid (f m)"
          then show "managesNow bid m" using False leaves [of m] f [of m] by (auto simp: managesNow_def claimed_def)
        qed
      qed
      then show "managers_ok (b\<lparr>memberships := upd_where ?Q f (memberships b)\<rparr>)" by (simp add: managers_ok_def)
    next
      fix m assume "m \<in> set (memberships b)" "?Q m" "mb_role m \<in> {OWNER, TENANT}"
      then show "mb_isCurrent (f m) = mb_isCurrent m" using role [of m] by (auto simp: claimed_def)
    qed
  qed
  then show ?thesis using rec by (rule bldStep_trans)
qed

end
