(* ===== verification/Platform_Laws.thy ===== *)
theory Platform_Laws
  imports Platform_Inv
begin

text \<open>
  Whatever survives the writes of \<open>Platform_Inv\<close>, of sign-in and of gamification, and the
  requests of members, survives every history of the platform.
\<close>

section \<open>Transactions over several tables\<close>

text \<open>Building and back office tables written together; the log is free.\<close>

definition deskStep :: "site \<Rightarrow> site \<Rightarrow> bool" where
  "deskStep s t \<longleftrightarrow> bldStep (s_bo s) (s_bld s) (s_bld t) \<and> boStep (s_bld s) (s_bo s) (s_bo t) \<and>
     s_fin t = s_fin s \<and> s_gov t = s_gov s \<and> s_case t = s_case s \<and> s_auth t = s_auth s \<and> s_game t = s_game s"

lemma boStep_rows:
  assumes "managerCases d' = upd_where P f (managerCases d)" "\<And>k. mv_membershipId (f k) = mv_membershipId k"
  shows "boStep b d d'"
  using assms by (auto simp: boStep_def set_upd_where)

lemma boStep_copy:
  "managerCases d' = managerCases d @ [r] \<Longrightarrow> k \<in> set (managerCases d) \<Longrightarrow> mv_membershipId r = mv_membershipId k \<Longrightarrow> boStep b d d'"
  by (auto simp: boStep_def)

lemma insertManagerCase_cases: "insertManagerCase b r d = Inr (x, d') \<Longrightarrow> managerCases d' = managerCases d @ [r] \<and> x = r"
  by (auto simp: insertManagerCase_def effect_simps take_oid_def)

lemma foundCase: "findManagerVerificationCaseById d i = Some k \<Longrightarrow> k \<in> set (managerCases d)"
  unfolding findManagerVerificationCaseById_def by (drule find_row_SomeD) simp

lemma seatChanges [simp]:
  "mb_id (verifiedManager m) = mb_id m" "mb_personId (verifiedManager m) = mb_personId m"
  "mb_buildingId (verifiedManager m) = mb_buildingId m" "mb_unitId (verifiedManager m) = mb_unitId m"
  "mb_role (verifiedManager m) = mb_role m"
  "mb_id (membershipData now dec m) = mb_id m" "mb_personId (membershipData now dec m) = mb_personId m"
  "mb_buildingId (membershipData now dec m) = mb_buildingId m" "mb_unitId (membershipData now dec m) = mb_unitId m"
  "mb_role (membershipData now dec m) = mb_role m" "mb_isCurrent (membershipData now MD_REJECT m) = False"
  by (simp_all add: verifiedManager_def membershipData_def)

lemma decide_step:
  assumes "decideManagerVerificationCaseAtomically now k st dec src reviewer reason s = Inr (x, t)" "k \<in> set (managerCases (s_bo s))"
  shows "deskStep s t"
  using assms(1)
  by (auto simp: decideManagerVerificationCaseAtomically_def effect_simps deskStep_def
      intro!: bs_seat [OF _ assms(2)] boStep_rows)

lemma bs_verified: "seatManager True k P verifiedManager e since b = Inr b' \<Longrightarrow> k \<in> set (managerCases d) \<Longrightarrow> bldStep d b b'"
  by (erule bs_seat) simp_all

lemma restore_step:
  assumes "restoreManagerVerificationCaseAtomically now i reviewer reason s = Inr (x, t)"
  shows "deskStep s t"
  using assms
  by (auto simp: restoreManagerVerificationCaseAtomically_def effect_simps deskStep_def restoredCase_def newManagerCase_def
      split: option.splits dest!: insertManagerCase_cases foundCase intro: boStep_copy bs_verified)

lemma approval_step:
  assumes "castManagerVerificationApprovalAtomically now i owner s = Inr (x, t)"
  shows "deskStep s t"
  using assms
  by (auto simp: castManagerVerificationApprovalAtomically_def effect_simps deskStep_def Let_def take_oid_def
      split: option.splits if_splits dest!: foundCase intro: boStep_rows boStep_same bldStep_refl bs_verified)

lemma appeal_step:
  assumes "createManagerVerificationAppealAtomically now i caller s = Inr (x, t)"
  shows "deskStep s t"
  using assms
  by (auto simp: createManagerVerificationAppealAtomically_def effect_simps deskStep_def newManagerCase_def
      split: option.splits dest!: insertManagerCase_cases foundCase intro: boStep_copy bldStep_refl)

lemma enforcement_step:
  assumes "createEnforcementActionWithEffect now q s = Inr (x, t)"
  shows "deskStep s t"
  using assms
  by (auto simp: createEnforcementActionWithEffect_def bind_r_Inr_iff Let_def deskStep_def take_oid_def split: option.splits
      intro: boStep_same bs_effect bldStep_refl)

lemma overturn_step:
  assumes "repo_decideEnforcementAppeal now i st decider s = Inr (x, t)"
  shows "deskStep s t"
  using assms
  by (auto simp: repo_decideEnforcementAppeal_def bind_r_Inr_iff Let_def deskStep_def split: if_splits
      intro: boStep_same bs_undo bldStep_refl)

lemma backofficeApproval_step:
  assumes "changePersonBackofficeApprovalAtomically target actor approved reason s = Inr (x, t)"
  shows "deskStep s t"
  using assms
  by (auto simp: changePersonBackofficeApprovalAtomically_def bind_r_Inr_iff deskStep_def
      intro: boStep_same elim!: bs_setPerson)

section \<open>Writes of sign-in\<close>

text \<open>A refresh token that has been used or revoked stays so.\<close>

definition spent :: "string \<Rightarrow> auth_db \<Rightarrow> bool" where
  "spent h a \<longleftrightarrow> (\<exists>t. find_row rt_tokenHash h (refreshTokens a) = Some t \<and> rt_revokedAt t \<noteq> None)"

definition authStep :: "auth_db \<Rightarrow> auth_db \<Rightarrow> bool" where
  "authStep a a' \<longleftrightarrow> (\<forall>h. spent h a \<longrightarrow> spent h a')"

lemma as_tokens: "refreshTokens a' = refreshTokens a \<Longrightarrow> authStep a a'"
  by (simp add: authStep_def spent_def)

lemma as_trans: "authStep a b \<Longrightarrow> authStep b c \<Longrightarrow> authStep a c"
  by (simp add: authStep_def)

lemma as_new: "refreshTokens a' = refreshTokens a @ [t] \<Longrightarrow> authStep a a'"
  by (auto simp: authStep_def spent_def find_row_append split: option.splits)

lemma find_upd: "(\<And>r. key (f r) = key r) \<Longrightarrow> find_row key i (upd_where P f rows) =
  map_option (\<lambda>r. if P r then f r else r) (find_row key i rows)"
  by (induction rows) (auto simp: find_row_def)

lemma as_upd:
  assumes "\<And>t. rt_tokenHash (f t) = rt_tokenHash t" "\<And>t. rt_revokedAt t \<noteq> None \<Longrightarrow> rt_revokedAt (f t) \<noteq> None"
  shows "authStep a (a\<lparr>refreshTokens := upd_where P f (refreshTokens a)\<rparr>)"
proof -
  have "rt_revokedAt (if P t then f t else t) \<noteq> None" if "rt_revokedAt t \<noteq> None" for t using assms(2) [OF that] that by simp
  then show ?thesis unfolding authStep_def spent_def using find_upd [of rt_tokenHash f, OF assms(1)] by fastforce
qed

lemma as_createRefreshToken: "createRefreshToken now p dev h ex a = Inr (t, a') \<Longrightarrow> authStep a a'"
  by (auto simp: createRefreshToken_def Let_def take_aid_def split: if_splits intro!: as_new)

lemma as_rotate:
  assumes "rotateRefreshToken now was h ex a = Inr (ok, a')"
  shows "authStep a a'"
proof (cases "count_where (usable now was) (refreshTokens a) \<noteq> 1")
  case False
  define a1 where "a1 = a\<lparr>refreshTokens := upd_where (usable now was) (\<lambda>t. t\<lparr>rt_revokedAt := Some now\<rparr>) (refreshTokens a)\<rparr>"
  obtain t a2 where c: "createRefreshToken now (rt_personId was) (rt_deviceId was) h ex a1 = Inr (t, a2)"
    and a': "a' = a2\<lparr>refreshTokens := upd_where (\<lambda>t. rt_id t = rt_id was) (\<lambda>x. x\<lparr>rt_replacedBy := Some (rt_id t)\<rparr>) (refreshTokens a2)\<rparr>"
    using assms False by (auto simp: rotateRefreshToken_def Let_def bind_r_Inr_iff a1_def)
  have "authStep a a1" unfolding a1_def by (rule as_upd) simp_all
  moreover have "authStep a2 a'" unfolding a' by (rule as_upd) simp_all
  ultimately show ?thesis using as_createRefreshToken [OF c] by (blast intro: as_trans)
qed (use assms in \<open>auto simp: rotateRefreshToken_def intro: as_tokens\<close>)

lemma as_codes: "createOtpRequest now phone purpose h ex n a = Inr (r, a') \<Longrightarrow> authStep a a'"
  "incrementOtpAttempts i a = Inr (u, a') \<Longrightarrow> authStep a a'" "claimOtp now was a = Inr (ok, a') \<Longrightarrow> authStep a a'"
  "upsertDevice now p token platform a = Inr (dv, a') \<Longrightarrow> authStep a a'"
  by (auto simp: createOtpRequest_def incrementOtpAttempts_def claimOtp_def upsertDevice_def Let_def take_aid_def
      split: option.splits intro!: as_tokens)

lemma as_revoke: "authStep a (revokeTokens now p a)"
  unfolding revokeTokens_def by (rule as_upd) simp_all

end
