(* ===== verification/Platform_Kept.thy ===== *)
theory Platform_Kept
  imports Platform_Laws
begin

text \<open>
  The contract between the services of the platform and an invariant, and the proof that every
  request, job and delivery keeps whatever meets it.
\<close>

lemma wp_bo_with_bld [wp_simps]: "wp (bo_with_bld f) Q E = (\<lambda>s. wp (bo_tx (f (s_bld s))) Q E s)"
  by (rule ext) (simp add: wp_def bo_with_bld_def)

section \<open>The contract\<close>

locale platform_invariant = site_invariant +
  assumes on_bld: "I s \<Longrightarrow> bldStep (s_bo s) (s_bld s) b \<Longrightarrow> I (s\<lparr>s_bld := b\<rparr>)"
    and on_bo: "I s \<Longrightarrow> boStep (s_bld s) (s_bo s) d \<Longrightarrow> I (s\<lparr>s_bo := d\<rparr>)"
    and on_auth: "I s \<Longrightarrow> authStep (s_auth s) a \<Longrightarrow> I (s\<lparr>s_auth := a\<rparr>)"
    and on_award: "I s \<Longrightarrow> repo_awardXp now q n s = Inr (y, t) \<Longrightarrow> I t"
    and on_unlock: "I s \<Longrightarrow> unlockAchievement now p c ob s = Inr (y', t) \<Longrightarrow> I t"
    and on_revoke: "I s \<Longrightarrow> repo_revokeAchievement now p c actor (s_game s) = Inr (y', g) \<Longrightarrow> I (s\<lparr>s_game := g\<rparr>)"
    and on_score: "I s \<Longrightarrow> repo_applyBuildingScoreDelta (s_bld s) now bid n r src (s_game s) = Inr (z, g) \<Longrightarrow> I (s\<lparr>s_game := g\<rparr>)"
    and on_site: "kept_by (handleSite floors now p sr)"
    and on_createVote: "kept_by (svc_createVote now bid dto p)"
    and on_publishVote: "kept_by (svc_publishVote now bid i cl)"
    and on_closeVote: "kept_by (svc_closeVote now bid i cl)"
    and on_cancelVote: "kept_by (svc_cancelVote now bid i reason p)"
begin

lemma on_desk: "I s \<Longrightarrow> deskStep s t \<Longrightarrow> I t"
proof -
  assume I: "I s" and st: "deskStep s t"
  have "I (s\<lparr>s_bld := s_bld t\<rparr>)" using st by (intro on_bld [OF I]) (simp add: deskStep_def)
  moreover have "boStep (s_bld t) (s_bo s) (s_bo t)"
    using st by (auto simp: deskStep_def intro: boStep_frame bldStep_frame)
  ultimately have "I (s\<lparr>s_bld := s_bld t, s_bo := s_bo t\<rparr>)"
    using on_bo [of "s\<lparr>s_bld := s_bld t\<rparr>" "s_bo t"] by simp
  then show "I t" by (rule log_free [rotated 7]) (use st in \<open>simp_all add: deskStep_def\<close>)
qed

lemma kept_desk: "(\<And>s x t. f s = Inr (x, t) \<Longrightarrow> deskStep s t) \<Longrightarrow> kept_by (site_tx f)"
  by (rule kept_site_tx) (blast intro: on_desk)

lemma kept_bo: "(\<And>d x d'. f d = Inr (x, d') \<Longrightarrow> managerCases d' = managerCases d) \<Longrightarrow> kept_by (bo_tx f)"
  by (rule kept_bo_tx) (blast intro: on_bo boStep_same)

lemma kept_bo_with:
  assumes "\<And>b d x d'. f b d = Inr (x, d') \<Longrightarrow> managerCases d' = managerCases d"
  shows "kept_by (bo_with_bld f)"
  by (rule kept_byI) (auto simp: wp_simps split: sum.split intro!: on_bo boStep_same assms)

lemma on_log: "I s \<Longrightarrow> I (snd (publish ev s))" "I s \<Longrightarrow> I (snd (record_audit a bid w i r s))"
  by (rule log_free [rotated 7]; simp)+

lemma kept_bld: "(\<And>d b x b'. f b = Inr (x, b') \<Longrightarrow> bldStep d b b') \<Longrightarrow> kept_by (bld_tx f)"
  by (rule kept_bld_tx) (blast intro: on_bld)

lemma kept_auth: "(\<And>a x a'. f a = Inr (x, a') \<Longrightarrow> authStep a a') \<Longrightarrow> kept_by (auth_tx f)"
  by (rule kept_auth_tx) (blast intro: on_auth)

lemma kept_asks: "kept_by (bo h1)" "kept_by (bld h2)" "kept_by (auth h3)" "kept_by (game h4)" "kept_by (getById d)"
  "kept_by (platformRolesGuard ro p)" "kept_by (permissionsGuard pk p)" "kept_by (rolesGuard rs p d)" "kept_by (membershipGuard p d)"
  "kept_by (jwtValidate p)" "kept_by (fraudAppealGuard p)"
  unfolding bo_def bld_def auth_def game_def getById_def platformRolesGuard_def permissionsGuard_def rolesGuard_def
    membershipGuard_def jwtValidate_def fraudAppealGuard_def
  by (rule kept_reads)+

lemmas asks = kept_rules kept_asks

lemma kept_void: "kept_by c \<Longrightarrow> kept_by (void c)"
  unfolding void_def by (intro asks)

lemma kept_staffed: "kept_by c \<Longrightarrow> kept_by (staffed ro pk p c)"
  unfolding staffed_def staffOnly_def by (intro asks kept_void)

lemma kept_adminOnly: "kept_by c \<Longrightarrow> kept_by (adminOnly p c)"
  unfolding adminOnly_def by (intro asks kept_void)

lemma kept_guarded: "kept_by g \<Longrightarrow> kept_by c \<Longrightarrow> kept_by (guarded g c)"
  unfolding guarded_def by (intro asks kept_void)

lemmas routes = asks kept_void kept_staffed kept_adminOnly kept_guarded kept_desk kept_bo kept_bo_with kept_bld kept_auth

section \<open>Verification\<close>

lemma kept_evaluate: "kept_by (evaluateNewBuilding now bid city district street creator)"
  unfolding evaluateNewBuilding_def Let_def by (intro routes; (erule cases_kept bs_status)?)

lemma kept_buildingReview: "kept_by (handleBuildingReview coll now p r)"
  by (cases r; simp only: handleBuildingReview.simps bv_listCases_def bv_getCase_def bv_assignCase_def bv_decideCase_def Let_def;
      intro routes; (erule cases_kept bs_status)?)

lemma kept_buildingAppeal: "kept_by (handleBuildingAppeal now p r)"
  by (cases r; simp only: handleBuildingAppeal.simps bv_appealCase_def; intro routes; (erule cases_kept bs_status)?)

lemma kept_decide: "kept_by (mv_decideCase now i dec p reason)"
proof (rule kept_byI)
  fix s assume s: "I s"
  show "wp (mv_decideCase now i dec p reason) (\<lambda>_. I) (\<lambda>_. I) s"
    using s unfolding mv_decideCase_def mv_getCase_def
    by (auto simp: wp_simps assert_r_def split: option.splits sum.splits
        dest!: foundCase intro!: on_log elim: on_desk [OF _ decide_step])
qed

lemma kept_managerReview: "kept_by (handleManagerReview now p r)"
  by (cases r; simp only: handleManagerReview.simps mv_listCases_def mv_getCase_def restoreManagement_def;
      intro routes kept_decide [unfolded mv_getCase_def]; (erule restore_step)?)

lemma kept_managerApproval: "kept_by (handleManagerApproval now p r)"
  by (cases r; simp only: handleManagerApproval.simps approveByOwner_def mv_appealCase_def; intro routes;
      (erule approval_step appeal_step)?)

lemma kept_initiate: "kept_by (initiateForNewBuilding now bid)"
  unfolding initiateForNewBuilding_def by (intro routes; (erule cases_kept)?)

lemma kept_queue: "kept_by (bind_svc (bld (\<lambda>b. getCurrentManagerMembership b bid)) (\<lambda>m. case m of None \<Rightarrow> return_svc ()
    | Some mb \<Rightarrow> bind_svc (initiateForProvisionalManager now bid (mb_id mb) creator None) (\<lambda>_. return_svc ())))"
proof (rule kept_byI)
  fix s assume s: "I s"
  have "boStep (s_bld s) (s_bo s) d'"
    if "getCurrentManagerMembership (s_bld s) bid = Some mb"
      "createManagerVerificationCase (s_bld s) now bid (mb_id mb) creator PR_NORMAL None (s_bo s) = Inr (k, d')" for mb k d'
    using currentManager [OF that(1)] insertManagerCase_cases [OF that(2) [unfolded createManagerVerificationCase_def]]
    by (auto simp: boStep_def newManagerCase_def idRoles_def managesNow_def)
  then show "wp (bind_svc (bld (\<lambda>b. getCurrentManagerMembership b bid)) (\<lambda>m. case m of None \<Rightarrow> return_svc ()
    | Some mb \<Rightarrow> bind_svc (initiateForProvisionalManager now bid (mb_id mb) creator None) (\<lambda>_. return_svc ()))) (\<lambda>_. I) (\<lambda>_. I) s"
    using s unfolding initiateForProvisionalManager_def
    by (auto simp: wp_simps wp_bld split: option.split sum.split intro!: on_log on_bo)
qed

lemma kept_created: "kept_by (onBuildingCreated now bid p ro)"
  unfolding onBuildingCreated_def
  by (rule kept_bind [OF kept_asks(2)], rule kept_option [OF kept_reads(1)],
      rule kept_bind [OF kept_evaluate kept_bind [OF kept_initiate kept_if [OF kept_queue kept_reads(1)]]])

section \<open>Desks\<close>

lemma kept_fraud: "kept_by (handleFraud now p r)"
  by (cases r; simp only: handleFraud.simps fraud_openCase_def fraud_listCases_def fraud_getCase_def fraud_assignCase_def addEvidence_def
      fraud_decideCase_def fraud_reopenCase_def enforce_def decideEnforcementAppeal_def theEnforcement_def;
      intro routes; (erule cases_kept enforcement_step overturn_step)?)

lemma kept_fraudReport: "kept_by (handleFraudReport now p r)"
  by (cases r; simp only: handleFraudReport.simps fraud_report_def; intro routes; (erule cases_kept)?)

lemma kept_appealSanction: "kept_by (appealEnforcement now i p reason)"
  unfolding appealEnforcement_def theEnforcement_def by (intro routes; (erule cases_kept)?)

lemma kept_support: "kept_by (handleSupport now p r)"
  by (cases r; simp only: handleSupport.simps support_open_def support_listCases_def support_getCase_def support_assign_def
      addStaffMessage_def support_resolve_def support_close_def support_escalate_def support_merge_def;
      intro routes; (erule cases_kept)?)

lemma kept_supportReport: "kept_by (handleSupportReport now p r)"
  by (cases r; simp only: handleSupportReport.simps support_open_def listMine_def getCaseForOwner_def replyAsCreator_def
      support_reopen_def support_getCase_def; intro routes; (erule cases_kept)?)

lemma kept_detect: "kept_by (detectAnomalies now p)"
  unfolding detectAnomalies_def sweepGroups_def autoOpen_def by (intro routes; (erule cases_kept)?)

lemma kept_compliance: "kept_by (handleCompliance coll now p r)"
  by (cases r; simp only: handleCompliance.simps compliance_open_def compliance_listCases_def compliance_getCase_def
      compliance_assign_def compliance_decide_def; intro routes kept_detect; (erule cases_kept)?)

lemma kept_holds: "kept_by (handleHold now p r)"
  by (cases r; simp only: handleHold.simps hold_place_def hold_list_def hold_release_def; intro routes; (erule cases_kept)?)

lemma kept_changeStatus: "kept_by (changeStatus now bid st p reason)"
  unfolding changeStatus_def getForBuilding_def by (intro routes; (erule cases_kept)?)

lemma kept_expiry: "kept_by (evaluateExpiry now bid p)"
  unfolding evaluateExpiry_def downgraded_def getForBuilding_def by (intro routes kept_changeStatus; (erule cases_kept)?)

lemma kept_subscription: "kept_by (handleSubscription now p r)"
  by (cases r; simp only: handleSubscription.simps getReadDetail_def resolveEffectiveFeatures_def getHistory_def changePlan_def
      createGrant_def revokeGrant_def getForBuilding_def;
      intro routes kept_changeStatus kept_expiry; (erule cases_kept)?)

lemma kept_subscriptionReport: "kept_by (handleSubscriptionReport now p r)"
  by (cases r; simp only: handleSubscriptionReport.simps getReadDetail_def resolveEffectiveFeatures_def getForBuilding_def; intro routes)

lemma kept_sweep: "kept_by (evaluateAllDueExpiries now)"
  unfolding evaluateAllDueExpiries_def by (intro routes kept_expiry)

section \<open>Administration\<close>

lemma kept_suspension: "kept_by (site_tx (changePersonSuspensionAtomically now target actor suspend reason))"
proof (rule kept_site_tx)
  fix s x t assume I: "I s" and run: "changePersonSuspensionAtomically now target actor suspend reason s = Inr (x, t)"
  from run obtain b where b: "setPerson (\<lambda>x. pe_id x = target \<and> pe_isSuspended x = (\<not> suspend)) (\<lambda>x. x\<lparr>pe_isSuspended := suspend\<rparr>)
      STR ''Person suspension state changed.'' (s_bld s) = Inr b" and
    t: "t = snd (record_audit (Some actor) None (if suspend then STR ''PersonSuspendedByAdmin'' else STR ''PersonReinstatedByAdmin'')
      target (Some reason) (s\<lparr>s_bld := b, s_auth := (if suspend then revokeTokens now target (s_auth s) else s_auth s)\<rparr>))"
    by (auto simp: changePersonSuspensionAtomically_def bind_r_Inr_iff)
  have "I (s\<lparr>s_bld := b\<rparr>)" by (rule on_bld [OF I]) (rule bs_setPerson [OF b], simp)
  then have "I (s\<lparr>s_bld := b, s_auth := (if suspend then revokeTokens now target (s_auth s) else s_auth s)\<rparr>)"
    by (rule on_auth) (simp add: as_revoke as_tokens)
  then show "I t" unfolding t by (rule log_free [rotated 7]) simp_all
qed

lemma kept_users: "kept_by (handleUser now p r)"
  by (cases r; simp only: handleUser.simps suspendOrReinstate_def; intro asks kept_void kept_staffed kept_suspension)

lemma kept_access: "kept_by (handleAccess now p r)"
  by (cases r; simp only: handleAccess.simps setBackofficeApproval_def; intro routes; erule backofficeApproval_step)

lemma kept_buildingAdmin: "kept_by (handleBuildingAdmin now p r)"
  by (cases r; simp only: handleBuildingAdmin.simps lockBuilding_def reinstateBuilding_def setStatusByAdmin_def; intro routes;
      (erule bs_status)?)

lemma kept_governanceAdmin: "kept_by (handleGovernanceAdmin now p r)"
  by (cases r; simp only: handleGovernanceAdmin.simps staffVote_def svc_listVotes_def getVote_def getResult_def gov_def; intro routes
      on_createVote on_publishVote on_closeVote on_cancelVote)

lemma kept_rbac: "kept_by (handleRbac now p r)"
  by (cases r; simp only: handleRbac.simps assignRole_def revokeRole_def grantPermission_def revokePermission_def; intro routes;
      (erule cases_kept)?)

section \<open>Gamification\<close>

lemma kept_score: "kept_by (applyBuildingScoreDelta now d n r src)"
proof -
  have "kept_by (game_with_bld (\<lambda>b. repo_applyBuildingScoreDelta b now d n r src))"
    by (rule kept_byI) (auto simp: game_with_bld_def wp_def game_tx_def split: sum.split intro: on_score)
  then show ?thesis unfolding applyBuildingScoreDelta_def by (intro asks)
qed

lemma kept_repo_award: "kept_by (site_tx (repo_awardXp now q n))"
  by (rule kept_site_tx) (rule on_award)

lemma kept_repo_unlock: "kept_by (site_tx (unlockAchievement now p c bid))"
  by (rule kept_site_tx) (rule on_unlock)

lemma kept_repo_revoke: "kept_by (game_tx (repo_revokeAchievement now p c actor))"
  by (rule kept_game_tx) (rule on_revoke)

lemmas games = asks kept_void kept_staffed kept_guarded kept_score kept_repo_award kept_repo_unlock kept_repo_revoke

lemma kept_award: "kept_by (awardXp now q)"
  unfolding awardXp_def Let_def by (intro games)

lemma kept_clawback: "kept_by (clawbackChargePaidXp now i src)"
  unfolding clawbackChargePaidXp_def by (intro games kept_award)

lemma kept_gameAdmin: "kept_by (handleGameAdmin now p r)"
  by (cases r; simp only: handleGameAdmin.simps adjustXp_def adjustBuildingScore_def grantAchievement_def revokeAchievement_def
      assertPersonExists_def assertBuildingGiven_def assertBuildingExists_def svc_adjustXp_def svc_adjustBuildingScore_def
      svc_grantAchievement_def svc_revokeAchievement_def; intro games)

lemma kept_game: "kept_by (handleGame rank now p r)" "kept_by (handleBuildingGame p r')"
  by (cases r; simp only: handleGame.simps getMyProgress_def getMyXpHistory_def getLeaderboard_def getAnalytics_def; intro games)
    (cases r'; simp only: handleBuildingGame.simps getBuildingScore_def; intro games)

lemma kept_listeners: "kept_by (onSiteEvent now e)" "kept_by (onFinanceEvent now fe)"
  by (cases e; simp only: onSiteEvent.simps; intro games kept_award)
    (cases fe; simp only: onFinanceEvent.simps; intro games kept_award kept_clawback)

lemma kept_deliver: "kept_by (deliver now e)"
  unfolding deliver_def swallowed_def by (cases e; simp only: siteEvent.case; intro asks kept_created kept_listeners)

section \<open>Sign-in\<close>

lemma kept_link: "kept_by (linkOwnerAccountByPhone now p phone)"
  using on_site [of "\<lambda>_. True" now p "Building (Building_Api.VerifyOtp phone)"]
  by (simp add: kept_by_def void_def wp_simps)

lemma kept_signIn: "kept_by (handleSignIn x now r)"
  by (cases r; simp only: handleSignIn.simps requestOtp_def verifyOtp_def redeemOtp_def refresh_def issueTokenPair_def Let_def;
      intro asks kept_void kept_link kept_auth kept_bld;
      (erule as_codes as_createRefreshToken as_rotate bs_newPerson)?)

lemma kept_profile: "kept_by (handleProfile p r)"
  by (cases r; simp only: handleProfile.simps getMyProfile_def updateMyProfile_def; intro routes; erule bs_updateName)

section \<open>Histories\<close>

lemma kept_handlePlatform: "kept_by (handlePlatform w now p r)"
proof -
  note handlers = on_site kept_buildingReview kept_managerReview kept_fraud kept_support kept_compliance kept_holds kept_subscription
    kept_users kept_access kept_buildingAdmin kept_governanceAdmin kept_gameAdmin kept_rbac kept_managerApproval kept_buildingAppeal
    kept_fraudReport kept_supportReport kept_subscriptionReport kept_profile kept_game kept_appealSanction kept_signIn kept_sweep
    kept_detect kept_deliver kept_listeners
  show ?thesis
    by (cases r; simp only: handlePlatform.simps signedInOnly_def swallowed_def; intro asks kept_void kept_guarded handlers)
qed

lemma kept_history: "I s \<Longrightarrow> I (runPlatform w rs s)"
  by (rule history [OF kept_handlePlatform])

end

end
