(* ===== verification/Platform_Invariants.thy ===== *)
theory Platform_Invariants
  imports Platform_Kept
begin

text \<open>
  Three invariants of the platform, each an instance of the contract of \<open>Platform_Kept\<close>: the
  tables of the site stay well formed, balances of experience points are the sum of what was
  earned, and spent refresh tokens stay spent.
\<close>

section \<open>From frames to invariants\<close>

lemma framed_votes: "framed.kept_by b d a g (svc_createVote now bid dto p)" "framed.kept_by b d a g (svc_publishVote now bid i x)"
  "framed.kept_by b d a g (svc_cancelVote now bid i reason p)"
  by (simp only: svc_createVote_def electionChecks_def meetingCheck_def scopeChecks_def svc_publishVote_def svc_cancelVote_def
      getVote_def getById_def; intro framed_rules)+

lemma framed_start: "framed (s_bld s) (s_bo s) (s_auth s) (s_game s) s"
  by (simp add: framed_def bf_refl)

text \<open>What reads the building tables up to their frame, and the tables no member's request writes.\<close>

context site_invariant
begin

lemma kept_framed:
  assumes "\<And>b d a g. framed.kept_by b d a g m"
    and "\<And>s t. I s \<Longrightarrow> framed (s_bld s) (s_bo s) (s_auth s) (s_game s) t \<Longrightarrow> I t"
  shows "kept_by m"
proof (rule kept_byI)
  fix s assume s: "I s"
  have "wp m (\<lambda>_. framed (s_bld s) (s_bo s) (s_auth s) (s_game s)) (\<lambda>_. framed (s_bld s) (s_bo s) (s_auth s) (s_game s)) s"
    using assms(1) framed_start unfolding framed.kept_by_def by blast
  then show "wp m (\<lambda>_. I) (\<lambda>_. I) s" by (rule wp_mono) (use assms(2) [OF s] in blast)+
qed

end

section \<open>The tables of the site\<close>

definition platformOn :: "gov_db \<Rightarrow> case_db \<Rightarrow> site \<Rightarrow> bool" where
  "platformOn g c s \<longleftrightarrow> siteOn g c s \<and> mcases (s_bld s) (s_bo s)"

definition platformOk :: "site \<Rightarrow> bool" where
  "platformOk s \<longleftrightarrow> siteOk s \<and> mcases (s_bld s) (s_bo s)"

lemma platformOn_start: "platformOk s \<Longrightarrow> platformOn (s_gov s) (s_case s) s"
  by (simp add: platformOn_def platformOk_def siteOn_start)

lemma platformOn_ok: "platformOn g c s \<Longrightarrow> platformOk s"
  by (auto simp: platformOn_def platformOk_def intro: siteOn_ok)

interpretation ponBase: site_invariant "platformOn g c" for g c
  by unfold_locales (simp add: platformOn_def siteOn_def)

lemma pon_kept:
  assumes "sok.kept_by g c m" "\<And>b d a x. framed.kept_by b d a x m"
  shows "ponBase.kept_by g c m"
proof (rule ponBase.kept_byI)
  fix s assume s: "platformOn g c s"
  have "wp m (\<lambda>_. siteOn g c) (\<lambda>_. siteOn g c) s" using s assms(1) by (simp add: sok.kept_by_def platformOn_def)
  moreover have "wp m (\<lambda>_. framed (s_bld s) (s_bo s) (s_auth s) (s_game s)) (\<lambda>_. framed (s_bld s) (s_bo s) (s_auth s) (s_game s)) s"
    using assms(2) framed_start unfolding framed.kept_by_def by blast
  ultimately show "wp m (\<lambda>_. platformOn g c) (\<lambda>_. platformOn g c) s"
    using s by (auto simp: wp_def platformOn_def framed_def split: prod.splits sum.splits intro: mcases_frame)
qed

lemma addXp_frame: "addXp p n b = Inr (q, b') \<Longrightarrow> memberships b' = memberships b \<and> (bld_ok b \<longrightarrow> bld_ok b')"
  by (auto simp: addXp_def effect_simps intro: ok_persons_upd)

lemma pon_xp:
  assumes "platformOn g c s" "addXp p n (s_bld s) = Inr (q, b)"
  shows "platformOn g c (s\<lparr>s_bld := b, s_game := x\<rparr>)" "platformOn g c (s\<lparr>s_game := x, s_bld := b\<rparr>)"
  using assms(1) addXp_frame [OF assms(2)] by (simp_all add: platformOn_def siteOn_def mcases_def idRoles_def)

interpretation pon: platform_invariant "platformOn g c" for g c
proof unfold_locales
  fix s b d a x
  show "platformOn g c s \<Longrightarrow> bldStep (s_bo s) (s_bld s) b \<Longrightarrow> platformOn g c (s\<lparr>s_bld := b\<rparr>)"
    by (auto simp: platformOn_def siteOn_def bldStep_def intro: mcases_frame)
  show "platformOn g c s \<Longrightarrow> boStep (s_bld s) (s_bo s) d \<Longrightarrow> platformOn g c (s\<lparr>s_bo := d\<rparr>)"
    by (auto simp: platformOn_def siteOn_def intro: mcases_boStep)
  show "platformOn g c s \<Longrightarrow> platformOn g c (s\<lparr>s_auth := a\<rparr>)" "platformOn g c s \<Longrightarrow> platformOn g c (s\<lparr>s_game := x\<rparr>)"
    by (simp_all add: platformOn_def siteOn_def)
  then show "platformOn g c s \<Longrightarrow> platformOn g c (s\<lparr>s_game := x\<rparr>)" by blast
next
  fix s t now q n y
  show "platformOn g c s \<Longrightarrow> repo_awardXp now q n s = Inr (y, t) \<Longrightarrow> platformOn g c t"
    by (auto simp: repo_awardXp_def Let_def bind_r_Inr_iff split: if_splits intro: pon_xp)
next
  fix s t now p cd ob y
  show "platformOn g c s \<Longrightarrow> unlockAchievement now p cd ob s = Inr (y, t) \<Longrightarrow> platformOn g c t"
    by (auto simp: unlockAchievement_def Let_def bind_r_Inr_iff split: option.splits if_splits intro: pon_xp)
      (simp add: platformOn_def siteOn_def)
qed (blast intro: pon_kept sok_handleSite framed_handleSite sok_createVote sok_publishVote sok_closeVote sok_cancelVote
    framed_votes framed_closeVote)+

end
