(* ===== verification/Ledger_Inv.thy ===== *)
theory Ledger_Inv
  imports Platform_Invariants
begin

text \<open>
  Two more instances of the contract: balances of experience points are the sum of what was
  earned and no reference is rewarded twice; spent refresh tokens stay spent.
\<close>

section \<open>The ledger of experience points\<close>

definition bonusOf :: "game_db \<Rightarrow> personAchievement \<Rightarrow> int" where
  "bonusOf g x = (case find_row ad_id (pa_definitionId x) (definitions g) of None \<Rightarrow> 0 | Some d \<Rightarrow> max 0 (ad_xpBonus d))"

definition earned :: "game_db \<Rightarrow> id \<Rightarrow> int" where
  "earned g p = sum_of (\<lambda>x. if xt_personId x = p then xt_amount x else 0) (xpTransactions g) +
     sum_of (\<lambda>x. if pa_personId x = p then bonusOf g x else 0) (achievements g)"

definition scoresOk :: "game_db \<Rightarrow> bool" where
  "scoresOk g \<longleftrightarrow> distinct (map sc_buildingId (scores g)) \<and> (\<forall>r\<in>set (scores g). sc_leagueTier r = computeLeagueTier (sc_score r))"

definition ledgerOk :: "bld_db \<Rightarrow> game_db \<Rightarrow> bool" where
  "ledgerOk b g \<longleftrightarrow> distinct (map ad_id (definitions g)) \<and> (\<forall>p. orElse (xpOf b p) 0 = earned g p) \<and>
     (\<forall>ty ref r. count_where (sameReference ty ref r) (xpTransactions g) \<le> 1) \<and> scoresOk g"

definition inLedger :: "site \<Rightarrow> bool" where
  "inLedger s \<longleftrightarrow> ledgerOk (s_bld s) (s_game s)"

lemma xp_frame: "bldFrame b b' \<Longrightarrow> orElse (xpOf b' p) 0 = orElse (xpOf b p) 0"
  unfolding bldFrame_def orElse_def by (metis option.simps(4) option.simps(5))

lemma ledger_frame: "bldFrame b b' \<Longrightarrow> ledgerOk b g \<Longrightarrow> ledgerOk b' g"
  by (simp add: ledgerOk_def xp_frame)

lemma addXp_adds:
  assumes "addXp p n b = Inr (q, b')"
  shows "orElse (xpOf b' i) 0 = orElse (xpOf b i) 0 + (if i = p then n else 0)"
proof -
  obtain x where x: "find_row pe_id p (persons b) = Some x"
    and b': "b' = b\<lparr>persons := upd_where (\<lambda>y. pe_id y = p) (\<lambda>y. y\<lparr>pe_xpBalance := pe_xpBalance y + n\<rparr>) (persons b)\<rparr>"
    using assms by (auto simp: addXp_def effect_simps)
  show ?thesis
    using x unfolding b' by (cases "find_row pe_id i (persons b)")
      (auto simp: xpOf_def findPersonById_def find_upd orElse_def dest: find_row_SomeD)
qed

lemma bonus_defs: "definitions h = definitions g \<Longrightarrow> bonusOf h = bonusOf g"
  by (rule ext) (simp add: bonusOf_def)

lemma bonus_at: "bonusOf (g\<lparr>xpTransactions := ts\<rparr>) x = bonusOf g x" "bonusOf (g\<lparr>achievements := rows\<rparr>) x = bonusOf g x"
  "bonusOf (g\<lparr>game_next := k\<rparr>) x = bonusOf g x"
  by (simp_all add: bonusOf_def)

lemma sum_of_snoc: "sum_of f (xs @ [x]) = sum_of f xs + f x"
  by (induction xs) (simp_all add: sum_of_def)

lemma earned_simps:
  "earned (g\<lparr>game_next := k\<rparr>) p = earned g p"
  "earned (take_xid g) p = earned g p"
  "xt_personId x = q \<Longrightarrow> earned (g\<lparr>xpTransactions := xpTransactions g @ [x]\<rparr>) p = earned g p + (if p = q then xt_amount x else 0)"
  "pa_personId y = q \<Longrightarrow> earned (g\<lparr>achievements := achievements g @ [y]\<rparr>) p = earned g p + (if p = q then bonusOf g y else 0)"
  by (auto simp: earned_def take_xid_def bonus_at sum_of_snoc cong: if_cong)

lemma definition_row: "distinct (map ad_id (definitions g)) \<Longrightarrow> definitionOf g c = Some d \<Longrightarrow> find_row ad_id (ad_id d) (definitions g) = Some d"
  unfolding definitionOf_def by (rule find_row_distinct) (auto dest: find_Some_in)

lemma ledger_award:
  assumes "inLedger s" "repo_awardXp now a n s = Inr (y, t)"
  shows "inLedger t"
proof (cases "list_ex (sameReference (ai_referenceType a) (ai_referenceId a) (ai_reason a)) (xpTransactions (s_game s))")
  case False
  let ?x = "awardRow now (fresh_xid (s_game s)) a n"
  obtain q b where add: "addXp (ai_personId a) n (s_bld s) = Inr (q, b)"
    and t: "s_bld t = b" "s_game t = take_xid ((s_game s)\<lparr>xpTransactions := xpTransactions (s_game s) @ [?x]\<rparr>)"
    using assms(2) False by (auto simp: repo_awardXp_def Let_def bind_r_Inr_iff)
  have none: "count_where (sameReference ty ref r) (xpTransactions (s_game s)) = 0" if "sameReference ty ref r ?x" for ty ref r
    using False that by (auto simp: count_where_def filter_empty_conv list_ex_iff sameReference_def awardRow_def)
  have one: "count_where (sameReference ty ref r) (xpTransactions (s_game s) @ [?x]) \<le> 1" for ty ref r
    using assms(1) none [of ty ref r] by (auto simp: inLedger_def ledgerOk_def count_where_def)
  show ?thesis
    using assms(1) one unfolding inLedger_def t
    by (simp add: ledgerOk_def addXp_adds [OF add] earned_simps awardRow_def scoresOk_def take_xid_def)
next
  case True
  then show ?thesis using assms by (simp add: repo_awardXp_def Let_def)
qed

lemma ledger_unlock:
  assumes "inLedger s" "unlockAchievement now p c ob s = Inr (y, t)"
  shows "inLedger t"
proof (cases "definitionOf (s_game s) c")
  case (Some d)
  let ?row = "\<lparr>pa_id = fresh_xid (s_game s), pa_personId = p, pa_definitionId = ad_id d, pa_buildingId = ob, pa_unlockedAt = now,
                  pa_revokedById = None, pa_revokedAt = None\<rparr>"
  have row: "find_row ad_id (ad_id d) (definitions (s_game s)) = Some d"
    using assms(1) Some by (simp add: inLedger_def ledgerOk_def definition_row)
  have new: "ledgerOk b (take_xid ((s_game s)\<lparr>achievements := achievements (s_game s) @ [?row]\<rparr>))"
    if "\<And>i. orElse (xpOf b i) 0 = orElse (xpOf (s_bld s) i) 0 + (if i = p then max 0 (ad_xpBonus d) else 0)" for b
    using assms(1) row that
    by (auto simp: inLedger_def ledgerOk_def earned_simps bonusOf_def scoresOk_def take_xid_def)
  show ?thesis
    using assms Some
    by (auto simp: unlockAchievement_def Let_def bind_r_Inr_iff inLedger_def addXp_adds split: if_splits intro!: new)
qed (use assms in \<open>simp add: unlockAchievement_def Let_def\<close>)

lemma ledger_revoke:
  assumes "inLedger s" "repo_revokeAchievement now p c actor (s_game s) = Inr (y, g)"
  shows "inLedger (s\<lparr>s_game := g\<rparr>)"
proof -
  have same: "sum_of (\<lambda>x. if pa_personId x = i then bonusOf h x else 0) (upd_where P
      (\<lambda>x. x\<lparr>pa_revokedById := Some actor, pa_revokedAt := Some now\<rparr>) rows) =
    sum_of (\<lambda>x. if pa_personId x = i then bonusOf h x else 0) rows" for i h P rows
    by (rule sum_of_upd_same) (simp add: bonusOf_def)
  have "bonusOf (h\<lparr>achievements := rows\<rparr>) = bonusOf h" for h rows by (rule ext) (simp add: bonusOf_def)
  then have "ledgerOk b (h\<lparr>achievements := upd_where P (\<lambda>x. x\<lparr>pa_revokedById := Some actor, pa_revokedAt := Some now\<rparr>) (achievements h)\<rparr>)"
    if "ledgerOk b h" for b h P
    using that same by (simp add: ledgerOk_def earned_def scoresOk_def cong: if_cong)
  then show ?thesis
    using assms by (auto simp: inLedger_def repo_revokeAchievement_def effect_simps split: option.splits)
qed

lemma tier_start: "computeLeagueTier 0 = BRONZE"
  by code_simp

lemma ledger_score:
  assumes "inLedger s" "repo_applyBuildingScoreDelta (s_bld s) now d n r src (s_game s) = Inr (z, g)"
  shows "inLedger (s\<lparr>s_game := g\<rparr>)"
proof -
  obtain row g1 where row: "scoreRow (s_game s) d = (row, g1)" by fastforce
  let ?f = "\<lambda>r. r\<lparr>sc_score := sc_score row + n, sc_leagueTier := computeLeagueTier (sc_score row + n)\<rparr>"
  have g: "scores g = upd_where (\<lambda>r. sc_buildingId r = d) ?f (scores g1)" "definitions g = definitions g1"
      "xpTransactions g = xpTransactions g1" "achievements g = achievements g1"
    using assms(2) row by (auto simp: repo_applyBuildingScoreDelta_def Let_def bind_r_Inr_iff take_xid_def)
  have g1: "definitions g1 = definitions (s_game s)" "xpTransactions g1 = xpTransactions (s_game s)"
      "achievements g1 = achievements (s_game s)" "scoresOk g1"
    using assms(1) row
    by (auto simp: scoreRow_def Let_def take_xid_def inLedger_def ledgerOk_def scoresOk_def tier_start find_row_None_iff
        split: option.splits)
  have "earned g p = earned (s_game s) p" for p using g g1 by (simp add: earned_def bonusOf_def cong: if_cong)
  moreover have "scoresOk g" using g1(4) by (auto simp: scoresOk_def g(1) map_key_upd_where set_upd_where)
  ultimately show ?thesis using assms(1) g g1 by (simp add: inLedger_def ledgerOk_def)
qed

interpretation ledgerBase: site_invariant inLedger
  by unfold_locales (simp add: inLedger_def)

lemma ledger_framed: "(\<And>b d a g. framed.kept_by b d a g m) \<Longrightarrow> ledgerBase.kept_by m"
  by (erule ledgerBase.kept_framed) (auto simp: inLedger_def framed_def intro: ledger_frame)

interpretation ledger: platform_invariant inLedger
proof unfold_locales
  fix s b
  show "inLedger s \<Longrightarrow> bldStep (s_bo s) (s_bld s) b \<Longrightarrow> inLedger (s\<lparr>s_bld := b\<rparr>)"
    by (auto simp: inLedger_def intro: ledger_frame bldStep_frame)
next
  fix s d a
  show "inLedger s \<Longrightarrow> inLedger (s\<lparr>s_bo := d\<rparr>)" "inLedger s \<Longrightarrow> inLedger (s\<lparr>s_auth := a\<rparr>)"
    by (simp_all add: inLedger_def)
qed (blast intro: ledger_award ledger_unlock ledger_revoke ledger_score ledger_framed framed_handleSite framed_votes framed_closeVote)+

section \<open>Spent tokens\<close>

definition spentToken :: "string \<Rightarrow> site \<Rightarrow> bool" where
  "spentToken h s \<longleftrightarrow> spent h (s_auth s)"

interpretation tokenBase: site_invariant "spentToken h" for h
  by unfold_locales (simp add: spentToken_def)

lemma token_framed: "(\<And>b d a g. framed.kept_by b d a g m) \<Longrightarrow> tokenBase.kept_by h m"
  by (erule tokenBase.kept_framed) (simp add: spentToken_def framed_def)

lemma game_auth: "repo_awardXp now q n s = Inr (y, t) \<Longrightarrow> s_auth t = s_auth s"
  "unlockAchievement now p c ob s = Inr (y', t) \<Longrightarrow> s_auth t = s_auth s"
  by (auto simp: repo_awardXp_def unlockAchievement_def Let_def bind_r_Inr_iff split: if_splits option.splits)

interpretation token: platform_invariant "spentToken h" for h
proof unfold_locales
  fix s a
  show "spentToken h s \<Longrightarrow> authStep (s_auth s) a \<Longrightarrow> spentToken h (s\<lparr>s_auth := a\<rparr>)"
    by (simp add: spentToken_def authStep_def)
qed (simp add: spentToken_def game_auth | blast intro: token_framed framed_handleSite framed_votes framed_closeVote)+

end
