(* ===== verification/Platform_Runs.thy ===== *)
theory Platform_Runs
  imports Ledger_Inv Vote_Runs
begin

text \<open>
  A concrete platform: the site of \<open>Site_Scenario\<close> with one administrator who holds every
  permission the histories need, and the histories of the witnesses, each state computed once.
\<close>

definition staffGrants :: "permissionKey list" where
  "staffGrants = [PK_USER_EDIT, PK_FRAUD_MANAGE, PK_GAMIFICATION_CORRECTION_MANAGE]"

definition keyId :: "nat \<Rightarrow> id" where
  "keyId n = ''k'' @ demo_ids n"

definition staffed_bo :: bo_db where
  "staffed_bo = (empty_bo demo_ids)\<lparr>
     platformStaffs := [\<lparr>sf_id = ''f'', sf_personId = ''m'', sf_role = PLATFORM_ADMIN, sf_isActive = True\<rparr>],
     permissionRows := map (\<lambda>n. \<lparr>pk_id = keyId n, pk_key = staffGrants ! n\<rparr>) [0..<3],
     rolePermissions := map (\<lambda>n. \<lparr>rp_id = keyId n, rp_roleId = ''r'', rp_permissionId = keyId n, rp_addedById = None,
       rp_revokedById = None, rp_revokedAt = None\<rparr>) [0..<3],
     staffRoles := [\<lparr>sr_id = ''s'', sr_staffId = ''f'', sr_roleId = ''r'', sr_assignedById = None, sr_revokedById = None, sr_revokedAt = None\<rparr>]\<rparr>"

definition theAchievements :: "achievementDefinition list" where
  "theAchievements = [\<lparr>ad_id = ''a1'', ad_code = FIRST_STEPS, ad_title = ''First steps'', ad_xpBonus = 5\<rparr>,
     \<lparr>ad_id = ''a2'', ad_code = COMMUNITY_HELPER, ad_title = ''Helper'', ad_xpBonus = 0\<rparr>]"

definition platform0 :: site where
  "platform0 = site0\<lparr>s_bo := staffed_bo, s_game := (empty_game demo_ids)\<lparr>definitions := theAchievements\<rparr>\<rparr>"

definition demoAuth :: authEnv where
  "demoAuth = \<lparr>ax_sha256 = (\<lambda>x. x), ax_signs = (\<lambda>p d. p @ d), ax_smsConfigured = True, ax_smsSends = True, ax_isProduction = True,
     ax_stagingLog = (\<lambda>_. False), ax_ttlSeconds = 120, ax_maxAttempts = 5, ax_accessExpiresIn = ''15m'', ax_refreshExpiresIn = ''30d''\<rparr>"

definition demoWorld :: world where
  "demoWorld = \<lparr>wo_floors = no_floors, wo_auth = demoAuth, wo_rank = length, wo_collation = length\<rparr>"

definition sign_in :: "(time \<times> id \<times> platformRequest) list" where
  "sign_in = [(1, [], SignInRoute (RequestOtp (phone_of ''2'') LOGIN ''1234'')),
     (2, [], SignInRoute (Platform_Api.VerifyOtp \<lparr>vo_phone = phone_of ''2'', vo_code = ''1234'', vo_purpose = LOGIN,
        vo_deviceToken = ''d'', vo_platform = ''ios''\<rparr> ''raw''))]"

definition signed :: site where
  "signed = runPlatform demoWorld sign_in platform0"

definition refreshed :: "tokenPair result \<times> site" where
  "refreshed = refresh demoAuth 3 ''new'' ''raw'' signed"

definition suspended :: "(id \<times> bool) result \<times> site" where
  "suspended = suspendOrReinstate 3 True ''o'' ''m'' ''fraud'' signed"

text \<open>A confirmed case against the third person, the suspension of the account, and its appeal.\<close>

definition accused :: site where
  "accused = runPlatform demoWorld [(1, ''m'', FraudRoute (OpenFraudCase ABNORMAL_ACTIVITY (Some ''t'') None None None)),
     (2, ''m'', FraudRoute (DecideFraudCase (demo_ids 0) True None))] platform0"

definition suspension :: enforcementParams where
  "suspension = \<lparr>ne_fraudCaseId = [], ne_type = EA_ACCOUNT_SUSPENSION, ne_targetType = TT_PERSON, ne_targetPersonId = Some ''t'',
     ne_targetBuildingId = None, ne_targetMembershipId = None, ne_reason = None, ne_issuedById = [], ne_idempotencyKey = []\<rparr>"

definition sanctioned :: "enforcementAction result \<times> site" where
  "sanctioned = enforce 3 (demo_ids 0) suspension ''m'' ''1'' accused"

definition appealed :: "enforcementAction result \<times> site" where
  "appealed = appealEnforcement 4 (demo_ids 1) ''t'' None (snd sanctioned)"

text \<open>The same reference is delivered twice, and staff correct a balance and grant an achievement.\<close>

definition rewards :: "(time \<times> id \<times> platformRequest) list" where
  "rewards = [(1, [], DeliverEvent (CaseStatusChangedEvent ''c'' ''b'' CS_OPEN CS_RESOLVED ''o'')),
     (2, ''m'', GameAdminRoute (AdjustXp ''o'' None 7 ''fix'')), (3, ''m'', GameAdminRoute (GrantAchievement ''o'' FIRST_STEPS None ''yes''))]"

definition signedRuns :: "site \<Rightarrow> bool" where
  "signedRuns s \<longleftrightarrow> map rt_tokenHash (refreshTokens (s_auth s)) = [''raw''] \<and> map rt_personId (refreshTokens (s_auth s)) = [''o''] \<and>
     \<not> isl (fst (refresh demoAuth 3 ''new'' ''raw'' s)) \<and> \<not> isl (fst (suspendOrReinstate 3 True ''o'' ''m'' ''fraud'' s)) \<and>
     map_option pe_phone (findPersonById (s_bld s) ''o'') = Some (phone_of ''2'')"

definition sanctionedRuns :: "enforcementAction result \<times> site \<Rightarrow> bool" where
  "sanctionedRuns r \<longleftrightarrow> \<not> isl (fst r) \<and> ea_id (projr (fst r)) = demo_ids 1 \<and>
     \<not> isl (fst (appealEnforcement 4 (demo_ids 1) ''t'' None (snd r)))"

definition accusedRuns :: "site \<Rightarrow> bool" where
  "accusedRuns s \<longleftrightarrow> enforcements (s_bo s) = [] \<and> sanctionedRuns (enforce 3 (demo_ids 0) suspension ''m'' ''1'' s)"

lemma platform_runs: "signedRuns signed" "accusedRuns accused"
  by code_simp+

end
