(* ===== verification/Platform_Properties.thy ===== *)
theory Platform_Properties
  imports Platform_Runs
begin

text \<open>
  What holds of every history of the whole platform, and what its sanctions and guards promise.
\<close>

section \<open>Well-formed tables\<close>

lemma platform_kept: "platformOk s \<Longrightarrow> platformOk (runPlatform w rs s)"
  by (rule platformOn_ok, rule pon.kept_history, rule platformOn_start)

text \<open>
  Every history of requests, of jobs and of deliveries of events keeps the tables well
  formed: identifiers are unique and references lead somewhere, a building has at most one current
  manager and a unit at most one current owner and tenant, the tables of votes and cases satisfy
  their invariants, and every manager verification case is about a membership that exists and
  claims management.
\<close>

lemma platform_stays_well_formed:
  assumes "platformOk s" "t = runPlatform w rs s"
  shows "bld_ok (s_bld t) \<and> gov_ok (s_gov t) \<and> cases_ok (s_case t) \<and>
    (\<forall>k\<in>set (managerCases (s_bo t)). \<exists>m\<in>set (memberships (s_bld t)). mb_id m = mv_membershipId k \<and> mb_role m = MANAGER)"
  using platform_kept [OF assms(1), of w rs] unfolding assms(2) platformOk_def siteOk_def mcases_def idRoles_def by fastforce

lemma platform0_ok: "platformOk platform0"
  using site_ok(1) by (simp add: platformOk_def siteOk_def platform0_def staffed_bo_def empty_bo_def mcases_def)

lemma platform_stays_well_formed_witness:
  "bld_ok (s_bld (runPlatform demoWorld sign_in platform0)) \<and> gov_ok (s_gov (runPlatform demoWorld sign_in platform0))"
  using platform_stays_well_formed [OF platform0_ok refl] by blast

section \<open>Experience points\<close>

text \<open>
  Start from balances that equal what the ledger says.  After any history a person's balance
  is the sum of the awards and corrections the person received and of the bonuses of the
  achievements ever unlocked, no payment, case or other reference is ever rewarded twice for the same reason, however
  often its event is delivered, and the league of every building is the one its score gives.
\<close>

lemma experience_is_earned_once:
  assumes "inLedger s" "t = runPlatform w rs s"
  shows "orElse (xpOf (s_bld t) p) 0 = earned (s_game t) p \<and>
    count_where (sameReference ty ref r) (xpTransactions (s_game t)) \<le> 1 \<and>
    (\<forall>x\<in>set (scores (s_game t)). sc_leagueTier x = computeLeagueTier (sc_score x))"
  using ledger.kept_history [OF assms(1), of w rs] unfolding assms(2) by (simp add: inLedger_def ledgerOk_def scoresOk_def)

lemma platform0_ledger: "inLedger platform0"
  by (auto simp: inLedger_def ledgerOk_def scoresOk_def platform0_def empty_game_def theAchievements_def site0_def people_bld_def
      xpOf_def findPersonById_def find_row_def demo_person_def orElse_def earned_def sum_of_def count_where_def)

lemma experience_is_earned_once_witness:
  "orElse (xpOf (s_bld (runPlatform demoWorld rewards platform0)) ''o'') 0 =
    earned (s_game (runPlatform demoWorld rewards platform0)) ''o''"
  using experience_is_earned_once [OF platform0_ledger refl] by blast

section \<open>Refresh tokens\<close>

definition revokedError :: app_error where
  "revokedError = AuthorizationError STR ''Refresh token has been revoked.''"

lemma refresh_spent: "spent (ax_sha256 x token) (s_auth s) \<Longrightarrow> refresh x now raw token s = (Inl revokedError, s)"
  by (auto simp: refresh_def spent_def findRefreshTokenByHash_def bind_svc_def lift_svc_def guard_def assert_r_def revokedError_def)

lemma rotate_spends:
  assumes "rotateRefreshToken now t h ex a = Inr (True, a')" "findRefreshTokenByHash a k = Some t" "distinct (map rt_id (refreshTokens a))"
  shows "spent k a'"
proof -
  define a1 where "a1 = a\<lparr>refreshTokens := upd_where (usable now t) (\<lambda>t. t\<lparr>rt_revokedAt := Some now\<rparr>) (refreshTokens a)\<rparr>"
  obtain n a2 where one: "count_where (usable now t) (refreshTokens a) = 1"
    and c: "createRefreshToken now (rt_personId t) (rt_deviceId t) h ex a1 = Inr (n, a2)"
    and a': "a' = a2\<lparr>refreshTokens := upd_where (\<lambda>x. rt_id x = rt_id t) (\<lambda>x. x\<lparr>rt_replacedBy := Some (rt_id n)\<rparr>) (refreshTokens a2)\<rparr>"
    using assms(1) by (auto simp: rotateRefreshToken_def Let_def bind_r_Inr_iff a1_def split: if_splits)
  have t: "t \<in> set (refreshTokens a)" using assms(2) by (auto simp: findRefreshTokenByHash_def)
  have "filter (usable now t) (refreshTokens a) \<noteq> []" using one by (auto simp: count_where_def)
  then obtain y where y: "y \<in> set (refreshTokens a)" "usable now t y" by (auto simp: filter_empty_conv)
  then have "y = t" using t assms(3) by (auto simp: usable_def dest: inj_onD [of rt_id] simp: distinct_map)
  then have "spent k a1"
    using y assms(2) by (auto simp: spent_def a1_def findRefreshTokenByHash_def find_upd)
  moreover have "authStep a1 a2" by (rule as_createRefreshToken [OF c])
  moreover have "authStep a2 a'" unfolding a' by (rule as_upd) simp_all
  ultimately show ?thesis by (simp add: authStep_def)
qed

lemma refresh_spends:
  assumes "refresh x now raw token s = (Inr tp, s1)" "distinct (map rt_id (refreshTokens (s_auth s)))"
  shows "spent (ax_sha256 x token) (s_auth s1)"
  using assms(1)
  by (auto simp: refresh_def bind_svc_def lift_svc_def guard_def assert_r_def bld_def query_def Let_def auth_tx_def record_audit_def
      return_svc_def split: option.splits sum.splits prod.splits if_splits intro: rotate_spends [OF _ _ assms(2)])

text \<open>
  A refresh token is good for one refresh: once it has been exchanged for a new pair, it is
  refused as revoked after every history, and the refusal writes nothing.
\<close>

lemma refresh_token_is_used_once:
  assumes "refresh x now raw token s = (Inr tp, s1)" "distinct (map rt_id (refreshTokens (s_auth s)))" "t = runPlatform w rs s1"
  shows "refresh x later raw' token t = (Inl (AuthorizationError STR ''Refresh token has been revoked.''), t)"
  using refresh_spent [of x token t] token.kept_history [of "ax_sha256 x token" s1 w rs] refresh_spends [OF assms(1,2)]
  unfolding assms(3) spentToken_def revokedError_def by blast

lemmas signed_facts = platform_runs(1) [unfolded signedRuns_def, folded refreshed_def suspended_def]

lemma refresh_token_is_used_once_witness:
  "fst (refresh demoAuth 9 ''third'' ''raw'' (runPlatform demoWorld rewards (snd refreshed))) =
    Inl (AuthorizationError STR ''Refresh token has been revoked.'')"
proof -
  have run: "refresh demoAuth 3 ''new'' ''raw'' signed = (Inr (projr (fst refreshed)), snd refreshed)"
    using signed_facts ran_Inr [of refreshed] by (simp add: refreshed_def)
  have "distinct (map rt_id (refreshTokens (s_auth signed)))"
    using signed_facts by (auto simp: map_eq_Cons_conv)
  from refresh_token_is_used_once [OF run this refl] show ?thesis by (simp only: fst_conv)
qed

section \<open>Suspension\<close>










section \<open>Overturned sanctions\<close>

lemma upd_undo:
  assumes "\<And>x. x \<in> set xs \<Longrightarrow> P x \<Longrightarrow> Q (f x) \<and> g (f x) = x" "\<And>x. x \<in> set xs \<Longrightarrow> \<not> P x \<Longrightarrow> \<not> Q x"
  shows "upd_where Q g (upd_where P f xs) = xs" "count_where Q (upd_where P f xs) = count_where P xs"
  using assms by (induction xs) (auto simp: count_where_def)

lemma undo_key:
  assumes "distinct (map key xs)" "find_row key k xs = Some t" "\<And>x. key (f x) = key x" "Q (f t)" "g (f t) = t"
  shows "upd_where (\<lambda>x. key x = k \<and> Q x) g (upd_where (\<lambda>x. key x = k) f xs) = xs"
    "count_where (\<lambda>x. key x = k \<and> Q x) (upd_where (\<lambda>x. key x = k) f xs) = Suc 0"
proof -
  have one: "x = t" if "x \<in> set xs" "key x = k" for x using find_row_distinct [OF assms(1) that(1)] assms(2) that(2) by simp
  show "upd_where (\<lambda>x. key x = k \<and> Q x) g (upd_where (\<lambda>x. key x = k) f xs) = xs"
    by (rule upd_undo) (use one assms(3-5) in auto)
  have "count_where (\<lambda>x. key x = k \<and> Q x) (upd_where (\<lambda>x. key x = k) f xs) = count_where (\<lambda>x. key x = k) xs"
    by (rule upd_undo) (use one assms(3-5) in auto)
  also have "\<dots> = Suc 0" using count_hit [OF assms(1), of k "\<lambda>_. True"] assms(2) by simp
  finally show "count_where (\<lambda>x. key x = k \<and> Q x) (upd_where (\<lambda>x. key x = k) f xs) = Suc 0" .
qed

lemma undo_effect:
  assumes "bld_ok b" "applyEffect now q b = Inr (prev, b1)" "prev \<noteq> None"
  shows "undoEffect (newEnforcement now i q prev) b1 = Inr b"
proof -
  have d: "distinct (map pe_id (persons b))" "distinct (map bd_id (buildings b))" "distinct (map mb_id (memberships b))"
    using assms(1) by (simp_all add: bld_ok_def keys_ok_def)
  note undo = undo_key [OF d(1)] undo_key [OF d(2)] undo_key [OF d(3)]
  show ?thesis
    using assms(2,3)
    by (auto simp: applyEffect_def undoEffect_def newEnforcement_def modifyPerson_def modify_row_def bind_r_Inr_iff needs_def
        assert_r_def updateBuildingStatus_def modifyBuilding_def setRecoveryMode_def suspendManagement_def modifyMembership_def
        findPersonById_def findBuildingById_def undo
        split: enforcementActionType.splits enforcementTargetType.splits option.splits if_splits)
qed


lemma undo_cong:
  assumes "ea_type x = ea_type a" "ea_targetType x = ea_targetType a" "ea_targetPersonId x = ea_targetPersonId a"
    "ea_targetBuildingId x = ea_targetBuildingId a" "ea_targetMembershipId x = ea_targetMembershipId a"
    "ea_previousTargetState x = ea_previousTargetState a"
  shows "undoEffect x b = undoEffect a b"
  unfolding undoEffect_def assms ..

lemma no_effect: "applyEffect now q b = Inr (None, b1) \<Longrightarrow> b1 = b"
  by (auto simp: applyEffect_def bind_r_Inr_iff split: enforcementActionType.splits enforcementTargetType.splits option.splits prod.splits)

lemma last_row:
  assumes "key r \<notin> key ` set rows"
  shows "find_row key (key r) (rows @ [r]) = Some r"
    "upd_where (\<lambda>x. key x = key r \<and> P x) f rows = rows"
    "count_where (\<lambda>x. key x = key r \<and> P x) (rows @ [r]) = (if P r then 1 else 0)"
proof -
  have off: "key x \<noteq> key r" if "x \<in> set rows" for x using assms that by (metis imageI)
  then show "upd_where (\<lambda>x. key x = key r \<and> P x) f rows = rows" by (intro upd_where_none) blast
  show "find_row key (key r) (rows @ [r]) = Some r"
    using assms by (auto simp: find_row_append find_row_None_iff [symmetric] split: option.split)
  show "count_where (\<lambda>x. key x = key r \<and> P x) (rows @ [r]) = (if P r then 1 else 0)"
    using off by (auto simp: count_where_def filter_empty_conv)
qed

lemma swap_last:
  assumes "key r \<notin> key ` set rows" "P r" "key (f r) = key r"
  shows "swap_row key (key r) P f m (rows @ [r]) = Inr (f r, rows @ [f r])"
  using assms last_row(1) [of key "f r" rows] by (simp add: swap_row_def last_row needs_def)

lemma modify_last:
  assumes "key r \<notin> key ` set rows"
  shows "modify_row key (key r) f (rows @ [r]) = Inr (f r, rows @ [f r])"
  using last_row(1) [OF assms] last_row(2) [OF assms, of "\<lambda>_. True" f] by (simp add: modify_row_def needs_def)

lemma enforce_effect:
  assumes "enforce now i q issuer rid s = (Inr a, s1)" "a \<notin> set (enforcements (s_bo s))"
  obtains q' prev k where "applyEffect now q' (s_bld s) = Inr (prev, s_bld s1)" "a = newEnforcement now k q' prev"
    "enforcements (s_bo s1) = enforcements (s_bo s) @ [a]"
proof -
  define q' where "q' = q\<lparr>ne_fraudCaseId := i, ne_issuedById := issuer, ne_idempotencyKey := enforcementKey i rid\<rparr>"
  obtain c t where tx: "createEnforcementActionWithEffect now q' s = Inr ((a, c), t)" and
    s1: "s_bld s1 = s_bld t" "enforcements (s_bo s1) = enforcements (s_bo t)"
    using assms(1)
    by (auto simp: enforce_def fraud_getCase_def bind_svc_def lift_svc_def guard_def site_tx_def record_audit_def publish_def
        return_svc_def q'_def split: option.splits sum.splits prod.splits if_splits)
  then obtain prev where "applyEffect now q' (s_bld s) = Inr (prev, s_bld t)" "a = newEnforcement now (fresh_oid (s_bo s)) q' prev"
    "enforcements (s_bo t) = enforcements (s_bo s) @ [a]"
    using assms(2) by (auto simp: createEnforcementActionWithEffect_def bind_r_Inr_iff Let_def take_oid_def
        split: option.splits dest: find_Some_in)
  then show thesis using that s1 by simp
qed

lemma appeal_effect:
  assumes "appealEnforcement now (ea_id a) caller why s = (Inr x, t)" "enforcements (s_bo s) = es @ [a]" "ea_id a \<notin> ea_id ` set es"
  obtains why' where "enforcements (s_bo t) = es @ [a\<lparr>ea_appealStatus := AP_PENDING, ea_appealReason := why', ea_appealedAt := Some now\<rparr>]"
    "s_bld t = s_bld s"
proof -
  have "ea_appealStatus a = AP_NONE"
    using assms by (auto simp: appealEnforcement_def theEnforcement_def findEnforcementActionById_def last_row bind_svc_def lift_svc_def
        guard_def bld_def query_def assertCanAppealEnforcement_def bind_r_Inr_iff assert_r_def split: sum.splits if_splits)
  then show thesis using assms that
    by (auto simp: appealEnforcement_def theEnforcement_def findEnforcementActionById_def last_row bind_svc_def lift_svc_def guard_def
        bld_def query_def bo_tx_def requestEnforcementAppeal_def swap_last record_audit_def return_svc_def split: sum.splits)
qed

text \<open>
  Overturning a sanction undoes it exactly: if the tables have not changed since, the appeal
  of the person it was issued against cannot be refused as a conflict, the building tables are what
  they were before the sanction - person, building, seat and recovery mode alike - and the action
  is marked overturned, and as reversed when it had an effect.
\<close>

lemma overturned_sanction_restores:
  assumes "bld_ok (s_bld s)" "enforce now i q issuer rid s = (Inr a, s1)" "ea_id a \<notin> ea_id ` set (enforcements (s_bo s))"
    "appealEnforcement now' (ea_id a) caller why s1 = (Inr a', s2)"
  shows "case decideEnforcementAppeal now'' (ea_id a) False decider note s2 of (Inl e, t) \<Rightarrow> False
    | (Inr x, t) \<Rightarrow> s_bld t = s_bld s \<and> enforcements (s_bo t) = enforcements (s_bo s) @ [x] \<and> ea_appealStatus x = AP_OVERTURNED \<and>
        ea_effectReversedAt x = (if ea_effectApplied a then Some now'' else None)"
proof -
  obtain q' prev k where app: "applyEffect now q' (s_bld s) = Inr (prev, s_bld s1)" and a: "a = newEnforcement now k q' prev"
    and es: "enforcements (s_bo s1) = enforcements (s_bo s) @ [a]"
    using assms(2,3) by (elim enforce_effect) auto
  obtain why' where es2: "enforcements (s_bo s2) = enforcements (s_bo s) @
      [a\<lparr>ea_appealStatus := AP_PENDING, ea_appealReason := why', ea_appealedAt := Some now'\<rparr>]" (is "_ = _ @ [?b]")
    and b2: "s_bld s2 = s_bld s1" using appeal_effect [OF assms(4) es assms(3)] .
  have same: "ea_effectApplied ?b = (prev \<noteq> None)" "ea_effectReversedAt ?b = None" "ea_appealStatus ?b = AP_PENDING" "ea_id ?b = ea_id a"
    "ea_effectApplied a = (prev \<noteq> None)" by (simp_all add: a newEnforcement_def)
  have new: "ea_id ?b \<notin> ea_id ` set (enforcements (s_bo s))" "ea_id (appealDecided now'' st decider ?b) \<notin> ea_id ` set (enforcements (s_bo s))" for st
    using assms(3) by (simp_all add: appealDecided_def)
  note found = last_row(1) [of ea_id ?b, OF new(1), unfolded same]
  note swap = swap_last [of ea_id ?b, OF new(1), unfolded same]
  note modify = modify_last [of ea_id "appealDecided now'' AP_OVERTURNED decider ?b", OF new(2)]
  have undo: "undoEffect ?b (s_bld s1) = Inr (s_bld s)" if "prev \<noteq> None"
    using undo_effect [OF assms(1) app that, of k] undo_cong [of ?b a] by (simp add: a)
  show ?thesis
    using found swap modify undo no_effect [of now q' "s_bld s" "s_bld s1"] app same new
    by (cases prev) (auto simp: decideEnforcementAppeal_def theEnforcement_def findEnforcementActionById_def bind_svc_def lift_svc_def guard_def
        assertAppealDecidable_def assert_r_def site_tx_def repo_decideEnforcementAppeal_def es2 b2 needs_def appealDecided_def
        record_audit_def return_svc_def)
qed

lemmas accused_facts = platform_runs(2) [unfolded accusedRuns_def sanctionedRuns_def, folded sanctioned_def, folded appealed_def]

lemma accused_ok: "bld_ok (s_bld accused)"
  using platform_kept [OF platform0_ok] unfolding accused_def platformOk_def siteOk_def by blast

lemma overturned_sanction_restores_witness:
  "s_bld (snd (decideEnforcementAppeal 5 (demo_ids 1) False ''m'' None (snd appealed))) = s_bld accused"
proof -
  have run: "enforce 3 (demo_ids 0) suspension ''m'' ''1'' accused = (Inr (projr (fst sanctioned)), snd sanctioned)"
    using accused_facts ran_Inr [of sanctioned] by (simp add: sanctioned_def)
  have i: "ea_id (projr (fst sanctioned)) = demo_ids 1" and new: "ea_id (projr (fst sanctioned)) \<notin> ea_id ` set (enforcements (s_bo accused))"
    using accused_facts by simp_all
  have "appealEnforcement 4 (ea_id (projr (fst sanctioned))) ''t'' None (snd sanctioned) = (Inr (projr (fst appealed)), snd appealed)"
    using accused_facts ran_Inr [of appealed] by (simp add: i appealed_def)
  from overturned_sanction_restores [OF accused_ok run new this, of 5 "''m''" None]
  show ?thesis by (auto simp: i split: prod.splits sum.splits)
qed

end
