(* ===== verification/Spec2Isabelle.thy ===== *)
theory Spec2Isabelle
  imports Finance_Properties Charge_Properties Finance_Findings Building_Properties Building_Findings
    Governance_Properties Case_Properties Governance_Findings Platform_Properties
begin

text \<open>
  A verification of the core of the VielHome backend: the modules \<^verbatim>\<open>finance\<close>,
  \<^verbatim>\<open>building\<close>, \<^verbatim>\<open>governance\<close>, \<^verbatim>\<open>cases\<close>, \<^verbatim>\<open>backoffice\<close>, \<^verbatim>\<open>backoffice-rbac\<close>,
  \<^verbatim>\<open>backoffice-bootstrap\<close>, \<^verbatim>\<open>foundation\<close> and \<^verbatim>\<open>gamification\<close> under \<^verbatim>\<open>src/src/modules\<close>, and
  what they rest on.

  The backend manages residential buildings.  A building has units, owners, tenants and a
  manager; its money is kept in funds.  A manager divides costs over the units as charge
  batches, issues them, and so creates debt; residents report payments, which a manager
  approves, rejects or reverses; adjustments and opening-balance corrections change debt
  directly; expenses leave a fund.  Every movement posts a ledger entry.

  Who may do what follows from the memberships of a building: its manager, handed over
  explicitly, and the owners and tenants of its units, whose memberships follow the ownerships
  and tenancies.  The units of a building vote, on a new manager among other things, and
  members raise cases.

  Members sign in with one-time passwords.  The staff of the platform reviews buildings and
  managers, handles reports of fraud and its sanctions, support and compliance cases, legal
  holds and subscriptions; what a member of staff may do follows from a rank and from the
  permissions of roles.  Points and achievements are awarded by listeners to events.

  \<^bold>\<open>Theories.\<close>
  \<^item> \<^verbatim>\<open>Prelude\<close>: the errors of \<^verbatim>\<open>common/errors/app-error.ts\<close>, results, transactions (a failing
    one leaves its tables unchanged) and service calls (what ran before an error stays),
    tables as lists of rows, and the settlement loop shared by payments and waivers.
  \<^item> \<^verbatim>\<open>Js_Number\<close>: IEEE doubles as rationals rounded to 53 bits.
  \<^item> \<^verbatim>\<open>Building_Types\<close>: the building tables the finance module reads, the queries of
    \<^verbatim>\<open>building.repository.ts\<close> it uses, and the contract of a unit directory.
  \<^item> \<^verbatim>\<open>Finance_Types\<close>, \<^verbatim>\<open>Finance_Store\<close>: the rows of \<^verbatim>\<open>prisma/schema.prisma\<close> and the single
    statements transactions are made of.
  \<^item> \<^verbatim>\<open>Finance_Policies\<close>: the five policies under \<^verbatim>\<open>domain/policies\<close>.
  \<^item> \<^verbatim>\<open>Charge_Allocation\<close>: \<open>allocateEqually\<close> and \<open>allocateByArea\<close> of \<^verbatim>\<open>finance.service.ts\<close>.
  \<^item> \<^verbatim>\<open>Payment_Repo\<close>, \<^verbatim>\<open>Charge_Repo\<close>, \<^verbatim>\<open>Finance_Reads\<close>: the methods of
    \<^verbatim>\<open>finance.repository.ts\<close>, transactions first, then the read side.
  \<^item> \<^verbatim>\<open>Finance_Service\<close>, \<^verbatim>\<open>Finance_Calls\<close>: the methods of \<^verbatim>\<open>finance.service.ts\<close> over the finance
    tables, the building tables, the audit log and the emitted events; \<^verbatim>\<open>Finance_Api\<close>: requests
    and histories of requests.
  \<^item> \<^verbatim>\<open>Pagination\<close>: \<^verbatim>\<open>common/pagination/pagination.util.ts\<close>.
  \<^item> \<^verbatim>\<open>Site\<close>: the state of the services outside finance (all tables, audit log, events), the
    steps of their methods, a calculus of preconditions \<open>wp\<close>, and the contract between an
    invariant and the actions that keep it.
  \<^item> \<^verbatim>\<open>Building_Policies\<close>, \<^verbatim>\<open>Building_Repo\<close>, \<^verbatim>\<open>Building_Service\<close>: the policies, the repository and
    the service of \<^verbatim>\<open>modules/building\<close>; \<^verbatim>\<open>Building_Api\<close>: the guards of \<^verbatim>\<open>common/guards\<close>, the
    routes of \<^verbatim>\<open>building.controller.ts\<close> that change state, and histories of requests.
  \<^item> \<^verbatim>\<open>Text_Norm\<close>: \<^verbatim>\<open>common/phone/phone.util.ts\<close> and \<^verbatim>\<open>common/postal-code/postal-code.util.ts\<close>.
  \<^item> \<^verbatim>\<open>Governance_Types\<close>, \<^verbatim>\<open>Governance_Policy\<close>, \<^verbatim>\<open>Governance_Repo\<close>, \<^verbatim>\<open>Governance_Service\<close>: votes,
    ballots, proxies and meetings of \<^verbatim>\<open>modules/governance\<close>, with the two jobs of the
    scheduler that publish and close votes.
  \<^item> \<^verbatim>\<open>Case_Types\<close>, \<^verbatim>\<open>Case_Repo\<close>, \<^verbatim>\<open>Case_Service\<close>: \<^verbatim>\<open>modules/cases\<close>.
  \<^item> \<^verbatim>\<open>Site_Api\<close>: the routes of members to buildings, votes, meetings and cases.
  \<^item> \<^verbatim>\<open>Backoffice_Types\<close>, \<^verbatim>\<open>Backoffice_Policy\<close>, \<^verbatim>\<open>Backoffice_Repo\<close>, \<^verbatim>\<open>Enforcement_Repo\<close>,
    \<^verbatim>\<open>Desk_Repo\<close>: the rows, the policies and \<^verbatim>\<open>backoffice.repository.ts\<close>.
  \<^item> \<^verbatim>\<open>Backoffice_Rbac\<close>: roles and permissions of staff, the guards that ask for them, and the
    script that makes the first administrator.
  \<^item> \<^verbatim>\<open>Verification_Service\<close>: building and manager verification, subscriptions;
    \<^verbatim>\<open>Desk_Service\<close>: fraud, support, compliance, legal holds, administration.
  \<^item> \<^verbatim>\<open>Auth_Types\<close>, \<^verbatim>\<open>Auth_Service\<close>: \<^verbatim>\<open>foundation/auth\<close> and \<^verbatim>\<open>foundation/profile\<close>.
  \<^item> \<^verbatim>\<open>Game_Types\<close>, \<^verbatim>\<open>Gamification\<close>: \<^verbatim>\<open>modules/gamification\<close>.
  \<^item> \<^verbatim>\<open>Platform_Api\<close>: one handler per controller of these modules, the jobs, the delivery of
    events, and histories of all of them.

  \<^bold>\<open>Lemmas.\<close>  \<^verbatim>\<open>Finance_Invariant\<close> states what holds between transactions;
  \<^verbatim>\<open>Finance_Settlement\<close>, \<^verbatim>\<open>Payment_Steps\<close>, \<^verbatim>\<open>Payment_Inv\<close> and \<^verbatim>\<open>Charge_Inv\<close> show that every
  transaction keeps it; \<^verbatim>\<open>Payment_Effects\<close> and \<^verbatim>\<open>Charge_Effects\<close> state what each transaction
  does; \<^verbatim>\<open>Service_Facts\<close> relates preview, creation and payers; \<^verbatim>\<open>Finance_Scenario\<close> is a concrete
  history, \<^verbatim>\<open>Scenario_Runs\<close> evaluates it; \<^verbatim>\<open>Finance_Properties\<close> and \<^verbatim>\<open>Charge_Properties\<close> hold the
  properties, \<^verbatim>\<open>Finance_Findings\<close> histories on which the code errs.  \<^verbatim>\<open>Building_Inv\<close> states the
  invariant of the building tables and shows that every transaction keeps it, \<^verbatim>\<open>Building_Api\<close>
  that every request does; \<^verbatim>\<open>Site_Scenario\<close> and \<^verbatim>\<open>Site_Runs\<close> are a concrete site,
  \<^verbatim>\<open>Building_Properties\<close> and \<^verbatim>\<open>Building_Findings\<close> the properties and the errors.
  \<^verbatim>\<open>Vote_Runs\<close> evaluates votes; \<^verbatim>\<open>Governance_Properties\<close>, \<^verbatim>\<open>Case_Properties\<close> and
  \<^verbatim>\<open>Governance_Findings\<close> are the same for votes and cases.  \<^verbatim>\<open>Platform_Frame\<close> shows which parts
  of the site the routes of members leave alone, \<^verbatim>\<open>Platform_Inv\<close> which the writes of the back
  office do; \<^verbatim>\<open>Platform_Laws\<close> sums up its transactions, \<^verbatim>\<open>Platform_Kept\<close> states as a locale what an
  invariant of the whole platform must survive, \<^verbatim>\<open>Platform_Invariants\<close> and \<^verbatim>\<open>Ledger_Inv\<close> interpret it
  (well-formed tables, balances of experience points, spent refresh tokens), \<^verbatim>\<open>Platform_Runs\<close>
  evaluates concrete histories and \<^verbatim>\<open>Platform_Properties\<close> holds what follows: well-formedness
  after every history, rewards earned once, refresh tokens used once, suspension, and sanctions
  undone exactly when overturned.

  \<^bold>\<open>Bounds.\<close>  No definition runs on fuel: every loop of the source runs over a list.  Money
  columns are PostgreSQL \<open>integer\<close>s, and a transaction that would leave one outside 32
  bits fails.  The area split is exact for buildings of at most \<open>maxUnits\<close> units.

  \<^bold>\<open>Assumptions.\<close>  A transaction is atomic and transactions are serial.  The source makes
  those that change the debt of a unit serial by an advisory lock per unit (issue and cancellation of
  charges, both payment reports, approval, rejection, reversal, refund, adjustment, correction), those
  on a manager case or a person's account by locks of their own, and the grant of a proxy by the
  isolation level SERIALIZABLE; \<^verbatim>\<open>createExpense\<close>, \<^verbatim>\<open>voidExpense\<close>,
  \<^verbatim>\<open>createFund\<close>, \<^verbatim>\<open>createChargeBatch\<close> (which locks a row of its fund only) and the other transactions of \<^verbatim>\<open>building\<close>, \<^verbatim>\<open>governance\<close>, \<^verbatim>\<open>cases\<close> and
  \<^verbatim>\<open>gamification\<close> take none, so for them seriality is an assumption of the model.  The foreign keys from
  payments to units and payers are not checked by it: it accepts what the database
  refuses there.  Requests run one at a time, a listener after the
  request that emitted its event.  The identifiers the database hands out are an
  injective sequence.  A message with interpolated values keeps its fixed text.  Where the
  database leaves the order of rows open the model keeps insertion order.

  \<^bold>\<open>Not modelled.\<close>  Receipts attached to payment listings, the aggregates behind the metrics of
  staff, CSV exports, the listings of the user, building and payment administration, the
  checks of set-up drafts (free-form JSON), the HTTP layer with its parsing of bodies; the
  modules around external services (documents and storage, notifications, provider settings,
  backup, monitoring, maintenance switches) and those without influence on the modelled ones
  (marketplace, advertising, analytics, dashboard).
\<close>

end
